(* ===== verification/Prelude.thy ===== *)
theory Prelude
  imports Complex_Main "HOL-Library.AList" "HOL-Library.Multiset" "HOL-Library.Sublist"
begin

text \<open>
  The vocabulary of the JavaScript runtime that the modelled sources share, with the generic
  lemmas about it: strings (\<open>trim\<close>, \<open>toLowerCase\<close>, \<open>startsWith\<close>, \<open>includes\<close>, \<open>split\<close>, \<open>join\<close>,
  \<open>String(n)\<close>), insertion-ordered \<open>Map\<close> objects (association lists updated in place),
  \<open>Array.prototype.sort\<close> with a comparator, \<open>slice\<close>, truthiness of optional values, and results
  of fallible code.

  Conventions.  A string is a HOL \<^typ>\<open>string\<close>, read as the UTF-8 text of the JavaScript string;
  white space and letter case are those of ASCII.  A number that the code uses as an
  identifier, index or count is an \<^typ>\<open>int\<close> or \<^typ>\<open>nat\<close>; a number that may be fractional is a
  \<^typ>\<open>rat\<close>.  \<open>null\<close> and \<open>undefined\<close> are both \<^const>\<open>None\<close> unless a source distinguishes them.
  A thrown exception is an \<^const>\<open>Inl\<close>.
\<close>

named_theorems str_simps "evaluation of the string operations"
named_theorems sort_facts "facts about sorting with a comparator"

subsection \<open>Strings\<close>

definition is_space :: "char \<Rightarrow> bool" where
  "is_space c \<longleftrightarrow> (9 \<le> (of_char c :: nat) \<and> (of_char c :: nat) \<le> 13) \<or> (of_char c :: nat) = 32"

definition js_trim :: "string \<Rightarrow> string" where
  "js_trim s = rev (dropWhile is_space (rev (dropWhile is_space s)))"

definition lower_char :: "char \<Rightarrow> char" where
  "lower_char c = (if 65 \<le> (of_char c :: nat) \<and> (of_char c :: nat) \<le> 90
                   then char_of ((of_char c :: nat) + 32) else c)"

definition upper_char :: "char \<Rightarrow> char" where
  "upper_char c = (if 97 \<le> (of_char c :: nat) \<and> (of_char c :: nat) \<le> 122
                   then char_of ((of_char c :: nat) - 32) else c)"

definition js_lower :: "string \<Rightarrow> string" where
  "js_lower s = map lower_char s"

definition js_upper :: "string \<Rightarrow> string" where
  "js_upper s = map upper_char s"

fun js_includes :: "string \<Rightarrow> string \<Rightarrow> bool" where
  "js_includes [] p = (p = [])"
| "js_includes (c # s) p = (prefix p (c # s) \<or> js_includes s p)"

fun js_split :: "char \<Rightarrow> string \<Rightarrow> string list" where
  "js_split d [] = [[]]"
| "js_split d (c # s) =
     (if c = d then [] # js_split d s
      else (case js_split d s of [] \<Rightarrow> [[c]] | w # ws \<Rightarrow> (c # w) # ws))"

fun js_join :: "string \<Rightarrow> string list \<Rightarrow> string" where
  "js_join sep [] = []"
| "js_join sep [w] = w"
| "js_join sep (w # v # ws) = w @ sep @ js_join sep (v # ws)"

definition is_digit :: "char \<Rightarrow> bool" where
  "is_digit c \<longleftrightarrow> 48 \<le> (of_char c :: nat) \<and> (of_char c :: nat) \<le> 57"

definition is_alpha :: "char \<Rightarrow> bool" where
  "is_alpha c \<longleftrightarrow> (65 \<le> (of_char c :: nat) \<and> (of_char c :: nat) \<le> 90)
                \<or> (97 \<le> (of_char c :: nat) \<and> (of_char c :: nat) \<le> 122)"

definition digit_char :: "nat \<Rightarrow> char" where
  "digit_char n = char_of (48 + n)"

fun show_nat :: "nat \<Rightarrow> string" where
  "show_nat n = (if n < 10 then [digit_char n] else show_nat (n div 10) @ [digit_char (n mod 10)])"

declare show_nat.simps [simp del]

definition show_int :: "int \<Rightarrow> string" where
  "show_int n = (if n < 0 then ''-'' @ show_nat (nat (- n)) else show_nat (nat n))"

lemma js_split_not_Nil [simp]: "js_split d s \<noteq> []"
  by (cases s) (auto split: list.splits)

lemma js_join_split [simp]: "js_join [d] (js_split d s) = s"
proof (induction s)
  case Nil
  show ?case by simp
next
  case (Cons c s)
  obtain w ws where w: "js_split d s = w # ws" by (cases "js_split d s") auto
  with Cons.IH show ?case by (cases ws) auto
qed

lemma js_split_no_sep: "d \<notin> set w \<Longrightarrow> js_split d w = [w]"
  by (induction w) auto

lemma js_split_append_sep: "d \<notin> set w \<Longrightarrow> js_split d (w @ d # s) = w # js_split d s"
  by (induction w) auto

lemma js_split_join:
  "ws \<noteq> [] \<Longrightarrow> \<forall>w \<in> set ws. d \<notin> set w \<Longrightarrow> js_split d (js_join [d] ws) = ws"
  by (induction "[d]" ws rule: js_join.induct) (auto simp: js_split_no_sep js_split_append_sep)

lemma js_split_words_no_sep: "w \<in> set (js_split d s) \<Longrightarrow> d \<notin> set w"
  by (induction s arbitrary: w) (auto split: if_splits list.splits)

lemma js_split_eq_Nil_iff: "js_split d s = [[]] \<longleftrightarrow> s = []"
proof
  assume "js_split d s = [[]]"
  then have "js_join [d] (js_split d s) = []" by simp
  then show "s = []" by simp
qed simp

lemma js_lower_idem_on: "\<forall>c \<in> set s. lower_char c = c \<Longrightarrow> js_lower s = s"
  by (simp add: js_lower_def map_idI)

lemma js_trim_Nil [simp]: "js_trim [] = []"
  by (simp add: js_trim_def)

lemma js_trim_idle: "s = [] \<or> \<not> is_space (hd s) \<and> \<not> is_space (last s) \<Longrightarrow> js_trim s = s"
proof -
  assume a: "s = [] \<or> \<not> is_space (hd s) \<and> \<not> is_space (last s)"
  show ?thesis
  proof (cases s)
    case Nil
    then show ?thesis by simp
  next
    case (Cons c t)
    with a have "dropWhile is_space s = s" by simp
    moreover have "dropWhile is_space (rev s) = rev s"
      using a Cons by (cases "rev s") (auto simp: hd_rev [symmetric])
    ultimately show ?thesis by (simp add: js_trim_def)
  qed
qed

lemma js_trim_first: "js_trim s = c # t \<Longrightarrow> \<not> is_space c"
proof -
  assume a: "js_trim s = c # t"
  let ?d = "dropWhile is_space s"
  have "suffix (dropWhile is_space (rev ?d)) (rev ?d)" by (rule suffix_dropWhile)
  then have "prefix (js_trim s) ?d" by (simp add: js_trim_def suffix_to_prefix)
  with a obtain u where "?d = c # t @ u" by (auto simp: prefix_def)
  then show ?thesis by (metis hd_dropWhile list.discI list.sel(1))
qed

lemma js_trim_set: "set (js_trim s) \<subseteq> set s"
  unfolding js_trim_def by (metis set_dropWhileD set_rev subsetI)

lemma length_js_trim: "length (js_trim s) \<le> length s"
  by (simp add: js_trim_def) (metis length_dropWhile_le length_rev order_trans)

lemma js_includes_iff: "js_includes s p \<longleftrightarrow> (\<exists>a b. s = a @ p @ b)"
proof (induction s)
  case Nil
  show ?case by auto
next
  case (Cons c s)
  show ?case
  proof
    assume "js_includes (c # s) p"
    then show "\<exists>a b. c # s = a @ p @ b"
      using Cons.IH by (auto simp: prefix_def) (metis append_Cons append_Nil)+
  next
    assume "\<exists>a b. c # s = a @ p @ b"
    then obtain a b where ab: "c # s = a @ p @ b" by blast
    show "js_includes (c # s) p"
    proof (cases a)
      case Nil
      with ab have "prefix p (c # s)" by (simp add: prefix_def)
      then show ?thesis by simp
    next
      case (Cons x a')
      with ab have "s = a' @ p @ b" by simp
      then have "\<exists>a b. s = a @ p @ b" by blast
      with Cons.IH have "js_includes s p" by blast
      then show ?thesis by simp
    qed
  qed
qed

lemma js_includes_char: "js_includes s [c] \<longleftrightarrow> c \<in> set s"
  by (auto simp: js_includes_iff in_set_conv_decomp)

lemma of_char_digit_char: "n < 10 \<Longrightarrow> (of_char (digit_char n) :: nat) = 48 + n"
  by (simp add: digit_char_def)

lemma show_nat_not_Nil [simp]: "show_nat n \<noteq> []"
  by (subst show_nat.simps) simp

lemma show_nat_digits: "c \<in> set (show_nat n) \<Longrightarrow> is_digit c"
proof (induction n rule: show_nat.induct)
  case (1 n)
  then show ?case
    by (subst (asm) (2) show_nat.simps)
      (auto simp: is_digit_def of_char_digit_char split: if_splits)
qed

fun nat_of_digits :: "string \<Rightarrow> nat \<Rightarrow> nat" where
  "nat_of_digits [] a = a"
| "nat_of_digits (c # s) a = nat_of_digits s (10 * a + (of_char c - 48))"

lemma nat_of_digits_append:
  "nat_of_digits (s @ [c]) a = 10 * nat_of_digits s a + (of_char c - 48)"
  by (induction s arbitrary: a) auto

lemma nat_of_digits_show: "nat_of_digits (show_nat n) 0 = n"
proof (induction n rule: show_nat.induct)
  case (1 n)
  show ?case
  proof (cases "n < 10")
    case True
    then show ?thesis by (subst show_nat.simps) (simp add: of_char_digit_char)
  next
    case False
    with 1 show ?thesis
      by (subst show_nat.simps) (simp add: nat_of_digits_append of_char_digit_char)
  qed
qed

lemma show_nat_inject [simp]: "show_nat m = show_nat n \<longleftrightarrow> m = n"
  by (metis nat_of_digits_show)

lemma show_nat_no_minus: "show_nat n \<noteq> CHR ''-'' # s"
  using show_nat_digits [of "CHR ''-''" n] by (auto simp: is_digit_def)

lemma show_int_inject [simp]: "show_int m = show_int n \<longleftrightarrow> m = n"
  by (auto simp: show_int_def show_nat_no_minus show_nat_no_minus [symmetric])

lemma show_int_not_Nil [simp]: "show_int n \<noteq> []"
  by (simp add: show_int_def)

lemma show_int_nonneg_digits: "0 \<le> n \<Longrightarrow> c \<in> set (show_int n) \<Longrightarrow> is_digit c"
  by (simp add: show_int_def show_nat_digits)

lemmas [str_simps] = js_trim_def js_lower_def js_upper_def lower_char_def upper_char_def
  is_space_def is_digit_def is_alpha_def digit_char_def

subsection \<open>Truthiness\<close>

definition truthy_str :: "string option \<Rightarrow> bool" where
  "truthy_str x \<longleftrightarrow> (case x of None \<Rightarrow> False | Some s \<Rightarrow> s \<noteq> [])"

definition truthy_int :: "int option \<Rightarrow> bool" where
  "truthy_int x \<longleftrightarrow> (case x of None \<Rightarrow> False | Some n \<Rightarrow> n \<noteq> 0)"

text \<open>\<open>a || b\<close> on an optional string with a string default, and \<open>a ?? b\<close> on an optional value.\<close>

definition or_str :: "string option \<Rightarrow> string \<Rightarrow> string" where
  "or_str x d = (case x of None \<Rightarrow> d | Some s \<Rightarrow> if s = [] then d else s)"

definition nullish :: "'a option \<Rightarrow> 'a \<Rightarrow> 'a" where
  "nullish x d = (case x of None \<Rightarrow> d | Some a \<Rightarrow> a)"

definition opt_else :: "'a option \<Rightarrow> 'a option \<Rightarrow> 'a option" where
  "opt_else x y = (case x of None \<Rightarrow> y | Some a \<Rightarrow> Some a)"

lemma truthy_simps [simp]:
  "\<not> truthy_str None" "truthy_str (Some s) \<longleftrightarrow> s \<noteq> []"
  "\<not> truthy_int None" "truthy_int (Some n) \<longleftrightarrow> n \<noteq> 0"
  "nullish None d = d" "nullish (Some a) d = a"
  "opt_else None y = y" "opt_else (Some a) y = Some a"
  "or_str None w = w" "or_str (Some s) w = (if s = [] then w else s)"
  by (simp_all add: truthy_str_def truthy_int_def nullish_def opt_else_def or_str_def)

subsection \<open>Slices and search in arrays\<close>

text \<open>\<open>xs.slice(a, b)\<close>: an index below 0 counts from the end, and both are clamped.\<close>

definition slice_index :: "int \<Rightarrow> int \<Rightarrow> nat" where
  "slice_index n i = nat (if i < 0 then max 0 (n + i) else min i n)"

definition js_slice :: "int \<Rightarrow> int \<Rightarrow> 'a list \<Rightarrow> 'a list" where
  "js_slice a b xs =
     (let n = int (length xs) in
      take (slice_index n b - slice_index n a) (drop (slice_index n a) xs))"

definition find_index :: "('a \<Rightarrow> bool) \<Rightarrow> 'a list \<Rightarrow> int" where
  "find_index p xs = (if \<exists>x \<in> set xs. p x then int (length (takeWhile (\<lambda>x. \<not> p x) xs)) else -1)"

lemma js_slice_nonneg: "0 \<le> a \<Longrightarrow> 0 \<le> b \<Longrightarrow> js_slice a b xs = take (nat b - nat a) (drop (nat a) xs)"
proof (cases "a \<le> int (length xs)")
  case True
  assume "0 \<le> a" "0 \<le> b"
  with True show ?thesis
    by (cases "b \<le> int (length xs)") (auto simp: js_slice_def slice_index_def Let_def)
next
  case False
  assume "0 \<le> a" "0 \<le> b"
  with False show ?thesis by (auto simp: js_slice_def slice_index_def Let_def)
qed

lemma js_slice_prefix: "0 \<le> b \<Longrightarrow> js_slice 0 b xs = take (nat b) xs"
  by (simp add: js_slice_nonneg)

lemma set_js_slice: "set (js_slice a b xs) \<subseteq> set xs"
  unfolding js_slice_def Let_def by (meson set_drop_subset set_take_subset subset_trans)

lemma find_Some_mem: "find p xs = Some x \<Longrightarrow> x \<in> set xs \<and> p x"
  by (induction xs) (auto split: if_splits)

lemma find_index_nonneg: "x \<in> set xs \<Longrightarrow> p x \<Longrightarrow>
    0 \<le> find_index p xs \<and> find_index p xs < int (length xs) \<and> p (xs ! nat (find_index p xs))"
proof -
  assume a: "x \<in> set xs" "p x"
  let ?w = "takeWhile (\<lambda>x. \<not> p x) xs"
  have lt: "length ?w < length xs"
    using a by (metis (full_types) length_takeWhile_le nat_less_le takeWhile_eq_all_conv
        takeWhile_eq_take take_all_iff order_refl)
  then have "\<not> \<not> p (xs ! length ?w)" by (rule nth_length_takeWhile)
  with a lt show ?thesis by (auto simp: find_index_def)
qed

subsection \<open>Insertion-ordered maps\<close>

text \<open>
  A JavaScript \<open>Map\<close> keeps its entries in the order of first insertion, and \<open>set\<close> on a
  key it holds replaces the value in place.  An association list under \<^const>\<open>AList.update\<close>
  does the same; \<open>get\<close> is \<^const>\<open>map_of\<close>, \<open>delete\<close> is \<^const>\<open>AList.delete\<close>.
\<close>

definition map_has :: "('k \<times> 'v) list \<Rightarrow> 'k \<Rightarrow> bool" where
  "map_has m k \<longleftrightarrow> map_of m k \<noteq> None"

text \<open>\<open>new Map(entries)\<close>: later entries win, keys keep the place of their first entry.\<close>

definition map_from :: "('k \<times> 'v) list \<Rightarrow> ('k \<times> 'v) list" where
  "map_from es = fold (\<lambda>(k, v) m. AList.update k v m) es []"

lemma map_has_iff: "map_has m k \<longleftrightarrow> k \<in> fst ` set m"
  by (auto simp: map_has_def map_of_eq_None_iff)

lemma map_of_update [simp]: "map_of (AList.update k v m) k' = (if k' = k then Some v else map_of m k')"
  by (simp add: update_conv)

lemma distinct_map_fold:
  "distinct (map fst m) \<Longrightarrow> distinct (map fst (fold (\<lambda>(k, v) m. AList.update k v m) es m))"
  by (induction es arbitrary: m) (auto simp: distinct_update)

lemma distinct_map_from: "distinct (map fst (map_from es))"
  by (simp add: map_from_def distinct_map_fold)

lemma map_of_map_fold:
  "map_of (fold (\<lambda>(k, v) m. AList.update k v m) es m) k =
     (case map_of (rev es) k of None \<Rightarrow> map_of m k | Some v \<Rightarrow> Some v)"
  by (induction es arbitrary: m) (auto simp: map_add_def split: option.splits)

text \<open>A \<open>get\<close> on a map built from entries sees the last entry of the key.\<close>

lemma map_of_map_from: "map_of (map_from es) k = map_of (rev es) k"
  by (simp add: map_from_def map_of_map_fold split: option.splits)

lemma map_from_SomeD: "map_of (map_from es) k = Some v \<Longrightarrow> (k, v) \<in> set es"
  by (auto simp: map_of_map_from dest: map_of_SomeD)

lemma map_from_keys: "fst ` set (map_from es) = fst ` set es"
proof -
  have "dom (map_of (map_from es)) = dom (map_of (rev es))"
    by (simp add: map_of_map_from dom_def)
  then show ?thesis by (simp add: dom_map_of_conv_image_fst)
qed

lemma map_from_entries: "set (map_from es) \<subseteq> set es"
proof
  fix x
  assume "x \<in> set (map_from es)"
  moreover obtain k v where x: "x = (k, v)" by (cases x)
  ultimately have "map_of (map_from es) k = Some v"
    using map_of_is_SomeI [OF distinct_map_from] by simp
  with x show "x \<in> set es" by (auto dest: map_from_SomeD)
qed

lemma distinct_update_keys:
  "distinct (map fst m) \<Longrightarrow> distinct (map fst (AList.update k v m))"
  by (rule distinct_update)

text \<open>
  What the code relies on of a \<open>Map\<close>: \<open>get\<close> after \<open>set\<close>, and the order of the keys.
\<close>

locale keyed_store =
  fixes empty :: "'m" and get :: "'m \<Rightarrow> 'k \<Rightarrow> 'v option"
    and put :: "'k \<Rightarrow> 'v \<Rightarrow> 'm \<Rightarrow> 'm" and keys :: "'m \<Rightarrow> 'k list"
  assumes get_empty: "get empty k = None"
    and get_put: "get (put k v m) k' = (if k' = k then Some v else get m k')"
    and keys_empty: "keys empty = []"
    and keys_put: "keys (put k v m) = (if k \<in> set (keys m) then keys m else keys m @ [k])"
    and keys_get: "k \<in> set (keys m) \<longleftrightarrow> get m k \<noteq> None"
begin

text \<open>
  The grouping loop of the code: look the key up, create the entry when it is missing, add the
  element to it.  Afterwards an entry holds what its own elements add, in their order, and the
  keys are in the order of their first element.
\<close>

lemma get_group_fold:
  assumes "\<And>x m. f x m = put (key x) (add x (case get m (key x) of None \<Rightarrow> mk x | Some v \<Rightarrow> v)) m"
  shows "get (fold f xs m) k =
    (case get m k of
       Some v \<Rightarrow> Some (fold add (filter (\<lambda>x. key x = k) xs) v)
     | None \<Rightarrow> (case filter (\<lambda>x. key x = k) xs of
                  [] \<Rightarrow> None | x # _ \<Rightarrow> Some (fold add (filter (\<lambda>x. key x = k) xs) (mk x))))"
proof (induction xs arbitrary: m)
  case Nil
  show ?case by (simp split: option.splits)
next
  case (Cons x xs)
  show ?case
    by (simp only: fold_simps Cons.IH)
      (auto simp: assms get_put comp_def split: option.splits list.splits)
qed

lemma distinct_keys_put: "distinct (keys m) \<Longrightarrow> distinct (keys (put k v m))"
  by (simp add: keys_put)

lemma keys_group_fold:
  assumes "\<And>x m. f x m = put (key x) (add x (case get m (key x) of None \<Rightarrow> mk x | Some v \<Rightarrow> v)) m"
    and "distinct (keys m)"
  shows "distinct (keys (fold f xs m)) \<and> set (keys (fold f xs m)) = set (keys m) \<union> key ` set xs"
  using assms(2)
proof (induction xs arbitrary: m)
  case Nil
  then show ?case by simp
next
  case (Cons x xs)
  have "distinct (keys (f x m))" by (simp add: assms(1) distinct_keys_put Cons.prems)
  from Cons.IH [OF this] show ?case by (auto simp: assms(1) keys_put)
qed

end

interpretation amap: keyed_store "[]" map_of AList.update "map fst"
  by unfold_locales (auto simp: update_keys map_of_eq_None_iff)

text \<open>The loop on the model's maps: \<open>if (!m.has(k)) m.set(k, mk); add x to m.get(k)\<close>.\<close>

definition bucket_step ::
  "('a \<Rightarrow> 'k) \<Rightarrow> ('a \<Rightarrow> 'v) \<Rightarrow> ('a \<Rightarrow> 'v \<Rightarrow> 'v) \<Rightarrow> 'a \<Rightarrow> ('k \<times> 'v) list \<Rightarrow> ('k \<times> 'v) list" where
  "bucket_step key mk add x m =
     (let m' = (if map_has m (key x) then m else AList.update (key x) (mk x) m)
      in AList.update (key x) (add x (the (map_of m' (key x)))) m')"

definition buckets ::
  "('a \<Rightarrow> 'k) \<Rightarrow> ('a \<Rightarrow> 'v) \<Rightarrow> ('a \<Rightarrow> 'v \<Rightarrow> 'v) \<Rightarrow> 'a list \<Rightarrow> ('k \<times> 'v) list" where
  "buckets key mk add xs = fold (bucket_step key mk add) xs []"

lemma update_update_same: "AList.update k v (AList.update k w m) = AList.update k v m"
  by (induction m) auto

lemma bucket_step_eq:
  "bucket_step key mk add x m =
     AList.update (key x) (add x (case map_of m (key x) of None \<Rightarrow> mk x | Some v \<Rightarrow> v)) m"
  by (auto simp: bucket_step_def map_has_def Let_def update_update_same split: option.splits)

lemma map_of_buckets:
  "map_of (buckets key mk add xs) k =
     (case filter (\<lambda>x. key x = k) xs of
        [] \<Rightarrow> None | x # _ \<Rightarrow> Some (fold add (filter (\<lambda>x. key x = k) xs) (mk x)))"
  unfolding buckets_def by (subst amap.get_group_fold [OF bucket_step_eq]) simp

lemma keys_buckets:
  "distinct (map fst (buckets key mk add xs)) \<and> fst ` set (buckets key mk add xs) = key ` set xs"
  unfolding buckets_def
  using amap.keys_group_fold [where f = "bucket_step key mk add" and m = "[]" and xs = xs,
      OF bucket_step_eq] by simp

lemma buckets_entry:
  assumes "(k, v) \<in> set (buckets key mk add xs)"
  obtains x where "x \<in> set xs" "key x = k"
    "v = fold add (filter (\<lambda>x. key x = k) xs) (mk (hd (filter (\<lambda>x. key x = k) xs)))"
proof -
  have "map_of (buckets key mk add xs) k = Some v"
    using assms keys_buckets by (metis map_of_is_SomeI)
  then obtain x ys where f: "filter (\<lambda>x. key x = k) xs = x # ys"
    and v: "v = fold add (x # ys) (mk x)"
    by (auto simp: map_of_buckets split: list.splits)
  have "x \<in> set (filter (\<lambda>x. key x = k) xs)" using f by simp
  then have "x \<in> set xs" "key x = k" by auto
  then show thesis using f v by (intro that) auto
qed

lemma fold_snoc: "fold (\<lambda>x v. v @ [x]) xs v = v @ xs"
  by (induction xs arbitrary: v) auto

lemma mset_partition_filter: "mset xs = mset (filter P xs) + mset (filter (\<lambda>x. \<not> P x) xs)"
  by (induction xs) auto

lemma mset_filter_keys:
  "distinct ks \<Longrightarrow> key ` set xs \<subseteq> set ks \<Longrightarrow>
     mset (concat (map (\<lambda>k. filter (\<lambda>x. key x = k) xs) ks)) = mset xs"
proof (induction ks arbitrary: xs)
  case Nil
  then show ?case by simp
next
  case (Cons k ks)
  let ?rest = "filter (\<lambda>x. key x \<noteq> k) xs"
  have same: "map (\<lambda>j. filter (\<lambda>x. key x = j) xs) ks = map (\<lambda>j. filter (\<lambda>x. key x = j) ?rest) ks"
    using Cons.prems(1) by (auto simp: filter_filter intro!: filter_cong)
  have "mset (concat (map (\<lambda>j. filter (\<lambda>x. key x = j) ?rest) ks)) = mset ?rest"
    by (rule Cons.IH) (use Cons.prems in auto)
  then have rest: "mset (concat (map (\<lambda>j. filter (\<lambda>x. key x = j) xs) ks)) = mset ?rest"
    by (simp only: same)
  have "mset (concat (map (\<lambda>j. filter (\<lambda>x. key x = j) xs) (k # ks))) =
      mset (filter (\<lambda>x. key x = k) xs) + mset (concat (map (\<lambda>j. filter (\<lambda>x. key x = j) xs) ks))"
    by (simp only: list.map concat.simps mset_append)
  also have "\<dots> = mset (filter (\<lambda>x. key x = k) xs) + mset ?rest" by (simp only: rest)
  also have "\<dots> = mset xs" by (rule mset_partition_filter [symmetric])
  finally show ?case .
qed

subsection \<open>Sorting with a comparator\<close>

text \<open>
  \<open>xs.sort(cmp)\<close> is stable, and its result is determined by the language only when the
  comparator is consistent.  The model is a stable insertion sort; \<open>comparator.sort_unique\<close>
  below shows that on the elements where the comparator is consistent every stable sort
  returns the same array.
\<close>

fun js_insert :: "('a \<Rightarrow> 'a \<Rightarrow> rat) \<Rightarrow> 'a \<Rightarrow> 'a list \<Rightarrow> 'a list" where
  "js_insert cmp x [] = [x]"
| "js_insert cmp x (y # ys) = (if cmp x y \<le> 0 then x # y # ys else y # js_insert cmp x ys)"

definition js_sort :: "('a \<Rightarrow> 'a \<Rightarrow> rat) \<Rightarrow> 'a list \<Rightarrow> 'a list" where
  "js_sort cmp xs = foldr (js_insert cmp) xs []"

lemma js_sort_simps [simp]:
  "js_sort cmp [] = []" "js_sort cmp (x # xs) = js_insert cmp x (js_sort cmp xs)"
  by (simp_all add: js_sort_def)

lemma mset_js_insert: "mset (js_insert cmp x ys) = add_mset x (mset ys)"
  by (induction ys) auto

lemma mset_js_sort [simp, sort_facts]: "mset (js_sort cmp xs) = mset xs"
  by (induction xs) (auto simp: mset_js_insert)

lemma set_js_sort [simp, sort_facts]: "set (js_sort cmp xs) = set xs"
  by (metis mset_js_sort set_mset_mset)

lemma length_js_sort [simp, sort_facts]: "length (js_sort cmp xs) = length xs"
  by (metis mset_js_sort size_mset)

lemma set_js_insert [simp]: "set (js_insert cmp x ys) = insert x (set ys)"
  by (induction ys) auto

text \<open>
  Sorting when the comparator puts every element of one kind before every element of the other.
\<close>

lemma js_insert_append_le:
  "\<forall>z \<in> set zs. cmp x z \<le> 0 \<Longrightarrow> js_insert cmp x (ys @ zs) = js_insert cmp x ys @ zs"
  by (induction ys) (cases zs; simp)+

lemma js_insert_append_gt:
  "\<forall>y \<in> set ys. 0 < cmp x y \<Longrightarrow> js_insert cmp x (ys @ zs) = ys @ js_insert cmp x zs"
  by (induction ys) auto

lemma js_sort_split:
  assumes "\<And>x y. x \<in> set xs \<Longrightarrow> y \<in> set xs \<Longrightarrow> P x \<Longrightarrow> \<not> P y \<Longrightarrow> cmp x y \<le> 0 \<and> 0 < cmp y x"
  shows "js_sort cmp xs = js_sort cmp (filter P xs) @ js_sort cmp (filter (\<lambda>x. \<not> P x) xs)"
  using assms
proof (induction xs)
  case Nil
  show ?case by simp
next
  case (Cons x xs)
  have ih: "js_sort cmp xs = js_sort cmp (filter P xs) @ js_sort cmp (filter (\<lambda>x. \<not> P x) xs)"
    by (rule Cons.IH) (simp add: Cons.prems)
  show ?case
  proof (cases "P x")
    case True
    then have "\<forall>z \<in> set (js_sort cmp (filter (\<lambda>x. \<not> P x) xs)). cmp x z \<le> 0"
      using Cons.prems by simp
    from js_insert_append_le [of _ cmp, OF this] True show ?thesis by (simp add: ih)
  next
    case False
    then have "\<forall>z \<in> set (js_sort cmp (filter P xs)). 0 < cmp x z"
      using Cons.prems by simp
    from js_insert_append_gt [of _ cmp, OF this] False show ?thesis by (simp add: ih)
  qed
qed

lemma js_sort_ties: "\<forall>x \<in> set xs. \<forall>y \<in> set xs. cmp x y \<le> 0 \<Longrightarrow> js_sort cmp xs = xs"
proof (induction xs)
  case Nil
  show ?case by simp
next
  case (Cons x xs)
  then show ?case by (cases xs) simp_all
qed

text \<open>A comparator is consistent on a set when it is a total preorder there.\<close>

definition consistent_on :: "'a set \<Rightarrow> ('a \<Rightarrow> 'a \<Rightarrow> rat) \<Rightarrow> bool" where
  "consistent_on A cmp \<longleftrightarrow>
     (\<forall>x \<in> A. \<forall>y \<in> A. sgn (cmp x y) = - sgn (cmp y x)) \<and>
     (\<forall>x \<in> A. \<forall>y \<in> A. \<forall>z \<in> A. cmp x y \<le> 0 \<longrightarrow> cmp y z \<le> 0 \<longrightarrow> cmp x z \<le> 0)"

locale comparator =
  fixes A :: "'a set" and cmp :: "'a \<Rightarrow> 'a \<Rightarrow> rat"
  assumes antisym: "x \<in> A \<Longrightarrow> y \<in> A \<Longrightarrow> sgn (cmp x y) = - sgn (cmp y x)"
    and trans: "x \<in> A \<Longrightarrow> y \<in> A \<Longrightarrow> z \<in> A \<Longrightarrow> cmp x y \<le> 0 \<Longrightarrow> cmp y z \<le> 0 \<Longrightarrow> cmp x z \<le> 0"
begin

lemma total: "x \<in> A \<Longrightarrow> y \<in> A \<Longrightarrow> \<not> cmp x y \<le> 0 \<Longrightarrow> cmp y x \<le> 0"
  using antisym [of x y] by (simp add: sgn_if split: if_splits)

lemma refl: "x \<in> A \<Longrightarrow> cmp x x = 0"
  using antisym [of x x] by (simp add: sgn_if split: if_splits)

lemma zero_sym: "x \<in> A \<Longrightarrow> y \<in> A \<Longrightarrow> cmp x y = 0 \<longleftrightarrow> cmp y x = 0"
  using antisym [of x y] by (auto simp: sgn_if split: if_splits)

lemma zero_iff: "x \<in> A \<Longrightarrow> y \<in> A \<Longrightarrow> cmp x y = 0 \<longleftrightarrow> cmp x y \<le> 0 \<and> cmp y x \<le> 0"
  using antisym [of x y] by (auto simp: sgn_if split: if_splits)

lemma sorted_insert:
  "x \<in> A \<Longrightarrow> set ys \<subseteq> A \<Longrightarrow> sorted_wrt (\<lambda>a b. cmp a b \<le> 0) ys \<Longrightarrow>
     sorted_wrt (\<lambda>a b. cmp a b \<le> 0) (js_insert cmp x ys)"
  by (induction ys) (auto intro: trans dest: total)

lemma sorted_sort: "set xs \<subseteq> A \<Longrightarrow> sorted_wrt (\<lambda>a b. cmp a b \<le> 0) (js_sort cmp xs)"
  by (induction xs) (auto intro!: sorted_insert)

lemma insert_filter_zero:
  "x \<in> A \<Longrightarrow> z \<in> A \<Longrightarrow> set ys \<subseteq> A \<Longrightarrow> sorted_wrt (\<lambda>a b. cmp a b \<le> 0) ys \<Longrightarrow>
     filter (\<lambda>y. cmp z y = 0) (js_insert cmp x ys) = filter (\<lambda>y. cmp z y = 0) (x # ys)"
proof (induction ys)
  case Nil
  show ?case by simp
next
  case (Cons y ys)
  show ?case
  proof (cases "cmp x y \<le> 0")
    case True
    then show ?thesis by simp
  next
    case False
    from Cons.prems have yA: "y \<in> A" by simp
    have "\<not> (cmp z x = 0 \<and> cmp z y = 0)"
    proof
      assume z: "cmp z x = 0 \<and> cmp z y = 0"
      then have "cmp x z \<le> 0" using Cons.prems zero_sym by simp
      moreover have "cmp z y \<le> 0" using z by simp
      ultimately have "cmp x y \<le> 0" using Cons.prems yA trans by blast
      with False show False by simp
    qed
    with Cons False show ?thesis by auto
  qed
qed

text \<open>Stability: the elements that tie with \<open>z\<close> keep their order.\<close>

lemma stable_sort:
  "set xs \<subseteq> A \<Longrightarrow> z \<in> A \<Longrightarrow>
     filter (\<lambda>y. cmp z y = 0) (js_sort cmp xs) = filter (\<lambda>y. cmp z y = 0) xs"
proof (induction xs)
  case Nil
  show ?case by simp
next
  case (Cons x xs)
  then have "filter (\<lambda>y. cmp z y = 0) (js_insert cmp x (js_sort cmp xs)) =
      filter (\<lambda>y. cmp z y = 0) (x # js_sort cmp xs)"
    by (intro insert_filter_zero sorted_sort) auto
  with Cons show ?case by simp
qed

lemma sorted_stable_head:
  assumes "set (x # xs) \<subseteq> A" "set (y # ys) \<subseteq> A" "mset (x # xs) = mset (y # ys)"
    and "sorted_wrt (\<lambda>a b. cmp a b \<le> 0) (x # xs)" "sorted_wrt (\<lambda>a b. cmp a b \<le> 0) (y # ys)"
    and st: "\<And>z. z \<in> A \<Longrightarrow> filter (\<lambda>a. cmp z a = 0) (x # xs) = filter (\<lambda>a. cmp z a = 0) (y # ys)"
  shows "x = y"
proof -
  have m: "set (x # xs) = set (y # ys)" using assms(3) by (metis set_mset_mset)
  have xA: "x \<in> A" and yA: "y \<in> A" using assms(1,2) by auto
  have "x \<in> set (y # ys)" "y \<in> set (x # xs)" using m by auto
  then have "cmp y x \<le> 0" "cmp x y \<le> 0"
    using assms(4,5) refl [OF xA] refl [OF yA] by auto
  then have "cmp x y = 0" using zero_iff xA yA by blast
  then show ?thesis using st [OF xA] refl [OF xA] by simp
qed

text \<open>Every array that is a sorted, stable rearrangement of the input is the model's result.\<close>

lemma sort_unique_aux:
  assumes "set xs \<subseteq> A" "mset ys = mset xs" "sorted_wrt (\<lambda>a b. cmp a b \<le> 0) ys"
    and "sorted_wrt (\<lambda>a b. cmp a b \<le> 0) xs"
    and "\<And>z. z \<in> A \<Longrightarrow> filter (\<lambda>a. cmp z a = 0) ys = filter (\<lambda>a. cmp z a = 0) xs"
  shows "ys = xs"
  using assms
proof (induction xs arbitrary: ys)
  case Nil
  then show ?case by simp
next
  case (Cons x xs)
  then obtain y ys' where ys: "ys = y # ys'" by (cases ys) auto
  have sub: "set ys \<subseteq> A" using Cons.prems(1,2) by (metis set_mset_mset)
  have xy: "x = y"
  proof (rule sorted_stable_head)
    show "set (x # xs) \<subseteq> A" by (rule Cons.prems(1))
    show "set (y # ys') \<subseteq> A" using sub ys by simp
    show "mset (x # xs) = mset (y # ys')" using Cons.prems(2) ys by simp
    show "sorted_wrt (\<lambda>a b. cmp a b \<le> 0) (x # xs)" by (rule Cons.prems(4))
    show "sorted_wrt (\<lambda>a b. cmp a b \<le> 0) (y # ys')" using Cons.prems(3) ys by simp
    show "filter (\<lambda>a. cmp z a = 0) (x # xs) = filter (\<lambda>a. cmp z a = 0) (y # ys')" if "z \<in> A" for z
      using Cons.prems(5) [OF that] ys by simp
  qed
  have tl: "filter (\<lambda>a. cmp z a = 0) ys' = filter (\<lambda>a. cmp z a = 0) xs" if "z \<in> A" for z
    using Cons.prems(5) [OF that] ys xy by (simp split: if_splits)
  have "ys' = xs"
    by (rule Cons.IH) (use Cons.prems ys xy tl in \<open>auto\<close>)
  with ys xy show ?case by simp
qed

lemma sort_unique:
  assumes "set xs \<subseteq> A" "mset ys = mset xs" "sorted_wrt (\<lambda>a b. cmp a b \<le> 0) ys"
    and "\<And>z. z \<in> A \<Longrightarrow> filter (\<lambda>a. cmp z a = 0) ys = filter (\<lambda>a. cmp z a = 0) xs"
  shows "ys = js_sort cmp xs"
proof (rule sort_unique_aux)
  show "set (js_sort cmp xs) \<subseteq> A" using assms(1) by simp
  show "mset ys = mset (js_sort cmp xs)" using assms(2) by simp
  show "sorted_wrt (\<lambda>a b. cmp a b \<le> 0) ys" by (rule assms(3))
  show "sorted_wrt (\<lambda>a b. cmp a b \<le> 0) (js_sort cmp xs)" by (rule sorted_sort [OF assms(1)])
  show "filter (\<lambda>a. cmp z a = 0) ys = filter (\<lambda>a. cmp z a = 0) (js_sort cmp xs)" if "z \<in> A" for z
    using assms(4) [OF that] stable_sort [OF assms(1) that] by simp
qed

lemma sort_sorted_id: "set xs \<subseteq> A \<Longrightarrow> sorted_wrt (\<lambda>a b. cmp a b \<le> 0) xs \<Longrightarrow> js_sort cmp xs = xs"
  by (rule sort_unique [symmetric]) auto

text \<open>Where only equal elements tie, being sorted alone determines the result.\<close>

lemma sort_unique_distinct:
  assumes tie: "\<And>x y. x \<in> A \<Longrightarrow> y \<in> A \<Longrightarrow> cmp x y = 0 \<Longrightarrow> x = y"
    and A: "set xs \<subseteq> A" and "distinct xs" "distinct ys" "set ys = set xs"
    and "sorted_wrt (\<lambda>a b. cmp a b \<le> 0) ys"
  shows "ys = js_sort cmp xs"
proof (rule sort_unique [OF A])
  show "mset ys = mset xs" using assms(3-5) by (simp add: set_eq_iff_mset_eq_distinct)
  show "sorted_wrt (\<lambda>a b. cmp a b \<le> 0) ys" by (rule assms(6))
  fix z
  assume z: "z \<in> A"
  have one: "filter (\<lambda>a. cmp z a = 0) zs = (if z \<in> set zs then [z] else [])"
    if "distinct zs" "set zs \<subseteq> A" for zs
    using that
  proof (induction zs)
    case (Cons a zs)
    then have "cmp z a = 0 \<longleftrightarrow> z = a" using tie z refl by auto
    with Cons show ?case by auto
  qed simp
  show "filter (\<lambda>a. cmp z a = 0) ys = filter (\<lambda>a. cmp z a = 0) xs"
    using assms(3-5) A by (simp add: one)
qed

end

lemma consistent_onI:
  assumes "\<And>x y. x \<in> A \<Longrightarrow> y \<in> A \<Longrightarrow> sgn (cmp x y) = - sgn (cmp y x)"
    and "\<And>x y z. x \<in> A \<Longrightarrow> y \<in> A \<Longrightarrow> z \<in> A \<Longrightarrow> cmp x y \<le> 0 \<Longrightarrow> cmp y z \<le> 0 \<Longrightarrow> cmp x z \<le> 0"
  shows "consistent_on A cmp"
  unfolding consistent_on_def by (intro conjI ballI impI) (fact assms)+

lemma consistent_on_antisym:
  "consistent_on A cmp \<Longrightarrow> x \<in> A \<Longrightarrow> y \<in> A \<Longrightarrow> sgn (cmp x y) = - sgn (cmp y x)"
proof -
  assume c: "consistent_on A cmp" and A: "x \<in> A" "y \<in> A"
  from c have "\<forall>x \<in> A. \<forall>y \<in> A. sgn (cmp x y) = - sgn (cmp y x)"
    unfolding consistent_on_def by (rule conjunct1)
  from this [rule_format, OF A] show "sgn (cmp x y) = - sgn (cmp y x)" .
qed

lemma consistent_on_trans:
  "consistent_on A cmp \<Longrightarrow> x \<in> A \<Longrightarrow> y \<in> A \<Longrightarrow> z \<in> A \<Longrightarrow>
     cmp x y \<le> 0 \<Longrightarrow> cmp y z \<le> 0 \<Longrightarrow> cmp x z \<le> 0"
proof -
  assume c: "consistent_on A cmp" and A: "x \<in> A" "y \<in> A" "z \<in> A" and le: "cmp x y \<le> 0" "cmp y z \<le> 0"
  from c have "\<forall>x \<in> A. \<forall>y \<in> A. \<forall>z \<in> A. cmp x y \<le> 0 \<longrightarrow> cmp y z \<le> 0 \<longrightarrow> cmp x z \<le> 0"
    unfolding consistent_on_def by (rule conjunct2)
  from this [rule_format, OF A le] show "cmp x z \<le> 0" .
qed

lemma comparatorI: "consistent_on A cmp \<Longrightarrow> comparator A cmp"
  by (rule comparator.intro) (fact consistent_on_antisym consistent_on_trans)+

text \<open>Comparing by the difference of a numeric key is consistent everywhere.\<close>

lemma consistent_on_key: "consistent_on A (\<lambda>x y. f x - f y)"
  by (rule consistent_onI) (auto simp: sgn_if)

lemma sgn_minus_le: "sgn (a :: rat) = - sgn b \<Longrightarrow> - a \<le> 0 \<longleftrightarrow> b \<le> 0"
  by (auto simp: sgn_if split: if_splits)

lemma consistent_on_minus:
  assumes "consistent_on A cmp"
  shows "consistent_on A (\<lambda>x y. - cmp x y)"
proof (rule consistent_onI)
  fix x y
  assume "x \<in> A" "y \<in> A"
  then show "sgn (- cmp x y) = - sgn (- cmp y x)"
    using consistent_on_antisym [OF assms, of x y] by (simp add: sgn_minus)
next
  fix x y z
  assume A: "x \<in> A" "y \<in> A" "z \<in> A" and le: "- cmp x y \<le> 0" "- cmp y z \<le> 0"
  note flip = sgn_minus_le [OF consistent_on_antisym [OF assms]]
  have "cmp y x \<le> 0" "cmp z y \<le> 0" using le flip A by auto
  then have "cmp z x \<le> 0" using consistent_on_trans [OF assms A(3,2,1)] by blast
  then show "- cmp x z \<le> 0" using flip A by auto
qed

lemma consistent_on_pull:
  assumes "consistent_on (f ` A) cmp"
  shows "consistent_on A (\<lambda>x y. cmp (f x) (f y))"
  by (rule consistent_onI)
    (blast intro: consistent_on_antisym [OF assms] consistent_on_trans [OF assms])+

lemma consistent_on_subset:
  assumes "consistent_on B cmp" "A \<subseteq> B"
  shows "consistent_on A cmp"
  by (rule consistent_onI)
    (use assms(2) in \<open>blast intro: consistent_on_antisym [OF assms(1)] consistent_on_trans [OF assms(1)]\<close>)+

text \<open>Comparison of two strings by code units, the order of \<open><\<close> on strings.\<close>

fun str_cmp :: "string \<Rightarrow> string \<Rightarrow> rat" where
  "str_cmp [] [] = 0"
| "str_cmp [] (y # ys) = -1"
| "str_cmp (x # xs) [] = 1"
| "str_cmp (x # xs) (y # ys) =
     (if x = y then str_cmp xs ys
      else if (of_char x :: nat) < of_char y then -1 else 1)"

lemma str_cmp_antisym: "str_cmp a b = - str_cmp b a"
proof (induction a b rule: str_cmp.induct)
  case (4 x xs y ys)
  have "(of_char x :: nat) = of_char y \<longleftrightarrow> x = y" by simp
  with 4 show ?case by auto
qed auto

lemma str_cmp_trans: "str_cmp a b \<le> 0 \<Longrightarrow> str_cmp b c \<le> 0 \<Longrightarrow> str_cmp a c \<le> 0"
proof (induction a b arbitrary: c rule: str_cmp.induct)
  case (1 c)
  then show ?case by simp
next
  case (2 y ys c)
  then show ?case by (cases c) simp_all
next
  case (3 x xs c)
  then show ?case by simp
next
  case (4 x xs y ys c)
  then show ?case by (cases c) (auto split: if_splits)
qed

lemma consistent_str_cmp: "consistent_on A str_cmp"
proof (rule consistent_onI)
  show "sgn (str_cmp x y) = - sgn (str_cmp y x)" for x y
    unfolding str_cmp_antisym [of x y] by (simp add: sgn_if)
  show "str_cmp x z \<le> 0" if "str_cmp x y \<le> 0" "str_cmp y z \<le> 0" for x y z
    using that by (rule str_cmp_trans)
qed

end
