(* ===== verification/JsNumber.thy ===== *)
theory JsNumber
  imports Prelude
begin

text \<open>
  Numbers read from text, as \<open>Number(s)\<close> and \<open>parseFloat(s)\<close> do: white space, a sign, a decimal
  with fraction and exponent, the hexadecimal, octal and binary forms, \<open>Infinity\<close> and \<open>NaN\<close>.
  Finite numbers are exact rationals (no rounding to a double).
\<close>

datatype js_num = Fin rat | PosInf | NegInf | NaN

definition is_finite :: "js_num \<Rightarrow> bool" where
  "is_finite n \<longleftrightarrow> (case n of Fin _ \<Rightarrow> True | _ \<Rightarrow> False)"

definition num_neg :: "js_num \<Rightarrow> js_num" where
  "num_neg n = (case n of Fin r \<Rightarrow> Fin (- r) | PosInf \<Rightarrow> NegInf | NegInf \<Rightarrow> PosInf | NaN \<Rightarrow> NaN)"

definition take_digits :: "string \<Rightarrow> string \<times> string" where
  "take_digits s = (takeWhile is_digit s, dropWhile is_digit s)"

text \<open>The mantissa: digits, then a point and digits; at least one digit in all.\<close>

definition mantissa :: "string \<Rightarrow> (rat \<times> string) option" where
  "mantissa s =
     (let (ip, s1) = take_digits s;
          (fp, s2) = (case s1 of CHR ''.'' # t \<Rightarrow> take_digits t | _ \<Rightarrow> ([], s1)) in
      if ip = [] \<and> fp = [] then None
      else Some (of_nat (nat_of_digits ip 0) + of_nat (nat_of_digits fp 0) / 10 ^ length fp, s2))"

text \<open>The exponent is read only when digits follow the \<open>e\<close> and its sign.\<close>

definition exponent :: "string \<Rightarrow> int \<times> string" where
  "exponent s =
     (case s of
        [] \<Rightarrow> (0, s)
      | c # t \<Rightarrow>
          if c = CHR ''e'' \<or> c = CHR ''E'' then
            let (sg, u) = (case t of CHR ''-'' # u \<Rightarrow> (-1, u) | CHR ''+'' # u \<Rightarrow> (1, u) | _ \<Rightarrow> (1, t));
                (ds, v) = take_digits u in
            if ds = [] then (0, s) else (sg * int (nat_of_digits ds 0), v)
          else (0, s))"

definition scale10 :: "rat \<Rightarrow> int \<Rightarrow> rat" where
  "scale10 m e = (if 0 \<le> e then m * 10 ^ nat e else m / 10 ^ nat (- e))"

text \<open>The longest decimal prefix of an unsigned text, with the rest.\<close>

definition unsigned_decimal :: "string \<Rightarrow> (js_num \<times> string) option" where
  "unsigned_decimal s =
     (if prefix ''Infinity'' s then Some (PosInf, drop 8 s)
      else (case mantissa s of
              None \<Rightarrow> None
            | Some (m, t) \<Rightarrow> (case exponent t of (e, u) \<Rightarrow> Some (Fin (scale10 m e), u))))"

definition signed_decimal :: "string \<Rightarrow> (js_num \<times> string) option" where
  "signed_decimal s =
     (case s of
        CHR ''-'' # t \<Rightarrow> map_option (apfst num_neg) (unsigned_decimal t)
      | CHR ''+'' # t \<Rightarrow> unsigned_decimal t
      | _ \<Rightarrow> unsigned_decimal s)"

definition js_parseFloat :: "string \<Rightarrow> js_num" where
  "js_parseFloat s =
     (case signed_decimal (dropWhile is_space s) of None \<Rightarrow> NaN | Some (n, _) \<Rightarrow> n)"

definition radix_digit :: "char \<Rightarrow> nat option" where
  "radix_digit c =
     (let n = (of_char c :: nat) in
      if 48 \<le> n \<and> n \<le> 57 then Some (n - 48)
      else if 65 \<le> n \<and> n \<le> 70 then Some (n - 55)
      else if 97 \<le> n \<and> n \<le> 102 then Some (n - 87)
      else None)"

fun radix_number :: "nat \<Rightarrow> string \<Rightarrow> nat \<Rightarrow> js_num" where
  "radix_number b [] a = Fin (of_nat a)"
| "radix_number b (c # s) a =
     (case radix_digit c of
        None \<Rightarrow> NaN
      | Some d \<Rightarrow> if d < b then radix_number b s (b * a + d) else NaN)"

definition radix_base :: "string \<Rightarrow> nat option" where
  "radix_base s =
     (case s of
        z # x # _ # _ \<Rightarrow>
          if z \<noteq> CHR ''0'' then None
          else if x = CHR ''x'' \<or> x = CHR ''X'' then Some 16
          else if x = CHR ''o'' \<or> x = CHR ''O'' then Some 8
          else if x = CHR ''b'' \<or> x = CHR ''B'' then Some 2
          else None
      | _ \<Rightarrow> None)"

definition js_Number :: "string \<Rightarrow> js_num" where
  "js_Number s =
     (let t = js_trim s in
      if t = [] then Fin 0
      else (case radix_base t of
              Some b \<Rightarrow> radix_number b (drop 2 t) 0
            | None \<Rightarrow> (case signed_decimal t of Some (n, []) \<Rightarrow> n | _ \<Rightarrow> NaN)))"

subsection \<open>Printed integers read back\<close>

lemma take_digits_all: "\<forall>c \<in> set s. is_digit c \<Longrightarrow> take_digits s = (s, [])"
  by (simp add: take_digits_def)

lemma mantissa_digits:
  "s \<noteq> [] \<Longrightarrow> \<forall>c \<in> set s. is_digit c \<Longrightarrow> mantissa s = Some (of_nat (nat_of_digits s 0), [])"
  by (simp add: mantissa_def take_digits_all)

lemma digit_not_space: "is_digit c \<Longrightarrow> \<not> is_space c"
  by (auto simp: is_digit_def is_space_def)

lemma digits_no_infinity: "s \<noteq> [] \<Longrightarrow> \<forall>c \<in> set s. is_digit c \<Longrightarrow> \<not> prefix ''Infinity'' s"
  by (auto simp: prefix_def is_digit_def)

lemma unsigned_decimal_digits:
  "s \<noteq> [] \<Longrightarrow> \<forall>c \<in> set s. is_digit c \<Longrightarrow>
     unsigned_decimal s = Some (Fin (of_nat (nat_of_digits s 0)), [])"
  by (simp add: unsigned_decimal_def digits_no_infinity mantissa_digits exponent_def scale10_def)

lemma digits_signed:
  assumes "s \<noteq> []" "\<forall>c \<in> set s. is_digit c"
  shows "signed_decimal s = unsigned_decimal s"
proof -
  obtain c t where s: "s = c # t" using assms(1) by (cases s) auto
  have "c \<noteq> CHR ''-''" "c \<noteq> CHR ''+''" using assms(2) s by (auto simp: is_digit_def)
  then show ?thesis by (simp add: signed_decimal_def s split: char.splits bool.splits)
qed

lemma digits_trim:
  assumes "s \<noteq> []" "\<forall>c \<in> set s. is_digit c"
  shows "js_trim s = s"
  using assms by (intro js_trim_idle) (auto dest: digit_not_space)

lemma digits_radix: "\<forall>c \<in> set s. is_digit c \<Longrightarrow> radix_base s = None"
proof -
  assume d: "\<forall>c \<in> set s. is_digit c"
  show ?thesis
  proof (cases "length s < 3")
    case True
    then show ?thesis
      by (cases s; cases "tl s"; cases "tl (tl s)") (simp_all add: radix_base_def)
  next
    case False
    then obtain z x y t where s: "s = z # x # y # t"
      by (cases s; cases "tl s"; cases "tl (tl s)") simp_all
    have "x \<noteq> CHR ''x'' \<and> x \<noteq> CHR ''X'' \<and> x \<noteq> CHR ''o'' \<and> x \<noteq> CHR ''O'' \<and> x \<noteq> CHR ''b'' \<and> x \<noteq> CHR ''B''"
      using d s by (auto simp: is_digit_def)
    then show ?thesis by (simp add: s radix_base_def)
  qed
qed

lemma js_Number_digits:
  "s \<noteq> [] \<Longrightarrow> \<forall>c \<in> set s. is_digit c \<Longrightarrow> js_Number s = Fin (of_nat (nat_of_digits s 0))"
  by (simp add: js_Number_def digits_trim digits_radix digits_signed unsigned_decimal_digits)

lemma js_Number_show_nat: "js_Number (show_nat n) = Fin (of_nat n)"
  using show_nat_digits by (subst js_Number_digits) (auto simp: nat_of_digits_show)

lemma js_Number_show_int: "0 \<le> n \<Longrightarrow> js_Number (show_int n) = Fin (of_int n)"
  by (simp add: show_int_def js_Number_show_nat)

lemma js_parseFloat_show_nat: "js_parseFloat (show_nat n) = Fin (of_nat n)"
proof -
  have d: "\<forall>c \<in> set (show_nat n). is_digit c" using show_nat_digits by blast
  have "dropWhile is_space (show_nat n) = show_nat n"
    using d digit_not_space by (cases "show_nat n") auto
  then show ?thesis
    using d by (simp add: js_parseFloat_def digits_signed unsigned_decimal_digits nat_of_digits_show)
qed

end
