(* ===== verification/ApiTypes.thy ===== *)
theory ApiTypes
  imports JsNumber
begin

text \<open>
  The data of \<open>web/src/lib/types/\<close>: enumerations as datatypes, interfaces as records, tagged
  unions as datatypes.  A record's fields carry a short prefix for the interface they belong to.
  An optional or nullable field is an \<open>option\<close>.  Only the interfaces that a modelled operation
  reads or writes are here.
\<close>

subsection \<open>Enumerations (\<open>types/api.ts\<close>)\<close>

datatype source_api = TMDB | IGDB | SPOTIFY | OPENLIBRARY

datatype content_type = MOVIE | TV_SHOW | SEASON | GAME | ALBUM | BOOK | PERSON

datatype author_type = AuthorPerson | AuthorCompany

datatype image_type = POSTER | GALLERY

datatype image_size = STANDARD | ORIGINAL

datatype list_type = PERSONAL | SHARED | DYNAMIC

datatype list_visibility = PUBLIC | PRIVATE

datatype item_status = PENDING | COMPLETED

datatype list_member_role = OwnerRole | EditorRole | ViewerRole

datatype tracking_status = Backlog | InProgress | Completed | OnHold | Dropped

text \<open>The strings of the string enums, as \<open>String(e)\<close> or a template literal prints them.\<close>

fun source_api_str :: "source_api \<Rightarrow> string" where
  "source_api_str TMDB = ''tmdb''"
| "source_api_str IGDB = ''igdb''"
| "source_api_str SPOTIFY = ''spotify''"
| "source_api_str OPENLIBRARY = ''openlibrary''"

fun content_type_str :: "content_type \<Rightarrow> string" where
  "content_type_str MOVIE = ''MOVIE''"
| "content_type_str TV_SHOW = ''TV_SHOW''"
| "content_type_str SEASON = ''SEASON''"
| "content_type_str GAME = ''GAME''"
| "content_type_str ALBUM = ''ALBUM''"
| "content_type_str BOOK = ''BOOK''"
| "content_type_str PERSON = ''PERSON''"

fun image_type_str :: "image_type \<Rightarrow> string" where
  "image_type_str POSTER = ''poster''"
| "image_type_str GALLERY = ''gallery''"

fun image_size_str :: "image_size \<Rightarrow> string" where
  "image_size_str STANDARD = ''standard''"
| "image_size_str ORIGINAL = ''original''"

fun item_status_str :: "item_status \<Rightarrow> string" where
  "item_status_str PENDING = ''PENDING''"
| "item_status_str COMPLETED = ''COMPLETED''"

fun tracking_status_str :: "tracking_status \<Rightarrow> string" where
  "tracking_status_str Backlog = ''backlog''"
| "tracking_status_str InProgress = ''in_progress''"
| "tracking_status_str Completed = ''completed''"
| "tracking_status_str OnHold = ''on_hold''"
| "tracking_status_str Dropped = ''dropped''"

lemma content_type_str_inject [simp]: "content_type_str a = content_type_str b \<longleftrightarrow> a = b"
  by (cases a; cases b; simp)

lemma content_type_str_no_colon: "CHR '':'' \<notin> set (content_type_str a)"
  by (cases a) auto

lemma content_type_str_not_Nil [simp]: "content_type_str a \<noteq> []"
  by (cases a) auto

lemma item_status_str_inject [simp]: "item_status_str a = item_status_str b \<longleftrightarrow> a = b"
  by (cases a; cases b; simp)

lemma tracking_status_str_inject [simp]: "tracking_status_str a = tracking_status_str b \<longleftrightarrow> a = b"
  by (cases a; cases b; simp)

subsection \<open>Moderation\<close>

datatype classification = Safe | Explicit | NeedsReview

datatype incomplete_status = Missing | Pending | Stale | ErrorStatus

datatype moderation_summary = Complete classification | Incomplete incomplete_status

subsection \<open>Users and lists\<close>

record profile =
  prof_id :: int
  prof_username :: string
  prof_email :: string
  prof_first_name :: "string option"
  prof_last_name :: "string option"
  prof_lists :: "string option"
  prof_ratings :: "string option"
  prof_lists_count :: "int option"
  prof_ratings_count :: "int option"
  prof_allow_adult_content :: "bool option"
  prof_bio :: "string option"
  prof_avatar_url :: "string option"

record token_refresh =
  tref_access :: "string option"
  tref_refresh :: "string option"

record user =
  usr_id :: int
  usr_username :: string
  usr_email :: string
  usr_first_name :: "string option"
  usr_last_name :: "string option"

record list_member = user +
  lmem_role :: list_member_role
  lmem_is_owner :: bool

record user_list =
  ul_id :: int
  ul_name :: string
  ul_description :: "string option"
  ul_list_type :: list_type
  ul_dynamic_key :: "string option"
  ul_visibility :: list_visibility
  ul_owner :: user
  ul_member_count :: int
  ul_members :: "list_member list option"
  ul_item_count :: string
  ul_created_at :: string
  ul_updated_at :: string

subsection \<open>Progress and tracking\<close>

record progress_state =
  ps_value :: tracking_status
  ps_label :: string
  ps_is_final :: bool

record progress_policy =
  pp_content_type :: content_type
  pp_final_status :: tracking_status
  pp_states :: "progress_state list"

record user_content_tracking =
  uct_content_id :: int
  uct_status :: tracking_status
  uct_last_completed_at :: "string option"
  uct_is_favorite :: bool
  uct_favorited_at :: "string option"
  uct_created_at :: string
  uct_updated_at :: string

subsection \<open>Media metadata\<close>

record author =
  au_name :: string
  au_type :: author_type

record image =
  im_type :: string
  im_size :: string
  im_image_url :: string

text \<open>
  \<open>id\<close>, \<open>provider_id\<close> and \<open>providerId\<close> are a string or a number; the code only ever prints
  them, so the record holds the printed string.
\<close>

record platform =
  pl_name :: string
  pl_image_url :: "string option"
  pl_id :: "string option"
  pl_provider_id :: "string option"
  pl_providerId :: "string option"
  pl_url :: "string option"
  pl_link :: "string option"

record tv_season =
  sea_id :: string
  sea_denn_id :: int
  sea_season_number :: int
  sea_title :: string
  sea_description :: "string option"
  sea_release_date :: "string option"
  sea_image_url :: "string option"
  sea_number_of_episodes :: int

record tv_episode =
  ep_id :: string
  ep_episode_number :: int
  ep_season_number :: int
  ep_episode_type :: "string option"
  ep_title :: string
  ep_description :: "string option"
  ep_release_date :: "string option"
  ep_duration_minutes :: "int option"
  ep_image_url :: "string option"

record track =
  trk_id :: string
  trk_title :: string
  trk_authors :: "author list option"
  trk_track_number :: int
  trk_duration_seconds :: int
  trk_external_url :: string

record movie_detail =
  mov_id :: string
  mov_denn_id :: "int option"
  mov_title :: string
  mov_original_title :: string
  mov_description :: "string option"
  mov_image_url :: "string option"
  mov_tagline :: "string option"
  mov_imdb_id :: "string option"
  mov_release_date :: "string option"
  mov_duration_minutes :: "int option"
  mov_status :: "string option"
  mov_authors :: "author list option"
  mov_images :: "image list"
  mov_platforms :: "(string \<times> platform list) list option"
  mov_moderation :: "moderation_summary option"

record tv_show_detail =
  tv_id :: string
  tv_denn_id :: "int option"
  tv_title :: string
  tv_original_title :: string
  tv_description :: "string option"
  tv_image_url :: "string option"
  tv_tagline :: "string option"
  tv_imdb_id :: "string option"
  tv_release_date :: "string option"
  tv_status :: "string option"
  tv_number_of_seasons :: "int option"
  tv_number_of_episodes :: "int option"
  tv_authors :: "author list option"
  tv_images :: "image list"
  tv_platforms :: "(string \<times> platform list) list option"
  tv_seasons :: "tv_season list"
  tv_moderation :: "moderation_summary option"

record tv_season_detail =
  sd_id :: string
  sd_denn_id :: "int option"
  sd_season_number :: int
  sd_title :: string
  sd_description :: "string option"
  sd_image_url :: "string option"
  sd_tv_show_name :: "string option"
  sd_tv_show_id :: "int option"
  sd_tv_show_external_id :: "string option"
  sd_release_date :: "string option"
  sd_number_of_episodes :: int
  sd_images :: "image list"
  sd_platforms :: "(string \<times> platform list) list option"
  sd_episodes :: "tv_episode list"
  sd_moderation :: "moderation_summary option"

record album_detail =
  alb_id :: string
  alb_denn_id :: "int option"
  alb_title :: string
  alb_authors :: "author list option"
  alb_image_url :: "string option"
  alb_release_date :: "string option"
  alb_total_tracks :: int
  alb_album_type :: string
  alb_external_url :: string
  alb_tracks :: "track list"
  alb_duration_minutes :: "int option"
  alb_images :: "image list"
  alb_moderation :: "moderation_summary option"

record game_play_time =
  gpt_hastily :: rat
  gpt_normally :: rat
  gpt_completely :: rat

datatype game_duration_status = DurationMatched | DurationNoData | DurationStale | DurationError

record game_duration =
  gd_source :: string
  gd_status :: game_duration_status
  gd_hastily_seconds :: "rat option"
  gd_normally_seconds :: "rat option"
  gd_completely_seconds :: "rat option"
  gd_updated_at :: "string option"
  gd_sample_count :: "int option"

record game_detail =
  gam_id :: string
  gam_denn_id :: "int option"
  gam_title :: string
  gam_game_type :: "string option"
  gam_release_date :: "string option"
  gam_description :: "string option"
  gam_image_url :: "string option"
  gam_authors :: "author list option"
  gam_platforms :: "platform list option"
  gam_distribution_networks :: "platform list option"
  gam_images :: "image list"
  gam_genres :: "string list"
  gam_themes :: "string list"
  gam_game_modes :: "string list"
  gam_series :: "string option"
  gam_play_time :: "game_play_time option"
  gam_duration :: "game_duration option"
  gam_moderation :: "moderation_summary option"

record book_detail =
  bk_id :: string
  bk_denn_id :: "int option"
  bk_title :: string
  bk_authors :: "author list option"
  bk_image_url :: "string option"
  bk_release_date :: "string option"
  bk_pages :: "int option"
  bk_description :: "string option"
  bk_images :: "image list"
  bk_moderation :: "moderation_summary option"

text \<open>The union of details; the constructor is the literal field \<open>type\<close>.\<close>

datatype source_data =
    MovieData movie_detail
  | TVShowData tv_show_detail
  | AlbumData album_detail
  | GameData game_detail
  | BookData book_detail
  | SeasonData tv_season_detail

fun sdata_title :: "source_data \<Rightarrow> string" where
  "sdata_title (MovieData d) = mov_title d"
| "sdata_title (TVShowData d) = tv_title d"
| "sdata_title (AlbumData d) = alb_title d"
| "sdata_title (GameData d) = gam_title d"
| "sdata_title (BookData d) = bk_title d"
| "sdata_title (SeasonData d) = sd_title d"

subsection \<open>Content items, ratings and list items\<close>

text \<open>
  A rating holds its content item and a content item the viewer's rating.  The rating is a datatype
  over the type of its item, and the item is a datatype through it; the fields are selectors.
\<close>

datatype 'item rating_of = Rating
    (rt_id: int)
    (rt_user: user)
    (rt_content_item: 'item)
    (rt_score: string)
    (rt_comment: "string option")
    (rt_spoiler: bool)
    (rt_is_active: bool)
    (rt_created_at: string)
    (rt_updated_at: string)

datatype content_item = ContentItem
    (ci_id: int)
    (ci_source_api: source_api)
    (ci_external_id: string)
    (ci_content_type: content_type)
    (ci_rating_count: int)
    (ci_average_rating: "string option")
    (ci_current_user_rating: "content_item rating_of option")
    (ci_current_user_tracking: "user_content_tracking option")
    (ci_progress_policy: progress_policy)
    (ci_created_at: string)
    (ci_source_data: "source_data option")
    (ci_moderation: "moderation_summary option")

type_synonym rating = "content_item rating_of"

record content_item_data =
  cid_id :: int
  cid_source_api :: source_api
  cid_external_id :: string
  cid_content_type :: content_type
  cid_rating_count :: int
  cid_average_rating :: "rat option"
  cid_current_user_rating :: "rating option"
  cid_current_user_tracking :: "user_content_tracking option"
  cid_progress_policy :: progress_policy
  cid_created_at :: string
  cid_source_data :: source_data
  cid_moderation :: "moderation_summary option"

text \<open>
  A member's score is a decimal string from the API or a number written by an optimistic update
  (\<open>types/listView.ts\<close>).  The optimistic row has a user with an id only, hence the option fields.
\<close>

datatype score = ScoreStr string | ScoreNum js_num

record member_rating =
  mr_user_id :: "int option"
  mr_score :: score
  mr_comment :: "string option"
  mr_created_at :: "string option"
  mr_updated_at :: "string option"
  mr_is_owner :: "bool option"

record list_item =
  li_id :: int
  li_user_list :: int
  li_list_order :: int
  li_content_item :: content_item_data
  li_added_by :: user
  li_context_status :: "item_status option"
  li_added_at :: string
  li_context_completed_at :: "string option"
  li_member_ratings :: "member_rating list"
  li_list_rating :: "rat option"
  li_member_rating_count :: int

record list_item_create =
  lic_source_api :: string
  lic_external_id :: string
  lic_content_type :: string
  lic_context_status :: "item_status option"

text \<open>The comment of a rating that is sent can be left out or be null.\<close>

record rating_create =
  rc_source_api :: source_api
  rc_external_id :: string
  rc_content_type :: content_type
  rc_score :: string
  rc_comment :: "string option option"
  rc_spoiler :: "bool option"

subsection \<open>Responses\<close>

record group_meta =
  gm_key :: string
  gm_label :: string
  gm_count_in_page :: int
  gm_count_global :: int

record pagination_metadata =
  pm_count :: int
  pm_page_size :: int
  pm_current_page :: int
  pm_total_pages :: int
  pm_next :: "string option"
  pm_previous :: "string option"
  pm_groups :: "group_meta list option"

record paginated_list_item_list =
  pli_metadata :: pagination_metadata
  pli_results :: "list_item list"

record list_stats_response =
  ls_total_items :: int
  ls_pending_items :: int
  ls_completed_items :: int
  ls_member_count :: int
  ls_content_types :: "(string \<times> int) list"

record proxy_pagination_metadata =
  ppm_page :: int
  ppm_total_results :: int
  ppm_total_pages :: int

text \<open>
  An entry of a catalog response.  The fields after these (images, authors, durations, ...) are
  carried along unread: they are the record's extension \<open>'a\<close>.
\<close>

record search_item =
  si_id :: string
  si_denn_id :: "int option"
  si_type :: string
  si_title :: string
  si_moderation :: "moderation_summary option"

record 'a proxy_category_response =
  pcr_results :: "'a list"
  pcr_metadata :: proxy_pagination_metadata
  pcr_error :: "string option"

record 'a homepage_response =
  hp_movies :: "'a proxy_category_response"
  hp_tv_shows :: "'a proxy_category_response"
  hp_games :: "'a proxy_category_response"
  hp_albums :: "'a proxy_category_response"
  hp_books :: "'a proxy_category_response"

datatype browse_type = BrowseMovies | BrowseTVShows | BrowseGames | BrowseMusic | BrowseBooks

datatype browse_provider_type =
  ProviderMovies | ProviderTVShows | ProviderGames | ProviderAlbums | ProviderBooks

datatype browse_mode = ModePopular | ModeRecent | ModeSearch

datatype browse_status = StatusComplete | StatusEmpty | StatusDegraded

record 'a browse_response =
  br_type :: browse_provider_type
  br_mode :: browse_mode
  br_status :: browse_status
  br_results :: "'a list"
  br_metadata :: proxy_pagination_metadata
  br_error :: "string option"

end
