(* ===== verification/ListView.thy ===== *)
theory ListView
  imports ApiTypes
begin

text \<open>
  The view-model types of a list (\<open>web/src/lib/types/listView.ts\<close>): the legacy grouping and
  sorting criteria, the preferences kept per list, groups, pages, and the server-side query.
\<close>

datatype group_by = ByNone | ByContextStatus | ByContentType | ByDateAdded | ByRating

datatype sort_by =
    SortListOrder | SortAddedAt | SortName | SortContextCompletedAt
  | SortListRating | SortAddedBy | SortContentType

datatype sort_order = Asc | Desc

text \<open>\<open>PageSize\<close> is the union of the literals 10, 20 and 50.\<close>

type_synonym page_size = int

definition valid_page_size :: "page_size \<Rightarrow> bool" where
  "valid_page_size n \<longleftrightarrow> n \<in> {10, 20, 50}"

record list_view_preferences =
  lvp_groupBy :: "group_by list"
  lvp_sortBy :: sort_by
  lvp_sortOrder :: sort_order
  lvp_pageSize :: page_size
  lvp_currentPage :: int

definition DEFAULT_LIST_VIEW_PREFERENCES :: list_view_preferences where
  "DEFAULT_LIST_VIEW_PREFERENCES =
     \<lparr>lvp_groupBy = [], lvp_sortBy = SortListOrder, lvp_sortOrder = Asc,
      lvp_pageSize = 20, lvp_currentPage = 1\<rparr>"

datatype 'a grouped_items = Grouped
  (groupKey: string)
  (groupLabel: string)
  (gitems: "'a list")
  (gcount: int)
  (groupAttributes: "string list")
  (subGroups: "'a grouped_items list option")

record 'a paginated_result =
  pg_items :: "'a list"
  pg_currentPage :: int
  pg_pageSize :: page_size
  pg_totalItems :: int
  pg_totalPages :: int
  pg_startIndex :: int
  pg_endIndex :: int

subsection \<open>The server-side query model\<close>

datatype sort_field =
    SfListOrder | SfAddedAt | SfContextCompletedAt | SfContextStatus | SfTrackingStatus
  | SfContentType | SfListRating | SfDisplayTitle | SfArtist | SfAlbumTitle | SfReleaseDate

datatype filter_field = FfContextStatus | FfTrackingStatus | FfContentType | FfSourceApi | FfAddedBy

datatype range_filter_field =
    RfListRatingGte | RfListRatingLte | RfAddedAtGte | RfAddedAtLte
  | RfContextCompletedAtGte | RfContextCompletedAtLte | RfReleaseDateGte | RfReleaseDateLte

datatype group_by_field =
  GfContextStatus | GfTrackingStatus | GfContentType | GfSourceApi | GfAddedBy | GfArtist

record sort_clause =
  sc_field :: sort_field
  sc_direction :: sort_order

text \<open>
  A filter value: a string, a number, or a list of either.  \<open>FvUndefined\<close> is the value
  \<open>undefined\<close>, which an object property can hold.
\<close>

datatype filter_value =
    FvStr string | FvNum int | FvStrs "string list" | FvNums "int list" | FvUndefined

text \<open>The objects \<open>filters\<close> and \<open>rangeFilters\<close> are maps in property order.\<close>

record list_item_query =
  q_filters :: "(filter_field \<times> filter_value) list"
  q_rangeFilters :: "(range_filter_field \<times> filter_value) list"
  q_sort :: "sort_clause list"
  q_groupBy :: "group_by_field option"
  q_page :: int
  q_pageSize :: page_size

definition DEFAULT_LIST_ITEM_QUERY :: list_item_query where
  "DEFAULT_LIST_ITEM_QUERY =
     \<lparr>q_filters = [], q_rangeFilters = [], q_sort = [], q_groupBy = None, q_page = 1, q_pageSize = 20\<rparr>"

definition isQueryEmpty :: "list_item_query \<Rightarrow> bool" where
  "isQueryEmpty q \<longleftrightarrow>
     length (q_filters q) = 0 \<and> length (q_rangeFilters q) = 0 \<and> q_groupBy q = None"

lemma valid_page_size_pos: "valid_page_size n \<Longrightarrow> 0 < n"
  by (auto simp: valid_page_size_def)

end
