(* ===== verification/ListGrouping.thy ===== *)
theory ListGrouping
  imports ListView
begin

text \<open>
  Grouping and sorting of list items, from \<open>ListDetailPage/utils.ts\<close>: the labels, the single
  and composite grouping, the order of the groups, and \<open>sortItems\<close>.  The parts of the
  internationalisation and date library whose results the language leaves to the host
  (\<open>localeCompare\<close>, parsing a date, its month label) are the record \<open>intl\<close>, an argument of the
  definitions that use them.
\<close>

record intl =
  locale_compare :: "string \<Rightarrow> string \<Rightarrow> rat"
  date_ms :: "string \<Rightarrow> rat option"
  month_year_label :: "string \<Rightarrow> string"

subsection \<open>Labels\<close>

definition getItemTitle :: "list_item \<Rightarrow> string" where
  "getItemTitle item = or_str (Some (sdata_title (cid_source_data (li_content_item item)))) ''Untitled''"

fun list_getContentTypeLabel :: "content_type \<Rightarrow> string" where
  "list_getContentTypeLabel MOVIE = ''Movies''"
| "list_getContentTypeLabel TV_SHOW = ''TV Shows''"
| "list_getContentTypeLabel SEASON = ''Seasons''"
| "list_getContentTypeLabel GAME = ''Games''"
| "list_getContentTypeLabel ALBUM = ''Albums''"
| "list_getContentTypeLabel BOOK = ''Books''"
| "list_getContentTypeLabel PERSON = ''People''"

definition getStatusLabel :: "item_status \<Rightarrow> string" where
  "getStatusLabel s = (if s = COMPLETED then ''Completed'' else ''Pending'')"

definition getRatingRangeLabel :: "rat option \<Rightarrow> string" where
  "getRatingRangeLabel rating =
     (case rating of
        None \<Rightarrow> ''Unrated''
      | Some r \<Rightarrow> if 9 / 2 \<le> r then ''5 Stars'' else if 3 \<le> r then ''3-4 Stars'' else ''1-2 Stars'')"

definition getDateAddedLabel :: "intl \<Rightarrow> string \<Rightarrow> string" where
  "getDateAddedLabel env d = month_year_label env d"

subsection \<open>The order of the groups\<close>

definition ratingOrder :: "string list" where
  "ratingOrder = [''5 Stars'', ''3-4 Stars'', ''1-2 Stars'', ''Unrated'']"

fun group_cmp :: "intl \<Rightarrow> group_by \<Rightarrow> list_item grouped_items \<Rightarrow> list_item grouped_items \<Rightarrow> rat" where
  "group_cmp env ByContextStatus a b =
     (if groupKey a = item_status_str PENDING then -1
      else if groupKey b = item_status_str PENDING then 1 else 0)"
| "group_cmp env ByContentType a b = locale_compare env (groupLabel a) (groupLabel b)"
| "group_cmp env ByDateAdded a b = locale_compare env (groupLabel b) (groupLabel a)"
| "group_cmp env ByRating a b =
     of_int (find_index (\<lambda>s. s = groupKey a) ratingOrder)
     - of_int (find_index (\<lambda>s. s = groupKey b) ratingOrder)"
| "group_cmp env ByNone a b = 0"

fun sortGroups :: "intl \<Rightarrow> list_item grouped_items list \<Rightarrow> group_by \<Rightarrow> list_item grouped_items list" where
  "sortGroups env groups ByNone = groups"
| "sortGroups env groups g = js_sort (group_cmp env g) groups"

subsection \<open>Grouping by one criterion\<close>

fun criterion_key :: "intl \<Rightarrow> group_by \<Rightarrow> list_item \<Rightarrow> string" where
  "criterion_key env ByContextStatus item =
     nullish (map_option item_status_str (li_context_status item)) ''PENDING''"
| "criterion_key env ByContentType item = content_type_str (cid_content_type (li_content_item item))"
| "criterion_key env ByDateAdded item = getDateAddedLabel env (li_added_at item)"
| "criterion_key env ByRating item = getRatingRangeLabel (li_list_rating item)"
| "criterion_key env ByNone item = ''unknown''"

definition all_items_group :: "list_item list \<Rightarrow> list_item grouped_items" where
  "all_items_group items = Grouped ''all'' ''All Items'' items (int (length items)) [] None"

definition groupItemsByCriterion :: "intl \<Rightarrow> list_item list \<Rightarrow> group_by \<Rightarrow> list_item grouped_items list" where
  "groupItemsByCriterion env items g =
     (if g = ByNone then [all_items_group items]
      else sortGroups env
        (map (\<lambda>(k, its). Grouped k k its (int (length its)) [] None)
          (buckets (criterion_key env g) (\<lambda>_. []) (\<lambda>x v. v @ [x]) items)) g)"

subsection \<open>Grouping by several criteria\<close>

text \<open>The pair of the value and the label that the inner loop computes for one attribute.\<close>

fun composite_attribute :: "intl \<Rightarrow> list_item \<Rightarrow> group_by \<Rightarrow> string \<times> string" where
  "composite_attribute env item ByContextStatus =
     (let s = nullish (li_context_status item) PENDING in (item_status_str s, getStatusLabel s))"
| "composite_attribute env item ByContentType =
     (let t = cid_content_type (li_content_item item) in (content_type_str t, list_getContentTypeLabel t))"
| "composite_attribute env item ByDateAdded =
     (let v = getDateAddedLabel env (li_added_at item) in (v, v))"
| "composite_attribute env item ByRating =
     (let v = getRatingRangeLabel (li_list_rating item) in (v, v))"
| "composite_attribute env item ByNone = (''unknown'', ''Unknown'')"

definition composite_attributes :: "intl \<Rightarrow> group_by list \<Rightarrow> list_item \<Rightarrow> string list" where
  "composite_attributes env attrs item = map (fst \<circ> composite_attribute env item) attrs"

definition composite_key :: "intl \<Rightarrow> group_by list \<Rightarrow> list_item \<Rightarrow> string" where
  "composite_key env attrs item = js_join '' - '' (composite_attributes env attrs item)"

definition groupItemsComposite :: "intl \<Rightarrow> list_item list \<Rightarrow> group_by list \<Rightarrow> list_item grouped_items list" where
  "groupItemsComposite env items groupByAttrs =
     (let validAttrs = filter (\<lambda>a. a \<noteq> ByNone) groupByAttrs in
      if groupByAttrs = [] \<or> groupByAttrs = [ByNone] then [all_items_group items]
      else if validAttrs = [] then [all_items_group items]
      else js_sort (\<lambda>a b. locale_compare env (groupKey a) (groupKey b))
        (map (\<lambda>(k, attributes, its). Grouped k k its (int (length its)) attributes None)
          (buckets (composite_key env validAttrs)
             (\<lambda>x. (composite_attributes env validAttrs x, []))
             (\<lambda>x (ats, v). (ats, v @ [x])) items)))"

definition groupItems :: "intl \<Rightarrow> list_item list \<Rightarrow> group_by \<Rightarrow> group_by \<Rightarrow> list_item grouped_items list" where
  "groupItems env items primaryGroup secondaryGroup =
     groupItemsComposite env items (filter (\<lambda>g. g \<noteq> ByNone) [primaryGroup, secondaryGroup])"

subsection \<open>Sorting the items\<close>

text \<open>A difference of dates is \<open>NaN\<close> when one is invalid, which \<open>sort\<close> reads as 0.\<close>

fun date_diff :: "rat option \<Rightarrow> rat option \<Rightarrow> rat" where
  "date_diff (Some a) (Some b) = a - b"
| "date_diff _ _ = 0"

text \<open>The comparison of two nullable values: a null counts as greater than every value.\<close>

fun nulls_last :: "('b \<Rightarrow> 'b \<Rightarrow> rat) \<Rightarrow> 'b option \<Rightarrow> 'b option \<Rightarrow> rat" where
  "nulls_last c None None = 0"
| "nulls_last c None (Some b) = 1"
| "nulls_last c (Some a) None = -1"
| "nulls_last c (Some a) (Some b) = c a b"

fun item_comparison :: "intl \<Rightarrow> sort_by \<Rightarrow> list_item \<Rightarrow> list_item \<Rightarrow> rat" where
  "item_comparison env SortListOrder a b = of_int (li_list_order a) - of_int (li_list_order b)"
| "item_comparison env SortAddedAt a b =
     date_diff (date_ms env (li_added_at a)) (date_ms env (li_added_at b))"
| "item_comparison env SortName a b = locale_compare env (getItemTitle a) (getItemTitle b)"
| "item_comparison env SortContextCompletedAt a b =
     nulls_last (\<lambda>x y. date_diff (date_ms env x) (date_ms env y))
       (li_context_completed_at a) (li_context_completed_at b)"
| "item_comparison env SortListRating a b =
     nulls_last (\<lambda>x y. x - y) (li_list_rating a) (li_list_rating b)"
| "item_comparison env SortAddedBy a b =
     locale_compare env (usr_username (li_added_by a)) (usr_username (li_added_by b))"
| "item_comparison env SortContentType a b =
     locale_compare env (content_type_str (cid_content_type (li_content_item a)))
       (content_type_str (cid_content_type (li_content_item b)))"

definition sort_cmp :: "intl \<Rightarrow> sort_by \<Rightarrow> sort_order \<Rightarrow> list_item \<Rightarrow> list_item \<Rightarrow> rat" where
  "sort_cmp env sortBy sortOrder a b =
     (if sortOrder = Asc then item_comparison env sortBy a b else - item_comparison env sortBy a b)"

definition sortItems :: "intl \<Rightarrow> list_item list \<Rightarrow> sort_by \<Rightarrow> sort_order \<Rightarrow> list_item list" where
  "sortItems env items sortBy sortOrder = js_sort (sort_cmp env sortBy sortOrder) items"

fun sortGroupedItems ::
  "intl \<Rightarrow> list_item grouped_items list \<Rightarrow> sort_by \<Rightarrow> sort_order \<Rightarrow> list_item grouped_items list"
and sortGroupedItem ::
  "intl \<Rightarrow> list_item grouped_items \<Rightarrow> sort_by \<Rightarrow> sort_order \<Rightarrow> list_item grouped_items" where
  "sortGroupedItems env [] sb so = []"
| "sortGroupedItems env (g # gs) sb so = sortGroupedItem env g sb so # sortGroupedItems env gs sb so"
| "sortGroupedItem env (Grouped k l its n ats subs) sb so =
     Grouped k l (sortItems env its sb so) n ats
       (case subs of None \<Rightarrow> None | Some gs \<Rightarrow> Some (sortGroupedItems env gs sb so))"

fun flattenGroups :: "list_item grouped_items list \<Rightarrow> list_item list"
and flattenGroup :: "list_item grouped_items \<Rightarrow> list_item list" where
  "flattenGroups [] = []"
| "flattenGroups (g # gs) = flattenGroup g @ flattenGroups gs"
| "flattenGroup (Grouped k l its n ats subs) =
     (case subs of Some gs \<Rightarrow> flattenGroups gs | None \<Rightarrow> its)"

subsection \<open>Facts about grouping\<close>

lemma set_sortGroups [simp]: "set (sortGroups env gs g) = set gs"
  by (cases g) simp_all

lemma mset_sortGroups [simp]: "mset (sortGroups env gs g) = mset gs"
  by (cases g) simp_all

lemma filter_key_nonempty: "x \<in> set xs \<Longrightarrow> key x = k \<Longrightarrow> filter (\<lambda>x. key x = k) xs \<noteq> []"
  by (auto simp: filter_empty_conv)

lemma buckets_list_entry:
  assumes "(k, its) \<in> set (buckets key (\<lambda>_. []) (\<lambda>x v. v @ [x]) items)"
  shows "its = filter (\<lambda>x. key x = k) items" "its \<noteq> []"
proof -
  obtain x where "x \<in> set items" "key x = k"
    and "its = fold (\<lambda>x v. v @ [x]) (filter (\<lambda>x. key x = k) items) []"
    using assms by (rule buckets_entry)
  then show "its = filter (\<lambda>x. key x = k) items" "its \<noteq> []"
    using filter_key_nonempty [of x items key k] by (simp_all add: fold_snoc)
qed

lemma mset_concat_parts:
  "distinct (map fst b) \<Longrightarrow> fst ` set b = key ` set xs \<Longrightarrow>
   (\<And>e. e \<in> set b \<Longrightarrow> part e = filter (\<lambda>x. key x = fst e) xs) \<Longrightarrow>
     mset (concat (map part b)) = mset xs"
proof -
  assume d: "distinct (map fst b)" and ks: "fst ` set b = key ` set xs"
    and e: "\<And>e. e \<in> set b \<Longrightarrow> part e = filter (\<lambda>x. key x = fst e) xs"
  have eq: "map part b = map (\<lambda>k. filter (\<lambda>x. key x = k) xs) (map fst b)"
    using e by simp
  show ?thesis
    unfolding eq by (rule mset_filter_keys [OF d]) (simp add: ks)
qed

lemma buckets_concat:
  "mset (concat (map snd (buckets key (\<lambda>_. []) (\<lambda>x v. v @ [x]) items))) = mset items"
  by (rule mset_concat_parts [where key = key])
    (simp_all add: keys_buckets buckets_list_entry(1) split_beta)

lemma composite_fold:
  "fold (\<lambda>x (ats, v). (ats, v @ [x])) xs (ats, v) = (ats, v @ xs)"
  by (induction xs arbitrary: v) auto

lemma buckets_composite_entry:
  assumes "(k, ats, its) \<in> set (buckets key (\<lambda>x. (f x, [])) (\<lambda>x (ats, v). (ats, v @ [x])) items)"
  shows "its = filter (\<lambda>x. key x = k) items" "its \<noteq> []" "ats = f (hd its)"
proof -
  obtain x where x: "x \<in> set items" "key x = k"
    and "(ats, its) = fold (\<lambda>x (ats, v). (ats, v @ [x])) (filter (\<lambda>x. key x = k) items)
      (f (hd (filter (\<lambda>x. key x = k) items)), [])"
    using assms by (rule buckets_entry)
  then have eq: "ats = f (hd (filter (\<lambda>x. key x = k) items))" "its = filter (\<lambda>x. key x = k) items"
    by (simp_all add: composite_fold)
  then show "its = filter (\<lambda>x. key x = k) items" "its \<noteq> []" "ats = f (hd its)"
    using filter_key_nonempty [of x items key k] x by simp_all
qed

lemma surjective_parts: "e \<in> B \<Longrightarrow> (fst e, fst (snd e), snd (snd e)) \<in> B"
  by simp

lemma buckets_composite_concat:
  "mset (concat (map (snd \<circ> snd)
     (buckets key (\<lambda>x. (f x, [])) (\<lambda>x (ats, v). (ats, v @ [x])) items))) = mset items"
  by (rule mset_concat_parts [where key = key])
    (simp_all add: keys_buckets buckets_composite_entry(1) [OF surjective_parts])

subsection \<open>The order of the groups, by criterion\<close>

text \<open>What a grouping with a fixed list of possible keys must return.\<close>

definition criterion_groups :: "intl \<Rightarrow> group_by \<Rightarrow> list_item list \<Rightarrow> string list \<Rightarrow> list_item grouped_items list" where
  "criterion_groups env g items keys =
     map (\<lambda>k. let its = filter (\<lambda>x. criterion_key env g x = k) items in
              Grouped k k its (int (length its)) [] None)
       (filter (\<lambda>k. k \<in> criterion_key env g ` set items) keys)"

abbreviation criterion_buckets :: "intl \<Rightarrow> group_by \<Rightarrow> list_item list \<Rightarrow> (string \<times> list_item list) list" where
  "criterion_buckets env g items \<equiv> buckets (criterion_key env g) (\<lambda>_. []) (\<lambda>x v. v @ [x]) items"

definition plain_group :: "string \<times> list_item list \<Rightarrow> list_item grouped_items" where
  "plain_group = (\<lambda>(k, its). Grouped k k its (int (length its)) [] None)"

lemma groupKey_plain [simp]: "groupKey (plain_group e) = fst e"
  by (simp add: plain_group_def split_beta)

lemma gitems_plain [simp]: "gitems (plain_group e) = snd e"
  by (simp add: plain_group_def split_beta)

lemma groupItemsByCriterion_buckets:
  "g \<noteq> ByNone \<Longrightarrow>
     groupItemsByCriterion env items g = sortGroups env (map plain_group (criterion_buckets env g items)) g"
  by (simp add: groupItemsByCriterion_def plain_group_def)

lemma distinct_groups: "distinct (map groupKey (map plain_group (criterion_buckets env g items)))"
  by (simp add: comp_def keys_buckets)

lemma groups_inj:
  "x \<in> set (map plain_group (criterion_buckets env g items)) \<Longrightarrow>
   y \<in> set (map plain_group (criterion_buckets env g items)) \<Longrightarrow> groupKey x = groupKey y \<Longrightarrow> x = y"
  using distinct_groups [of env g items] unfolding distinct_map inj_on_def by blast

lemma set_groups:
  assumes "criterion_key env g ` set items \<subseteq> set keys"
  shows "set (map plain_group (criterion_buckets env g items)) = set (criterion_groups env g items keys)"
proof -
  let ?f = "\<lambda>k. plain_group (k, filter (\<lambda>x. criterion_key env g x = k) items)"
  have e: "plain_group e = ?f (fst e)" if "e \<in> set (criterion_buckets env g items)" for e
    using buckets_list_entry(1) [of "fst e" "snd e" "criterion_key env g" items] that
    by (simp add: plain_group_def split_beta)
  have "plain_group ` set (criterion_buckets env g items) = ?f ` fst ` set (criterion_buckets env g items)"
    unfolding image_image using e by (rule image_cong [OF refl])
  also have "fst ` set (criterion_buckets env g items) = criterion_key env g ` set items"
    by (simp add: keys_buckets)
  also have "?f ` criterion_key env g ` set items = set (criterion_groups env g items keys)"
    using assms by (auto simp: criterion_groups_def plain_group_def Let_def)
  finally show ?thesis by simp
qed

lemma groupKey_criterion_groups:
  "map groupKey (criterion_groups env g items keys) =
     filter (\<lambda>k. k \<in> criterion_key env g ` set items) keys"
  by (simp add: criterion_groups_def comp_def Let_def)

lemma rating_keys: "criterion_key env ByRating item \<in> set ratingOrder"
  by (simp add: ratingOrder_def getRatingRangeLabel_def split: option.splits)

definition rating_rank :: "list_item grouped_items \<Rightarrow> rat" where
  "rating_rank g = of_int (find_index (\<lambda>s. s = groupKey g) ratingOrder)"

lemma group_cmp_rating: "group_cmp env ByRating = (\<lambda>a b. rating_rank a - rating_rank b)"
  by (intro ext) (simp add: rating_rank_def)

interpretation rating_groups: comparator A "group_cmp env ByRating" for A env
  unfolding group_cmp_rating by (rule comparatorI [OF consistent_on_key])

lemma rating_rank_inj:
  "groupKey a \<in> set ratingOrder \<Longrightarrow> groupKey b \<in> set ratingOrder \<Longrightarrow>
     rating_rank a = rating_rank b \<Longrightarrow> groupKey a = groupKey b"
  by (auto simp: rating_rank_def ratingOrder_def find_index_def)

lemma rating_order_sorted:
  "sorted_wrt (\<lambda>a b. find_index (\<lambda>s. s = a) ratingOrder \<le> find_index (\<lambda>s. s = b) ratingOrder) ratingOrder"
  by (simp add: ratingOrder_def find_index_def)

lemma distinct_mapI: "distinct (map f xs) \<Longrightarrow> distinct xs"
  by (simp add: distinct_map)

lemma rating_groups_eq:
  "groupItemsByCriterion env items ByRating = criterion_groups env ByRating items ratingOrder"
proof -
  let ?gs = "map plain_group (criterion_buckets env ByRating items)"
  let ?rs = "criterion_groups env ByRating items ratingOrder"
  have sub: "criterion_key env ByRating ` set items \<subseteq> set ratingOrder" using rating_keys by blast
  have keys: "groupKey x \<in> set ratingOrder" if x: "x \<in> set ?gs" for x
  proof -
    obtain e where "e \<in> set (criterion_buckets env ByRating items)" "x = plain_group e"
      using x by (auto simp del: criterion_key.simps)
    then have "groupKey x \<in> fst ` set (criterion_buckets env ByRating items)" by simp
    then show ?thesis using sub unfolding keys_buckets [THEN conjunct2] by blast
  qed
  have dr: "distinct ratingOrder" by (simp add: ratingOrder_def)
  have dk: "distinct (map groupKey ?rs)"
    using dr by (simp add: groupKey_criterion_groups)
  have "sorted_wrt (\<lambda>a b. find_index (\<lambda>s. s = a) ratingOrder \<le> find_index (\<lambda>s. s = b) ratingOrder)
      (map groupKey ?rs)"
    unfolding groupKey_criterion_groups by (rule sorted_wrt_filter [OF rating_order_sorted])
  then have so: "sorted_wrt (\<lambda>a b. group_cmp env ByRating a b \<le> 0) ?rs"
    by (simp add: sorted_wrt_map)
  have "?rs = js_sort (group_cmp env ByRating) ?gs"
  proof (rule rating_groups.sort_unique_distinct [where A = "set ?gs"])
    show "x = y" if "x \<in> set ?gs" "y \<in> set ?gs" "group_cmp env ByRating x y = 0" for x y
    proof -
      have "rating_rank x = rating_rank y" using that(3) by (simp add: rating_rank_def)
      then have "groupKey x = groupKey y" using keys that by (blast intro: rating_rank_inj)
      then show ?thesis using groups_inj that(1,2) by blast
    qed
    show "distinct ?gs" using distinct_groups by (rule distinct_mapI)
    show "distinct ?rs" using dk by (rule distinct_mapI)
    show "set ?rs = set ?gs" by (rule set_groups [OF sub, symmetric])
  qed (use so in simp_all)
  then show ?thesis by (simp add: groupItemsByCriterion_buckets)
qed

lemma status_keys: "criterion_key env ByContextStatus item \<in> {''PENDING'', ''COMPLETED''}"
proof (cases "li_context_status item")
  case (Some s)
  then show ?thesis by (cases s) simp_all
qed simp

lemma length_le_one_sorted: "length xs \<le> 1 \<Longrightarrow> js_sort cmp xs = xs"
  by (cases xs) auto

lemma distinct_filter_key:
  "distinct (map f xs) \<Longrightarrow> (\<And>x. x \<in> set xs \<Longrightarrow> P x \<Longrightarrow> f x = k) \<Longrightarrow> length (filter P xs) \<le> 1"
proof (induction xs)
  case (Cons x xs)
  show ?case
  proof (cases "P x")
    case True
    then have "filter P xs = []"
      using Cons.prems by (auto simp: filter_empty_conv)
    then show ?thesis by simp
  qed (use Cons in simp)
qed simp

lemma set_eq_singletons: "length xs \<le> 1 \<Longrightarrow> length ys \<le> 1 \<Longrightarrow> set xs = set ys \<Longrightarrow> xs = ys"
  by (cases xs; cases ys) auto

lemma status_groups_eq:
  "groupItemsByCriterion env items ByContextStatus =
     criterion_groups env ByContextStatus items [''PENDING'', ''COMPLETED'']"
proof -
  let ?gs = "map plain_group (criterion_buckets env ByContextStatus items)"
  let ?P = "\<lambda>g. groupKey g = ''PENDING''"
  let ?Q = "\<lambda>g. groupKey g \<noteq> ''PENDING''"
  let ?rs = "criterion_groups env ByContextStatus items [''PENDING'', ''COMPLETED'']"
  have sub: "criterion_key env ByContextStatus ` set items \<subseteq> set [''PENDING'', ''COMPLETED'']"
    using status_keys by auto
  note gs = set_groups [OF sub]
  have keys: "groupKey x \<in> {''PENDING'', ''COMPLETED''}" if "x \<in> set ?rs" for x
  proof -
    have "groupKey x \<in> set (map groupKey ?rs)" using that unfolding set_map by (rule imageI)
    then show ?thesis by (simp add: groupKey_criterion_groups split: if_splits)
  qed
  have dr: "distinct (map groupKey ?rs)" by (simp add: groupKey_criterion_groups)
  have lens: "length (filter ?P xs) \<le> 1" "length (filter ?Q xs) \<le> 1"
    if "distinct (map groupKey xs)" "set xs = set ?rs" for xs
  proof -
    show "length (filter ?P xs) \<le> 1"
      using that(1) by (rule distinct_filter_key) assumption
    show "length (filter ?Q xs) \<le> 1"
      using that(1) by (rule distinct_filter_key [where k = "''COMPLETED''"]) (use keys that(2) in blast)
  qed
  note lens_gs = lens [OF distinct_groups gs] and lens_rs = lens [OF dr HOL.refl]
  have "js_sort (group_cmp env ByContextStatus) ?gs = filter ?P ?gs @ filter ?Q ?gs"
    by (subst js_sort_split [where P = ?P])
      (simp_all only: length_le_one_sorted lens_gs group_cmp.simps item_status_str.simps, simp)
  also have "filter ?P ?gs = filter ?P ?rs"
    by (rule set_eq_singletons) (use lens_gs lens_rs gs in \<open>simp_all only: set_filter\<close>)
  also have "filter ?Q ?gs = filter ?Q ?rs"
    by (rule set_eq_singletons) (use lens_gs lens_rs gs in \<open>simp_all only: set_filter\<close>)
  also have "filter ?P ?rs @ filter ?Q ?rs = ?rs"
    by (simp add: criterion_groups_def Let_def del: criterion_key.simps)
  finally show ?thesis by (simp add: groupItemsByCriterion_buckets del: criterion_key.simps group_cmp.simps)
qed

subsection \<open>Composite groups\<close>

lemma groupItemsComposite_trivial:
  "filter (\<lambda>a. a \<noteq> ByNone) attrs = [] \<Longrightarrow> groupItemsComposite env items attrs = [all_items_group items]"
  by (auto simp: groupItemsComposite_def Let_def)

abbreviation composite_buckets ::
  "intl \<Rightarrow> group_by list \<Rightarrow> list_item list \<Rightarrow> (string \<times> string list \<times> list_item list) list" where
  "composite_buckets env attrs items \<equiv>
     buckets (composite_key env attrs) (\<lambda>x. (composite_attributes env attrs x, []))
       (\<lambda>x (ats, v). (ats, v @ [x])) items"

definition attr_group :: "string \<times> string list \<times> list_item list \<Rightarrow> list_item grouped_items" where
  "attr_group = (\<lambda>(k, ats, its). Grouped k k its (int (length its)) ats None)"

lemma attr_group_sel [simp]:
  "groupKey (attr_group e) = fst e" "groupLabel (attr_group e) = fst e"
  "gitems (attr_group e) = snd (snd e)" "groupAttributes (attr_group e) = fst (snd e)"
  "gcount (attr_group e) = int (length (snd (snd e)))" "subGroups (attr_group e) = None"
  by (simp_all add: attr_group_def split_beta)

lemma groupItemsComposite_sorted:
  "filter (\<lambda>a. a \<noteq> ByNone) attrs \<noteq> [] \<Longrightarrow>
     groupItemsComposite env items attrs =
       js_sort (\<lambda>a b. locale_compare env (groupKey a) (groupKey b))
         (map attr_group (composite_buckets env (filter (\<lambda>a. a \<noteq> ByNone) attrs) items))"
  by (auto simp: groupItemsComposite_def Let_def attr_group_def)

lemma composite_members:
  assumes "filter (\<lambda>a. a \<noteq> ByNone) attrs \<noteq> []"
  shows "set (groupItemsComposite env items attrs) =
      attr_group ` set (composite_buckets env (filter (\<lambda>a. a \<noteq> ByNone) attrs) items)"
  by (simp add: groupItemsComposite_sorted [OF assms])

lemma flattenGroups_flat:
  "\<forall>g \<in> set gs. subGroups g = None \<Longrightarrow> flattenGroups gs = concat (map gitems gs)"
proof (induction gs)
  case (Cons g gs)
  then show ?case by (cases g) simp
qed simp

lemma mset_flattenGroups_flat:
  "\<forall>g \<in> set gs. subGroups g = None \<Longrightarrow>
     mset (flattenGroups gs) = (\<Sum>g \<in># mset gs. mset (gitems g))"
  by (simp add: flattenGroups_flat mset_concat sum_mset_sum_list flip: mset_map)
    (simp add: comp_def)

subsection \<open>The comparators of the items\<close>

lemma consistent_on_eqI:
  assumes g: "consistent_on A g" and eq: "\<And>x y. x \<in> A \<Longrightarrow> y \<in> A \<Longrightarrow> f x y = g x y"
  shows "consistent_on A f"
proof (rule consistent_onI)
  show "sgn (f x y) = - sgn (f y x)" if "x \<in> A" "y \<in> A" for x y
    unfolding eq [OF that] eq [OF that(2,1)] by (rule consistent_on_antisym [OF g that])
  show "f x z \<le> 0" if "x \<in> A" "y \<in> A" "z \<in> A" "f x y \<le> 0" "f y z \<le> 0" for x y z
    using consistent_on_trans [OF g that(1-3)] that(4,5)
    unfolding eq [OF that(1,2)] eq [OF that(2,3)] eq [OF that(1,3)] by blast
qed

lemma consistent_nulls_last:
  assumes "consistent_on {a. Some a \<in> A} c"
  shows "consistent_on A (nulls_last c)"
proof (rule consistent_onI)
  fix x y
  assume "x \<in> A" "y \<in> A"
  then show "sgn (nulls_last c x y) = - sgn (nulls_last c y x)"
    by (cases x; cases y) (simp_all, rule consistent_on_antisym [OF assms], simp_all)
next
  fix x y z
  assume "x \<in> A" "y \<in> A" "z \<in> A" "nulls_last c x y \<le> 0" "nulls_last c y z \<le> 0"
  then show "nulls_last c x z \<le> 0"
    by (cases x; cases y; cases z) (simp_all, blast intro: consistent_on_trans [OF assms])
qed

lemma consistent_date_diff:
  assumes "\<And>d. d \<in> A \<Longrightarrow> date_ms env d \<noteq> None"
  shows "consistent_on A (\<lambda>x y. date_diff (date_ms env x) (date_ms env y))"
proof (rule consistent_on_eqI)
  show "consistent_on A (\<lambda>x y. the (date_ms env x) - the (date_ms env y))"
    by (rule consistent_on_key)
  show "date_diff (date_ms env x) (date_ms env y) = the (date_ms env x) - the (date_ms env y)"
    if "x \<in> A" "y \<in> A" for x y
    using assms [OF that(1)] assms [OF that(2)] by auto
qed

definition valid_dates :: "intl \<Rightarrow> list_item list \<Rightarrow> bool" where
  "valid_dates env items \<longleftrightarrow>
     list_all (\<lambda>x. date_ms env (li_added_at x) \<noteq> None) items \<and>
     list_all (\<lambda>x. pred_option (\<lambda>d. date_ms env d \<noteq> None) (li_context_completed_at x)) items"

lemma item_comparison_consistent:
  assumes loc: "consistent_on UNIV (locale_compare env)" and "valid_dates env items"
  shows "consistent_on (set items) (item_comparison env sb)"
proof -
  have d1: "date_ms env d \<noteq> None" if "d \<in> li_added_at ` set items" for d
    using assms(2) that by (auto simp: valid_dates_def list_all_iff)
  have d2: "date_ms env d \<noteq> None" if d: "d \<in> {d. Some d \<in> li_context_completed_at ` set items}" for d
  proof -
    obtain x where "x \<in> set items" "li_context_completed_at x = Some d" using d by auto
    with assms(2) show ?thesis by (fastforce simp: valid_dates_def list_all_iff)
  qed
  note pull = consistent_on_pull [OF consistent_on_subset [OF loc subset_UNIV]]
  show ?thesis
  proof (cases sb)
    case SortListOrder
    show ?thesis
      by (rule consistent_on_eqI [OF consistent_on_key]) (simp add: SortListOrder)
  next
    case SortAddedAt
    show ?thesis
      by (rule consistent_on_eqI [OF consistent_on_pull [OF consistent_date_diff [OF d1]]])
        (simp_all add: SortAddedAt)
  next
    case SortContextCompletedAt
    show ?thesis
      by (rule consistent_on_eqI
          [OF consistent_on_pull [OF consistent_nulls_last [OF consistent_date_diff [OF d2]]]])
        (simp_all add: SortContextCompletedAt)
  next
    case SortListRating
    show ?thesis
      by (rule consistent_on_eqI [OF consistent_on_pull
            [where f = li_list_rating, OF consistent_nulls_last [OF consistent_on_key]]])
        (simp add: SortListRating)
  next
    case SortName
    show ?thesis by (rule consistent_on_eqI [OF pull]) (simp add: SortName)
  next
    case SortAddedBy
    show ?thesis by (rule consistent_on_eqI [OF pull]) (simp add: SortAddedBy)
  next
    case SortContentType
    show ?thesis by (rule consistent_on_eqI [OF pull]) (simp add: SortContentType)
  qed
qed

lemma sort_cmp_consistent:
  assumes "consistent_on (set items) (item_comparison env sb)"
  shows "consistent_on (set items) (sort_cmp env sb so)"
proof (cases so)
  case Asc
  then have "sort_cmp env sb so = item_comparison env sb" by (intro ext) (simp add: sort_cmp_def)
  with assms show ?thesis by simp
next
  case Desc
  then have "sort_cmp env sb so = (\<lambda>a b. - item_comparison env sb a b)"
    by (intro ext) (simp add: sort_cmp_def)
  with consistent_on_minus [OF assms] show ?thesis by simp
qed

subsection \<open>Sample data\<close>

definition sample_user :: "int \<Rightarrow> string \<Rightarrow> user" where
  "sample_user n name =
     \<lparr>usr_id = n, usr_username = name, usr_email = [], usr_first_name = None, usr_last_name = None\<rparr>"

definition sample_movie :: "string \<Rightarrow> movie_detail" where
  "sample_movie t =
     \<lparr>mov_id = ''1'', mov_denn_id = None, mov_title = t, mov_original_title = t,
      mov_description = None, mov_image_url = None, mov_tagline = None, mov_imdb_id = None,
      mov_release_date = None, mov_duration_minutes = None, mov_status = None,
      mov_authors = None, mov_images = [], mov_platforms = None, mov_moderation = None\<rparr>"

definition sample_content :: "int \<Rightarrow> content_item_data" where
  "sample_content n =
     \<lparr>cid_id = n, cid_source_api = TMDB, cid_external_id = show_int n, cid_content_type = MOVIE,
      cid_rating_count = 0, cid_average_rating = None, cid_current_user_rating = None,
      cid_current_user_tracking = None,
      cid_progress_policy = \<lparr>pp_content_type = MOVIE, pp_final_status = Completed, pp_states = []\<rparr>,
      cid_created_at = ''2024-01-01'', cid_source_data = MovieData (sample_movie ''Alien''),
      cid_moderation = None\<rparr>"

definition sample_item :: "int \<Rightarrow> item_status option \<Rightarrow> rat option \<Rightarrow> list_item" where
  "sample_item n st r =
     \<lparr>li_id = n, li_user_list = 1, li_list_order = n, li_content_item = sample_content n,
      li_added_by = sample_user 7 ''ana'', li_context_status = st, li_added_at = ''2024-01-01'',
      li_context_completed_at = None, li_member_ratings = [], li_list_rating = r,
      li_member_rating_count = 0\<rparr>"

text \<open>Dates of a fixed format compare as strings; for the witnesses their length is enough.\<close>

definition sample_intl :: intl where
  "sample_intl =
     \<lparr>locale_compare = str_cmp, date_ms = (\<lambda>d. Some (of_nat (length d))), month_year_label = take 7\<rparr>"

subsection \<open>Properties\<close>

text \<open>C35. Composite grouping loses and duplicates nothing: the items of all the groups, read back
  with \<open>flattenGroups\<close>, are the given items, whatever the criteria, and every group counts
  exactly the items it holds.\<close>

theorem groupItemsComposite_partition:
  "mset (flattenGroups (groupItemsComposite env items attrs)) = mset items \<and>
   map gcount (groupItemsComposite env items attrs) =
     map (int \<circ> length \<circ> gitems) (groupItemsComposite env items attrs)"
proof (cases "filter (\<lambda>a. a \<noteq> ByNone) attrs = []")
  case True
  then show ?thesis by (simp add: groupItemsComposite_trivial all_items_group_def)
next
  case False
  let ?gs = "groupItemsComposite env items attrs"
  let ?b = "composite_buckets env (filter (\<lambda>a. a \<noteq> ByNone) attrs) items"
  note mem = composite_members [OF False, of env items]
  have "mset (flattenGroups ?gs) = (\<Sum>g \<in># mset ?gs. mset (gitems g))"
    by (rule mset_flattenGroups_flat) (auto simp: mem)
  also have "mset ?gs = mset (map attr_group ?b)"
    by (simp add: groupItemsComposite_sorted [OF False])
  also have "(\<Sum>g \<in># mset (map attr_group ?b). mset (gitems g)) =
      mset (concat (map (snd \<circ> snd) ?b))"
    by (simp add: mset_concat sum_mset_sum_list comp_def flip: mset_map)
  also have "\<dots> = mset items" by (rule buckets_composite_concat)
  finally show ?thesis by (auto simp: mem)
qed

text \<open>Composite grouping puts an item in the group of its key and nowhere else: the keys of
  the groups are distinct and are the keys of the items, a group holds all the items of its key
  in their order, and its attributes are those of its items.  Without a criterion there is the
  one group of all items.\<close>

theorem groupItemsComposite_by_key:
  "let va = filter (\<lambda>a. a \<noteq> ByNone) attrs; gs = groupItemsComposite env items attrs in
   if va = [] then gs = [all_items_group items]
   else distinct (map groupKey gs) \<and> set (map groupKey gs) = composite_key env va ` set items \<and>
     map gitems gs = map (\<lambda>g. filter (\<lambda>x. composite_key env va x = groupKey g) items) gs \<and>
     map groupAttributes gs = map (composite_attributes env va \<circ> hd \<circ> gitems) gs"
proof (cases "filter (\<lambda>a. a \<noteq> ByNone) attrs = []")
  case True
  then show ?thesis by (simp add: groupItemsComposite_trivial)
next
  case False
  let ?va = "filter (\<lambda>a. a \<noteq> ByNone) attrs"
  let ?gs = "groupItemsComposite env items attrs"
  let ?b = "composite_buckets env ?va items"
  note mem = composite_members [OF False, of env items]
  have "mset (map groupKey ?gs) = mset (map groupKey (map attr_group ?b))"
    unfolding mset_map [of groupKey] groupItemsComposite_sorted [OF False] mset_js_sort ..
  also have "map groupKey (map attr_group ?b) = map fst ?b" by simp
  finally have m: "mset (map groupKey ?gs) = mset (map fst ?b)" .
  have keys: "distinct (map groupKey ?gs)" "set (map groupKey ?gs) = composite_key env ?va ` set items"
    unfolding mset_eq_imp_distinct_iff [OF m] mset_eq_setD [OF m]
    by (simp_all add: keys_buckets)
  have parts: "gitems g = filter (\<lambda>x. composite_key env ?va x = groupKey g) items"
      "groupAttributes g = composite_attributes env ?va (hd (gitems g))" if g: "g \<in> set ?gs" for g
  proof -
    obtain e where e: "e \<in> set ?b" "g = attr_group e" using g mem by blast
    from buckets_composite_entry [of "fst e" "fst (snd e)" "snd (snd e)", simplified, OF e(1)] e(2)
    show "gitems g = filter (\<lambda>x. composite_key env ?va x = groupKey g) items"
      "groupAttributes g = composite_attributes env ?va (hd (gitems g))" by simp_all
  qed
  show ?thesis using False keys parts by (simp add: Let_def)
qed

text \<open>The two criteria with a fixed set of values show their groups in the documented order:
  ratings from five stars down with the unrated items last, and pending before completed.  A
  value that no item has gives no group, and a group holds all the items of its value, in their
  order.\<close>

theorem groupItemsByCriterion_order:
  "groupItemsByCriterion env items ByRating = criterion_groups env ByRating items ratingOrder \<and>
   groupItemsByCriterion env items ByContextStatus =
     criterion_groups env ByContextStatus items [''PENDING'', ''COMPLETED'']"
  by (intro conjI rating_groups_eq status_groups_eq)



text \<open>Sorting by the list rating puts the items without a rating after all the others in
  ascending order, but before all the others in descending order (the comment in the code says
  that they go to the end); among themselves they keep their order.\<close>

theorem sortItems_unrated:
  "sortItems env items SortListRating Asc =
     sortItems env (filter (\<lambda>x. li_list_rating x \<noteq> None) items) SortListRating Asc
     @ filter (\<lambda>x. li_list_rating x = None) items \<and>
   sortItems env items SortListRating Desc =
     filter (\<lambda>x. li_list_rating x = None) items
     @ sortItems env (filter (\<lambda>x. li_list_rating x \<noteq> None) items) SortListRating Desc"
proof
  let ?c = "sort_cmp env SortListRating"
  let ?un = "filter (\<lambda>x. li_list_rating x = None) items"
  have ties: "js_sort (?c so) ?un = ?un" for so
    by (rule js_sort_ties) (simp add: sort_cmp_def)
  show "sortItems env items SortListRating Asc =
     sortItems env (filter (\<lambda>x. li_list_rating x \<noteq> None) items) SortListRating Asc @ ?un"
    unfolding sortItems_def
    by (subst js_sort_split [where P = "\<lambda>x. li_list_rating x \<noteq> None"])
      (auto simp: ties sort_cmp_def)
  show "sortItems env items SortListRating Desc =
     ?un @ sortItems env (filter (\<lambda>x. li_list_rating x \<noteq> None) items) SortListRating Desc"
    unfolding sortItems_def
    by (subst js_sort_split [where P = "\<lambda>x. li_list_rating x = None"])
      (auto simp: ties sort_cmp_def)
qed

lemma sortGroupedItems_members:
  "mset (flattenGroups (sortGroupedItems env gs sb so)) = mset (flattenGroups gs)"
  "mset (flattenGroup (sortGroupedItem env g sb so)) = mset (flattenGroup g)"
  by (induction gs and g rule: flattenGroups_flattenGroup.induct)
    (auto simp: sortItems_def split: option.splits)

end
