(* ===== verification/ListPaging.thy ===== *)
theory ListPaging
  imports ListGrouping
begin

text \<open>
  Pages of a list: the pure functions of \<open>ListDetailPage/utils.ts\<close> and the hook
  \<open>usePagination\<close>, whose React state is the record \<open>pagination_state\<close> and whose callbacks are
  the functions on it.
\<close>

text \<open>\<open>Math.ceil(n / p)\<close>.\<close>

definition ceil_div :: "int \<Rightarrow> int \<Rightarrow> int" where
  "ceil_div n p = \<lceil>of_int n / (of_int p :: rat)\<rceil>"

lemma ceil_div_eq: "ceil_div n p = - ((- n) div p)"
  by (simp add: ceil_div_def ceiling_divide_eq_div)

lemma ceil_div_bounds:
  assumes "0 < p"
  shows "n \<le> ceil_div n p * p" "(ceil_div n p - 1) * p < n"
proof -
  let ?q = "(- n) div p" and ?r = "(- n) mod p"
  have e: "p * ?q + ?r = - n" by (rule mult_div_mod_eq)
  have r: "0 \<le> ?r" "?r < p" using assms by simp_all
  have "n = - (p * ?q) - ?r" using e by linarith
  then have "n = ceil_div n p * p - ?r" by (simp only: ceil_div_eq mult.commute mult_minus_left)
  with r show "n \<le> ceil_div n p * p" "(ceil_div n p - 1) * p < n"
    by (simp_all add: algebra_simps)
qed

lemma ceil_div_pos: "0 < p \<Longrightarrow> 0 < n \<Longrightarrow> 1 \<le> ceil_div n p"
proof (rule ccontr)
  assume p: "0 < p" "0 < n" and "\<not> 1 \<le> ceil_div n p"
  then have "ceil_div n p * p \<le> 0" by (simp add: mult_le_0_iff)
  with ceil_div_bounds(1) [OF p(1), of n] p(2) show False by simp
qed

lemma ceil_div_zero [simp]: "ceil_div 0 p = 0"
  by (simp add: ceil_div_def)

subsection \<open>Pages of items and of groups\<close>

definition paginateItems :: "list_item list \<Rightarrow> int \<Rightarrow> page_size \<Rightarrow> list_item paginated_result" where
  "paginateItems items currentPage pageSize =
     (let totalItems = int (length items);
          totalPages = ceil_div totalItems pageSize;
          validPage = max 1 (min currentPage (if totalPages = 0 then 1 else totalPages));
          startIndex = (validPage - 1) * pageSize;
          endIndex = min (startIndex + pageSize) totalItems in
      \<lparr>pg_items = js_slice startIndex endIndex items, pg_currentPage = validPage,
       pg_pageSize = pageSize, pg_totalItems = totalItems, pg_totalPages = totalPages,
       pg_startIndex = startIndex, pg_endIndex = endIndex\<rparr>)"

record 'a page_slice =
  psl_paginated :: "'a list"
  psl_totalPages :: int
  psl_startIndex :: int
  psl_endIndex :: int

definition paginateGroup :: "list_item grouped_items \<Rightarrow> int \<Rightarrow> page_size \<Rightarrow> list_item page_slice" where
  "paginateGroup grp groupPage pageSize =
     (let allItems = (case subGroups grp of Some sgs \<Rightarrow> concat (map gitems sgs) | None \<Rightarrow> gitems grp);
          totalItems = int (length allItems);
          totalPages = max 1 (ceil_div totalItems pageSize);
          validPage = max 1 (min groupPage totalPages);
          startIndex = (validPage - 1) * pageSize;
          endIndex = min (startIndex + pageSize) totalItems in
      \<lparr>psl_paginated = js_slice startIndex endIndex allItems, psl_totalPages = totalPages,
       psl_startIndex = startIndex, psl_endIndex = endIndex\<rparr>)"

definition paginateSubGroup :: "list_item grouped_items \<Rightarrow> int \<Rightarrow> page_size \<Rightarrow> list_item page_slice" where
  "paginateSubGroup subGroup subGroupPage pageSize =
     (let totalItems = int (length (gitems subGroup));
          totalPages = max 1 (ceil_div totalItems pageSize);
          validPage = max 1 (min subGroupPage totalPages);
          startIndex = (validPage - 1) * pageSize;
          endIndex = min (startIndex + pageSize) totalItems in
      \<lparr>psl_paginated = js_slice startIndex endIndex (gitems subGroup), psl_totalPages = totalPages,
       psl_startIndex = startIndex, psl_endIndex = endIndex\<rparr>)"

definition paginateSubGroups ::
  "list_item grouped_items list \<Rightarrow> int \<Rightarrow> page_size \<Rightarrow> list_item grouped_items page_slice" where
  "paginateSubGroups sgs subGroupPage pageSize =
     (let totalItems = int (length sgs);
          totalPages = max 1 (ceil_div totalItems pageSize);
          validPage = max 1 (min subGroupPage totalPages);
          startIndex = (validPage - 1) * pageSize;
          endIndex = min (startIndex + pageSize) totalItems in
      \<lparr>psl_paginated = js_slice startIndex endIndex sgs, psl_totalPages = totalPages,
       psl_startIndex = startIndex, psl_endIndex = endIndex\<rparr>)"

definition paginateGroupedItems ::
  "list_item grouped_items list \<Rightarrow> int \<Rightarrow> page_size \<Rightarrow> list_item grouped_items paginated_result" where
  "paginateGroupedItems groups currentPage pageSize =
     (let totalItems = int (length (flattenGroups groups));
          totalPages = ceil_div totalItems pageSize;
          validPage = max 1 (min currentPage (if totalPages = 0 then 1 else totalPages));
          startIndex = (validPage - 1) * pageSize;
          endIndex = min (startIndex + pageSize) totalItems in
      \<lparr>pg_items = groups, pg_currentPage = validPage,
       pg_pageSize = pageSize, pg_totalItems = totalItems, pg_totalPages = totalPages,
       pg_startIndex = startIndex, pg_endIndex = endIndex\<rparr>)"

subsection \<open>The hook \<open>usePagination\<close>\<close>

datatype hook_page_size = PageAll | PageOf int

record pagination_state =
  pst_currentPage :: int
  pst_pageSize :: hook_page_size

definition MIN_PAGE :: int where "MIN_PAGE = 1"

definition DEFAULT_INITIAL_PAGE :: int where "DEFAULT_INITIAL_PAGE = 1"

definition calculateTotalPages :: "int \<Rightarrow> hook_page_size \<Rightarrow> int" where
  "calculateTotalPages totalItems pageSize =
     (case pageSize of
        PageAll \<Rightarrow> MIN_PAGE
      | PageOf p \<Rightarrow> if totalItems = 0 then MIN_PAGE else ceil_div totalItems p)"

definition calculateValidPage :: "int \<Rightarrow> int \<Rightarrow> int" where
  "calculateValidPage page totalPages = max MIN_PAGE (min page totalPages)"

definition calculatePaginationIndices :: "int \<Rightarrow> int \<Rightarrow> int \<Rightarrow> int \<times> int" where
  "calculatePaginationIndices currentPage pageSize totalItems =
     (let startIndex = (currentPage - 1) * pageSize in
      (startIndex, min (startIndex + pageSize) totalItems))"

definition pagination_init :: "hook_page_size \<Rightarrow> int option \<Rightarrow> pagination_state" where
  "pagination_init sz initialPage =
     \<lparr>pst_currentPage = nullish initialPage DEFAULT_INITIAL_PAGE, pst_pageSize = sz\<rparr>"

definition pagination_total_pages :: "'a list \<Rightarrow> pagination_state \<Rightarrow> int" where
  "pagination_total_pages items st = calculateTotalPages (int (length items)) (pst_pageSize st)"

text \<open>The current items with the start and end index.\<close>

definition paginatedData :: "'a list \<Rightarrow> pagination_state \<Rightarrow> 'a list \<times> int \<times> int" where
  "paginatedData items st =
     (case pst_pageSize st of
        PageAll \<Rightarrow> (items, 0, int (length items))
      | PageOf p \<Rightarrow>
          (case calculatePaginationIndices (pst_currentPage st) p (int (length items)) of
             (s, e) \<Rightarrow> (js_slice s e items, s, e)))"

definition nextPage :: "'a list \<Rightarrow> pagination_state \<Rightarrow> pagination_state" where
  "nextPage items st =
     st\<lparr>pst_currentPage := min (pst_currentPage st + 1) (pagination_total_pages items st)\<rparr>"

definition prevPage :: "pagination_state \<Rightarrow> pagination_state" where
  "prevPage st = st\<lparr>pst_currentPage := max (pst_currentPage st - 1) MIN_PAGE\<rparr>"

definition goToPage :: "'a list \<Rightarrow> int \<Rightarrow> pagination_state \<Rightarrow> pagination_state" where
  "goToPage items page st =
     st\<lparr>pst_currentPage := calculateValidPage page (pagination_total_pages items st)\<rparr>"

definition setPageSize :: "hook_page_size \<Rightarrow> pagination_state \<Rightarrow> pagination_state" where
  "setPageSize sz st = st\<lparr>pst_pageSize := sz, pst_currentPage := MIN_PAGE\<rparr>"

subsection \<open>What a paginator promises\<close>

text \<open>
  The contract the pages share: page \<open>k\<close> is the \<open>k\<close>-th run of \<open>size\<close> elements and there are
  just enough pages.  The pages then give the list back, in order, and none is empty.
\<close>

locale paginator =
  fixes size :: int and elems :: "'l \<Rightarrow> 'a list" and page_of :: "'l \<Rightarrow> int \<Rightarrow> 'a list"
    and pages :: "'l \<Rightarrow> int"
  assumes size_pos: "0 < size"
    and page_eq: "1 \<le> k \<Longrightarrow> k \<le> pages l \<Longrightarrow>
      page_of l k = take (nat size) (drop (nat ((k - 1) * size)) (elems l))"
    and enough: "int (length (elems l)) \<le> pages l * size"
    and not_more: "elems l \<noteq> [] \<Longrightarrow> (pages l - 1) * size < int (length (elems l))"
    and pages_nonneg: "0 \<le> pages l"
begin

lemma concat_pages_upto:
  "int m \<le> pages l \<Longrightarrow> concat (map (page_of l) [1..int m]) = take (nat (int m * size)) (elems l)"
proof (induction m)
  case 0
  show ?case by simp
next
  case (Suc m)
  have up: "[1..int (Suc m)] = [1..int m] @ [int (Suc m)]"
    using upto_rec2 [of 1 "int (Suc m)"] by simp
  have s: "nat (int (Suc m) * size) = nat (int m * size) + nat size"
    using size_pos by (simp add: algebra_simps nat_add_distrib)
  have "page_of l (int (Suc m)) = take (nat size) (drop (nat (int m * size)) (elems l))"
    using page_eq [of "int (Suc m)" l] Suc.prems by simp
  with Suc show ?case unfolding up s take_add by simp
qed

lemma concat_pages: "concat (map (page_of l) [1..pages l]) = elems l"
proof -
  have "int (nat (pages l)) = pages l" using pages_nonneg by simp
  with concat_pages_upto [of "nat (pages l)" l]
  have "concat (map (page_of l) [1..pages l]) = take (nat (pages l * size)) (elems l)" by simp
  moreover have "length (elems l) \<le> nat (pages l * size)" using enough [of l] by linarith
  ultimately show ?thesis by simp
qed

lemma page_length_le: "1 \<le> k \<Longrightarrow> k \<le> pages l \<Longrightarrow> int (length (page_of l k)) \<le> size"
  using size_pos by (simp add: page_eq)

lemma page_nonempty:
  assumes "elems l \<noteq> []" "1 \<le> k" "k \<le> pages l"
  shows "page_of l k \<noteq> []"
proof -
  have "(k - 1) * size \<le> (pages l - 1) * size" using assms(3) size_pos by simp
  with not_more [OF assms(1)] have "(k - 1) * size < int (length (elems l))" by linarith
  moreover have "0 \<le> (k - 1) * size" using assms(2) size_pos by simp
  ultimately have "nat ((k - 1) * size) < length (elems l)" by linarith
  with size_pos assms show ?thesis by (simp add: page_eq)
qed

end

text \<open>The slice that all the paging functions take.\<close>

lemma page_slice:
  assumes "0 < p" "1 \<le> k"
  shows "js_slice ((k - 1) * p) (min ((k - 1) * p + p) (int (length xs))) xs
    = take (nat p) (drop (nat ((k - 1) * p)) xs)"
proof -
  have a: "0 \<le> (k - 1) * p" using assms by simp
  then have "js_slice ((k - 1) * p) (min ((k - 1) * p + p) (int (length xs))) xs =
      take (nat (min ((k - 1) * p + p) (int (length xs))) - nat ((k - 1) * p))
        (drop (nat ((k - 1) * p)) xs)"
    using assms by (simp add: js_slice_nonneg)
  also have "\<dots> = take (nat p) (drop (nat ((k - 1) * p)) xs)"
  proof (cases "(k - 1) * p + p \<le> int (length xs)")
    case True
    then show ?thesis using a assms by (simp add: nat_add_distrib)
  next
    case False
    then have "length (drop (nat ((k - 1) * p)) xs) \<le> nat p" using a assms by simp
    with False show ?thesis by simp
  qed
  finally show ?thesis .
qed

text \<open>The number of pages that three of the functions compute.\<close>

lemma ceil_pages:
  assumes "0 < p"
  shows "n \<le> max 1 (ceil_div n p) * p" "0 < n \<Longrightarrow> (max 1 (ceil_div n p) - 1) * p < n"
proof -
  have "ceil_div n p * p \<le> max 1 (ceil_div n p) * p" using assms by simp
  with ceil_div_bounds(1) [OF assms, of n] show "n \<le> max 1 (ceil_div n p) * p" by linarith
  show "(max 1 (ceil_div n p) - 1) * p < n" if "0 < n"
    using ceil_div_bounds(2) [OF assms, of n] ceil_div_pos [OF assms that] by (simp add: max_def)
qed

definition group_items :: "list_item grouped_items \<Rightarrow> list_item list" where
  "group_items g = (case subGroups g of Some sgs \<Rightarrow> concat (map gitems sgs) | None \<Rightarrow> gitems g)"

interpretation item_pages: paginator "int (Suc n)" "\<lambda>l. l"
  "\<lambda>items k. pg_items (paginateItems items k (int (Suc n)))"
  "\<lambda>items. pg_totalPages (paginateItems items 1 (int (Suc n)))" for n
proof (unfold_locales, goal_cases)
  case (2 k l)
  then have "max 1 (min k (if ceil_div (int (length l)) (int (Suc n)) = 0 then 1
      else ceil_div (int (length l)) (int (Suc n)))) = k"
    by (auto simp: paginateItems_def Let_def)
  then show ?case
    using 2 page_slice [of "int (Suc n)" k l] by (simp only: paginateItems_def Let_def paginated_result.simps)
next
  case (3 l)
  show ?case using ceil_div_bounds(1) [of "int (Suc n)"] by (simp add: paginateItems_def Let_def)
next
  case (4 l)
  show ?case using ceil_div_bounds(2) [of "int (Suc n)"] by (simp only: paginateItems_def Let_def paginated_result.simps)
next
  case (5 l)
  show ?case
    using ceil_div_pos [of "int (Suc n)" "int (length l)"]
    by (cases l) (simp_all add: paginateItems_def Let_def)
qed simp

interpretation group_pages: paginator "int (Suc n)" group_items
  "\<lambda>g k. psl_paginated (paginateGroup g k (int (Suc n)))"
  "\<lambda>g. psl_totalPages (paginateGroup g 1 (int (Suc n)))" for n
proof (unfold_locales, goal_cases)
  case (2 k l)
  then have "max 1 (min k (max 1 (ceil_div (int (length (group_items l))) (int (Suc n))))) = k"
    by (simp add: paginateGroup_def group_items_def Let_def)
  then show ?case
    using 2 page_slice [of "int (Suc n)" k "group_items l"]
    by (simp only: paginateGroup_def group_items_def Let_def page_slice.simps)
next
  case (3 l)
  show ?case
    using ceil_pages(1) [of "int (Suc n)"] by (simp add: paginateGroup_def group_items_def Let_def)
next
  case (4 l)
  then show ?case
    using ceil_pages(2) [of "int (Suc n)"] by (simp add: paginateGroup_def group_items_def Let_def)
next
  case (5 l)
  show ?case by (simp add: paginateGroup_def Let_def)
qed simp

interpretation subgroup_pages: paginator "int (Suc n)" gitems
  "\<lambda>g k. psl_paginated (paginateSubGroup g k (int (Suc n)))"
  "\<lambda>g. psl_totalPages (paginateSubGroup g 1 (int (Suc n)))" for n
proof (unfold_locales, goal_cases)
  case (2 k l)
  then have "max 1 (min k (max 1 (ceil_div (int (length (gitems l))) (int (Suc n))))) = k"
    by (simp add: paginateSubGroup_def Let_def)
  then show ?case
    using 2 page_slice [of "int (Suc n)" k "gitems l"]
    by (simp only: paginateSubGroup_def Let_def page_slice.simps)
next
  case (3 l)
  show ?case using ceil_pages(1) [of "int (Suc n)"] by (simp add: paginateSubGroup_def Let_def)
next
  case (4 l)
  then show ?case using ceil_pages(2) [of "int (Suc n)"] by (simp add: paginateSubGroup_def Let_def)
next
  case (5 l)
  show ?case by (simp add: paginateSubGroup_def Let_def)
qed simp

interpretation subgroups_pages: paginator "int (Suc n)" "\<lambda>l. l"
  "\<lambda>gs k. psl_paginated (paginateSubGroups gs k (int (Suc n)))"
  "\<lambda>gs. psl_totalPages (paginateSubGroups gs 1 (int (Suc n)))" for n
proof (unfold_locales, goal_cases)
  case (2 k l)
  then have "max 1 (min k (max 1 (ceil_div (int (length l)) (int (Suc n))))) = k"
    by (simp add: paginateSubGroups_def Let_def)
  then show ?case
    using 2 page_slice [of "int (Suc n)" k l]
    by (simp only: paginateSubGroups_def Let_def page_slice.simps)
next
  case (3 l)
  show ?case using ceil_pages(1) [of "int (Suc n)"] by (simp add: paginateSubGroups_def Let_def)
next
  case (4 l)
  then show ?case using ceil_pages(2) [of "int (Suc n)"] by (simp add: paginateSubGroups_def Let_def)
next
  case (5 l)
  show ?case by (simp add: paginateSubGroups_def Let_def)
qed simp

text \<open>The pages that the hook shows as its page number runs, for a numeric page size.\<close>

definition hook_page :: "int \<Rightarrow> 'a list \<Rightarrow> int \<Rightarrow> 'a list" where
  "hook_page p items k = fst (paginatedData items \<lparr>pst_currentPage = k, pst_pageSize = PageOf p\<rparr>)"

interpretation hook_pages: paginator "int (Suc n)" "\<lambda>l. l" "hook_page (int (Suc n))"
  "\<lambda>l. calculateTotalPages (int (length l)) (PageOf (int (Suc n)))" for n
proof (unfold_locales, goal_cases)
  case (2 k l)
  then show ?case
    using page_slice [of "int (Suc n)" k l]
    by (simp add: hook_page_def paginatedData_def calculatePaginationIndices_def Let_def)
next
  case (3 l)
  show ?case
    using ceil_div_bounds(1) [of "int (Suc n)" "int (length l)"]
    by (simp add: calculateTotalPages_def MIN_PAGE_def)
next
  case (4 l)
  then show ?case
    using ceil_div_bounds(2) [of "int (Suc n)" "int (length l)"] by (simp add: calculateTotalPages_def)
next
  case (5 l)
  show ?case
    using ceil_div_pos [of "int (Suc n)" "int (length l)"]
    by (cases l) (simp_all add: calculateTotalPages_def MIN_PAGE_def)
qed simp

subsection \<open>The runs of the hook\<close>

datatype pagination_event = EvNext | EvPrev | EvGoTo int | EvSetSize hook_page_size

fun pagination_step :: "'a list \<Rightarrow> pagination_event \<Rightarrow> pagination_state \<Rightarrow> pagination_state" where
  "pagination_step items EvNext st = nextPage items st"
| "pagination_step items EvPrev st = prevPage st"
| "pagination_step items (EvGoTo k) st = goToPage items k st"
| "pagination_step items (EvSetSize s) st = setPageSize s st"

definition valid_hook_size :: "hook_page_size \<Rightarrow> bool" where
  "valid_hook_size s = (case s of PageAll \<Rightarrow> True | PageOf p \<Rightarrow> 0 < p)"

inductive pagination_run :: "'a list \<Rightarrow> pagination_state \<Rightarrow> bool" for items :: "'a list" where
  run_init: "valid_hook_size s \<Longrightarrow> pagination_run items (pagination_init s None)"
| run_step: "pagination_run items st \<Longrightarrow> (\<And>s. ev = EvSetSize s \<Longrightarrow> valid_hook_size s) \<Longrightarrow>
    pagination_run items (pagination_step items ev st)"

lemma total_pages_pos:
  "valid_hook_size s \<Longrightarrow> 1 \<le> calculateTotalPages (int (length items)) s"
  using ceil_div_pos [of _ "int (length items)"]
  by (auto simp: calculateTotalPages_def MIN_PAGE_def valid_hook_size_def split: hook_page_size.splits)

lemma pagination_run_inv:
  "pagination_run items st \<Longrightarrow>
     valid_hook_size (pst_pageSize st) \<and> 1 \<le> pst_currentPage st \<and>
     pst_currentPage st \<le> pagination_total_pages items st"
proof (induction rule: pagination_run.induct)
  case (run_init s)
  then show ?case
    using total_pages_pos [of s items]
    by (simp add: pagination_init_def DEFAULT_INITIAL_PAGE_def pagination_total_pages_def)
next
  case (run_step st ev)
  note pos = total_pages_pos [of "pst_pageSize st" items]
  show ?case
  proof (cases ev)
    case (EvSetSize s)
    then show ?thesis
      using run_step total_pages_pos [of s items]
      by (simp add: setPageSize_def pagination_total_pages_def MIN_PAGE_def)
  qed (use run_step pos in \<open>auto simp: nextPage_def prevPage_def goToPage_def calculateValidPage_def
      pagination_total_pages_def MIN_PAGE_def\<close>)
qed

subsection \<open>Properties\<close>

text \<open>The pages of a list, of a group, of a subgroup and of the subgroups, and the pages that
  the hook shows, read one after the other, are the whole list in order: no element is skipped
  or shown twice, for every positive page size.\<close>

theorem pages_cover:
  "concat (map (\<lambda>k. pg_items (paginateItems items k (int (Suc n))))
     [1..pg_totalPages (paginateItems items 1 (int (Suc n)))]) = items \<and>
   concat (map (\<lambda>k. psl_paginated (paginateGroup g k (int (Suc n))))
     [1..psl_totalPages (paginateGroup g 1 (int (Suc n)))]) = group_items g \<and>
   concat (map (\<lambda>k. psl_paginated (paginateSubGroup g k (int (Suc n))))
     [1..psl_totalPages (paginateSubGroup g 1 (int (Suc n)))]) = gitems g \<and>
   concat (map (\<lambda>k. psl_paginated (paginateSubGroups gs k (int (Suc n))))
     [1..psl_totalPages (paginateSubGroups gs 1 (int (Suc n)))]) = gs \<and>
   concat (map (hook_page (int (Suc n)) xs)
     [1..calculateTotalPages (int (length xs)) (PageOf (int (Suc n)))]) = xs"
  by (intro conjI item_pages.concat_pages group_pages.concat_pages subgroup_pages.concat_pages
      subgroups_pages.concat_pages hook_pages.concat_pages)

text \<open>However the callbacks of \<open>usePagination\<close> are called on a list that does not change, the
  current page stays between 1 and the number of pages, so a list that is not empty never shows
  an empty page.\<close>

theorem pagination_run_safe:
  assumes "pagination_run items st"
  shows "1 \<le> pst_currentPage st \<and> pst_currentPage st \<le> pagination_total_pages items st \<and>
    (fst (paginatedData items st) = [] \<longleftrightarrow> items = [])"
proof -
  note inv = pagination_run_inv [OF assms]
  have "fst (paginatedData items st) = [] \<longleftrightarrow> items = []"
  proof (cases "pst_pageSize st")
    case PageAll
    then show ?thesis by (simp add: paginatedData_def)
  next
    case (PageOf p)
    then obtain n where p: "p = int (Suc n)"
      using inv by (intro that [of "nat p - 1"]) (simp add: valid_hook_size_def)
    have h: "fst (paginatedData items st) = hook_page (int (Suc n)) items (pst_currentPage st)"
      by (simp add: hook_page_def paginatedData_def PageOf p)
    show ?thesis
    proof (cases "items = []")
      case True
      then show ?thesis
        by (simp add: paginatedData_def PageOf calculatePaginationIndices_def js_slice_def Let_def)
    next
      case False
      have "hook_page (int (Suc n)) items (pst_currentPage st) \<noteq> []"
        by (rule hook_pages.page_nonempty [OF False])
          (use inv PageOf p in \<open>simp_all add: pagination_total_pages_def\<close>)
      with False show ?thesis by (simp only: h)
    qed
  qed
  with inv show ?thesis by simp
qed

theorem pagination_run_safe_witness:
  "fst (paginatedData [1, 2, 3 :: nat] (nextPage [1, 2, 3 :: nat] (pagination_init (PageOf 2) None))) \<noteq> []"
proof -
  have r: "pagination_run [1, 2, 3 :: nat]
      (pagination_step [1, 2, 3 :: nat] EvNext (pagination_init (PageOf 2) None))"
    by (rule run_step [OF run_init]) (simp_all add: valid_hook_size_def)
  from pagination_run_safe [OF r] show ?thesis by simp
qed

end
