(* ===== verification/ListAccess.thy ===== *)
theory ListAccess
  imports ListGrouping
begin

text \<open>
  Who may edit a list and which ratings its rows show (\<open>ListDetailPage/utils.ts\<close>).
\<close>

definition isPersonalList :: "user_list \<Rightarrow> bool" where
  "isPersonalList l =
     (case ul_members l of
        None \<Rightarrow> True
      | Some ms \<Rightarrow> if ms = [] then True
                   else length ms = 1 \<and> usr_id (ms ! 0) = usr_id (ul_owner l))"

definition canEditListContent :: "user_list \<Rightarrow> int option \<Rightarrow> bool" where
  "canEditListContent l currentUserId =
     (if \<not> truthy_int currentUserId then False
      else if Some (usr_id (ul_owner l)) = currentUserId then True
      else nullish (map_option
        (list_ex (\<lambda>m. Some (usr_id m) = currentUserId \<and> (lmem_role m = OwnerRole \<or> lmem_role m = EditorRole)))
        (ul_members l)) False)"

definition canManageListSettings :: "user_list \<Rightarrow> int option \<Rightarrow> bool" where
  "canManageListSettings l currentUserId \<longleftrightarrow>
     truthy_int currentUserId \<and> Some (usr_id (ul_owner l)) = currentUserId"

definition getUserRating :: "list_item \<Rightarrow> int option \<Rightarrow> js_num option" where
  "getUserRating item userId =
     (if \<not> truthy_int userId then None
      else (case List.find (\<lambda>mr. mr_user_id mr = userId) (li_member_ratings item) of
              None \<Rightarrow> None
            | Some mr \<Rightarrow>
                (case mr_score mr of
                   ScoreStr s \<Rightarrow> (case js_parseFloat s of NaN \<Rightarrow> None | n \<Rightarrow> Some n)
                 | ScoreNum n \<Rightarrow> (case n of NaN \<Rightarrow> None | _ \<Rightarrow> Some n))))"

record rating_badge_data =
  showUserRating :: bool
  rbd_userRating :: "js_num option"
  showListRating :: bool
  rbd_listRating :: "rat option"

definition getRatingBadgeData :: "list_item \<Rightarrow> user_list \<Rightarrow> int option \<Rightarrow> rating_badge_data" where
  "getRatingBadgeData item l currentUserId =
     (if isPersonalList l
      then \<lparr>showUserRating = False, rbd_userRating = None, showListRating = True,
            rbd_listRating = li_list_rating item\<rparr>
      else \<lparr>showUserRating = True, rbd_userRating = getUserRating item currentUserId,
            showListRating = True, rbd_listRating = li_list_rating item\<rparr>)"

lemma manage_implies_edit: "canManageListSettings l u \<Longrightarrow> canEditListContent l u"
  by (simp add: canManageListSettings_def canEditListContent_def)

end
