(* ===== verification/ExploreQuery.thy ===== *)
theory ExploreQuery
  imports ListView
begin

text \<open>
  The URL form of a list query, from \<open>ListDetailPage/hooks/useExploreQuery.ts\<close>: a
  \<open>URLSearchParams\<close> object is the list of its name/value pairs, and the query is parsed from it
  and serialised to it.  The setters of the hook are functions from the current query to the
  query they write; navigation stores the pairs in the address, and the router may write a value
  as a JSON string, which is what \<open>decodeRouteSearchValue\<close> undoes.
\<close>

subsection \<open>JSON string literals\<close>

definition hex4 :: "string \<Rightarrow> nat option" where
  "hex4 ds = (if length ds = 4 \<and> list_all (\<lambda>c. radix_digit c \<noteq> None) ds
     then Some (fold (\<lambda>c a. 16 * a + the (radix_digit c)) ds 0) else None)"

text \<open>The UTF-8 text of a code point (a lone surrogate keeps its three-byte form).\<close>

definition utf8 :: "nat \<Rightarrow> string" where
  "utf8 n =
     (if n < 128 then [char_of n]
      else if n < 2048 then [char_of (192 + n div 64), char_of (128 + n mod 64)]
      else if n < 65536 then
        [char_of (224 + n div 4096), char_of (128 + n div 64 mod 64), char_of (128 + n mod 64)]
      else
        [char_of (240 + n div 262144), char_of (128 + n div 4096 mod 64),
         char_of (128 + n div 64 mod 64), char_of (128 + n mod 64)])"

definition simple_escape :: "char \<Rightarrow> string option" where
  "simple_escape c =
     map_of [(CHR 0x22, [CHR 0x22]), (CHR 0x5C, [CHR 0x5C]), (CHR ''/'', ''/''),
             (CHR ''b'', [CHR 0x08]), (CHR ''f'', [CHR 0x0C]), (CHR ''n'', [CHR 0x0A]),
             (CHR ''r'', [CHR 0x0D]), (CHR ''t'', [CHR 0x09])] c"

text \<open>
  The body of a string literal after the opening quote: \<open>None\<close> when it is not well formed,
  which includes anything after the closing quote.
\<close>

function json_body :: "string \<Rightarrow> string option" where
  "json_body s =
     (case s of
        [] \<Rightarrow> None
      | c # t \<Rightarrow>
          if c = CHR 0x22 then (if t = [] then Some [] else None)
          else if (of_char c :: nat) < 32 then None
          else if c \<noteq> CHR 0x5C then map_option (Cons c) (json_body t)
          else (case t of
                  [] \<Rightarrow> None
                | e # u \<Rightarrow>
                    if e \<noteq> CHR ''u'' then
                      (case simple_escape e of
                         None \<Rightarrow> None | Some w \<Rightarrow> map_option (append w) (json_body u))
                    else (case hex4 (take 4 u) of
                            None \<Rightarrow> None
                          | Some n \<Rightarrow>
                              (case (if 55296 \<le> n \<and> n < 56320 \<and> take 2 (drop 4 u) = [CHR 0x5C, CHR ''u'']
                                     then hex4 (take 4 (drop 6 u)) else None) of
                                 Some m \<Rightarrow>
                                   if 56320 \<le> m \<and> m < 57344
                                   then map_option (append (utf8 (65536 + (n - 55296) * 1024 + (m - 56320))))
                                     (json_body (drop 10 u))
                                   else map_option (append (utf8 n)) (json_body (drop 4 u))
                               | None \<Rightarrow> map_option (append (utf8 n)) (json_body (drop 4 u))))))"
  by pat_completeness auto
termination
  by (relation "measure length") auto

declare json_body.simps [simp del]

definition hex_digit :: "nat \<Rightarrow> char" where
  "hex_digit n = (if n < 10 then char_of (48 + n) else char_of (87 + n))"

text \<open>\<open>JSON.stringify\<close> of a string.\<close>

definition json_escape :: "char \<Rightarrow> string" where
  "json_escape c =
     (if c = CHR 0x22 then [CHR 0x5C, CHR 0x22]
      else if c = CHR 0x5C then [CHR 0x5C, CHR 0x5C]
      else if c = CHR 0x08 then [CHR 0x5C, CHR ''b'']
      else if c = CHR 0x0C then [CHR 0x5C, CHR ''f'']
      else if c = CHR 0x0A then [CHR 0x5C, CHR ''n'']
      else if c = CHR 0x0D then [CHR 0x5C, CHR ''r'']
      else if c = CHR 0x09 then [CHR 0x5C, CHR ''t'']
      else if (of_char c :: nat) < 32
        then [CHR 0x5C, CHR ''u'', CHR ''0'', CHR ''0'',
              hex_digit (of_char c div 16), hex_digit (of_char c mod 16)]
      else [c])"

definition json_quote :: "string \<Rightarrow> string" where
  "json_quote s = CHR 0x22 # concat (map json_escape s) @ [CHR 0x22]"

subsection \<open>Names of the fields\<close>

fun filter_field_str :: "filter_field \<Rightarrow> string" where
  "filter_field_str FfContextStatus = ''context_status''"
| "filter_field_str FfTrackingStatus = ''tracking_status''"
| "filter_field_str FfContentType = ''content_type''"
| "filter_field_str FfSourceApi = ''source_api''"
| "filter_field_str FfAddedBy = ''added_by''"

fun range_field_str :: "range_filter_field \<Rightarrow> string" where
  "range_field_str RfListRatingGte = ''list_rating_gte''"
| "range_field_str RfListRatingLte = ''list_rating_lte''"
| "range_field_str RfAddedAtGte = ''added_at_gte''"
| "range_field_str RfAddedAtLte = ''added_at_lte''"
| "range_field_str RfContextCompletedAtGte = ''context_completed_at_gte''"
| "range_field_str RfContextCompletedAtLte = ''context_completed_at_lte''"
| "range_field_str RfReleaseDateGte = ''release_date_gte''"
| "range_field_str RfReleaseDateLte = ''release_date_lte''"

fun sort_field_str :: "sort_field \<Rightarrow> string" where
  "sort_field_str SfListOrder = ''list_order''"
| "sort_field_str SfAddedAt = ''added_at''"
| "sort_field_str SfContextCompletedAt = ''context_completed_at''"
| "sort_field_str SfContextStatus = ''context_status''"
| "sort_field_str SfTrackingStatus = ''tracking_status''"
| "sort_field_str SfContentType = ''content_type''"
| "sort_field_str SfListRating = ''list_rating''"
| "sort_field_str SfDisplayTitle = ''display_title''"
| "sort_field_str SfArtist = ''artist''"
| "sort_field_str SfAlbumTitle = ''album_title''"
| "sort_field_str SfReleaseDate = ''release_date''"

fun group_field_str :: "group_by_field \<Rightarrow> string" where
  "group_field_str GfContextStatus = ''context_status''"
| "group_field_str GfTrackingStatus = ''tracking_status''"
| "group_field_str GfContentType = ''content_type''"
| "group_field_str GfSourceApi = ''source_api''"
| "group_field_str GfAddedBy = ''added_by''"
| "group_field_str GfArtist = ''artist''"

definition ALLOWED_FILTERS :: "filter_field list" where
  "ALLOWED_FILTERS = [FfContextStatus, FfTrackingStatus, FfContentType, FfSourceApi, FfAddedBy]"

definition ALLOWED_RANGE_FILTERS :: "range_filter_field list" where
  "ALLOWED_RANGE_FILTERS =
     [RfListRatingGte, RfListRatingLte, RfAddedAtGte, RfAddedAtLte, RfContextCompletedAtGte,
      RfContextCompletedAtLte, RfReleaseDateGte, RfReleaseDateLte]"

definition ALLOWED_SORTS :: "sort_field list" where
  "ALLOWED_SORTS =
     [SfListOrder, SfAddedAt, SfContextCompletedAt, SfContextStatus, SfTrackingStatus, SfContentType,
      SfListRating, SfDisplayTitle, SfArtist, SfAlbumTitle, SfReleaseDate]"

definition ALLOWED_GROUPS :: "group_by_field list" where
  "ALLOWED_GROUPS =
     [GfContextStatus, GfTrackingStatus, GfContentType, GfSourceApi, GfAddedBy, GfArtist]"

definition VALID_PAGE_SIZES :: "page_size list" where
  "VALID_PAGE_SIZES = [10, 20, 50]"

text \<open>\<open>ALLOWED.has(s)\<close> with the cast that follows it.\<close>

definition allowed :: "('f \<Rightarrow> string) \<Rightarrow> 'f list \<Rightarrow> string \<Rightarrow> 'f option" where
  "allowed str fs s = List.find (\<lambda>f. str f = s) fs"

subsection \<open>Parsing\<close>

type_synonym search_params = "(string \<times> string) list"

definition decodeRouteSearchValue :: "string \<Rightarrow> string" where
  "decodeRouteSearchValue raw =
     (if 2 \<le> length raw \<and> hd raw = CHR 0x22 \<and> last raw = CHR 0x22
      then (case json_body (tl raw) of Some parsed \<Rightarrow> parsed | None \<Rightarrow> raw)
      else raw)"

definition parse_sort_token :: "string \<Rightarrow> sort_clause list" where
  "parse_sort_token tokenRaw =
     (let token = js_trim tokenRaw in
      if token = [] then []
      else
        let desc = prefix ''-'' token; field = (if desc then tl token else token) in
        (case allowed sort_field_str ALLOWED_SORTS field of
           None \<Rightarrow> []
         | Some f \<Rightarrow> [\<lparr>sc_field = f, sc_direction = (if desc then Desc else Asc)\<rparr>]))"

definition parseSort :: "string option \<Rightarrow> sort_clause list" where
  "parseSort raw =
     (case map_option decodeRouteSearchValue raw of
        None \<Rightarrow> []
      | Some value \<Rightarrow>
          if value = [] then [] else concat (map parse_sort_token (js_split CHR '','' value)))"

text \<open>\<open>Number(null)\<close> is 0.\<close>

definition number_or_null :: "string option \<Rightarrow> js_num" where
  "number_or_null raw =
     (case map_option decodeRouteSearchValue raw of None \<Rightarrow> Fin 0 | Some v \<Rightarrow> js_Number v)"

definition parsePageSize :: "string option \<Rightarrow> page_size" where
  "parsePageSize raw =
     (case number_or_null raw of
        Fin r \<Rightarrow> if r \<in> set (map of_int VALID_PAGE_SIZES) then \<lfloor>r\<rfloor> else q_pageSize DEFAULT_LIST_ITEM_QUERY
      | _ \<Rightarrow> q_pageSize DEFAULT_LIST_ITEM_QUERY)"

definition parsePage :: "string option \<Rightarrow> int" where
  "parsePage raw = (case number_or_null raw of Fin r \<Rightarrow> if 1 \<le> r then \<lfloor>r\<rfloor> else 1 | _ \<Rightarrow> 1)"

text \<open>
  The match of \<open>/^filter\[(.+)\]$/\<close>.  A line break in the field would fail the match; such a
  field is in no allowed set, so it has no effect either way.
\<close>

definition filter_key :: "string \<Rightarrow> string option" where
  "filter_key key =
     (if prefix ''filter['' key \<and> suffix '']'' key \<and> 9 \<le> length key
      then Some (butlast (drop 7 key)) else None)"

type_synonym parsed_filters =
  "(filter_field \<times> filter_value) list \<times> (range_filter_field \<times> filter_value) list"

fun parse_param :: "string \<times> string \<Rightarrow> parsed_filters \<Rightarrow> parsed_filters" where
  "parse_param (key, rawValue) (fs, rs) =
     (let value = decodeRouteSearchValue rawValue in
      case filter_key key of
        None \<Rightarrow> (fs, rs)
      | Some field \<Rightarrow>
          if value = [] then (fs, rs)
          else (case allowed filter_field_str ALLOWED_FILTERS field of
            Some f \<Rightarrow>
              let parts = filter (\<lambda>v. v \<noteq> []) (map js_trim (js_split CHR '','' value)) in
              (AList.update f
                 (if 1 < length parts then FvStrs parts
                  else (case parts of [] \<Rightarrow> FvUndefined | p # _ \<Rightarrow> FvStr p)) fs, rs)
          | None \<Rightarrow>
              (case allowed range_field_str ALLOWED_RANGE_FILTERS field of
                 Some f \<Rightarrow> (fs, AList.update f (FvStr value) rs)
               | None \<Rightarrow> (fs, rs))))"

definition parseQueryFromParams :: "search_params \<Rightarrow> list_item_query" where
  "parseQueryFromParams params =
     (let (filters, rangeFilters) = fold parse_param params ([], []);
          groupRaw = map_option decodeRouteSearchValue (map_of params ''group_by'');
          groupBy = (case groupRaw of
                       None \<Rightarrow> None
                     | Some g \<Rightarrow> if g = [] then None else allowed group_field_str ALLOWED_GROUPS g) in
      \<lparr>q_filters = filters, q_rangeFilters = rangeFilters,
       q_sort = parseSort (map_of params ''sort''), q_groupBy = groupBy,
       q_page = parsePage (map_of params ''page''),
       q_pageSize = parsePageSize (map_of params ''page_size'')\<rparr>)"

subsection \<open>Serialising\<close>

text \<open>\<open>params.set\<close> replaces the first pair of the name, drops the others, or appends.\<close>

fun params_set :: "string \<Rightarrow> string \<Rightarrow> search_params \<Rightarrow> search_params" where
  "params_set k v [] = [(k, v)]"
| "params_set k v ((k', w) # ps) =
     (if k' = k then (k, v) # filter (\<lambda>p. fst p \<noteq> k) ps else (k', w) # params_set k v ps)"

text \<open>\<open>String(value)\<close>, or the values joined by commas; \<open>None\<close> for the skipped ones.\<close>

fun filter_value_text :: "filter_value \<Rightarrow> string option" where
  "filter_value_text FvUndefined = None"
| "filter_value_text (FvStr s) = (if s = [] then None else Some s)"
| "filter_value_text (FvNum n) = Some (show_int n)"
| "filter_value_text (FvStrs ss) = Some (js_join '','' ss)"
| "filter_value_text (FvNums ns) = Some (js_join '','' (map show_int ns))"

definition filter_name :: "string \<Rightarrow> string" where
  "filter_name field = ''filter['' @ field @ '']''"

definition serialize_filter :: "filter_field \<times> filter_value \<Rightarrow> search_params \<Rightarrow> search_params" where
  "serialize_filter fv ps =
     (case filter_value_text (snd fv) of
        None \<Rightarrow> ps
      | Some s \<Rightarrow> if s = [] then ps else params_set (filter_name (filter_field_str (fst fv))) s ps)"

definition serialize_range ::
  "range_filter_field \<times> filter_value \<Rightarrow> search_params \<Rightarrow> search_params" where
  "serialize_range fv ps =
     (case filter_value_text (snd fv) of
        None \<Rightarrow> ps
      | Some s \<Rightarrow> params_set (filter_name (range_field_str (fst fv))) s ps)"

definition sort_token :: "sort_clause \<Rightarrow> string" where
  "sort_token c =
     (if sc_direction c = Desc then ''-'' @ sort_field_str (sc_field c) else sort_field_str (sc_field c))"

definition serializeQueryToParams :: "list_item_query \<Rightarrow> search_params" where
  "serializeQueryToParams q =
     (let p1 = fold serialize_filter (q_filters q) [];
          p2 = fold serialize_range (q_rangeFilters q) p1;
          p3 = (if q_sort q \<noteq> [] then params_set ''sort'' (js_join '','' (map sort_token (q_sort q))) p2
                else p2);
          p4 = (case q_groupBy q of None \<Rightarrow> p3 | Some g \<Rightarrow> params_set ''group_by'' (group_field_str g) p3);
          p5 = (if 1 < q_page q then params_set ''page'' (show_int (q_page q)) p4 else p4) in
      if q_pageSize q \<noteq> q_pageSize DEFAULT_LIST_ITEM_QUERY
      then params_set ''page_size'' (show_int (q_pageSize q)) p5 else p5)"

definition hasAnyExploreParam :: "search_params \<Rightarrow> bool" where
  "hasAnyExploreParam params \<longleftrightarrow>
     list_ex (\<lambda>(key, _). key = ''sort'' \<or> key = ''group_by'' \<or> key = ''page''
       \<or> key = ''page_size'' \<or> prefix ''filter['' key) params"

subsection \<open>The hook\<close>

text \<open>A partial query: a patch, or the seed read from storage.\<close>

record partial_query =
  pq_filters :: "(filter_field \<times> filter_value) list option"
  pq_rangeFilters :: "(range_filter_field \<times> filter_value) list option"
  pq_sort :: "sort_clause list option"
  pq_groupBy :: "group_by_field option option"
  pq_page :: "int option"
  pq_pageSize :: "page_size option"

text \<open>\<open>{...query, ...patch}\<close>.\<close>

definition merge_query :: "list_item_query \<Rightarrow> partial_query \<Rightarrow> list_item_query" where
  "merge_query q p =
     \<lparr>q_filters = nullish (pq_filters p) (q_filters q),
      q_rangeFilters = nullish (pq_rangeFilters p) (q_rangeFilters q),
      q_sort = nullish (pq_sort p) (q_sort q),
      q_groupBy = nullish (pq_groupBy p) (q_groupBy q),
      q_page = nullish (pq_page p) (q_page q),
      q_pageSize = nullish (pq_pageSize p) (q_pageSize q)\<rparr>"

text \<open>The \<open>search\<close> object that \<open>writeQuery\<close> hands to the router.\<close>

definition writeQuery :: "list_item_query \<Rightarrow> search_params" where
  "writeQuery next = map_from (serializeQueryToParams next)"

definition patchQuery :: "list_item_query \<Rightarrow> partial_query \<Rightarrow> search_params" where
  "patchQuery query patch = writeQuery (merge_query query patch)"

definition explore_setPage :: "list_item_query \<Rightarrow> int \<Rightarrow> search_params" where
  "explore_setPage query page = writeQuery (query\<lparr>q_page := max 1 page\<rparr>)"

definition explore_setPageSize :: "list_item_query \<Rightarrow> page_size \<Rightarrow> search_params" where
  "explore_setPageSize query pageSize = writeQuery (query\<lparr>q_pageSize := pageSize, q_page := 1\<rparr>)"

definition explore_setSort :: "list_item_query \<Rightarrow> sort_clause list \<Rightarrow> search_params" where
  "explore_setSort query sorts = writeQuery (query\<lparr>q_sort := sorts, q_page := 1\<rparr>)"

definition explore_setGroupBy :: "list_item_query \<Rightarrow> group_by_field option \<Rightarrow> search_params" where
  "explore_setGroupBy query groupBy = writeQuery (query\<lparr>q_groupBy := groupBy, q_page := 1\<rparr>)"

definition next_filters ::
  "(filter_field \<times> filter_value) list \<Rightarrow> filter_field \<Rightarrow> filter_value option
    \<Rightarrow> (filter_field \<times> filter_value) list" where
  "next_filters fs field value =
     (case value of
        None \<Rightarrow> AList.delete field fs
      | Some v \<Rightarrow>
          if v = FvUndefined \<or> v = FvStr [] \<or> v = FvStrs [] \<or> v = FvNums []
          then AList.delete field fs else AList.update field v fs)"

definition explore_setFilter ::
  "list_item_query \<Rightarrow> filter_field \<Rightarrow> filter_value option \<Rightarrow> search_params" where
  "explore_setFilter query field value =
     writeQuery (query\<lparr>q_filters := next_filters (q_filters query) field value, q_page := 1\<rparr>)"

definition resetExploration :: "list_item_query \<Rightarrow> search_params" where
  "resetExploration query = writeQuery (DEFAULT_LIST_ITEM_QUERY\<lparr>q_pageSize := q_pageSize query\<rparr>)"

text \<open>
  The effect that seeds the address once: the new value of \<open>seededRef\<close> and the navigation, from
  the stored partial query when there is one.
\<close>

definition explore_seed :: "bool \<Rightarrow> search_params \<Rightarrow> partial_query option \<Rightarrow> bool \<times> search_params option" where
  "explore_seed seeded params seed =
     (if seeded then (True, None)
      else if hasAnyExploreParam params then (True, None)
      else case seed of
        None \<Rightarrow> (True, None)
      | Some p \<Rightarrow>
          let merged = merge_query DEFAULT_LIST_ITEM_QUERY p in
          if serializeQueryToParams merged = [] then (True, None) else (True, Some (writeQuery merged)))"

text \<open>
  The address after a navigation: the router writes each value as it is or, for the values that
  \<open>quotes\<close> selects (those that would read as JSON), as a JSON string.
\<close>

definition router_write :: "(string \<Rightarrow> bool) \<Rightarrow> search_params \<Rightarrow> search_params" where
  "router_write quotes nav = map (\<lambda>(k, v). (k, if quotes v then json_quote v else v)) nav"

subsection \<open>JSON strings read back\<close>

lemma radix_hex_digit: "n < 16 \<Longrightarrow> radix_digit (hex_digit n) = Some n"
  by (cases "n < 10") (simp_all add: radix_digit_def hex_digit_def Let_def)

lemma hex_escape_ok:
  "n < 32 \<Longrightarrow> hex4 [CHR ''0'', CHR ''0'', hex_digit (n div 16), hex_digit (n mod 16)] = Some n"
proof -
  assume "n < 32"
  then have "radix_digit (hex_digit (n div 16)) = Some (n div 16)"
      "radix_digit (hex_digit (n mod 16)) = Some (n mod 16)"
    by (simp_all add: radix_hex_digit)
  moreover have "radix_digit CHR ''0'' = Some 0" by (simp add: radix_digit_def)
  ultimately show ?thesis by (simp add: hex4_def)
qed

lemma json_body_quote: "json_body [CHR 0x22] = Some []"
  by (subst json_body.simps) simp

lemma json_body_plain:
  "c \<noteq> CHR 0x22 \<Longrightarrow> c \<noteq> CHR 0x5C \<Longrightarrow> \<not> (of_char c :: nat) < 32 \<Longrightarrow>
     json_body (c # t) = map_option (Cons c) (json_body t)"
  by (subst json_body.simps) simp

lemma json_body_simple:
  "e \<noteq> CHR ''u'' \<Longrightarrow> simple_escape e = Some w \<Longrightarrow>
     json_body (CHR 0x5C # e # u) = map_option (append w) (json_body u)"
  by (subst json_body.simps) simp

lemma json_body_unicode:
  "hex4 [a, b, c, d] = Some n \<Longrightarrow> n < 55296 \<Longrightarrow>
     json_body (CHR 0x5C # CHR ''u'' # a # b # c # d # u) = map_option (append (utf8 n)) (json_body u)"
  by (subst json_body.simps) simp

lemma json_body_escape: "json_body (json_escape c @ t) = map_option (Cons c) (json_body t)"
proof -
  have u: "map_option (append (utf8 (of_char c))) (json_body t) = map_option (Cons c) (json_body t)"
    if "(of_char c :: nat) < 32"
    using that by (simp add: utf8_def append_Cons [abs_def])
  have h: "hex4 [CHR ''0'', CHR ''0'', hex_digit (of_char c div 16), hex_digit (of_char c mod 16)]
      = Some (of_char c)" if "(of_char c :: nat) < 32"
    using hex_escape_ok that by simp
  show ?thesis
    using u h
    by (simp add: json_escape_def json_body_simple json_body_plain json_body_unicode simple_escape_def
        append_Cons [abs_def])
qed

lemma json_body_escapes: "json_body (concat (map json_escape s) @ [CHR 0x22]) = Some s"
  by (induction s) (simp_all add: json_body_quote json_body_escape)

lemma decode_json_quote: "decodeRouteSearchValue (json_quote s) = s"
  by (simp add: decodeRouteSearchValue_def json_quote_def json_body_escapes)

lemma decode_plain: "s = [] \<or> hd s \<noteq> CHR 0x22 \<Longrightarrow> decodeRouteSearchValue s = s"
  by (auto simp: decodeRouteSearchValue_def)

lemma decode_router:
  "s = [] \<or> hd s \<noteq> CHR 0x22 \<Longrightarrow> decodeRouteSearchValue (if quotes s then json_quote s else s) = s"
  by (simp add: decode_json_quote decode_plain)

subsection \<open>Queries in canonical form\<close>

text \<open>
  What the address can carry: a filter value is one word or several, where a word is not empty,
  has no surrounding white space, no comma and no leading quotation mark.
\<close>

definition plain_word :: "string \<Rightarrow> bool" where
  "plain_word s \<longleftrightarrow> s \<noteq> [] \<and> js_trim s = s \<and> CHR '','' \<notin> set s \<and> hd s \<noteq> CHR 0x22"

fun canonical_value :: "filter_value \<Rightarrow> bool" where
  "canonical_value (FvStr s) = plain_word s"
| "canonical_value (FvStrs ss) = (2 \<le> length ss \<and> list_all plain_word ss)"
| "canonical_value _ = False"

fun canonical_range :: "filter_value \<Rightarrow> bool" where
  "canonical_range (FvStr s) = (s \<noteq> [] \<and> hd s \<noteq> CHR 0x22)"
| "canonical_range _ = False"

definition canonical_query :: "list_item_query \<Rightarrow> bool" where
  "canonical_query q \<longleftrightarrow>
     distinct (map fst (q_filters q)) \<and> list_all (canonical_value \<circ> snd) (q_filters q) \<and>
     distinct (map fst (q_rangeFilters q)) \<and> list_all (canonical_range \<circ> snd) (q_rangeFilters q) \<and>
     1 \<le> q_page q \<and> q_pageSize q \<in> set VALID_PAGE_SIZES"

lemma filter_field_find: "allowed filter_field_str ALLOWED_FILTERS (filter_field_str f) = Some f"
  by (cases f) (simp_all add: allowed_def ALLOWED_FILTERS_def)

lemma range_field_find:
  "allowed range_field_str ALLOWED_RANGE_FILTERS (range_field_str f) = Some f"
  "allowed filter_field_str ALLOWED_FILTERS (range_field_str f) = None"
  by (cases f; simp add: allowed_def ALLOWED_RANGE_FILTERS_def ALLOWED_FILTERS_def)+

lemma sort_field_find: "allowed sort_field_str ALLOWED_SORTS (sort_field_str f) = Some f"
  by (cases f) (simp_all add: allowed_def ALLOWED_SORTS_def)

lemma group_field_find: "allowed group_field_str ALLOWED_GROUPS (group_field_str g) = Some g"
  by (cases g) (simp_all add: allowed_def ALLOWED_GROUPS_def)

lemma field_str_not_Nil:
  "filter_field_str f \<noteq> []" "range_field_str r \<noteq> []" "group_field_str g \<noteq> []"
proof -
  show "filter_field_str f \<noteq> []" by (cases f) simp_all
  show "range_field_str r \<noteq> []" by (cases r) simp_all
  show "group_field_str g \<noteq> []" by (cases g) simp_all
qed

lemma filter_name_inject [simp]: "filter_name f = filter_name g \<longleftrightarrow> f = g"
  by (simp add: filter_name_def)

lemma prefix_filter_name: "prefix ''filter['' (filter_name f)"
  by (simp add: filter_name_def)

lemma filter_name_not [simp]:
  "filter_name f \<noteq> ''sort''" "filter_name f \<noteq> ''group_by''"
  "filter_name f \<noteq> ''page''" "filter_name f \<noteq> ''page_size''"
  by (simp_all add: filter_name_def)

lemma filter_key_name: "f \<noteq> [] \<Longrightarrow> filter_key (filter_name f) = Some f"
  by (cases f) (simp_all add: filter_key_def suffix_def filter_name_def)

subsection \<open>Serialising a canonical query\<close>

definition filter_pair :: "filter_field \<times> filter_value \<Rightarrow> string \<times> string" where
  "filter_pair fv = (filter_name (filter_field_str (fst fv)), nullish (filter_value_text (snd fv)) [])"

definition range_pair :: "range_filter_field \<times> filter_value \<Rightarrow> string \<times> string" where
  "range_pair fv = (filter_name (range_field_str (fst fv)), nullish (filter_value_text (snd fv)) [])"

lemma params_set_new: "k \<notin> fst ` set ps \<Longrightarrow> params_set k v ps = ps @ [(k, v)]"
  by (induction ps) auto

lemma filter_field_str_inject: "filter_field_str f = filter_field_str g \<longleftrightarrow> f = g"
  using filter_field_find by (metis option.inject)

lemma range_field_str_inject: "range_field_str f = range_field_str g \<longleftrightarrow> f = g"
  using range_field_find(1) by (metis option.inject)

lemma range_not_filter: "range_field_str f \<noteq> filter_field_str g"
  using range_field_find(2) [of f] filter_field_find [of g] by auto

lemma join_not_Nil: "ws \<noteq> [] \<Longrightarrow> hd ws \<noteq> [] \<Longrightarrow> js_join sep ws \<noteq> [] \<and> hd (js_join sep ws) = hd (hd ws)"
  by (induction sep ws rule: js_join.induct) auto

lemma canonical_value_text:
  "canonical_value v \<Longrightarrow> \<exists>s. filter_value_text v = Some s \<and> s \<noteq> [] \<and> hd s \<noteq> CHR 0x22"
proof (induction v rule: canonical_value.induct)
  case (2 ss)
  then obtain w ws where ss: "ss = w # ws" by (cases ss) auto
  with 2 join_not_Nil [of ss "'',''"] show ?case by (auto simp: plain_word_def)
qed (auto simp: plain_word_def)

lemma canonical_range_text:
  "canonical_range v \<Longrightarrow> \<exists>s. v = FvStr s \<and> s \<noteq> [] \<and> hd s \<noteq> CHR 0x22"
  by (cases v) auto

lemma serialize_filters:
  "distinct (map fst fs) \<Longrightarrow> list_all (canonical_value \<circ> snd) fs \<Longrightarrow>
   (\<And>f. f \<in> fst ` set fs \<Longrightarrow> filter_name (filter_field_str f) \<notin> fst ` set ps) \<Longrightarrow>
     fold serialize_filter fs ps = ps @ map filter_pair fs"
proof (induction fs arbitrary: ps)
  case (Cons fv fs)
  obtain s where s: "filter_value_text (snd fv) = Some s" "s \<noteq> []"
    using Cons.prems(2) canonical_value_text by force
  have "serialize_filter fv ps = ps @ [filter_pair fv]"
    using Cons.prems(3) s by (simp add: serialize_filter_def filter_pair_def params_set_new)
  moreover have "fold serialize_filter fs (ps @ [filter_pair fv]) = (ps @ [filter_pair fv]) @ map filter_pair fs"
    by (rule Cons.IH)
      (use Cons.prems in \<open>auto simp: filter_pair_def filter_field_str_inject image_iff\<close>)
  ultimately show ?case by simp
qed simp

lemma serialize_ranges:
  "distinct (map fst fs) \<Longrightarrow> list_all (canonical_range \<circ> snd) fs \<Longrightarrow>
   (\<And>f. f \<in> fst ` set fs \<Longrightarrow> filter_name (range_field_str f) \<notin> fst ` set ps) \<Longrightarrow>
     fold serialize_range fs ps = ps @ map range_pair fs"
proof (induction fs arbitrary: ps)
  case (Cons fv fs)
  obtain s where s: "snd fv = FvStr s" "s \<noteq> []"
    using Cons.prems(2) canonical_range_text by force
  have "serialize_range fv ps = ps @ [range_pair fv]"
    using Cons.prems(3) s by (simp add: serialize_range_def range_pair_def params_set_new)
  moreover have "fold serialize_range fs (ps @ [range_pair fv]) = (ps @ [range_pair fv]) @ map range_pair fs"
    by (rule Cons.IH)
      (use Cons.prems in \<open>auto simp: range_pair_def range_field_str_inject image_iff\<close>)
  ultimately show ?case by simp
qed simp

definition tail_pairs :: "list_item_query \<Rightarrow> search_params" where
  "tail_pairs q =
     (if q_sort q \<noteq> [] then [(''sort'', js_join '','' (map sort_token (q_sort q)))] else []) @
     (case q_groupBy q of None \<Rightarrow> [] | Some g \<Rightarrow> [(''group_by'', group_field_str g)]) @
     (if 1 < q_page q then [(''page'', show_int (q_page q))] else []) @
     (if q_pageSize q \<noteq> 20 then [(''page_size'', show_int (q_pageSize q))] else [])"

lemma params_set_behind:
  "\<not> prefix ''filter['' k \<Longrightarrow>
     params_set k v (map filter_pair fs @ ps) = map filter_pair fs @ params_set k v ps"
  "\<not> prefix ''filter['' k \<Longrightarrow>
     params_set k v (map range_pair rs @ ps) = map range_pair rs @ params_set k v ps"
  using prefix_filter_name by (induction fs, auto simp: filter_pair_def) (induction rs, auto simp: range_pair_def)

lemmas params_set_behind_all = params_set_behind params_set_behind(2) [where ps = "[]", simplified]

lemma serialize_canonical:
  assumes "canonical_query q"
  shows "serializeQueryToParams q =
    map filter_pair (q_filters q) @ map range_pair (q_rangeFilters q) @ tail_pairs q"
proof -
  have f: "fold serialize_filter (q_filters q) [] = map filter_pair (q_filters q)"
    using assms by (subst serialize_filters) (auto simp: canonical_query_def)
  have r: "fold serialize_range (q_rangeFilters q) (map filter_pair (q_filters q)) =
      map filter_pair (q_filters q) @ map range_pair (q_rangeFilters q)"
    using assms
    by (intro serialize_ranges) (auto simp: canonical_query_def filter_pair_def range_not_filter)
  show ?thesis
    unfolding serializeQueryToParams_def f r Let_def
    by (auto simp: tail_pairs_def params_set_behind_all DEFAULT_LIST_ITEM_QUERY_def split: option.split)
qed

subsection \<open>Parsing it back\<close>

lemma router_write_simps [simp]:
  "router_write quotes [] = []"
  "router_write quotes ((k, v) # ps) = (k, if quotes v then json_quote v else v) # router_write quotes ps"
  by (simp_all add: router_write_def)

lemma router_write_append:
  "router_write quotes (xs @ ys) = router_write quotes xs @ router_write quotes ys"
  by (simp add: router_write_def)

lemma update_new: "k \<notin> fst ` set m \<Longrightarrow> AList.update k v m = m @ [(k, v)]"
  by (induction m) auto

lemma words_of_text:
  "canonical_value v \<Longrightarrow> filter_value_text v = Some s \<Longrightarrow>
     filter (\<lambda>v. v \<noteq> []) (map js_trim (js_split CHR '','' s)) =
       (case v of FvStr w \<Rightarrow> [w] | FvStrs ws \<Rightarrow> ws | _ \<Rightarrow> [])"
proof (induction v rule: canonical_value.induct)
  case (1 w)
  then show ?case by (auto simp: plain_word_def js_split_no_sep split: if_splits)
next
  case (2 ws)
  have "js_split CHR '','' (js_join '','' ws) = ws"
    by (rule js_split_join) (use 2 in \<open>auto simp: plain_word_def list_all_iff\<close>)
  moreover have "map js_trim ws = ws" "filter (\<lambda>v. v \<noteq> []) ws = ws"
    using 2 by (auto simp: plain_word_def list_all_iff map_idI filter_id_conv)
  ultimately show ?case using 2 by simp
qed auto

lemma parse_filter_param:
  assumes "canonical_value v" and t: "filter_value_text v = Some t"
  shows "parse_param (filter_name (filter_field_str f),
      (if quotes t then json_quote t else t)) (fs, rs) = (AList.update f v fs, rs)"
proof -
  obtain s where s: "filter_value_text v = Some s" "s \<noteq> []" "hd s \<noteq> CHR 0x22"
    using canonical_value_text [OF assms(1)] by blast
  have d: "decodeRouteSearchValue (if quotes t then json_quote t else t) = t"
    using s t by (intro decode_router) simp
  show ?thesis
    using s t assms(1) words_of_text [OF assms]
    by (cases v) (auto simp: d filter_key_name field_str_not_Nil filter_field_find Let_def)
qed

lemma parse_filters:
  "distinct (map fst fs) \<Longrightarrow> list_all (canonical_value \<circ> snd) fs \<Longrightarrow>
   (\<And>f. f \<in> fst ` set fs \<Longrightarrow> f \<notin> fst ` set gs) \<Longrightarrow>
     fold parse_param (router_write quotes (map filter_pair fs)) (gs, rs) = (gs @ fs, rs)"
proof (induction fs arbitrary: gs)
  case (Cons fv fs)
  obtain f v where fv: "fv = (f, v)" by (cases fv)
  obtain t where t: "filter_value_text v = Some t"
    using Cons.prems(2) canonical_value_text fv by force
  have v: "canonical_value v" using Cons.prems(2) fv by simp
  have "parse_param (filter_name (filter_field_str f), if quotes t then json_quote t else t) (gs, rs)
      = (gs @ [fv], rs)"
    using parse_filter_param [OF v t] Cons.prems(3) fv by (simp add: update_new)
  moreover have "fold parse_param (router_write quotes (map filter_pair fs)) (gs @ [fv], rs)
      = ((gs @ [fv]) @ fs, rs)"
    by (rule Cons.IH) (use Cons.prems fv in \<open>auto simp: image_iff\<close>)
  moreover have "filter_pair fv = (filter_name (filter_field_str f), t)"
    by (simp add: filter_pair_def fv t)
  ultimately show ?case by (simp del: parse_param.simps)
qed simp

lemma parse_ranges:
  "distinct (map fst fs) \<Longrightarrow> list_all (canonical_range \<circ> snd) fs \<Longrightarrow>
   (\<And>f. f \<in> fst ` set fs \<Longrightarrow> f \<notin> fst ` set rs) \<Longrightarrow>
     fold parse_param (router_write quotes (map range_pair fs)) (gs, rs) = (gs, rs @ fs)"
proof (induction fs arbitrary: rs)
  case (Cons fv fs)
  obtain f v where fv: "fv = (f, v)" by (cases fv)
  obtain t where t: "v = FvStr t" "t \<noteq> []" "hd t \<noteq> CHR 0x22"
    using Cons.prems(2) canonical_range_text fv by force
  have d: "decodeRouteSearchValue (if quotes t then json_quote t else t) = t"
    using t by (intro decode_router) simp
  have "parse_param (filter_name (range_field_str f), if quotes t then json_quote t else t) (gs, rs)
      = (gs, rs @ [fv])"
    using t Cons.prems(3) fv
    by (simp add: d filter_key_name field_str_not_Nil range_field_find Let_def update_new)
  moreover have "fold parse_param (router_write quotes (map range_pair fs)) (gs, rs @ [fv])
      = (gs, (rs @ [fv]) @ fs)"
    by (rule Cons.IH) (use Cons.prems fv in \<open>auto simp: image_iff\<close>)
  moreover have "range_pair fv = (filter_name (range_field_str f), t)"
    using t by (simp add: range_pair_def fv)
  ultimately show ?case by (simp del: parse_param.simps)
qed simp

lemma filter_key_tail:
  "filter_key ''sort'' = None" "filter_key ''group_by'' = None"
  "filter_key ''page'' = None" "filter_key ''page_size'' = None"
  by (simp_all add: filter_key_def)

lemma parse_tail: "fold parse_param (router_write quotes (tail_pairs q)) acc = acc"
proof -
  have "parse_param (k, w) a = a" if "filter_key k = None" for k w a
    by (cases a) (simp add: that Let_def)
  then show ?thesis
    by (simp add: tail_pairs_def router_write_def filter_key_tail split: option.split)
qed

lemma map_of_filter_pairs:
  "\<not> prefix ''filter['' k \<Longrightarrow>
     map_of (router_write quotes (map filter_pair fs @ map range_pair rs @ tail)) k =
     map_of (router_write quotes tail) k"
proof -
  assume k: "\<not> prefix ''filter['' k"
  have "map_of (router_write quotes (map filter_pair fs)) k = None"
    "map_of (router_write quotes (map range_pair rs)) k = None"
    using k prefix_filter_name
    by (auto simp: map_of_eq_None_iff router_write_def filter_pair_def range_pair_def)
  then show ?thesis by (simp add: router_write_append map_add_def split: option.split)
qed

lemma sort_token_word: "plain_word (sort_token c)"
  by (cases "sc_field c") (simp_all add: plain_word_def sort_token_def js_trim_def is_space_def)

lemma parse_sort_token_word: "parse_sort_token (sort_token c) = [c]"
proof -
  have "js_trim (sort_token c) = sort_token c" "sort_token c \<noteq> []"
    using sort_token_word by (simp_all add: plain_word_def)
  moreover have "\<not> prefix ''-'' (sort_field_str f)" for f by (cases f) simp_all
  ultimately show ?thesis
    by (cases "sc_direction c")
      (simp_all add: parse_sort_token_def Let_def, simp_all add: sort_token_def sort_field_find)
qed

lemma parseSort_tokens:
  assumes "cs \<noteq> []" and t: "t = js_join '','' (map sort_token cs)"
  shows "parseSort (Some (if quotes t then json_quote t else t)) = cs"
proof -
  have h: "t \<noteq> []" "hd t \<noteq> CHR 0x22"
    using assms join_not_Nil [of "map sort_token cs" "'',''"] sort_token_word [of "hd cs"] t
    by (cases cs; simp add: plain_word_def)+
  have "js_split CHR '','' t = map sort_token cs"
    unfolding t using assms sort_token_word by (intro js_split_join) (auto simp: plain_word_def)
  then show ?thesis
    using h by (simp add: parseSort_def decode_router comp_def parse_sort_token_word)
qed

lemma digits_head: "0 \<le> n \<Longrightarrow> show_int n \<noteq> [] \<and> hd (show_int n) \<noteq> CHR 0x22"
  using show_int_nonneg_digits [of n "hd (show_int n)"] by (auto simp: is_digit_def)

lemma number_show_int:
  "0 \<le> n \<Longrightarrow> number_or_null (Some (if quotes (show_int n) then json_quote (show_int n) else show_int n))
     = Fin (of_int n)"
  using digits_head [of n] by (simp add: number_or_null_def decode_router js_Number_show_int)

lemma page_of_text:
  "1 \<le> n \<Longrightarrow> parsePage (map_of (router_write quotes (if 1 < n then [(''page'', show_int n)] else [])) ''page'') = n"
  using number_show_int [of n quotes]
  by (auto simp: parsePage_def) (simp add: number_or_null_def)

lemma page_size_of_text:
  "n \<in> set VALID_PAGE_SIZES \<Longrightarrow>
     parsePageSize (map_of (router_write quotes (if n \<noteq> 20 then [(''page_size'', show_int n)] else [])) ''page_size'')
       = n"
proof (cases "n = 20")
  case True
  then show ?thesis
    by (simp add: parsePageSize_def number_or_null_def VALID_PAGE_SIZES_def DEFAULT_LIST_ITEM_QUERY_def)
next
  case False
  assume n: "n \<in> set VALID_PAGE_SIZES"
  then have "0 \<le> n" "(of_int n :: rat) \<in> set (map of_int VALID_PAGE_SIZES)"
    by (auto simp: VALID_PAGE_SIZES_def)
  with False show ?thesis by (simp add: parsePageSize_def number_show_int)
qed

lemma router_write_if:
  "router_write quotes (if b then ps else []) = (if b then router_write quotes ps else [])"
  by simp

lemma lookup_tail:
  "map_of (router_write quotes (tail_pairs q)) ''sort'' =
     (if q_sort q \<noteq> []
      then Some (let t = js_join '','' (map sort_token (q_sort q)) in if quotes t then json_quote t else t)
      else None)"
  "map_of (router_write quotes (tail_pairs q)) ''group_by'' =
     map_option (\<lambda>g. let t = group_field_str g in if quotes t then json_quote t else t) (q_groupBy q)"
  "map_of (router_write quotes (tail_pairs q)) ''page'' =
     map_of (router_write quotes (if 1 < q_page q then [(''page'', show_int (q_page q))] else [])) ''page''"
  "map_of (router_write quotes (tail_pairs q)) ''page_size'' =
     map_of (router_write quotes (if q_pageSize q \<noteq> 20 then [(''page_size'', show_int (q_pageSize q))] else []))
       ''page_size''"
  by (auto simp: tail_pairs_def router_write_append map_add_def Let_def split: option.split)

lemma group_decode:
  "decodeRouteSearchValue (if quotes (group_field_str g) then json_quote (group_field_str g)
     else group_field_str g) = group_field_str g"
  by (rule decode_router) (cases g; simp)

lemma explore_roundtrip_aux:
  assumes q: "canonical_query q"
  shows "parseQueryFromParams (router_write quotes (serializeQueryToParams q)) = q"
proof -
  let ?fs = "map filter_pair (q_filters q)" and ?rs = "map range_pair (q_rangeFilters q)"
  have f: "fold parse_param (router_write quotes ?fs) ([], []) = (q_filters q, [])"
    using q parse_filters [of "q_filters q" "[]"] by (simp add: canonical_query_def)
  have r: "fold parse_param (router_write quotes ?rs) (q_filters q, []) = (q_filters q, q_rangeFilters q)"
    using q parse_ranges [of "q_rangeFilters q" "[]"] by (simp add: canonical_query_def)
  have folds: "fold parse_param (router_write quotes (?fs @ ?rs @ tail_pairs q)) ([], []) =
      (q_filters q, q_rangeFilters q)"
    by (simp add: router_write_append f r parse_tail)
  have srt: "parseSort (map_of (router_write quotes (tail_pairs q)) ''sort'') = q_sort q"
    using parseSort_tokens [of "q_sort q" _ quotes]
    by (simp add: lookup_tail Let_def parseSort_def)
  have grp: "(case map_option decodeRouteSearchValue (map_of (router_write quotes (tail_pairs q)) ''group_by'') of
        None \<Rightarrow> None
      | Some g \<Rightarrow> if g = [] then None else allowed group_field_str ALLOWED_GROUPS g) = q_groupBy q"
    by (cases "q_groupBy q")
      (simp_all add: lookup_tail Let_def group_decode group_field_find field_str_not_Nil)
  have "\<not> prefix ''filter['' ''sort''" "\<not> prefix ''filter['' ''group_by''"
    "\<not> prefix ''filter['' ''page''" "\<not> prefix ''filter['' ''page_size''" by simp_all
  note look = this [THEN map_of_filter_pairs]
  have "q_page q = parsePage (map_of (router_write quotes (tail_pairs q)) ''page'')"
    "q_pageSize q = parsePageSize (map_of (router_write quotes (tail_pairs q)) ''page_size'')"
    using q by (simp_all only: lookup_tail page_of_text page_size_of_text canonical_query_def)
  then show ?thesis
    unfolding serialize_canonical [OF q] parseQueryFromParams_def look folds Let_def srt grp
    by (cases q) simp
qed

subsection \<open>What is written is read\<close>

lemma keys_params_set: "fst ` set (params_set k v ps) = insert k (fst ` set ps)"
proof (induction ps)
  case (Cons p ps)
  then show ?case by (cases p; cases "fst p = k") force+
qed simp

lemma distinct_params_set: "distinct (map fst ps) \<Longrightarrow> distinct (map fst (params_set k v ps))"
proof (induction ps)
  case (Cons p ps)
  obtain a b where p: "p = (a, b)" by (cases p)
  have "distinct (map fst (filter (\<lambda>p. fst p \<noteq> k) ps))"
    using Cons.prems by (intro distinct_map_filter) simp
  with Cons show ?case by (cases "a = k") (auto simp: p keys_params_set)
qed simp

lemma distinct_fold:
  "(\<And>x ps. distinct (map fst ps) \<Longrightarrow> distinct (map fst (f x ps))) \<Longrightarrow>
     distinct (map fst ps) \<Longrightarrow> distinct (map fst (fold f xs ps))"
  by (induction xs arbitrary: ps) auto

lemma distinct_serialize: "distinct (map fst (serializeQueryToParams q))"
proof -
  have f1: "distinct (map fst (serialize_filter fv ps))" if "distinct (map fst ps)" for fv ps
    using that by (simp add: serialize_filter_def distinct_params_set split: option.split)
  have r1: "distinct (map fst (serialize_range fv ps))" if "distinct (map fst ps)" for fv ps
    using that by (simp add: serialize_range_def distinct_params_set split: option.split)
  have "distinct (map fst (fold serialize_filter (q_filters q) []))"
    by (rule distinct_fold [OF f1]) simp_all
  then have "distinct (map fst (fold serialize_range (q_rangeFilters q)
      (fold serialize_filter (q_filters q) [])))"
    by (intro distinct_fold [OF r1]) simp_all
  then show ?thesis
    by (simp add: serializeQueryToParams_def Let_def distinct_params_set split: option.split)
qed

lemma map_fold_append:
  "distinct (map fst (m @ es)) \<Longrightarrow> fold (\<lambda>(k, v) m. AList.update k v m) es m = m @ es"
proof (induction es arbitrary: m)
  case (Cons e es)
  obtain k v where e: "e = (k, v)" by (cases e)
  have "AList.update k v m = m @ [(k, v)]" using Cons.prems e by (intro update_new) auto
  with Cons e show ?case by simp
qed simp

lemma map_from_distinct: "distinct (map fst es) \<Longrightarrow> map_from es = es"
  by (simp add: map_from_def map_fold_append)

lemma writeQuery_eq: "writeQuery q = serializeQueryToParams q"
  by (simp add: writeQuery_def map_from_distinct distinct_serialize)

lemma number_page_size: "parsePageSize raw \<in> set VALID_PAGE_SIZES"
proof -
  have "\<lfloor>r\<rfloor> \<in> set VALID_PAGE_SIZES" if "r \<in> set (map of_int VALID_PAGE_SIZES)" for r :: rat
    using that by (auto simp: VALID_PAGE_SIZES_def)
  then show ?thesis
    by (auto simp: parsePageSize_def DEFAULT_LIST_ITEM_QUERY_def VALID_PAGE_SIZES_def
        split: js_num.split)
qed

lemma number_page: "1 \<le> parsePage raw"
  by (simp add: parsePage_def le_floor_iff split: js_num.split)

definition parsed_ok :: "parsed_filters \<Rightarrow> bool" where
  "parsed_ok a \<longleftrightarrow> distinct (map fst (fst a)) \<and> distinct (map fst (snd a)) \<and>
     list_all (\<lambda>(f, v). case v of FvStr s \<Rightarrow> s \<noteq> [] | FvStrs ss \<Rightarrow> 2 \<le> length ss | FvUndefined \<Rightarrow> True | _ \<Rightarrow> False)
       (fst a) \<and>
     list_all (\<lambda>(f, v). case v of FvStr s \<Rightarrow> s \<noteq> [] | _ \<Rightarrow> False) (snd a)"

lemma set_update_subset: "set (AList.update k v m) \<subseteq> insert (k, v) (set m)"
  by (induction m) auto

lemma list_all_update: "list_all P m \<Longrightarrow> P (k, v) \<Longrightarrow> list_all P (AList.update k v m)"
  using set_update_subset [of k v m] by (auto simp: list_all_iff)

lemma parse_param_ok: "parsed_ok a \<Longrightarrow> parsed_ok (parse_param kv a)"
proof -
  assume a: "parsed_ok a"
  obtain k w fs rs where e: "kv = (k, w)" "a = (fs, rs)" by (cases kv; cases a)
  let ?text = "decodeRouteSearchValue w"
  define parts where "parts = filter (\<lambda>v. v \<noteq> []) (map js_trim (js_split CHR '','' ?text))"
  have "list_all (\<lambda>v. v \<noteq> []) parts" by (auto simp: parts_def list_all_iff)
  then have val: "case (if 1 < length parts then FvStrs parts
      else (case parts of [] \<Rightarrow> FvUndefined | p # _ \<Rightarrow> FvStr p)) of
      FvStr s \<Rightarrow> s \<noteq> [] | FvStrs ss \<Rightarrow> 2 \<le> length ss | FvUndefined \<Rightarrow> True | _ \<Rightarrow> False"
    by (cases parts) (auto simp: Suc_le_eq)
  show ?thesis
  proof (cases "filter_key k = None \<or> ?text = []")
    case True
    then show ?thesis using a unfolding e by (auto simp: Let_def split: option.split)
  next
    case False
    then obtain field where field: "filter_key k = Some field" "?text \<noteq> []" by auto
    show ?thesis
    proof (cases "allowed filter_field_str ALLOWED_FILTERS field")
      case None
      with field a show ?thesis
        unfolding e
        by (auto simp: parsed_ok_def Let_def distinct_update intro!: list_all_update split: option.split)
    next
      case (Some f)
      have "parse_param (k, w) (fs, rs) = (AList.update f (if 1 < length parts then FvStrs parts
          else (case parts of [] \<Rightarrow> FvUndefined | p # _ \<Rightarrow> FvStr p)) fs, rs)"
        by (simp only: parse_param.simps Let_def field option.case if_False Some parts_def)
      then show ?thesis
        using a val unfolding e
        by (simp only: parsed_ok_def fst_conv snd_conv distinct_update)
          (simp add: list_all_update)
    qed
  qed
qed

lemma parse_params_ok: "parsed_ok a \<Longrightarrow> parsed_ok (fold parse_param ps a)"
proof (induction ps arbitrary: a)
  case (Cons p ps)
  show ?case
    using Cons.IH [OF parse_param_ok [OF Cons.prems]] by (simp del: parse_param.simps)
qed simp

subsection \<open>Properties\<close>

text \<open>Whatever the address bar holds, the query read from it is well formed: the page is at
  least 1, the page size is one of the offered sizes, a field has at most one filter and at most
  one range filter, no filter is the empty string, and a filter list has at least two entries.\<close>

theorem parseQueryFromParams_wf:
  "1 \<le> q_page (parseQueryFromParams params) \<and>
   q_pageSize (parseQueryFromParams params) \<in> set VALID_PAGE_SIZES \<and>
   parsed_ok (q_filters (parseQueryFromParams params), q_rangeFilters (parseQueryFromParams params))"
proof -
  obtain fs rs where f: "fold parse_param params ([], []) = (fs, rs)"
    by (cases "fold parse_param params ([], [])")
  have "parsed_ok (fold parse_param params ([], []))"
    by (rule parse_params_ok) (simp add: parsed_ok_def)
  then show ?thesis
    by (simp add: f parseQueryFromParams_def Let_def number_page number_page_size)
qed

text \<open>C26. The address is a faithful copy of a query in canonical form: the query that
  \<open>writeQuery\<close> serialises is the query that is parsed back, whichever values the router writes
  as JSON strings.\<close>

theorem explore_roundtrip:
  assumes "canonical_query q"
  shows "parseQueryFromParams (router_write quotes (writeQuery q)) = q"
  unfolding writeQuery_eq by (rule explore_roundtrip_aux [OF assms])

definition sample_query :: list_item_query where
  "sample_query =
     \<lparr>q_filters = [(FfContentType, FvStrs [''MOVIE'', ''BOOK'']), (FfAddedBy, FvStr ''7'')],
      q_rangeFilters = [(RfListRatingGte, FvStr ''4'')],
      q_sort = [\<lparr>sc_field = SfListRating, sc_direction = Desc\<rparr>, \<lparr>sc_field = SfDisplayTitle, sc_direction = Asc\<rparr>],
      q_groupBy = Some GfContentType, q_page = 3, q_pageSize = 50\<rparr>"

lemma sample_query_canonical: "canonical_query sample_query"
  by (simp add: canonical_query_def sample_query_def plain_word_def js_trim_def is_space_def
      VALID_PAGE_SIZES_def)

theorem explore_roundtrip_witness:
  "parseQueryFromParams (router_write (\<lambda>v. v = ''7'') (writeQuery sample_query)) = sample_query"
  by (rule explore_roundtrip [OF sample_query_canonical])

lemma list_all_delete: "list_all P m \<Longrightarrow> list_all P (AList.delete k m)"
  by (induction m) auto

lemma canonical_next_filters:
  assumes "canonical_query q" "canonical_value v"
  shows "canonical_query (q\<lparr>q_filters := next_filters (q_filters q) f (Some v), q_page := 1\<rparr>)"
    "canonical_query (q\<lparr>q_filters := next_filters (q_filters q) f None, q_page := 1\<rparr>)"
  using assms
  by (auto simp: canonical_query_def next_filters_def distinct_update distinct_delete VALID_PAGE_SIZES_def
      intro!: list_all_update dest: list_all_delete)

text \<open>The setters of the hook do what they say, seen through the address: the query read
  back differs from the current one in the field set and, for all but the page itself, in the
  page, which returns to 1; resetting keeps only the page size.\<close>

theorem explore_setters:
  assumes "canonical_query q" and "pageSize \<in> set VALID_PAGE_SIZES" and "canonical_value v"
  shows "parseQueryFromParams (router_write quotes (explore_setPage q n)) = q\<lparr>q_page := max 1 n\<rparr> \<and>
    parseQueryFromParams (router_write quotes (explore_setPageSize q pageSize)) =
      q\<lparr>q_pageSize := pageSize, q_page := 1\<rparr> \<and>
    parseQueryFromParams (router_write quotes (explore_setSort q srt)) = q\<lparr>q_sort := srt, q_page := 1\<rparr> \<and>
    parseQueryFromParams (router_write quotes (explore_setGroupBy q grp)) =
      q\<lparr>q_groupBy := grp, q_page := 1\<rparr> \<and>
    parseQueryFromParams (router_write quotes (explore_setFilter q f (Some v))) =
      q\<lparr>q_filters := AList.update f v (q_filters q), q_page := 1\<rparr> \<and>
    parseQueryFromParams (router_write quotes (explore_setFilter q f None)) =
      q\<lparr>q_filters := AList.delete f (q_filters q), q_page := 1\<rparr> \<and>
    parseQueryFromParams (router_write quotes (resetExploration q)) =
      DEFAULT_LIST_ITEM_QUERY\<lparr>q_pageSize := q_pageSize q\<rparr>"
proof -
  have c: "canonical_query (q\<lparr>q_page := max 1 n\<rparr>)"
    "canonical_query (q\<lparr>q_pageSize := pageSize, q_page := 1\<rparr>)"
    "canonical_query (q\<lparr>q_sort := srt, q_page := 1\<rparr>)"
    "canonical_query (q\<lparr>q_groupBy := grp, q_page := 1\<rparr>)"
    "canonical_query (DEFAULT_LIST_ITEM_QUERY\<lparr>q_pageSize := q_pageSize q\<rparr>)"
    using assms by (simp_all add: canonical_query_def DEFAULT_LIST_ITEM_QUERY_def)
  have nf: "next_filters (q_filters q) f (Some v) = AList.update f v (q_filters q)"
    using assms(3) by (cases v) (auto simp: next_filters_def plain_word_def)
  have nd: "next_filters (q_filters q) f None = AList.delete f (q_filters q)"
    by (simp add: next_filters_def)
  note canonical_next_filters [OF assms(1,3), of f, unfolded nf nd]
  then show ?thesis
    unfolding explore_setPage_def explore_setPageSize_def explore_setSort_def explore_setGroupBy_def
      explore_setFilter_def resetExploration_def writeQuery_eq nf nd
    using c by (simp only: explore_roundtrip_aux)
qed

theorem explore_setters_witness:
  "parseQueryFromParams (router_write (\<lambda>v. True) (explore_setPage sample_query 9)) = sample_query\<lparr>q_page := 9\<rparr>"
proof -
  have "(20 :: page_size) \<in> set VALID_PAGE_SIZES" "canonical_value (FvStr ''7'')"
    by (simp_all add: VALID_PAGE_SIZES_def plain_word_def js_trim_def is_space_def)
  from explore_setters [OF sample_query_canonical this, of "\<lambda>v. True" 9] show ?thesis by simp
qed

end
