(* ===== verification/ListCache.thy ===== *)
theory ListCache
  imports ListPaging ListAccess ExploreQuery
begin

text \<open>
  The cached data of a list page (\<open>ListDetailPage/hooks/useListData.ts\<close> and
  \<open>useDataStrategy.ts\<close>).  The state is the part of the query cache that the page reads under its
  keys: the list, the current page of items, the full list of items when it was loaded, and the
  statistics.  A setter applies an update to its entry; \<open>ensureFullItems\<close> and the refetches get
  the answer of the server as an argument.
\<close>

record list_cache =
  lc_list :: "user_list option"
  lc_page :: "paginated_list_item_list option"
  lc_full :: "list_item list option"
  lc_stats :: "list_stats_response option"

subsection \<open>Setters\<close>

definition setList :: "(user_list option \<Rightarrow> user_list option) \<Rightarrow> list_cache \<Rightarrow> list_cache" where
  "setList upd c = c\<lparr>lc_list := upd (lc_list c)\<rparr>"

definition setPageItems :: "(list_item list \<Rightarrow> list_item list) \<Rightarrow> list_cache \<Rightarrow> list_cache" where
  "setPageItems upd c =
     c\<lparr>lc_page := map_option (\<lambda>p. p\<lparr>pli_results := upd (pli_results p)\<rparr>) (lc_page c)\<rparr>"

definition setFullItems :: "(list_item list option \<Rightarrow> list_item list option) \<Rightarrow> list_cache \<Rightarrow> list_cache" where
  "setFullItems upd c = c\<lparr>lc_full := upd (lc_full c)\<rparr>"

definition setStats ::
  "(list_stats_response option \<Rightarrow> list_stats_response option) \<Rightarrow> list_cache \<Rightarrow> list_cache" where
  "setStats upd c = c\<lparr>lc_stats := upd (lc_stats c)\<rparr>"

definition setTotalItemCount :: "(int \<Rightarrow> int) \<Rightarrow> list_cache \<Rightarrow> list_cache" where
  "setTotalItemCount upd c =
     c\<lparr>lc_page := map_option (\<lambda>p.
         let m = pli_metadata p; nextCount = upd (pm_count m) in
         p\<lparr>pli_metadata := m\<lparr>pm_count := nextCount,
             pm_total_pages := max 1 (ceil_div nextCount (pm_page_size m))\<rparr>\<rparr>) (lc_page c)\<rparr>"

text \<open>The items that \<open>ensureFullItems\<close> returns: the cached ones, or the server's answer.\<close>

definition ensureFullItems :: "list_item list option \<Rightarrow> list_cache \<Rightarrow> list_item list \<times> list_cache" where
  "ensureFullItems answer c =
     (case lc_full c of
        Some items \<Rightarrow> (items, c)
      | None \<Rightarrow> (nullish answer [], c\<lparr>lc_full := answer\<rparr>))"

definition pageItems :: "list_cache \<Rightarrow> list_item list" where
  "pageItems c = nullish (map_option pli_results (lc_page c)) []"

definition totalItemCount :: "list_cache \<Rightarrow> int" where
  "totalItemCount c = nullish (map_option (pm_count \<circ> pli_metadata) (lc_page c)) 0"

subsection \<open>Updates after the actions\<close>

definition setCachedItems :: "(list_item list \<Rightarrow> list_item list) \<Rightarrow> list_cache \<Rightarrow> list_cache" where
  "setCachedItems upd c = setFullItems (map_option upd) (setPageItems upd c)"

definition onListUpdated ::
  "string \<Rightarrow> string option \<Rightarrow> list_type option \<Rightarrow> list_visibility option \<Rightarrow> list_cache \<Rightarrow> list_cache" where
  "onListUpdated name description listType visibility c =
     setList (map_option (\<lambda>l. l\<lparr>ul_name := name, ul_description := description,
       ul_list_type := nullish listType (ul_list_type l),
       ul_visibility := nullish visibility (ul_visibility l)\<rparr>)) c"

definition item_is_completed :: "bool \<Rightarrow> list_item \<Rightarrow> bool" where
  "item_is_completed personal item =
     (if personal
      then map_option uct_status (cid_current_user_tracking (li_content_item item)) = Some Completed
      else li_context_status item = Some COMPLETED)"

definition deleted_stats :: "bool \<Rightarrow> list_item \<Rightarrow> list_stats_response \<Rightarrow> list_stats_response" where
  "deleted_stats personal item s =
     (let itemIsCompleted = item_is_completed personal item;
          itemIsPending = (if personal then \<not> itemIsCompleted
                           else li_context_status item \<noteq> Some COMPLETED) in
      s\<lparr>ls_total_items := max 0 (ls_total_items s - 1),
        ls_completed_items := (if itemIsCompleted then max 0 (ls_completed_items s - 1)
                               else ls_completed_items s),
        ls_pending_items := (if itemIsPending then max 0 (ls_pending_items s - 1)
                             else ls_pending_items s)\<rparr>)"

text \<open>The refetch of the current page that follows is the server's answer, when it comes.\<close>

definition onItemDeleted :: "list_item \<Rightarrow> list_cache \<Rightarrow> list_cache" where
  "onItemDeleted item c =
     (let personal = (map_option ul_list_type (lc_list c) = Some PERSONAL) in
      setStats (map_option (deleted_stats personal item)) (setTotalItemCount (\<lambda>n. max 0 (n - 1)) c))"

definition status_stats :: "item_status \<Rightarrow> item_status \<Rightarrow> list_stats_response \<Rightarrow> list_stats_response" where
  "status_stats previousStatus nextStatus s =
     (if previousStatus = nextStatus then s
      else s\<lparr>ls_completed_items :=
               max 0 (ls_completed_items s + (if nextStatus = COMPLETED then 1 else -1)),
             ls_pending_items :=
               max 0 (ls_pending_items s + (if nextStatus = PENDING then 1 else -1))\<rparr>)"

definition onItemStatusUpdated :: "item_status \<Rightarrow> item_status \<Rightarrow> list_cache \<Rightarrow> list_cache" where
  "onItemStatusUpdated previousStatus nextStatus c =
     setStats (map_option (status_stats previousStatus nextStatus)) c"

definition onReorderSaved :: "list_item_query \<Rightarrow> list_item list \<Rightarrow> list_cache \<Rightarrow> list_cache" where
  "onReorderSaved query items c =
     (let pageStart = (q_page query - 1) * q_pageSize query; pageEnd = pageStart + q_pageSize query in
      setPageItems (\<lambda>_. js_slice pageStart pageEnd items) (setFullItems (\<lambda>_. Some items) c))"

subsection \<open>Derived values\<close>

definition cache_totalPages :: "list_item_query \<Rightarrow> list_cache \<Rightarrow> int" where
  "cache_totalPages query c =
     nullish (map_option (pm_total_pages \<circ> pli_metadata) (lc_page c))
       (max 1 (ceil_div (totalItemCount c) (q_pageSize query)))"

definition completedCount :: "list_cache \<Rightarrow> int" where
  "completedCount c = nullish (map_option ls_completed_items (lc_stats c)) 0"

definition pendingCount :: "list_cache \<Rightarrow> int" where
  "pendingCount c = nullish (map_option ls_pending_items (lc_stats c)) 0"

text \<open>\<open>Math.round(x)\<close> is the floor of \<open>x + 1/2\<close>.\<close>

definition js_round :: "rat \<Rightarrow> int" where
  "js_round x = \<lfloor>x + 1 / 2\<rfloor>"

definition completionRate :: "list_cache \<Rightarrow> int" where
  "completionRate c =
     (if 0 < totalItemCount c
      then js_round (of_int (completedCount c) / of_int (totalItemCount c) * 100) else 0)"

subsection \<open>The statistics count the items\<close>

definition count_items :: "bool \<Rightarrow> bool \<Rightarrow> list_item list \<Rightarrow> int" where
  "count_items personal done items =
     int (length (filter (\<lambda>i. item_is_completed personal i = done) items))"

definition stats_count :: "bool \<Rightarrow> list_item list \<Rightarrow> list_stats_response \<Rightarrow> bool" where
  "stats_count personal items s \<longleftrightarrow>
     ls_total_items s = int (length items) \<and>
     ls_completed_items s = count_items personal True items \<and>
     ls_pending_items s = count_items personal False items"

lemma distinct_id_filter:
  "distinct (map li_id items) \<Longrightarrow> item \<in> set items \<Longrightarrow>
     length (filter (\<lambda>i. P i) items) =
     length (filter (\<lambda>i. P i) (filter (\<lambda>i. li_id i \<noteq> li_id item) items)) + (if P item then 1 else 0)"
proof (induction items)
  case (Cons i items)
  show ?case
  proof (cases "i = item")
    case True
    with Cons.prems have "filter (\<lambda>i. li_id i \<noteq> li_id item) items = items"
      by (auto simp: filter_id_conv image_iff)
    with True show ?thesis by simp
  next
    case False
    with Cons.prems have "item \<in> set items" "li_id i \<noteq> li_id item" by (auto simp: image_iff)
    with Cons show ?thesis by auto
  qed
qed simp

lemma deleted_stats_count:
  assumes "stats_count personal items s" "distinct (map li_id items)" "item \<in> set items"
  shows "stats_count personal (filter (\<lambda>i. li_id i \<noteq> li_id item) items) (deleted_stats personal item s)"
proof -
  note len = distinct_id_filter [OF assms(2,3)]
  have pend: "(if personal then \<not> item_is_completed personal item
      else li_context_status item \<noteq> Some COMPLETED) = (\<not> item_is_completed personal item)"
    by (simp add: item_is_completed_def)
  show ?thesis
    using assms(1) len [of "\<lambda>_. True"] len [of "item_is_completed personal"]
      len [of "\<lambda>i. \<not> item_is_completed personal i"]
    unfolding stats_count_def deleted_stats_def Let_def pend count_items_def
    by (auto simp: max_def)
qed

end
