(* ===== verification/ListViewer.thy ===== *)
theory ListViewer
  imports ListCache
begin

text \<open>
  What the list page shows of its items: titles (\<open>lib/utils/titleUtils.ts\<close>,
  \<open>ListItemCard/utils.ts\<close>), the groups of the current page (\<open>hooks/useViewerState.ts\<close>), the
  search that navigates to an item (\<open>hooks/useListNavigationSearch.ts\<close>), the dialogs
  (\<open>hooks/useListModals.ts\<close>) and the controller that ties them to the query in the address
  (\<open>hooks/useListDetailController.ts\<close>).
\<close>

subsection \<open>Titles\<close>

definition DEFAULT_TITLE :: string where "DEFAULT_TITLE = ''Untitled''"

definition SEASON_TITLE_SEPARATOR :: string where "SEASON_TITLE_SEPARATOR = '': ''"

text \<open>\<open>text.trim().replace(/\s+/g, " ").toLowerCase()\<close>.\<close>

fun collapse_spaces :: "string \<Rightarrow> string" where
  "collapse_spaces [] = []"
| "collapse_spaces (c # s) =
     (if is_space c
      then (case s of
              d # _ \<Rightarrow> if is_space d then collapse_spaces s else CHR '' '' # collapse_spaces s
            | [] \<Rightarrow> '' '')
      else c # collapse_spaces s)"

definition normalizeText :: "string \<Rightarrow> string" where
  "normalizeText text = js_lower (collapse_spaces (js_trim text))"

text \<open>
  The characters of \<open>/^[-\<dots>:\s]+/\<close>, where the two long dashes are three bytes each.
\<close>

fun drop_separators :: "string \<Rightarrow> string" where
  "drop_separators (a # b # c # s) =
     (if a = CHR ''-'' \<or> a = CHR '':'' \<or> is_space a then drop_separators (b # c # s)
      else if a = CHR 0xE2 \<and> b = CHR 0x80 \<and> (c = CHR 0x93 \<or> c = CHR 0x94) then drop_separators s
      else a # b # c # s)"
| "drop_separators (a # s) =
     (if a = CHR ''-'' \<or> a = CHR '':'' \<or> is_space a then drop_separators s else a # s)"
| "drop_separators [] = []"

definition stripPrefix :: "string \<Rightarrow> string \<Rightarrow> string" where
  "stripPrefix v start =
     (if \<not> prefix (normalizeText start) (normalizeText v) then v
      else js_trim (drop_separators (drop (length start) v)))"

definition formatSeasonLocalTitle :: "string option \<Rightarrow> int option \<Rightarrow> string option \<Rightarrow> string" where
  "formatSeasonLocalTitle seasonTitle seasonNumber tvShowName =
     (let seasonLabel = (case seasonNumber of None \<Rightarrow> [] | Some n \<Rightarrow> ''Season '' @ show_int n);
          title = (case seasonTitle of None \<Rightarrow> [] | Some t \<Rightarrow> js_trim t);
          specificTitle =
            (if truthy_str tvShowName \<and> prefix (normalizeText (the tvShowName)) (normalizeText title)
             then stripPrefix title (the tvShowName) else title) in
      if seasonLabel = [] then or_str (Some specificTitle) DEFAULT_TITLE
      else if specificTitle = [] then seasonLabel
      else
        let specificTitle =
          (if prefix (normalizeText seasonLabel) (normalizeText specificTitle)
           then stripPrefix specificTitle seasonLabel else specificTitle) in
        if specificTitle = [] \<or>
           (truthy_str tvShowName \<and> normalizeText specificTitle = normalizeText (the tvShowName))
        then seasonLabel
        else specificTitle)"

definition formatSeasonTitle :: "string option \<Rightarrow> string option \<Rightarrow> int option \<Rightarrow> string" where
  "formatSeasonTitle tvShowName seasonTitle seasonNumber =
     (let localTitle = formatSeasonLocalTitle seasonTitle seasonNumber tvShowName;
          showName = map_option js_trim tvShowName in
      if truthy_str showName then the showName @ SEASON_TITLE_SEPARATOR @ localTitle else localTitle)"

definition getListItemTitle :: "list_item \<Rightarrow> string" where
  "getListItemTitle item =
     (let contentItem = li_content_item item; sourceData = cid_source_data contentItem in
      case sourceData of
        SeasonData d \<Rightarrow>
          if cid_content_type contentItem = SEASON
          then formatSeasonTitle (sd_tv_show_name d) (Some (sd_title d)) (Some (sd_season_number d))
          else or_str (Some (sd_title d)) ''Untitled''
      | _ \<Rightarrow> or_str (Some (sdata_title sourceData)) ''Untitled'')"

fun original_title :: "source_data \<Rightarrow> string option" where
  "original_title (MovieData d) = Some (mov_original_title d)"
| "original_title (TVShowData d) = Some (tv_original_title d)"
| "original_title _ = None"

fun source_authors :: "source_data \<Rightarrow> author list option" where
  "source_authors (MovieData d) = mov_authors d"
| "source_authors (TVShowData d) = tv_authors d"
| "source_authors (AlbumData d) = alb_authors d"
| "source_authors (GameData d) = gam_authors d"
| "source_authors (BookData d) = bk_authors d"
| "source_authors (SeasonData d) = None"

definition getListItemSubtitle :: "list_item \<Rightarrow> string" where
  "getListItemSubtitle item =
     (let contentItem = li_content_item item; sourceData = cid_source_data contentItem in
      if cid_content_type contentItem = SEASON then []
      else if truthy_str (original_title sourceData) \<and> the (original_title sourceData) \<noteq> sdata_title sourceData
        then the (original_title sourceData)
      else if (cid_content_type contentItem = ALBUM \<or> cid_content_type contentItem = BOOK) \<and>
              source_authors sourceData \<noteq> None
        then js_join '', '' (map au_name (the (source_authors sourceData)))
      else [])"

subsection \<open>Groups of the page\<close>

text \<open>
  The artists of an album are not in the declared type of its details; they are read from the
  answer of the server: \<open>artists item\<close> is \<open>source_data.artists\<close>, each a name or an object with
  an optional name.
\<close>

datatype artist = ArtistName string | ArtistObject "string option"

type_synonym artists_of = "list_item \<Rightarrow> artist list option"

definition resolveGroupKey :: "artists_of \<Rightarrow> list_item \<Rightarrow> group_by_field \<Rightarrow> string" where
  "resolveGroupKey artists item groupBy =
     (case groupBy of
        GfContextStatus \<Rightarrow> (case li_context_status item of None \<Rightarrow> [] | Some s \<Rightarrow> item_status_str s)
      | GfTrackingStatus \<Rightarrow>
          (case cid_current_user_tracking (li_content_item item) of
             None \<Rightarrow> [] | Some t \<Rightarrow> tracking_status_str (uct_status t))
      | GfContentType \<Rightarrow> content_type_str (cid_content_type (li_content_item item))
      | GfSourceApi \<Rightarrow> source_api_str (cid_source_api (li_content_item item))
      | GfAddedBy \<Rightarrow> show_int (usr_id (li_added_by item))
      | GfArtist \<Rightarrow>
          (case artists item of
             Some (ArtistName n # _) \<Rightarrow> n
           | Some (ArtistObject n # _) \<Rightarrow> nullish n []
           | _ \<Rightarrow> []))"

text \<open>The loop over the items: the buckets and the order, extended by the keys not seen yet.\<close>

definition bucket_item ::
  "(list_item \<Rightarrow> string) \<Rightarrow> list_item \<Rightarrow> (string \<times> list_item list) list \<times> string list
    \<Rightarrow> (string \<times> list_item list) list \<times> string list" where
  "bucket_item key item st =
     (case st of (bs, order) \<Rightarrow>
        let k = key item;
            (bs, order) =
              (if map_has bs k then (bs, order) else (AList.update k [] bs, order @ [k])) in
        (AList.update k (nullish (map_of bs k) [] @ [item]) bs, order))"

definition viewer_group ::
  "group_meta list \<Rightarrow> (string \<times> list_item list) list \<Rightarrow> string \<Rightarrow> list_item grouped_items" where
  "viewer_group groupsMeta bs key =
     (let bucket = nullish (map_of bs key) [];
          label = nullish (map_of (map_from (map (\<lambda>g. (gm_key g, gm_label g)) groupsMeta)) key)
            (or_str (Some key) ''Sin valor'');
          globalCount = nullish (map_of (map_from (map (\<lambda>g. (gm_key g, gm_count_global g)) groupsMeta)) key)
            (int (length bucket)) in
      Grouped (or_str (Some key) ''__none__'') label bucket globalCount [] None)"

definition unique_values :: "string list \<Rightarrow> string list" where
  "unique_values ks = map fst (map_from (map (\<lambda>k. (k, ())) ks))"

definition initial_order :: "(list_item \<Rightarrow> string) \<Rightarrow> list_item list \<Rightarrow> group_meta list \<Rightarrow> string list" where
  "initial_order key items groupsMeta =
     (if groupsMeta \<noteq> [] then map gm_key groupsMeta else unique_values (map key items))"

definition buildGroupedItems ::
  "artists_of \<Rightarrow> list_item list \<Rightarrow> pagination_metadata option \<Rightarrow> group_by_field \<Rightarrow> list_item grouped_items list" where
  "buildGroupedItems artists items metadata groupBy =
     (let groupsMeta = nullish (Option.bind metadata pm_groups) [];
          key = (\<lambda>item. resolveGroupKey artists item groupBy);
          order = initial_order key items groupsMeta;
          (bs, order) = fold (bucket_item key) items (map_from (map (\<lambda>k. (k, [])) order), order) in
      filter (\<lambda>g. gitems g \<noteq> []) (map (viewer_group groupsMeta bs) order))"

subsection \<open>The viewer's state\<close>

datatype view_mode = ListMode | GalleryMode

record viewer_state =
  vs_viewMode :: view_mode
  vs_highlighted :: "int option"

definition viewer_init :: viewer_state where
  "viewer_init = \<lparr>vs_viewMode = ListMode, vs_highlighted = None\<rparr>"

definition viewer_groups ::
  "artists_of \<Rightarrow> list_item list \<Rightarrow> pagination_metadata option \<Rightarrow> group_by_field option \<Rightarrow> bool
    \<Rightarrow> list_item grouped_items list option" where
  "viewer_groups artists pgItems pageMetadata groupBy isReorderMode =
     (case groupBy of
        None \<Rightarrow> None
      | Some g \<Rightarrow> if isReorderMode then None else Some (buildGroupedItems artists pgItems pageMetadata g))"

text \<open>The timer of the highlight: when it fires, the highlight is gone.\<close>

definition highlight_timeout :: "bool \<Rightarrow> viewer_state \<Rightarrow> viewer_state" where
  "highlight_timeout isReorderMode st =
     (if \<not> truthy_int (vs_highlighted st) \<or> isReorderMode then st else st\<lparr>vs_highlighted := None\<rparr>)"

subsection \<open>Searching the list\<close>

record search_result =
  sr_id :: int
  sr_title :: string
  sr_subtitle :: string
  sr_listOrder :: int
  sr_pageIndex :: "int option"

definition MAX_RESULTS :: nat where "MAX_RESULTS = 8"

definition matches_query :: "string \<Rightarrow> list_item \<Rightarrow> bool" where
  "matches_query query item \<longleftrightarrow>
     js_includes (js_lower (getListItemTitle item @ '' '' @ getListItemSubtitle item)) query"

definition result_of :: "bool \<Rightarrow> nat \<times> list_item \<Rightarrow> search_result" where
  "result_of isFullDataset p =
     (case p of (index, item) \<Rightarrow>
        \<lparr>sr_id = li_id item, sr_title = getListItemTitle item, sr_subtitle = getListItemSubtitle item,
         sr_listOrder = li_list_order item,
         sr_pageIndex = (if isFullDataset then Some (int index) else None)\<rparr>)"

text \<open>The loop, over the items with their positions, stops after \<open>MAX_RESULTS\<close> results.\<close>

fun search_loop :: "string \<Rightarrow> bool \<Rightarrow> (nat \<times> list_item) list \<Rightarrow> search_result list \<Rightarrow> search_result list" where
  "search_loop query isFull [] results = results"
| "search_loop query isFull (p # ps) results =
     (if \<not> matches_query query (snd p) then search_loop query isFull ps results
      else
        let results' = results @ [result_of isFull p] in
        if length results' = MAX_RESULTS then results' else search_loop query isFull ps results')"

definition searchItems :: "list_item list \<Rightarrow> string \<Rightarrow> bool \<Rightarrow> search_result list" where
  "searchItems items query isFullDataset =
     (if query = [] then [] else search_loop query isFullDataset (enumerate 0 items) [])"

record search_state =
  nav_query :: string
  nav_isLoading :: bool
  nav_hasSearchedAll :: bool

definition search_init :: search_state where
  "search_init = \<lparr>nav_query = [], nav_isLoading = False, nav_hasSearchedAll = False\<rparr>"

definition deferredQuery :: "search_state \<Rightarrow> string" where
  "deferredQuery st = js_lower (js_trim (nav_query st))"

definition search_results :: "list_item list \<Rightarrow> list_item list option \<Rightarrow> search_state \<Rightarrow> search_result list" where
  "search_results pgItems fullItems st =
     (if deferredQuery st = [] then []
      else if nav_hasSearchedAll st \<and> fullItems \<noteq> None then searchItems (the fullItems) (deferredQuery st) True
      else searchItems pgItems (deferredQuery st) False)"

definition canSearchAll :: "list_item list \<Rightarrow> list_item list option \<Rightarrow> search_state \<Rightarrow> bool" where
  "canSearchAll pgItems fullItems st \<longleftrightarrow>
     0 < length (deferredQuery st) \<and> \<not> nav_hasSearchedAll st \<and> search_results pgItems fullItems st = []"

definition searchAll_begin :: "search_state \<Rightarrow> search_state" where
  "searchAll_begin st = st\<lparr>nav_isLoading := True\<rparr>"

text \<open>After \<open>ensureFullItems\<close> returned (\<open>ok\<close>) or threw.\<close>

definition searchAll_finish :: "bool \<Rightarrow> search_state \<Rightarrow> search_state" where
  "searchAll_finish ok st =
     (if ok then st\<lparr>nav_hasSearchedAll := True, nav_isLoading := False\<rparr> else st\<lparr>nav_isLoading := False\<rparr>)"

definition clearQuery :: "search_state \<Rightarrow> search_state" where
  "clearQuery st = st\<lparr>nav_query := [], nav_hasSearchedAll := False\<rparr>"

definition handleSetQuery :: "string \<Rightarrow> search_state \<Rightarrow> search_state" where
  "handleSetQuery v st =
     (let st' = st\<lparr>nav_query := v\<rparr> in if js_trim v = [] then st'\<lparr>nav_hasSearchedAll := False\<rparr> else st')"

subsection \<open>Dialogs\<close>

record list_modals =
  lm_isEditModalOpen :: bool
  lm_isDeleteListDialogOpen :: bool
  lm_deleteItemId :: "int option"
  lm_ratingModalItem :: "list_item option"
  lm_isRatingModalOpen :: bool

definition modals_init :: list_modals where
  "modals_init =
     \<lparr>lm_isEditModalOpen = False, lm_isDeleteListDialogOpen = False, lm_deleteItemId = None,
      lm_ratingModalItem = None, lm_isRatingModalOpen = False\<rparr>"

definition openEditModal :: "list_modals \<Rightarrow> list_modals" where
  "openEditModal m = m\<lparr>lm_isEditModalOpen := True\<rparr>"

definition closeEditModal :: "list_modals \<Rightarrow> list_modals" where
  "closeEditModal m = m\<lparr>lm_isEditModalOpen := False\<rparr>"

definition openDeleteListDialog :: "list_modals \<Rightarrow> list_modals" where
  "openDeleteListDialog m = m\<lparr>lm_isDeleteListDialogOpen := True\<rparr>"

definition closeDeleteListDialog :: "list_modals \<Rightarrow> list_modals" where
  "closeDeleteListDialog m = m\<lparr>lm_isDeleteListDialogOpen := False\<rparr>"

definition openDeleteItemDialog :: "int \<Rightarrow> list_modals \<Rightarrow> list_modals" where
  "openDeleteItemDialog itemId m = m\<lparr>lm_deleteItemId := Some itemId\<rparr>"

definition closeDeleteItemDialog :: "list_modals \<Rightarrow> list_modals" where
  "closeDeleteItemDialog m = m\<lparr>lm_deleteItemId := None\<rparr>"

definition openRatingModal :: "list_item \<Rightarrow> list_modals \<Rightarrow> list_modals" where
  "openRatingModal item m = m\<lparr>lm_ratingModalItem := Some item, lm_isRatingModalOpen := True\<rparr>"

definition closeRatingModal :: "list_modals \<Rightarrow> list_modals" where
  "closeRatingModal m = m\<lparr>lm_ratingModalItem := None, lm_isRatingModalOpen := False\<rparr>"

subsection \<open>The controller\<close>

text \<open>The effect that keeps the page in range: the navigation it starts, if any.\<close>

definition clamp_page :: "list_item_query \<Rightarrow> int \<Rightarrow> search_params option" where
  "clamp_page query totalPages =
     (if totalPages < q_page query then Some (explore_setPage query totalPages) else None)"

text \<open>\<open>query.filters.f !== undefined\<close>.\<close>

definition hasPersonalListContextQuery :: "list_item_query \<Rightarrow> bool" where
  "hasPersonalListContextQuery query \<longleftrightarrow>
     map_of (q_filters query) FfContextStatus \<notin> {None, Some FvUndefined} \<or>
     map_of (q_rangeFilters query) RfContextCompletedAtGte \<notin> {None, Some FvUndefined} \<or>
     map_of (q_rangeFilters query) RfContextCompletedAtLte \<notin> {None, Some FvUndefined} \<or>
     q_groupBy query = Some GfContextStatus \<or>
     list_ex (\<lambda>c. sc_field c = SfContextStatus \<or> sc_field c = SfContextCompletedAt) (q_sort query)"

text \<open>The effect that drops a query about list-local completion on a personal list.\<close>

definition reset_personal :: "user_list option \<Rightarrow> list_item_query \<Rightarrow> search_params option" where
  "reset_personal lst query =
     (if map_option ul_list_type lst = Some PERSONAL \<and> hasPersonalListContextQuery query
      then Some (resetExploration query) else None)"

definition shouldInviteToRate :: "int option \<Rightarrow> list_item \<Rightarrow> bool" where
  "shouldInviteToRate currentUser item =
     (if currentUser = None \<or>
         map_option uct_status (cid_current_user_tracking (li_content_item item)) \<noteq> Some Completed
      then False
      else \<not> list_ex (\<lambda>r. mr_user_id r = currentUser) (li_member_ratings item))"

text \<open>Choosing a search result: the navigation, the search and the viewer after it.\<close>

definition handleSearchSelect ::
  "list_item_query \<Rightarrow> search_result \<Rightarrow> search_state \<Rightarrow> viewer_state
    \<Rightarrow> search_params option \<times> search_state \<times> viewer_state" where
  "handleSearchSelect query result search viewer =
     (map_option (\<lambda>i. explore_setPage query (i div q_pageSize query + 1)) (sr_pageIndex result),
      clearQuery search, viewer\<lparr>vs_highlighted := Some (sr_id result)\<rparr>)"

definition isSortPureCanonical :: "list_item_query \<Rightarrow> bool" where
  "isSortPureCanonical query \<longleftrightarrow>
     \<not> 0 < length (q_sort query) \<or> (length (q_sort query) = 1 \<and> sc_field (hd (q_sort query)) = SfListOrder)"

definition reorderDisabledReason :: "list_item_query \<Rightarrow> string option" where
  "reorderDisabledReason query =
     (if \<not> isQueryEmpty query then Some ''Clear filters and grouping to edit the canonical order.''
      else if \<not> isSortPureCanonical query
        then Some ''Reset sort to default order to edit the canonical order.''
      else None)"

definition canApplySort :: "list_item_query \<Rightarrow> bool" where
  "canApplySort query \<longleftrightarrow> isQueryEmpty query \<and> 0 < length (q_sort query) \<and> \<not> isSortPureCanonical query"

text \<open>
  Applying the sort as the order of the list: the request that is sent, if any, and, for its
  outcome, the navigation.  \<open>pending\<close> is \<open>applySortPending\<close> and \<open>confirmed\<close> the answer to the dialog.
\<close>

definition apply_sort_request :: "bool \<Rightarrow> bool \<Rightarrow> list_item_query \<Rightarrow> sort_clause list option" where
  "apply_sort_request pending confirmed query =
     (if \<not> canApplySort query \<or> pending then None
      else if \<not> confirmed then None
      else Some (q_sort query))"

definition handleApplySortAsListOrder :: "bool \<Rightarrow> bool \<Rightarrow> bool \<Rightarrow> list_item_query \<Rightarrow> search_params option" where
  "handleApplySortAsListOrder pending confirmed ok query =
     (case apply_sort_request pending confirmed query of
        None \<Rightarrow> None
      | Some _ \<Rightarrow> if ok then Some (explore_setSort query []) else None)"

subsection \<open>Groups of a page\<close>

lemma fst_bucket_item:
  "map_of (fst (bucket_item key item (bs, order))) k =
     (if k = key item then Some (nullish (map_of bs k) [] @ [item]) else map_of bs k)"
  by (auto simp: bucket_item_def Let_def map_has_def nullish_def split: option.split)

lemma snd_bucket_item:
  "snd (bucket_item key item (bs, order)) = (if map_of bs (key item) = None then order @ [key item] else order)"
  by (simp add: bucket_item_def Let_def map_has_def)

lemma bucket_items:
  assumes "\<And>k. map_of bs k \<noteq> None \<longleftrightarrow> k \<in> set order" "distinct order"
  shows "\<exists>bs' extra. fold (bucket_item key) items (bs, order) = (bs', order @ extra) \<and>
    distinct (order @ extra) \<and> set extra \<subseteq> set (map key items) \<and>
    set (map key items) \<subseteq> set (order @ extra) \<and>
    (\<forall>k \<in> set (order @ extra). nullish (map_of bs' k) [] =
       nullish (map_of bs k) [] @ filter (\<lambda>i. key i = k) items)"
  using assms
proof (induction items arbitrary: bs order)
  case Nil
  then show ?case by (intro exI [of _ bs] exI [of _ "[]"]) simp
next
  case (Cons i items)
  obtain bs1 order1 where s1: "bucket_item key i (bs, order) = (bs1, order1)" by (cases "bucket_item key i (bs, order)")
  have m1: "map_of bs1 k = (if k = key i then Some (nullish (map_of bs k) [] @ [i]) else map_of bs k)" for k
    using fst_bucket_item [of key i bs order k] s1 by simp
  have o1: "order1 = (if key i \<in> set order then order else order @ [key i])"
    using snd_bucket_item [of key i bs order] s1 Cons.prems(1) [of "key i"] by auto
  have inv: "map_of bs1 k \<noteq> None \<longleftrightarrow> k \<in> set order1" "distinct order1" for k
    using Cons.prems(1) [of k] Cons.prems(2) by (auto simp: m1 o1)
  obtain bs' extra where ih: "fold (bucket_item key) items (bs1, order1) = (bs', order1 @ extra)"
      "distinct (order1 @ extra)" "set extra \<subseteq> set (map key items)" "set (map key items) \<subseteq> set (order1 @ extra)"
      "\<forall>k \<in> set (order1 @ extra). nullish (map_of bs' k) [] =
         nullish (map_of bs1 k) [] @ filter (\<lambda>i. key i = k) items"
    using Cons.IH [OF inv] by blast
  define extra' where "extra' = (if key i \<in> set order then extra else key i # extra)"
  have e: "order1 @ extra = order @ extra'" by (simp add: o1 extra'_def)
  have "nullish (map_of bs' k) [] = nullish (map_of bs k) [] @ filter (\<lambda>j. key j = k) (i # items)"
    if "k \<in> set (order @ extra')" for k
  proof -
    have "nullish (map_of bs' k) [] = nullish (map_of bs1 k) [] @ filter (\<lambda>i. key i = k) items"
      using ih(5) that unfolding e by blast
    then show ?thesis by (simp add: m1 nullish_def)
  qed
  moreover have "set extra' \<subseteq> set (map key (i # items))" using ih(3) by (auto simp: extra'_def)
  moreover have "set (map key (i # items)) \<subseteq> set (order @ extra')"
    using ih(4) unfolding e [symmetric] by (auto simp: o1)
  ultimately show ?case using ih(1,2) s1 by (intro exI [of _ bs'] exI [of _ extra']) (simp add: e)
qed

lemma unique_values_set: "set (unique_values ks) = set ks" and distinct_unique_values: "distinct (unique_values ks)"
  using map_from_keys [of "map (\<lambda>k. (k, ())) ks"] distinct_map_from [of "map (\<lambda>k. (k, ())) ks"]
  by (simp_all add: unique_values_def image_image)

lemma initial_buckets:
  assumes "distinct ks"
  shows "map_of (map_from (map (\<lambda>k. (k, [])) ks)) k = (if k \<in> set ks then Some [] else None)"
  by (auto simp: map_of_map_from rev_map map_of_eq_None_iff map_of_map_restrict [of "\<lambda>_. []", unfolded restrict_map_def])

subsection \<open>Search results\<close>

lemma search_loop_eq:
  "length results < MAX_RESULTS \<Longrightarrow> search_loop query isFull ps results =
     results @ take (MAX_RESULTS - length results) (map (result_of isFull) (filter (\<lambda>p. matches_query query (snd p)) ps))"
proof (induction ps arbitrary: results)
  case (Cons p ps)
  show ?case
  proof (cases "matches_query query (snd p)")
    case False
    with Cons show ?thesis by simp
  next
    case True
    show ?thesis
    proof (cases "length results + 1 = MAX_RESULTS")
      case True
      with \<open>matches_query query (snd p)\<close> show ?thesis by (simp add: Let_def flip: True)
    next
      case False
      with Cons.prems have len: "length (results @ [result_of isFull p]) < MAX_RESULTS" by simp
      then have "MAX_RESULTS - length results = Suc (MAX_RESULTS - length (results @ [result_of isFull p]))" by simp
      with Cons.IH [OF len] True False show ?thesis by (simp add: Let_def)
    qed
  qed
qed simp

lemma searchItems_eq:
  "searchItems items query isFull =
     (if query = [] then []
      else take 8 (map (result_of isFull) (filter (\<lambda>p. matches_query query (snd p)) (enumerate 0 items))))"
  using search_loop_eq [of "[]" query isFull "enumerate 0 items"] by (simp add: searchItems_def MAX_RESULTS_def)

subsection \<open>Properties\<close>

text \<open>The groups of a page neither lose nor duplicate items: with distinct group keys from the
  server, the groups are, in the server's order followed by the keys it did not name in the order
  of their first item, exactly the items of each key in page order, without empty groups.\<close>

theorem viewer_groups_partition:
  fixes artists items metadata groupBy
  defines "key \<equiv> \<lambda>i. resolveGroupKey artists i groupBy"
    and "metas \<equiv> nullish (Option.bind metadata pm_groups) []"
  assumes "distinct (map gm_key metas)"
  shows "\<exists>extra. distinct (initial_order key items metas @ extra) \<and> set extra \<subseteq> set (map key items) \<and>
    map gitems (buildGroupedItems artists items metadata groupBy) =
      filter (\<lambda>is. is \<noteq> []) (map (\<lambda>k. filter (\<lambda>i. key i = k) items) (initial_order key items metas @ extra)) \<and>
    mset (concat (map gitems (buildGroupedItems artists items metadata groupBy))) = mset items"
proof -
  let ?order = "initial_order key items metas"
  have d: "distinct ?order" using assms(3) by (simp add: initial_order_def distinct_unique_values)
  have b: "map_of (map_from (map (\<lambda>k. (k, [])) ?order)) k \<noteq> None \<longleftrightarrow> k \<in> set ?order" for k
    by (simp add: initial_buckets [OF d])
  obtain bs extra where fold: "fold (bucket_item key) items (map_from (map (\<lambda>k. (k, [])) ?order), ?order) = (bs, ?order @ extra)"
      "distinct (?order @ extra)" "set extra \<subseteq> set (map key items)" "set (map key items) \<subseteq> set (?order @ extra)"
      "\<forall>k \<in> set (?order @ extra). nullish (map_of bs k) [] =
         nullish (map_of (map_from (map (\<lambda>k. (k, [])) ?order)) k) [] @ filter (\<lambda>i. key i = k) items"
    using bucket_items [of "map_from (map (\<lambda>k. (k, [])) ?order)" ?order key items, OF b d] by blast
  have bucket: "nullish (map_of bs k) [] = filter (\<lambda>i. key i = k) items" if "k \<in> set (?order @ extra)" for k
    using fold(5) that by (auto simp: initial_buckets [OF d] nullish_def)
  have groups: "map gitems (buildGroupedItems artists items metadata groupBy) =
      filter (\<lambda>is. is \<noteq> []) (map (\<lambda>k. nullish (map_of bs k) []) (?order @ extra))"
    using fold(1) unfolding buildGroupedItems_def Let_def metas_def [symmetric] key_def [symmetric]
    by (simp add: viewer_group_def Let_def filter_map comp_def)
  also have "map (\<lambda>k. nullish (map_of bs k) []) (?order @ extra) =
      map (\<lambda>k. filter (\<lambda>i. key i = k) items) (?order @ extra)"
    by (rule map_cong [OF refl]) (rule bucket)
  finally have eq: "map gitems (buildGroupedItems artists items metadata groupBy) =
      filter (\<lambda>is. is \<noteq> []) (map (\<lambda>k. filter (\<lambda>i. key i = k) items) (?order @ extra))" .
  have "concat (filter (\<lambda>is. is \<noteq> []) xss) = concat xss" for xss :: "list_item list list"
    by (induction xss) auto
  then have "mset (concat (map gitems (buildGroupedItems artists items metadata groupBy))) = mset items"
    unfolding eq using mset_filter_keys [of "?order @ extra" key items] fold(2,4) by simp
  with eq fold(2,3) show ?thesis by blast
qed

definition sample_page :: "list_item list" where
  "sample_page = [sample_item 1 (Some COMPLETED) None, sample_item 2 None None, sample_item 3 (Some COMPLETED) None]"

theorem viewer_groups_partition_witness:
  "mset (concat (map gitems (buildGroupedItems (\<lambda>_. None) sample_page None GfContextStatus))) = mset sample_page"
  using viewer_groups_partition [of None "\<lambda>_. None" GfContextStatus sample_page] by (auto simp: nullish_def)

text \<open>Choosing a result of a search through the whole list leads to its page: the address that is
  navigated to is read back as the same query on a page that contains the chosen item, and the
  viewer highlights that item.\<close>

theorem search_select_shows_item:
  assumes "canonical_query query" and "result \<in> set (searchItems items text True)"
  shows "\<exists>nav page item. fst (handleSearchSelect query result search viewer) = Some nav \<and>
    parseQueryFromParams (router_write quotes nav) = query\<lparr>q_page := page\<rparr> \<and>
    item \<in> set (js_slice ((page - 1) * q_pageSize query) (page * q_pageSize query) items) \<and>
    li_id item = sr_id result \<and>
    vs_highlighted (snd (snd (handleSearchSelect query result search viewer))) = Some (li_id item)"
proof -
  let ?size = "q_pageSize query"
  have size: "0 < ?size" using assms(1) by (auto simp: canonical_query_def VALID_PAGE_SIZES_def)
  from assms(2) obtain p where p: "p \<in> set (enumerate 0 items)" "result = result_of True p"
    by (auto simp: searchItems_eq split: if_splits dest!: in_set_takeD)
  then obtain n where n: "n < length items" "p = (n, items ! n)" by (auto simp: in_set_enumerate_eq prod_eq_iff)
  define page where "page = int n div ?size + 1"
  have r: "sr_pageIndex result = Some (int n)" "sr_id result = li_id (items ! n)"
    using p(2) n(2) by (simp_all add: result_of_def)
  have page: "1 \<le> page" using size by (simp add: page_def pos_imp_zdiv_nonneg_iff)
  then have "canonical_query (query\<lparr>q_page := max 1 page\<rparr>)" using assms(1) by (simp add: canonical_query_def)
  then have read: "parseQueryFromParams (router_write quotes (explore_setPage query page)) = query\<lparr>q_page := page\<rparr>"
    using page by (simp add: explore_setPage_def writeQuery_eq explore_roundtrip_aux)
  have lo: "(page - 1) * ?size \<le> int n" and hi: "int n < page * ?size"
  proof -
    define a m where "a = int n div ?size * ?size" and "m = int n mod ?size"
    have e: "(page - 1) * ?size = a" "page * ?size = a + ?size"
      by (simp_all add: page_def a_def distrib_right)
    have "a + m = int n" unfolding a_def m_def by (rule div_mult_mod_eq)
    moreover have "0 \<le> m" "m < ?size" using size by (simp_all add: m_def)
    ultimately show "(page - 1) * ?size \<le> int n" "int n < page * ?size" unfolding e by linarith+
  qed
  have zero: "0 \<le> (page - 1) * ?size" using page size by simp
  have pos: "nat ((page - 1) * ?size) \<le> n" "n < nat (page * ?size)" using lo hi by linarith+
  have "items ! n = js_slice ((page - 1) * ?size) (page * ?size) items ! (n - nat ((page - 1) * ?size))"
    using zero pos n(1) hi by (subst js_slice_nonneg) simp_all
  moreover have "n - nat ((page - 1) * ?size) < length (js_slice ((page - 1) * ?size) (page * ?size) items)"
    using zero pos n(1) hi by (subst js_slice_nonneg) (simp_all, linarith)
  ultimately have "items ! n \<in> set (js_slice ((page - 1) * ?size) (page * ?size) items)" by (metis nth_mem)
  with read r show ?thesis
    by (intro exI [of _ "explore_setPage query page"] exI [of _ page] exI [of _ "items ! n"])
      (simp add: handleSearchSelect_def page_def)
qed

definition sorted_query :: list_item_query where
  "sorted_query = DEFAULT_LIST_ITEM_QUERY\<lparr>q_sort := [\<lparr>sc_field = SfAddedAt, sc_direction = Desc\<rparr>]\<rparr>"

lemma sorted_query_canonical: "canonical_query sorted_query"
  by (simp add: canonical_query_def sorted_query_def DEFAULT_LIST_ITEM_QUERY_def VALID_PAGE_SIZES_def)

theorem search_select_shows_item_witness:
  "\<exists>item. item \<in> set sample_page \<and>
     snd (snd (handleSearchSelect sorted_query (result_of True (1, sample_item 2 None None)) search_init viewer_init)) =
       viewer_init\<lparr>vs_highlighted := Some (li_id item)\<rparr>"
proof -
  let ?r = "result_of True (1, sample_item 2 None None)"
  have title: "getListItemTitle i = ''Alien''" "getListItemSubtitle i = []" if "i \<in> set sample_page" for i
    using that by (auto simp: sample_page_def getListItemTitle_def getListItemSubtitle_def Let_def
        sample_item_def sample_content_def sample_movie_def or_str_def)
  have "js_includes (js_lower ''Alien '') ''alien''" by code_simp
  then have "matches_query ''alien'' i" if "i \<in> set sample_page" for i
    using title [OF that] by (simp add: matches_query_def)
  then have "searchItems sample_page ''alien'' True = map (result_of True) (enumerate 0 sample_page)"
    by (simp add: searchItems_eq in_set_enumerate_eq sample_page_def)
  then have "?r \<in> set (searchItems sample_page ''alien'' True)" by (simp add: sample_page_def)
  from search_select_shows_item [OF sorted_query_canonical this, of search_init viewer_init "\<lambda>_. False"]
  obtain a b item where "item \<in> set (js_slice a b sample_page)" "li_id item = sr_id ?r" by blast
  then have "item \<in> set sample_page" "li_id item = sr_id ?r" using set_js_slice [of a b sample_page] by auto
  then show ?thesis by (intro exI [of _ item]) (simp add: handleSearchSelect_def)
qed

text \<open>Editing the canonical order and applying a sort never compete: a sort can be applied only when
  reordering is disabled, and once it was applied the address is read back as a query on which
  reordering is enabled and no sort can be applied.\<close>

theorem apply_sort_enables_reorder:
  assumes "canonical_query query" "handleApplySortAsListOrder pending confirmed ok query = Some nav"
  shows "reorderDisabledReason query \<noteq> None \<and>
    reorderDisabledReason (parseQueryFromParams (router_write quotes nav)) = None \<and>
    \<not> canApplySort (parseQueryFromParams (router_write quotes nav))"
proof -
  have can: "canApplySort query" and nav: "nav = explore_setSort query []"
    using assms(2) by (auto simp: handleApplySortAsListOrder_def apply_sort_request_def split: if_splits)
  have "canonical_query (query\<lparr>q_sort := [], q_page := 1\<rparr>)" using assms(1) by (simp add: canonical_query_def)
  then have "parseQueryFromParams (router_write quotes nav) = query\<lparr>q_sort := [], q_page := 1\<rparr>"
    by (simp add: nav explore_setSort_def writeQuery_eq explore_roundtrip_aux)
  with can show ?thesis
    by (simp add: reorderDisabledReason_def canApplySort_def isSortPureCanonical_def isQueryEmpty_def)
qed

theorem apply_sort_enables_reorder_witness:
  "reorderDisabledReason (parseQueryFromParams (router_write (\<lambda>_. False) (explore_setSort sorted_query []))) = None"
proof -
  have "handleApplySortAsListOrder False True True sorted_query = Some (explore_setSort sorted_query [])"
    by (simp add: handleApplySortAsListOrder_def apply_sort_request_def canApplySort_def isSortPureCanonical_def
        isQueryEmpty_def sorted_query_def DEFAULT_LIST_ITEM_QUERY_def)
  from apply_sort_enables_reorder [OF sorted_query_canonical this] show ?thesis by blast
qed

text \<open>The effects of the controller settle after one navigation: once the query was reset on a
  personal list the effect has nothing left to reset, and once the page was set to the last page
  it is in range, if there is a page at all.\<close>

theorem controller_effects_settle:
  assumes "canonical_query query"
  shows "(\<forall>nav. reset_personal lst query = Some nav \<longrightarrow>
      reset_personal lst (parseQueryFromParams (router_write quotes nav)) = None) \<and>
    (\<forall>nav. 1 \<le> totalPages \<longrightarrow> clamp_page query totalPages = Some nav \<longrightarrow>
      clamp_page (parseQueryFromParams (router_write quotes nav)) totalPages = None)"
proof -
  have "canonical_query (DEFAULT_LIST_ITEM_QUERY\<lparr>q_pageSize := q_pageSize query\<rparr>)"
    using assms by (simp add: canonical_query_def DEFAULT_LIST_ITEM_QUERY_def)
  then have reset: "parseQueryFromParams (router_write quotes (resetExploration query)) =
      DEFAULT_LIST_ITEM_QUERY\<lparr>q_pageSize := q_pageSize query\<rparr>"
    by (simp add: resetExploration_def writeQuery_eq explore_roundtrip_aux)
  have "canonical_query (query\<lparr>q_page := max 1 totalPages\<rparr>)" using assms by (simp add: canonical_query_def)
  then have "parseQueryFromParams (router_write quotes (explore_setPage query totalPages)) =
      query\<lparr>q_page := max 1 totalPages\<rparr>"
    by (simp add: explore_setPage_def writeQuery_eq explore_roundtrip_aux)
  with reset show ?thesis
    by (auto simp: reset_personal_def clamp_page_def hasPersonalListContextQuery_def DEFAULT_LIST_ITEM_QUERY_def)
qed

theorem controller_effects_settle_witness:
  "clamp_page (parseQueryFromParams (router_write (\<lambda>_. False) (explore_setPage (sorted_query\<lparr>q_page := 9\<rparr>) 4))) 4 = None"
proof -
  have "canonical_query (sorted_query\<lparr>q_page := 9\<rparr>)" using sorted_query_canonical by (simp add: canonical_query_def)
  from conjunct2 [OF controller_effects_settle [OF this, of None "\<lambda>_. False" 4]]
  show ?thesis by (simp add: clamp_page_def)
qed

end
