(* ===== verification/ListActions.thy ===== *)
theory ListActions
  imports ListCache
begin

text \<open>
  The actions on the items of a list (\<open>ListDetailPage/hooks/useListItemActions.ts\<close> with the
  mutation lifecycles of \<open>lib/api/mutations\<close>): an optimistic mutation patches the cached items,
  keeps a snapshot, and its error callback restores from the snapshot.  \<open>listItems\<close> is the page
  of items that the callbacks close over.
\<close>

subsection \<open>The contract of an optimistic update\<close>

text \<open>
  A mutation with variables \<open>v\<close> takes a snapshot, patches the state, and on failure restores from
  the snapshot.  The contract is that a failed mutation leaves no trace.
\<close>

locale optimistic_update =
  fixes ready :: "'v \<Rightarrow> 's \<Rightarrow> bool" and snapshot :: "'v \<Rightarrow> 's \<Rightarrow> 'x"
    and patch :: "'v \<Rightarrow> 's \<Rightarrow> 's" and restore :: "'v \<Rightarrow> 'x \<Rightarrow> 's \<Rightarrow> 's"
  assumes undo: "ready v s \<Longrightarrow> restore v (snapshot v s) (patch v s) = s"
begin

text \<open>Any sequence of mutations that all fail leaves the state as it was.\<close>

lemma failed_run:
  "\<forall>v \<in> set vs. ready v s \<Longrightarrow> fold (\<lambda>v s. restore v (snapshot v s) (patch v s)) vs s = s"
  by (induction vs) (simp_all add: undo)

text \<open>Of a run of mutations, only those that succeed count.\<close>

lemma mixed_run:
  assumes keep: "\<And>v w s. ready v s \<Longrightarrow> ready w s \<Longrightarrow> ready w (patch v s)"
    and "\<forall>(v, ok) \<in> set vs. ready v s"
  shows "fold (\<lambda>(v, ok) s. if ok then patch v s else restore v (snapshot v s) (patch v s)) vs s =
    fold patch (map fst (filter snd vs)) s"
  using assms(2)
proof (induction vs arbitrary: s)
  case (Cons a vs)
  obtain v ok where a: "a = (v, ok)" by (cases a)
  have r: "ready v s" using Cons.prems a by auto
  show ?case
  proof (cases ok)
    case True
    have "\<forall>(w, ok) \<in> set vs. ready w (patch v s)" using Cons.prems keep [OF r] by auto
    with Cons.IH [of "patch v s"] True a show ?thesis by simp
  next
    case False
    with Cons a r show ?thesis by (simp add: undo)
  qed
qed simp

end

subsection \<open>Changing the status of an item\<close>

definition map_item :: "int \<Rightarrow> (list_item \<Rightarrow> list_item) \<Rightarrow> list_item list \<Rightarrow> list_item list" where
  "map_item itemId f = map (\<lambda>item. if li_id item = itemId then f item else item)"

definition find_item :: "list_item list \<Rightarrow> int \<Rightarrow> list_item option" where
  "find_item items itemId = List.find (\<lambda>i. li_id i = itemId) items"

definition status_of_found :: "list_item list \<Rightarrow> int \<Rightarrow> item_status" where
  "status_of_found items itemId =
     nullish (Option.bind (find_item items itemId) li_context_status) PENDING"

text \<open>The optimistic patch of an item; \<open>now\<close> is the time in ISO form.\<close>

definition toggle_item :: "string \<Rightarrow> item_status \<Rightarrow> list_item \<Rightarrow> list_item" where
  "toggle_item now nextStatus item =
     item\<lparr>li_context_status := Some nextStatus,
       li_context_completed_at := (if nextStatus = COMPLETED then Some now else None)\<rparr>"

definition toggle_onMutate ::
  "string \<Rightarrow> list_item list \<Rightarrow> int \<Rightarrow> item_status \<Rightarrow> list_cache \<Rightarrow> item_status \<times> list_cache" where
  "toggle_onMutate now listItems itemId nextStatus c =
     (status_of_found listItems itemId, setCachedItems (map_item itemId (toggle_item now nextStatus)) c)"

definition toggle_onError :: "int \<Rightarrow> item_status option \<Rightarrow> list_cache \<Rightarrow> list_cache" where
  "toggle_onError itemId snap c =
     setCachedItems (map_item itemId (\<lambda>item.
       item\<lparr>li_context_status := Some (nullish snap PENDING), li_context_completed_at := None\<rparr>)) c"

definition toggle_onSuccess :: "list_item list \<Rightarrow> int \<Rightarrow> item_status \<Rightarrow> list_cache \<Rightarrow> list_cache" where
  "toggle_onSuccess listItems itemId nextStatus c =
     onItemStatusUpdated (status_of_found listItems itemId) nextStatus c"

definition toggle_next_status :: "string \<Rightarrow> item_status" where
  "toggle_next_status currentStatus =
     (if currentStatus = item_status_str COMPLETED then PENDING else COMPLETED)"

subsection \<open>Rating an item\<close>

type_synonym rate_snapshot = "member_rating list \<times> int"

definition rate_onMutate ::
  "int option \<Rightarrow> list_item list \<Rightarrow> int \<Rightarrow> string \<Rightarrow> list_cache \<Rightarrow> rate_snapshot \<times> list_cache" where
  "rate_onMutate currentUserId listItems itemId sc c =
     (let target = find_item listItems itemId;
          previousMemberRatings = nullish (map_option li_member_ratings target) [];
          previousMemberRatingCount = nullish (map_option li_member_rating_count target) 0 in
      ((previousMemberRatings, previousMemberRatingCount),
       if truthy_int currentUserId
       then setCachedItems (map_item itemId (\<lambda>item.
              item\<lparr>li_member_rating_count := previousMemberRatingCount + 1,
                li_member_ratings := previousMemberRatings @
                  [\<lparr>mr_user_id = currentUserId, mr_score = ScoreNum (js_parseFloat sc),
                    mr_comment = None, mr_created_at = None, mr_updated_at = None,
                    mr_is_owner = None\<rparr>]\<rparr>)) c
       else c))"

definition rate_onError :: "int \<Rightarrow> rate_snapshot option \<Rightarrow> list_cache \<Rightarrow> list_cache" where
  "rate_onError itemId snap c =
     setCachedItems (map_item itemId (\<lambda>item.
       item\<lparr>li_member_ratings := nullish (map_option fst snap) (li_member_ratings item),
         li_member_rating_count := nullish (map_option snd snap) (li_member_rating_count item)\<rparr>)) c"

subsection \<open>The handlers\<close>

text \<open>The local state of the hook beside the cache.\<close>

record action_state =
  ac_loading :: bool
  ac_error :: "string option"
  ac_cache :: list_cache

text \<open>An answer of the server: an error message, empty when the error has none, or success.\<close>

type_synonym 'a outcome = "string + 'a"

definition handleUpdateList ::
  "string \<Rightarrow> string option \<Rightarrow> list_type option \<Rightarrow> list_visibility option \<Rightarrow> unit outcome
    \<Rightarrow> action_state \<Rightarrow> unit outcome \<times> action_state" where
  "handleUpdateList name description listType visibility answer st =
     (case answer of
        Inl e \<Rightarrow> (Inl e, st\<lparr>ac_loading := False\<rparr>)
      | Inr _ \<Rightarrow> (Inr (), st\<lparr>ac_loading := False,
          ac_cache := onListUpdated name description listType visibility (ac_cache st)\<rparr>))"

text \<open>After a successful deletion of the list the page is left, still loading.\<close>

definition handleDeleteList :: "unit outcome \<Rightarrow> action_state \<Rightarrow> action_state" where
  "handleDeleteList answer st =
     (case answer of
        Inl e \<Rightarrow> st\<lparr>ac_loading := False, ac_error := Some e\<rparr>
      | Inr _ \<Rightarrow> st\<lparr>ac_loading := True\<rparr>)"

definition handleDeleteItem :: "list_item list \<Rightarrow> int \<Rightarrow> unit outcome \<Rightarrow> action_state \<Rightarrow> action_state" where
  "handleDeleteItem listItems itemId answer st =
     (case answer of
        Inl e \<Rightarrow> st\<lparr>ac_loading := False, ac_error := Some e\<rparr>
      | Inr _ \<Rightarrow>
          let c = setCachedItems (filter (\<lambda>item. li_id item \<noteq> itemId)) (ac_cache st) in
          st\<lparr>ac_loading := False,
            ac_cache := (case find_item listItems itemId of
                           None \<Rightarrow> c | Some item \<Rightarrow> onItemDeleted item c)\<rparr>)"

definition handleToggleItemStatus ::
  "string \<Rightarrow> list_item list \<Rightarrow> int \<Rightarrow> string \<Rightarrow> unit outcome \<Rightarrow> action_state \<Rightarrow> action_state" where
  "handleToggleItemStatus now listItems itemId currentStatus answer st =
     (let nextStatus = toggle_next_status currentStatus;
          (snap, c) = toggle_onMutate now listItems itemId nextStatus (ac_cache st) in
      case answer of
        Inl e \<Rightarrow> st\<lparr>ac_cache := toggle_onError itemId (Some snap) c,
                   ac_error := Some (or_str (Some e) ''Failed to update item status'')\<rparr>
      | Inr _ \<Rightarrow> st\<lparr>ac_cache := toggle_onSuccess listItems itemId nextStatus c, ac_error := None\<rparr>)"

definition handleSubmitRating ::
  "int option \<Rightarrow> list_item list \<Rightarrow> list_item \<Rightarrow> string \<Rightarrow> unit outcome \<Rightarrow> action_state
    \<Rightarrow> unit outcome \<times> action_state" where
  "handleSubmitRating currentUserId listItems item sc answer st =
     (if \<not> truthy_int currentUserId then (Inr (), st)
      else
        let (snap, c) = rate_onMutate currentUserId listItems (li_id item) sc (ac_cache st) in
        case answer of
          Inl e \<Rightarrow> (Inl e, st\<lparr>ac_cache := rate_onError (li_id item) (Some snap) c,
                     ac_error := Some (or_str (Some e) ''Failed to rate item'')\<rparr>)
        | Inr _ \<Rightarrow> (Inr (), st\<lparr>ac_cache := c\<rparr>))"

subsection \<open>Coherent caches\<close>

text \<open>
  The page shows some of the items of the full list, when that was loaded; ids are unique.  The
  statistics count the items of the full list.
\<close>

definition coherent :: "list_cache \<Rightarrow> bool" where
  "coherent c \<longleftrightarrow> distinct (map li_id (pageItems c)) \<and>
     (case lc_full c of
        None \<Rightarrow> True
      | Some f \<Rightarrow> distinct (map li_id f) \<and> set (pageItems c) \<subseteq> set f)"

definition personal_cache :: "list_cache \<Rightarrow> bool" where
  "personal_cache c \<longleftrightarrow> map_option ul_list_type (lc_list c) = Some PERSONAL"

definition counts_ok :: "list_cache \<Rightarrow> bool" where
  "counts_ok c \<longleftrightarrow>
     (case lc_full c of
        None \<Rightarrow> True
      | Some f \<Rightarrow> pred_option (stats_count (personal_cache c) f) (lc_stats c))"

lemma setCachedItems_sel [simp]:
  "lc_list (setCachedItems u c) = lc_list c" "lc_stats (setCachedItems u c) = lc_stats c"
  "lc_full (setCachedItems u c) = map_option u (lc_full c)"
  "lc_page (setCachedItems u c) = map_option (\<lambda>p. p\<lparr>pli_results := u (pli_results p)\<rparr>) (lc_page c)"
  by (simp_all add: setCachedItems_def setFullItems_def setPageItems_def)

lemma pageItems_cached: "u [] = [] \<Longrightarrow> pageItems (setCachedItems u c) = u (pageItems c)"
  by (cases "lc_page c") (simp_all add: pageItems_def)

lemma setCachedItems_comp: "setCachedItems u (setCachedItems v c) = setCachedItems (u \<circ> v) c"
  by (cases "lc_page c"; cases "lc_full c")
    (simp_all add: setCachedItems_def setFullItems_def setPageItems_def)

lemma list_cache_eqI:
  "lc_list c = lc_list d \<Longrightarrow> lc_page c = lc_page d \<Longrightarrow> lc_full c = lc_full d \<Longrightarrow>
     lc_stats c = lc_stats d \<Longrightarrow> c = (d :: list_cache)"
  by (cases c; cases d) simp

lemma setCachedItems_cong:
  assumes "u (pageItems c) = v (pageItems c)" "\<And>f. lc_full c = Some f \<Longrightarrow> u f = v f"
  shows "setCachedItems u c = setCachedItems v c"
  using assms
  by (intro list_cache_eqI) (cases "lc_page c"; cases "lc_full c"; simp add: pageItems_def)+

lemma setCachedItems_id: "setCachedItems (\<lambda>xs. xs) c = c"
  by (intro list_cache_eqI) (cases "lc_page c"; cases "lc_full c"; simp)+

lemma map_item_Nil [simp]: "map_item n f [] = []"
  by (simp add: map_item_def)

lemma map_item_comp:
  "(\<And>x. li_id (g x) = li_id x) \<Longrightarrow> map_item n f \<circ> map_item n g = map_item n (f \<circ> g)"
  by (auto simp: map_item_def fun_eq_iff)

lemma map_item_cong:
  "(\<And>x. x \<in> set xs \<Longrightarrow> li_id x = n \<Longrightarrow> f x = g x) \<Longrightarrow> map_item n f xs = map_item n g xs"
  by (simp add: map_item_def)

lemma map_item_same: "map_item n (\<lambda>x. x) xs = xs"
  by (simp add: map_item_def)

lemma ids_map_item: "(\<And>x. li_id (f x) = li_id x) \<Longrightarrow> map li_id (map_item n f xs) = map li_id xs"
  by (simp add: map_item_def)

lemma coherent_same:
  assumes "coherent c" "t \<in> set (pageItems c)" "li_id x = li_id t"
  shows "x \<in> set (pageItems c) \<Longrightarrow> x = t" "lc_full c = Some f \<Longrightarrow> x \<in> set f \<Longrightarrow> x = t"
  using assms by (auto simp: coherent_def distinct_map inj_on_def)

lemma coherent_map_item:
  assumes "coherent c" and id: "\<And>x. li_id (f x) = li_id x"
  shows "coherent (setCachedItems (map_item n f) c)"
proof -
  have "set (map_item n f xs) \<subseteq> set (map_item n f ys)" if "set xs \<subseteq> set ys" for xs ys
    using that by (auto simp: map_item_def)
  then show ?thesis
    using assms(1)
    by (auto simp: coherent_def pageItems_cached ids_map_item [OF id] simp del: set_map split: option.splits)
qed

lemma coherent_filter:
  "coherent c \<Longrightarrow> coherent (setCachedItems (filter P) c)"
  by (auto simp: coherent_def pageItems_cached distinct_map_filter split: option.splits)

lemma find_item_coherent:
  assumes "n \<in> li_id ` set xs"
  obtains t where "find_item xs n = Some t" "t \<in> set xs" "li_id t = n"
proof -
  obtain t where "find_item xs n = Some t"
    using assms by (cases "find_item xs n") (auto simp: find_item_def find_None_iff)
  then show thesis using that find_Some_mem [of "\<lambda>i. li_id i = n" xs t] by (simp add: find_item_def)
qed

text \<open>A patch and a restoration that agree with a third update on the item found in the page.\<close>

lemma patch_restore:
  assumes "coherent c" "t \<in> set (pageItems c)" "li_id t = n"
    and id: "\<And>x. li_id (g x) = li_id x" and eq: "f (g t) = h t"
  shows "setCachedItems (map_item n f) (setCachedItems (map_item n g) c) = setCachedItems (map_item n h) c"
proof -
  have "map_item n (f \<circ> g) xs = map_item n h xs"
    if xs: "\<And>x. x \<in> set xs \<Longrightarrow> li_id x = n \<Longrightarrow> x = t" for xs
    using xs eq by (intro map_item_cong) auto
  then show ?thesis
    unfolding setCachedItems_comp map_item_comp [OF id]
    using coherent_same [OF assms(1,2)] assms(3) by (intro setCachedItems_cong) blast+
qed

subsection \<open>Ratings are undone exactly\<close>

type_synonym rate_vars = "int option \<times> int \<times> string"

fun rate_ready :: "rate_vars \<Rightarrow> list_cache \<Rightarrow> bool" where
  "rate_ready (u, n, sc) c \<longleftrightarrow> coherent c \<and> n \<in> li_id ` set (pageItems c)"

fun rate_snap :: "rate_vars \<Rightarrow> list_cache \<Rightarrow> rate_snapshot" where
  "rate_snap (u, n, sc) c = fst (rate_onMutate u (pageItems c) n sc c)"

fun rate_patch :: "rate_vars \<Rightarrow> list_cache \<Rightarrow> list_cache" where
  "rate_patch (u, n, sc) c = snd (rate_onMutate u (pageItems c) n sc c)"

fun rate_restore :: "rate_vars \<Rightarrow> rate_snapshot \<Rightarrow> list_cache \<Rightarrow> list_cache" where
  "rate_restore (u, n, sc) snap c = rate_onError n (Some snap) c"

lemma rate_undo:
  assumes "rate_ready v c"
  shows "rate_restore v (rate_snap v c) (rate_patch v c) = c"
proof -
  obtain u n sc where v: "v = (u, n, sc)" by (cases v)
  have ok: "coherent c" "n \<in> li_id ` set (pageItems c)" using assms v by simp_all
  then obtain t where t: "find_item (pageItems c) n = Some t" "t \<in> set (pageItems c)" "li_id t = n"
    using find_item_coherent [OF ok(2)] by blast
  have noop: "setCachedItems (map_item n (\<lambda>x. x)) c = c"
    using setCachedItems_id [of c] by (simp add: map_item_same [abs_def])
  let ?f = "\<lambda>x. x\<lparr>li_member_ratings := li_member_ratings t,
      li_member_rating_count := li_member_rating_count t\<rparr>"
  have "setCachedItems (map_item n ?f) c = setCachedItems (map_item n (\<lambda>x. x)) c"
    using patch_restore [OF ok(1) t(2,3), of "\<lambda>x. x" ?f "\<lambda>x. x"] noop by simp
  moreover have "setCachedItems (map_item n ?f) (setCachedItems (map_item n g) c) =
      setCachedItems (map_item n (\<lambda>x. x)) c"
    if "\<And>x. li_id (g x) = li_id x" "?f (g t) = t" for g
    by (rule patch_restore [OF ok(1) t(2,3), where f = ?f and g = g and h = "\<lambda>x. x"]) (fact that)+
  ultimately show ?thesis
    unfolding v using t noop
    by (simp add: rate_onMutate_def rate_onError_def Let_def)
qed

interpretation ratings: optimistic_update rate_ready rate_snap rate_patch rate_restore
  by unfold_locales (rule rate_undo)

lemma rate_patch_ready:
  assumes "rate_ready v c" "rate_ready w c"
  shows "rate_ready w (rate_patch v c)"
proof -
  obtain u n sc where v: "v = (u, n, sc)" by (cases v)
  obtain u' m sc' where w: "w = (u', m, sc')" by (cases w)
  have "coherent (setCachedItems (map_item n g) c) \<and>
      li_id ` set (pageItems (setCachedItems (map_item n g) c)) = li_id ` set (pageItems c)"
    if id: "\<And>x. li_id (g x) = li_id x" for g
  proof
    show "coherent (setCachedItems (map_item n g) c)"
      using assms(1) v by (simp add: coherent_map_item id)
    have "map li_id (pageItems (setCachedItems (map_item n g) c)) = map li_id (pageItems c)"
      by (simp only: pageItems_cached map_item_Nil ids_map_item [OF id])
    then show "li_id ` set (pageItems (setCachedItems (map_item n g) c)) = li_id ` set (pageItems c)"
      by (metis list.set_map)
  qed
  then show ?thesis
    using assms unfolding v w by (simp add: rate_onMutate_def Let_def)
qed

subsection \<open>The statistics follow the items\<close>

lemma count_map_item:
  assumes "distinct (map li_id items)" "t \<in> set items" "\<And>x. li_id (f x) = li_id x"
  shows "count_items b done (map_item (li_id t) f items) =
    count_items b done items - (if item_is_completed b t = done then 1 else 0)
      + (if item_is_completed b (f t) = done then 1 else 0)"
  using assms(1,2)
proof (induction items)
  case (Cons i items)
  show ?case
  proof (cases "i = t")
    case True
    with Cons.prems have "map_item (li_id t) f items = items"
      by (auto simp: map_item_def image_iff intro!: map_idI)
    with True show ?thesis by (simp add: map_item_def count_items_def)
  next
    case False
    with Cons.prems have "t \<in> set items" "li_id i \<noteq> li_id t" by (auto simp: image_iff)
    with Cons show ?thesis by (auto simp: map_item_def count_items_def)
  qed
qed simp

lemma count_pos:
  "t \<in> set items \<Longrightarrow> item_is_completed b t = done \<Longrightarrow> 1 \<le> count_items b done items"
  by (auto simp: count_items_def Suc_le_eq filter_empty_conv)

lemma length_map_item [simp]: "length (map_item n f xs) = length xs"
  by (simp add: map_item_def)

lemma toggle_item_completed [simp]:
  "item_is_completed False (toggle_item now st x) \<longleftrightarrow> st = COMPLETED"
  by (simp add: item_is_completed_def toggle_item_def)

lemma completed_status: "item_is_completed False t \<longleftrightarrow> nullish (li_context_status t) PENDING = COMPLETED"
  by (cases "li_context_status t") (simp_all add: item_is_completed_def)

lemma toggle_stats_count:
  assumes "stats_count False items s" "distinct (map li_id items)" "t \<in> set items"
  shows "stats_count False (map_item (li_id t) (toggle_item now nextStatus) items)
    (status_stats (nullish (li_context_status t) PENDING) nextStatus s)"
proof -
  have id: "li_id (toggle_item now nextStatus x) = li_id x" for x by (simp add: toggle_item_def)
  note cnt = count_map_item [OF assms(2,3), where f = "toggle_item now nextStatus", OF id]
  note pos = count_pos [OF assms(3)]
  have nonneg: "0 \<le> count_items False b items" for b by (simp add: count_items_def)
  define p where "p = nullish (li_context_status t) PENDING"
  show ?thesis
    using assms(1) pos [of False True] pos [of False False] nonneg [of True] nonneg [of False]
      cnt [of False True] cnt [of False False]
    unfolding p_def [symmetric]
    by (cases p; cases nextStatus)
      (simp_all add: stats_count_def status_stats_def completed_status toggle_item_def p_def [symmetric])
qed

lemma status_of_found_coherent:
  assumes "t \<in> set (pageItems c)" "coherent c"
  shows "status_of_found (pageItems c) (li_id t) = nullish (li_context_status t) PENDING"
proof -
  obtain u where "find_item (pageItems c) (li_id t) = Some u" "u \<in> set (pageItems c)" "li_id u = li_id t"
    using find_item_coherent [of "li_id t" "pageItems c"] assms(1) by blast
  moreover from this have "u = t" by (intro coherent_same(1) [OF assms(2,1)])
  ultimately show ?thesis by (simp add: status_of_found_def)
qed

lemma personal_cache_simps [simp]:
  "personal_cache (setCachedItems u c) = personal_cache c"
  "personal_cache (setStats v c) = personal_cache c"
  "personal_cache (setTotalItemCount w c) = personal_cache c"
  by (simp_all add: personal_cache_def setStats_def setTotalItemCount_def)

lemma setStats_sel [simp]:
  "lc_full (setStats v c) = lc_full c" "lc_stats (setStats v c) = v (lc_stats c)"
  "pageItems (setStats v c) = pageItems c"
  by (simp_all add: setStats_def pageItems_def)

lemma setTotal_sel [simp]:
  "lc_full (setTotalItemCount w c) = lc_full c" "lc_stats (setTotalItemCount w c) = lc_stats c"
  "pageItems (setTotalItemCount w c) = pageItems c"
  by (cases "lc_page c"; simp add: setTotalItemCount_def pageItems_def Let_def)+

subsection \<open>Properties\<close>

text \<open>Ratings submitted one after the other on a coherent cache: the failed ones leave no
  trace, so the cache ends as if only the successful ones had been submitted, whatever the order.\<close>

theorem ratings_mixed_run:
  assumes "\<forall>(v, ok) \<in> set vs. rate_ready v c"
  shows "fold (\<lambda>(v, ok) c. if ok then rate_patch v c
      else rate_restore v (rate_snap v c) (rate_patch v c)) vs c =
    fold rate_patch (map fst (filter snd vs)) c"
  by (rule ratings.mixed_run [OF rate_patch_ready assms])

definition sample_stats :: list_stats_response where
  "sample_stats =
     \<lparr>ls_total_items = 2, ls_pending_items = 1, ls_completed_items = 1, ls_member_count = 1,
      ls_content_types = []\<rparr>"

definition sample_cache :: list_cache where
  "sample_cache =
     (let items = [sample_item 1 None None, sample_item 2 (Some COMPLETED) (Some 4)] in
      \<lparr>lc_list = None,
       lc_page = Some \<lparr>pli_metadata = \<lparr>pm_count = 2, pm_page_size = 20, pm_current_page = 1,
           pm_total_pages = 1, pm_next = None, pm_previous = None, pm_groups = None\<rparr>,
         pli_results = items\<rparr>,
       lc_full = Some items, lc_stats = Some sample_stats\<rparr>)"

lemma sample_cache_facts:
  "coherent sample_cache" "li_id ` set (pageItems sample_cache) = {1, 2}"
  "counts_ok sample_cache" "\<not> personal_cache sample_cache"
  by (simp_all add: coherent_def pageItems_def sample_cache_def sample_item_def counts_ok_def
      Let_def personal_cache_def stats_count_def sample_stats_def count_items_def item_is_completed_def)

theorem ratings_mixed_run_witness:
  "fold (\<lambda>(v, ok) c. if ok then rate_patch v c
      else rate_restore v (rate_snap v c) (rate_patch v c))
     [((Some 7, 1, ''4.5''), False), ((Some 7, 2, ''3''), True)] sample_cache =
   rate_patch (Some 7, 2, ''3'') sample_cache"
  using ratings_mixed_run [of "[((Some 7, 1, ''4.5''), False), ((Some 7, 2, ''3''), True)]" sample_cache]
  by (simp add: sample_cache_facts)

text \<open>A status change that fails restores the status of the item and of no other, but not
  the date of completion: that is cleared even when the item had one, although the snapshot is
  documented to restore the previous item.\<close>

theorem toggle_rollback:
  assumes "coherent c" "itemId \<in> li_id ` set (pageItems c)"
  shows "ac_cache (handleToggleItemStatus now (pageItems c) itemId currentStatus (Inl e) \<lparr>ac_loading = l, ac_error = r, ac_cache = c\<rparr>) =
    setCachedItems (map_item itemId (\<lambda>item.
      item\<lparr>li_context_status := Some (nullish (li_context_status item) PENDING),
        li_context_completed_at := None\<rparr>)) c"
proof -
  obtain t where t: "t \<in> set (pageItems c)" "li_id t = itemId" using assms(2) by blast
  have st: "status_of_found (pageItems c) itemId = nullish (li_context_status t) PENDING"
    using status_of_found_coherent [OF t(1) assms(1)] t(2) by simp
  show ?thesis
    using t st
    by (simp add: handleToggleItemStatus_def toggle_onMutate_def toggle_onError_def Let_def)
      (rule patch_restore [OF assms(1) t(1)], simp_all add: toggle_item_def)
qed

theorem toggle_rollback_witness:
  "ac_cache (handleToggleItemStatus ''now'' (pageItems sample_cache) 2 ''COMPLETED'' (Inl [])
     \<lparr>ac_loading = False, ac_error = None, ac_cache = sample_cache\<rparr>) =
   setCachedItems (map_item 2 (\<lambda>item.
      item\<lparr>li_context_status := Some (nullish (li_context_status item) PENDING),
        li_context_completed_at := None\<rparr>)) sample_cache"
  by (rule toggle_rollback) (simp_all add: sample_cache_facts)



text \<open>Deleting an item of the page keeps the cache coherent and the statistics exact, for
  personal lists (which count by the viewer's tracking) and for shared ones (which count by the
  status), whether the server accepts the deletion or not.\<close>

theorem delete_keeps_counts:
  assumes "coherent c" "counts_ok c" "itemId \<in> li_id ` set (pageItems c)"
  shows "coherent (ac_cache (handleDeleteItem (pageItems c) itemId answer
      \<lparr>ac_loading = l, ac_error = r, ac_cache = c\<rparr>)) \<and>
    counts_ok (ac_cache (handleDeleteItem (pageItems c) itemId answer
      \<lparr>ac_loading = l, ac_error = r, ac_cache = c\<rparr>))"
proof (cases answer)
  case (Inl e)
  with assms show ?thesis by (simp add: handleDeleteItem_def)
next
  case (Inr u)
  obtain t where t: "find_item (pageItems c) itemId = Some t" "t \<in> set (pageItems c)" "li_id t = itemId"
    using find_item_coherent [OF assms(3)] by blast
  let ?c = "setCachedItems (filter (\<lambda>item. li_id item \<noteq> itemId)) c"
  have eq: "ac_cache (handleDeleteItem (pageItems c) itemId answer
      \<lparr>ac_loading = l, ac_error = r, ac_cache = c\<rparr>) =
      setStats (map_option (deleted_stats (personal_cache c) t)) (setTotalItemCount (\<lambda>n. max 0 (n - 1)) ?c)"
    by (simp add: handleDeleteItem_def Inr t Let_def onItemDeleted_def personal_cache_def)
  show ?thesis
    unfolding eq
    using assms(1,2) t coherent_filter [OF assms(1)] deleted_stats_count [of "personal_cache c" _ _ t]
    by (auto simp: counts_ok_def coherent_def pred_option_def split: option.splits)
qed

theorem delete_keeps_counts_witness:
  "counts_ok (ac_cache (handleDeleteItem (pageItems sample_cache) 2 (Inr ())
      \<lparr>ac_loading = False, ac_error = None, ac_cache = sample_cache\<rparr>))"
  using delete_keeps_counts [of sample_cache 2] by (simp add: sample_cache_facts)

end
