(* ===== verification/Reordering.thy ===== *)
theory Reordering
  imports ListActions
begin

text \<open>
  Editing the canonical order of a list: the UI store (\<open>stores/ui-store.ts\<close>) and the hook
  \<open>ListDetailPage/hooks/useListReordering.ts\<close>.  \<open>arrayMove\<close> of the drag-and-drop library is a
  parameter; the code relies on it to rearrange the array.
\<close>

subsection \<open>The UI store\<close>

record ui_store =
  ui_isOpen :: bool
  ui_modalId :: "string option"
  ui_isReorderMode :: bool
  ui_reorderingListId :: "int option"

definition ui_initialState :: ui_store where
  "ui_initialState =
     \<lparr>ui_isOpen = False, ui_modalId = None, ui_isReorderMode = False, ui_reorderingListId = None\<rparr>"

definition openModal :: "string \<Rightarrow> ui_store \<Rightarrow> ui_store" where
  "openModal m st = st\<lparr>ui_isOpen := True, ui_modalId := Some m\<rparr>"

definition closeModal :: "ui_store \<Rightarrow> ui_store" where
  "closeModal st = st\<lparr>ui_isOpen := False, ui_modalId := None\<rparr>"

definition toggleModal :: "string \<Rightarrow> ui_store \<Rightarrow> ui_store" where
  "toggleModal m st =
     st\<lparr>ui_isOpen := (if ui_modalId st = Some m then \<not> ui_isOpen st else True), ui_modalId := Some m\<rparr>"

definition enterReorderMode :: "int \<Rightarrow> ui_store \<Rightarrow> ui_store" where
  "enterReorderMode listId st = st\<lparr>ui_isReorderMode := True, ui_reorderingListId := Some listId\<rparr>"

definition exitReorderMode :: "ui_store \<Rightarrow> ui_store" where
  "exitReorderMode st = st\<lparr>ui_isReorderMode := False, ui_reorderingListId := None\<rparr>"

subsection \<open>The reordering hook\<close>

record reorder_state =
  ro_originalItems :: "list_item list"
  ro_reorderItems :: "list_item list"
  ro_preparing :: bool
  ro_activeId :: "int option"
  ro_ui :: ui_store

definition handleDragStart :: "int \<Rightarrow> reorder_state \<Rightarrow> reorder_state" where
  "handleDragStart active st = st\<lparr>ro_activeId := Some active\<rparr>"

text \<open>\<open>nextItems.map((item, index) => ({...item, list_order: index + 1}))\<close>.\<close>

definition renumber :: "list_item list \<Rightarrow> list_item list" where
  "renumber items =
     map (\<lambda>(item, index). item\<lparr>li_list_order := index + 1\<rparr>) (zip items (map int [0..<length items]))"

definition handleDragOver ::
  "(list_item list \<Rightarrow> int \<Rightarrow> int \<Rightarrow> list_item list) \<Rightarrow> int \<Rightarrow> int option \<Rightarrow> reorder_state \<Rightarrow> reorder_state" where
  "handleDragOver arrayMove active over st =
     (case over of
        None \<Rightarrow> st
      | Some o_id \<Rightarrow>
          if active = o_id then st
          else
            let items = ro_reorderItems st;
                oldIndex = find_index (\<lambda>i. li_id i = active) items;
                newIndex = find_index (\<lambda>i. li_id i = o_id) items in
            st\<lparr>ro_reorderItems := renumber (arrayMove items oldIndex newIndex)\<rparr>)"

definition handleDragEnd :: "reorder_state \<Rightarrow> reorder_state" where
  "handleDragEnd st = st\<lparr>ro_activeId := None\<rparr>"

definition handleDragCancel :: "reorder_state \<Rightarrow> reorder_state" where
  "handleDragCancel st = st\<lparr>ro_activeId := None, ro_reorderItems := ro_originalItems st\<rparr>"

text \<open>Entering waits for the full list: first the begin, then its answer, which may be an error.\<close>

definition enter_begin :: "reorder_state \<Rightarrow> reorder_state" where
  "enter_begin st = st\<lparr>ro_preparing := True\<rparr>"

definition enter_finish :: "int \<Rightarrow> (unit + list_item list) \<Rightarrow> reorder_state \<Rightarrow> reorder_state" where
  "enter_finish listId answer st =
     (case answer of
        Inl _ \<Rightarrow> st\<lparr>ro_preparing := False\<rparr>
      | Inr items \<Rightarrow>
          st\<lparr>ro_originalItems := items, ro_reorderItems := items,
            ro_ui := enterReorderMode listId (ro_ui st), ro_preparing := False\<rparr>)"

definition handleCancelReorder :: "reorder_state \<Rightarrow> reorder_state" where
  "handleCancelReorder st =
     st\<lparr>ro_activeId := None, ro_reorderItems := [], ro_originalItems := [],
       ro_ui := exitReorderMode (ro_ui st)\<rparr>"

text \<open>The ids sent to the server.\<close>

definition reorder_request :: "reorder_state \<Rightarrow> int list" where
  "reorder_request st = map li_id (ro_reorderItems st)"

definition reorder_onError :: "reorder_state \<Rightarrow> reorder_state" where
  "reorder_onError st = st\<lparr>ro_reorderItems := ro_originalItems st\<rparr>"

text \<open>
  The answer to a save: an error restores the preview from the snapshot, which is the original
  order; a success hands the items to \<open>onReorderSaved\<close> and leaves the mode.
\<close>

definition save_finish ::
  "list_item_query \<Rightarrow> unit outcome \<Rightarrow> reorder_state \<times> list_cache \<Rightarrow> reorder_state \<times> list_cache" where
  "save_finish query answer sc =
     (case sc of (st, c) \<Rightarrow>
        (case answer of
           Inl _ \<Rightarrow> (reorder_onError st, c)
         | Inr _ \<Rightarrow>
             (st\<lparr>ro_originalItems := ro_reorderItems st, ro_reorderItems := [],
                ro_ui := exitReorderMode (ro_ui st)\<rparr>,
              onReorderSaved query (ro_reorderItems st) c)))"

subsection \<open>Runs in reorder mode\<close>

datatype reorder_event =
    DragStart int | DragOver int "int option" | DragEnd | DragCancel | SaveFailed

fun reorder_step ::
  "(list_item list \<Rightarrow> int \<Rightarrow> int \<Rightarrow> list_item list) \<Rightarrow> reorder_event \<Rightarrow> reorder_state \<Rightarrow> reorder_state" where
  "reorder_step mv (DragStart a) st = handleDragStart a st"
| "reorder_step mv (DragOver a b) st = handleDragOver mv a b st"
| "reorder_step mv DragEnd st = handleDragEnd st"
| "reorder_step mv DragCancel st = handleDragCancel st"
| "reorder_step mv SaveFailed st = reorder_onError st"

text \<open>
  The states reached from entering with a list of items.  A drag goes from an item of the list
  over another, as the sortable container sends them.
\<close>

inductive reorder_run ::
  "(list_item list \<Rightarrow> int \<Rightarrow> int \<Rightarrow> list_item list) \<Rightarrow> list_item list \<Rightarrow> reorder_state \<Rightarrow> bool"
  for mv items where
  enter: "reorder_run mv items (enter_finish listId (Inr items) st)"
| step: "reorder_run mv items st \<Longrightarrow>
    (\<And>a b. ev = DragOver a (Some b) \<Longrightarrow> a \<in> li_id ` set items \<and> b \<in> li_id ` set items) \<Longrightarrow>
    reorder_run mv items (reorder_step mv ev st)"

text \<open>What the hook relies on: moving within the bounds rearranges the array.\<close>

definition rearranges :: "(list_item list \<Rightarrow> int \<Rightarrow> int \<Rightarrow> list_item list) \<Rightarrow> bool" where
  "rearranges mv \<longleftrightarrow>
     (\<forall>xs i j. 0 \<le> i \<longrightarrow> i < int (length xs) \<longrightarrow> 0 \<le> j \<longrightarrow> j < int (length xs) \<longrightarrow> mset (mv xs i j) = mset xs)"

lemma renumber_ids [simp]: "map li_id (renumber items) = map li_id items"
  by (rule nth_equalityI) (simp_all add: renumber_def)

lemma renumber_orders: "map li_list_order (renumber items) = map (\<lambda>n. int n + 1) [0..<length items]"
  by (rule nth_equalityI) (simp_all add: renumber_def)

lemma length_renumber [simp]: "length (renumber items) = length items"
  by (simp add: renumber_def)

text \<open>Renumbering changes the order fields only.\<close>

lemma renumber_body:
  "map (\<lambda>i. i\<lparr>li_list_order := 0\<rparr>) (renumber items) = map (\<lambda>i. i\<lparr>li_list_order := 0\<rparr>) items"
  by (rule nth_equalityI) (simp_all add: renumber_def)

definition body :: "list_item \<Rightarrow> list_item" where
  "body i = i\<lparr>li_list_order := 0\<rparr>"

definition reorder_inv :: "list_item list \<Rightarrow> reorder_state \<Rightarrow> bool" where
  "reorder_inv items st \<longleftrightarrow>
     ro_originalItems st = items \<and>
     mset (map body (ro_reorderItems st)) = mset (map body items) \<and>
     (ro_reorderItems st = items \<or>
      map li_list_order (ro_reorderItems st) = map (\<lambda>n. int n + 1) [0..<length items])"

lemma li_id_body [simp]: "li_id (body i) = li_id i"
  by (simp add: body_def)

lemma ids_of_bodies:
  "mset (map body xs) = mset (map body ys) \<Longrightarrow> mset (map li_id xs) = mset (map li_id ys)"
proof -
  assume "mset (map body xs) = mset (map body ys)"
  then have "image_mset li_id (mset (map body xs)) = image_mset li_id (mset (map body ys))" by simp
  then show ?thesis by (simp add: multiset.map_comp comp_def)
qed

lemma drag_inv:
  assumes mv: "rearranges mv" and inv: "reorder_inv items st"
    and ids: "a \<in> li_id ` set items" "b \<in> li_id ` set items"
  shows "reorder_inv items (handleDragOver mv a (Some b) st)"
proof -
  let ?xs = "ro_reorderItems st"
  let ?i = "find_index (\<lambda>i. li_id i = a) ?xs" and ?j = "find_index (\<lambda>i. li_id i = b) ?xs"
  have bodies: "mset (map body ?xs) = mset (map body items)" using inv by (simp add: reorder_inv_def)
  have "li_id ` set ?xs = li_id ` set items"
    using mset_eq_setD [OF ids_of_bodies [OF bodies]] by simp
  then obtain x y where "x \<in> set ?xs" "li_id x = a" "y \<in> set ?xs" "li_id y = b"
    using ids by (metis imageE)
  then have "0 \<le> ?i" "?i < int (length ?xs)" "0 \<le> ?j" "?j < int (length ?xs)"
    using find_index_nonneg [of x ?xs "\<lambda>i. li_id i = a"] find_index_nonneg [of y ?xs "\<lambda>i. li_id i = b"]
    by simp_all
  with mv have m: "mset (mv ?xs ?i ?j) = mset ?xs" by (simp add: rearranges_def)
  have len: "length (mv ?xs ?i ?j) = length items"
    using mset_eq_length [OF m] mset_eq_length [OF bodies] by simp
  have "mset (map body (renumber (mv ?xs ?i ?j))) = mset (map body items)"
    using m bodies renumber_body [of "mv ?xs ?i ?j"] by (simp add: body_def [abs_def])
  then show ?thesis
    using inv len by (auto simp: handleDragOver_def Let_def reorder_inv_def renumber_orders)
qed

lemma reorder_run_inv:
  assumes "rearranges mv"
  shows "reorder_run mv items st \<Longrightarrow> reorder_inv items st"
proof (induction rule: reorder_run.induct)
  case (enter listId st)
  then show ?case by (simp add: enter_finish_def reorder_inv_def)
next
  case (step st ev)
  show ?case
  proof (cases ev)
    case (DragOver a b)
    show ?thesis
    proof (cases b)
      case None
      with step DragOver show ?thesis by (simp add: handleDragOver_def)
    next
      case (Some b')
      have "a \<in> li_id ` set items" "b' \<in> li_id ` set items" using step DragOver Some by blast+
      with drag_inv [OF assms step.IH] DragOver Some show ?thesis by simp
    qed
  qed (use step in \<open>simp_all add: reorder_inv_def handleDragStart_def handleDragEnd_def
      handleDragCancel_def reorder_onError_def\<close>)
qed

subsection \<open>Properties\<close>

text \<open>C38. While a list is reordered, through any run of drags, cancelled drags and failed saves,
  the order shown is a rearrangement of the items that were loaded: the ids that a save sends are
  exactly theirs, only the order fields have changed, and after an effective drag they are
  1, 2, 3 and so on.  A cancelled drag or a failed save shows the loaded order again.\<close>

theorem reorder_run_permutes:
  assumes "rearranges mv" "reorder_run mv items st"
  shows "mset (reorder_request st) = mset (map li_id items) \<and>
    mset (map body (ro_reorderItems st)) = mset (map body items) \<and>
    (ro_reorderItems st \<noteq> items \<longrightarrow>
      map li_list_order (ro_reorderItems st) = map (\<lambda>n. int n + 1) [0..<length items]) \<and>
    ro_reorderItems (handleDragCancel st) = items \<and>
    ro_reorderItems (fst (save_finish q (Inl e) (st, c))) = items"
  using reorder_run_inv [OF assms] ids_of_bodies [of "ro_reorderItems st" items]
  by (auto simp: reorder_inv_def reorder_request_def handleDragCancel_def save_finish_def
      reorder_onError_def)

text \<open>A move that takes the element out and inserts it at the new place.\<close>

definition sample_move :: "list_item list \<Rightarrow> int \<Rightarrow> int \<Rightarrow> list_item list" where
  "sample_move xs i j =
     (let rest = take (nat i) xs @ drop (Suc (nat i)) xs in
      take (nat j) rest @ xs ! nat i # drop (nat j) rest)"

lemma mset_take_drop: "mset (take n xs) + mset (drop n xs) = mset xs"
  by (metis append_take_drop_id mset_append)

lemma sample_move_rearranges: "rearranges sample_move"
  unfolding rearranges_def
proof (intro allI impI)
  fix xs :: "list_item list" and i j
  assume "0 \<le> i" "i < int (length xs)"
  then have i: "nat i < length xs" by simp
  let ?rest = "take (nat i) xs @ drop (Suc (nat i)) xs"
  have "mset (sample_move xs i j) = add_mset (xs ! nat i) (mset (take (nat j) ?rest) + mset (drop (nat j) ?rest))"
    by (simp only: sample_move_def Let_def mset_append mset.simps union_mset_add_mset_right)
  also have "\<dots> = mset (take (nat i) xs) + mset (xs ! nat i # drop (Suc (nat i)) xs)"
    by (simp only: mset_take_drop mset_append) simp
  also have "xs ! nat i # drop (Suc (nat i)) xs = drop (nat i) xs"
    using i by (rule Cons_nth_drop_Suc)
  finally show "mset (sample_move xs i j) = mset xs" by (simp only: mset_take_drop)
qed

theorem reorder_run_permutes_witness:
  "mset (reorder_request (handleDragOver sample_move 1 (Some 2)
     (enter_finish 5 (Inr [sample_item 1 None None, sample_item 2 None None])
       \<lparr>ro_originalItems = [], ro_reorderItems = [], ro_preparing = True, ro_activeId = None,
        ro_ui = ui_initialState\<rparr>))) = mset [1, 2]"
proof -
  let ?items = "[sample_item 1 None None, sample_item 2 None None]"
  have "reorder_run sample_move ?items (reorder_step sample_move (DragOver 1 (Some 2))
      (enter_finish 5 (Inr ?items) \<lparr>ro_originalItems = [], ro_reorderItems = [], ro_preparing = True,
        ro_activeId = None, ro_ui = ui_initialState\<rparr>))"
    by (rule step [OF enter]) (simp add: sample_item_def)
  from reorder_run_permutes [OF sample_move_rearranges this] show ?thesis
    by (simp add: sample_item_def)
qed

end
