(* ===== verification/PathGuard.thy ===== *)
theory PathGuard
  imports JsNumber
begin

text \<open>
  The guard on the paths that the web server forwards: \<open>isSafeCorePath\<close> of
  \<open>server/core-bff.ts\<close> and \<open>isSafeProxyPath\<close> of \<open>routes/api/proxy/$.ts\<close>, with
  \<open>decodeURIComponent\<close> on UTF-8 text, and the two URL builders that use it.  The URL parser of
  the platform is a parameter of the builders.
\<close>

subsection \<open>\<open>decodeURIComponent\<close>\<close>

text \<open>An escape \<open>%XX\<close> at the start of the text, with the rest.\<close>

definition read_escape :: "string \<Rightarrow> (nat \<times> string) option" where
  "read_escape s =
     (case s of
        p # h # l # t \<Rightarrow>
          if p = CHR ''%'' then
            (case (radix_digit h, radix_digit l) of
               (Some a, Some b) \<Rightarrow> Some (16 * a + b, t)
             | _ \<Rightarrow> None)
          else None
      | _ \<Rightarrow> None)"

text \<open>\<open>n\<close> escaped continuation bytes.\<close>

fun read_continuations :: "nat \<Rightarrow> string \<Rightarrow> (nat list \<times> string) option" where
  "read_continuations 0 s = Some ([], s)"
| "read_continuations (Suc n) s =
     (case read_escape s of
        None \<Rightarrow> None
      | Some (b, t) \<Rightarrow>
          if 128 \<le> b \<and> b < 192 then map_option (apfst (Cons b)) (read_continuations n t) else None)"

definition continuation_count :: "nat \<Rightarrow> nat option" where
  "continuation_count b =
     (if 194 \<le> b \<and> b \<le> 223 then Some 1
      else if 224 \<le> b \<and> b \<le> 239 then Some 2
      else if 240 \<le> b \<and> b \<le> 244 then Some 3
      else None)"

text \<open>No overlong form, no surrogate, nothing above the last code point.\<close>

definition utf8_ok :: "nat \<Rightarrow> nat list \<Rightarrow> bool" where
  "utf8_ok b cs \<longleftrightarrow>
     (b = 224 \<longrightarrow> 160 \<le> hd cs) \<and> (b = 237 \<longrightarrow> hd cs \<le> 159) \<and>
     (b = 240 \<longrightarrow> 144 \<le> hd cs) \<and> (b = 244 \<longrightarrow> hd cs \<le> 143)"

definition read_code_point :: "string \<Rightarrow> (string \<times> string) option" where
  "read_code_point s =
     (case read_escape s of
        None \<Rightarrow> None
      | Some (b, t) \<Rightarrow>
          if b < 128 then Some ([char_of b], t)
          else (case continuation_count b of
                  None \<Rightarrow> None
                | Some n \<Rightarrow>
                    (case read_continuations n t of
                       None \<Rightarrow> None
                     | Some (cs, u) \<Rightarrow>
                         if utf8_ok b cs then Some (map char_of (b # cs), u) else None)))"

lemma read_escape_length: "read_escape s = Some (b, t) \<Longrightarrow> length s = length t + 3"
  by (auto simp: read_escape_def split: list.splits if_splits option.splits)

lemma read_continuations_length:
  "read_continuations n s = Some (cs, t) \<Longrightarrow> length cs = n \<and> length s = length t + 3 * n"
proof (induction n arbitrary: s cs)
  case (Suc n)
  from Suc.prems obtain b u cs' where e: "read_escape s = Some (b, u)"
    and r: "read_continuations n u = Some (cs', t)" "cs = b # cs'"
    by (auto split: option.splits if_splits)
  from Suc.IH [OF r(1)] read_escape_length [OF e] r(2) show ?case by simp
qed simp

lemma read_code_point_length:
  "read_code_point s = Some (w, t) \<Longrightarrow> w \<noteq> [] \<and> length s = length t + 3 * length w"
  by (auto simp: read_code_point_def split: option.splits if_splits
      dest!: read_escape_length read_continuations_length)

text \<open>\<open>None\<close> is the \<open>URIError\<close>.\<close>

function decodeURIComponent :: "string \<Rightarrow> string option" where
  "decodeURIComponent [] = Some []"
| "decodeURIComponent (c # s) =
     (if c \<noteq> CHR ''%'' then map_option (Cons c) (decodeURIComponent s)
      else (case read_code_point (c # s) of
              None \<Rightarrow> None
            | Some (w, t) \<Rightarrow> map_option (append w) (decodeURIComponent t)))"
  by pat_completeness auto
termination
  by (relation "measure length") (auto dest!: read_code_point_length)

declare decodeURIComponent.simps(2) [simp del]

lemma decode_shorter:
  "decodeURIComponent s = Some t \<Longrightarrow> length t \<le> length s \<and> (t \<noteq> s \<longrightarrow> length t < length s)"
proof (induction s arbitrary: t rule: decodeURIComponent.induct)
  case 1
  then show ?case by simp
next
  case (2 c s)
  show ?case
  proof (cases "c = CHR ''%''")
    case True
    with "2.prems" obtain w u v where r: "read_code_point (c # s) = Some (w, u)"
      and v: "decodeURIComponent u = Some v" "t = w @ v"
      by (auto simp: decodeURIComponent.simps split: option.splits prod.splits)
    have "length v \<le> length u" using "2.IH"(2) [OF _ r HOL.refl v(1)] True by simp
    with read_code_point_length [OF r] v(2) show ?thesis by (cases w) auto
  next
    case False
    with "2.prems" obtain v where v: "decodeURIComponent s = Some v" "t = c # v"
      by (auto simp: decodeURIComponent.simps)
    with "2.IH"(1) [OF False, of v] show ?thesis by auto
  qed
qed

text \<open>The loop that decodes until nothing changes ends, since each round shortens the text.\<close>

function decode_fixpoint :: "string \<Rightarrow> string option" where
  "decode_fixpoint decoded =
     (case decodeURIComponent decoded of
        None \<Rightarrow> None
      | Some next \<Rightarrow> if next = decoded then Some decoded else decode_fixpoint next)"
  by pat_completeness auto
termination
  by (relation "measure length") (auto dest!: decode_shorter)

declare decode_fixpoint.simps [simp del]

subsection \<open>The guards\<close>

definition isSafeCorePath :: "string \<Rightarrow> bool" where
  "isSafeCorePath path =
     (if path = [] \<or> prefix ''/'' path \<or> js_includes path [CHR 0x5C] then False
      else (case decode_fixpoint path of
              None \<Rightarrow> False
            | Some decoded \<Rightarrow>
                if js_includes decoded [CHR 0x5C] \<or> js_includes decoded [CHR 0x00] then False
                else list_all (\<lambda>segment. segment \<noteq> ''.'' \<and> segment \<noteq> ''..'') (js_split CHR ''/'' decoded)))"

definition isSafeProxyPath :: "string \<Rightarrow> bool" where
  "isSafeProxyPath path =
     (if path = [] \<or> prefix ''/'' path \<or> js_includes path [CHR 0x5C] then False
      else (case decode_fixpoint path of
              None \<Rightarrow> False
            | Some decodedPath \<Rightarrow>
                if js_includes decodedPath [CHR 0x5C] \<or> js_includes decodedPath [CHR 0x00] then False
                else list_all (\<lambda>segment. segment \<noteq> ''.'' \<and> segment \<noteq> ''..'') (js_split CHR ''/'' decodedPath)))"

subsection \<open>URLs\<close>

record js_url =
  url_origin :: string
  url_pathname :: string
  url_search :: string

text \<open>
  \<open>new URL(text, base)\<close> (\<open>None\<close> when it throws), the setter of \<open>search\<close> and \<open>toString\<close>.
\<close>

record url_library =
  new_URL :: "string \<Rightarrow> js_url option \<Rightarrow> js_url option"
  set_search :: "string \<Rightarrow> js_url \<Rightarrow> js_url"
  url_text :: "js_url \<Rightarrow> string"

definition with_slash :: "string \<Rightarrow> string" where
  "with_slash s = (if suffix ''/'' s then s else s @ ''/'')"

definition buildCoreUrl :: "url_library \<Rightarrow> string \<Rightarrow> string \<Rightarrow> string \<Rightarrow> string + string" where
  "buildCoreUrl lib baseUrl path search =
     (if \<not> isSafeCorePath path then Inl ''Unsafe core path''
      else (case new_URL lib (with_slash baseUrl) None of
              None \<Rightarrow> Inl ''Invalid URL''
            | Some base \<Rightarrow>
                (case new_URL lib path (Some base) of
                   None \<Rightarrow> Inl ''Invalid URL''
                 | Some target \<Rightarrow>
                     let basePath = with_slash (url_pathname base) in
                     if url_origin target \<noteq> url_origin base \<or> \<not> prefix basePath (url_pathname target)
                     then Inl ''Core path escaped its configured base URL''
                     else Inr (url_text lib (set_search lib search target)))))"

definition buildProxyUrl :: "url_library \<Rightarrow> string \<Rightarrow> string \<Rightarrow> string \<Rightarrow> string + string" where
  "buildProxyUrl lib baseUrl path search =
     (if \<not> isSafeProxyPath path then Inl ''Unsafe proxy path''
      else (case new_URL lib (with_slash baseUrl) None of
              None \<Rightarrow> Inl ''Invalid URL''
            | Some base \<Rightarrow>
                (case new_URL lib path (Some base) of
                   None \<Rightarrow> Inl ''Invalid URL''
                 | Some target \<Rightarrow>
                     let basePath = with_slash (url_pathname base) in
                     if url_origin target \<noteq> url_origin base \<or> \<not> prefix basePath (url_pathname target)
                     then Inl ''Proxy path escaped its configured base URL''
                     else Inr (url_text lib (set_search lib search target)))))"

subsection \<open>Decoding keeps plain characters in place\<close>

text \<open>A character that is in no escape: not the percent sign and not a hexadecimal digit.\<close>

definition inert :: "char \<Rightarrow> bool" where
  "inert c \<longleftrightarrow> c \<noteq> CHR ''%'' \<and> radix_digit c = None"

lemma read_escape_inert:
  assumes "inert c"
  shows "read_escape (a @ c # b) =
    (case read_escape a of None \<Rightarrow> None | Some (n, t) \<Rightarrow> Some (n, t @ c # b))"
proof -
  have c: "c \<noteq> CHR ''%''" "radix_digit c = None" using assms by (simp_all add: inert_def)
  consider "a = []" | x where "a = [x]" | x y where "a = [x, y]" | x y z t where "a = x # y # z # t"
    by (cases a; cases "tl a"; cases "tl (tl a)") auto
  then show ?thesis
  proof cases
    case 1
    with c show ?thesis by (simp add: read_escape_def split: list.split)
  next
    case 2
    with c show ?thesis by (simp add: read_escape_def split: list.split)
  next
    case 3
    with c show ?thesis by (simp add: read_escape_def split: list.split option.split)
  next
    case 4
    then show ?thesis by (simp add: read_escape_def split: option.split)
  qed
qed

lemma read_continuations_inert:
  assumes "inert c"
  shows "read_continuations n (a @ c # b) =
    (case read_continuations n a of None \<Rightarrow> None | Some (cs, t) \<Rightarrow> Some (cs, t @ c # b))"
proof (induction n arbitrary: a)
  case (Suc n)
  show ?case
    by (simp add: read_escape_inert [OF assms] Suc.IH split: option.split prod.split)
qed simp

lemma read_code_point_inert:
  assumes "inert c"
  shows "read_code_point (a @ c # b) =
    (case read_code_point a of None \<Rightarrow> None | Some (w, t) \<Rightarrow> Some (w, t @ c # b))"
  by (simp add: read_code_point_def read_escape_inert [OF assms] read_continuations_inert [OF assms]
      split: option.split prod.split)

lemma decode_inert:
  assumes "inert c"
  shows "decodeURIComponent (a @ c # b) =
    (case decodeURIComponent a of
       None \<Rightarrow> None | Some a' \<Rightarrow> map_option (\<lambda>b'. a' @ c # b') (decodeURIComponent b))"
proof (induction a rule: decodeURIComponent.induct)
  case 1
  have "c \<noteq> CHR ''%''" using assms by (simp add: inert_def)
  then show ?case by (simp add: decodeURIComponent.simps)
next
  case (2 x s)
  show ?case
  proof (cases "x = CHR ''%''")
    case False
    then show ?thesis
      using "2.IH"(1)
      by (simp add: decodeURIComponent.simps option.map_comp comp_def split: option.split)
  next
    case True
    show ?thesis
    proof (cases "read_code_point (x # s)")
      case None
      with True show ?thesis
        using read_code_point_inert [OF assms, of "x # s" b] by (simp add: decodeURIComponent.simps)
    next
      case (Some wt)
      obtain w t where wt: "wt = (w, t)" by (cases wt)
      have "decodeURIComponent (t @ c # b) =
          (case decodeURIComponent t of
            None \<Rightarrow> None | Some a' \<Rightarrow> map_option (\<lambda>b'. a' @ c # b') (decodeURIComponent b))"
        using "2.IH"(2) True Some wt by simp
      with True Some wt show ?thesis
        using read_code_point_inert [OF assms, of "x # s" b]
        by (simp add: decodeURIComponent.simps option.map_comp comp_def split: option.split)
    qed
  qed
qed

lemma inert_chars [simp]:
  "inert CHR ''/''" "inert CHR 0x5C" "inert CHR 0x00"
  by (simp_all add: inert_def radix_digit_def)

lemma js_split_sep: "js_split d (a @ d # b) = js_split d a @ js_split d b"
proof (induction a)
  case (Cons c a)
  then show ?case by (cases "js_split d a") auto
qed simp

lemma decode_keeps_char:
  assumes "inert c" "c \<in> set s" "decodeURIComponent s = Some t"
  shows "c \<in> set t"
proof -
  obtain a b where "s = a @ c # b" using split_list [OF assms(2)] by blast
  with assms(3) show ?thesis by (auto simp: decode_inert [OF assms(1)] split: option.splits)
qed

lemma decode_keeps_segment:
  "decodeURIComponent s = Some t \<Longrightarrow> w \<in> set (js_split CHR ''/'' s) \<Longrightarrow>
     decodeURIComponent w = Some w \<Longrightarrow> w \<in> set (js_split CHR ''/'' t)"
proof (induction "length s" arbitrary: s t rule: less_induct)
  case less
  show ?case
  proof (cases "CHR ''/'' \<in> set s")
    case False
    then have "js_split CHR ''/'' s = [s]" by (rule js_split_no_sep)
    with less.prems have "w = s" "t = s" by simp_all
    with less.prems(2) show ?thesis by simp
  next
    case True
    then obtain a b where s: "s = a @ CHR ''/'' # b" using split_list by fastforce
    with less.prems(1) obtain a' b' where d: "decodeURIComponent a = Some a'"
        "decodeURIComponent b = Some b'" "t = a' @ CHR ''/'' # b'"
      by (auto simp: decode_inert split: option.splits)
    have "w \<in> set (js_split CHR ''/'' a) \<or> w \<in> set (js_split CHR ''/'' b)"
      using less.prems(2) by (simp add: s js_split_sep)
    then have "w \<in> set (js_split CHR ''/'' a') \<or> w \<in> set (js_split CHR ''/'' b')"
      using less.hyps [of a a'] less.hyps [of b b'] d less.prems(3) s by auto
    then show ?thesis by (auto simp: d(3) js_split_sep)
  qed
qed

subsection \<open>Every level of decoding\<close>

text \<open>A path without backslash, null character and dot segments.\<close>

definition clean_path :: "string \<Rightarrow> bool" where
  "clean_path s \<longleftrightarrow> CHR 0x5C \<notin> set s \<and> CHR 0x00 \<notin> set s \<and>
     ''.'' \<notin> set (js_split CHR ''/'' s) \<and> ''..'' \<notin> set (js_split CHR ''/'' s)"

primrec decode_times :: "nat \<Rightarrow> string \<Rightarrow> string option" where
  "decode_times 0 s = Some s"
| "decode_times (Suc n) s = Option.bind (decodeURIComponent s) (decode_times n)"

lemma decode_dots: "decodeURIComponent ''.'' = Some ''.''" "decodeURIComponent ''..'' = Some ''..''"
  by (simp_all add: decodeURIComponent.simps)

lemma clean_before: "decodeURIComponent s = Some t \<Longrightarrow> clean_path t \<Longrightarrow> clean_path s"
  using decode_keeps_char [of _ s t] decode_keeps_segment [of s t] decode_dots
  by (auto simp: clean_path_def)

lemma decode_times_fixed: "decodeURIComponent s = Some s \<Longrightarrow> decode_times n s = Some s"
  by (induction n) simp_all

lemma fixpoint_clean:
  "decode_fixpoint s = Some d \<Longrightarrow> clean_path d \<Longrightarrow>
     case decode_times n s of None \<Rightarrow> False | Some e \<Rightarrow> clean_path e"
proof (induction s arbitrary: n rule: decode_fixpoint.induct)
  case (1 s)
  from "1.prems"(1) obtain t where t: "decodeURIComponent s = Some t"
    by (subst (asm) decode_fixpoint.simps) (auto split: option.splits)
  show ?case
  proof (cases "t = s")
    case True
    with t "1.prems" show ?thesis
      by (subst (asm) decode_fixpoint.simps) (simp add: decode_times_fixed)
  next
    case False
    with t "1.prems"(1) have d: "decode_fixpoint t = Some d"
      by (subst (asm) decode_fixpoint.simps) simp
    note ih = "1.IH" [OF t False d "1.prems"(2)]
    show ?thesis
    proof (cases n)
      case 0
      with ih [of 0] clean_before [OF t] show ?thesis by simp
    next
      case (Suc m)
      with ih [of m] t show ?thesis by simp
    qed
  qed
qed

lemma fixpoint_reached: "\<exists>n. decode_times n s = decode_fixpoint s"
proof (induction s rule: decode_fixpoint.induct)
  case (1 s)
  show ?case
  proof (cases "decodeURIComponent s")
    case None
    then have "decode_times 1 s = decode_fixpoint s" by (subst decode_fixpoint.simps) simp
    then show ?thesis ..
  next
    case (Some t)
    show ?thesis
    proof (cases "t = s")
      case True
      with Some have "decode_times 0 s = decode_fixpoint s" by (subst decode_fixpoint.simps) simp
      then show ?thesis ..
    next
      case False
      then obtain n where "decode_times n t = decode_fixpoint t" using "1.IH" [OF Some] by blast
      with Some False have "decode_times (Suc n) s = decode_fixpoint s"
        by (subst decode_fixpoint.simps) simp
      then show ?thesis ..
    qed
  qed
qed

subsection \<open>What a path guard promises\<close>

text \<open>
  A guard accepts exactly the relative paths that decode without an error and are clean however
  often they are decoded.
\<close>

locale path_guard =
  fixes safe :: "string \<Rightarrow> bool"
  assumes exact: "safe p \<longleftrightarrow> p \<noteq> [] \<and> \<not> prefix ''/'' p \<and>
    (\<forall>n. case decode_times n p of None \<Rightarrow> False | Some d \<Rightarrow> clean_path d)"
begin

lemma safe_clean: "safe p \<Longrightarrow> clean_path p"
  using exact [of p] by (auto dest: spec [of _ 0])

lemma safe_decoded: "safe p \<Longrightarrow> \<exists>q. decodeURIComponent p = Some q \<and> clean_path q"
  using exact [of p] by (auto dest: spec [of _ "Suc 0"] split: option.splits Option.bind_splits)

text \<open>A path joined from clean segments with an unsafe one is refused.\<close>

lemma dot_segment_refused: "\<not> safe (a @ ''/../'' @ b)"
proof
  assume "safe (a @ ''/../'' @ b)"
  then have "clean_path (a @ ''/../'' @ b)" by (rule safe_clean)
  moreover have "js_split CHR ''/'' (a @ ''/../'' @ b) = js_split CHR ''/'' a @ ''..'' # js_split CHR ''/'' b"
    using js_split_sep [of "CHR ''/''" a "''../'' @ b"] js_split_sep [of "CHR ''/''" "''..''" b] by simp
  ultimately show False by (simp add: clean_path_def)
qed

end

lemma guard_exact:
  "(if path = [] \<or> prefix ''/'' path \<or> js_includes path [CHR 0x5C] then False
      else (case decode_fixpoint path of
              None \<Rightarrow> False
            | Some decoded \<Rightarrow>
                if js_includes decoded [CHR 0x5C] \<or> js_includes decoded [CHR 0x00] then False
                else list_all (\<lambda>segment. segment \<noteq> ''.'' \<and> segment \<noteq> ''..'') (js_split CHR ''/'' decoded)))
   \<longleftrightarrow> path \<noteq> [] \<and> \<not> prefix ''/'' path \<and>
     (\<forall>n. case decode_times n path of None \<Rightarrow> False | Some d \<Rightarrow> clean_path d)"
  (is "?g \<longleftrightarrow> ?a \<and> ?b \<and> ?c")
proof -
  have clean: "clean_path d \<longleftrightarrow> \<not> js_includes d [CHR 0x5C] \<and> \<not> js_includes d [CHR 0x00] \<and>
      list_all (\<lambda>segment. segment \<noteq> ''.'' \<and> segment \<noteq> ''..'') (js_split CHR ''/'' d)" for d
    by (auto simp: clean_path_def js_includes_char list_all_iff)
  show ?thesis
  proof
    assume g: ?g
    then obtain d where d: "decode_fixpoint path = Some d" "clean_path d"
      by (auto simp: clean split: if_splits option.splits)
    from fixpoint_clean [OF d] have ?c by blast
    with g show "?a \<and> ?b \<and> ?c" by (auto split: if_splits)
  next
    assume abc: "?a \<and> ?b \<and> ?c"
    then have c: "case decode_times n path of None \<Rightarrow> False | Some d \<Rightarrow> clean_path d" for n by blast
    obtain n where n: "decode_times n path = decode_fixpoint path" using fixpoint_reached by blast
    have p: "clean_path path" using c [of 0] by simp
    show ?g using abc p c [of n] unfolding n by (auto simp: clean split: option.splits)
  qed
qed

interpretation core_guard: path_guard isSafeCorePath
  by unfold_locales (simp only: isSafeCorePath_def guard_exact)

interpretation proxy_guard: path_guard isSafeProxyPath
  by unfold_locales (simp only: isSafeProxyPath_def guard_exact)

subsection \<open>Properties\<close>

text \<open>C32. The two path guards accept exactly the relative paths that stay without dot segments,
  backslashes and null characters at every level of percent-decoding, and never fail to decode:
  checking the fully decoded path alone, as the code does, is enough to exclude a traversal
  hidden at any level, and refuses nothing else.\<close>

theorem path_guards_exact:
  "(isSafeCorePath p \<longleftrightarrow> p \<noteq> [] \<and> \<not> prefix ''/'' p \<and>
      (\<forall>n. case decode_times n p of None \<Rightarrow> False | Some d \<Rightarrow> clean_path d)) \<and>
   (isSafeProxyPath p \<longleftrightarrow> p \<noteq> [] \<and> \<not> prefix ''/'' p \<and>
      (\<forall>n. case decode_times n p of None \<Rightarrow> False | Some d \<Rightarrow> clean_path d))"
  by (intro conjI core_guard.exact proxy_guard.exact)

text \<open>C33. A URL that a builder returns comes from a safe path, and its target lies under the
  configured base: it has the origin of the base and its path begins with the path of the base
  followed by a slash, whatever the URL parser makes of the path.\<close>

theorem built_urls_confined:
  assumes "buildCoreUrl lib base path search = Inr u \<or> buildProxyUrl lib base path search = Inr u"
  shows "clean_path path \<and> (\<exists>b t. new_URL lib (with_slash base) None = Some b \<and>
    new_URL lib path (Some b) = Some t \<and> url_origin t = url_origin b \<and>
    prefix (with_slash (url_pathname b)) (url_pathname t) \<and> u = url_text lib (set_search lib search t))"
  using assms core_guard.safe_clean [of path] proxy_guard.safe_clean [of path]
  by (auto simp: buildCoreUrl_def buildProxyUrl_def Let_def split: if_splits option.splits)

text \<open>A parser that knows one base and appends relative paths to it.\<close>

definition sample_urls :: url_library where
  "sample_urls =
     \<lparr>new_URL = (\<lambda>s b. case b of
        None \<Rightarrow> Some \<lparr>url_origin = ''http://core'', url_pathname = ''/api/'', url_search = []\<rparr>
      | Some u \<Rightarrow> Some (u\<lparr>url_pathname := url_pathname u @ s\<rparr>)),
      set_search = (\<lambda>q u. u\<lparr>url_search := q\<rparr>),
      url_text = (\<lambda>u. url_origin u @ url_pathname u @ url_search u)\<rparr>"

theorem built_urls_confined_witness:
  "clean_path ''content/7/'' \<and> buildCoreUrl sample_urls ''http://core/api'' ''content/7/'' ''?a=1'' =
     Inr ''http://core/api/content/7/?a=1''"
proof -
  have "decode_fixpoint ''content/7/'' = Some ''content/7/''"
    by (subst decode_fixpoint.simps) (simp add: decodeURIComponent.simps)
  then have b: "buildCoreUrl sample_urls ''http://core/api'' ''content/7/'' ''?a=1'' =
      Inr ''http://core/api/content/7/?a=1''"
    by (simp add: buildCoreUrl_def isSafeCorePath_def sample_urls_def with_slash_def suffix_def Let_def)
  then have "clean_path ''content/7/''" by (intro built_urls_confined [THEN conjunct1]) blast
  with b show ?thesis by blast
qed

end
