(* ===== verification/ServerRuntime.thy ===== *)
theory ServerRuntime
  imports JsNumber PathGuard
begin

text \<open>
  What the server code of the web application is built on: JSON values, requests with headers and
  cookies, responses, the environment, and the cookie jar of the response.  Reading the clock,
  the network and the random source gives values that are arguments of the operations.
\<close>

subsection \<open>JSON values\<close>

datatype json =
    JNull | JBool bool | JNum js_num | JStr string | JArr "json list" | JObj "(string \<times> json) list"

text \<open>A field of an object; \<open>None\<close> is \<open>undefined\<close>.  Later duplicates win.\<close>

definition json_field :: "string \<Rightarrow> json \<Rightarrow> json option" where
  "json_field k v = (case v of JObj fs \<Rightarrow> map_of (rev fs) k | _ \<Rightarrow> None)"

text \<open>
  A field whose declared type is \<open>string\<close>, as the code casts it.  The declared types of the other
  services are relied on: a value of another type counts as absent.
\<close>

definition json_str :: "json option \<Rightarrow> string option" where
  "json_str v = (case v of Some (JStr s) \<Rightarrow> Some s | _ \<Rightarrow> None)"

subsection \<open>Environment\<close>

type_synonym env_vars = "(string \<times> string) list"

text \<open>\<open>new Set(["1", "true", "yes", "on"]).has(v?.trim().toLowerCase() ?? "")\<close> and the like.\<close>

definition env_flag :: "env_vars \<Rightarrow> string \<Rightarrow> string" where
  "env_flag env k = (case map_of env k of None \<Rightarrow> [] | Some v \<Rightarrow> js_lower (js_trim v))"

subsection \<open>Requests and responses\<close>

text \<open>Header names are lower case; a header that is absent is \<open>null\<close>.\<close>

record http_request =
  rq_method :: string
  rq_origin :: string
  rq_pathname :: string
  rq_search :: string
  rq_headers :: "(string \<times> string) list"
  rq_cookies :: "(string \<times> string) list"
  rq_body :: "string list option"

definition header :: "http_request \<Rightarrow> string \<Rightarrow> string option" where
  "header r k = map_of (rq_headers r) k"

text \<open>The cookies of the request, which writing to the response does not change.\<close>

definition getCookie :: "http_request \<Rightarrow> string \<Rightarrow> string option" where
  "getCookie r k = map_of (rq_cookies r) k"

record 'b http_response =
  rs_status :: int
  rs_headers :: "(string \<times> string) list"
  rs_body :: 'b

record cookie_options =
  co_domain :: "string option"
  co_httpOnly :: bool
  co_maxAge :: int
  co_path :: string
  co_sameSite :: string
  co_secure :: bool

datatype cookie_op =
    SetCookie string string cookie_options
  | DeleteCookie string "string option" string string bool

text \<open>\<open>response.ok\<close>.\<close>

definition status_ok :: "int \<Rightarrow> bool" where
  "status_ok n \<longleftrightarrow> 200 \<le> n \<and> n \<le> 299"

text \<open>
  An error that is thrown: a \<open>DOMException\<close> with its name and message, or another \<open>Error\<close> with
  its message.
\<close>

datatype js_error = DomException string string | JsError string

fun error_message :: "js_error \<Rightarrow> string" where
  "error_message (DomException n m) = m"
| "error_message (JsError m) = m"

text \<open>
  An answer of another service: its headers, the result of \<open>getSetCookie\<close> where the runtime has
  it, and its body as text that \<open>json()\<close> parses.
\<close>

record upstream =
  us_status :: int
  us_headers :: "(string \<times> string) list"
  us_setCookies :: "string list option"
  us_text :: string

datatype call_body = NoBody | BodyText string | BodyJson json

record call =
  cl_method :: string
  cl_url :: string
  cl_headers :: "(string \<times> string) list"
  cl_body :: call_body
  cl_timeout :: "int option"

text \<open>The body of a response: the bytes copied from another service, or a value as JSON.\<close>

datatype reply_body = ReplyText string | ReplyJson json

type_synonym reply = "reply_body http_response"

subsection \<open>Effects\<close>

text \<open>
  What a handler does, in order: calls to other services, cookies written to the response and
  headers set on it.
\<close>

datatype effect = Fetched call | Cookied cookie_op | HeaderSet string string

text \<open>
  Where the server runs: the environment variables, \<open>JSON.parse\<close>, the URL library, the network
  (the answer to a call, which may depend on all that was done before it), the \<open>n\<close>-th value of
  \<open>crypto.randomUUID\<close>, if the runtime has it, and of the substitute, and HMAC-SHA-256 by key and
  message.
\<close>

record server_env =
  se_vars :: env_vars
  se_parse :: "string \<Rightarrow> json option"
  se_urls :: url_library
  se_net :: "effect list \<Rightarrow> call \<Rightarrow> js_error + upstream"
  se_uuid :: "(nat \<Rightarrow> string) option"
  se_fallback_id :: "nat \<Rightarrow> string"
  se_hmac :: "string \<Rightarrow> string \<Rightarrow> nat list"

record token_pair =
  tp_access :: string
  tp_refresh :: string

type_synonym rotation = "js_error + token_pair option"

text \<open>
  The state of one request and of the modules it shares with the others: the log of its effects,
  how many random values were drawn, the logical id of the request, the refreshes that other
  requests have under way with the outcome they settle with, and whether the missing proxy key
  was reported.
\<close>

record server_state =
  ss_log :: "effect list"
  ss_drawn :: nat
  ss_requestId :: "string option"
  ss_refreshes :: "(string \<times> rotation) list"
  ss_warnedMissingKey :: bool

type_synonym 'a op = "server_env \<Rightarrow> http_request \<Rightarrow> server_state \<Rightarrow> (js_error + 'a) \<times> server_state"

definition return_op :: "'a \<Rightarrow> 'a op" where
  "return_op x env rq s = (Inr x, s)"

definition throw_op :: "js_error \<Rightarrow> 'a op" where
  "throw_op e env rq s = (Inl e, s)"

definition and_then :: "'a op \<Rightarrow> ('a \<Rightarrow> 'b op) \<Rightarrow> 'b op" where
  "and_then m k env rq s =
     (case m env rq s of (Inl e, s') \<Rightarrow> (Inl e, s') | (Inr x, s') \<Rightarrow> k x env rq s')"

definition catch_op :: "'a op \<Rightarrow> (js_error \<Rightarrow> 'a op) \<Rightarrow> 'a op" where
  "catch_op m h env rq s =
     (case m env rq s of (Inl e, s') \<Rightarrow> h e env rq s' | (Inr x, s') \<Rightarrow> (Inr x, s'))"

text \<open>\<open>try { m } finally { f }\<close>, where \<open>f\<close> neither returns nor throws.\<close>

definition finally_op :: "'a op \<Rightarrow> unit op \<Rightarrow> 'a op" where
  "finally_op m f env rq s = (case m env rq s of (r, s') \<Rightarrow> (r, snd (f env rq s')))"

definition lift_op :: "js_error + 'a \<Rightarrow> 'a op" where
  "lift_op r env rq s = (r, s)"

definition vars_op :: "(env_vars \<Rightarrow> 'a) \<Rightarrow> 'a op" where
  "vars_op f env rq s = (Inr (f (se_vars env)), s)"

definition env_op :: "(server_env \<Rightarrow> 'a) \<Rightarrow> 'a op" where
  "env_op f env rq s = (Inr (f env), s)"

definition request_op :: "(http_request \<Rightarrow> 'a) \<Rightarrow> 'a op" where
  "request_op f env rq s = (Inr (f rq), s)"

definition log_op :: "effect \<Rightarrow> unit op" where
  "log_op e env rq s = (Inr (), s\<lparr>ss_log := ss_log s @ [e]\<rparr>)"

definition fetch_op :: "call \<Rightarrow> upstream op" where
  "fetch_op c env rq s = (se_net env (ss_log s) c, s\<lparr>ss_log := ss_log s @ [Fetched c]\<rparr>)"

definition setCookie :: "string \<Rightarrow> string \<Rightarrow> cookie_options \<Rightarrow> unit op" where
  "setCookie k v opts = log_op (Cookied (SetCookie k v opts))"

definition json_of :: "upstream \<Rightarrow> json op" where
  "json_of response = and_then (env_op (\<lambda>env. se_parse env (us_text response)))
     (\<lambda>j. case j of None \<Rightarrow> throw_op (JsError ''SyntaxError'') | Some v \<Rightarrow> return_op v)"

lemmas op_defs = return_op_def throw_op_def and_then_def catch_op_def finally_op_def lift_op_def
  vars_op_def env_op_def request_op_def log_op_def fetch_op_def setCookie_def

subsection \<open>What an operation may do\<close>

definition is_call :: "effect \<Rightarrow> bool" where
  "is_call e \<longleftrightarrow> (case e of Fetched _ \<Rightarrow> True | _ \<Rightarrow> False)"

definition calls_of :: "effect list \<Rightarrow> call list" where
  "calls_of es = concat (map (\<lambda>e. case e of Fetched c \<Rightarrow> [c] | _ \<Rightarrow> []) es)"

definition cookies_of :: "effect list \<Rightarrow> cookie_op list" where
  "cookies_of es = concat (map (\<lambda>e. case e of Cookied c \<Rightarrow> [c] | _ \<Rightarrow> []) es)"

text \<open>
  \<open>op_spec env rq P n Q m\<close>: from any state, \<open>m\<close> appends to the log effects that satisfy \<open>P\<close>, at
  most \<open>n\<close> of them calls, and what it returns satisfies \<open>Q\<close>.
\<close>

definition op_spec ::
  "server_env \<Rightarrow> http_request \<Rightarrow> (effect \<Rightarrow> bool) \<Rightarrow> nat \<Rightarrow> ('a \<Rightarrow> bool) \<Rightarrow> 'a op \<Rightarrow> bool" where
  "op_spec env rq P n Q m \<longleftrightarrow>
     (\<forall>s. \<exists>es. ss_log (snd (m env rq s)) = ss_log s @ es \<and> list_all P es \<and>
        length (calls_of es) \<le> n \<and> (\<forall>x. fst (m env rq s) = Inr x \<longrightarrow> Q x))"

named_theorems op_rules

lemma calls_of_simps [simp]:
  "calls_of [] = []" "calls_of (e # es) = (case e of Fetched c \<Rightarrow> c # calls_of es | _ \<Rightarrow> calls_of es)"
  "calls_of (es @ fs) = calls_of es @ calls_of fs"
  by (simp_all add: calls_of_def split: effect.split)

lemma cookies_of_simps [simp]:
  "cookies_of [] = []"
  "cookies_of (e # es) = (case e of Cookied c \<Rightarrow> c # cookies_of es | _ \<Rightarrow> cookies_of es)"
  "cookies_of (es @ fs) = cookies_of es @ cookies_of fs"
  by (simp_all add: cookies_of_def split: effect.split)

lemma op_specI:
  assumes "\<And>s. \<exists>es. ss_log (snd (m env rq s)) = ss_log s @ es \<and> list_all P es \<and>
      length (calls_of es) \<le> n \<and> (\<forall>x. fst (m env rq s) = Inr x \<longrightarrow> Q x)"
  shows "op_spec env rq P n Q m"
  using assms by (simp add: op_spec_def)

lemma op_specE:
  assumes "op_spec env rq P n Q m"
  obtains es where "ss_log (snd (m env rq s)) = ss_log s @ es" "list_all P es"
    "length (calls_of es) \<le> n" "\<forall>x. fst (m env rq s) = Inr x \<longrightarrow> Q x"
  using assms unfolding op_spec_def by blast

lemma op_spec_and_then:
  assumes m: "op_spec env rq P a R m" and k: "\<And>x. R x \<Longrightarrow> op_spec env rq P b Q (k x)" and n: "a + b \<le> n"
  shows "op_spec env rq P n Q (and_then m k)"
proof (rule op_specI)
  fix s
  obtain es where es: "ss_log (snd (m env rq s)) = ss_log s @ es" "list_all P es"
      "length (calls_of es) \<le> a" "\<forall>x. fst (m env rq s) = Inr x \<longrightarrow> R x"
    by (rule op_specE [OF m, of s])
  obtain r s' where r: "m env rq s = (r, s')" by (cases "m env rq s")
  show "\<exists>es. ss_log (snd (and_then m k env rq s)) = ss_log s @ es \<and> list_all P es \<and>
      length (calls_of es) \<le> n \<and> (\<forall>x. fst (and_then m k env rq s) = Inr x \<longrightarrow> Q x)"
  proof (cases r)
    case (Inl e)
    with es n show ?thesis by (intro exI [of _ es]) (simp add: and_then_def r)
  next
    case (Inr x)
    then obtain fs where "ss_log (snd (k x env rq s')) = ss_log s' @ fs" "list_all P fs"
        "length (calls_of fs) \<le> b" "\<forall>y. fst (k x env rq s') = Inr y \<longrightarrow> Q y"
      using es(4) k r by (metis fst_conv op_specE)
    with es n Inr show ?thesis by (intro exI [of _ "es @ fs"]) (auto simp: and_then_def r)
  qed
qed

lemma op_spec_weaken:
  "op_spec env rq P a R m \<Longrightarrow> a \<le> n \<Longrightarrow> (\<And>e. P e \<Longrightarrow> P' e) \<Longrightarrow> (\<And>x. R x \<Longrightarrow> Q x) \<Longrightarrow> op_spec env rq P' n Q m"
  unfolding op_spec_def list_all_iff by (meson le_trans)

lemma op_spec_catch:
  assumes m: "op_spec env rq P a Q m" and h: "\<And>e. op_spec env rq P b Q (h e)" and n: "a + b \<le> n"
  shows "op_spec env rq P n Q (catch_op m h)"
proof (rule op_specI)
  fix s
  obtain es where es: "ss_log (snd (m env rq s)) = ss_log s @ es" "list_all P es"
      "length (calls_of es) \<le> a" "\<forall>x. fst (m env rq s) = Inr x \<longrightarrow> Q x"
    by (rule op_specE [OF m, of s])
  obtain r s' where r: "m env rq s = (r, s')" by (cases "m env rq s")
  show "\<exists>es. ss_log (snd (catch_op m h env rq s)) = ss_log s @ es \<and> list_all P es \<and>
      length (calls_of es) \<le> n \<and> (\<forall>x. fst (catch_op m h env rq s) = Inr x \<longrightarrow> Q x)"
  proof (cases r)
    case (Inr x)
    with es n show ?thesis by (intro exI [of _ es]) (simp add: catch_op_def r)
  next
    case (Inl e)
    obtain fs where "ss_log (snd (h e env rq s')) = ss_log s' @ fs" "list_all P fs"
        "length (calls_of fs) \<le> b" "\<forall>y. fst (h e env rq s') = Inr y \<longrightarrow> Q y"
      by (rule op_specE [OF h, of e s'])
    with es n Inl show ?thesis by (intro exI [of _ "es @ fs"]) (auto simp: catch_op_def r)
  qed
qed

lemma op_spec_basic [op_rules]:
  "Q x \<Longrightarrow> op_spec env rq P n Q (return_op x)"
  "op_spec env rq P n Q (throw_op e)"
  "Q (f (se_vars env)) \<Longrightarrow> op_spec env rq P n Q (vars_op f)"
  "Q (g env) \<Longrightarrow> op_spec env rq P n Q (env_op g)"
  "Q (h rq) \<Longrightarrow> op_spec env rq P n Q (request_op h)"
  "(\<And>x. r = Inr x \<Longrightarrow> Q x) \<Longrightarrow> op_spec env rq P n Q (lift_op r)"
  by (simp_all add: op_spec_def op_defs)

lemma op_spec_log [op_rules]:
  "P e \<Longrightarrow> \<not> is_call e \<Longrightarrow> Q () \<Longrightarrow> op_spec env rq P n Q (log_op e)"
  by (simp add: op_spec_def op_defs is_call_def split: effect.splits)

lemma op_spec_cookie [op_rules]:
  "P (Cookied (SetCookie k v opts)) \<Longrightarrow> Q () \<Longrightarrow> op_spec env rq P n Q (setCookie k v opts)"
  by (simp add: setCookie_def is_call_def op_spec_log)

lemma op_spec_fetch:
  "P (Fetched c) \<Longrightarrow> 1 \<le> n \<Longrightarrow> (\<And>x. Q x) \<Longrightarrow> op_spec env rq P n Q (fetch_op c)"
  by (simp add: op_spec_def op_defs)

lemma op_spec_json [op_rules]: "(\<And>x. Q x) \<Longrightarrow> op_spec env rq P n Q (json_of r)"
  by (simp add: op_spec_def json_of_def op_defs split: option.splits)

lemma op_spec_if:
  "(c \<Longrightarrow> op_spec env rq P n Q a) \<Longrightarrow> (\<not> c \<Longrightarrow> op_spec env rq P n Q b) \<Longrightarrow> op_spec env rq P n Q (if c then a else b)"
  by simp

lemma op_spec_option:
  "(x = None \<Longrightarrow> op_spec env rq P n Q a) \<Longrightarrow> (\<And>y. x = Some y \<Longrightarrow> op_spec env rq P n Q (f y)) \<Longrightarrow>
     op_spec env rq P n Q (case x of None \<Rightarrow> a | Some y \<Rightarrow> f y)"
  by (cases x) simp_all

lemma op_spec_sum:
  "(\<And>e. x = Inl e \<Longrightarrow> op_spec env rq P n Q (g e)) \<Longrightarrow> (\<And>y. x = Inr y \<Longrightarrow> op_spec env rq P n Q (f y)) \<Longrightarrow>
     op_spec env rq P n Q (case x of Inl e \<Rightarrow> g e | Inr y \<Rightarrow> f y)"
  by (cases x) simp_all

end
