(* ===== verification/ServerConfig.thy ===== *)
theory ServerConfig
  imports ServerRuntime
begin

text \<open>
  Configuration and request ids of the web server: \<open>lib/env.ts\<close>, \<open>server/proxy.ts\<close>,
  \<open>server/moderation-visibility-config.ts\<close> and the routes \<open>api/version\<close> and \<open>api/health\<close>.
\<close>

subsection \<open>Service addresses\<close>

definition getApiUrl :: "env_vars \<Rightarrow> string" where
  "getApiUrl env =
     or_str (map_of env ''API_URL'') (or_str (map_of env ''NEXT_PUBLIC_API_URL'') ''http://localhost:8000/api'')"

text \<open>\<open>window\<close> is \<open>None\<close> on the server; its \<open>__ENV__.PROXY_API_URL\<close> may be absent.\<close>

definition getProxyApiUrl :: "string option option \<Rightarrow> env_vars \<Rightarrow> string" where
  "getProxyApiUrl window env =
     (case window of
        Some url \<Rightarrow> or_str url (or_str (map_of env ''PROXY_API_URL'')
          (or_str (map_of env ''NEXT_PUBLIC_PROXY_API_URL'') ''http://localhost:8080/v1/proxy''))
      | None \<Rightarrow> or_str (map_of env ''PROXY_API_URL'')
          (or_str (map_of env ''NEXT_PUBLIC_PROXY_API_URL'') ''http://localhost:8080/v1/proxy''))"

definition FALLBACK_BASE_URL :: string where
  "FALLBACK_BASE_URL = ''http://localhost:8080/v1/proxy''"

definition getProxyBaseUrl :: "env_vars \<Rightarrow> string" where
  "getProxyBaseUrl env =
     or_str (map_of env ''PROXY_API_URL'')
       (or_str (map_of env ''NEXT_PUBLIC_PROXY_API_URL'') FALLBACK_BASE_URL)"

definition is_production :: "env_vars \<Rightarrow> bool" where
  "is_production env \<longleftrightarrow> map_of env ''NODE_ENV'' = Some ''production''"

definition isWebModerationVisibilityEnabled :: "env_vars \<Rightarrow> bool" where
  "isWebModerationVisibilityEnabled env \<longleftrightarrow> env_flag env ''WEB_MODERATION_VISIBILITY_ENABLED'' = ''true''"

subsection \<open>The key of the proxy\<close>

definition missing_key :: js_error where
  "missing_key = JsError ''PROXY_API_KEY is required in production. The web BFF and SSR helpers refuse to call the proxy without it.''"

definition getProxyApiKey :: "string op" where
  "getProxyApiKey env rq s =
     (let key = nullish (map_of (se_vars env) ''PROXY_API_KEY'') [] in
      if key = [] \<and> \<not> ss_warnedMissingKey s then
        let s' = s\<lparr>ss_warnedMissingKey := True\<rparr> in
        if is_production (se_vars env) then (Inl missing_key, s') else (Inr key, s')
      else (Inr key, s))"

subsection \<open>Request ids\<close>

definition is_alnum :: "char \<Rightarrow> bool" where
  "is_alnum c \<longleftrightarrow> is_alpha c \<or> is_digit c"

text \<open>\<open>/^[A-Za-z0-9][A-Za-z0-9._:-]{0,127}$/\<close>.\<close>

definition REQUEST_ID_PATTERN :: "string \<Rightarrow> bool" where
  "REQUEST_ID_PATTERN s \<longleftrightarrow>
     (case s of
        [] \<Rightarrow> False
      | c # cs \<Rightarrow> is_alnum c \<and> length cs \<le> 127 \<and> list_all (\<lambda>c. is_alnum c \<or> c \<in> set ''._:-'') cs)"

definition normalizeRequestId :: "string option \<Rightarrow> string option" where
  "normalizeRequestId value =
     (let normalized = (case value of None \<Rightarrow> [] | Some v \<Rightarrow> js_trim v) in
      if REQUEST_ID_PATTERN normalized then Some normalized else None)"

definition generateRequestId :: "string op" where
  "generateRequestId env rq s =
     (let n = ss_drawn s; s' = s\<lparr>ss_drawn := n + 1\<rparr> in
      case se_uuid env of
        Some uuid \<Rightarrow> (Inr (uuid n), s')
      | None \<Rightarrow> (Inr (se_fallback_id env n), s'))"

definition assignRequestId :: "string op" where
  "assignRequestId =
     and_then (request_op (\<lambda>rq. normalizeRequestId (header rq ''x-request-id''))) (\<lambda>given.
     and_then (case given of Some i \<Rightarrow> return_op i | None \<Rightarrow> generateRequestId) (\<lambda>requestId env rq s.
       (Inr requestId, s\<lparr>ss_requestId := Some requestId,
          ss_log := ss_log s @ [HeaderSet ''X-Request-Id'' requestId]\<rparr>)))"

definition getLogicalRequestId :: "string op" where
  "getLogicalRequestId env rq s =
     (if truthy_str (ss_requestId s) then (Inr (the (ss_requestId s)), s) else assignRequestId env rq s)"

text \<open>
  \<open>buildProxyHeaders\<close>: the missing key throws before an id is drawn.
\<close>

definition buildProxyHeaders :: "string option \<Rightarrow> string option \<Rightarrow> string option \<Rightarrow> (string \<times> string) list op" where
  "buildProxyHeaders country requestId consumer =
     and_then getProxyApiKey (\<lambda>apiKey.
     and_then (case normalizeRequestId requestId of Some i \<Rightarrow> return_op i | None \<Rightarrow> generateRequestId) (\<lambda>i.
       return_op
         ([(''Content-Type'', ''application/json''), (''X-Api-Consumer'', nullish consumer ''web'')] @
          (if apiKey \<noteq> [] then [(''X-Api-Key'', apiKey)] else []) @
          (if truthy_str country then [(''X-User-Country'', the country)] else []) @
          [(''X-Request-Id'', i)])))"

subsection \<open>Version and health\<close>

definition is_lower_hex :: "char \<Rightarrow> bool" where
  "is_lower_hex c \<longleftrightarrow> is_digit c \<or> (97 \<le> (of_char c :: nat) \<and> (of_char c :: nat) \<le> 102)"

definition getReleaseSha :: "env_vars \<Rightarrow> string" where
  "getReleaseSha env =
     (let value = env_flag env ''BUILD_SHA'' in
      if length value = 40 \<and> list_all is_lower_hex value then value else ''unknown'')"

definition no_store_json :: "(string \<times> string) list" where
  "no_store_json = [(''cache-control'', ''no-store''), (''content-type'', ''application/json'')]"

definition releaseVersionResponse :: "env_vars \<Rightarrow> reply" where
  "releaseVersionResponse env =
     \<lparr>rs_status = 200, rs_headers = no_store_json,
      rs_body = ReplyJson (JObj [(''service'', JStr ''web''), (''sha'', JStr (getReleaseSha env))])\<rparr>"

definition healthResponse :: reply where
  "healthResponse =
     \<lparr>rs_status = 200, rs_headers = no_store_json,
      rs_body = ReplyJson (JObj [(''service'', JStr ''web''), (''status'', JStr ''ok'')])\<rparr>"

subsection \<open>Effects of these operations\<close>

definition sets_request_id :: "effect \<Rightarrow> bool" where
  "sets_request_id e \<longleftrightarrow> (case e of HeaderSet k _ \<Rightarrow> k = ''X-Request-Id'' | _ \<Rightarrow> False)"

lemma spec_getProxyApiKey [op_rules]: "(\<And>x. Q x) \<Longrightarrow> op_spec env rq P n Q getProxyApiKey"
  by (simp add: op_spec_def getProxyApiKey_def Let_def)

lemma spec_generateRequestId [op_rules]: "(\<And>x. Q x) \<Longrightarrow> op_spec env rq P n Q generateRequestId"
  by (simp add: op_spec_def generateRequestId_def Let_def split: option.split)

lemma spec_assignRequestId:
  "(\<And>i. P (HeaderSet ''X-Request-Id'' i)) \<Longrightarrow> (\<And>x. Q x) \<Longrightarrow> op_spec env rq P n Q assignRequestId"
  unfolding assignRequestId_def
  by (rule op_spec_and_then [where R = "\<lambda>_. True" and a = 0 and b = 0])
     (auto intro!: op_rules op_spec_and_then [where R = "\<lambda>_. True" and a = 0 and b = 0]
       simp: op_spec_def [of _ _ _ _ _ "\<lambda>env rq s. (Inr _, _ s)"] split: option.split)

lemma spec_getLogicalRequestId [op_rules]:
  assumes "\<And>i. P (HeaderSet ''X-Request-Id'' i)" "\<And>x. Q x"
  shows "op_spec env rq P n Q getLogicalRequestId"
  using spec_assignRequestId [of P Q env rq n] assms
  by (auto simp: op_spec_def getLogicalRequestId_def intro: exI [of _ "[]"])

lemma REQUEST_ID_PATTERN_trim: "REQUEST_ID_PATTERN (js_trim v) \<Longrightarrow> normalizeRequestId (Some v) = Some (js_trim v)"
  by (simp add: normalizeRequestId_def)

lemma normalizeRequestId_ok: "normalizeRequestId v = Some i \<Longrightarrow> REQUEST_ID_PATTERN i"
  by (auto simp: normalizeRequestId_def Let_def split: if_splits)

end
