(* ===== verification/AuthCookies.thy ===== *)
theory AuthCookies
  imports ServerConfig
begin

text \<open>
  The session cookies of the web server (\<open>server/auth-cookies.ts\<close>): their options, setting and
  clearing them, the CSRF cookie, and the rotation of the refresh token at the core service.
\<close>

subsection \<open>Names and options\<close>

definition AUTH_ACCESS_COOKIE :: string where "AUTH_ACCESS_COOKIE = ''auth-token''"

definition AUTH_REFRESH_COOKIE :: string where "AUTH_REFRESH_COOKIE = ''refresh-token''"

definition CSRF_COOKIE :: string where "CSRF_COOKIE = ''csrf-token''"

definition ACCESS_MAX_AGE_SECONDS :: int where "ACCESS_MAX_AGE_SECONDS = 60 * 60"

definition REFRESH_MAX_AGE_SECONDS :: int where "REFRESH_MAX_AGE_SECONDS = 7 * 24 * 60 * 60"

definition CSRF_MAX_AGE_SECONDS :: int where "CSRF_MAX_AGE_SECONDS = REFRESH_MAX_AGE_SECONDS"

definition secureCookiesEnabled :: "env_vars \<Rightarrow> bool" where
  "secureCookiesEnabled env =
     (let configured = env_flag env ''AUTH_COOKIE_SECURE'' in
      if configured = ''true'' then True
      else if configured = ''false'' then False
      else is_production env)"

definition cookieDomain :: "env_vars \<Rightarrow> string option" where
  "cookieDomain env =
     (case map_of env ''AUTH_COOKIE_DOMAIN'' of
        None \<Rightarrow> None
      | Some v \<Rightarrow> if js_trim v = [] then None else Some (js_trim v))"

definition authCookieOptions :: "int \<Rightarrow> env_vars \<Rightarrow> cookie_options" where
  "authCookieOptions maxAge env =
     \<lparr>co_domain = cookieDomain env, co_httpOnly = True, co_maxAge = maxAge, co_path = ''/'',
      co_sameSite = ''lax'', co_secure = secureCookiesEnabled env\<rparr>"

definition csrfCookieOptions :: "env_vars \<Rightarrow> cookie_options" where
  "csrfCookieOptions env =
     \<lparr>co_domain = cookieDomain env, co_httpOnly = False, co_maxAge = CSRF_MAX_AGE_SECONDS,
      co_path = ''/'', co_sameSite = ''lax'', co_secure = secureCookiesEnabled env\<rparr>"

subsection \<open>Setting and clearing\<close>

definition setAuthCookies :: "token_pair \<Rightarrow> unit op" where
  "setAuthCookies tokens =
     and_then (vars_op (authCookieOptions ACCESS_MAX_AGE_SECONDS)) (\<lambda>access_options.
     and_then (setCookie AUTH_ACCESS_COOKIE (tp_access tokens) access_options) (\<lambda>_.
     and_then (vars_op (authCookieOptions REFRESH_MAX_AGE_SECONDS)) (\<lambda>refresh_options.
       setCookie AUTH_REFRESH_COOKIE (tp_refresh tokens) refresh_options)))"

definition deletion :: "string \<Rightarrow> env_vars \<Rightarrow> cookie_op" where
  "deletion name env = DeleteCookie name (cookieDomain env) ''/'' ''lax'' (secureCookiesEnabled env)"

definition deleteCookie :: "string \<Rightarrow> unit op" where
  "deleteCookie name = and_then (vars_op (deletion name)) (\<lambda>c. log_op (Cookied c))"

definition clearAuthCookies :: "unit op" where
  "clearAuthCookies =
     and_then (deleteCookie AUTH_ACCESS_COOKIE) (\<lambda>_. deleteCookie AUTH_REFRESH_COOKIE)"

definition getAccessToken :: "http_request \<Rightarrow> string option" where
  "getAccessToken rq = getCookie rq AUTH_ACCESS_COOKIE"

definition getRefreshToken :: "http_request \<Rightarrow> string option" where
  "getRefreshToken rq = getCookie rq AUTH_REFRESH_COOKIE"

text \<open>\<open>crypto.randomUUID()\<close>, which throws where the runtime has none.\<close>

definition randomUUID :: "string op" where
  "randomUUID env rq s =
     (case se_uuid env of
        None \<Rightarrow> (Inl (JsError ''TypeError: crypto.randomUUID is not a function''), s)
      | Some uuid \<Rightarrow> (Inr (uuid (ss_drawn s)), s\<lparr>ss_drawn := ss_drawn s + 1\<rparr>))"

definition getOrCreateCsrfToken :: "string op" where
  "getOrCreateCsrfToken =
     and_then (request_op (\<lambda>rq. getCookie rq CSRF_COOKIE)) (\<lambda>existing.
       if truthy_str existing then return_op (the existing)
       else
         and_then randomUUID (\<lambda>a.
         and_then randomUUID (\<lambda>b.
           let token = filter (\<lambda>c. c \<noteq> CHR ''-'') (a @ b) in
           and_then (vars_op csrfCookieOptions) (\<lambda>options.
           and_then (setCookie CSRF_COOKIE token options) (\<lambda>_.
             return_op token)))))"

definition clearCsrfCookie :: "unit op" where
  "clearCsrfCookie = deleteCookie CSRF_COOKIE"

subsection \<open>Cookies of another service\<close>

text \<open>
  \<open>value.split(/,(?=[^;,]+=)/)\<close>: a comma separates cookies where a name and an equals sign follow
  before the next semicolon or comma, so the comma inside a date does not.
\<close>

definition cookie_follows :: "string \<Rightarrow> bool" where
  "cookie_follows s \<longleftrightarrow> CHR ''='' \<in> set (drop 1 (takeWhile (\<lambda>c. c \<noteq> CHR '';'' \<and> c \<noteq> CHR '','') s))"

fun split_cookies :: "string \<Rightarrow> string list" where
  "split_cookies [] = [[]]"
| "split_cookies (c # s) =
     (if c = CHR '','' \<and> cookie_follows s then [] # split_cookies s
      else (case split_cookies s of w # ws \<Rightarrow> (c # w) # ws | [] \<Rightarrow> [[c]]))"

definition cookie_in :: "string \<Rightarrow> string \<Rightarrow> string option" where
  "cookie_in name v =
     (let start = name @ ''='' in
      case find (\<lambda>part. prefix start part) (map js_trim (split_cookies v)) of
        None \<Rightarrow> None
      | Some cookie \<Rightarrow> Some (takeWhile (\<lambda>c. c \<noteq> CHR '';'') (drop (length start) cookie)))"

fun first_cookie :: "string \<Rightarrow> string list \<Rightarrow> string option" where
  "first_cookie name [] = None"
| "first_cookie name (v # vs) = (case cookie_in name v of Some c \<Rightarrow> Some c | None \<Rightarrow> first_cookie name vs)"

definition extractUpstreamCookie :: "upstream \<Rightarrow> string \<Rightarrow> string option" where
  "extractUpstreamCookie response name =
     first_cookie name
       (case us_setCookies response of
          Some vs \<Rightarrow> vs
        | None \<Rightarrow> [nullish (map_of (us_headers response) ''set-cookie'') []])"

subsection \<open>Rotating the tokens\<close>

text \<open>Reading a field throws on \<open>null\<close>.\<close>

definition field_op :: "string \<Rightarrow> json \<Rightarrow> json option op" where
  "field_op k j = (if j = JNull then throw_op (JsError ''TypeError'') else return_op (json_field k j))"

definition refresh_call :: "string \<Rightarrow> string \<Rightarrow> string \<Rightarrow> call" where
  "refresh_call apiUrl refreshToken requestId =
     \<lparr>cl_method = ''POST'', cl_url = apiUrl @ ''/auth/token/refresh/'',
      cl_headers = [(''Content-Type'', ''application/json''), (''X-Request-Id'', requestId)],
      cl_body = BodyJson (JObj [(''refresh'', JStr refreshToken)]), cl_timeout = Some 3000\<rparr>"

definition requestRotatedTokens :: "string \<Rightarrow> token_pair option op" where
  "requestRotatedTokens refreshToken =
     and_then (vars_op getApiUrl) (\<lambda>apiUrl.
     and_then getLogicalRequestId (\<lambda>requestId.
     and_then (fetch_op (refresh_call apiUrl refreshToken requestId)) (\<lambda>response.
       if us_status response = 401 then return_op None
       else if \<not> status_ok (us_status response)
         then throw_op (JsError (''Failed to refresh auth token ('' @ show_int (us_status response) @ '')''))
       else
         and_then (json_of response) (\<lambda>tokens.
         and_then (field_op ''access'' tokens) (\<lambda>access.
           if \<not> truthy_str (json_str access)
             then throw_op (JsError ''Refresh response did not include an access token'')
           else
             let rotatedRefresh = opt_else (extractUpstreamCookie response AUTH_REFRESH_COOKIE)
                   (json_str (json_field ''refresh'' tokens)) in
             if \<not> truthy_str rotatedRefresh
               then throw_op (JsError ''Refresh response did not include a refresh token'')
             else return_op (Some \<lparr>tp_access = the (json_str access), tp_refresh = the rotatedRefresh\<rparr>))))))"

text \<open>
  \<open>refreshes.get(token) ?? requestRotatedTokens(token)\<close>: a refresh of the same token that another
  request has under way is awaited instead; when it has settled, it is no longer in the map.
\<close>

definition awaitRotation :: "string \<Rightarrow> token_pair option op" where
  "awaitRotation refreshToken env rq s =
     (case map_of (ss_refreshes s) refreshToken of
        None \<Rightarrow> requestRotatedTokens refreshToken env rq s
      | Some outcome \<Rightarrow> (outcome, s\<lparr>ss_refreshes := remove1 (refreshToken, outcome) (ss_refreshes s)\<rparr>))"

definition refreshAuthCookies :: "string option op" where
  "refreshAuthCookies =
     and_then (request_op getRefreshToken) (\<lambda>refreshToken.
       if \<not> truthy_str refreshToken then return_op None
       else
         and_then (awaitRotation (the refreshToken)) (\<lambda>tokens.
           case tokens of
             None \<Rightarrow> and_then clearAuthCookies (\<lambda>_. return_op None)
           | Some t \<Rightarrow> and_then (setAuthCookies t) (\<lambda>_. return_op (Some (tp_access t)))))"

subsection \<open>Runs and effects\<close>

lemma setAuthCookies_run:
  "setAuthCookies t env rq s = (Inr (), s\<lparr>ss_log := ss_log s @
     [Cookied (SetCookie AUTH_ACCESS_COOKIE (tp_access t) (authCookieOptions ACCESS_MAX_AGE_SECONDS (se_vars env))),
      Cookied (SetCookie AUTH_REFRESH_COOKIE (tp_refresh t) (authCookieOptions REFRESH_MAX_AGE_SECONDS (se_vars env)))]\<rparr>)"
  by (simp add: setAuthCookies_def op_defs)

lemma clearAuthCookies_run:
  "clearAuthCookies env rq s = (Inr (), s\<lparr>ss_log := ss_log s @
     [Cookied (deletion AUTH_ACCESS_COOKIE (se_vars env)), Cookied (deletion AUTH_REFRESH_COOKIE (se_vars env))]\<rparr>)"
  by (simp add: clearAuthCookies_def deleteCookie_def op_defs)

lemma spec_setAuthCookies [op_rules]:
  assumes "\<And>k v opts. k \<in> {AUTH_ACCESS_COOKIE, AUTH_REFRESH_COOKIE} \<Longrightarrow> P (Cookied (SetCookie k v opts))" "Q ()"
  shows "op_spec env rq P n Q (setAuthCookies t)"
  using assms by (simp add: op_spec_def setAuthCookies_run)

lemma spec_clearAuthCookies [op_rules]:
  assumes "\<And>k. k \<in> {AUTH_ACCESS_COOKIE, AUTH_REFRESH_COOKIE} \<Longrightarrow> P (Cookied (deletion k (se_vars env)))" "Q ()"
  shows "op_spec env rq P n Q clearAuthCookies"
  using assms by (simp add: op_spec_def clearAuthCookies_run)

text \<open>A rotation without an error gives no tokens or two non-empty ones.\<close>

definition rotation_ok :: "token_pair option \<Rightarrow> bool" where
  "rotation_ok tokens \<longleftrightarrow> (case tokens of None \<Rightarrow> True | Some t \<Rightarrow> tp_access t \<noteq> [] \<and> tp_refresh t \<noteq> [])"

lemma spec_requestRotatedTokens:
  assumes P: "\<And>i. P (Fetched (refresh_call (getApiUrl (se_vars env)) t i))"
      "\<And>i. P (HeaderSet ''X-Request-Id'' i)"
  shows "op_spec env rq P 1 rotation_ok (requestRotatedTokens t)"
proof -
  have answer: "op_spec env rq P 0 rotation_ok
      (and_then (json_of response) (\<lambda>tokens.
         and_then (field_op ''access'' tokens) (\<lambda>access.
           if \<not> truthy_str (json_str access) then throw_op e
           else let rotated = f tokens in
             if \<not> truthy_str rotated then throw_op e'
             else return_op (Some \<lparr>tp_access = the (json_str access), tp_refresh = the rotated\<rparr>))))"
    for response e e' f
    by (rule op_spec_and_then [where R = "\<lambda>_. True" and a = 0 and b = 0])
      (auto intro!: op_rules op_spec_and_then [where R = "\<lambda>_. True" and a = 0 and b = 0]
        simp: field_op_def Let_def rotation_ok_def truthy_str_def split: option.splits)
  show ?thesis
    unfolding requestRotatedTokens_def
    apply (rule op_spec_and_then [where R = "\<lambda>u. u = getApiUrl (se_vars env)" and a = 0 and b = 1])
      apply (rule op_rules, rule refl)
     apply (rule op_spec_and_then [where R = "\<lambda>_. True" and a = 0 and b = 1])
       apply (rule spec_getLogicalRequestId, rule P(2), rule TrueI)
      apply (rule op_spec_and_then [where R = "\<lambda>_. True" and a = 1 and b = 0])
        apply (simp add: P(1) op_spec_fetch)
       apply (auto intro!: op_rules answer simp: rotation_ok_def)
    done
qed

lemma spec_rotate:
  assumes P: "\<And>i. P (Fetched (refresh_call (getApiUrl (se_vars env)) t i))"
      "\<And>i. P (HeaderSet ''X-Request-Id'' i)" and Q: "\<And>x. Q x"
  shows "op_spec env rq P 1 Q (awaitRotation t)"
proof (rule op_specI)
  fix s
  show "\<exists>es. ss_log (snd (awaitRotation t env rq s)) = ss_log s @ es \<and> list_all P es \<and>
      length (calls_of es) \<le> 1 \<and> (\<forall>x. fst (awaitRotation t env rq s) = Inr x \<longrightarrow> Q x)"
    using op_spec_weaken [OF spec_requestRotatedTokens [of P env t rq, OF P], of 1 P Q] Q
    by (cases "map_of (ss_refreshes s) t") (simp_all add: awaitRotation_def op_spec_def)
qed

definition auth_set :: "env_vars \<Rightarrow> token_pair \<Rightarrow> cookie_op list" where
  "auth_set env t =
     [SetCookie AUTH_ACCESS_COOKIE (tp_access t) (authCookieOptions ACCESS_MAX_AGE_SECONDS env),
      SetCookie AUTH_REFRESH_COOKIE (tp_refresh t) (authCookieOptions REFRESH_MAX_AGE_SECONDS env)]"

definition auth_cleared :: "env_vars \<Rightarrow> cookie_op list" where
  "auth_cleared env = [deletion AUTH_ACCESS_COOKIE env, deletion AUTH_REFRESH_COOKIE env]"

definition refresh_effect :: "server_env \<Rightarrow> string \<Rightarrow> effect \<Rightarrow> bool" where
  "refresh_effect env t e \<longleftrightarrow>
     (case e of
        Fetched c \<Rightarrow> \<exists>i. c = refresh_call (getApiUrl (se_vars env)) t i
      | HeaderSet k _ \<Rightarrow> k = ''X-Request-Id''
      | Cookied _ \<Rightarrow> False)"

lemma spec_rotate_effects: "op_spec env rq (refresh_effect env t) 1 (\<lambda>_. True) (awaitRotation t)"
  by (rule spec_rotate) (auto simp: refresh_effect_def)

lemma no_cookies: "list_all (refresh_effect env t) es \<Longrightarrow> cookies_of es = []"
  by (induction es) (auto simp: refresh_effect_def split: effect.splits)

lemma only_refresh_calls:
  "list_all (refresh_effect env t) es \<Longrightarrow>
     list_all (\<lambda>c. \<exists>i. c = refresh_call (getApiUrl (se_vars env)) t i) (calls_of es)"
  by (induction es) (auto simp: refresh_effect_def split: effect.splits)

text \<open>The cookies that go with an outcome of the refresh.\<close>

definition refresh_cookies :: "env_vars \<Rightarrow> bool \<Rightarrow> js_error + string option \<Rightarrow> cookie_op list \<Rightarrow> bool" where
  "refresh_cookies env had_token r cookies \<longleftrightarrow>
     (case r of
        Inl e \<Rightarrow> cookies = []
      | Inr None \<Rightarrow> cookies = (if had_token then auth_cleared env else [])
      | Inr (Some a) \<Rightarrow> (\<exists>t. cookies = auth_set env \<lparr>tp_access = a, tp_refresh = t\<rparr>))"

lemma refresh_log:
  "\<exists>es. ss_log (snd (refreshAuthCookies env rq s)) = ss_log s @ es \<and> length (calls_of es) \<le> 1 \<and>
     list_all (\<lambda>c. truthy_str (getRefreshToken rq) \<and>
       (\<exists>i. c = refresh_call (getApiUrl (se_vars env)) (the (getRefreshToken rq)) i)) (calls_of es) \<and>
     refresh_cookies (se_vars env) (truthy_str (getRefreshToken rq)) (fst (refreshAuthCookies env rq s)) (cookies_of es)"
proof (cases "truthy_str (getRefreshToken rq)")
  case False
  then show ?thesis
    by (intro exI [of _ "[]"]) (simp add: refreshAuthCookies_def op_defs refresh_cookies_def)
next
  case True
  let ?t = "the (getRefreshToken rq)"
  obtain es where es: "ss_log (snd (awaitRotation ?t env rq s)) = ss_log s @ es"
      "list_all (refresh_effect env ?t) es" "length (calls_of es) \<le> 1"
    by (rule op_specE [OF spec_rotate_effects, of ?t env rq s])
  note quiet = no_cookies [OF es(2)] only_refresh_calls [OF es(2)]
  obtain r s' where r: "awaitRotation ?t env rq s = (r, s')" by (cases "awaitRotation ?t env rq s")
  have run: "refreshAuthCookies env rq s =
      (case r of Inl e \<Rightarrow> (Inl e, s')
       | Inr None \<Rightarrow> (Inr None, snd (clearAuthCookies env rq s'))
       | Inr (Some t) \<Rightarrow> (Inr (Some (tp_access t)), snd (setAuthCookies t env rq s')))"
    using True
    by (simp add: refreshAuthCookies_def and_then_def request_op_def r return_op_def
        clearAuthCookies_run setAuthCookies_run split: sum.split option.split)
  show ?thesis
  proof (cases r)
    case (Inl e)
    with es quiet r True show ?thesis by (intro exI [of _ es]) (simp add: run refresh_cookies_def)
  next
    case (Inr x)
    show ?thesis
    proof (cases x)
      case None
      with Inr es quiet r True show ?thesis
        by (intro exI [of _ "es @ map Cookied (auth_cleared (se_vars env))"])
          (simp add: run refresh_cookies_def clearAuthCookies_run auth_cleared_def)
    next
      case (Some t)
      obtain a r' where t: "t = \<lparr>tp_access = a, tp_refresh = r'\<rparr>" by (cases t)
      from Some Inr es quiet r True show ?thesis
        by (intro exI [of _ "es @ map Cookied (auth_set (se_vars env) t)"])
          (auto simp: run refresh_cookies_def setAuthCookies_run auth_set_def t)
    qed
  qed
qed

lemma spec_refreshAuthCookies:
  assumes P: "\<And>i. P (Fetched (refresh_call (getApiUrl (se_vars env)) (the (getRefreshToken rq)) i))"
      "\<And>i. P (HeaderSet ''X-Request-Id'' i)"
      "\<And>k v opts. k \<in> {AUTH_ACCESS_COOKIE, AUTH_REFRESH_COOKIE} \<Longrightarrow> P (Cookied (SetCookie k v opts))"
      "\<And>k. k \<in> {AUTH_ACCESS_COOKIE, AUTH_REFRESH_COOKIE} \<Longrightarrow> P (Cookied (deletion k (se_vars env)))"
    and Q: "\<And>x. Q x"
  shows "op_spec env rq P 1 Q refreshAuthCookies"
  unfolding refreshAuthCookies_def
  apply (rule op_spec_and_then [where R = "\<lambda>t. t = getRefreshToken rq" and a = 0 and b = 1])
    apply (rule op_rules, rule refl)
   apply (auto intro!: op_rules Q)
  apply (rule op_spec_and_then [where R = "\<lambda>_. True" and a = 1 and b = 0])
    apply (rule spec_rotate, rule P(1), rule P(2), rule TrueI)
   apply (auto intro!: op_rules Q P(3,4) op_spec_and_then [where R = "\<lambda>_. True" and a = 0 and b = 0]
      split: option.split)
  done

text \<open>The refreshes that the other requests have under way settle with such rotations.\<close>

definition refreshes_ok :: "server_state \<Rightarrow> bool" where
  "refreshes_ok s \<longleftrightarrow> (\<forall>(t, outcome) \<in> set (ss_refreshes s). \<forall>x. outcome = Inr x \<longrightarrow> rotation_ok x)"

lemma refreshed_access:
  assumes "refreshes_ok s" "fst (refreshAuthCookies env rq s) = Inr (Some a)"
  shows "a \<noteq> []"
proof -
  let ?t = "the (getRefreshToken rq)"
  obtain r s' where r: "awaitRotation ?t env rq s = (r, s')" by (cases "awaitRotation ?t env rq s")
  have "\<forall>x. r = Inr x \<longrightarrow> rotation_ok x"
  proof (cases "map_of (ss_refreshes s) ?t")
    case None
    have "op_spec env rq (refresh_effect env ?t) 1 rotation_ok (requestRotatedTokens ?t)"
      by (rule spec_requestRotatedTokens) (auto simp: refresh_effect_def)
    with None r show ?thesis by (auto simp: op_spec_def awaitRotation_def dest!: spec [of _ s])
  next
    case (Some outcome)
    with assms(1) r show ?thesis
      by (auto simp: refreshes_ok_def awaitRotation_def dest!: map_of_SomeD)
  qed
  with assms(2) r show ?thesis
    by (auto simp: refreshAuthCookies_def op_defs clearAuthCookies_run [unfolded op_defs]
        setAuthCookies_run [unfolded op_defs] rotation_ok_def split: if_splits sum.splits option.splits)
qed

text \<open>What refreshing the session does, in any state: it calls the core service at most once,
  with the refresh token of the request, and it changes the cookies only by its outcome.  An error
  changes none of them, an outcome without tokens deletes both session cookies (unless there was
  no token to refresh with), and new tokens are set as HTTP-only cookies, the access token being
  the one returned.\<close>

theorem refresh_effects:
  "\<exists>es. ss_log (snd (refreshAuthCookies env rq s)) = ss_log s @ es \<and> length (calls_of es) \<le> 1 \<and>
     list_all (\<lambda>c. truthy_str (getRefreshToken rq) \<and>
       (\<exists>i. c = refresh_call (getApiUrl (se_vars env)) (the (getRefreshToken rq)) i)) (calls_of es) \<and>
     (case fst (refreshAuthCookies env rq s) of
        Inl e \<Rightarrow> cookies_of es = []
      | Inr None \<Rightarrow> cookies_of es = (if truthy_str (getRefreshToken rq) then auth_cleared (se_vars env) else [])
      | Inr (Some a) \<Rightarrow> (\<exists>r. cookies_of es = auth_set (se_vars env) \<lparr>tp_access = a, tp_refresh = r\<rparr>))"
  using refresh_log [of env rq s] by (simp add: refresh_cookies_def)

end
