(* ===== verification/RequestSecurity.thy ===== *)
theory RequestSecurity
  imports AuthCookies
begin

text \<open>
  The checks on incoming requests: the CSRF token (\<open>server/csrf.ts\<close>), the bounded reading of a
  JSON body and the fixed-window rate limiter (\<open>server/request-security.ts\<close>), the telemetry
  route that uses them (\<open>routes/api/perf/vitals.ts\<close>) and the redirect target after a login
  (\<open>lib/auth/redirect.ts\<close>).
\<close>

subsection \<open>CSRF\<close>

definition CSRF_HEADER :: string where "CSRF_HEADER = ''x-csrf-token''"

definition char_code :: "char \<Rightarrow> int" where
  "char_code c = int (of_char c)"

text \<open>The loop: \<open>difference |= left.charCodeAt(i) ^ right.charCodeAt(i)\<close>.\<close>

definition char_difference :: "string \<Rightarrow> string \<Rightarrow> int" where
  "char_difference left right =
     fold (\<lambda>(a, b) difference. Bit_Operations.or difference (Bit_Operations.xor (char_code a) (char_code b)))
       (zip left right) 0"

definition constantTimeEqual :: "string \<Rightarrow> string \<Rightarrow> bool" where
  "constantTimeEqual left right =
     (if length left < 32 \<or> length left \<noteq> length right then False
      else char_difference left right = 0)"

definition validateCsrfRequest :: "http_request \<Rightarrow> bool" where
  "validateCsrfRequest request =
     (let origin = header request ''origin'' in
      if truthy_str origin \<and> origin \<noteq> Some (rq_origin request) then False
      else if header request ''sec-fetch-site'' = Some ''cross-site'' then False
      else
        let cookieToken = nullish (getCookie request CSRF_COOKIE) [];
            headerToken = nullish (header request CSRF_HEADER) [] in
        constantTimeEqual cookieToken headerToken)"

lemma char_code_inject: "char_code a = char_code b \<longleftrightarrow> a = b"
  by (simp add: char_code_def)

lemma xor_zero_iff: "Bit_Operations.xor (a :: int) b = 0 \<longleftrightarrow> a = b"
proof
  assume "Bit_Operations.xor a b = 0"
  then have "Bit_Operations.xor (Bit_Operations.xor a b) b = b" by simp
  then show "a = b" by (simp add: xor.assoc)
qed simp

lemma difference_fold:
  "fold (\<lambda>(a, b) d. Bit_Operations.or d (Bit_Operations.xor (char_code a) (char_code b))) ps d = 0 \<longleftrightarrow>
     d = 0 \<and> (\<forall>(a, b) \<in> set ps. a = b)"
proof (induction ps arbitrary: d)
  case (Cons p ps)
  obtain a b where p: "p = (a, b)" by (cases p)
  have "Bit_Operations.or d (Bit_Operations.xor (char_code a) (char_code b)) = 0 \<longleftrightarrow> d = 0 \<and> a = b"
    by (simp add: or_eq_0_iff xor_zero_iff char_code_inject)
  with Cons show ?case by (auto simp: p)
qed simp

lemma zip_all_equal:
  "length xs = length ys \<Longrightarrow> (\<forall>(a, b) \<in> set (zip xs ys). a = b) \<longleftrightarrow> xs = ys"
  by (induction xs ys rule: list_induct2) auto

lemma constantTimeEqual_iff: "constantTimeEqual l r \<longleftrightarrow> l = r \<and> 32 \<le> length l"
  using zip_all_equal [of l r] by (auto simp: constantTimeEqual_def char_difference_def difference_fold)

subsection \<open>Bounded JSON bodies\<close>

definition DEFAULT_JSON_BODY_LIMIT :: int where "DEFAULT_JSON_BODY_LIMIT = 2048"

definition isRateLimitingDisabled :: "env_vars \<Rightarrow> bool" where
  "isRateLimitingDisabled env \<longleftrightarrow>
     env_flag env ''DISABLE_RATE_LIMITS'' \<in> set [''1'', ''true'', ''yes'', ''on'']"

datatype body_error = BodyTooLarge | BodyInvalidJson

text \<open>
  The reading loop over the chunks of the body: the bytes read so far and the text decoded so
  far.  A chunk that takes the count over the limit ends the reading.
\<close>

fun read_chunks :: "int \<Rightarrow> string list \<Rightarrow> int \<Rightarrow> string \<Rightarrow> body_error + string" where
  "read_chunks maxBytes [] bytesRead body = Inr body"
| "read_chunks maxBytes (value # chunks) bytesRead body =
     (let bytesRead' = bytesRead + int (length value) in
      if maxBytes < bytesRead' then Inl BodyTooLarge
      else read_chunks maxBytes chunks bytesRead' (body @ value))"

text \<open>\<open>Number(s) > n\<close>, false for \<open>NaN\<close>.\<close>

definition number_above :: "string \<Rightarrow> int \<Rightarrow> bool" where
  "number_above s n = (case js_Number s of Fin r \<Rightarrow> of_int n < r | PosInf \<Rightarrow> True | _ \<Rightarrow> False)"

text \<open>
  \<open>parse\<close> is \<open>JSON.parse\<close> after UTF-8 decoding, \<open>None\<close> when it throws; it throws on the empty text.
\<close>

definition readLimitedJson :: "(string \<Rightarrow> 'j option) \<Rightarrow> http_request \<Rightarrow> int \<Rightarrow> body_error + 'j" where
  "readLimitedJson parse request maxBytes =
     (if (case header request ''content-length'' of
            Some contentLength \<Rightarrow> contentLength \<noteq> [] \<and> number_above contentLength maxBytes
          | None \<Rightarrow> False)
      then Inl BodyTooLarge
      else (case rq_body request of
              None \<Rightarrow> (case parse [] of None \<Rightarrow> Inl BodyInvalidJson | Some j \<Rightarrow> Inr j)
            | Some chunks \<Rightarrow>
                (case read_chunks maxBytes chunks 0 [] of
                   Inl e \<Rightarrow> Inl e
                 | Inr t \<Rightarrow> (case parse t of None \<Rightarrow> Inl BodyInvalidJson | Some j \<Rightarrow> Inr j))))"

lemma read_chunks_eq:
  "0 \<le> n \<Longrightarrow> n \<le> maxBytes \<Longrightarrow> read_chunks maxBytes chunks n body =
     (if n + int (length (concat chunks)) \<le> maxBytes then Inr (body @ concat chunks) else Inl BodyTooLarge)"
proof (induction chunks arbitrary: n body)
  case (Cons v chunks)
  then show ?case by (cases "maxBytes < n + int (length v)") (auto simp: Let_def)
qed simp

subsection \<open>The fixed-window rate limiter\<close>

record rate_limiter =
  rl_limit :: int
  rl_windowMs :: int
  rl_windowStartedAt :: int
  rl_count :: int

definition createFixedWindowRateLimiter :: "int \<Rightarrow> int \<Rightarrow> int \<Rightarrow> rate_limiter" where
  "createFixedWindowRateLimiter limit windowMs now =
     \<lparr>rl_limit = limit, rl_windowMs = windowMs, rl_windowStartedAt = now, rl_count = 0\<rparr>"

definition consume :: "int \<Rightarrow> rate_limiter \<Rightarrow> bool \<times> rate_limiter" where
  "consume currentTime st =
     (let st1 = (if rl_windowMs st \<le> currentTime - rl_windowStartedAt st
                 then st\<lparr>rl_windowStartedAt := currentTime, rl_count := 0\<rparr> else st) in
      if rl_limit st1 \<le> rl_count st1 then (False, st1)
      else (True, st1\<lparr>rl_count := rl_count st1 + 1\<rparr>))"

text \<open>The answers to a sequence of calls at the given times, with the final state.\<close>

fun consume_all :: "int list \<Rightarrow> rate_limiter \<Rightarrow> bool list \<times> rate_limiter" where
  "consume_all [] st = ([], st)"
| "consume_all (t # ts) st =
     (let (ok, st1) = consume t st; (oks, st2) = consume_all ts st1 in (ok # oks, st2))"

definition accepted :: "bool list \<Rightarrow> int" where
  "accepted oks = int (length (filter id oks))"

definition limiter_ok :: "rate_limiter \<Rightarrow> bool" where
  "limiter_ok st \<longleftrightarrow> 0 \<le> rl_count st \<and> rl_count st \<le> rl_limit st"

lemma consume_ok:
  "limiter_ok st \<Longrightarrow> limiter_ok (snd (consume t st))"
  by (auto simp: limiter_ok_def consume_def Let_def)

lemma consume_fixed [simp]:
  "rl_limit (snd (consume t st)) = rl_limit st" "rl_windowMs (snd (consume t st)) = rl_windowMs st"
  by (simp_all add: consume_def Let_def)

text \<open>While the window does not expire, only the rest of the limit is granted.\<close>

lemma accepted_in_window:
  "limiter_ok st \<Longrightarrow> \<forall>t \<in> set ts. t < rl_windowStartedAt st + rl_windowMs st \<Longrightarrow>
     accepted (fst (consume_all ts st)) \<le> rl_limit st - rl_count st"
proof (induction ts arbitrary: st)
  case Nil
  then show ?case by (simp add: accepted_def limiter_ok_def)
next
  case (Cons t ts)
  have c: "consume t st = (if rl_limit st \<le> rl_count st then (False, st)
      else (True, st\<lparr>rl_count := rl_count st + 1\<rparr>))"
    using Cons.prems(2) by (simp add: consume_def Let_def)
  show ?case
  proof (cases "rl_limit st \<le> rl_count st")
    case True
    with Cons.IH [of st] Cons.prems c show ?thesis by (simp add: accepted_def split_beta)
  next
    case False
    let ?st = "st\<lparr>rl_count := rl_count st + 1\<rparr>"
    have "limiter_ok ?st" using Cons.prems(1) False by (simp add: limiter_ok_def)
    with Cons.IH [of ?st] Cons.prems(2) False c show ?thesis
      by (simp add: accepted_def split_beta)
  qed
qed

text \<open>In a run of calls shorter than a window at most one reset happens.\<close>

lemma accepted_short_run:
  "limiter_ok st \<Longrightarrow> 0 \<le> rl_limit st \<Longrightarrow> sorted ts \<Longrightarrow> (\<forall>t \<in> set ts. t < a + rl_windowMs st) \<Longrightarrow>
   (\<forall>t \<in> set ts. a \<le> t) \<Longrightarrow>
     accepted (fst (consume_all ts st)) \<le> (rl_limit st - rl_count st) + rl_limit st"
proof (induction ts arbitrary: st)
  case Nil
  then show ?case by (simp add: accepted_def limiter_ok_def)
next
  case (Cons t ts)
  show ?case
  proof (cases "rl_windowMs st \<le> t - rl_windowStartedAt st")
    case True
    let ?st = "st\<lparr>rl_windowStartedAt := t, rl_count := 0\<rparr>"
    have same: "consume_all (t # ts) st = consume_all (t # ts) ?st"
    proof -
      have "consume t st = consume t ?st"
        using True Cons.prems(4) by (simp add: consume_def Let_def)
      then show ?thesis by simp
    qed
    have "\<forall>u \<in> set (t # ts). u < rl_windowStartedAt ?st + rl_windowMs ?st"
      using Cons.prems(4,5) by fastforce
    moreover have "limiter_ok ?st" using Cons.prems(2) by (simp add: limiter_ok_def)
    ultimately have "accepted (fst (consume_all (t # ts) ?st)) \<le> rl_limit ?st - rl_count ?st"
      by (intro accepted_in_window)
    then show ?thesis
      using Cons.prems(1) unfolding same by (simp add: limiter_ok_def)
  next
    case False
    have c: "consume t st = (if rl_limit st \<le> rl_count st then (False, st)
        else (True, st\<lparr>rl_count := rl_count st + 1\<rparr>))"
      using False by (simp add: consume_def Let_def)
    show ?thesis
    proof (cases "rl_limit st \<le> rl_count st")
      case True
      with Cons.IH [of st] Cons.prems c show ?thesis by (simp add: accepted_def split_beta)
    next
      case False
      let ?st = "st\<lparr>rl_count := rl_count st + 1\<rparr>"
      have "limiter_ok ?st" using Cons.prems(1) False by (simp add: limiter_ok_def)
      with Cons.IH [of ?st] Cons.prems False c show ?thesis
        by (simp add: accepted_def split_beta)
    qed
  qed
qed

subsection \<open>The telemetry route\<close>

definition METRIC_NAMES :: "string list" where
  "METRIC_NAMES = [''CLS'', ''FCP'', ''INP'', ''LCP'', ''TTFB'']"

definition METRIC_RATINGS :: "string list" where
  "METRIC_RATINGS = [''good'', ''needs-improvement'', ''poor'']"

definition BROWSER_STATES :: "string list" where
  "BROWSER_STATES = [''cold'', ''warm'', ''unknown'']"

definition NAVIGATION_TYPES :: "string list" where
  "NAVIGATION_TYPES = [''navigate'', ''reload'', ''back_forward'', ''prerender'', ''unknown'']"

text \<open>\<open>v === undefined || (typeof v === "string" && p(v))\<close>.\<close>

definition opt_string :: "(string \<Rightarrow> bool) \<Rightarrow> json option \<Rightarrow> bool" where
  "opt_string p v = (case v of None \<Rightarrow> True | Some (JStr s) \<Rightarrow> p s | _ \<Rightarrow> False)"

definition isValidPayload :: "json \<Rightarrow> bool" where
  "isValidPayload value \<longleftrightarrow>
     (case value of JObj _ \<Rightarrow> True | JArr _ \<Rightarrow> True | _ \<Rightarrow> False) \<and>
     (case json_field ''name'' value of Some (JStr s) \<Rightarrow> s \<in> set METRIC_NAMES | _ \<Rightarrow> False) \<and>
     (case json_field ''value'' value of Some (JNum (Fin r)) \<Rightarrow> 0 \<le> r \<and> r \<le> 600000 | _ \<Rightarrow> False) \<and>
     opt_string (\<lambda>s. s \<in> set METRIC_RATINGS) (json_field ''rating'' value) \<and>
     opt_string (\<lambda>s. length s \<le> 128) (json_field ''id'' value) \<and>
     opt_string (\<lambda>s. prefix ''/'' s \<and> length s \<le> 512) (json_field ''route'' value) \<and>
     (case json_field ''ts'' value of None \<Rightarrow> True | Some (JNum (Fin _)) \<Rightarrow> True | _ \<Rightarrow> False) \<and>
     opt_string (\<lambda>s. s \<in> set BROWSER_STATES) (json_field ''browser_state'' value) \<and>
     opt_string (\<lambda>s. s \<in> set NAVIGATION_TYPES) (json_field ''navigation_type'' value)"

definition all_digits :: "string \<Rightarrow> bool" where
  "all_digits s \<longleftrightarrow> s \<noteq> [] \<and> list_all is_digit s"

definition normalizeMetricRoute :: "string option \<Rightarrow> string" where
  "normalizeMetricRoute route =
     (case route of
        None \<Rightarrow> ''/''
      | Some r \<Rightarrow>
          if \<not> prefix ''/'' r then ''/''
          else
            let pathname = or_str (Some (rev (dropWhile (\<lambda>c. c = CHR ''/'') (rev (takeWhile (\<lambda>c. c \<noteq> CHR ''?'') r))))) ''/'' in
            if prefix ''/content/'' pathname \<and> all_digits (drop 9 pathname) then ''/content/:id''
            else if prefix ''/lists/'' pathname \<and> all_digits (drop 7 pathname) then ''/lists/:id''
            else if prefix ''/user/'' pathname \<and> drop 6 pathname \<noteq> [] \<and> CHR ''/'' \<notin> set (drop 6 pathname)
              then ''/user/:username''
            else if pathname \<in> set [''/'', ''/login'', ''/register'', ''/search'', ''/settings'', ''/lists'']
              then pathname
            else ''/other'')"

text \<open>
  \<open>new Date(ms).toISOString()\<close> throws a \<open>RangeError\<close> outside the range of dates; a fraction of a
  millisecond is cut off first.
\<close>

definition iso_date :: "rat \<Rightarrow> int option" where
  "iso_date ms =
     (let n = (if 0 \<le> ms then \<lfloor>ms\<rfloor> else \<lceil>ms\<rceil>) in
      if abs ms \<le> 8640000000000000 then Some n else None)"

record vital_log =
  vl_ts :: int
  vl_name :: json
  vl_value :: json
  vl_rating :: "json option"
  vl_route :: string
  vl_browser_state :: string
  vl_navigation_type :: string

text \<open>
  The handler: the status it answers with and the record it logs, or the exception that escapes
  it, with the new state of the limiter.
\<close>

definition vitals_POST ::
  "(string \<Rightarrow> json option) \<Rightarrow> env_vars \<Rightarrow> int \<Rightarrow> http_request \<Rightarrow> rate_limiter
    \<Rightarrow> (string + int \<times> vital_log option) \<times> rate_limiter" where
  "vitals_POST parse env now request limiter =
     (let (allowed, limiter') =
        (if isRateLimitingDisabled env then (True, limiter) else consume now limiter) in
      if \<not> allowed then (Inr (429, None), limiter')
      else (case readLimitedJson parse request DEFAULT_JSON_BODY_LIMIT of
        Inl BodyTooLarge \<Rightarrow> (Inr (413, None), limiter')
      | Inl BodyInvalidJson \<Rightarrow> (Inr (400, None), limiter')
      | Inr body \<Rightarrow>
          if \<not> isValidPayload body then (Inr (400, None), limiter')
          else
            (case iso_date (case json_field ''ts'' body of Some (JNum (Fin r)) \<Rightarrow> r | _ \<Rightarrow> of_int now) of
               None \<Rightarrow> (Inl ''RangeError: Invalid time value'', limiter')
             | Some ts \<Rightarrow>
                 (Inr (200, Some
                    \<lparr>vl_ts = ts, vl_name = nullish (json_field ''name'' body) JNull,
                     vl_value = nullish (json_field ''value'' body) JNull,
                     vl_rating = json_field ''rating'' body,
                     vl_route = normalizeMetricRoute (json_str (json_field ''route'' body)),
                     vl_browser_state = nullish (json_str (json_field ''browser_state'' body)) ''unknown'',
                     vl_navigation_type = nullish (json_str (json_field ''navigation_type'' body)) ''unknown''\<rparr>),
                  limiter'))))"

subsection \<open>Redirect targets\<close>

definition normalizeInternalRedirectTarget :: "string option \<Rightarrow> string option" where
  "normalizeInternalRedirectTarget value =
     (case value of
        None \<Rightarrow> None
      | Some v \<Rightarrow>
          let trimmed = js_trim v in
          if \<not> prefix ''/'' trimmed then None
          else if prefix ''//'' trimmed then None
          else Some trimmed)"

subsection \<open>Properties\<close>

text \<open>A request passes the CSRF check exactly when its origin, if it names one, is the
  server's own, the browser does not mark it as cross-site, and it repeats in the header the token
  of the cookie, which has at least 32 characters: the comparison without early exit decides
  equality.\<close>

theorem csrf_exact:
  "validateCsrfRequest r \<longleftrightarrow>
     header r ''origin'' \<in> {None, Some [], Some (rq_origin r)} \<and>
     header r ''sec-fetch-site'' \<noteq> Some ''cross-site'' \<and>
     (\<exists>t. 32 \<le> length t \<and> getCookie r CSRF_COOKIE = Some t \<and> header r CSRF_HEADER = Some t)"
proof -
  have "constantTimeEqual (nullish a []) (nullish b []) \<longleftrightarrow> (\<exists>t. 32 \<le> length t \<and> a = Some t \<and> b = Some t)"
    for a b
    by (cases a; cases b) (auto simp: constantTimeEqual_iff)
  then show ?thesis
    by (cases "header r ''origin''") (auto simp: validateCsrfRequest_def Let_def)
qed

text \<open>Reading a bounded body gives the parsed whole body when neither its declared nor its
  actual length exceeds the limit, and an error otherwise; how the body is cut into chunks makes
  no difference.\<close>

theorem readLimitedJson_spec:
  "readLimitedJson parse r (int n) =
     (let t = concat (nullish (rq_body r) []) in
      if pred_option (\<lambda>cl. \<not> (cl \<noteq> [] \<and> number_above cl (int n))) (header r ''content-length'')
         \<and> length t \<le> n
      then (case parse t of None \<Rightarrow> Inl BodyInvalidJson | Some j \<Rightarrow> Inr j)
      else Inl BodyTooLarge)"
  by (cases "rq_body r"; cases "header r ''content-length''")
    (auto simp: readLimitedJson_def read_chunks_eq Let_def)

text \<open>The fixed-window limiter grants at most its limit before its first window expires and,
  after any earlier calls, at most twice the limit to the calls of any time span shorter than a
  window.\<close>

theorem limiter_bounds:
  assumes "0 \<le> limit" and "sorted ts" and "list_all (\<lambda>t. a \<le> t \<and> t < a + windowMs) ts"
    and "list_all (\<lambda>t. t < t0 + windowMs) us"
  shows "accepted (fst (consume_all us (createFixedWindowRateLimiter limit windowMs t0))) \<le> limit \<and>
    accepted (fst (consume_all ts (snd (consume_all vs (createFixedWindowRateLimiter limit windowMs t0)))))
      \<le> 2 * limit"
proof -
  let ?st = "createFixedWindowRateLimiter limit windowMs t0"
  have ok: "limiter_ok ?st" using assms(1) by (simp add: limiter_ok_def createFixedWindowRateLimiter_def)
  have run: "limiter_ok (snd (consume_all vs st)) \<and> rl_limit (snd (consume_all vs st)) = rl_limit st \<and>
      rl_windowMs (snd (consume_all vs st)) = rl_windowMs st" if "limiter_ok st" for st
    using that
  proof (induction vs arbitrary: st)
    case (Cons v vs)
    from Cons.IH [OF consume_ok [OF Cons.prems]] show ?case by (simp add: split_beta)
  qed simp
  have "accepted (fst (consume_all us ?st)) \<le> rl_limit ?st - rl_count ?st"
    by (rule accepted_in_window [OF ok])
      (use assms(4) in \<open>simp add: list_all_iff createFixedWindowRateLimiter_def\<close>)
  moreover
  let ?st' = "snd (consume_all vs ?st)"
  have lim: "rl_limit ?st' = limit" "rl_windowMs ?st' = windowMs"
    using run [OF ok] by (simp_all add: createFixedWindowRateLimiter_def)
  have "accepted (fst (consume_all ts ?st')) \<le> (rl_limit ?st' - rl_count ?st') + rl_limit ?st'"
    by (rule accepted_short_run [where a = a])
      (use run [OF ok] assms lim in \<open>simp_all add: list_all_iff\<close>)
  moreover have "0 \<le> rl_count ?st'" using run [OF ok] by (simp add: limiter_ok_def)
  ultimately show ?thesis using lim by (simp add: createFixedWindowRateLimiter_def)
qed

theorem limiter_bounds_witness:
  "accepted (fst (consume_all [50, 60, 70] (snd (consume_all [1, 2, 49] (createFixedWindowRateLimiter 2 60 0)))))
     \<le> 4"
  using limiter_bounds [of 2 "[50, 60, 70]" 50 60 0 "[]" "[1, 2, 49]"] by simp

text \<open>The telemetry handler answers every request, except that it throws on a payload that
  its own validation accepts: one whose time stamp is finite but lies outside the range of dates.\<close>

theorem vitals_throws_iff:
  assumes "abs now \<le> 8640000000000000"
  shows "(\<exists>e. fst (vitals_POST parse env now r limiter) = Inl e) \<longleftrightarrow>
    (isRateLimitingDisabled env \<or> fst (consume now limiter)) \<and>
    (\<exists>body q. readLimitedJson parse r DEFAULT_JSON_BODY_LIMIT = Inr body \<and> isValidPayload body \<and>
       json_field ''ts'' body = Some (JNum (Fin q)) \<and> 8640000000000000 < abs q)"
proof -
  have n: "abs (rat_of_int now) \<le> 8640000000000000"
    using assms of_int_le_iff [of "abs now" 8640000000000000, where 'a = rat] by simp
  have ts: "json_field ''ts'' body = None \<or> (\<exists>q. json_field ''ts'' body = Some (JNum (Fin q)))"
    if "isValidPayload body" for body
    using that by (auto simp: isValidPayload_def split: option.splits json.splits js_num.splits)
  show ?thesis
  proof (cases "isRateLimitingDisabled env \<or> fst (consume now limiter)")
    case False
    then show ?thesis by (auto simp: vitals_POST_def split_beta)
  next
    case True
    show ?thesis
    proof (cases "readLimitedJson parse r DEFAULT_JSON_BODY_LIMIT")
      case (Inl e)
      with True show ?thesis by (cases e) (auto simp: vitals_POST_def split_beta)
    next
      case (Inr body)
      show ?thesis
      proof (cases "isValidPayload body")
        case False
        with True Inr show ?thesis by (auto simp: vitals_POST_def split_beta)
      next
        case valid: True
        from ts [OF valid] show ?thesis
          using True Inr valid n
          by (auto simp: vitals_POST_def split_beta iso_date_def Let_def)
      qed
    qed
  qed
qed

definition sample_request :: http_request where
  "sample_request =
     \<lparr>rq_method = ''POST'', rq_origin = ''http://denn'', rq_pathname = ''/api/perf/vitals'', rq_search = [],
      rq_headers = [], rq_cookies = [], rq_body = Some [''x'']\<rparr>"

definition sample_vital :: json where
  "sample_vital =
     JObj [(''name'', JStr ''LCP''), (''value'', JNum (Fin 12)), (''ts'', JNum (Fin 9000000000000000))]"

theorem vitals_throws_iff_witness:
  "\<exists>e. fst (vitals_POST (\<lambda>_. Some sample_vital) [(''DISABLE_RATE_LIMITS'', ''1'')] 0 sample_request
     (createFixedWindowRateLimiter 300 60000 0)) = Inl e"
proof -
  have "isRateLimitingDisabled [(''DISABLE_RATE_LIMITS'', ''1'')]"
    by (simp add: isRateLimitingDisabled_def env_flag_def js_trim_def js_lower_def lower_char_def is_space_def)
  moreover have "readLimitedJson (\<lambda>_. Some sample_vital) sample_request DEFAULT_JSON_BODY_LIMIT = Inr sample_vital"
    by (simp add: readLimitedJson_def header_def sample_request_def DEFAULT_JSON_BODY_LIMIT_def)
  moreover have "isValidPayload sample_vital" "json_field ''ts'' sample_vital = Some (JNum (Fin 9000000000000000))"
    by (simp_all add: isValidPayload_def sample_vital_def json_field_def opt_string_def METRIC_NAMES_def)
  ultimately show ?thesis by (subst vitals_throws_iff) simp_all
qed

end
