(* ===== verification/RefreshFlight.thy ===== *)
theory RefreshFlight
  imports AuthCookies
begin

text \<open>
  The refreshes that concurrent requests share (\<open>refreshes\<close> in \<open>server/auth-cookies.ts\<close>), as a
  state machine over the events of the event loop: a request starts a refresh, and joins the
  promise of its token or issues a call; a call settles, and its entry leaves the map; a waiting
  request resumes with the outcome of its promise.
\<close>

subsection \<open>State and steps\<close>

text \<open>
  The map from tokens to promises, the promises in the order in which they were made (with the
  outcome once settled), the requests that wait and those that have resumed.
\<close>

record flights =
  fl_refreshes :: "(string \<times> nat) list"
  fl_promises :: "(string \<times> rotation option) list"
  fl_waiting :: "(nat \<times> nat) list"
  fl_resumed :: "(nat \<times> nat \<times> rotation) list"

definition no_flights :: flights where
  "no_flights = \<lparr>fl_refreshes = [], fl_promises = [], fl_waiting = [], fl_resumed = []\<rparr>"

definition join_refresh :: "nat \<Rightarrow> string \<Rightarrow> flights \<Rightarrow> flights" where
  "join_refresh r refreshToken st =
     (case map_of (fl_refreshes st) refreshToken of
        Some pending \<Rightarrow> st\<lparr>fl_waiting := fl_waiting st @ [(r, pending)]\<rparr>
      | None \<Rightarrow>
          let pending = length (fl_promises st) in
          st\<lparr>fl_promises := fl_promises st @ [(refreshToken, None)],
             fl_refreshes := AList.update refreshToken pending (fl_refreshes st),
             fl_waiting := fl_waiting st @ [(r, pending)]\<rparr>)"

definition settle_refresh :: "nat \<Rightarrow> rotation \<Rightarrow> flights \<Rightarrow> flights" where
  "settle_refresh p outcome st =
     (let refreshToken = fst (fl_promises st ! p) in
      st\<lparr>fl_promises := (fl_promises st)[p := (refreshToken, Some outcome)],
         fl_refreshes := AList.delete refreshToken (fl_refreshes st)\<rparr>)"

definition resume_refresh :: "nat \<Rightarrow> nat \<Rightarrow> rotation \<Rightarrow> flights \<Rightarrow> flights" where
  "resume_refresh r p outcome st =
     st\<lparr>fl_waiting := remove1 (r, p) (fl_waiting st),
        fl_resumed := fl_resumed st @ [(r, p, outcome)]\<rparr>"

inductive flight_step :: "flights \<Rightarrow> flights \<Rightarrow> bool" where
  join: "refreshToken \<noteq> [] \<Longrightarrow> flight_step st (join_refresh r refreshToken st)"
| settle: "p < length (fl_promises st) \<Longrightarrow> snd (fl_promises st ! p) = None \<Longrightarrow>
    flight_step st (settle_refresh p outcome st)"
| resume: "(r, p) \<in> set (fl_waiting st) \<Longrightarrow> p < length (fl_promises st) \<Longrightarrow>
    snd (fl_promises st ! p) = Some outcome \<Longrightarrow> flight_step st (resume_refresh r p outcome st)"

inductive flights_reachable :: "flights \<Rightarrow> bool" where
  start: "flights_reachable no_flights"
| step: "flights_reachable st \<Longrightarrow> flight_step st st' \<Longrightarrow> flights_reachable st'"

inductive_cases flight_stepE: "flight_step st st'"

subsection \<open>Invariant\<close>

definition in_flight :: "flights \<Rightarrow> nat \<Rightarrow> bool" where
  "in_flight st p \<longleftrightarrow> p < length (fl_promises st) \<and> snd (fl_promises st ! p) = None"

definition flight_token :: "flights \<Rightarrow> nat \<Rightarrow> string" where
  "flight_token st p = fst (fl_promises st ! p)"

definition flight_inv :: "flights \<Rightarrow> bool" where
  "flight_inv st \<longleftrightarrow>
     (\<forall>t p. map_of (fl_refreshes st) t = Some p \<longleftrightarrow> in_flight st p \<and> flight_token st p = t) \<and>
     (\<forall>(r, p) \<in> set (fl_waiting st). p < length (fl_promises st)) \<and>
     (\<forall>(r, p, outcome) \<in> set (fl_resumed st).
        p < length (fl_promises st) \<and> snd (fl_promises st ! p) = Some outcome)"

lemma flight_invD:
  assumes "flight_inv st"
  shows "map_of (fl_refreshes st) t = Some p \<longleftrightarrow> in_flight st p \<and> flight_token st p = t"
    and "(r, q) \<in> set (fl_waiting st) \<Longrightarrow> q < length (fl_promises st)"
    and "(r, q, outcome) \<in> set (fl_resumed st) \<Longrightarrow>
      q < length (fl_promises st) \<and> snd (fl_promises st ! q) = Some outcome"
  using assms unfolding flight_inv_def by fastforce+

lemma flight_inv_join:
  assumes "flight_inv st"
  shows "flight_inv (join_refresh r t st)"
proof (cases "map_of (fl_refreshes st) t")
  case (Some p)
  then have "p < length (fl_promises st)" using flight_invD(1) [OF assms] by (simp add: in_flight_def)
  moreover have "join_refresh r t st = st\<lparr>fl_waiting := fl_waiting st @ [(r, p)]\<rparr>"
    using Some by (simp add: join_refresh_def)
  ultimately show ?thesis
    using assms by (auto simp: flight_inv_def in_flight_def flight_token_def)
next
  case None
  let ?n = "length (fl_promises st)" and ?st = "join_refresh r t st"
  have st: "fl_promises ?st = fl_promises st @ [(t, None)]" "fl_refreshes ?st = AList.update t ?n (fl_refreshes st)"
      "fl_waiting ?st = fl_waiting st @ [(r, ?n)]" "fl_resumed ?st = fl_resumed st"
    by (simp_all add: join_refresh_def None Let_def)
  have other: "in_flight ?st p \<and> flight_token ?st p = u \<longleftrightarrow>
      (if p = ?n then u = t else in_flight st p \<and> flight_token st p = u)" for p u
    by (auto simp: in_flight_def flight_token_def st nth_append)
  have free: "\<not> (in_flight st p \<and> flight_token st p = t)" for p
    using flight_invD(1) [OF assms, of t p] None by simp
  have "map_of (fl_refreshes ?st) u = Some p \<longleftrightarrow> in_flight ?st p \<and> flight_token ?st p = u" for u p
  proof (cases "u = t")
    case True
    then show ?thesis using free [of p] unfolding other by (auto simp: st update_conv' in_flight_def)
  next
    case False
    have "\<not> in_flight st ?n" by (simp add: in_flight_def)
    with False show ?thesis unfolding other by (auto simp: st update_conv' flight_invD(1) [OF assms])
  qed
  moreover have "\<forall>(q, p) \<in> set (fl_waiting ?st). p < length (fl_promises ?st)"
    using flight_invD(2) [OF assms] by (fastforce simp: st)
  moreover have "\<forall>(q, p, outcome) \<in> set (fl_resumed ?st).
      p < length (fl_promises ?st) \<and> snd (fl_promises ?st ! p) = Some outcome"
    using flight_invD(3) [OF assms] by (fastforce simp: st nth_append)
  ultimately show ?thesis unfolding flight_inv_def by blast
qed

lemma flight_inv_settle:
  assumes inv: "flight_inv st" and p: "in_flight st p"
  shows "flight_inv (settle_refresh p outcome st)"
proof -
  let ?st = "settle_refresh p outcome st" and ?t = "flight_token st p"
  have st: "fl_promises ?st = (fl_promises st)[p := (?t, Some outcome)]"
      "fl_refreshes ?st = AList.delete ?t (fl_refreshes st)"
      "fl_waiting ?st = fl_waiting st" "fl_resumed ?st = fl_resumed st"
    by (simp_all add: settle_refresh_def Let_def flight_token_def)
  have unique: "in_flight st q \<Longrightarrow> flight_token st q = ?t \<Longrightarrow> q = p" for q
    using flight_invD(1) [OF inv, of ?t q] flight_invD(1) [OF inv, of ?t p] p by simp
  have other: "in_flight ?st q \<and> flight_token ?st q = u \<longleftrightarrow> q \<noteq> p \<and> in_flight st q \<and> flight_token st q = u" for q u
    using p by (auto simp: in_flight_def flight_token_def st nth_list_update)
  have "map_of (fl_refreshes ?st) u = Some q \<longleftrightarrow> in_flight ?st q \<and> flight_token ?st q = u" for u q
    using flight_invD(1) [OF inv, of u q] unique [of q] p unfolding other
    by (auto simp: st delete_conv')
  moreover have "\<forall>(r, q) \<in> set (fl_waiting ?st). q < length (fl_promises ?st)"
    using flight_invD(2) [OF inv] by (fastforce simp: st)
  moreover have "\<forall>(r, q, x) \<in> set (fl_resumed ?st). q < length (fl_promises ?st) \<and> snd (fl_promises ?st ! q) = Some x"
    using flight_invD(3) [OF inv] p by (fastforce simp: st nth_list_update in_flight_def)
  ultimately show ?thesis unfolding flight_inv_def by blast
qed

lemma flight_inv_resume:
  assumes "flight_inv st" "p < length (fl_promises st)" "snd (fl_promises st ! p) = Some outcome"
  shows "flight_inv (resume_refresh r p outcome st)"
  using assms unfolding flight_inv_def resume_refresh_def in_flight_def flight_token_def
  by (auto dest!: set_remove1_subset [THEN subsetD])

lemma flight_inv_step: "flight_step st st' \<Longrightarrow> flight_inv st \<Longrightarrow> flight_inv st'"
  by (induction rule: flight_step.induct)
    (auto intro: flight_inv_join flight_inv_settle flight_inv_resume simp: in_flight_def)

lemma flight_inv_start: "flight_inv no_flights"
  by (simp add: flight_inv_def no_flights_def in_flight_def)

lemma flights_reachable_inv: "flights_reachable st \<Longrightarrow> flight_inv st"
  by (induction rule: flights_reachable.induct) (rule flight_inv_start, erule (1) flight_inv_step)

subsection \<open>Progress\<close>

definition unsettled :: "flights \<Rightarrow> nat" where
  "unsettled st = length (filter (\<lambda>x. snd x = None) (fl_promises st))"

lemma unsettled_settle:
  assumes "in_flight st p"
  shows "unsettled st = Suc (unsettled (settle_refresh p outcome st))"
proof -
  let ?xs = "fl_promises st"
  from assms have p: "p < length ?xs" "snd (?xs ! p) = None" by (simp_all add: in_flight_def)
  have "filter P (?xs[p := y]) = filter P (take p ?xs) @ (if P y then [y] else []) @ filter P (drop (Suc p) ?xs)"
    for P y using p by (simp add: upd_conv_take_nth_drop)
  moreover have "filter P ?xs = filter P (take p ?xs) @ (if P (?xs ! p) then [?xs ! p] else []) @ filter P (drop (Suc p) ?xs)"
    for P using p by (subst id_take_nth_drop [OF p(1)]) simp
  ultimately show ?thesis using p by (simp add: unsettled_def settle_refresh_def Let_def)
qed

lemma in_flight_settle:
  "in_flight st p \<Longrightarrow> in_flight (settle_refresh p outcome st) q \<longleftrightarrow> q \<noteq> p \<and> in_flight st q"
  by (auto simp: in_flight_def settle_refresh_def Let_def nth_list_update)

lemma settle_all:
  "\<exists>st'. flight_step\<^sup>*\<^sup>* st st' \<and> (\<forall>p. \<not> in_flight st' p) \<and> fl_waiting st' = fl_waiting st \<and>
     fl_resumed st' = fl_resumed st \<and> length (fl_promises st') = length (fl_promises st) \<and>
     (\<forall>p < length (fl_promises st). snd (fl_promises st' ! p) =
        (if in_flight st p then Some (f p) else snd (fl_promises st ! p)))"
proof (induction "unsettled st" arbitrary: st)
  case 0
  then have "\<not> in_flight st p" for p
    by (auto simp: unsettled_def in_flight_def filter_empty_conv dest: nth_mem)
  then show ?case by (intro exI [of _ st]) simp
next
  case (Suc n)
  then have "filter (\<lambda>x. snd x = None) (fl_promises st) \<noteq> []" by (auto simp: unsettled_def)
  then obtain x where x: "x \<in> set (fl_promises st)" "snd x = None" by (auto simp: filter_empty_conv)
  then obtain p where p: "in_flight st p" by (metis in_flight_def in_set_conv_nth)
  let ?st = "settle_refresh p (f p) st"
  have "n = unsettled ?st" using Suc.hyps(2) unsettled_settle [OF p, of "f p"] by simp
  from Suc.hyps(1) [OF this] obtain st' where st': "flight_step\<^sup>*\<^sup>* ?st st'" "\<forall>p. \<not> in_flight st' p"
      "fl_waiting st' = fl_waiting ?st" "fl_resumed st' = fl_resumed ?st"
      "length (fl_promises st') = length (fl_promises ?st)"
      "\<forall>q < length (fl_promises ?st). snd (fl_promises st' ! q) =
        (if in_flight ?st q then Some (f q) else snd (fl_promises ?st ! q))"
    by blast
  have "flight_step st ?st" using p by (intro flight_step.settle) (simp_all add: in_flight_def)
  then have "flight_step\<^sup>*\<^sup>* st st'" using st'(1) by (rule converse_rtranclp_into_rtranclp)
  moreover have "fl_waiting ?st = fl_waiting st" "fl_resumed ?st = fl_resumed st"
      "length (fl_promises ?st) = length (fl_promises st)"
      "\<And>q. q < length (fl_promises st) \<Longrightarrow> snd (fl_promises ?st ! q) = (if q = p then Some (f p) else snd (fl_promises st ! q))"
    by (simp_all add: settle_refresh_def Let_def nth_list_update)
  ultimately show ?case using st' p by (intro exI [of _ st']) (auto simp: in_flight_settle)
qed

lemma resume_all:
  "flight_inv st \<Longrightarrow> (\<And>p. \<not> in_flight st p) \<Longrightarrow>
     \<exists>st'. flight_step\<^sup>*\<^sup>* st st' \<and> fl_waiting st' = [] \<and> fl_promises st' = fl_promises st \<and>
       fl_refreshes st' = fl_refreshes st \<and>
       fl_resumed st' = fl_resumed st @ map (\<lambda>(r, p). (r, p, the (snd (fl_promises st ! p)))) (fl_waiting st)"
proof (induction "fl_waiting st" arbitrary: st)
  case Nil
  then show ?case by (intro exI [of _ st]) simp
next
  case (Cons w ws)
  obtain r p where w: "w = (r, p)" by (cases w)
  with Cons.hyps(2) have p: "(r, p) \<in> set (fl_waiting st)" by (metis list.set_intros(1))
  with Cons.prems have len: "p < length (fl_promises st)" by (auto dest: flight_invD(2))
  then obtain x where x: "snd (fl_promises st ! p) = Some x"
    using Cons.prems(2) [of p] by (auto simp: in_flight_def)
  let ?st = "resume_refresh r p x st"
  have st: "fl_waiting ?st = ws" "fl_promises ?st = fl_promises st" "fl_refreshes ?st = fl_refreshes st"
      "fl_resumed ?st = fl_resumed st @ [(r, p, x)]"
    using Cons.hyps(2) [symmetric] by (simp_all add: resume_refresh_def w)
  have inv: "flight_inv ?st" by (rule flight_inv_resume [OF Cons.prems(1) len x])
  have quiet: "\<not> in_flight ?st q" for q using Cons.prems(2) [of q] by (simp add: in_flight_def st)
  from Cons.hyps(1) [OF st(1) [symmetric] inv quiet] obtain st' where st': "flight_step\<^sup>*\<^sup>* ?st st'"
      "fl_waiting st' = []" "fl_promises st' = fl_promises ?st" "fl_refreshes st' = fl_refreshes ?st"
      "fl_resumed st' = fl_resumed ?st @ map (\<lambda>(r, p). (r, p, the (snd (fl_promises ?st ! p)))) (fl_waiting ?st)"
    by blast
  have "flight_step st ?st" by (rule flight_step.resume [OF p len x])
  then have "flight_step\<^sup>*\<^sup>* st st'" using st'(1) by (rule converse_rtranclp_into_rtranclp)
  with st' st x Cons.hyps(2) [symmetric] w show ?case by (intro exI [of _ st']) simp
qed

subsection \<open>Properties\<close>

text \<open>C3. At most one refresh of a token is under way: two calls in flight for the same token are
  the same call; a request that joins while a call for its token is in flight issues no further
  call, and exactly one otherwise; and requests that waited for the same call resume with the same
  outcome.\<close>

theorem single_flight:
  assumes "flights_reachable st"
  shows "(in_flight st p \<and> in_flight st q \<and> flight_token st p = flight_token st q \<longrightarrow> p = q) \<and>
    length (fl_promises (join_refresh r t st)) =
      length (fl_promises st) + (if \<exists>p. in_flight st p \<and> flight_token st p = t then 0 else 1) \<and>
    ((a, p, x) \<in> set (fl_resumed st) \<and> (b, p, y) \<in> set (fl_resumed st) \<longrightarrow> x = y)"
proof -
  note inv = flight_invD [OF flights_reachable_inv [OF assms]]
  have unique: "in_flight st p \<and> in_flight st q \<and> flight_token st p = flight_token st q \<longrightarrow> p = q"
  proof (intro impI)
    assume both: "in_flight st p \<and> in_flight st q \<and> flight_token st p = flight_token st q"
    then have "map_of (fl_refreshes st) (flight_token st q) = Some p" by (subst inv(1)) simp
    moreover have "map_of (fl_refreshes st) (flight_token st q) = Some q" using both by (subst inv(1)) simp
    ultimately show "p = q" by simp
  qed
  have joins: "length (fl_promises (join_refresh r t st)) =
      length (fl_promises st) + (if \<exists>p. in_flight st p \<and> flight_token st p = t then 0 else 1)"
  proof (cases "map_of (fl_refreshes st) t")
    case None
    have "\<not> (in_flight st p \<and> flight_token st p = t)" for p
      unfolding inv(1) [symmetric] by (simp add: None)
    then have "\<not> (\<exists>p. in_flight st p \<and> flight_token st p = t)" by blast
    with None show ?thesis by (simp add: join_refresh_def Let_def)
  next
    case (Some p)
    then have "in_flight st p \<and> flight_token st p = t" by (rule inv(1) [THEN iffD1])
    then have "\<exists>p. in_flight st p \<and> flight_token st p = t" by (rule exI)
    with Some show ?thesis by (simp add: join_refresh_def)
  qed
  have same: "(a, p, x) \<in> set (fl_resumed st) \<and> (b, p, y) \<in> set (fl_resumed st) \<longrightarrow> x = y"
  proof (intro impI)
    assume both: "(a, p, x) \<in> set (fl_resumed st) \<and> (b, p, y) \<in> set (fl_resumed st)"
    show "x = y" using inv(3) [OF conjunct1 [OF both]] inv(3) [OF conjunct2 [OF both]] by simp
  qed
  show ?thesis by (rule conjI [OF unique conjI [OF joins same]])
qed

text \<open>Two requests refresh with the same token while the first call is in flight.\<close>

definition shared_flight :: flights where
  "shared_flight = join_refresh 2 ''t'' (join_refresh 1 ''t'' no_flights)"

lemma shared_flight_reachable: "flights_reachable shared_flight"
proof -
  have "flights_reachable (join_refresh 1 ''t'' no_flights)"
    by (rule flights_reachable.step [OF flights_reachable.start], rule flight_step.join) simp
  then show ?thesis
    unfolding shared_flight_def by (rule flights_reachable.step, intro flight_step.join) simp
qed

theorem single_flight_witness:
  "length (fl_promises (join_refresh 3 ''t'' shared_flight)) = 1"
  using single_flight [OF shared_flight_reachable, of 0 0 3 "''t''"]
  by (simp add: shared_flight_def join_refresh_def no_flights_def in_flight_def flight_token_def exI [of _ 0])

text \<open>C4. No request waits forever once the calls are answered: from every reachable state, whatever
  the outcomes \<open>f\<close> of the calls in flight, there is a run after which nothing waits and nothing is
  in flight, in which every waiting request has resumed, in order, with the outcome of its call.\<close>

theorem refreshes_drain:
  assumes "flights_reachable st"
  shows "\<exists>st'. flight_step\<^sup>*\<^sup>* st st' \<and> fl_waiting st' = [] \<and> (\<forall>t. map_of (fl_refreshes st') t = None) \<and>
    fl_resumed st' = fl_resumed st @ map (\<lambda>(r, p). (r, p,
      if in_flight st p then f p else the (snd (fl_promises st ! p)))) (fl_waiting st)"
proof -
  obtain st1 where st1: "flight_step\<^sup>*\<^sup>* st st1" "\<forall>p. \<not> in_flight st1 p" "fl_waiting st1 = fl_waiting st"
      "fl_resumed st1 = fl_resumed st" "\<forall>p < length (fl_promises st). snd (fl_promises st1 ! p) =
        (if in_flight st p then Some (f p) else snd (fl_promises st ! p))"
    using settle_all [of st f] by blast
  have reach: "flights_reachable st'" if "flight_step\<^sup>*\<^sup>* st st'" for st'
    using that by induction (auto intro: assms flights_reachable.step)
  have inv: "flight_inv st1" by (rule flights_reachable_inv [OF reach [OF st1(1)]])
  obtain st2 where st2: "flight_step\<^sup>*\<^sup>* st1 st2" "fl_waiting st2 = []" "fl_promises st2 = fl_promises st1"
      "fl_refreshes st2 = fl_refreshes st1"
      "fl_resumed st2 = fl_resumed st1 @ map (\<lambda>(r, p). (r, p, the (snd (fl_promises st1 ! p)))) (fl_waiting st1)"
    using resume_all [OF inv] st1(2) by blast
  have "map_of (fl_refreshes st2) t = None" for t
    using flight_invD(1) [OF inv, of t] st1(2) st2(4) by (cases "map_of (fl_refreshes st2) t") auto
  moreover have "map (\<lambda>(r, p). (r, p, the (snd (fl_promises st1 ! p)))) (fl_waiting st1) =
      map (\<lambda>(r, p). (r, p, if in_flight st p then f p else the (snd (fl_promises st ! p)))) (fl_waiting st)"
    using st1(5) flight_invD(2) [OF flights_reachable_inv [OF assms]] by (auto simp: st1(3))
  ultimately show ?thesis using st1 st2 by (intro exI [of _ st2]) auto
qed

theorem refreshes_drain_witness:
  "\<exists>st'. flight_step\<^sup>*\<^sup>* shared_flight st' \<and> fl_resumed st' = [(1, 0, Inr None), (2, 0, Inr None)]"
  using refreshes_drain [OF shared_flight_reachable, of "\<lambda>_. Inr None"]
  by (auto simp: shared_flight_def join_refresh_def no_flights_def in_flight_def)

end
