(* ===== verification/CatalogVisitor.thy ===== *)
theory CatalogVisitor
  imports AuthCookies
begin

text \<open>
  The signed cookie that identifies an anonymous visitor to the catalogue
  (\<open>server/catalog-visitor.ts\<close>): its format, signing and verification, and the headers built
  from it.  HMAC-SHA-256 is a parameter; \<open>crypto.subtle.verify\<close> compares with what
  \<open>crypto.subtle.sign\<close> gives.
\<close>

subsection \<open>Hexadecimal text\<close>

definition hex_char :: "nat \<Rightarrow> char" where
  "hex_char n = (if n < 10 then digit_char n else char_of (87 + n))"

fun show_hex :: "nat \<Rightarrow> string" where
  "show_hex n = (if n < 16 then [hex_char n] else show_hex (n div 16) @ [hex_char (n mod 16)])"

declare show_hex.simps [simp del]

text \<open>\<open>byte.toString(16).padStart(2, "0")\<close>.\<close>

definition byte_hex :: "nat \<Rightarrow> string" where
  "byte_hex byte = (let s = show_hex byte in replicate (2 - length s) (CHR ''0'') @ s)"

definition bytesToHex :: "nat list \<Rightarrow> string" where
  "bytesToHex bytes = concat (map byte_hex bytes)"

text \<open>
  \<open>Number.parseInt(text, 16)\<close> of two characters: the digits before the first other character, a
  text without any being \<open>NaN\<close>, which an array of bytes stores as zero.
\<close>

fun parse_hex :: "string \<Rightarrow> nat \<Rightarrow> nat" where
  "parse_hex [] a = a"
| "parse_hex (c # s) a =
     (case radix_digit c of Some d \<Rightarrow> if d < 16 then parse_hex s (16 * a + d) else a | None \<Rightarrow> a)"

fun hexToBytes :: "string \<Rightarrow> nat list" where
  "hexToBytes (a # b # s) = parse_hex [a, b] 0 mod 256 # hexToBytes s"
| "hexToBytes _ = []"

subsection \<open>The cookie\<close>

definition CATALOG_VISITOR_COOKIE :: string where
  "CATALOG_VISITOR_COOKIE = ''denn-catalog-visitor''"

definition CATALOG_VISITOR_MAX_AGE_SECONDS :: int where
  "CATALOG_VISITOR_MAX_AGE_SECONDS = 365 * 24 * 60 * 60"

definition VISITOR_ID_PATTERN :: "string \<Rightarrow> bool" where
  "VISITOR_ID_PATTERN s \<longleftrightarrow> length s = 32 \<and> list_all is_lower_hex s"

definition SIGNATURE_PATTERN :: "string \<Rightarrow> bool" where
  "SIGNATURE_PATTERN s \<longleftrightarrow> length s = 64 \<and> list_all is_lower_hex s"

type_synonym hmac = "string \<Rightarrow> string \<Rightarrow> nat list"

definition signVisitorId :: "hmac \<Rightarrow> string \<Rightarrow> string \<Rightarrow> string" where
  "signVisitorId sign visitorId secret = bytesToHex (sign secret visitorId)"

definition createCatalogVisitorCookieValue :: "hmac \<Rightarrow> string \<Rightarrow> string \<Rightarrow> string option" where
  "createCatalogVisitorCookieValue sign visitorId secret =
     (if \<not> VISITOR_ID_PATTERN visitorId \<or> secret = [] then None
      else Some (visitorId @ ''.'' @ signVisitorId sign visitorId secret))"

definition readCatalogVisitorId :: "hmac \<Rightarrow> string option \<Rightarrow> string \<Rightarrow> string option" where
  "readCatalogVisitorId sign cookieValue secret =
     (if \<not> truthy_str cookieValue \<or> secret = [] then None
      else (case js_split CHR ''.'' (the cookieValue) of
              [visitorId, signature] \<Rightarrow>
                if visitorId = [] \<or> signature = [] \<or> \<not> VISITOR_ID_PATTERN visitorId \<or>
                   \<not> SIGNATURE_PATTERN signature
                then None
                else if hexToBytes signature = sign secret visitorId then Some visitorId else None
            | _ \<Rightarrow> None))"

definition visitorCookieOptions :: "env_vars \<Rightarrow> cookie_options" where
  "visitorCookieOptions env =
     \<lparr>co_domain = None, co_httpOnly = True, co_maxAge = CATALOG_VISITOR_MAX_AGE_SECONDS,
      co_path = ''/'', co_sameSite = ''lax'', co_secure = secureCookiesEnabled env\<rparr>"

definition getOrCreateCatalogVisitorFingerprint :: "string \<Rightarrow> string op" where
  "getOrCreateCatalogVisitorFingerprint secret =
     and_then (env_op se_hmac) (\<lambda>sign.
     and_then (request_op (\<lambda>rq. getCookie rq CATALOG_VISITOR_COOKIE)) (\<lambda>existing.
       case readCatalogVisitorId sign existing secret of
         Some visitorId \<Rightarrow> return_op (signVisitorId sign visitorId secret)
       | None \<Rightarrow>
           and_then randomUUID (\<lambda>uuid.
           let visitorId = filter (\<lambda>c. c \<noteq> CHR ''-'') uuid in
           case createCatalogVisitorCookieValue sign visitorId secret of
             None \<Rightarrow> throw_op (JsError ''Could not sign catalog visitor identity'')
           | Some cookieValue \<Rightarrow>
               and_then (vars_op visitorCookieOptions) (\<lambda>options.
               and_then (setCookie CATALOG_VISITOR_COOKIE cookieValue options) (\<lambda>_.
                 return_op (signVisitorId sign visitorId secret))))))"

definition buildCatalogVisitorHeaders :: "(string \<times> string) list op" where
  "buildCatalogVisitorHeaders =
     and_then getProxyApiKey (\<lambda>apiKey.
       if apiKey = [] then throw_op (JsError ''PROXY_API_KEY is required to identify catalog visitors'')
       else
         and_then (getOrCreateCatalogVisitorFingerprint apiKey) (\<lambda>fingerprint.
           return_op [(''X-Api-Key'', apiKey), (''X-Api-Consumer'', ''web''), (''X-Catalog-Visitor'', fingerprint)]))"

subsection \<open>Hexadecimal round trip\<close>

lemma hex_char_zero: "hex_char 0 = CHR ''0''"
  by code_simp

lemma byte_hex_eq:
  assumes "n < 256"
  shows "byte_hex n = [hex_char (n div 16), hex_char (n mod 16)]"
proof (cases "n < 16")
  case True
  then show ?thesis
    by (simp add: byte_hex_def show_hex.simps [of n] Let_def hex_char_zero)
next
  case False
  with assms have "show_hex n = [hex_char (n div 16), hex_char (n mod 16)]"
    by (simp add: show_hex.simps [of n] show_hex.simps [of "n div 16"])
  then show ?thesis by (simp add: byte_hex_def)
qed

lemma radix_hex_char: "n < 16 \<Longrightarrow> radix_digit (hex_char n) = Some n"
  by (auto simp: hex_char_def radix_digit_def digit_char_def Let_def of_char_of)

lemma lower_hex_char: "n < 16 \<Longrightarrow> is_lower_hex (hex_char n)"
  by (auto simp: hex_char_def is_lower_hex_def is_digit_def digit_char_def of_char_of)

lemma lower_hex_digit:
  assumes "is_lower_hex c"
  shows "\<exists>d < 16. radix_digit c = Some d \<and> hex_char d = c"
proof (cases "is_digit c")
  case True
  then have "hex_char (of_char c - 48) = c"
    by (auto simp: hex_char_def digit_char_def is_digit_def)
  with True show ?thesis
    by (intro exI [of _ "of_char c - 48"]) (auto simp: is_digit_def radix_digit_def Let_def)
next
  case False
  with assms have "97 \<le> (of_char c :: nat)" "(of_char c :: nat) \<le> 102" by (auto simp: is_lower_hex_def)
  then show ?thesis
    by (intro exI [of _ "of_char c - 87"]) (auto simp: hex_char_def radix_digit_def Let_def)
qed

lemma parse_hex_pair:
  "radix_digit a = Some d \<Longrightarrow> radix_digit b = Some e \<Longrightarrow> d < 16 \<Longrightarrow> e < 16 \<Longrightarrow> parse_hex [a, b] 0 = 16 * d + e"
  by simp

lemma hexToBytes_bytesToHex:
  "list_all (\<lambda>b. b < 256) bs \<Longrightarrow> hexToBytes (bytesToHex bs) = bs"
proof (induction bs)
  case (Cons b bs)
  then have b: "b < 256" by simp
  then have d: "b div 16 < 16" "b mod 16 < 16" by auto
  have "hexToBytes (bytesToHex (b # bs)) =
      parse_hex [hex_char (b div 16), hex_char (b mod 16)] 0 mod 256 # hexToBytes (bytesToHex bs)"
    by (simp add: bytesToHex_def byte_hex_eq [OF b] del: parse_hex.simps)
  also have "parse_hex [hex_char (b div 16), hex_char (b mod 16)] 0 = b"
    using parse_hex_pair [OF radix_hex_char [OF d(1)] radix_hex_char [OF d(2)] d] by simp
  finally show ?case using Cons b by simp
qed (simp add: bytesToHex_def)

lemma bytesToHex_hexToBytes:
  "list_all is_lower_hex s \<Longrightarrow> even (length s) \<Longrightarrow> bytesToHex (hexToBytes s) = s"
proof (induction s rule: hexToBytes.induct)
  case (1 a b s)
  obtain d where d: "d < 16" "radix_digit a = Some d" "hex_char d = a"
    using lower_hex_digit [of a] 1(2) by auto
  obtain e where e: "e < 16" "radix_digit b = Some e" "hex_char e = b"
    using lower_hex_digit [of b] 1(2) by auto
  have v: "parse_hex [a, b] 0 mod 256 = 16 * d + e" and small: "16 * d + e < 256"
    using parse_hex_pair [OF d(2) e(2) d(1) e(1)] d(1) e(1) by simp_all
  have "bytesToHex (hexToBytes (a # b # s)) = byte_hex (16 * d + e) @ bytesToHex (hexToBytes s)"
    using v by (simp add: bytesToHex_def del: parse_hex.simps)
  also have "byte_hex (16 * d + e) = [a, b]"
    using byte_hex_eq [OF small] d e by simp
  finally show ?case using 1 by simp
qed (simp_all add: bytesToHex_def)

lemma length_bytesToHex: "list_all (\<lambda>b. b < 256) bs \<Longrightarrow> length (bytesToHex bs) = 2 * length bs"
  by (induction bs) (auto simp: bytesToHex_def byte_hex_eq)

lemma lower_bytesToHex: "list_all (\<lambda>b. b < 256) bs \<Longrightarrow> list_all is_lower_hex (bytesToHex bs)"
  by (induction bs) (auto simp: bytesToHex_def byte_hex_eq intro!: lower_hex_char)

lemma lower_hex_no_dot: "list_all is_lower_hex s \<Longrightarrow> CHR ''.'' \<notin> set s"
  by (auto simp: list_all_iff is_lower_hex_def is_digit_def)

subsection \<open>Properties\<close>

text \<open>C34. The cookie of a visitor is read back, and nothing else is: with a non-empty secret and a
  signature of 32 bytes, a cookie value is accepted for a visitor exactly when it is the value
  that was created for that visitor with that secret, so a value is neither lost nor forged
  without its signature.\<close>

theorem visitor_cookie_exact:
  assumes "secret \<noteq> []" "length (sign secret visitorId) = 32" "list_all (\<lambda>b. b < 256) (sign secret visitorId)"
  shows "readCatalogVisitorId sign value secret = Some visitorId \<longleftrightarrow>
    value \<noteq> None \<and> createCatalogVisitorCookieValue sign visitorId secret = value"
proof
  assume read: "readCatalogVisitorId sign value secret = Some visitorId"
  then obtain v where v: "value = Some v" by (cases "value") (auto simp: readCatalogVisitorId_def)
  from read obtain signature where sig: "js_split CHR ''.'' v = [visitorId, signature]"
      "VISITOR_ID_PATTERN visitorId" "SIGNATURE_PATTERN signature" "hexToBytes signature = sign secret visitorId"
    by (auto simp: v readCatalogVisitorId_def split: list.splits if_splits)
  have "bytesToHex (sign secret visitorId) = signature"
    using bytesToHex_hexToBytes [of signature] sig(3,4) by (simp add: SIGNATURE_PATTERN_def)
  moreover have "v = visitorId @ ''.'' @ signature" using js_join_split [of "CHR ''.''" v] sig(1) by simp
  ultimately show "value \<noteq> None \<and> createCatalogVisitorCookieValue sign visitorId secret = value"
    using sig(2) assms(1) v by (simp add: createCatalogVisitorCookieValue_def signVisitorId_def)
next
  let ?sig = "bytesToHex (sign secret visitorId)"
  assume "value \<noteq> None \<and> createCatalogVisitorCookieValue sign visitorId secret = value"
  then have v: "value = Some (visitorId @ ''.'' @ ?sig)" and id: "VISITOR_ID_PATTERN visitorId"
    by (auto simp: createCatalogVisitorCookieValue_def signVisitorId_def split: if_splits)
  have sig: "SIGNATURE_PATTERN ?sig"
    using length_bytesToHex [OF assms(3)] lower_bytesToHex [OF assms(3)] assms(2)
    by (simp add: SIGNATURE_PATTERN_def)
  have "js_split CHR ''.'' (visitorId @ ''.'' @ ?sig) = [visitorId, ?sig]"
    using lower_hex_no_dot id sig
    by (simp add: VISITOR_ID_PATTERN_def SIGNATURE_PATTERN_def js_split_append_sep js_split_no_sep)
  moreover have "visitorId \<noteq> []" "?sig \<noteq> []"
    using id sig by (auto simp: VISITOR_ID_PATTERN_def SIGNATURE_PATTERN_def)
  ultimately show "readCatalogVisitorId sign value secret = Some visitorId"
    using id sig assms(1) hexToBytes_bytesToHex [OF assms(3)]
    by (simp add: v readCatalogVisitorId_def)
qed

theorem visitor_cookie_exact_witness:
  "readCatalogVisitorId (\<lambda>_ _. replicate 32 171) (Some (replicate 32 (CHR ''a'') @ ''.'' @ concat (replicate 32 ''ab''))) ''key''
     = Some (replicate 32 (CHR ''a''))"
proof -
  have "createCatalogVisitorCookieValue (\<lambda>_ _. replicate 32 171) (replicate 32 (CHR ''a'')) ''key''
      = Some (replicate 32 (CHR ''a'') @ ''.'' @ concat (replicate 32 ''ab''))"
    by code_simp
  then show ?thesis by (subst visitor_cookie_exact) (auto simp: list_all_iff)
qed

end
