(* ===== verification/CoreBff.thy ===== *)
theory CoreBff
  imports CatalogVisitor RequestSecurity
begin

text \<open>
  The forwarding of browser requests to the core service (\<open>server/core-bff.ts\<close>): which paths are
  public, the calls with the session or without it, the refresh and the retry after a 401, and
  the copy of the answer.  The path guard and the URL builder are in \<open>PathGuard\<close>.
\<close>

subsection \<open>Public paths\<close>

definition PUBLIC_AUTH_PATHS :: "string list" where
  "PUBLIC_AUTH_PATHS = [''auth/password/reset/'', ''auth/password/reset/confirm/'']"

text \<open>\<open>[a-zA-Z0-9._-]+\<close>, \<open>[1-9]\d*\<close> and the look-ahead \<open>(?!me(?:\/|$))\<close> on one segment of the path.\<close>

definition is_username :: "string \<Rightarrow> bool" where
  "is_username s \<longleftrightarrow> s \<noteq> [] \<and> list_all (\<lambda>c. is_alnum c \<or> c \<in> set ''._-'') s \<and> s \<noteq> ''me''"

definition is_positive_number :: "string \<Rightarrow> bool" where
  "is_positive_number s \<longleftrightarrow> (case s of [] \<Rightarrow> False | c # cs \<Rightarrow> is_digit c \<and> c \<noteq> CHR ''0'' \<and> list_all is_digit cs)"

text \<open>The five patterns, on the segments between slashes.\<close>

definition PUBLIC_READ_PATTERNS :: "(string list \<Rightarrow> bool) list" where
  "PUBLIC_READ_PATTERNS =
     [\<lambda>p. case p of [a, n, e] \<Rightarrow> a = ''profiles'' \<and> is_username n \<and> e = [] | _ \<Rightarrow> False,
      \<lambda>p. case p of [a, n, k, e] \<Rightarrow> a = ''profiles'' \<and> is_username n \<and>
              k \<in> set [''progress'', ''completed'', ''ratings'', ''lists''] \<and> e = [] | _ \<Rightarrow> False,
      \<lambda>p. case p of [a, i, e] \<Rightarrow> a = ''content'' \<and> is_positive_number i \<and> e = [] | _ \<Rightarrow> False,
      \<lambda>p. case p of [a, r, e] \<Rightarrow> a = ''content'' \<and> r = ''ratings'' \<and> e = []
              | [a, r, i, e] \<Rightarrow> a = ''content'' \<and> r = ''ratings'' \<and> is_positive_number i \<and> e = [] | _ \<Rightarrow> False,
      \<lambda>p. case p of [a, l, i, e] \<Rightarrow> a = ''content'' \<and> l = ''lists'' \<and> is_positive_number i \<and> e = [] | _ \<Rightarrow> False]"

definition is_read_method :: "string \<Rightarrow> bool" where
  "is_read_method m \<longleftrightarrow> js_upper m = ''GET'' \<or> js_upper m = ''HEAD''"

definition isPublicCoreRequest :: "string \<Rightarrow> string \<Rightarrow> bool" where
  "isPublicCoreRequest m path =
     (if path \<in> set PUBLIC_AUTH_PATHS then True
      else if \<not> is_read_method m then False
      else list_ex (\<lambda>pattern. pattern (js_split CHR ''/'' path)) PUBLIC_READ_PATTERNS)"

definition isPublicContentDetailRequest :: "string \<Rightarrow> string \<Rightarrow> bool" where
  "isPublicContentDetailRequest m path \<longleftrightarrow>
     is_read_method m \<and>
     (case js_split CHR ''/'' path of
        [a, i, e] \<Rightarrow> a = ''content'' \<and> is_positive_number i \<and> e = []
      | _ \<Rightarrow> False)"

subsection \<open>Calls\<close>

definition core_call ::
  "http_request \<Rightarrow> string \<Rightarrow> call_body \<Rightarrow> string option \<Rightarrow> string \<Rightarrow> (string \<times> string) list \<Rightarrow> call" where
  "core_call rq target body access requestId additionalHeaders =
     \<lparr>cl_method = rq_method rq, cl_url = target,
      cl_headers =
        [(''Content-Type'', nullish (header rq ''content-type'') ''application/json''),
         (''X-Request-Id'', requestId)] @ additionalHeaders @
        (if truthy_str access then [(''Authorization'', ''Bearer '' @ the access)] else []) @
        (if truthy_str (header rq ''x-user-country'')
         then [(''X-User-Country'', the (header rq ''x-user-country''))] else []),
      cl_body = body, cl_timeout = Some 5000\<rparr>"

definition callCore ::
  "string \<Rightarrow> call_body \<Rightarrow> string option \<Rightarrow> string \<Rightarrow> (string \<times> string) list \<Rightarrow> upstream op" where
  "callCore target body access requestId additionalHeaders =
     and_then (request_op (\<lambda>rq. core_call rq target body access requestId additionalHeaders)) fetch_op"

definition callPublicCore ::
  "string \<Rightarrow> call_body \<Rightarrow> string option \<Rightarrow> string \<Rightarrow> string \<Rightarrow> upstream op" where
  "callPublicCore target body access requestId upstreamPath =
     and_then (request_op rq_method) (\<lambda>m.
     and_then (if \<not> truthy_str access \<and> isPublicContentDetailRequest m upstreamPath
               then buildCatalogVisitorHeaders else return_op []) (\<lambda>additionalHeaders.
       callCore target body access requestId additionalHeaders))"

definition copyCoreResponse :: "upstream \<Rightarrow> string \<Rightarrow> reply" where
  "copyCoreResponse response requestId =
     \<lparr>rs_status = us_status response,
      rs_headers = [(''cache-control'', ''no-store''),
        (''content-type'', nullish (map_of (us_headers response) ''content-type'') ''application/json''),
        (''x-request-id'', requestId)],
      rs_body = ReplyText (us_text response)\<rparr>"

definition expiredResponse :: "string \<Rightarrow> reply" where
  "expiredResponse requestId =
     \<lparr>rs_status = 401, rs_headers = no_store_json @ [(''x-request-id'', requestId)],
      rs_body = ReplyJson (JObj [(''error'', JStr ''SESSION_EXPIRED''),
        (''detail'', JStr ''Session expired. Please log in again.'')])\<rparr>"

subsection \<open>Forwarding\<close>

definition refresh_quietly :: "string option op" where
  "refresh_quietly = catch_op refreshAuthCookies (\<lambda>_. return_op None)"

definition forwardPublicCoreRead ::
  "string \<Rightarrow> call_body \<Rightarrow> string \<Rightarrow> string option \<Rightarrow> string \<Rightarrow> reply op" where
  "forwardPublicCoreRead target body requestId access0 upstreamPath =
     and_then (if \<not> truthy_str access0 then refresh_quietly else return_op access0) (\<lambda>access.
     and_then (callPublicCore target body access requestId upstreamPath) (\<lambda>first.
     and_then
       (if us_status first = 401 \<and> truthy_str access
        then and_then refresh_quietly (\<lambda>access.
          if truthy_str access then callPublicCore target body access requestId upstreamPath
          else return_op first)
        else return_op first) (\<lambda>second.
     and_then
       (if us_status second = 401 then callPublicCore target body None requestId upstreamPath
        else return_op second) (\<lambda>response.
       return_op (copyCoreResponse response requestId)))))"

definition upstream_path :: "http_request \<Rightarrow> string \<Rightarrow> string" where
  "upstream_path rq path =
     (if suffix ''/'' (rq_pathname rq) \<and> \<not> suffix ''/'' path then path @ ''/'' else path)"

definition request_body :: "http_request \<Rightarrow> call_body" where
  "request_body rq =
     (if rq_method rq = ''GET'' \<or> rq_method rq = ''HEAD'' then NoBody
      else BodyText (case rq_body rq of None \<Rightarrow> [] | Some chunks \<Rightarrow> concat chunks))"

definition core_target :: "server_env \<Rightarrow> http_request \<Rightarrow> string \<Rightarrow> js_error + string" where
  "core_target env rq path =
     (case buildCoreUrl (se_urls env) (getApiUrl (se_vars env)) (upstream_path rq path) (rq_search rq) of
        Inl m \<Rightarrow> Inl (JsError m)
      | Inr target \<Rightarrow> Inr target)"

definition forwardPrivateCore :: "string \<Rightarrow> call_body \<Rightarrow> string \<Rightarrow> string option \<Rightarrow> reply op" where
  "forwardPrivateCore target body requestId access0 =
     and_then (if \<not> truthy_str access0 then refreshAuthCookies else return_op access0) (\<lambda>access.
       if \<not> truthy_str access then return_op (expiredResponse requestId)
       else
         and_then (callCore target body access requestId []) (\<lambda>response.
           if us_status response = 401 then
             and_then refreshAuthCookies (\<lambda>access.
               if \<not> truthy_str access then return_op (expiredResponse requestId)
               else
                 and_then (callCore target body access requestId []) (\<lambda>response.
                   return_op (copyCoreResponse response requestId)))
           else return_op (copyCoreResponse response requestId)))"

definition forwardCoreRequest :: "string \<Rightarrow> reply op" where
  "forwardCoreRequest path =
     and_then (request_op (\<lambda>rq. rq)) (\<lambda>rq.
     and_then (env_op (\<lambda>env. core_target env rq path)) (\<lambda>result.
     and_then (lift_op result) (\<lambda>target.
     and_then (case normalizeRequestId (header rq ''x-request-id'') of
                 Some i \<Rightarrow> return_op i | None \<Rightarrow> generateRequestId) (\<lambda>requestId.
       let upstreamPath = upstream_path rq path; body = request_body rq; access = getAccessToken rq in
       if upstreamPath \<in> set PUBLIC_AUTH_PATHS then
         and_then (callCore target body None requestId []) (\<lambda>response.
           return_op (copyCoreResponse response requestId))
       else if isPublicCoreRequest (rq_method rq) upstreamPath
         then forwardPublicCoreRead target body requestId access upstreamPath
       else forwardPrivateCore target body requestId access))))"

subsection \<open>What forwarding may do\<close>

definition visitor_headers :: "server_env \<Rightarrow> (string \<times> string) list \<Rightarrow> bool" where
  "visitor_headers env hs \<longleftrightarrow>
     (\<exists>fingerprint. hs = [(''X-Api-Key'', nullish (map_of (se_vars env) ''PROXY_API_KEY'') []),
        (''X-Api-Consumer'', ''web''), (''X-Catalog-Visitor'', fingerprint)])"

text \<open>The effects of a refresh: its call, the request id, and session cookies.\<close>

definition session_effect :: "server_env \<Rightarrow> http_request \<Rightarrow> effect \<Rightarrow> bool" where
  "session_effect env rq e \<longleftrightarrow>
     (case e of
        Fetched c \<Rightarrow> \<exists>i. c = refresh_call (getApiUrl (se_vars env)) (the (getRefreshToken rq)) i
      | HeaderSet k _ \<Rightarrow> k = ''X-Request-Id''
      | Cookied (SetCookie k _ _) \<Rightarrow> k \<in> {AUTH_ACCESS_COOKIE, AUTH_REFRESH_COOKIE}
      | Cookied (DeleteCookie k _ _ _ _) \<Rightarrow> k \<in> {AUTH_ACCESS_COOKIE, AUTH_REFRESH_COOKIE})"

definition private_effect :: "server_env \<Rightarrow> http_request \<Rightarrow> string \<Rightarrow> effect \<Rightarrow> bool" where
  "private_effect env rq target e \<longleftrightarrow>
     session_effect env rq e \<or>
     (\<exists>a i. a \<noteq> [] \<and> e = Fetched (core_call rq target (request_body rq) (Some a) i []))"

definition public_effect :: "server_env \<Rightarrow> http_request \<Rightarrow> string \<Rightarrow> string \<Rightarrow> effect \<Rightarrow> bool" where
  "public_effect env rq target path e \<longleftrightarrow>
     session_effect env rq e \<or>
     (\<exists>v opts. e = Cookied (SetCookie CATALOG_VISITOR_COOKIE v opts) \<and>
        isPublicContentDetailRequest (rq_method rq) path) \<or>
     (\<exists>access i hs. e = Fetched (core_call rq target (request_body rq) access i hs) \<and>
        (hs = [] \<or> \<not> truthy_str access \<and> isPublicContentDetailRequest (rq_method rq) path \<and> visitor_headers env hs))"

lemma spec_callCore:
  assumes "P (Fetched (core_call rq target body access i hs))" "\<And>x. Q x"
  shows "op_spec env rq P 1 Q (callCore target body access i hs)"
  unfolding callCore_def
  by (rule op_spec_and_then [where R = "\<lambda>c. c = core_call rq target body access i hs" and a = 0 and b = 1])
    (auto intro!: op_rules op_spec_fetch assms)

lemma spec_session:
  assumes "\<And>e. session_effect env rq e \<Longrightarrow> P e" "\<And>x. Q x"
  shows "op_spec env rq P 1 Q refreshAuthCookies"
  by (rule spec_refreshAuthCookies) (auto intro!: assms simp: session_effect_def deletion_def)

lemma spec_refresh_quietly:
  assumes "\<And>e. session_effect env rq e \<Longrightarrow> P e"
  shows "op_spec env rq P 1 (\<lambda>_. True) refresh_quietly"
  unfolding refresh_quietly_def
  by (rule op_spec_catch [where a = 1 and b = 0]) (auto intro!: op_rules spec_session [unfolded One_nat_def] assms)

lemma spec_randomUUID [op_rules]: "(\<And>x. Q x) \<Longrightarrow> op_spec env rq P n Q randomUUID"
  by (simp add: op_spec_def randomUUID_def split: option.split)

lemma spec_fingerprint:
  assumes "\<And>v opts. P (Cookied (SetCookie CATALOG_VISITOR_COOKIE v opts))" "\<And>x. Q x"
  shows "op_spec env rq P 0 Q (getOrCreateCatalogVisitorFingerprint secret)"
  unfolding getOrCreateCatalogVisitorFingerprint_def
  by (rule op_spec_and_then [where R = "\<lambda>_. True" and a = 0 and b = 0])
    (auto intro!: op_rules assms op_spec_and_then [where R = "\<lambda>_. True" and a = 0 and b = 0]
      simp: Let_def split: option.split)

lemma key_value: "op_spec env rq P 0 (\<lambda>k. k = nullish (map_of (se_vars env) ''PROXY_API_KEY'') []) getProxyApiKey"
  by (auto simp: op_spec_def getProxyApiKey_def Let_def)

lemma spec_visitor_headers:
  assumes "\<And>v opts. P (Cookied (SetCookie CATALOG_VISITOR_COOKIE v opts))"
  shows "op_spec env rq P 0 (visitor_headers env) buildCatalogVisitorHeaders"
  unfolding buildCatalogVisitorHeaders_def
  apply (rule op_spec_and_then [OF key_value, where b = 0])
   apply (auto intro!: op_rules)
  apply (rule op_spec_and_then [where R = "\<lambda>_. True" and a = 0 and b = 0])
    apply (rule spec_fingerprint, rule assms, rule TrueI)
   apply (auto intro!: op_rules simp: visitor_headers_def)
  done

lemma spec_callPublicCore:
  "op_spec env rq (public_effect env rq target path) 1 (\<lambda>_. True)
     (callPublicCore target (request_body rq) access i path)"
proof -
  let ?P = "public_effect env rq target path"
  have call: "op_spec env rq ?P 1 (\<lambda>_. True) (callCore target (request_body rq) access i hs)"
    if "hs = [] \<or> \<not> truthy_str access \<and> isPublicContentDetailRequest (rq_method rq) path \<and> visitor_headers env hs" for hs
    using that by (intro spec_callCore) (auto simp: public_effect_def)
  note call' = call [unfolded One_nat_def]
  show ?thesis
  proof (cases "\<not> truthy_str access \<and> isPublicContentDetailRequest (rq_method rq) path")
    case True
    have "op_spec env rq ?P 1 (\<lambda>_. True)
        (and_then buildCatalogVisitorHeaders (callCore target (request_body rq) access i))"
      by (rule op_spec_and_then [OF spec_visitor_headers, where b = 1])
        (use True in \<open>auto intro!: call' simp: public_effect_def\<close>)
    with True show ?thesis
      unfolding callPublicCore_def
      by (intro op_spec_and_then [where R = "\<lambda>m. m = rq_method rq" and a = 0 and b = 1]) (auto intro!: op_rules)
  next
    case False
    have "op_spec env rq ?P 1 (\<lambda>_. True) (and_then (return_op []) (callCore target (request_body rq) access i))"
      by (rule op_spec_and_then [where R = "\<lambda>hs. hs = []" and a = 0 and b = 1]) (auto intro!: op_rules call')
    with False show ?thesis
      unfolding callPublicCore_def
      by (intro op_spec_and_then [where R = "\<lambda>m. m = rq_method rq" and a = 0 and b = 1]) (auto intro!: op_rules)
  qed
qed

lemma spec_forwardPublic:
  "op_spec env rq (public_effect env rq target path) 5 (\<lambda>_. True)
     (forwardPublicCoreRead target (request_body rq) i access path)"
proof -
  let ?P = "public_effect env rq target path"
  have quiet: "op_spec env rq ?P 1 (\<lambda>_. True) refresh_quietly"
    by (rule spec_refresh_quietly) (simp add: public_effect_def)
  note quiet' = quiet [unfolded One_nat_def] and public' = spec_callPublicCore [unfolded One_nat_def]
  show ?thesis
    unfolding forwardPublicCoreRead_def
    apply (rule op_spec_and_then [where R = "\<lambda>_. True" and a = 1 and b = 4])
      apply (auto intro!: op_rules quiet')
    apply (rule op_spec_and_then [OF spec_callPublicCore, where b = 3])
     apply (rule op_spec_and_then [where R = "\<lambda>_. True" and a = 2 and b = 1])
       apply (auto intro!: op_rules op_spec_and_then [OF quiet, where b = 1] public')
     apply (rule op_spec_and_then [where R = "\<lambda>_. True" and a = 1 and b = 0])
       apply (auto intro!: op_rules public' op_spec_and_then [where R = "\<lambda>_. True" and a = 0 and b = 0])
    done
qed

lemma spec_forwardPrivate:
  "op_spec env rq (private_effect env rq target) 4 (\<lambda>_. True)
     (forwardPrivateCore target (request_body rq) i access)"
proof -
  let ?P = "private_effect env rq target"
  have refresh: "op_spec env rq ?P 1 (\<lambda>_. True) refreshAuthCookies"
    by (rule spec_session) (simp_all add: private_effect_def)
  note refresh' = refresh [unfolded One_nat_def]
  have call: "op_spec env rq ?P 1 (\<lambda>_. True) (callCore target (request_body rq) a i [])" if "truthy_str a" for a
    using that by (intro spec_callCore) (auto simp: private_effect_def truthy_str_def split: option.splits)
  show ?thesis
    unfolding forwardPrivateCore_def
    apply (rule op_spec_and_then [where R = "\<lambda>_. True" and a = 1 and b = 3])
      apply (auto intro!: op_rules refresh')
    apply (rule op_spec_and_then [OF call, where b = 2])
      apply (auto intro!: op_rules op_spec_and_then [OF refresh, where b = 1] op_spec_and_then [OF call, where b = 0])
    done
qed

subsection \<open>When forwarding cannot fail\<close>

text \<open>\<open>op_total env rq Q m\<close>: from any state \<open>m\<close> returns, with a result that satisfies \<open>Q\<close>.\<close>

definition op_total :: "server_env \<Rightarrow> http_request \<Rightarrow> ('a \<Rightarrow> bool) \<Rightarrow> 'a op \<Rightarrow> bool" where
  "op_total env rq Q m \<longleftrightarrow> (\<forall>s. \<exists>x. fst (m env rq s) = Inr x \<and> Q x)"

lemma op_total_return: "Q x \<Longrightarrow> op_total env rq Q (return_op x)"
  by (simp add: op_total_def return_op_def)

lemma op_total_and_then:
  assumes "op_total env rq R m" "\<And>x. R x \<Longrightarrow> op_total env rq Q (k x)"
  shows "op_total env rq Q (and_then m k)"
  unfolding op_total_def
proof
  fix s
  obtain x where x: "fst (m env rq s) = Inr x" "R x" using assms(1) unfolding op_total_def by blast
  obtain y where "fst (k x env rq (snd (m env rq s))) = Inr y" "Q y"
    using assms(2) [OF x(2)] unfolding op_total_def by blast
  with x show "\<exists>y. fst (and_then m k env rq s) = Inr y \<and> Q y"
    by (auto simp: and_then_def split: prod.splits)
qed

lemma op_total_catch:
  assumes "\<And>e. op_total env rq Q (h e)" "\<And>x. Q x"
  shows "op_total env rq Q (catch_op m h)"
  unfolding op_total_def
proof
  fix s
  show "\<exists>x. fst (catch_op m h env rq s) = Inr x \<and> Q x"
  proof (cases "m env rq s")
    case (Pair r s')
    then show ?thesis
      using assms(1) assms(2) unfolding op_total_def by (cases r) (auto simp: catch_op_def)
  qed
qed

lemma op_total_basic:
  "Q (g env) \<Longrightarrow> op_total env rq Q (env_op g)" "Q (h rq) \<Longrightarrow> op_total env rq Q (request_op h)"
  "Q (f (se_vars env)) \<Longrightarrow> op_total env rq Q (vars_op f)" "R () \<Longrightarrow> op_total env rq R (setCookie k v opts)"
  by (simp_all add: op_total_def op_defs)

lemma total_refresh_quietly: "op_total env rq (\<lambda>_. True) refresh_quietly"
  unfolding refresh_quietly_def by (rule op_total_catch) (simp_all add: op_total_return)

text \<open>The core service answers at the target, and the visitor cookie can be signed.\<close>

definition core_answers :: "server_env \<Rightarrow> string \<Rightarrow> bool" where
  "core_answers env target \<longleftrightarrow> (\<forall>es c. cl_url c = target \<longrightarrow> (\<exists>r. se_net env es c = Inr r))"

definition visitor_ready :: "server_env \<Rightarrow> bool" where
  "visitor_ready env \<longleftrightarrow>
     truthy_str (map_of (se_vars env) ''PROXY_API_KEY'') \<and>
     (\<exists>uuid. se_uuid env = Some uuid \<and> (\<forall>n. VISITOR_ID_PATTERN (filter (\<lambda>c. c \<noteq> CHR ''-'') (uuid n))))"

lemma total_uuid:
  "visitor_ready env \<Longrightarrow> op_total env rq (\<lambda>u. VISITOR_ID_PATTERN (filter (\<lambda>c. c \<noteq> CHR ''-'') u)) randomUUID"
  by (auto simp: op_total_def visitor_ready_def randomUUID_def)

lemma total_visitor_headers:
  assumes "visitor_ready env"
  shows "op_total env rq (\<lambda>_. True) buildCatalogVisitorHeaders"
proof -
  have key: "op_total env rq (\<lambda>k. k \<noteq> []) getProxyApiKey"
    using assms by (auto simp: op_total_def visitor_ready_def getProxyApiKey_def truthy_str_def nullish_def
        split: option.splits)
  have fingerprint: "op_total env rq (\<lambda>_. True) (getOrCreateCatalogVisitorFingerprint k)" if "k \<noteq> []" for k
    unfolding getOrCreateCatalogVisitorFingerprint_def
    by (rule op_total_and_then [where R = "\<lambda>_. True"])
      (use that in \<open>auto intro!: op_total_basic op_total_return op_total_and_then [OF total_uuid [OF assms]]
        op_total_and_then [where R = "\<lambda>_. True"] split: option.split
        simp: Let_def createCatalogVisitorCookieValue_def\<close>)
  show ?thesis
    unfolding buildCatalogVisitorHeaders_def
    by (rule op_total_and_then [OF key])
      (auto intro!: op_total_and_then [OF fingerprint] op_total_return)
qed

definition answered_as :: "server_env \<Rightarrow> http_request \<Rightarrow> string \<Rightarrow> string \<Rightarrow> string option \<Rightarrow> upstream \<Rightarrow> bool" where
  "answered_as env rq target i access r \<longleftrightarrow>
     (\<exists>es hs. se_net env es (core_call rq target (request_body rq) access i hs) = Inr r)"

lemma total_callPublicCore:
  assumes "core_answers env target" "visitor_ready env"
  shows "op_total env rq (answered_as env rq target i access)
    (callPublicCore target (request_body rq) access i path)"
proof -
  have call: "op_total env rq (answered_as env rq target i access) (callCore target (request_body rq) access i hs)" for hs
    unfolding op_total_def
  proof
    fix s :: server_state
    obtain r where "se_net env (ss_log s) (core_call rq target (request_body rq) access i hs) = Inr r"
      using assms(1) unfolding core_answers_def by (force simp: core_call_def)
    then show "\<exists>x. fst (callCore target (request_body rq) access i hs env rq s) = Inr x \<and>
        answered_as env rq target i access x"
      by (auto simp: callCore_def op_defs answered_as_def)
  qed
  show ?thesis
    unfolding callPublicCore_def
    by (rule op_total_and_then [where R = "\<lambda>_. True"])
      (auto intro!: op_total_basic op_total_and_then [where R = "\<lambda>_. True"] call op_total_return
        total_visitor_headers assms)
qed

subsection \<open>Properties\<close>

text \<open>C1. What forwarding a request to the core service can do, whatever the services answer.  When the
  path is refused, nothing at all.  On a private path, at most four calls, each one either the
  refresh of the request's session or the request itself with a non-empty access token, so a
  private path is never called anonymously.  On a public path, at most five calls to the same
  target; the catalogue key and the visitor's fingerprint are sent only with anonymous reads of
  content details.\<close>

theorem forward_calls:
  "\<exists>es. ss_log (snd (forwardCoreRequest path env rq s)) = ss_log s @ es \<and>
     (case core_target env rq path of
        Inl e \<Rightarrow> es = [] \<and> fst (forwardCoreRequest path env rq s) = Inl e
      | Inr target \<Rightarrow>
          if isPublicCoreRequest (rq_method rq) (upstream_path rq path)
          then length (calls_of es) \<le> 5 \<and> list_all (public_effect env rq target (upstream_path rq path)) es
          else length (calls_of es) \<le> 4 \<and> list_all (private_effect env rq target) es)"
proof (cases "core_target env rq path")
  case (Inl e)
  then show ?thesis by (simp add: forwardCoreRequest_def op_defs)
next
  case (Inr target)
  let ?up = "upstream_path rq path" and ?public = "isPublicCoreRequest (rq_method rq) (upstream_path rq path)"
  define P where "P = (if ?public then public_effect env rq target ?up else private_effect env rq target)"
  define n :: nat where "n = (if ?public then 5 else 4)"
  have open_paths: "op_spec env rq (public_effect env rq target ?up) 1 (\<lambda>_. True)
      (callCore target (request_body rq) None i [])" for i
    by (rule spec_callCore) (auto simp: public_effect_def)
  have last: "op_spec env rq P n (\<lambda>_. True)
      (if ?up \<in> set PUBLIC_AUTH_PATHS then
         and_then (callCore target (request_body rq) None i []) (\<lambda>response. return_op (copyCoreResponse response i))
       else if ?public then forwardPublicCoreRead target (request_body rq) i (getAccessToken rq) ?up
       else forwardPrivateCore target (request_body rq) i (getAccessToken rq))" for i
    by (auto simp: P_def n_def isPublicCoreRequest_def
        intro: spec_forwardPublic spec_forwardPrivate intro!: op_spec_and_then [OF open_paths, where b = 0] op_rules)
  have "op_spec env rq P n (\<lambda>_. True) (forwardCoreRequest path)"
    unfolding forwardCoreRequest_def
    apply (rule op_spec_and_then [where R = "\<lambda>r. r = rq" and a = 0 and b = n])
      apply (auto intro!: op_rules)[1]
     apply (rule op_spec_and_then [where R = "\<lambda>r. r = core_target env rq path" and a = 0 and b = n])
       apply (auto intro!: op_rules)[1]
      apply (rule op_spec_and_then [where R = "\<lambda>t. t = target" and a = 0 and b = n])
        apply (auto intro!: op_rules simp: Inr)[1]
       apply (rule op_spec_and_then [where R = "\<lambda>_. True" and a = 0 and b = n])
         apply (auto intro!: op_rules split: option.split)[1]
        apply (simp only: Let_def, rule last)
       apply simp_all
    done
  then obtain es where "ss_log (snd (forwardCoreRequest path env rq s)) = ss_log s @ es" "list_all P es"
      "length (calls_of es) \<le> n"
    by (rule op_specE)
  then show ?thesis by (intro exI [of _ es], cases ?public) (simp_all add: Inr P_def n_def)
qed

text \<open>A public read does not depend on the session: as long as the core service answers at the
  target and visitors can be identified, it returns the answer of the core service, whatever
  becomes of the refresh of the session, and a 401 only when the core service refuses the
  anonymous read itself.\<close>

theorem public_read_total:
  assumes "core_answers env target" "visitor_ready env"
  shows "\<exists>r. fst (forwardPublicCoreRead target (request_body rq) i access path env rq s) =
      Inr (copyCoreResponse r i) \<and> (us_status r = 401 \<longrightarrow> answered_as env rq target i None r)"
proof -
  note call = total_callPublicCore [OF assms]
  have any: "op_total env rq (\<lambda>_. True) (callPublicCore target (request_body rq) a i path)" for a
    using call [of rq i a path] unfolding op_total_def by blast
  have retry: "op_total env rq (\<lambda>_. True)
      (if c then and_then refresh_quietly (\<lambda>a. if truthy_str a
         then callPublicCore target (request_body rq) a i path else return_op r) else return_op r)" for c r
    by (auto intro!: op_total_and_then [OF total_refresh_quietly] op_total_return any)
  have last: "op_total env rq (\<lambda>r. us_status r = 401 \<longrightarrow> answered_as env rq target i None r)
      (if us_status r = 401 then callPublicCore target (request_body rq) None i path else return_op r)" for r
    using call [of rq i None path] by (auto simp: op_total_def return_op_def)
  have "op_total env rq (\<lambda>reply. \<exists>r. reply = copyCoreResponse r i \<and>
      (us_status r = 401 \<longrightarrow> answered_as env rq target i None r))
    (forwardPublicCoreRead target (request_body rq) i access path)"
    unfolding forwardPublicCoreRead_def
    apply (rule op_total_and_then [where R = "\<lambda>_. True"])
     apply (simp add: total_refresh_quietly op_total_return)
    apply (rule op_total_and_then [OF any], rule op_total_and_then [OF retry], rule op_total_and_then [OF last])
    apply (auto intro!: op_total_return)
    done
  then show ?thesis unfolding op_total_def by blast
qed

text \<open>A core service that answers 401 to every call, and one configured key.\<close>

definition sample_env :: server_env where
  "sample_env =
     \<lparr>se_vars = [(''PROXY_API_KEY'', ''k'')], se_parse = (\<lambda>_. None), se_urls = sample_urls,
      se_net = (\<lambda>_ _. Inr \<lparr>us_status = 401, us_headers = [], us_setCookies = Some [], us_text = ''no''\<rparr>),
      se_uuid = Some (\<lambda>_. replicate 32 (CHR ''a'')), se_fallback_id = (\<lambda>_. ''req''),
      se_hmac = (\<lambda>_ _. replicate 32 0)\<rparr>"

definition blank_request :: http_request where
  "blank_request =
     \<lparr>rq_method = ''GET'', rq_origin = ''http://web'', rq_pathname = ''/api/core/content/7/'', rq_search = [],
      rq_headers = [], rq_cookies = [], rq_body = None\<rparr>"

theorem public_read_total_witness:
  "\<exists>r s. fst (forwardPublicCoreRead ''http://core/api/content/7/'' (request_body blank_request) ''id'' None
      ''content/7/'' sample_env blank_request s) = Inr (copyCoreResponse r ''id'')"
proof -
  have "core_answers sample_env ''http://core/api/content/7/''" by (simp add: core_answers_def sample_env_def)
  moreover have "visitor_ready sample_env"
    by (simp add: visitor_ready_def sample_env_def VISITOR_ID_PATTERN_def is_lower_hex_def list_all_iff)
  ultimately show ?thesis using public_read_total by blast
qed

lemma own_profile_split: "js_split CHR ''/'' (''profiles/me/'' @ t) = ''profiles'' # ''me'' # js_split CHR ''/'' t"
  using js_split_append_sep [of "CHR ''/''" "''profiles''" "''me/'' @ t"] js_split_append_sep [of "CHR ''/''" "''me''" t]
  by simp

lemma segments_join: "js_split d s = ws \<Longrightarrow> s = js_join [d] ws"
  using js_join_split [of d s] by simp

text \<open>Which paths are public: besides the two password-reset paths, only reads of profiles and
  contents whose path ends with a slash, and never anything below the visitor's own profile.\<close>

theorem public_paths:
  assumes "isPublicCoreRequest m path"
  shows "path \<in> set PUBLIC_AUTH_PATHS \<or>
     is_read_method m \<and> suffix ''/'' path \<and> \<not> prefix ''profiles/me/'' path \<and>
       (prefix ''profiles/'' path \<or> prefix ''content/'' path)"
proof (cases "path \<in> set PUBLIC_AUTH_PATHS")
  case False
  let ?ws = "js_split CHR ''/'' path"
  from False assms have read: "is_read_method m"
    and "list_ex (\<lambda>pattern. pattern ?ws) PUBLIC_READ_PATTERNS"
    by (simp_all add: isPublicCoreRequest_def split: if_splits)
  then obtain pattern where "pattern \<in> set PUBLIC_READ_PATTERNS" "pattern ?ws" by (auto simp: list_ex_iff)
  then obtain a n us where ws: "?ws = a # n # us" "last (n # us) = []" "us \<noteq> []" "a = ''profiles'' \<and> n \<noteq> ''me'' \<or> a = ''content''"
    by (auto simp: PUBLIC_READ_PATTERNS_def is_username_def split: list.splits)
  have path: "path = a @ ''/'' @ js_join ''/'' (n # us)" using segments_join [OF ws(1)] by simp
  have "suffix ''/'' (js_join ''/'' (v # vs))" if "vs \<noteq> []" "last vs = []" for v vs
    using that
  proof (induction vs arbitrary: v)
    case (Cons u vs)
    show ?case
    proof (cases "vs = []")
      case False
      with Cons have "suffix ''/'' (js_join ''/'' (u # vs))" by simp
      then show ?thesis by (metis js_join.simps(3) suffix_appendI)
    qed (use Cons in \<open>simp add: suffix_def\<close>)
  qed simp
  then have "suffix ''/'' (js_join ''/'' (n # us))" using ws(2,3) by simp
  then have "suffix ''/'' path" unfolding path by (intro suffix_appendI)
  moreover have "\<not> prefix ''profiles/me/'' path"
    using own_profile_split ws(1,4) by (auto simp: prefix_def)
  ultimately show ?thesis using read ws(4) by (auto simp: path)
qed simp

theorem public_paths_witness: "\<not> prefix ''profiles/me/'' ''profiles/melanie/'' \<and> isPublicCoreRequest ''get'' ''profiles/melanie/''"
proof -
  have "isPublicCoreRequest ''get'' ''profiles/melanie/''" by code_simp
  with public_paths [OF this] show ?thesis by (auto simp: PUBLIC_AUTH_PATHS_def)
qed

end
