(* ===== verification/AuthRoutes.thy ===== *)
theory AuthRoutes
  imports CoreBff
begin

text \<open>
  The routes of the web server that change a session (\<open>server/auth-routes.ts\<close> and
  \<open>routes/api/auth/*\<close>), the route that forwards to the core service (\<open>routes/api/core/$.ts\<close>) and
  the resolution of the session for a page (\<open>server/session.ts\<close>).
\<close>

subsection \<open>Replies\<close>

definition jsonResponse :: "json \<Rightarrow> int \<Rightarrow> (string \<times> string) list \<Rightarrow> reply" where
  "jsonResponse data status headers =
     \<lparr>rs_status = status, rs_headers = no_store_json @ headers, rs_body = ReplyJson data\<rparr>"

definition error_reply :: "string \<Rightarrow> string \<Rightarrow> json" where
  "error_reply err detail = JObj [(''error'', JStr err), (''detail'', JStr detail)]"

definition csrfFailure :: reply where
  "csrfFailure = jsonResponse (error_reply ''CSRF_FAILED'' ''Invalid or missing CSRF token.'') 403 []"

text \<open>Truthiness of a JSON value; \<open>None\<close> is \<open>undefined\<close>.\<close>

fun json_truthy :: "json \<Rightarrow> bool" where
  "json_truthy JNull = False"
| "json_truthy (JBool b) = b"
| "json_truthy (JNum n) = (n \<noteq> Fin 0 \<and> n \<noteq> NaN)"
| "json_truthy (JStr s) = (s \<noteq> [])"
| "json_truthy (JArr _) = True"
| "json_truthy (JObj _) = True"

definition field_truthy :: "json option \<Rightarrow> bool" where
  "field_truthy v = (case v of None \<Rightarrow> False | Some j \<Rightarrow> json_truthy j)"

subsection \<open>Signing in\<close>

datatype auth_endpoint = Login | Register

definition endpoint_name :: "auth_endpoint \<Rightarrow> string" where
  "endpoint_name e = (case e of Login \<Rightarrow> ''login'' | Register \<Rightarrow> ''register'')"

definition AUTH_UPSTREAM_TIMEOUT_MS :: int where "AUTH_UPSTREAM_TIMEOUT_MS = 10000"

definition credentials_call :: "string \<Rightarrow> auth_endpoint \<Rightarrow> string \<Rightarrow> json \<Rightarrow> call" where
  "credentials_call apiUrl endpoint requestId body =
     \<lparr>cl_method = ''POST'', cl_url = apiUrl @ ''/auth/'' @ endpoint_name endpoint @ ''/'',
      cl_headers = [(''Content-Type'', ''application/json''), (''X-Request-Id'', requestId)],
      cl_body = BodyJson body, cl_timeout = Some AUTH_UPSTREAM_TIMEOUT_MS\<rparr>"

definition body_failure :: "body_error \<Rightarrow> reply" where
  "body_failure e =
     (case e of
        BodyTooLarge \<Rightarrow> jsonResponse (error_reply ''REQUEST_TOO_LARGE'' ''Request body is too large.'') 413 []
      | BodyInvalidJson \<Rightarrow> jsonResponse (error_reply ''INVALID_JSON'' ''Request body must be valid JSON.'') 400 [])"

definition upstream_failure :: "string \<Rightarrow> reply" where
  "upstream_failure requestId =
     jsonResponse (error_reply ''AUTH_UPSTREAM_UNAVAILABLE'' ''Authentication service is temporarily unavailable.'')
       502 [(''x-request-id'', requestId)]"

definition incomplete_session :: "string \<Rightarrow> reply" where
  "incomplete_session requestId =
     jsonResponse (error_reply ''INVALID_AUTH_RESPONSE'' ''Authentication service returned an incomplete session.'')
       502 [(''x-request-id'', requestId)]"

text \<open>\<open>extractUpstreamCookie(response, cookie) ?? payload.field\<close>: the payload is read only if needed.\<close>

definition cookie_or_field :: "upstream \<Rightarrow> string \<Rightarrow> json \<Rightarrow> string \<Rightarrow> string option op" where
  "cookie_or_field response cookie payload field =
     (case extractUpstreamCookie response cookie of
        Some c \<Rightarrow> return_op (Some c)
      | None \<Rightarrow> and_then (field_op field payload) (\<lambda>v. return_op (json_str v)))"

definition accept_session :: "upstream \<Rightarrow> string \<Rightarrow> json \<Rightarrow> reply op" where
  "accept_session response requestId payload =
     and_then (cookie_or_field response AUTH_ACCESS_COOKIE payload ''access'') (\<lambda>access.
     and_then (cookie_or_field response AUTH_REFRESH_COOKIE payload ''refresh'') (\<lambda>refresh.
     and_then (field_op ''user'' payload) (\<lambda>user.
       if \<not> field_truthy user \<or> \<not> truthy_str access \<or> \<not> truthy_str refresh then
         and_then clearAuthCookies (\<lambda>_. return_op (incomplete_session requestId))
       else
         and_then (setAuthCookies \<lparr>tp_access = the access, tp_refresh = the refresh\<rparr>) (\<lambda>_.
           return_op (jsonResponse (JObj [(''user'', the user)]) (us_status response)
             [(''x-request-id'', requestId)])))))"

definition createAuthenticatedSession :: "auth_endpoint \<Rightarrow> reply op" where
  "createAuthenticatedSession endpoint =
     and_then (env_op (\<lambda>env. se_parse env)) (\<lambda>parse.
     and_then (request_op (\<lambda>rq. readLimitedJson parse rq 16384)) (\<lambda>read.
       case read of
         Inl e \<Rightarrow> return_op (body_failure e)
       | Inr body \<Rightarrow>
           and_then getLogicalRequestId (\<lambda>requestId.
           and_then (vars_op getApiUrl) (\<lambda>apiUrl.
           and_then
             (catch_op
               (and_then (fetch_op (credentials_call apiUrl endpoint requestId body)) (\<lambda>r. return_op (Some r)))
               (\<lambda>e. return_op None)) (\<lambda>answer.
             case answer of
               None \<Rightarrow> return_op (upstream_failure requestId)
             | Some response \<Rightarrow>
                 and_then (catch_op (json_of response) (\<lambda>e. return_op (JObj []))) (\<lambda>payload.
                   if \<not> status_ok (us_status response)
                   then return_op (jsonResponse payload (us_status response) [(''x-request-id'', requestId)])
                   else accept_session response requestId payload))))))"

subsection \<open>Signing out\<close>

definition logout_call :: "string \<Rightarrow> bool \<Rightarrow> string \<Rightarrow> string option \<Rightarrow> string \<Rightarrow> call" where
  "logout_call apiUrl everywhere access refresh requestId =
     \<lparr>cl_method = ''POST'',
      cl_url = apiUrl @ ''/auth/'' @ (if everywhere then ''logout-all'' else ''logout'') @ ''/'',
      cl_headers = [(''Authorization'', ''Bearer '' @ access), (''Content-Type'', ''application/json''),
        (''X-Request-Id'', requestId)],
      cl_body = BodyJson (JObj (if truthy_str refresh then [(''refresh'', JStr (the refresh))] else [])),
      cl_timeout = Some 3000\<rparr>"

definition destroyAuthenticatedSession :: "bool \<Rightarrow> reply op" where
  "destroyAuthenticatedSession everywhere =
     and_then (request_op (\<lambda>rq. (getAccessToken rq, getRefreshToken rq))) (\<lambda>(access, refresh).
     and_then
       (finally_op
         (if truthy_str access then
            and_then (vars_op getApiUrl) (\<lambda>apiUrl.
            and_then getLogicalRequestId (\<lambda>requestId.
            and_then (fetch_op (logout_call apiUrl everywhere (the access) refresh requestId)) (\<lambda>_.
              return_op ())))
          else return_op ())
         clearAuthCookies) (\<lambda>_.
       return_op (jsonResponse (JObj [(''detail'', JStr (if everywhere then ''Signed out from all sessions.''
         else ''Successfully signed out.''))]) 200 [])))"

subsection \<open>Routes\<close>

definition csrf_GET :: "reply op" where
  "csrf_GET = and_then getOrCreateCsrfToken (\<lambda>token.
     return_op (jsonResponse (JObj [(''csrfToken'', JStr token)]) 200 []))"

definition login_POST :: "reply op" where
  "login_POST = and_then (request_op validateCsrfRequest) (\<lambda>ok.
     if \<not> ok then return_op csrfFailure else createAuthenticatedSession Login)"

definition register_POST :: "reply op" where
  "register_POST = and_then (request_op validateCsrfRequest) (\<lambda>ok.
     if \<not> ok then return_op csrfFailure else createAuthenticatedSession Register)"

definition logout_POST :: "reply op" where
  "logout_POST = and_then (request_op validateCsrfRequest) (\<lambda>ok.
     if \<not> ok then return_op csrfFailure else destroyAuthenticatedSession False)"

definition logout_all_POST :: "reply op" where
  "logout_all_POST = and_then (request_op validateCsrfRequest) (\<lambda>ok.
     if \<not> ok then return_op csrfFailure else destroyAuthenticatedSession True)"

definition refresh_POST :: "reply op" where
  "refresh_POST = and_then (request_op validateCsrfRequest) (\<lambda>ok.
     if \<not> ok then return_op csrfFailure
     else and_then refreshAuthCookies (\<lambda>access.
       return_op
         (if truthy_str access then jsonResponse (JObj [(''detail'', JStr ''Session refreshed.'')]) 200 []
          else jsonResponse (error_reply ''SESSION_EXPIRED'' ''Session expired.'') 401 [])))"

text \<open>The handler of every method of \<open>/api/core/$\<close>, with the rest of the path as its parameter.\<close>

definition core_handle :: "string option \<Rightarrow> reply op" where
  "core_handle splat =
     and_then (request_op (\<lambda>rq. rq)) (\<lambda>rq.
       if rq_method rq \<noteq> ''GET'' \<and> rq_method rq \<noteq> ''HEAD'' \<and> \<not> validateCsrfRequest rq
       then return_op csrfFailure
       else catch_op (forwardCoreRequest (nullish splat []))
         (\<lambda>e. return_op (jsonResponse (error_reply ''BFF_CORE_UNAVAILABLE'' (error_message e)) 502 [])))"

subsection \<open>The session of a page\<close>

datatype session_resolution = Anonymous | Authenticated | Expired | Unavailable | Timeout

record session_snapshot =
  snap_user :: json
  snap_isAuthenticated :: bool
  snap_resolution :: session_resolution

definition EMPTY_SESSION :: session_snapshot where
  "EMPTY_SESSION = \<lparr>snap_user = JNull, snap_isAuthenticated = False, snap_resolution = Anonymous\<rparr>"

definition profile_call :: "string \<Rightarrow> string \<Rightarrow> string \<Rightarrow> call" where
  "profile_call apiUrl accessToken requestId =
     \<lparr>cl_method = ''GET'', cl_url = apiUrl @ ''/auth/user/'',
      cl_headers = [(''Authorization'', ''Bearer '' @ accessToken), (''Content-Type'', ''application/json''),
        (''X-Request-Id'', requestId)],
      cl_body = NoBody, cl_timeout = Some 3000\<rparr>"

text \<open>The profile of a user, \<open>JNull\<close> when the token is refused.\<close>

definition fetchUserProfile :: "string \<Rightarrow> string \<Rightarrow> json op" where
  "fetchUserProfile accessToken requestId =
     and_then (vars_op getApiUrl) (\<lambda>apiUrl.
     and_then (fetch_op (profile_call apiUrl accessToken requestId)) (\<lambda>response.
       if us_status response = 401 then return_op JNull
       else if \<not> status_ok (us_status response)
         then throw_op (JsError (''Failed to fetch auth profile ('' @ show_int (us_status response) @ '')''))
       else json_of response))"

definition authenticated_as :: "json \<Rightarrow> session_snapshot" where
  "authenticated_as u = \<lparr>snap_user = u, snap_isAuthenticated = True, snap_resolution = Authenticated\<rparr>"

definition expired_session :: session_snapshot where
  "expired_session = EMPTY_SESSION\<lparr>snap_resolution := Expired\<rparr>"

text \<open>The part after the access token was missing or refused.\<close>

definition resolve_by_refresh :: "bool \<Rightarrow> string \<Rightarrow> session_snapshot op" where
  "resolve_by_refresh hasRefreshToken requestId =
     (if \<not> hasRefreshToken then and_then clearAuthCookies (\<lambda>_. return_op expired_session)
      else
        and_then refreshAuthCookies (\<lambda>refreshedAccess.
          if \<not> truthy_str refreshedAccess then return_op expired_session
          else
            and_then (fetchUserProfile (the refreshedAccess) requestId) (\<lambda>user.
              if \<not> json_truthy user then and_then clearAuthCookies (\<lambda>_. return_op expired_session)
              else return_op (authenticated_as user))))"

definition resolveSession :: "session_snapshot op" where
  "resolveSession =
     and_then getLogicalRequestId (\<lambda>requestId.
     and_then (request_op getAccessToken) (\<lambda>accessToken.
     and_then (request_op (\<lambda>rq. truthy_str (getRefreshToken rq))) (\<lambda>hasRefreshToken.
       if \<not> truthy_str accessToken \<and> \<not> hasRefreshToken then return_op EMPTY_SESSION
       else
         and_then (if truthy_str accessToken then fetchUserProfile (the accessToken) requestId
                   else return_op JNull) (\<lambda>user.
           if json_truthy user then return_op (authenticated_as user)
           else resolve_by_refresh hasRefreshToken requestId))))"

definition failed_resolution :: "js_error \<Rightarrow> session_resolution" where
  "failed_resolution e =
     (case e of
        DomException name _ \<Rightarrow> if name = ''TimeoutError'' \<or> name = ''AbortError'' then Timeout else Unavailable
      | JsError _ \<Rightarrow> Unavailable)"

definition getSessionFn :: "session_snapshot op" where
  "getSessionFn =
     and_then getLogicalRequestId (\<lambda>requestId.
       catch_op resolveSession
         (\<lambda>e. return_op (EMPTY_SESSION\<lparr>snap_resolution := failed_resolution e\<rparr>)))"

definition getCountryFn :: "http_request \<Rightarrow> string" where
  "getCountryFn rq = nullish (getCookie rq ''user-country'') ''CO''"

subsection \<open>Runs\<close>

definition silent_ids :: "effect \<Rightarrow> bool" where
  "silent_ids e \<longleftrightarrow> (case e of HeaderSet _ _ \<Rightarrow> True | _ \<Rightarrow> False)"

lemma silent_log: "list_all silent_ids es \<Longrightarrow> calls_of es = [] \<and> cookies_of es = []"
  by (induction es) (auto simp: silent_ids_def split: effect.splits)

lemma spec_silent_id: "op_spec env rq silent_ids 0 (\<lambda>_. True) getLogicalRequestId"
  by (rule spec_getLogicalRequestId) (simp_all add: silent_ids_def)

lemma logical_id_run:
  obtains r es s' where "getLogicalRequestId env rq s = (r, s')" "ss_log s' = ss_log s @ es"
    "calls_of es = []" "cookies_of es = []"
proof -
  obtain r s' where r: "getLogicalRequestId env rq s = (r, s')" by (cases "getLogicalRequestId env rq s")
  obtain es where "ss_log s' = ss_log s @ es" "list_all silent_ids es"
    using op_specE [OF spec_silent_id, of env rq s] r by (metis snd_conv)
  with r silent_log that show thesis by blast
qed

lemma generated_id_total:
  "\<exists>i s'. generateRequestId env rq s = (Inr i, s')"
  by (simp add: generateRequestId_def Let_def split: option.split)

lemma logical_id_total: "\<exists>i. fst (getLogicalRequestId env rq s) = Inr i"
proof (cases "normalizeRequestId (header rq ''x-request-id'')")
  case None
  obtain i s' where "generateRequestId env rq s = (Inr i, s')" using generated_id_total by blast
  with None show ?thesis by (simp add: getLogicalRequestId_def assignRequestId_def op_defs)
qed (simp add: getLogicalRequestId_def assignRequestId_def op_defs)

lemma profile_run:
  obtains r where "fetchUserProfile a i env rq s =
    (r, s\<lparr>ss_log := ss_log s @ [Fetched (profile_call (getApiUrl (se_vars env)) a i)]\<rparr>)"
proof -
  have "\<exists>r. fetchUserProfile a i env rq s =
      (r, s\<lparr>ss_log := ss_log s @ [Fetched (profile_call (getApiUrl (se_vars env)) a i)]\<rparr>)"
    by (auto simp: fetchUserProfile_def json_of_def op_defs split: sum.split option.split)
  with that show thesis by blast
qed

text \<open>What a sign-in may have done to the cookies, by its outcome.\<close>

definition sign_in_cookies :: "env_vars \<Rightarrow> js_error + reply \<Rightarrow> cookie_op list \<Rightarrow> bool" where
  "sign_in_cookies env r cookies \<longleftrightarrow>
     (case r of
        Inl e \<Rightarrow> cookies = []
      | Inr reply \<Rightarrow>
          if status_ok (rs_status reply)
          then \<exists>t. tp_access t \<noteq> [] \<and> tp_refresh t \<noteq> [] \<and> cookies = auth_set env t
          else cookies = [] \<or> cookies = auth_cleared env)"

lemma cookie_or_field_pure:
  "snd (cookie_or_field response c payload f env rq s) = s"
  by (simp add: cookie_or_field_def field_op_def op_defs split: option.split)

lemma not_ok_502 [simp]: "\<not> status_ok (rs_status (incomplete_session i))" "\<not> status_ok (rs_status (upstream_failure i))"
  by (simp_all add: incomplete_session_def upstream_failure_def jsonResponse_def status_ok_def)

lemma not_ok_body [simp]: "\<not> status_ok (rs_status (body_failure e))"
  by (simp add: body_failure_def jsonResponse_def status_ok_def split: body_error.split)

lemma accept_run:
  assumes "status_ok (us_status response)"
  obtains r cs where "accept_session response i payload env rq s = (r, s\<lparr>ss_log := ss_log s @ map Cookied cs\<rparr>)"
    "sign_in_cookies (se_vars env) r cs"
proof -
  obtain ra where a: "cookie_or_field response AUTH_ACCESS_COOKIE payload ''access'' env rq s = (ra, s)"
    using cookie_or_field_pure [of response AUTH_ACCESS_COOKIE payload "''access''" env rq s] by (metis prod.collapse)
  obtain rr where r: "cookie_or_field response AUTH_REFRESH_COOKIE payload ''refresh'' env rq s = (rr, s)"
    using cookie_or_field_pure [of response AUTH_REFRESH_COOKIE payload "''refresh''" env rq s] by (metis prod.collapse)
  show thesis
  proof (cases "\<exists>access refresh. ra = Inr access \<and> rr = Inr refresh \<and> payload \<noteq> JNull")
    case False
    then have "\<exists>e. accept_session response i payload env rq s = (Inl e, s)"
      using a r by (cases ra; cases rr) (simp_all add: accept_session_def and_then_def field_op_def throw_op_def)
    then obtain e where "accept_session response i payload env rq s = (Inl e, s)" ..
    then show thesis by (intro that [of "Inl e" "[]"]) (simp_all add: sign_in_cookies_def)
  next
    case True
    then obtain access refresh where ok: "ra = Inr access" "rr = Inr refresh" "payload \<noteq> JNull" by blast
    let ?bad = "\<not> field_truthy (json_field ''user'' payload) \<or> \<not> truthy_str access \<or> \<not> truthy_str refresh"
    show thesis
    proof (cases ?bad)
      case True
      then show thesis
        by (intro that [of "Inr (incomplete_session i)" "auth_cleared (se_vars env)"])
          (auto simp: accept_session_def and_then_def a r ok field_op_def return_op_def clearAuthCookies_run
            auth_cleared_def sign_in_cookies_def)
    next
      case False
      then show thesis
        using assms
        by (intro that [of "Inr (jsonResponse (JObj [(''user'', the (json_field ''user'' payload))])
              (us_status response) [(''x-request-id'', i)])"
            "auth_set (se_vars env) \<lparr>tp_access = the access, tp_refresh = the refresh\<rparr>"])
          (auto simp: accept_session_def and_then_def a r ok field_op_def return_op_def setAuthCookies_run
            auth_set_def sign_in_cookies_def jsonResponse_def truthy_str_def split: option.splits
            intro: exI [of _ "\<lparr>tp_access = the access, tp_refresh = the refresh\<rparr>"])
    qed
  qed
qed

text \<open>The cookies that go with a session that was resolved, or with the exception that was thrown.\<close>

definition session_cookies :: "env_vars \<Rightarrow> bool \<Rightarrow> js_error + session_snapshot \<Rightarrow> cookie_op list \<Rightarrow> bool" where
  "session_cookies env anonymous r cookies \<longleftrightarrow>
     (case r of
        Inl e \<Rightarrow> \<not> anonymous \<and> (cookies = [] \<or> (\<exists>t. cookies = auth_set env t))
      | Inr snap \<Rightarrow>
          anonymous = (snap_resolution snap = Anonymous) \<and>
          (case snap_resolution snap of
             Anonymous \<Rightarrow> snap = EMPTY_SESSION \<and> cookies = []
           | Authenticated \<Rightarrow> (\<exists>u. json_truthy u \<and> snap = authenticated_as u) \<and>
               (cookies = [] \<or> (\<exists>t. cookies = auth_set env t))
           | Expired \<Rightarrow> snap = expired_session \<and> suffix (auth_cleared env) cookies
           | _ \<Rightarrow> False))"

definition session_log ::
  "nat \<Rightarrow> bool \<Rightarrow> server_env \<Rightarrow> server_state \<Rightarrow> (js_error + session_snapshot) \<times> server_state \<Rightarrow> bool" where
  "session_log n anonymous env s rs \<longleftrightarrow>
     (\<exists>es. ss_log (snd rs) = ss_log s @ es \<and> length (calls_of es) \<le> n \<and>
        session_cookies (se_vars env) anonymous (fst rs) (cookies_of es))"

lemma session_logI:
  "ss_log s' = ss_log s @ es \<Longrightarrow> length (calls_of es) \<le> n \<Longrightarrow> session_cookies (se_vars env) anonymous r (cookies_of es) \<Longrightarrow>
     session_log n anonymous env s (r, s')"
  by (auto simp: session_log_def)

lemma resolve_by_refresh_log:
  assumes ok: "refreshes_ok s" and had: "had = truthy_str (getRefreshToken rq)"
  shows "session_log 2 False env s (resolve_by_refresh had i env rq s)"
proof (cases had)
  case False
  then show ?thesis
    by (simp add: resolve_by_refresh_def and_then_def clearAuthCookies_run return_op_def)
      (rule session_logI [where es = "map Cookied (auth_cleared (se_vars env))"],
       simp_all add: auth_cleared_def session_cookies_def expired_session_def EMPTY_SESSION_def)
next
  case True
  obtain es where es: "ss_log (snd (refreshAuthCookies env rq s)) = ss_log s @ es" "length (calls_of es) \<le> 1"
      "refresh_cookies (se_vars env) True (fst (refreshAuthCookies env rq s)) (cookies_of es)"
    using refresh_log [of env rq s] True had by auto
  obtain r s' where r: "refreshAuthCookies env rq s = (r, s')" by (cases "refreshAuthCookies env rq s")
  note run = resolve_by_refresh_def and_then_def r return_op_def clearAuthCookies_run
  consider (error) e where "r = Inl e" | (none) "r = Inr None" | (some) a where "r = Inr (Some a)"
    by (metis obj_sumE option.exhaust)
  then show ?thesis
  proof cases
    case error
    with es r True show ?thesis
      by (simp add: run) (rule session_logI [where es = es], simp_all add: session_cookies_def refresh_cookies_def)
  next
    case none
    with es r True show ?thesis
      by (simp add: run) (rule session_logI [where es = es],
        simp_all add: session_cookies_def refresh_cookies_def expired_session_def EMPTY_SESSION_def)
  next
    case some
    have a: "a \<noteq> []" by (rule refreshed_access [OF ok, of env rq]) (simp add: r some)
    obtain t where t: "cookies_of es = auth_set (se_vars env) t"
      using es(3) r some by (auto simp: refresh_cookies_def)
    let ?c = "Fetched (profile_call (getApiUrl (se_vars env)) a i)"
    obtain p where p: "fetchUserProfile a i env rq s' = (p, s'\<lparr>ss_log := ss_log s' @ [?c]\<rparr>)"
      by (rule profile_run)
    show ?thesis
    proof (cases "\<exists>u. p = Inr u \<and> \<not> json_truthy u")
      case True
      then show ?thesis
        using es r t a p \<open>had\<close> some
        by (auto simp: run) (rule session_logI [where es = "es @ ?c # map Cookied (auth_cleared (se_vars env))"],
          auto simp: auth_cleared_def session_cookies_def expired_session_def EMPTY_SESSION_def suffix_def)
    next
      case False
      then show ?thesis
        using es r t a p \<open>had\<close> some
        by (cases p) (simp_all add: run, (rule session_logI [where es = "es @ [?c]"],
          auto simp: session_cookies_def authenticated_as_def)+)
    qed
  qed
qed

lemma keeps_refreshes: "ss_refreshes (snd (getLogicalRequestId env rq s)) = ss_refreshes s"
  by (simp add: getLogicalRequestId_def assignRequestId_def generateRequestId_def op_defs Let_def
      split: option.split)

lemma resolveSession_log:
  assumes ok: "refreshes_ok s"
  shows "session_log 3 (\<not> truthy_str (getAccessToken rq) \<and> \<not> truthy_str (getRefreshToken rq)) env s
    (resolveSession env rq s)"
proof -
  obtain r es s1 where id: "getLogicalRequestId env rq s = (r, s1)" "ss_log s1 = ss_log s @ es"
      "calls_of es = []" "cookies_of es = []"
    by (rule logical_id_run)
  obtain i where i: "r = Inr i" using logical_id_total [of env rq s] id(1) by auto
  have ok1: "refreshes_ok s1" using keeps_refreshes [of env rq s] ok by (simp add: id(1) refreshes_ok_def)
  let ?a = "getAccessToken rq" and ?had = "truthy_str (getRefreshToken rq)"
  note run = resolveSession_def and_then_def id(1) i request_op_def return_op_def
  have later: "session_log (Suc (Suc (length (calls_of fs)))) False env s (resolve_by_refresh ?had i env rq s2)"
    if s2: "refreshes_ok s2" "ss_log s2 = ss_log s @ fs" "cookies_of fs = []" for s2 fs
    using resolve_by_refresh_log [OF s2(1) refl, of env rq i] s2(2,3)
    by (auto simp: session_log_def)
  show ?thesis
  proof (cases "truthy_str ?a")
    case False
    show ?thesis
    proof (cases ?had)
      case True
      then show ?thesis
        using False later [OF ok1 id(2,4)] id(3) by (auto simp: run session_log_def)
    next
      case False
      with \<open>\<not> truthy_str ?a\<close> id show ?thesis
        by (simp add: run)
          (rule session_logI [where es = es], simp_all add: session_cookies_def EMPTY_SESSION_def)
    qed
  next
    case True
    let ?c = "Fetched (profile_call (getApiUrl (se_vars env)) (the ?a) i)"
    obtain p where p: "fetchUserProfile (the ?a) i env rq s1 = (p, s1\<lparr>ss_log := ss_log s1 @ [?c]\<rparr>)"
      by (rule profile_run)
    show ?thesis
    proof (cases "\<exists>u. p = Inr u \<and> \<not> json_truthy u")
      case True
      moreover have "refreshes_ok (s1\<lparr>ss_log := ss_log s1 @ [?c]\<rparr>)" using ok1 by (simp add: refreshes_ok_def)
      note later [OF this, of "es @ [?c]"]
      ultimately show ?thesis using \<open>truthy_str ?a\<close> p id(2-4) by (auto simp: run numeral_3_eq_3)
    next
      case False
      then show ?thesis
        using \<open>truthy_str ?a\<close> p id
        by (cases p) (simp_all add: run, (rule session_logI [where es = "es @ [?c]"],
          auto simp: session_cookies_def authenticated_as_def)+)
    qed
  qed
qed

subsection \<open>Properties\<close>

text \<open>C31. A request that fails the CSRF check changes nothing: every route that changes a session, and
  every write that would be forwarded to the core service, is answered with 403 without a call,
  without a cookie and without any other effect.\<close>

theorem forged_requests_inert:
  assumes "\<not> validateCsrfRequest rq"
  shows "list_all (\<lambda>route. route env rq s = (Inr csrfFailure, s))
      [login_POST, register_POST, logout_POST, logout_all_POST, refresh_POST] \<and>
    (rq_method rq \<notin> {''GET'', ''HEAD''} \<longrightarrow> core_handle splat env rq s = (Inr csrfFailure, s))"
  using assms
  by (auto simp: login_POST_def register_POST_def logout_POST_def logout_all_POST_def refresh_POST_def
      core_handle_def op_defs)

definition cross_site_post :: http_request where
  "cross_site_post =
     \<lparr>rq_method = ''POST'', rq_origin = ''http://web'', rq_pathname = ''/api/auth/logout'', rq_search = [],
      rq_headers = [(''origin'', ''http://evil'')],
      rq_cookies = [(AUTH_ACCESS_COOKIE, ''a''), (CSRF_COOKIE, replicate 40 (CHR ''x''))], rq_body = None\<rparr>"

definition blank_state :: server_state where
  "blank_state = \<lparr>ss_log = [], ss_drawn = 0, ss_requestId = None, ss_refreshes = [], ss_warnedMissingKey = False\<rparr>"

theorem forged_requests_inert_witness:
  "logout_POST sample_env cross_site_post blank_state = (Inr csrfFailure, blank_state)"
proof -
  have "\<not> validateCsrfRequest cross_site_post"
    by (simp add: validateCsrfRequest_def cross_site_post_def header_def truthy_str_def)
  then show ?thesis using forged_requests_inert [of cross_site_post sample_env blank_state None] by simp
qed

text \<open>C30. Signing out clears both session cookies on every path: also when there is no access token, when
  the core service refuses, and when the call to it fails, in which case the error is passed on
  after the cookies were cleared.  At most one call is made, and only with an access token.\<close>

theorem logout_clears:
  "\<exists>es. ss_log (snd (destroyAuthenticatedSession everywhere env rq s)) = ss_log s @ es \<and>
     cookies_of es = auth_cleared (se_vars env) \<and>
     length (calls_of es) = (if truthy_str (getAccessToken rq) then 1 else 0)"
proof (cases "truthy_str (getAccessToken rq)")
  case False
  then show ?thesis
    by (intro exI [of _ "map Cookied (auth_cleared (se_vars env))"])
      (simp add: destroyAuthenticatedSession_def op_defs clearAuthCookies_run [unfolded op_defs] auth_cleared_def)
next
  case True
  obtain r es s' where id: "getLogicalRequestId env rq s = (r, s')" "ss_log s' = ss_log s @ es"
      "calls_of es = []" "cookies_of es = []"
    by (rule logical_id_run)
  obtain i where i: "r = Inr i" using logical_id_total [of env rq s] id(1) by auto
  let ?c = "logout_call (getApiUrl (se_vars env)) everywhere (the (getAccessToken rq)) (getRefreshToken rq) i"
  have "ss_log (snd (destroyAuthenticatedSession everywhere env rq s)) =
      ss_log s @ es @ Fetched ?c # map Cookied (auth_cleared (se_vars env))"
    using True id(2)
    by (cases "se_net env (ss_log s') ?c")
      (simp_all add: destroyAuthenticatedSession_def id(1) and_then_def request_op_def
        finally_op_def vars_op_def fetch_op_def return_op_def i clearAuthCookies_run auth_cleared_def)
  then show ?thesis
    using True id(3,4)
    by (intro exI [of _ "es @ Fetched ?c # map Cookied (auth_cleared (se_vars env))"]) (simp add: auth_cleared_def)
qed

text \<open>Signing in sets the session cookies exactly when it is answered with success: then both tokens
  are there and are set; any other answer leaves the cookies alone or deletes both, and an
  exception leaves them alone.  At most one call is made.\<close>

theorem sign_in_effects:
  "\<exists>es. ss_log (snd (createAuthenticatedSession endpoint env rq s)) = ss_log s @ es \<and> length (calls_of es) \<le> 1 \<and>
     sign_in_cookies (se_vars env) (fst (createAuthenticatedSession endpoint env rq s)) (cookies_of es)"
proof (cases "readLimitedJson (se_parse env) rq 16384")
  case (Inl e)
  then show ?thesis
    by (intro exI [of _ "[]"])
      (simp add: createAuthenticatedSession_def and_then_def env_op_def request_op_def return_op_def sign_in_cookies_def)
next
  case (Inr body)
  obtain r es s1 where id: "getLogicalRequestId env rq s = (r, s1)" "ss_log s1 = ss_log s @ es"
      "calls_of es = []" "cookies_of es = []"
    by (rule logical_id_run)
  obtain i where i: "r = Inr i" using logical_id_total [of env rq s] id(1) by auto
  let ?c = "credentials_call (getApiUrl (se_vars env)) endpoint i body"
  define s2 where "s2 = s1\<lparr>ss_log := ss_log s1 @ [Fetched ?c]\<rparr>"
  note unfold = createAuthenticatedSession_def and_then_def env_op_def request_op_def vars_op_def Inr id(1) i
    catch_op_def fetch_op_def return_op_def s2_def [symmetric]
  show ?thesis
  proof (cases "se_net env (ss_log s1) ?c")
    case (Inl e)
    then show ?thesis using id
      by (intro exI [of _ "es @ [Fetched ?c]"]) (simp add: unfold, simp add: s2_def sign_in_cookies_def)
  next
    case (Inr response)
    define payload where "payload = (case se_parse env (us_text response) of None \<Rightarrow> JObj [] | Some j \<Rightarrow> j)"
    have json: "json_of response env rq s2 = (case se_parse env (us_text response) of None \<Rightarrow> Inl (JsError ''SyntaxError'') | Some j \<Rightarrow> Inr j, s2)"
      by (simp add: json_of_def op_defs split: option.split)
    have run: "createAuthenticatedSession endpoint env rq s =
        (if status_ok (us_status response) then accept_session response i payload env rq s2
         else (Inr (jsonResponse payload (us_status response) [(''x-request-id'', i)]), s2))"
      by (cases "se_parse env (us_text response)") (simp_all add: unfold Inr json payload_def)
    show ?thesis
    proof (cases "status_ok (us_status response)")
      case True
      obtain r cs where "accept_session response i payload env rq s2 = (r, s2\<lparr>ss_log := ss_log s2 @ map Cookied cs\<rparr>)"
          "sign_in_cookies (se_vars env) r cs"
        by (rule accept_run [OF True])
      moreover have "calls_of (map Cookied cs) = []" "cookies_of (map Cookied cs) = cs" by (induction cs) simp_all
      ultimately show ?thesis using id True
        by (intro exI [of _ "es @ Fetched ?c # map Cookied cs"]) (simp add: run s2_def)
    next
      case False
      then show ?thesis using id
        by (intro exI [of _ "es @ [Fetched ?c]"]) (simp add: run s2_def sign_in_cookies_def jsonResponse_def)
    qed
  qed
qed

text \<open>C2. Resolving the session never throws, makes at most three calls, and the cookies agree with the
  answer: an anonymous visitor has no session cookie and nothing changes; an authenticated one has
  a user, and the cookies are untouched or set anew; a session is reported as expired only
  together with deleting both cookies; when a service is unavailable or slow the visitor is not
  signed out: the cookies are kept, or set to the tokens that were already obtained.\<close>

theorem session_outcomes:
  assumes "refreshes_ok s"
  shows "\<exists>snap s' es. getSessionFn env rq s = (Inr snap, s') \<and> ss_log s' = ss_log s @ es \<and>
    length (calls_of es) \<le> 3 \<and>
    snap_isAuthenticated snap = (snap_resolution snap = Authenticated) \<and>
    json_truthy (snap_user snap) = (snap_resolution snap = Authenticated) \<and>
    (snap_resolution snap = Anonymous \<longleftrightarrow>
       \<not> truthy_str (getAccessToken rq) \<and> \<not> truthy_str (getRefreshToken rq)) \<and>
    (if snap_resolution snap = Anonymous then cookies_of es = []
     else if snap_resolution snap = Expired then suffix (auth_cleared (se_vars env)) (cookies_of es)
     else cookies_of es = [] \<or> (\<exists>t. cookies_of es = auth_set (se_vars env) t))"
proof -
  obtain r es s1 where id: "getLogicalRequestId env rq s = (r, s1)" "ss_log s1 = ss_log s @ es"
      "calls_of es = []" "cookies_of es = []"
    by (rule logical_id_run)
  obtain i where i: "r = Inr i" using logical_id_total [of env rq s] id(1) by auto
  have ok: "refreshes_ok s1" using keeps_refreshes [of env rq s] assms by (simp add: id(1) refreshes_ok_def)
  obtain q s2 where q: "resolveSession env rq s1 = (q, s2)" by (cases "resolveSession env rq s1")
  obtain fs where fs: "ss_log s2 = ss_log s1 @ fs" "length (calls_of fs) \<le> 3"
      "session_cookies (se_vars env) (\<not> truthy_str (getAccessToken rq) \<and> \<not> truthy_str (getRefreshToken rq)) q (cookies_of fs)"
    using resolveSession_log [OF ok, of rq env] by (auto simp: session_log_def q)
  define snap where "snap = (case q of Inl e \<Rightarrow> EMPTY_SESSION\<lparr>snap_resolution := failed_resolution e\<rparr> | Inr x \<Rightarrow> x)"
  have run: "getSessionFn env rq s = (Inr snap, s2)"
    by (cases q) (simp_all add: getSessionFn_def and_then_def id(1) i catch_op_def q return_op_def snap_def)
  have failed: "failed_resolution e \<in> {Timeout, Unavailable}" for e
    by (simp add: failed_resolution_def split: js_error.split)
  have "snap_isAuthenticated snap = (snap_resolution snap = Authenticated) \<and>
      json_truthy (snap_user snap) = (snap_resolution snap = Authenticated) \<and>
      (snap_resolution snap = Anonymous \<longleftrightarrow>
         \<not> truthy_str (getAccessToken rq) \<and> \<not> truthy_str (getRefreshToken rq)) \<and>
      (if snap_resolution snap = Anonymous then cookies_of fs = []
       else if snap_resolution snap = Expired then suffix (auth_cleared (se_vars env)) (cookies_of fs)
       else cookies_of fs = [] \<or> (\<exists>t. cookies_of fs = auth_set (se_vars env) t))"
  proof (cases q)
    case (Inl e)
    with fs(3) failed [of e] show ?thesis by (auto simp: snap_def session_cookies_def EMPTY_SESSION_def)
  next
    case (Inr x)
    with fs(3) show ?thesis
      by (cases "snap_resolution x")
        (auto simp: snap_def session_cookies_def EMPTY_SESSION_def expired_session_def authenticated_as_def)
  qed
  with run id(2-4) fs(1,2) show ?thesis by (intro exI [of _ snap] exI [of _ s2] exI [of _ "es @ fs"]) simp
qed

theorem session_outcomes_witness:
  "\<exists>snap s'. getSessionFn sample_env blank_request blank_state = (Inr snap, s') \<and> snap_resolution snap = Anonymous"
proof -
  have "refreshes_ok blank_state" by (simp add: refreshes_ok_def blank_state_def)
  from session_outcomes [OF this, of sample_env blank_request] show ?thesis
    by (auto simp: getAccessToken_def getRefreshToken_def getCookie_def blank_request_def)
qed

text \<open>The CSRF token that the web server hands out is accepted when it comes back in both places,
  unless the browser already had a token of its own with fewer than 32 characters: that one is
  handed out again and never accepted.\<close>

theorem csrf_roundtrip:
  assumes "se_uuid env = Some uuid" "\<And>n. length (filter (\<lambda>c. c \<noteq> CHR ''-'') (uuid n)) = 32"
    and "getOrCreateCsrfToken env rq s = (Inr token, s')"
    and "getCookie rq2 CSRF_COOKIE = Some token" "header rq2 CSRF_HEADER = Some token"
    and "header rq2 ''origin'' = None" "header rq2 ''sec-fetch-site'' \<noteq> Some ''cross-site''"
  shows "validateCsrfRequest rq2 \<longleftrightarrow>
    (case getCookie rq CSRF_COOKIE of None \<Rightarrow> True | Some t \<Rightarrow> t = [] \<or> 32 \<le> length t)"
proof -
  have valid: "validateCsrfRequest rq2 \<longleftrightarrow> 32 \<le> length token"
    using assms(4-7) by (simp add: validateCsrfRequest_def constantTimeEqual_iff nullish_def truthy_str_def Let_def)
  show ?thesis
  proof (cases "truthy_str (getCookie rq CSRF_COOKIE)")
    case True
    then show ?thesis
      using assms(3) valid
      by (auto simp: getOrCreateCsrfToken_def op_defs truthy_str_def split: option.splits)
  next
    case False
    then have "token = filter (\<lambda>c. c \<noteq> CHR ''-'') (uuid (ss_drawn s) @ uuid (Suc (ss_drawn s)))"
      using assms(1,3) by (auto simp: getOrCreateCsrfToken_def randomUUID_def op_defs Let_def)
    then have "length token = 64" using assms(2) by simp
    with valid False show ?thesis by (auto simp: truthy_str_def split: option.splits)
  qed
qed

theorem csrf_roundtrip_witness:
  "validateCsrfRequest (blank_request\<lparr>rq_headers := [(CSRF_HEADER, replicate 64 (CHR ''a''))],
     rq_cookies := [(CSRF_COOKIE, replicate 64 (CHR ''a''))]\<rparr>)"
proof -
  obtain s' where "getOrCreateCsrfToken sample_env blank_request blank_state = (Inr (replicate 64 (CHR ''a'')), s')"
  proof -
    have "fst (getOrCreateCsrfToken sample_env blank_request blank_state) = Inr (replicate 64 (CHR ''a''))"
      by code_simp
    with that show thesis by (metis prod.collapse)
  qed
  from csrf_roundtrip [OF _ _ this, of "\<lambda>_. replicate 32 (CHR ''a'')"] show ?thesis
    by (simp add: sample_env_def getCookie_def header_def blank_request_def CSRF_HEADER_def)
qed

end
