(* ===== verification/ContentTypes.thy ===== *)
theory ContentTypes
  imports ApiTypes ServerRuntime
begin

text \<open>
  The content types and what the client knows about each (\<open>lib/contentTypes.ts\<close>), and the
  moderation summaries (\<open>lib/utils/moderationUtils.ts\<close>).  An icon is its name.  The types come
  from the services and the routes; the two names that an object of JavaScript inherits in lower
  case (\<open>constructor\<close> and \<open>__proto__\<close>) are not looked up.
\<close>

subsection \<open>Definitions\<close>

record content_type_definition =
  ctd_type :: content_type
  ctd_label :: string
  ctd_pluralLabel :: string
  ctd_sectionTitle :: "string option"
  ctd_icon :: string
  ctd_slug :: string
  ctd_sourceApi :: source_api
  ctd_order :: int

fun CONTENT_TYPE_DEFINITIONS :: "content_type \<Rightarrow> content_type_definition" where
  "CONTENT_TYPE_DEFINITIONS MOVIE =
     \<lparr>ctd_type = MOVIE, ctd_label = ''Movie'', ctd_pluralLabel = ''Movies'',
      ctd_sectionTitle = Some ''Popular Movies'', ctd_icon = ''Film'', ctd_slug = ''movies'',
      ctd_sourceApi = TMDB, ctd_order = 0\<rparr>"
| "CONTENT_TYPE_DEFINITIONS TV_SHOW =
     \<lparr>ctd_type = TV_SHOW, ctd_label = ''TV Show'', ctd_pluralLabel = ''TV Shows'',
      ctd_sectionTitle = Some ''Popular TV Shows'', ctd_icon = ''Tv'', ctd_slug = ''tv-shows'',
      ctd_sourceApi = TMDB, ctd_order = 1\<rparr>"
| "CONTENT_TYPE_DEFINITIONS SEASON =
     \<lparr>ctd_type = SEASON, ctd_label = ''Season'', ctd_pluralLabel = ''Seasons'',
      ctd_sectionTitle = None, ctd_icon = ''Tv'', ctd_slug = ''seasons'',
      ctd_sourceApi = TMDB, ctd_order = 2\<rparr>"
| "CONTENT_TYPE_DEFINITIONS GAME =
     \<lparr>ctd_type = GAME, ctd_label = ''Game'', ctd_pluralLabel = ''Games'',
      ctd_sectionTitle = Some ''Popular Games'', ctd_icon = ''Gamepad2'', ctd_slug = ''games'',
      ctd_sourceApi = IGDB, ctd_order = 3\<rparr>"
| "CONTENT_TYPE_DEFINITIONS ALBUM =
     \<lparr>ctd_type = ALBUM, ctd_label = ''Album'', ctd_pluralLabel = ''Music'',
      ctd_sectionTitle = Some ''Popular Music Albums'', ctd_icon = ''Music'', ctd_slug = ''music'',
      ctd_sourceApi = SPOTIFY, ctd_order = 4\<rparr>"
| "CONTENT_TYPE_DEFINITIONS BOOK =
     \<lparr>ctd_type = BOOK, ctd_label = ''Book'', ctd_pluralLabel = ''Books'',
      ctd_sectionTitle = Some ''Popular Books'', ctd_icon = ''Book'', ctd_slug = ''books'',
      ctd_sourceApi = OPENLIBRARY, ctd_order = 5\<rparr>"
| "CONTENT_TYPE_DEFINITIONS PERSON =
     \<lparr>ctd_type = PERSON, ctd_label = ''Person'', ctd_pluralLabel = ''People'',
      ctd_sectionTitle = None, ctd_icon = ''UserRound'', ctd_slug = ''people'',
      ctd_sourceApi = TMDB, ctd_order = 6\<rparr>"

definition DISCOVERY_CONTENT_TYPES :: "content_type list" where
  "DISCOVERY_CONTENT_TYPES = [MOVIE, TV_SHOW, GAME, ALBUM, BOOK]"

definition FILTERABLE_CONTENT_TYPES :: "content_type list" where
  "FILTERABLE_CONTENT_TYPES = [MOVIE, TV_SHOW, SEASON, GAME, ALBUM, BOOK]"

definition CONTENT_TYPE_ICONS :: "content_type \<Rightarrow> string" where
  "CONTENT_TYPE_ICONS t = ctd_icon (CONTENT_TYPE_DEFINITIONS t)"

definition CONTENT_TYPE_ALIASES :: "(string \<times> content_type) list" where
  "CONTENT_TYPE_ALIASES =
     [(''album'', ALBUM), (''albums'', ALBUM), (''book'', BOOK), (''books'', BOOK), (''game'', GAME),
      (''games'', GAME), (''movie'', MOVIE), (''movies'', MOVIE), (''music'', ALBUM),
      (''person'', PERSON), (''people'', PERSON), (''season'', SEASON), (''seasons'', SEASON),
      (''tv'', TV_SHOW), (''tv-show'', TV_SHOW), (''tv-shows'', TV_SHOW), (''tv_show'', TV_SHOW)]"

definition normalizeContentType :: "string \<Rightarrow> content_type option" where
  "normalizeContentType type = map_of CONTENT_TYPE_ALIASES (js_lower type)"

definition getContentTypeDefinition :: "string \<Rightarrow> content_type_definition option" where
  "getContentTypeDefinition type = map_option CONTENT_TYPE_DEFINITIONS (normalizeContentType type)"

definition getContentTypeIcon :: "string \<Rightarrow> string" where
  "getContentTypeIcon type = nullish (map_option ctd_icon (getContentTypeDefinition type)) ''CircleHelp''"

definition getContentTypeLabel :: "string \<Rightarrow> string" where
  "getContentTypeLabel type = nullish (map_option ctd_label (getContentTypeDefinition type)) type"

definition getContentTypePluralLabel :: "string \<Rightarrow> string" where
  "getContentTypePluralLabel type = nullish (map_option ctd_pluralLabel (getContentTypeDefinition type)) type"

definition getSourceApi :: "string \<Rightarrow> source_api" where
  "getSourceApi type = nullish (map_option ctd_sourceApi (getContentTypeDefinition type)) TMDB"

definition isValidContentType :: "string \<Rightarrow> bool" where
  "isValidContentType type \<longleftrightarrow> normalizeContentType type \<noteq> None"

subsection \<open>Moderation\<close>

definition parseModerationSummary :: "json \<Rightarrow> moderation_summary option" where
  "parseModerationSummary v =
     (case v of
        JObj _ \<Rightarrow>
          (let status = json_str (json_field ''status'' v);
               classification = json_field ''classification'' v;
               incomplete = (\<lambda>s. if classification = Some JNull then Some (Incomplete s) else None) in
           if status = Some ''complete'' then
             (if classification = Some (JStr ''safe'') then Some (Complete Safe)
              else if classification = Some (JStr ''explicit'') then Some (Complete Explicit)
              else if classification = Some (JStr ''needs_review'') then Some (Complete NeedsReview)
              else None)
           else if status = Some ''missing'' then incomplete Missing
           else if status = Some ''pending'' then incomplete Pending
           else if status = Some ''stale'' then incomplete Stale
           else if status = Some ''error'' then incomplete ErrorStatus
           else None)
      | _ \<Rightarrow> None)"

definition visibleModerationSummary :: "moderation_summary option \<Rightarrow> bool \<Rightarrow> moderation_summary option" where
  "visibleModerationSummary summary visibilityEnabled = (if visibilityEnabled then summary else None)"

definition shouldBlurModerationArtwork :: "moderation_summary option \<Rightarrow> bool \<Rightarrow> bool" where
  "shouldBlurModerationArtwork summary allowAdultContent \<longleftrightarrow>
     \<not> allowAdultContent \<and> summary = Some (Complete Explicit)"

lemma normalize_enum [simp]: "normalizeContentType (content_type_str t) = Some t"
  by (cases t; simp only:; code_simp)

lemma getSourceApi_enum: "getSourceApi (content_type_str t) = ctd_sourceApi (CONTENT_TYPE_DEFINITIONS t)"
  by (simp add: getSourceApi_def getContentTypeDefinition_def nullish_def)

end
