(* ===== verification/Catalog.thy ===== *)
theory Catalog
  imports ContentTypes ServerConfig
begin

text \<open>
  The stable identities of catalogue items: collecting the items of a response, applying the ids
  and moderation summaries that the core service resolved (\<open>lib/api/contentResolution.ts\<close>), the
  call that resolves them (\<open>server/catalog.ts\<close>) and the route that answers with the catalogue of the
  proxy (\<open>routes/api/proxy/$.ts\<close>).
\<close>

subsection \<open>Responses and identities\<close>

text \<open>
  A home page or a search has named categories, in the order of the object's keys; a browse
  response has a type and one list.
\<close>

datatype 'a catalog_response =
    Categories "(string \<times> 'a proxy_category_response) list"
  | Browse "'a browse_response"

record resolved_identity =
  rci_id :: int
  rci_source_api :: string
  rci_external_id :: string
  rci_content_type :: content_type
  rci_moderation :: "moderation_summary option"

record content_identity =
  cid_source_api :: source_api
  cid_external_id :: string
  cid_content_type :: content_type

definition identityKey :: "string \<Rightarrow> string \<Rightarrow> string" where
  "identityKey externalId contentType = contentType @ '':'' @ externalId"

definition isBrowseResponse :: "'a catalog_response \<Rightarrow> bool" where
  "isBrowseResponse response \<longleftrightarrow> (case response of Browse _ \<Rightarrow> True | Categories _ \<Rightarrow> False)"

fun response_items :: "'a catalog_response \<Rightarrow> 'a list" where
  "response_items (Browse b) = br_results b"
| "response_items (Categories cs) = concat (map (pcr_results \<circ> snd) cs)"

definition collectItems :: "'a search_item_scheme catalog_response \<Rightarrow> 'a search_item_scheme list" where
  "collectItems response =
     map snd (map_from (map (\<lambda>item. (identityKey (si_id item) (si_type item), item)) (response_items response)))"

fun mapResponseItems :: "'a catalog_response \<Rightarrow> ('a \<Rightarrow> 'a) \<Rightarrow> 'a catalog_response" where
  "mapResponseItems (Browse b) mapItem = Browse (b\<lparr>br_results := map mapItem (br_results b)\<rparr>)"
| "mapResponseItems (Categories cs) mapItem =
     Categories (map (\<lambda>(key, category).
       (key, category\<lparr>pcr_results := map mapItem (pcr_results category)\<rparr>)) cs)"

definition collectContentIdentities :: "'a search_item_scheme catalog_response \<Rightarrow> content_identity list" where
  "collectContentIdentities response =
     map (\<lambda>(item, contentType).
        \<lparr>cid_source_api = getSourceApi (content_type_str contentType), cid_external_id = si_id item,
         cid_content_type = contentType\<rparr>)
       (List.map_filter (\<lambda>item.
          case normalizeContentType (si_type item) of
            None \<Rightarrow> None
          | Some contentType \<Rightarrow> if contentType = PERSON then None else Some (item, contentType))
         (collectItems response))"

subsection \<open>Ids and moderation\<close>

definition resolved_key :: "resolved_identity \<Rightarrow> string" where
  "resolved_key r = identityKey (rci_external_id r) (content_type_str (rci_content_type r))"

text \<open>The key under which an item is looked up, if its type is one that is resolved.\<close>

definition lookup_key :: "'a search_item_scheme \<Rightarrow> string option" where
  "lookup_key item =
     (case normalizeContentType (si_type item) of
        None \<Rightarrow> None
      | Some contentType \<Rightarrow>
          if contentType = PERSON then None
          else Some (identityKey (si_id item) (content_type_str contentType)))"

definition applyResolvedContentIds ::
  "'a search_item_scheme catalog_response \<Rightarrow> resolved_identity list \<Rightarrow> 'a search_item_scheme catalog_response" where
  "applyResolvedContentIds response resolved =
     (let ids = map_from (map (\<lambda>r. (resolved_key r, rci_id r)) resolved) in
      mapResponseItems response (\<lambda>item.
        item\<lparr>si_denn_id := Option.bind (lookup_key item) (map_of ids)\<rparr>))"

definition attachModerationSummaries ::
  "'a search_item_scheme catalog_response \<Rightarrow> resolved_identity list \<Rightarrow> 'a search_item_scheme catalog_response" where
  "attachModerationSummaries response resolved =
     (let summaries = map_from (map (\<lambda>r. (resolved_key r, rci_moderation r)) resolved) in
      mapResponseItems response (\<lambda>item.
        item\<lparr>si_moderation := Option.bind (Option.bind (lookup_key item) (map_of summaries)) (\<lambda>m. m)\<rparr>))"

definition isCurrentSafeModeration :: "moderation_summary option \<Rightarrow> bool" where
  "isCurrentSafeModeration moderation \<longleftrightarrow> moderation = Some (Complete Safe)"

definition keepOnlyCurrentSafeResults ::
  "'a search_item_scheme proxy_category_response \<Rightarrow> 'a search_item_scheme proxy_category_response" where
  "keepOnlyCurrentSafeResults category =
     category\<lparr>pcr_results := filter (\<lambda>item. isCurrentSafeModeration (si_moderation item)) (pcr_results category)\<rparr>"

definition homepage_keys :: "string list" where
  "homepage_keys = [''movies'', ''tv-shows'', ''games'', ''albums'', ''books'']"

text \<open>The result has the five keys of a home page; a category that is missing is a \<open>TypeError\<close>.\<close>

definition keepOnlyCurrentSafeHomepageItems ::
  "'a search_item_scheme catalog_response \<Rightarrow> resolved_identity list
    \<Rightarrow> js_error + 'a search_item_scheme catalog_response" where
  "keepOnlyCurrentSafeHomepageItems response resolved =
     (case attachModerationSummaries response resolved of
        Browse _ \<Rightarrow> Inl (JsError ''TypeError'')
      | Categories cs \<Rightarrow>
          if list_all (\<lambda>k. map_of cs k \<noteq> None) homepage_keys
          then Inr (Categories (map (\<lambda>k. (k, keepOnlyCurrentSafeResults (the (map_of cs k)))) homepage_keys))
          else Inl (JsError ''TypeError''))"

subsection \<open>Resolution\<close>

datatype moderation_mode = KeepOnlyCurrentSafe | Annotate

definition identity_json :: "content_identity \<Rightarrow> json" where
  "identity_json c = JObj [(''source_api'', JStr (source_api_str (cid_source_api c))),
     (''external_id'', JStr (cid_external_id c)), (''content_type'', JStr (content_type_str (cid_content_type c)))]"

text \<open>\<open>form_text\<close> is the text of \<open>URLSearchParams\<close> with one parameter.\<close>

definition resolve_call ::
  "(string \<times> string \<Rightarrow> string) \<Rightarrow> string \<Rightarrow> string option \<Rightarrow> string \<Rightarrow> string \<Rightarrow> content_identity list \<Rightarrow> call" where
  "resolve_call form_text apiUrl country apiKey requestId items =
     \<lparr>cl_method = ''POST'',
      cl_url = apiUrl @ ''/content/resolve-ids/'' @
        (if truthy_str country then ''?'' @ form_text (''country'', the country) else []),
      cl_headers = [(''Content-Type'', ''application/json''), (''X-Api-Key'', apiKey),
        (''X-Api-Consumer'', ''web''), (''X-Request-Id'', requestId)],
      cl_body = BodyJson (JObj [(''items'', JArr (map identity_json items))]), cl_timeout = Some 5000\<rparr>"

text \<open>A browse response keeps only the items that have an id.\<close>

definition drop_unresolved :: "'a search_item_scheme catalog_response \<Rightarrow> 'a search_item_scheme catalog_response" where
  "drop_unresolved catalog =
     (case catalog of
        Browse b \<Rightarrow> Browse (b\<lparr>br_results := filter (\<lambda>item. truthy_int (si_denn_id item)) (br_results b)\<rparr>)
      | Categories cs \<Rightarrow> Categories cs)"

definition resolved_catalog ::
  "'a search_item_scheme catalog_response \<Rightarrow> resolved_identity list \<Rightarrow> moderation_mode option
    \<Rightarrow> js_error + 'a search_item_scheme catalog_response" where
  "resolved_catalog response results moderation =
     (let resolvedResponse = applyResolvedContentIds response results in
      if moderation = Some KeepOnlyCurrentSafe \<and> \<not> isBrowseResponse resolvedResponse
      then keepOnlyCurrentSafeHomepageItems resolvedResponse results
      else Inr (drop_unresolved
        (if moderation = Some Annotate then attachModerationSummaries resolvedResponse results
         else resolvedResponse)))"

text \<open>\<open>read_results\<close> reads the \<open>results\<close> of the answer at their declared type.\<close>

definition resolveCatalogContentIds ::
  "(string \<times> string \<Rightarrow> string) \<Rightarrow> (json \<Rightarrow> resolved_identity list option) \<Rightarrow>
    'a search_item_scheme catalog_response \<Rightarrow> string option \<Rightarrow> string \<Rightarrow> moderation_mode option \<Rightarrow>
    'a search_item_scheme catalog_response op" where
  "resolveCatalogContentIds form_text read_results response country requestId moderation =
     (let items = collectContentIdentities response in
      if items = [] then return_op response
      else
        and_then (vars_op getApiUrl) (\<lambda>apiUrl.
        and_then getProxyApiKey (\<lambda>apiKey.
        and_then (fetch_op (resolve_call form_text apiUrl country apiKey requestId items)) (\<lambda>upstream.
          if \<not> status_ok (us_status upstream)
          then throw_op (JsError (''Catalog identity resolution failed ('' @ show_int (us_status upstream) @ '')''))
          else
            and_then (json_of upstream) (\<lambda>resolved.
              case read_results resolved of
                None \<Rightarrow> throw_op (JsError ''TypeError'')
              | Some results \<Rightarrow> lift_op (resolved_catalog response results moderation))))))"

definition resolveDiscoveryContentIds ::
  "(string \<times> string \<Rightarrow> string) \<Rightarrow> (json \<Rightarrow> resolved_identity list option) \<Rightarrow>
    'a search_item_scheme catalog_response \<Rightarrow> string option \<Rightarrow> string \<Rightarrow>
    'a search_item_scheme catalog_response op" where
  "resolveDiscoveryContentIds form_text read_results response country requestId =
     and_then (vars_op isWebModerationVisibilityEnabled) (\<lambda>enabled.
       resolveCatalogContentIds form_text read_results response country requestId
         (if enabled then Some Annotate else None))"

definition resolveHomepageContentIds ::
  "(string \<times> string \<Rightarrow> string) \<Rightarrow> (json \<Rightarrow> resolved_identity list option) \<Rightarrow>
    'a search_item_scheme catalog_response \<Rightarrow> string option \<Rightarrow> string \<Rightarrow>
    'a search_item_scheme catalog_response op" where
  "resolveHomepageContentIds form_text read_results response country requestId =
     and_then (vars_op isWebModerationVisibilityEnabled) (\<lambda>enabled.
       resolveCatalogContentIds form_text read_results response country requestId
         (if enabled then Some KeepOnlyCurrentSafe else None))"

subsection \<open>The proxy route\<close>

definition normalizeCacheStatus :: "string option \<Rightarrow> string option" where
  "normalizeCacheStatus v =
     (case v of
        None \<Rightarrow> None
      | Some s \<Rightarrow>
          let normalized = js_upper (js_trim s) in
          if normalized \<in> set [''HIT'', ''MISS'', ''STALE'', ''BYPASS''] then Some normalized else None)"

definition isBrowsePath :: "string \<Rightarrow> bool" where
  "isBrowsePath path \<longleftrightarrow> path = ''browse''"

definition isCatalogDiscoveryPath :: "string \<Rightarrow> bool" where
  "isCatalogDiscoveryPath path \<longleftrightarrow> path = ''homepage'' \<or> path = ''search'' \<or> isBrowsePath path"

text \<open>
  The body of the answer: what the proxy sent, the resolved catalogue, or an error with its
  message and request id.
\<close>

datatype 'a proxy_body =
    Passed json | Resolved "'a catalog_response" | ProxyError string string "string option"

definition proxy_jsonResponse ::
  "'a proxy_body \<Rightarrow> int \<Rightarrow> (string \<times> string) list \<Rightarrow> 'a proxy_body http_response" where
  "proxy_jsonResponse data status headers =
     \<lparr>rs_status = status, rs_headers = (''content-type'', ''application/json'') # headers, rs_body = data\<rparr>"

text \<open>
  \<open>as_catalog\<close> reads the answer of the proxy at its declared type; where it has another shape, the
  resolution throws.
\<close>

definition resolve_data ::
  "(string \<times> string \<Rightarrow> string) \<Rightarrow> (json \<Rightarrow> resolved_identity list option) \<Rightarrow>
    (json \<Rightarrow> 'a search_item_scheme catalog_response option) \<Rightarrow>
    string \<Rightarrow> json \<Rightarrow> string option \<Rightarrow> string \<Rightarrow> 'a search_item_scheme proxy_body op" where
  "resolve_data form_text read_results as_catalog splat proxyData country requestId =
     (case as_catalog proxyData of
        None \<Rightarrow> throw_op (JsError ''TypeError'')
      | Some response \<Rightarrow>
          and_then
            (if splat = ''homepage''
             then resolveHomepageContentIds form_text read_results response country requestId
             else resolveDiscoveryContentIds form_text read_results response country requestId)
            (\<lambda>r. return_op (Resolved r)))"

text \<open>The answer from the proxy, inside the \<open>try\<close>; \<open>duration\<close> is the measured time as text.\<close>

definition proxy_answer ::
  "(string \<times> string \<Rightarrow> string) \<Rightarrow> (json \<Rightarrow> resolved_identity list option) \<Rightarrow>
    (json \<Rightarrow> 'a search_item_scheme catalog_response option) \<Rightarrow> string \<Rightarrow>
    string \<Rightarrow> call \<Rightarrow> string option \<Rightarrow> string \<Rightarrow> 'a search_item_scheme proxy_body http_response op" where
  "proxy_answer form_text read_results as_catalog duration splat c country requestId =
     and_then (fetch_op c) (\<lambda>response.
     and_then (json_of response) (\<lambda>proxyData.
       let cacheStatus = normalizeCacheStatus (map_of (us_headers response) ''x-cache'');
           success = (\<lambda>data. proxy_jsonResponse data (us_status response)
             ([(''X-Request-Id'', requestId)] @
              (case cacheStatus of Some s \<Rightarrow> [(''X-Cache'', s)] | None \<Rightarrow> []) @
              [(''Server-Timing'', ''proxy;dur='' @ duration @
                (case cacheStatus of Some s \<Rightarrow> '';desc='' @ [CHR 0x22] @ s @ [CHR 0x22] | None \<Rightarrow> []))])) in
       if status_ok (us_status response) \<and> isCatalogDiscoveryPath splat then
         catch_op
           (and_then (resolve_data form_text read_results as_catalog splat proxyData country requestId)
             (\<lambda>data. return_op (success data)))
           (\<lambda>e. return_op (proxy_jsonResponse
             (ProxyError ''CATALOG_ID_RESOLUTION_FAILED''
               ''The catalog could not prepare stable content links.'' (Some requestId)) 502
             [(''X-Request-Id'', requestId)]))
       else return_op (success (Passed proxyData))))"

definition proxy_GET ::
  "(string \<times> string \<Rightarrow> string) \<Rightarrow> (json \<Rightarrow> resolved_identity list option) \<Rightarrow>
    (json \<Rightarrow> 'a search_item_scheme catalog_response option) \<Rightarrow> string \<Rightarrow>
    string option \<Rightarrow> 'a search_item_scheme proxy_body http_response op" where
  "proxy_GET form_text read_results as_catalog duration splat0 =
     (let splat = nullish splat0 [] in
      and_then (env_op (\<lambda>env. env)) (\<lambda>env.
      and_then (request_op (\<lambda>rq. rq)) (\<lambda>rq.
        case buildProxyUrl (se_urls env) (getProxyBaseUrl (se_vars env)) splat (rq_search rq) of
          Inl _ \<Rightarrow> return_op (proxy_jsonResponse (ProxyError ''INVALID_PROXY_PATH'' ''Invalid proxy path'' None) 400 [])
        | Inr url \<Rightarrow>
            let country = header rq ''x-user-country'' in
            and_then (case normalizeRequestId (header rq ''x-request-id'') of
                        Some i \<Rightarrow> return_op i | None \<Rightarrow> generateRequestId) (\<lambda>requestId.
            and_then (buildProxyHeaders country (Some requestId) None) (\<lambda>headers.
              catch_op
                (proxy_answer form_text read_results as_catalog duration splat
                  \<lparr>cl_method = ''GET'', cl_url = url, cl_headers = headers, cl_body = NoBody, cl_timeout = None\<rparr>
                  country requestId)
                (\<lambda>e. return_op (proxy_jsonResponse
                  (ProxyError ''BFF_PROXY_UNREACHABLE'' ''Failed to reach proxy server'' (Some requestId)) 502
                  [(''X-Request-Id'', requestId),
                   (''Server-Timing'', ''proxy;dur='' @ duration @ '';desc='' @ [CHR 0x22] @ ''unreachable'' @ [CHR 0x22])])))))))"

subsection \<open>Identities as a search\<close>

text \<open>The last resolved identity of the same type and external id; nobody is a catalogue item.\<close>

definition identifies :: "resolved_identity \<Rightarrow> 'a search_item_scheme \<Rightarrow> bool" where
  "identifies r item \<longleftrightarrow>
     rci_external_id r = si_id item \<and> normalizeContentType (si_type item) = Some (rci_content_type r) \<and>
     rci_content_type r \<noteq> PERSON"

definition latest_identity :: "resolved_identity list \<Rightarrow> 'a search_item_scheme \<Rightarrow> resolved_identity option" where
  "latest_identity results item = find (\<lambda>r. identifies r item) (rev results)"

lemma identityKey_inject:
  "identityKey a (content_type_str t) = identityKey b (content_type_str u) \<longleftrightarrow> a = b \<and> t = u"
proof
  assume "identityKey a (content_type_str t) = identityKey b (content_type_str u)"
  then have e: "content_type_str t @ CHR '':'' # a = content_type_str u @ CHR '':'' # b" by (simp add: identityKey_def)
  have "takeWhile (\<lambda>c. c \<noteq> CHR '':'') (content_type_str v @ CHR '':'' # x) = content_type_str v" for v x
    using content_type_str_no_colon [of v] by (subst takeWhile_append2) auto
  with e have "content_type_str t = content_type_str u" by metis
  with e show "a = b \<and> t = u" by simp
qed simp

lemma lookup_key_iff: "lookup_key item = Some (resolved_key r) \<longleftrightarrow> identifies r item"
  by (auto simp: lookup_key_def resolved_key_def identifies_def identityKey_inject split: option.splits)

lemma lookup_latest:
  "Option.bind (lookup_key item) (map_of (map_from (map (\<lambda>r. (resolved_key r, f r)) results))) =
     map_option f (latest_identity results item)"
proof -
  have "Option.bind (lookup_key item) (map_of (map (\<lambda>r. (resolved_key r, f r)) rs)) =
      map_option f (find (\<lambda>r. identifies r item) rs)" for rs
  proof (cases "lookup_key item")
    case None
    then have "\<not> identifies r item" for r using lookup_key_iff [of item r] by simp
    with None show ?thesis by (induction rs) auto
  next
    case (Some k)
    then have "identifies r item \<longleftrightarrow> k = resolved_key r" for r using lookup_key_iff [of item r] by auto
    with Some show ?thesis by (induction rs) auto
  qed
  moreover have "map_of (map_from (map (\<lambda>r. (resolved_key r, f r)) results)) = map_of (map (\<lambda>r. (resolved_key r, f r)) (rev results))"
    by (rule ext) (simp add: map_of_map_from rev_map)
  ultimately show ?thesis by (simp add: latest_identity_def)
qed

lemma response_items_map: "response_items (mapResponseItems response f) = map f (response_items response)"
  by (cases response) (auto simp: map_concat comp_def case_prod_beta)

lemma is_browse_map [simp]: "isBrowseResponse (mapResponseItems response f) = isBrowseResponse response"
  by (cases response) (simp_all add: isBrowseResponse_def)

lemma moderated_items:
  "response_items (attachModerationSummaries response results) =
     map (\<lambda>item. item\<lparr>si_moderation := Option.bind (latest_identity results item) rci_moderation\<rparr>)
       (response_items response)"
proof -
  have "Option.bind (map_option rci_moderation x) (\<lambda>m. m) = Option.bind x rci_moderation" for x :: "resolved_identity option"
    by (cases x) simp_all
  then show ?thesis by (simp only: attachModerationSummaries_def Let_def response_items_map lookup_latest)
qed

subsection \<open>Properties\<close>

text \<open>Every item of a resolved catalogue carries the id of the last identity that the core service
  resolved for its type and external id, and none if there is none; a browse response keeps
  exactly the items that have an id, in their order.\<close>

theorem catalog_ids:
  "response_items (applyResolvedContentIds response results) =
     map (\<lambda>item. item\<lparr>si_denn_id := map_option rci_id (latest_identity results item)\<rparr>) (response_items response) \<and>
   resolved_catalog (Browse b) results None =
     Inr (Browse (b\<lparr>br_results := filter (\<lambda>item. truthy_int (si_denn_id item))
       (map (\<lambda>item. item\<lparr>si_denn_id := map_option rci_id (latest_identity results item)\<rparr>) (br_results b))\<rparr>))"
proof
  have ids: "response_items (applyResolvedContentIds r results) =
      map (\<lambda>item. item\<lparr>si_denn_id := map_option rci_id (latest_identity results item)\<rparr>) (response_items r)" for r
    by (simp add: applyResolvedContentIds_def Let_def response_items_map lookup_latest)
  then show "response_items (applyResolvedContentIds response results) =
      map (\<lambda>item. item\<lparr>si_denn_id := map_option rci_id (latest_identity results item)\<rparr>) (response_items response)" .
  show "resolved_catalog (Browse b) results None =
     Inr (Browse (b\<lparr>br_results := filter (\<lambda>item. truthy_int (si_denn_id item))
       (map (\<lambda>item. item\<lparr>si_denn_id := map_option rci_id (latest_identity results item)\<rparr>) (br_results b))\<rparr>))"
    by (simp add: resolved_catalog_def applyResolvedContentIds_def Let_def drop_unresolved_def lookup_latest)
qed

text \<open>With moderation in force, the home page shows only items whose last resolved identity was
  found safe by a completed moderation: items without an identity, without a moderation, with an
  incomplete one or with another classification are left out, and the five categories are there.\<close>

theorem homepage_safe:
  assumes "resolved_catalog (Categories cs) results (Some KeepOnlyCurrentSafe) = Inr r"
  shows "list_all (\<lambda>item. si_moderation item = Some (Complete Safe) \<and>
      (\<exists>x. latest_identity results item = Some x \<and> rci_moderation x = Some (Complete Safe)))
    (response_items r) \<and> (\<exists>ds. r = Categories ds \<and> map fst ds = homepage_keys)"
proof -
  obtain ds where ds: "attachModerationSummaries (applyResolvedContentIds (Categories cs) results) results = Categories ds"
    by (simp add: attachModerationSummaries_def applyResolvedContentIds_def Let_def)
  have r: "r = Categories (map (\<lambda>k. (k, keepOnlyCurrentSafeResults (the (map_of ds k)))) homepage_keys)"
    and keys: "\<forall>k \<in> set homepage_keys. map_of ds k \<noteq> None"
    using assms ds
    by (auto simp: resolved_catalog_def keepOnlyCurrentSafeHomepageItems_def Let_def list_all_iff
        applyResolvedContentIds_def isBrowseResponse_def split: if_splits)
  have latest: "latest_identity results (i\<lparr>si_moderation := m\<rparr>) = latest_identity results i" for i :: "'a search_item_scheme" and m
    by (simp add: latest_identity_def identifies_def)
  have moderated: "si_moderation item = Option.bind (latest_identity results item) rci_moderation"
    if "item \<in> set (response_items (Categories ds))" for item
    using that unfolding ds [symmetric] by (auto simp: moderated_items latest)
  have shown: "item \<in> set (response_items (Categories ds)) \<and> si_moderation item = Some (Complete Safe)"
    if "item \<in> set (response_items r)" for item
  proof -
    from that obtain k where k: "k \<in> set homepage_keys"
        "item \<in> set (pcr_results (keepOnlyCurrentSafeResults (the (map_of ds k))))"
      by (auto simp: r)
    obtain c where c: "map_of ds k = Some c" using keys k(1) by auto
    then have "(k, c) \<in> set ds" by (rule map_of_SomeD)
    with k(2) c show ?thesis
      by (auto simp: keepOnlyCurrentSafeResults_def isCurrentSafeModeration_def intro: bexI [of _ "(k, c)"])
  qed
  have "list_all (\<lambda>item. si_moderation item = Some (Complete Safe) \<and>
      (\<exists>x. latest_identity results item = Some x \<and> rci_moderation x = Some (Complete Safe))) (response_items r)"
    unfolding list_all_iff
  proof
    fix item
    assume "item \<in> set (response_items r)"
    then show "si_moderation item = Some (Complete Safe) \<and>
        (\<exists>x. latest_identity results item = Some x \<and> rci_moderation x = Some (Complete Safe))"
      using shown [of item] moderated [of item] by (cases "latest_identity results item") simp_all
  qed
  moreover have "\<exists>ds. r = Categories ds \<and> map fst ds = homepage_keys" by (simp add: r comp_def)
  ultimately show ?thesis by blast
qed

definition sample_entry :: search_item where
  "sample_entry = \<lparr>si_id = ''7'', si_denn_id = None, si_type = ''MOVIE'', si_title = ''M'', si_moderation = None\<rparr>"

definition sample_home :: "(string \<times> search_item proxy_category_response) list" where
  "sample_home = map (\<lambda>k. (k, \<lparr>pcr_results = (if k = ''movies'' then [sample_entry, sample_entry\<lparr>si_id := ''8''\<rparr>] else []),
     pcr_metadata = \<lparr>ppm_page = 1, ppm_total_results = 2, ppm_total_pages = 1\<rparr>, pcr_error = None\<rparr>)) homepage_keys"

definition sample_identity :: resolved_identity where
  "sample_identity = \<lparr>rci_id = 70, rci_source_api = ''tmdb'', rci_external_id = ''7'', rci_content_type = MOVIE,
     rci_moderation = Some (Complete Safe)\<rparr>"

theorem homepage_safe_witness:
  "\<exists>r. resolved_catalog (Categories sample_home) [sample_identity] (Some KeepOnlyCurrentSafe) = Inr r \<and>
     map si_denn_id (response_items r) = [Some 70]"
proof -
  have run: "resolved_catalog (Categories sample_home) [sample_identity] (Some KeepOnlyCurrentSafe) =
      Inr (Categories (map (\<lambda>k. (k, \<lparr>pcr_results = (if k = ''movies''
         then [sample_entry\<lparr>si_denn_id := Some 70, si_moderation := Some (Complete Safe)\<rparr>] else []),
       pcr_metadata = \<lparr>ppm_page = 1, ppm_total_results = 2, ppm_total_pages = 1\<rparr>, pcr_error = None\<rparr>)) homepage_keys))"
    by code_simp
  from homepage_safe [OF this] show ?thesis
    unfolding run by (simp add: homepage_keys_def)
qed

text \<open>A discovery path of the proxy route (home page, search, browse) answers with success only
  with a catalogue whose ids were resolved, never with the raw answer of the proxy; it makes at
  most two calls and sets no cookie.\<close>

theorem discovery_resolved:
  assumes "isCatalogDiscoveryPath splat"
    and "fst (proxy_GET form_text read_results as_catalog duration (Some splat) env rq s) = Inr reply"
    and "status_ok (rs_status reply)"
  shows "\<exists>r es. rs_body reply = Resolved r \<and>
    ss_log (snd (proxy_GET form_text read_results as_catalog duration (Some splat) env rq s)) = ss_log s @ es \<and>
    length (calls_of es) \<le> 2 \<and> cookies_of es = []"
proof -
  define P where "P e \<longleftrightarrow> (case e of Cookied _ \<Rightarrow> False | _ \<Rightarrow> True)" for e
  define Q where "Q r \<longleftrightarrow> (status_ok (rs_status r) \<longrightarrow> (\<exists>c. rs_body r = Resolved c))"
    for r :: "'a search_item_scheme proxy_body http_response"
  have no_cookies: "list_all P es \<Longrightarrow> cookies_of es = []" for es
    by (induction es) (auto simp: P_def split: effect.splits)
  have failure: "Q (proxy_jsonResponse b n hs)" if "n \<in> {400, 502}" for b n hs
    using that by (auto simp: Q_def proxy_jsonResponse_def status_ok_def)
  have resolved: "op_spec env rq P 1 (\<lambda>d. \<exists>c. d = Resolved c)
      (resolve_data form_text read_results as_catalog splat j country i)" for j country i
  proof (cases "as_catalog j")
    case (Some response)
    have core: "op_spec env rq P 1 (\<lambda>_. True) (resolveCatalogContentIds form_text read_results response country i m)" for m
      unfolding resolveCatalogContentIds_def Let_def
      apply (rule op_spec_if)
       apply (auto intro!: op_rules)[1]
      apply (rule op_spec_and_then [where R = "\<lambda>_. True" and a = 0 and b = 1])
        apply (auto intro!: op_rules)[1]
       apply (rule op_spec_and_then [where R = "\<lambda>_. True" and a = 0 and b = 1])
         apply (auto intro!: op_rules)[1]
        apply (rule op_spec_and_then [where R = "\<lambda>_. True" and a = 1 and b = 0])
          apply (simp add: op_spec_fetch P_def)
         apply (auto intro!: op_rules op_spec_and_then [where R = "\<lambda>_. True" and a = 0 and b = 0] split: option.split)
      done
    have "op_spec env rq P 1 (\<lambda>_. True)
        (if splat = ''homepage'' then resolveHomepageContentIds form_text read_results response country i
         else resolveDiscoveryContentIds form_text read_results response country i)"
      unfolding resolveHomepageContentIds_def resolveDiscoveryContentIds_def
      by (auto intro!: op_rules core [unfolded One_nat_def] op_spec_and_then [where R = "\<lambda>_. True" and a = 0 and b = 1])
    with Some show ?thesis
      by (auto simp: resolve_data_def intro!: op_rules op_spec_and_then [where R = "\<lambda>_. True" and a = 1 and b = 0])
  qed (simp add: resolve_data_def op_rules)
  have answer: "op_spec env rq P 2 Q (proxy_answer form_text read_results as_catalog duration splat c country i)"
    for c country i
    unfolding proxy_answer_def
    apply (rule op_spec_and_then [where R = "\<lambda>_. True" and a = 1 and b = 1])
      apply (simp add: op_spec_fetch P_def)
     apply (rule op_spec_and_then [where R = "\<lambda>_. True" and a = 0 and b = 1])
       apply (simp add: op_spec_json)
      apply (simp only: Let_def)
      apply (rule op_spec_if)
       apply (rule op_spec_catch [where a = 1 and b = 0])
         apply (rule op_spec_and_then [OF resolved, where b = 0])
          apply (auto intro!: op_rules failure simp: Q_def proxy_jsonResponse_def assms(1) status_ok_def [of 502])
    done
  have "op_spec env rq P 2 Q (proxy_GET form_text read_results as_catalog duration (Some splat))"
    unfolding proxy_GET_def Let_def nullish_def option.case
    apply (rule op_spec_and_then [where R = "\<lambda>_. True" and a = 0 and b = 2])
      apply (auto intro!: op_rules)[1]
     apply (rule op_spec_and_then [where R = "\<lambda>_. True" and a = 0 and b = 2])
       apply (auto intro!: op_rules)[1]
      apply (rule op_spec_sum)
       apply (auto intro!: op_rules failure)[1]
      apply (rule op_spec_and_then [where R = "\<lambda>_. True" and a = 0 and b = 2])
        apply (auto intro!: op_rules split: option.split)[1]
       apply (rule op_spec_and_then [where R = "\<lambda>_. True" and a = 0 and b = 2])
         apply (auto simp: buildProxyHeaders_def intro!: op_rules op_spec_and_then [where R = "\<lambda>_. True" and a = 0 and b = 0]
          split: option.split)[1]
        apply (rule op_spec_catch [OF answer, where b = 0])
         apply (auto intro!: op_rules failure)
    done
  then show ?thesis
    using assms(2,3) no_cookies unfolding op_spec_def Q_def by fastforce
qed

text \<open>A proxy whose home page is empty.\<close>

definition empty_home :: "search_item catalog_response" where
  "empty_home = Categories (map (\<lambda>k. (k, \<lparr>pcr_results = [],
     pcr_metadata = \<lparr>ppm_page = 1, ppm_total_results = 0, ppm_total_pages = 0\<rparr>, pcr_error = None\<rparr>)) homepage_keys)"

definition home_env :: server_env where
  "home_env =
     \<lparr>se_vars = [(''PROXY_API_KEY'', ''k'')], se_parse = (\<lambda>_. Some JNull), se_urls = sample_urls,
      se_net = (\<lambda>_ _. Inr \<lparr>us_status = 200, us_headers = [], us_setCookies = Some [], us_text = []\<rparr>),
      se_uuid = Some (\<lambda>_. ''id''), se_fallback_id = (\<lambda>_. ''id''), se_hmac = (\<lambda>_ _. [])\<rparr>"

definition home_request :: http_request where
  "home_request =
     \<lparr>rq_method = ''GET'', rq_origin = ''http://web'', rq_pathname = ''/api/proxy/homepage'', rq_search = [],
      rq_headers = [], rq_cookies = [], rq_body = None\<rparr>"

definition home_state :: server_state where
  "home_state = \<lparr>ss_log = [], ss_drawn = 0, ss_requestId = None, ss_refreshes = [], ss_warnedMissingKey = False\<rparr>"

theorem discovery_resolved_witness:
  "\<exists>reply r. fst (proxy_GET (\<lambda>_. []) (\<lambda>_. None) (\<lambda>_. Some empty_home) ''1'' (Some ''homepage'')
      home_env home_request home_state) = Inr reply \<and> rs_body reply = Resolved r"
proof -
  have "decode_fixpoint ''homepage'' = Some ''homepage''"
    by (subst decode_fixpoint.simps) (simp add: decodeURIComponent.simps)
  then have url: "buildProxyUrl sample_urls b ''homepage'' [] = Inr ''http://core/api/homepage''" for b
    by (simp add: buildProxyUrl_def isSafeProxyPath_def sample_urls_def with_slash_def suffix_def Let_def)
  obtain reply where reply: "fst (proxy_GET (\<lambda>_. []) (\<lambda>_. None) (\<lambda>_. Some empty_home) ''1'' (Some ''homepage'')
      home_env home_request home_state) = Inr reply" "status_ok (rs_status reply)"
    by (simp add: proxy_GET_def proxy_answer_def resolve_data_def resolveHomepageContentIds_def
        resolveCatalogContentIds_def buildProxyHeaders_def getProxyApiKey_def generateRequestId_def
        collectContentIdentities_def collectItems_def empty_home_def homepage_keys_def map_from_def map_filter_simps
        json_of_def op_defs Let_def home_env_def home_request_def home_state_def header_def url
        normalizeRequestId_def REQUEST_ID_PATTERN_def status_ok_def proxy_jsonResponse_def
        isCatalogDiscoveryPath_def normalizeCacheStatus_def js_trim_def)
  have "isCatalogDiscoveryPath ''homepage''" by (simp add: isCatalogDiscoveryPath_def)
  from discovery_resolved [OF this reply] reply(1) show ?thesis by blast
qed

end
