(* ===== verification/ApiClient.thy ===== *)
theory ApiClient
  imports AuthRoutes
begin

text \<open>
  The browser side of the session and of the API: the auth store (\<open>stores/auth-store.ts\<close>), the
  settings store (\<open>stores/settings-store.ts\<close>), the auth client with its CSRF token
  (\<open>lib/auth/client.ts\<close>) and the API client (\<open>lib/api/api.ts\<close>).  What the stores persist in
  \<open>localStorage\<close> is a value of its own.
\<close>

subsection \<open>The auth store\<close>

datatype client_resolution =
    ResPending | ResAnonymous | ResAuthenticated | ResExpired | ResUnavailable | ResTimeout

text \<open>
  The user is the value the server sent; \<open>None\<close> is \<open>undefined\<close>, which a cast of an answer without
  the field can put here.
\<close>

record auth_state =
  au_user :: "json option"
  au_isAuthenticated :: bool
  au_isLoading :: bool
  au_error :: "string option"
  au_resolution :: client_resolution

definition auth_initialState :: auth_state where
  "auth_initialState = \<lparr>au_user = Some JNull, au_isAuthenticated = False, au_isLoading = False,
     au_error = None, au_resolution = ResPending\<rparr>"

text \<open>The state in which the store is created.\<close>

definition auth_created :: auth_state where
  "auth_created = auth_initialState\<lparr>au_isLoading := True\<rparr>"

definition setAuthenticatedUser :: "json option \<Rightarrow> auth_state \<Rightarrow> auth_state" where
  "setAuthenticatedUser user st = st\<lparr>au_user := user, au_isAuthenticated := True, au_isLoading := False,
     au_error := None, au_resolution := ResAuthenticated\<rparr>"

definition setAnonymous :: "auth_state \<Rightarrow> auth_state" where
  "setAnonymous st = auth_initialState\<lparr>au_isLoading := False, au_resolution := ResAnonymous\<rparr>"

text \<open>Every value thrown in the model is an \<open>Error\<close>, so the fallback text is never needed.\<close>

definition setAuthError :: "string \<Rightarrow> auth_state \<Rightarrow> auth_state" where
  "setAuthError message st = st\<lparr>au_error := Some message, au_isLoading := False\<rparr>"

definition setUser :: "json option \<Rightarrow> auth_state \<Rightarrow> auth_state" where
  "setUser user st = st\<lparr>au_user := user, au_isAuthenticated := field_truthy user\<rparr>"

definition setSession :: "json option \<Rightarrow> auth_state \<Rightarrow> auth_state" where
  "setSession user st = st\<lparr>au_user := user, au_isAuthenticated := field_truthy user, au_isLoading := False,
     au_error := None, au_resolution := (if field_truthy user then ResAuthenticated else ResAnonymous)\<rparr>"

definition clearSession :: "auth_state \<Rightarrow> auth_state" where
  "clearSession = setAnonymous"

definition clearError :: "auth_state \<Rightarrow> auth_state" where
  "clearError st = st\<lparr>au_error := None\<rparr>"

definition setSessionResolution :: "client_resolution \<Rightarrow> auth_state \<Rightarrow> auth_state" where
  "setSessionResolution r st = st\<lparr>au_resolution := r, au_isLoading := False\<rparr>"

text \<open>
  What is persisted, and what reading it back does: the stored fields are merged into the state,
  and a timer of 0 ms ends the loading.
\<close>

definition partialize :: "auth_state \<Rightarrow> json option \<times> bool" where
  "partialize st = (au_user st, au_isAuthenticated st)"

definition rehydrate :: "(json option \<times> bool) option \<Rightarrow> auth_state \<Rightarrow> auth_state" where
  "rehydrate stored st =
     (case stored of None \<Rightarrow> st
      | Some (user, isAuthenticated) \<Rightarrow> st\<lparr>au_user := user, au_isAuthenticated := isAuthenticated\<rparr>)"

definition end_hydration :: "auth_state \<Rightarrow> auth_state" where
  "end_hydration st = st\<lparr>au_isLoading := False,
     au_resolution := (if au_resolution st = ResPending then ResAnonymous else au_resolution st)\<rparr>"

subsection \<open>The settings store\<close>

record settings_state =
  set_animationsEnabled :: bool
  set_countryCode :: "string option"

definition settings_initialState :: settings_state where
  "settings_initialState = \<lparr>set_animationsEnabled = True, set_countryCode = None\<rparr>"

definition toggleAnimations :: "settings_state \<Rightarrow> settings_state" where
  "toggleAnimations st = st\<lparr>set_animationsEnabled := \<not> set_animationsEnabled st\<rparr>"

definition setAnimationsEnabled :: "bool \<Rightarrow> settings_state \<Rightarrow> settings_state" where
  "setAnimationsEnabled enabled st = st\<lparr>set_animationsEnabled := enabled\<rparr>"

definition setCountryCode :: "string \<Rightarrow> settings_state \<Rightarrow> settings_state" where
  "setCountryCode code st = st\<lparr>set_countryCode := Some (js_upper code)\<rparr>"

subsection \<open>Operations of the client\<close>

text \<open>
  What a client operation can throw, and where it runs: the web server behind \<open>fetch\<close> (its answer
  may depend on the requests before), \<open>JSON.parse\<close> and \<open>JSON.stringify\<close>.
\<close>

datatype client_error = Failure js_error | ApiRequestError int json string

fun client_message :: "client_error \<Rightarrow> string" where
  "client_message (Failure e) = error_message e"
| "client_message (ApiRequestError _ _ m) = m"

record client_env =
  ce_net :: "call list \<Rightarrow> call \<Rightarrow> js_error + upstream"
  ce_parse :: "string \<Rightarrow> json option"
  ce_stringify :: "json \<Rightarrow> string"

record client_state =
  cs_auth :: auth_state
  cs_csrfToken :: "string option"
  cs_calls :: "call list"

text \<open>
  Operations on a state \<open>'s\<close>, which for the API client is its own and for a component that uses it
  a larger one.
\<close>

type_synonym ('s, 'a) op_on = "client_env \<Rightarrow> 's \<Rightarrow> (client_error + 'a) \<times> 's"
type_synonym 'a client_op = "(client_state, 'a) op_on"

definition return_c :: "'a \<Rightarrow> ('s, 'a) op_on" where
  "return_c x env s = (Inr x, s)"

definition throw_c :: "client_error \<Rightarrow> ('s, 'a) op_on" where
  "throw_c e env s = (Inl e, s)"

definition then_c :: "('s, 'a) op_on \<Rightarrow> ('a \<Rightarrow> ('s, 'b) op_on) \<Rightarrow> ('s, 'b) op_on" where
  "then_c m k env s = (case m env s of (Inl e, s') \<Rightarrow> (Inl e, s') | (Inr x, s') \<Rightarrow> k x env s')"

definition catch_c :: "('s, 'a) op_on \<Rightarrow> (client_error \<Rightarrow> ('s, 'a) op_on) \<Rightarrow> ('s, 'a) op_on" where
  "catch_c m h env s = (case m env s of (Inl e, s') \<Rightarrow> h e env s' | (Inr x, s') \<Rightarrow> (Inr x, s'))"

text \<open>\<open>try { m } finally { f }\<close>, where \<open>f\<close> only sets state.\<close>

definition finally_c :: "('s, 'a) op_on \<Rightarrow> ('s \<Rightarrow> 's) \<Rightarrow> ('s, 'a) op_on" where
  "finally_c m f env s = (case m env s of (r, s') \<Rightarrow> (r, f s'))"

definition update_c :: "('s \<Rightarrow> 's) \<Rightarrow> ('s, unit) op_on" where
  "update_c f env s = (Inr (), f s)"

definition fetch_c :: "call \<Rightarrow> upstream client_op" where
  "fetch_c c env s =
     (case ce_net env (cs_calls s) c of
        Inl e \<Rightarrow> (Inl (Failure e), s\<lparr>cs_calls := cs_calls s @ [c]\<rparr>)
      | Inr u \<Rightarrow> (Inr u, s\<lparr>cs_calls := cs_calls s @ [c]\<rparr>))"

definition set_auth :: "(auth_state \<Rightarrow> auth_state) \<Rightarrow> unit client_op" where
  "set_auth f env s = (Inr (), s\<lparr>cs_auth := f (cs_auth s)\<rparr>)"

lemmas client_defs = return_c_def throw_c_def then_c_def catch_c_def finally_c_def update_c_def
  fetch_c_def set_auth_def

subsection \<open>The auth client\<close>

definition AUTH_CLIENT_TIMEOUT_MS :: int where "AUTH_CLIENT_TIMEOUT_MS = 15000"

definition AUTH_TIMEOUT_MESSAGE :: string where
  "AUTH_TIMEOUT_MESSAGE = ''Authentication is taking longer than expected. Please try again.''"

text \<open>
  \<open>response.json().catch(() => ({}))\<close>, then the payload, or an error with the server's text.  A
  payload \<open>null\<close> has no fields to read.
\<close>

definition payload_or_empty :: "client_env \<Rightarrow> upstream \<Rightarrow> json" where
  "payload_or_empty env response = nullish (ce_parse env (us_text response)) (JObj [])"

definition parseAuthResponse :: "upstream \<Rightarrow> json client_op" where
  "parseAuthResponse response env s =
     (let payload = payload_or_empty env response in
      if status_ok (us_status response) then (Inr payload, s)
      else if payload = JNull then (Inl (Failure (JsError ''TypeError'')), s)
      else (Inl (Failure (JsError
        (case json_str (json_field ''detail'' payload) of
           Some d \<Rightarrow> d
         | None \<Rightarrow> nullish (json_str (json_field ''message'' payload)) ''Authentication request failed.''))), s))"

definition csrf_call :: call where
  "csrf_call = \<lparr>cl_method = ''GET'', cl_url = ''/api/auth/csrf'', cl_headers = [], cl_body = NoBody, cl_timeout = None\<rparr>"

text \<open>
  The token is kept for the lifetime of the page.  A payload without the field gives \<open>undefined\<close>,
  which is not kept and becomes the text of the header; a payload \<open>null\<close> has no field to read.
\<close>

definition keep_token :: "json \<Rightarrow> string client_op" where
  "keep_token payload env s =
     (if payload = JNull then (Inl (Failure (JsError ''TypeError'')), s)
      else case json_str (json_field ''csrfToken'' payload) of
        Some token \<Rightarrow> (Inr token, s\<lparr>cs_csrfToken := Some token\<rparr>)
      | None \<Rightarrow> (Inr ''undefined'', s\<lparr>cs_csrfToken := None\<rparr>))"

definition ensureCsrfToken :: "string client_op" where
  "ensureCsrfToken env s =
     (if truthy_str (cs_csrfToken s) then (Inr (the (cs_csrfToken s)), s)
      else then_c (fetch_c csrf_call) (\<lambda>response. then_c (parseAuthResponse response) keep_token) env s)"

fun isTimeoutError :: "client_error \<Rightarrow> bool" where
  "isTimeoutError (Failure (DomException name message)) = (name = ''TimeoutError'' \<or> message = ''signal timed out'')"
| "isTimeoutError (Failure (JsError message)) = (message = ''signal timed out'')"
| "isTimeoutError (ApiRequestError _ _ message) = (message = ''signal timed out'')"

definition auth_call :: "string \<Rightarrow> json option \<Rightarrow> string \<Rightarrow> call" where
  "auth_call path body token =
     \<lparr>cl_method = ''POST'', cl_url = path,
      cl_headers = [(''content-type'', ''application/json''), (CSRF_HEADER, token)],
      cl_body = (case body of None \<Rightarrow> NoBody | Some b \<Rightarrow> BodyJson b),
      cl_timeout = Some AUTH_CLIENT_TIMEOUT_MS\<rparr>"

text \<open>
  The answer is parsed after the \<open>try\<close> block has returned its promise, so the handler sees only
  what the token and the request throw.
\<close>

definition authMutation :: "string \<Rightarrow> json option \<Rightarrow> json client_op" where
  "authMutation path body =
     then_c
       (catch_c (then_c ensureCsrfToken (\<lambda>token. fetch_c (auth_call path body token)))
         (\<lambda>e. throw_c (if isTimeoutError e then Failure (JsError AUTH_TIMEOUT_MESSAGE) else e)))
       parseAuthResponse"

subsection \<open>Signing in and out\<close>

text \<open>\<open>const { user } = payload\<close>.\<close>

definition payload_user :: "json \<Rightarrow> json option client_op" where
  "payload_user payload =
     (if payload = JNull then throw_c (Failure (JsError ''TypeError'')) else return_c (json_field ''user'' payload))"

definition sign_in :: "string \<Rightarrow> json \<Rightarrow> unit client_op" where
  "sign_in path body =
     then_c (set_auth (\<lambda>st. st\<lparr>au_isLoading := True, au_error := None\<rparr>)) (\<lambda>_.
       catch_c
         (then_c (authMutation path (Some body)) (\<lambda>payload.
            then_c (payload_user payload) (\<lambda>user. set_auth (setAuthenticatedUser user))))
         (\<lambda>e. then_c (set_auth (setAuthError (client_message e))) (\<lambda>_. throw_c e)))"

definition store_login :: "string \<Rightarrow> string \<Rightarrow> unit client_op" where
  "store_login email password =
     sign_in ''/api/auth/login'' (JObj [(''email'', JStr email), (''password'', JStr password)])"

definition store_register :: "string \<Rightarrow> string \<Rightarrow> string \<Rightarrow> unit client_op" where
  "store_register username email password =
     sign_in ''/api/auth/register''
       (JObj [(''username'', JStr username), (''email'', JStr email), (''password'', JStr password),
              (''password_confirm'', JStr password)])"

definition store_logout :: "unit client_op" where
  "store_logout = then_c (authMutation ''/api/auth/logout'' None) (\<lambda>_. set_auth setAnonymous)"

definition store_logoutEverywhere :: "unit client_op" where
  "store_logoutEverywhere = then_c (authMutation ''/api/auth/logout-all'' None) (\<lambda>_. set_auth setAnonymous)"

subsection \<open>The API client\<close>

definition CONTENT_TYPE_JSON :: string where "CONTENT_TYPE_JSON = ''application/json''"

definition HTTP_STATUS_NO_CONTENT :: int where "HTTP_STATUS_NO_CONTENT = 204"

definition isMutation :: "string option \<Rightarrow> bool" where
  "isMutation verb \<longleftrightarrow>
     (case verb of None \<Rightarrow> ''GET'' | Some m \<Rightarrow> js_upper m) \<in> {''POST'', ''PUT'', ''PATCH'', ''DELETE''}"

text \<open>\<open>Object.keys(v).length > 0\<close> of a value that is not \<open>null\<close>.\<close>

fun has_keys :: "json \<Rightarrow> bool" where
  "has_keys (JObj fs) = (fs \<noteq> [])"
| "has_keys (JArr vs) = (vs \<noteq> [])"
| "has_keys (JStr s) = (s \<noteq> [])"
| "has_keys _ = False"

definition extractErrorMessage :: "(json \<Rightarrow> string) \<Rightarrow> json \<Rightarrow> string" where
  "extractErrorMessage stringify errorData =
     (case find (\<lambda>k. truthy_str (json_str (json_field k errorData))) [''message'', ''detail'', ''error''] of
        Some k \<Rightarrow> the (json_str (json_field k errorData))
      | None \<Rightarrow> if has_keys errorData then stringify errorData else [])"

definition request_call :: "string \<Rightarrow> string \<Rightarrow> json option \<Rightarrow> string option \<Rightarrow> call" where
  "request_call verb endpoint body token =
     \<lparr>cl_method = verb, cl_url = ''/api/core'' @ endpoint,
      cl_headers = (''content-type'', CONTENT_TYPE_JSON) # (case token of None \<Rightarrow> [] | Some t \<Rightarrow> [(CSRF_HEADER, t)]),
      cl_body = (case body of None \<Rightarrow> NoBody | Some b \<Rightarrow> BodyJson b), cl_timeout = None\<rparr>"

definition response_is_json :: "upstream \<Rightarrow> bool" where
  "response_is_json response \<longleftrightarrow>
     (case map_of (us_headers response) ''content-type'' of
        None \<Rightarrow> False | Some t \<Rightarrow> js_includes t CONTENT_TYPE_JSON)"

text \<open>
  An answer that is not a success.  The message of a payload \<open>null\<close> cannot be read, before the
  status is looked at.
\<close>

definition failed_request :: "upstream \<Rightarrow> json client_op" where
  "failed_request response env s =
     (let errorData = (if response_is_json response then payload_or_empty env response else JObj []) in
      if errorData = JNull then (Inl (Failure (JsError ''TypeError'')), s)
      else
        let message = extractErrorMessage (ce_stringify env) errorData;
            s = (if us_status response = 401
                 then s\<lparr>cs_auth := setSessionResolution ResExpired (clearSession (cs_auth s))\<rparr> else s) in
        (Inl (ApiRequestError (us_status response) errorData
           (''Request failed ('' @ show_int (us_status response) @ '')'' @
            (if message \<noteq> [] then '': '' @ message else []))), s))"

text \<open>The value of an answer: nothing, JSON or text.\<close>

definition api_answer :: "upstream \<Rightarrow> json client_op" where
  "api_answer response env s =
     (if \<not> status_ok (us_status response) then failed_request response env s
      else if us_status response = HTTP_STATUS_NO_CONTENT then (Inr (JObj []), s)
      else if response_is_json response
      then (case ce_parse env (us_text response) of
              None \<Rightarrow> (Inl (Failure (JsError ''SyntaxError'')), s)
            | Some v \<Rightarrow> (Inr v, s))
      else (Inr (JStr (us_text response)), s))"

text \<open>\<open>apiRequest\<close> with the method, the endpoint and the value of the body that the callers pass.\<close>

definition apiRequest :: "string \<Rightarrow> string \<Rightarrow> json option \<Rightarrow> json client_op" where
  "apiRequest verb endpoint body =
     then_c (if isMutation (Some verb) then then_c ensureCsrfToken (\<lambda>t. return_c (Some t)) else return_c None)
       (\<lambda>token. then_c (fetch_c (request_call verb endpoint body token)) api_answer)"

text \<open>\<open>data ? JSON.stringify(data) : undefined\<close>.\<close>

definition api_body :: "json option \<Rightarrow> json option" where
  "api_body d = (if field_truthy d then d else None)"

definition api_get :: "string \<Rightarrow> json client_op" where
  "api_get endpoint = apiRequest ''GET'' endpoint None"

definition api_post :: "string \<Rightarrow> json option \<Rightarrow> json client_op" where
  "api_post endpoint d = apiRequest ''POST'' endpoint (api_body d)"

definition api_put :: "string \<Rightarrow> json option \<Rightarrow> json client_op" where
  "api_put endpoint d = apiRequest ''PUT'' endpoint (api_body d)"

definition api_patch :: "string \<Rightarrow> json option \<Rightarrow> json client_op" where
  "api_patch endpoint d = apiRequest ''PATCH'' endpoint (api_body d)"

definition api_delete :: "string \<Rightarrow> json client_op" where
  "api_delete endpoint = apiRequest ''DELETE'' endpoint None"

subsection \<open>The client and the web server together\<close>

text \<open>
  How the browser carries a client's call to the web server: to its own origin, with the cookies
  it holds, without the headers by which browsers mark requests of other sites.
\<close>

definition browser_request :: "string \<Rightarrow> (string \<times> string) list \<Rightarrow> call \<Rightarrow> http_request" where
  "browser_request site jar c =
     \<lparr>rq_method = cl_method c, rq_origin = site, rq_pathname = cl_url c, rq_search = [],
      rq_headers = (''origin'', site) # (''sec-fetch-site'', ''same-origin'') # cl_headers c,
      rq_cookies = jar, rq_body = None\<rparr>"

text \<open>The cookies the browser holds after a response.\<close>

fun store_cookie :: "cookie_op \<Rightarrow> (string \<times> string) list \<Rightarrow> (string \<times> string) list" where
  "store_cookie (SetCookie k v opts) jar = AList.update k v jar"
| "store_cookie (DeleteCookie k _ _ _ _) jar = AList.delete k jar"

definition jar_after :: "effect list \<Rightarrow> (string \<times> string) list \<Rightarrow> (string \<times> string) list" where
  "jar_after es jar = fold store_cookie (cookies_of es) jar"

text \<open>The answer of a route as the client receives it.\<close>

definition delivered :: "(json \<Rightarrow> string) \<Rightarrow> reply \<Rightarrow> upstream" where
  "delivered stringify r =
     \<lparr>us_status = rs_status r, us_headers = rs_headers r, us_setCookies = None,
      us_text = (case rs_body r of ReplyText t \<Rightarrow> t | ReplyJson j \<Rightarrow> stringify j)\<rparr>"

text \<open>A call that carries the token as the client's mutations do.\<close>

lemma mutation_headers:
  "map_of (cl_headers (auth_call path body token)) CSRF_HEADER = Some token"
  "map_of (cl_headers (request_call m endpoint body (Some token))) CSRF_HEADER = Some token"
  by (simp_all add: auth_call_def request_call_def CSRF_HEADER_def)

lemma browser_validates:
  assumes "map_of (cl_headers c) CSRF_HEADER = Some token"
  shows "validateCsrfRequest (browser_request site jar c) \<longleftrightarrow>
    map_of jar CSRF_COOKIE = Some token \<and> 32 \<le> length token"
  using assms
  by (auto simp: validateCsrfRequest_def browser_request_def header_def getCookie_def CSRF_HEADER_def
      constantTimeEqual_iff nullish_def truthy_str_def Let_def split: option.splits)

text \<open>What the server's route for the token answers and sets.\<close>

lemma csrf_GET_run:
  assumes "csrf_GET env rq ss = (Inr reply, ss')" "se_uuid env = Some uuid"
    "\<And>n. length (filter (\<lambda>c. c \<noteq> CHR ''-'') (uuid n)) = 32"
  obtains token where "reply = jsonResponse (JObj [(''csrfToken'', JStr token)]) 200 []" "token \<noteq> []"
    "map_of (jar_after (drop (length (ss_log ss)) (ss_log ss')) (rq_cookies rq)) CSRF_COOKIE = Some token"
    "32 \<le> length token \<longleftrightarrow>
      (case map_of (rq_cookies rq) CSRF_COOKIE of None \<Rightarrow> True | Some t \<Rightarrow> t = [] \<or> 32 \<le> length t)"
proof (cases "truthy_str (getCookie rq CSRF_COOKIE)")
  case True
  then obtain t where t: "map_of (rq_cookies rq) CSRF_COOKIE = Some t" "t \<noteq> []"
    by (auto simp: truthy_str_def getCookie_def split: option.splits)
  then have "reply = jsonResponse (JObj [(''csrfToken'', JStr t)]) 200 []" "ss' = ss"
    using assms(1) True by (auto simp: csrf_GET_def getOrCreateCsrfToken_def op_defs getCookie_def)
  with t that show thesis by (auto simp: jar_after_def)
next
  case False
  define t where "t = filter (\<lambda>c. c \<noteq> CHR ''-'') (uuid (ss_drawn ss) @ uuid (Suc (ss_drawn ss)))"
  have run: "reply = jsonResponse (JObj [(''csrfToken'', JStr t)]) 200 []"
      "ss_log ss' = ss_log ss @ [Cookied (SetCookie CSRF_COOKIE t (csrfCookieOptions (se_vars env)))]"
    using assms(1,2) False
    by (auto simp: csrf_GET_def getOrCreateCsrfToken_def randomUUID_def op_defs Let_def t_def)
  have len: "length t = 64" using assms(3) by (simp add: t_def)
  then have "t \<noteq> []" by auto
  with run len False that show thesis
    by (auto simp: jar_after_def truthy_str_def getCookie_def split: option.splits)
qed

subsection \<open>Properties\<close>


definition sample_client :: client_env where
  "sample_client =
     \<lparr>ce_net = \<lambda>_ _. Inr (delivered (\<lambda>_. replicate 64 (CHR ''a''))
        (jsonResponse (JObj [(''csrfToken'', JStr (replicate 64 (CHR ''a'')))]) 200 [])),
      ce_parse = \<lambda>text. Some (JObj [(''csrfToken'', JStr text)]),
      ce_stringify = \<lambda>v. nullish (json_str (json_field ''csrfToken'' v)) []\<rparr>"

definition blank_client :: client_state where
  "blank_client = \<lparr>cs_auth = auth_created, cs_csrfToken = None, cs_calls = []\<rparr>"


subsection \<open>What the operations leave of the session\<close>

lemma token_run:
  "cs_auth (snd (ensureCsrfToken env s)) = cs_auth s"
  "cs_calls (snd (ensureCsrfToken env s)) = cs_calls s @ (if truthy_str (cs_csrfToken s) then [] else [csrf_call])"
  by (auto simp: ensureCsrfToken_def client_defs parseAuthResponse_def keep_token_def Let_def
      split: sum.splits option.splits prod.splits if_splits)

lemma token_error: "fst (ensureCsrfToken env s) \<noteq> Inl (ApiRequestError n d m)"
  by (auto simp: ensureCsrfToken_def client_defs parseAuthResponse_def keep_token_def Let_def
      split: sum.splits option.splits prod.splits if_splits)

lemma fetch_run:
  "cs_auth (snd (fetch_c c env s)) = cs_auth s" "cs_calls (snd (fetch_c c env s)) = cs_calls s @ [c]"
  "fst (fetch_c c env s) \<noteq> Inl (ApiRequestError n d m)"
  by (simp_all add: fetch_c_def split: sum.split)

lemma parse_run: "snd (parseAuthResponse response env s) = s"
  by (simp add: parseAuthResponse_def Let_def)

lemma then_c_auth:
  fixes m :: "'a client_op" and k :: "'a \<Rightarrow> 'b client_op"
  assumes "cs_auth (snd (m env s)) = cs_auth s" "\<And>x s'. cs_auth (snd (k x env s')) = cs_auth s'"
  shows "cs_auth (snd (then_c m k env s)) = cs_auth s"
  using assms by (simp add: then_c_def split: prod.splits sum.splits) (metis snd_conv)

lemma auth_mutation_auth: "cs_auth (snd (authMutation path body env s)) = cs_auth s"
proof -
  have "cs_auth (snd (then_c ensureCsrfToken (\<lambda>token. fetch_c (auth_call path body token)) env s)) = cs_auth s" for s
    by (rule then_c_auth) (simp_all add: token_run fetch_run)
  then have "cs_auth (snd (catch_c (then_c ensureCsrfToken (\<lambda>token. fetch_c (auth_call path body token)))
      (\<lambda>e. throw_c (if isTimeoutError e then Failure (JsError AUTH_TIMEOUT_MESSAGE) else e)) env s)) = cs_auth s"
    by (simp add: catch_c_def throw_c_def split: prod.splits sum.splits) (metis snd_conv)
  then show ?thesis unfolding authMutation_def by (rule then_c_auth) (simp add: parse_run)
qed

lemma sign_in_run:
  "case sign_in path body env s of
     (Inr _, s') \<Rightarrow> \<exists>user. cs_auth s' = setAuthenticatedUser user (cs_auth s)
   | (Inl e, s') \<Rightarrow> cs_auth s' = (cs_auth s)\<lparr>au_isLoading := False, au_error := Some (client_message e)\<rparr>"
proof -
  let ?s = "s\<lparr>cs_auth := (cs_auth s)\<lparr>au_isLoading := True, au_error := None\<rparr>\<rparr>"
  obtain r s1 where run: "authMutation path (Some body) env ?s = (r, s1)" by (cases "authMutation path (Some body) env ?s")
  then have auth: "cs_auth s1 = (cs_auth s)\<lparr>au_isLoading := True, au_error := None\<rparr>"
    using auth_mutation_auth [of path "Some body" env ?s] by simp
  show ?thesis
    using run auth
    by (auto simp: sign_in_def client_defs payload_user_def setAuthError_def setAuthenticatedUser_def
        split: sum.splits prod.splits)
qed

text \<open>The state of the session after a request, and the calls that it made.\<close>

definition session_after :: "client_error + json \<Rightarrow> auth_state \<Rightarrow> auth_state" where
  "session_after r st =
     (case r of Inl (ApiRequestError n _ _) \<Rightarrow> if n = 401 then setSessionResolution ResExpired (clearSession st) else st
      | _ \<Rightarrow> st)"

definition api_calls_ok :: "string \<Rightarrow> string \<Rightarrow> call list \<Rightarrow> bool" where
  "api_calls_ok verb endpoint cs \<longleftrightarrow>
     length cs \<le> 2 \<and> list_all (\<lambda>c. c = csrf_call \<and> isMutation (Some verb) \<or>
       cl_method c = verb \<and> cl_url c = ''/api/core'' @ endpoint \<and>
       (map_of (cl_headers c) CSRF_HEADER \<noteq> None \<longleftrightarrow> isMutation (Some verb))) cs"

lemma failed_request_run:
  "case failed_request response env s of (r, s') \<Rightarrow>
     cs_auth s' = session_after r (cs_auth s) \<and> cs_calls s' = cs_calls s \<and> (\<exists>e. r = Inl e)"
  by (simp add: failed_request_def session_after_def Let_def)

lemma api_answer_run:
  "cs_auth (snd (api_answer response env s)) = session_after (fst (api_answer response env s)) (cs_auth s)"
  "cs_calls (snd (api_answer response env s)) = cs_calls s"
  using failed_request_run [where response = response and env = env and s = s]
  by (auto simp: api_answer_def session_after_def split: prod.splits option.splits)

lemma api_after_token:
  fixes token env s verb endpoint body
  defines "run \<equiv> then_c (fetch_c (request_call verb endpoint body token)) api_answer env s"
  shows "cs_auth (snd run) = session_after (fst run) (cs_auth s)"
    "cs_calls (snd run) = cs_calls s @ [request_call verb endpoint body token]"
proof -
  let ?c = "request_call verb endpoint body token"
  show "cs_auth (snd run) = session_after (fst run) (cs_auth s)" "cs_calls (snd run) = cs_calls s @ [?c]"
    by (auto simp: run_def then_c_def fetch_c_def api_answer_run session_after_def split: sum.splits)
qed

lemma api_request_run:
  "case apiRequest verb endpoint body env s of (r, s') \<Rightarrow>
     cs_auth s' = session_after r (cs_auth s) \<and>
     (\<exists>cs. cs_calls s' = cs_calls s @ cs \<and> api_calls_ok verb endpoint cs)"
proof (cases "isMutation (Some verb)")
  case True
  have api: "apiRequest verb endpoint body =
      then_c (then_c ensureCsrfToken (\<lambda>t. return_c (Some t)))
        (\<lambda>token. then_c (fetch_c (request_call verb endpoint body token)) api_answer)"
    using True by (simp add: apiRequest_def)
  obtain r1 s1 where t: "ensureCsrfToken env s = (r1, s1)" by (cases "ensureCsrfToken env s")
  have calls: "api_calls_ok verb endpoint (if truthy_str (cs_csrfToken s) then [] else [csrf_call])"
    "api_calls_ok verb endpoint
       ((if truthy_str (cs_csrfToken s) then [] else [csrf_call]) @ [request_call verb endpoint body (Some x)])" for x
    using True by (auto simp: api_calls_ok_def request_call_def CSRF_HEADER_def)
  have s1: "cs_auth s1 = cs_auth s"
    "cs_calls s1 = cs_calls s @ (if truthy_str (cs_csrfToken s) then [] else [csrf_call])"
    using token_run [of env s] t by simp_all
  show ?thesis
  proof (cases r1)
    case (Inl e)
    then have "apiRequest verb endpoint body env s = (Inl e, s1)" using t by (simp add: api then_c_def)
    moreover have "session_after (Inl e) (cs_auth s) = cs_auth s"
      using token_error [of env s] t Inl by (simp add: session_after_def split: client_error.split)
    ultimately show ?thesis using s1 calls(1) by auto
  next
    case (Inr x)
    have "apiRequest verb endpoint body env s =
        then_c (fetch_c (request_call verb endpoint body (Some x))) api_answer env s1"
      using t Inr by (simp add: api then_c_def return_c_def)
    then show ?thesis
      using api_after_token [of verb endpoint body "Some x" env s1] s1 calls(2) [of x]
      by (auto split: prod.splits)
  qed
next
  case False
  have api: "apiRequest verb endpoint body env s =
      then_c (fetch_c (request_call verb endpoint body None)) api_answer env s"
    using False by (simp add: apiRequest_def then_c_def [of "return_c None"] return_c_def)
  have "api_calls_ok verb endpoint [request_call verb endpoint body None]"
    using False by (simp add: api_calls_ok_def request_call_def CSRF_HEADER_def)
  then show ?thesis
    using api_after_token [of verb endpoint body None env s] by (auto simp: api split: prod.splits)
qed

subsection \<open>Properties of the operations\<close>

text \<open>Signing in always ends the loading: it either signs the user in, with no error left, or changes
  nothing but the error text, which is the message of what was thrown.\<close>

theorem login_settles:
  "case store_login email password env s of
     (Inr _, s') \<Rightarrow> \<exists>user. cs_auth s' = setAuthenticatedUser user (cs_auth s)
   | (Inl e, s') \<Rightarrow> cs_auth s' = (cs_auth s)\<lparr>au_isLoading := False, au_error := Some (client_message e)\<rparr>"
  unfolding store_login_def by (rule sign_in_run)

text \<open>C8. A request to the API makes at most two calls, to its endpoint behind \<open>/api/core\<close> and, for a
  mutation without a token, to the token route; the token is sent exactly with mutations.  It
  leaves the session alone unless the answer is an API error with status 401, after which nobody
  is signed in and the session is expired.\<close>

theorem api_request_session:
  "case apiRequest verb endpoint body env s of (r, s') \<Rightarrow>
     cs_auth s' = session_after r (cs_auth s) \<and>
     (\<exists>cs. cs_calls s' = cs_calls s @ cs \<and> api_calls_ok verb endpoint cs)"
  by (rule api_request_run)

end
