(* ===== verification/SessionView.thy ===== *)
theory SessionView
  imports ApiClient
begin

text \<open>
  How the session reaches the pages: the guards of the routes (\<open>lib/auth/protected-route.ts\<close>), the
  effect that takes over the session resolved by the server
  (\<open>components/routes/AuthSessionBootstrap.tsx\<close>), what \<open>ProtectedRoute.tsx\<close> shows, and signing in and
  out from the pages (\<open>hooks/useAuth.ts\<close>, \<open>hooks/useAuthRequiredAction.ts\<close>), as a machine whose steps are what
  the server, the timers and the user do.
\<close>

subsection \<open>Guards of the routes\<close>

text \<open>A redirect that is thrown: its target and the \<open>next\<close> parameter.\<close>

datatype redirect_to = ToLogin string | ToHome

definition buildRedirectTarget :: "string \<Rightarrow> string \<Rightarrow> string" where
  "buildRedirectTarget pathname searchStr = pathname @ searchStr"

definition requireAuthenticatedSession :: "session_snapshot \<Rightarrow> string \<Rightarrow> string \<Rightarrow> redirect_to option" where
  "requireAuthenticatedSession session pathname searchStr =
     (if snap_resolution session = Anonymous \<or> snap_resolution session = Expired
      then Some (ToLogin (buildRedirectTarget pathname searchStr)) else None)"

definition redirectAuthenticatedSession :: "session_snapshot \<Rightarrow> redirect_to option" where
  "redirectAuthenticatedSession session = (if snap_isAuthenticated session then Some ToHome else None)"

subsection \<open>Taking over the session of the server\<close>

fun client_resolution_of :: "session_resolution \<Rightarrow> client_resolution" where
  "client_resolution_of Anonymous = ResAnonymous"
| "client_resolution_of Authenticated = ResAuthenticated"
| "client_resolution_of Expired = ResExpired"
| "client_resolution_of Unavailable = ResUnavailable"
| "client_resolution_of Timeout = ResTimeout"

definition bootstrap_session :: "session_snapshot \<Rightarrow> auth_state \<Rightarrow> auth_state" where
  "bootstrap_session session st =
     (if snap_resolution session = Unavailable \<or> snap_resolution session = Timeout
      then setSessionResolution (client_resolution_of (snap_resolution session)) st
      else if snap_resolution session = Expired then setSessionResolution ResExpired (clearSession st)
      else setSession (Some (snap_user session)) st)"

subsection \<open>Protected pages\<close>

datatype protected_view = Verifying | Degraded | Nothing | Children

definition isBootingSession :: "auth_state \<Rightarrow> bool" where
  "isBootingSession st \<longleftrightarrow> au_isAuthenticated st \<and> au_resolution st = ResPending"

definition isDegradedSession :: "auth_state \<Rightarrow> bool" where
  "isDegradedSession st \<longleftrightarrow> au_resolution st = ResUnavailable \<or> au_resolution st = ResTimeout"

definition protected_view :: "auth_state \<Rightarrow> protected_view" where
  "protected_view st =
     (if au_isLoading st \<or> isBootingSession st then Verifying
      else if isDegradedSession st then Degraded
      else if \<not> au_isAuthenticated st then Nothing
      else Children)"

text \<open>The effect that leaves for the login page, once: the redirect and the new mark.\<close>

definition protected_redirect :: "string \<Rightarrow> string \<Rightarrow> auth_state \<Rightarrow> bool \<Rightarrow> redirect_to option \<times> bool" where
  "protected_redirect pathname searchStr st started =
     (if \<not> au_isLoading st \<and> \<not> au_isAuthenticated st \<and>
         (au_resolution st = ResAnonymous \<or> au_resolution st = ResExpired)
      then (if started then (None, True) else (Some (ToLogin (pathname @ searchStr)), True))
      else (None, if au_isAuthenticated st then False else started))"

text \<open>An action that needs a signed-in user: it runs, or the login page opens.\<close>

definition auth_required :: "bool option \<Rightarrow> auth_state \<Rightarrow> string \<Rightarrow> string \<Rightarrow> redirect_to option" where
  "auth_required authenticatedOverride st pathname searchStr =
     (if nullish authenticatedOverride (au_isAuthenticated st \<and> au_resolution st = ResAuthenticated)
      then None else Some (ToLogin (pathname @ searchStr)))"

subsection \<open>Signing in and out from a page\<close>

text \<open>
  The target that is navigated to after the session was invalidated, if the operation succeeds;
  failures of signing in are only logged, failures of signing out are thrown on.
\<close>

definition handleLogin :: "string \<Rightarrow> string \<Rightarrow> string option \<Rightarrow> string option client_op" where
  "handleLogin email password next =
     catch_c (then_c (store_login email password)
         (\<lambda>_. return_c (Some (nullish (normalizeInternalRedirectTarget next) ''/''))))
       (\<lambda>e. return_c None)"

definition handleRegister :: "string \<Rightarrow> string \<Rightarrow> string \<Rightarrow> string option \<Rightarrow> string option client_op" where
  "handleRegister username email password next =
     catch_c (then_c (store_register username email password)
         (\<lambda>_. return_c (Some (nullish (normalizeInternalRedirectTarget next) ''/''))))
       (\<lambda>e. return_c None)"

definition handleLogout :: "string client_op" where
  "handleLogout = then_c store_logout (\<lambda>_. return_c ''/'')"

definition handleLogoutEverywhere :: "string client_op" where
  "handleLogoutEverywhere = then_c store_logoutEverywhere (\<lambda>_. return_c ''/'')"

subsection \<open>The machine\<close>

text \<open>
  The page: the auth store, the values that the bootstrap effect last ran for, whether the timer
  of the hydration has fired, and how many sign-ins are under way.  The last field only records
  whether setting a user ever signed someone in although nobody was.
\<close>

record page_session =
  pg_auth :: auth_state
  pg_deps :: "(json \<times> session_resolution) option"
  pg_ticked :: bool
  pg_signing :: nat
  pg_revived :: bool

text \<open>
  An effect runs again when one of its values changed.  Two answers of the server never hold the
  same user object, but \<open>null\<close> is \<open>null\<close>.
\<close>

definition deps_changed :: "(json \<times> session_resolution) option \<Rightarrow> session_snapshot \<Rightarrow> bool" where
  "deps_changed deps session \<longleftrightarrow>
     deps \<noteq> Some (snap_user session, snap_resolution session) \<or> json_truthy (snap_user session)"

datatype session_event =
    HydrationTimer
  | SessionResolved session_snapshot
  | SignInBegins
  | SignInSucceeds "json option"
  | SignInFails string
  | SignedOut
  | RequestRejected
  | BootTimer
  | RetryClicked
  | UserReplaced "json option"

text \<open>
  One event: the timer of the hydration fires once; the boot timer (5 s) runs while the session is
  booting; the retry button is part of the degraded view, and a user cannot press it before a
  timer of 0 ms has fired.  The profile mutation replaces the user, optimistically, with the saved
  profile, or with the one it had before it failed.
\<close>

fun session_step :: "session_event \<Rightarrow> page_session \<Rightarrow> page_session option" where
  "session_step HydrationTimer p =
     (if pg_ticked p then None else Some (p\<lparr>pg_auth := end_hydration (pg_auth p), pg_ticked := True\<rparr>))"
| "session_step (SessionResolved session) p =
     (if deps_changed (pg_deps p) session
      then Some (p\<lparr>pg_auth := bootstrap_session session (pg_auth p),
                   pg_deps := Some (snap_user session, snap_resolution session)\<rparr>)
      else Some p)"
| "session_step SignInBegins p =
     Some (p\<lparr>pg_auth := (pg_auth p)\<lparr>au_isLoading := True, au_error := None\<rparr>, pg_signing := Suc (pg_signing p)\<rparr>)"
| "session_step (SignInSucceeds user) p =
     (if pg_signing p = 0 then None
      else Some (p\<lparr>pg_auth := setAuthenticatedUser user (pg_auth p), pg_signing := pg_signing p - 1\<rparr>))"
| "session_step (SignInFails message) p =
     (if pg_signing p = 0 then None
      else Some (p\<lparr>pg_auth := setAuthError message (pg_auth p), pg_signing := pg_signing p - 1\<rparr>))"
| "session_step SignedOut p = Some (p\<lparr>pg_auth := setAnonymous (pg_auth p)\<rparr>)"
| "session_step RequestRejected p =
     Some (p\<lparr>pg_auth := setSessionResolution ResExpired (clearSession (pg_auth p))\<rparr>)"
| "session_step BootTimer p =
     (if isBootingSession (pg_auth p)
      then Some (p\<lparr>pg_auth := setSessionResolution ResTimeout (pg_auth p)\<rparr>) else None)"
| "session_step RetryClicked p =
     (if protected_view (pg_auth p) = Degraded \<and> pg_ticked p
      then Some (p\<lparr>pg_auth := setSessionResolution ResPending (pg_auth p)\<rparr>) else None)"
| "session_step (UserReplaced user) p =
     Some (p\<lparr>pg_auth := setUser user (pg_auth p),
             pg_revived := (pg_revived p \<or> \<not> au_isAuthenticated (pg_auth p) \<and> field_truthy user)\<rparr>)"

text \<open>A page starts with what the browser stored.\<close>

definition page_opened :: "(json option \<times> bool) option \<Rightarrow> page_session" where
  "page_opened stored =
     \<lparr>pg_auth = rehydrate stored auth_created, pg_deps = None, pg_ticked = False, pg_signing = 0,
      pg_revived = False\<rparr>"

inductive page_reachable :: "page_session \<Rightarrow> bool" where
  opened: "page_reachable (page_opened stored)"
| event: "page_reachable p \<Longrightarrow> session_step ev p = Some p' \<Longrightarrow> page_reachable p'"

subsection \<open>Invariant of the machine\<close>

definition session_ok :: "page_session \<Rightarrow> bool" where
  "session_ok p \<longleftrightarrow>
     (\<not> pg_revived p \<longrightarrow> au_resolution (pg_auth p) = ResExpired \<longrightarrow> \<not> au_isAuthenticated (pg_auth p)) \<and>
     (\<not> pg_revived p \<longrightarrow> pg_deps p \<noteq> None \<longrightarrow> au_resolution (pg_auth p) = ResAnonymous \<longrightarrow>
        \<not> au_isAuthenticated (pg_auth p)) \<and>
     (pg_deps p \<noteq> None \<longrightarrow> \<not> pg_ticked p \<longrightarrow> au_resolution (pg_auth p) \<noteq> ResPending) \<and>
     (au_isLoading (pg_auth p) \<longrightarrow> \<not> pg_ticked p \<or> 0 < pg_signing p)"

lemmas auth_store_defs = auth_created_def auth_initialState_def setAuthenticatedUser_def setAnonymous_def
  setAuthError_def setSession_def clearSession_def setSessionResolution_def rehydrate_def end_hydration_def

lemma bootstrap_sel:
  "au_resolution (bootstrap_session session st) \<noteq> ResPending"
  "\<not> au_isLoading (bootstrap_session session st)"
  "au_resolution (bootstrap_session session st) = ResAnonymous \<Longrightarrow> \<not> au_isAuthenticated (bootstrap_session session st)"
  "au_resolution (bootstrap_session session st) = ResExpired \<Longrightarrow> \<not> au_isAuthenticated (bootstrap_session session st)"
  by (cases "snap_resolution session"; simp add: bootstrap_session_def auth_store_defs split: if_splits)+

lemma session_ok_opened: "session_ok (page_opened stored)"
  by (simp add: session_ok_def page_opened_def auth_store_defs split: option.split)

lemma session_ok_step:
  assumes "session_ok p" "session_step ev p = Some p'"
  shows "session_ok p'"
proof (cases ev)
  case HydrationTimer
  with assms show ?thesis by (auto simp: session_ok_def auth_store_defs split: if_splits)
next
  case (SessionResolved session)
  show ?thesis
  proof (cases "deps_changed (pg_deps p) session")
    case True
    with SessionResolved assms(2) show ?thesis by (auto simp: session_ok_def bootstrap_sel)
  next
    case False
    with SessionResolved assms show ?thesis by simp
  qed
next
  case SignInBegins
  with assms have "p' = p\<lparr>pg_auth := (pg_auth p)\<lparr>au_isLoading := True, au_error := None\<rparr>, pg_signing := Suc (pg_signing p)\<rparr>"
    by simp
  with assms(1) show ?thesis by (simp add: session_ok_def)
next
  case (SignInSucceeds user)
  with assms have "p' = p\<lparr>pg_auth := setAuthenticatedUser user (pg_auth p), pg_signing := pg_signing p - 1\<rparr>"
    by (simp split: if_splits)
  then show ?thesis by (simp add: session_ok_def setAuthenticatedUser_def)
next
  case (SignInFails message)
  with assms have "p' = p\<lparr>pg_auth := setAuthError message (pg_auth p), pg_signing := pg_signing p - 1\<rparr>"
    by (simp split: if_splits)
  with assms(1) show ?thesis by (simp add: session_ok_def setAuthError_def)
next
  case SignedOut
  with assms have "p' = p\<lparr>pg_auth := setAnonymous (pg_auth p)\<rparr>" by simp
  then show ?thesis by (simp add: session_ok_def auth_store_defs)
next
  case RequestRejected
  with assms have "p' = p\<lparr>pg_auth := setSessionResolution ResExpired (clearSession (pg_auth p))\<rparr>" by simp
  then show ?thesis by (simp add: session_ok_def auth_store_defs)
next
  case BootTimer
  with assms have "p' = p\<lparr>pg_auth := setSessionResolution ResTimeout (pg_auth p)\<rparr>" by (simp split: if_splits)
  then show ?thesis by (simp add: session_ok_def auth_store_defs)
next
  case RetryClicked
  with assms have "p' = p\<lparr>pg_auth := setSessionResolution ResPending (pg_auth p)\<rparr>" "pg_ticked p"
    by (simp_all split: if_splits)
  then show ?thesis by (simp add: session_ok_def auth_store_defs)
next
  case (UserReplaced user)
  with assms have "p' = p\<lparr>pg_auth := setUser user (pg_auth p),
      pg_revived := (pg_revived p \<or> \<not> au_isAuthenticated (pg_auth p) \<and> field_truthy user)\<rparr>" by simp
  with assms(1) show ?thesis by (auto simp: session_ok_def setUser_def)
qed

lemma reachable_ok: "page_reachable p \<Longrightarrow> session_ok p"
  by (induction rule: page_reachable.induct) (auto intro: session_ok_opened session_ok_step)

lemmas view_defs = protected_view_def isBootingSession_def isDegradedSession_def

subsection \<open>Properties\<close>


definition expired_page :: page_session where
  "expired_page = \<lparr>pg_auth = setSessionResolution ResExpired (setAnonymous auth_created),
     pg_deps = Some (JNull, Expired), pg_ticked = False, pg_signing = 0, pg_revived = False\<rparr>"

lemma expired_page_reachable: "page_reachable expired_page"
proof -
  have "session_step (SessionResolved expired_session) (page_opened None) = Some expired_page"
    by code_simp
  with page_reachable.intros show ?thesis by blast
qed




text \<open>Retrying the session check of a page on which nobody is signed in ends in a page that shows
  nothing: when the check fails the same way again the effect does not run, no timer is left, and
  the page does not leave for the login page.\<close>

theorem retry_dead_end:
  assumes "protected_view (pg_auth p) = Degraded" "pg_ticked p" "\<not> au_isAuthenticated (pg_auth p)"
    and "pg_deps p = Some (snap_user session, snap_resolution session)" "snap_user session = JNull"
  shows "\<exists>q. session_step RetryClicked p = Some q \<and> session_step (SessionResolved session) q = Some q \<and>
    session_step HydrationTimer q = None \<and> session_step BootTimer q = None \<and>
    protected_view (pg_auth q) = Nothing \<and> fst (protected_redirect path search (pg_auth q) started) = None"
  using assms by (simp add: deps_changed_def view_defs protected_redirect_def auth_store_defs)

definition timed_out_session :: session_snapshot where
  "timed_out_session = EMPTY_SESSION\<lparr>snap_resolution := Timeout\<rparr>"

definition timed_out_page :: page_session where
  "timed_out_page = \<lparr>pg_auth = setSessionResolution ResTimeout auth_created,
     pg_deps = Some (JNull, Timeout), pg_ticked = True, pg_signing = 0, pg_revived = False\<rparr>"

theorem retry_dead_end_witness:
  "\<exists>q. page_reachable q \<and> protected_view (pg_auth q) = Nothing \<and> session_step BootTimer q = None"
proof -
  have "session_step (SessionResolved timed_out_session) (page_opened None) =
      Some (timed_out_page\<lparr>pg_ticked := False\<rparr>)"
    "session_step HydrationTimer (timed_out_page\<lparr>pg_ticked := False\<rparr>) = Some timed_out_page"
    by code_simp+
  then have r: "page_reachable timed_out_page" using page_reachable.intros by blast
  have "protected_view (pg_auth timed_out_page) = Degraded" "pg_ticked timed_out_page"
    "\<not> au_isAuthenticated (pg_auth timed_out_page)"
    "pg_deps timed_out_page = Some (snap_user timed_out_session, snap_resolution timed_out_session)"
    "snap_user timed_out_session = JNull"
    by code_simp+
  from retry_dead_end [OF this, of "[]" "[]" False] r page_reachable.event show ?thesis by blast
qed

end
