(* ===== verification/ClientUtils.thy ===== *)
theory ClientUtils
  imports ApiClient ContentTypes
begin

text \<open>
  What the client's requests and pages share: encoded query strings, the country of the viewer
  (\<open>lib/utils/countryUtils.ts\<close>, \<open>hooks/useCountryDetection.ts\<close>), the text of a search (\<open>lib/search.ts\<close>),
  images (\<open>lib/utils/imageUtils.ts\<close>), names (\<open>lib/utils/authorUtils.ts\<close>, \<open>lib/utils/userUtils.ts\<close>),
  durations of games (\<open>lib/utils/gameDuration.ts\<close>) and addresses of pages
  (\<open>lib/utils/navigationUtils.ts\<close>).
\<close>

subsection \<open>Query strings\<close>

text \<open>
  \<open>URLSearchParams\<close>: an ordered list of pairs, written in the form encoding, byte by byte, and
  read back.
\<close>

definition is_alnum :: "char \<Rightarrow> bool" where
  "is_alnum c \<longleftrightarrow> is_digit c \<or> is_alpha c"

definition hex_upper :: "nat \<Rightarrow> char" where
  "hex_upper n = (if n < 10 then char_of (48 + n) else char_of (55 + n))"

definition percent :: "char \<Rightarrow> string" where
  "percent c = [CHR ''%'', hex_upper (of_char c div 16), hex_upper (of_char c mod 16)]"

definition form_byte :: "char \<Rightarrow> string" where
  "form_byte c =
     (if is_alnum c \<or> c \<in> {CHR ''*'', CHR ''-'', CHR ''.'', CHR ''_''} then [c]
      else if c = CHR '' '' then ''+'' else percent c)"

definition form_encode :: "string \<Rightarrow> string" where
  "form_encode s = concat (map form_byte s)"

definition params_string :: "(string \<times> string) list \<Rightarrow> string" where
  "params_string ps = js_join ''&'' (map (\<lambda>(k, v). form_encode k @ ''='' @ form_encode v) ps)"

fun form_decode :: "string \<Rightarrow> string" where
  "form_decode (c # a # b # s) =
     (if c = CHR ''+'' then CHR '' '' # form_decode (a # b # s)
      else if c = CHR ''%'' then
        (case (radix_digit a, radix_digit b) of
           (Some m, Some n) \<Rightarrow> if m < 16 \<and> n < 16 then char_of (16 * m + n) # form_decode s
                              else c # form_decode (a # b # s)
         | _ \<Rightarrow> c # form_decode (a # b # s))
      else c # form_decode (a # b # s))"
| "form_decode (c # s) = (if c = CHR ''+'' then CHR '' '' else c) # form_decode s"
| "form_decode [] = []"

definition params_pair :: "string \<Rightarrow> string \<times> string" where
  "params_pair w =
     (form_decode (takeWhile (\<lambda>c. c \<noteq> CHR ''='') w), form_decode (tl (dropWhile (\<lambda>c. c \<noteq> CHR ''='') w)))"

definition params_parse :: "string \<Rightarrow> (string \<times> string) list" where
  "params_parse s = map params_pair (filter (\<lambda>w. w \<noteq> []) (js_split CHR ''&'' s))"

definition encodeURIComponent :: "string \<Rightarrow> string" where
  "encodeURIComponent s =
     concat (map (\<lambda>c. if is_alnum c \<or> c \<in> set ''-_.!~*'' \<or> c = char_of (39 :: nat) \<or> c = CHR ''('' \<or> c = CHR '')''
       then [c] else percent c) s)"

subsection \<open>The country of the viewer\<close>

definition DEFAULT_COUNTRY :: string where "DEFAULT_COUNTRY = ''CO''"

text \<open>The browser: the settings store and \<open>document.cookie\<close>; on the server there is none.\<close>

record browser =
  br_settings :: settings_state
  br_cookie :: string

text \<open>\<open>Inl\<close> is the error of a value that cannot be decoded.\<close>

definition readBrowserCookie :: "browser option \<Rightarrow> string \<Rightarrow> js_error + string option" where
  "readBrowserCookie window name =
     (case window of
        None \<Rightarrow> Inr None
      | Some b \<Rightarrow>
          let start = encodeURIComponent name @ ''='' in
          case find (\<lambda>part. prefix start part) (map js_trim (js_split CHR '';'' (br_cookie b))) of
            None \<Rightarrow> Inr None
          | Some m \<Rightarrow>
              if m = [] then Inr None
              else (case decodeURIComponent (drop (length start) m) of
                      None \<Rightarrow> Inl (JsError ''URIError'') | Some v \<Rightarrow> Inr (Some v)))"

definition getUserCountryCode :: "browser option \<Rightarrow> string" where
  "getUserCountryCode window =
     (case window of
        None \<Rightarrow> DEFAULT_COUNTRY
      | Some b \<Rightarrow>
          if truthy_str (set_countryCode (br_settings b)) then the (set_countryCode (br_settings b))
          else case readBrowserCookie window ''user-country'' of
            Inr (Some c) \<Rightarrow> if c \<noteq> [] \<and> c \<noteq> ''XX'' then js_upper c else DEFAULT_COUNTRY
          | _ \<Rightarrow> DEFAULT_COUNTRY)"

definition getCountryFromCookie :: "browser option \<Rightarrow> js_error + string option" where
  "getCountryFromCookie window =
     (case readBrowserCookie window ''user-country'' of
        Inl e \<Rightarrow> Inl e
      | Inr c \<Rightarrow> Inr (if truthy_str c \<and> c \<noteq> Some ''XX'' then c else None))"

text \<open>The trace of the network: its text, or the failure of the request.\<close>

definition detectCountryFromCloudflare :: "js_error + string \<Rightarrow> string" where
  "detectCountryFromCloudflare answer =
     (case answer of
        Inl _ \<Rightarrow> DEFAULT_COUNTRY
      | Inr text \<Rightarrow>
          (case find (prefix ''loc='') (js_split (char_of (10 :: nat)) text) of
             None \<Rightarrow> DEFAULT_COUNTRY
           | Some locLine \<Rightarrow>
               (case js_split CHR ''='' locLine of
                  _ # country # _ \<Rightarrow>
                    if js_trim country \<noteq> [] \<and> js_trim country \<noteq> ''XX'' then js_trim country else DEFAULT_COUNTRY
                | _ \<Rightarrow> DEFAULT_COUNTRY)))"

text \<open>The effect that detects the country of a viewer who has none, and the country that is shown.\<close>

definition detectCountry :: "js_error + string \<Rightarrow> browser \<Rightarrow> browser" where
  "detectCountry answer b =
     (if truthy_str (set_countryCode (br_settings b)) then b
      else b\<lparr>br_settings := setCountryCode
        (case getCountryFromCookie (Some b) of
           Inl _ \<Rightarrow> DEFAULT_COUNTRY
         | Inr c \<Rightarrow> if truthy_str c then the c else detectCountryFromCloudflare answer) (br_settings b)\<rparr>)"

definition shown_country :: "browser \<Rightarrow> string" where
  "shown_country b = or_str (set_countryCode (br_settings b)) DEFAULT_COUNTRY"

subsection \<open>The text of a search\<close>

definition SEARCH_DEBOUNCE_MS :: int where "SEARCH_DEBOUNCE_MS = 500"
definition SEARCH_QUERY_MAX_LENGTH :: int where "SEARCH_QUERY_MAX_LENGTH = 80"

definition normalizeSearchQuery :: "string \<Rightarrow> int \<Rightarrow> string" where
  "normalizeSearchQuery v maxLength = js_slice 0 maxLength (js_trim v)"

definition limitSearchInput :: "string \<Rightarrow> int \<Rightarrow> string" where
  "limitSearchInput v maxLength = js_slice 0 maxLength v"

subsection \<open>Images\<close>

datatype banner_treatment = Cover | ContainedPoster

definition HORIZONTAL_BANNER_TYPES :: "string list" where
  "HORIZONTAL_BANNER_TYPES = [''banner'', ''backdrop'', ''screenshot'', ''promotional'', image_type_str GALLERY]"

definition getFallbackSize :: "image_size \<Rightarrow> image_size" where
  "getFallbackSize sz = (if sz = ORIGINAL then STANDARD else ORIGINAL)"

definition getImageUrl :: "image list option \<Rightarrow> string \<Rightarrow> image_size \<Rightarrow> string option" where
  "getImageUrl images type preferredSize =
     (case images of
        None \<Rightarrow> None
      | Some imgs \<Rightarrow>
          let typeImages = filter (\<lambda>img. js_lower (im_type img) = js_lower type) imgs;
              of_size = (\<lambda>sz. find (\<lambda>img. js_lower (im_size img) = image_size_str sz) typeImages) in
          case of_size preferredSize of
            Some img \<Rightarrow> Some (im_image_url img)
          | None \<Rightarrow>
              (case of_size (getFallbackSize preferredSize) of
                 Some img \<Rightarrow> Some (im_image_url img)
               | None \<Rightarrow>
                   (case typeImages of
                      [] \<Rightarrow> None
                    | img # _ \<Rightarrow> if im_image_url img = [] then None else Some (im_image_url img))))"

definition getBannerMedia :: "image list option \<Rightarrow> string option \<Rightarrow> (string \<times> banner_treatment) option" where
  "getBannerMedia images imageUrl =
     (case find truthy_str (map (\<lambda>type. getImageUrl images type ORIGINAL) HORIZONTAL_BANNER_TYPES) of
        Some u \<Rightarrow> Some (the u, Cover)
      | None \<Rightarrow>
          let poster = getImageUrl images (image_type_str POSTER) ORIGINAL;
              posterUrl = (if truthy_str poster then poster else imageUrl) in
          if truthy_str posterUrl then Some (the posterUrl, ContainedPoster) else None)"

definition getBannerImageUrl :: "image list option \<Rightarrow> string option \<Rightarrow> string option" where
  "getBannerImageUrl images imageUrl = map_option fst (getBannerMedia images imageUrl)"

definition getCardImageUrl :: "image list option \<Rightarrow> string option \<Rightarrow> string option" where
  "getCardImageUrl images imageUrl =
     (let poster = getImageUrl images (image_type_str POSTER) STANDARD;
          gallery = getImageUrl images (image_type_str GALLERY) STANDARD in
      if truthy_str poster then poster
      else if truthy_str gallery then gallery
      else if truthy_str imageUrl then imageUrl else None)"

subsection \<open>Names\<close>

text \<open>\<open>authors\<close> and \<open>platforms\<close> are lists of records with a name or of names; each as its names.\<close>

definition formatAuthors :: "string list option \<Rightarrow> int \<Rightarrow> string" where
  "formatAuthors authors limit =
     (case authors of
        None \<Rightarrow> []
      | Some names \<Rightarrow>
          if int (length names) \<le> limit then js_join '', '' names
          else js_join '', '' (js_slice 0 limit names) @ '' & '' @ show_int (int (length names) - limit) @ '' more'')"

definition getAuthorNames :: "string list option \<Rightarrow> string list" where
  "getAuthorNames authors = nullish authors []"

definition formatPlatforms :: "string list option \<Rightarrow> string" where
  "formatPlatforms platforms = (case platforms of None \<Rightarrow> [] | Some names \<Rightarrow> js_join '', '' names)"

definition has_text :: "string option \<Rightarrow> bool" where
  "has_text s = truthy_str (map_option js_trim s)"

definition hasName :: "user \<Rightarrow> bool" where
  "hasName user \<longleftrightarrow> has_text (usr_first_name user) \<or> has_text (usr_last_name user)"

definition formatName :: "user \<Rightarrow> string" where
  "formatName user =
     js_join '' '' ((if has_text (usr_first_name user) then [the (usr_first_name user)] else []) @
       (if has_text (usr_last_name user) then [the (usr_last_name user)] else []))"

definition formatUsername :: "string \<Rightarrow> string" where
  "formatUsername username = (if prefix ''@'' username then drop 1 username else username)"

definition formatUserDisplayName :: "user \<Rightarrow> string" where
  "formatUserDisplayName user =
     (if hasName user then formatName user
      else if usr_username user \<noteq> [] then formatUsername (usr_username user)
      else usr_email user)"

definition formatUserDisplayNameWithUsername :: "user \<Rightarrow> string \<times> string option" where
  "formatUserDisplayNameWithUsername user =
     (if hasName user
      then (formatName user, if usr_username user \<noteq> [] then Some (formatUsername (usr_username user)) else None)
      else (if usr_username user \<noteq> [] then formatUsername (usr_username user) else usr_email user, None))"

subsection \<open>Durations of games\<close>

definition MAX_GAME_DURATION_HOURS :: int where "MAX_GAME_DURATION_HOURS = 3000"

definition MAX_GAME_DURATION_SECONDS :: rat where
  "MAX_GAME_DURATION_SECONDS = of_int (MAX_GAME_DURATION_HOURS * 60 * 60)"

text \<open>\<open>Math.round\<close>; \<open>toFixed(1)\<close> of a double is \<open>fixed1\<close>.\<close>

definition js_round :: "rat \<Rightarrow> int" where
  "js_round x = \<lfloor>x + 1 / 2\<rfloor>"

definition formatGameDuration :: "(rat \<Rightarrow> string) \<Rightarrow> rat \<Rightarrow> string" where
  "formatGameDuration fixed1 seconds =
     (let hours = seconds / 3600 in
      if hours < 1 then show_int (max 1 (js_round (seconds / 60))) @ '' min''
      else if hours < 10
      then (let t = fixed1 hours in (if suffix ''.0'' t then take (length t - 2) t else t) @ '' h'')
      else show_int (js_round hours) @ '' h'')"

definition usable_durations :: "game_duration \<Rightarrow> (string \<times> rat) list" where
  "usable_durations d =
     concat (map (\<lambda>(label, seconds). case seconds of
         None \<Rightarrow> []
       | Some s \<Rightarrow> if 0 < s \<and> s \<le> MAX_GAME_DURATION_SECONDS then [(label, s)] else [])
       [(''Rushed'', gd_hastily_seconds d), (''Normal'', gd_normally_seconds d), (''Complete'', gd_completely_seconds d)])"

text \<open>The loop that looks for a value below its predecessor.\<close>

fun some_descent :: "(string \<times> rat) list \<Rightarrow> bool" where
  "some_descent (a # b # vs) \<longleftrightarrow> snd b < snd a \<or> some_descent (b # vs)"
| "some_descent _ \<longleftrightarrow> False"

definition getGameDurationRows :: "(rat \<Rightarrow> string) \<Rightarrow> game_duration option \<Rightarrow> (string \<times> string) list" where
  "getGameDurationRows fixed1 duration =
     (case duration of
        None \<Rightarrow> []
      | Some d \<Rightarrow>
          if gd_status d = DurationError \<or> gd_status d = DurationNoData then []
          else
            let usable = usable_durations d;
                row = (\<lambda>(label, s). (label, formatGameDuration fixed1 s)) in
            if some_descent usable then map row (filter (\<lambda>(label, _). label = ''Normal'') usable)
            else map row usable)"

subsection \<open>Addresses of pages\<close>

text \<open>How a page is opened: in a new tab, which may stay in the background, or by the router.\<close>

datatype opened = NewTab string bool | Routed string bool

record navigation_options =
  no_newTab :: bool
  no_background :: bool
  no_replace :: bool

definition open_page :: "string \<Rightarrow> navigation_options option \<Rightarrow> opened" where
  "open_page url options =
     (case options of
        None \<Rightarrow> Routed url False
      | Some opts \<Rightarrow> if no_newTab opts then NewTab url (no_background opts) else Routed url (no_replace opts))"

definition buildContentUrlById :: "int \<Rightarrow> string" where
  "buildContentUrlById n = ''/content/'' @ show_int n"

definition navigateToContentById :: "int \<Rightarrow> navigation_options option \<Rightarrow> opened" where
  "navigateToContentById n = open_page (buildContentUrlById n)"

definition buildContentUrl :: "string \<Rightarrow> source_api \<Rightarrow> content_type \<Rightarrow> string" where
  "buildContentUrl externalId sourceApi contentType =
     ''/content?'' @ params_string [(''external_id'', externalId), (''source_api'', source_api_str sourceApi),
       (''content_type'', content_type_str contentType)]"

definition buildContentUrlSimple :: "string \<Rightarrow> string \<Rightarrow> string" where
  "buildContentUrlSimple externalId contentType =
     ''/content?'' @ params_string [(''external_id'', externalId), (''source_api'', source_api_str (getSourceApi contentType)),
       (''content_type'', if isValidContentType contentType then contentType else content_type_str MOVIE)]"

definition buildListUrl :: "string \<Rightarrow> string" where
  "buildListUrl listId = ''/lists/'' @ listId"

definition navigateToList :: "string \<Rightarrow> navigation_options option \<Rightarrow> opened" where
  "navigateToList listId = open_page (buildListUrl listId)"

definition buildSearchUrl :: "string \<Rightarrow> content_type option \<Rightarrow> string" where
  "buildSearchUrl query contentType =
     ''/search?'' @ params_string ((''q'', query) #
       (case contentType of None \<Rightarrow> [] | Some t \<Rightarrow> [(''type'', content_type_str t)]))"

subsection \<open>Query strings are read back\<close>

lemma radix_hex_upper: "n < 16 \<Longrightarrow> radix_digit (hex_upper n) = Some n"
  by (cases "n < 10") (simp_all add: radix_digit_def hex_upper_def Let_def)

lemma char_halves: "of_char c div 16 < (16 :: nat)" "of_char c mod 16 < (16 :: nat)"
  using nat_of_char_less_256 [of c] by linarith+

lemma form_decode_byte: "form_decode (form_byte c @ t) = c # form_decode t"
proof (cases "is_alnum c \<or> c \<in> {CHR ''*'', CHR ''-'', CHR ''.'', CHR ''_''}")
  case True
  then have "c \<noteq> CHR ''+''" "c \<noteq> CHR ''%''" by (auto simp: is_alnum_def is_digit_def is_alpha_def)
  moreover have "form_byte c = [c]" using True by (simp only: form_byte_def if_True)
  moreover have "t = [] \<or> (\<exists>a. t = [a]) \<or> (\<exists>a b u. t = a # b # u)" by (metis list.exhaust)
  ultimately show ?thesis by auto
next
  case False
  then have b: "form_byte c = (if c = CHR '' '' then ''+'' else percent c)" by (simp only: form_byte_def if_False)
  show ?thesis
  proof (cases "c = CHR '' ''")
    case True
    have "t = [] \<or> (\<exists>a. t = [a]) \<or> (\<exists>a b u. t = a # b # u)" by (metis list.exhaust)
    moreover have "form_byte c = ''+''" unfolding b using True by simp
    ultimately show ?thesis using True by auto
  next
    case False
    have "char_of (16 * (of_char c div 16) + of_char c mod 16 :: nat) = c" by simp
    then show ?thesis by (simp add: b False percent_def radix_hex_upper char_halves)
  qed
qed

lemma form_roundtrip: "form_decode (form_encode s) = s"
  by (induction s) (simp_all add: form_encode_def form_decode_byte)

lemma form_encode_plain: "c \<in> set (form_encode s) \<Longrightarrow> c \<noteq> CHR ''&'' \<and> c \<noteq> CHR ''=''"
proof (induction s)
  case (Cons d s)
  have "c \<noteq> CHR ''&'' \<and> c \<noteq> CHR ''=''" if "c \<in> set (form_byte d)"
  proof -
    have h: "hex_upper n \<noteq> CHR ''&'' \<and> hex_upper n \<noteq> CHR ''=''" if "n < 16" for n
    proof -
      have "radix_digit CHR ''&'' = None" "radix_digit CHR ''='' = None" by (simp_all add: radix_digit_def)
      with radix_hex_upper [OF that] show ?thesis by auto
    qed
    from h that show ?thesis
      using char_halves [of d]
      by (auto simp: form_byte_def percent_def is_alnum_def is_digit_def is_alpha_def split: if_splits)
  qed
  with Cons show ?case by (auto simp: form_encode_def)
qed (simp add: form_encode_def)

lemma params_pair_word: "params_pair (form_encode k @ ''='' @ form_encode v) = (k, v)"
proof -
  have k: "\<forall>c \<in> set (form_encode k). c \<noteq> CHR ''=''" using form_encode_plain by blast
  have "takeWhile (\<lambda>c. c \<noteq> CHR ''='') (form_encode k @ ''='' @ form_encode v) = form_encode k"
    "dropWhile (\<lambda>c. c \<noteq> CHR ''='') (form_encode k @ ''='' @ form_encode v) = ''='' @ form_encode v"
    using k by (auto simp: takeWhile_append dropWhile_append)
  then show ?thesis by (simp add: params_pair_def form_roundtrip)
qed

lemma params_roundtrip: "params_parse (params_string ps) = ps"
proof (cases "ps = []")
  case True
  then show ?thesis by (simp add: params_parse_def params_string_def)
next
  case False
  let ?w = "\<lambda>(k, v). form_encode k @ ''='' @ form_encode v"
  have "CHR ''&'' \<notin> set (?w p)" for p using form_encode_plain by (cases p) auto
  then have "js_split CHR ''&'' (params_string ps) = map ?w ps"
    unfolding params_string_def using False by (intro js_split_join) auto
  moreover have "filter (\<lambda>w. w \<noteq> []) (map ?w ps) = map ?w ps" by (auto simp: filter_id_conv)
  moreover have "map params_pair (map ?w ps) = ps"
    using params_pair_word by (induction ps) auto
  ultimately show ?thesis by (simp add: params_parse_def)
qed

subsection \<open>Durations\<close>

lemma no_descent_sorted: "\<not> some_descent vs \<Longrightarrow> sorted (map snd vs)"
  by (induction vs rule: some_descent.induct) auto

end
