(* ===== verification/ListRequests.thy ===== *)
theory ListRequests
  imports ClientUtils ExploreQuery
begin

text \<open>
  The requests of the client: query strings (\<open>lib/api/utils/queryParams.ts\<close>) and the actions on
  lists, their items and the other resources (\<open>lib/api/actions/\<close>) as calls of the API client.  A
  parameter object is a list of its fields with their printed values, \<open>None\<close> for \<open>undefined\<close>;
  bodies whose fields no code here reads are JSON values.
\<close>

subsection \<open>Query strings\<close>

type_synonym param_fields = "(string \<times> string option) list"

definition buildQueryParams ::
  "browser option \<Rightarrow> param_fields option \<Rightarrow> bool \<Rightarrow> string option \<Rightarrow> search_params" where
  "buildQueryParams window params addCountry country =
     concat (map (\<lambda>(k, v). case v of None \<Rightarrow> [] | Some t \<Rightarrow> [(k, t)]) (nullish params [])) @
     (if addCountry \<and> ''country'' \<notin> set (map fst (nullish params []))
      then [(''country'', or_str country (getUserCountryCode window))] else [])"

definition query_suffix :: "search_params \<Rightarrow> string" where
  "query_suffix ps = (let query = params_string ps in if query \<noteq> [] then ''?'' @ query else [])"

definition buildQueryString ::
  "browser option \<Rightarrow> param_fields option \<Rightarrow> bool \<Rightarrow> string option \<Rightarrow> string" where
  "buildQueryString window params addCountry country = query_suffix (buildQueryParams window params addCountry country)"

definition addPaginationParams :: "int option \<Rightarrow> int option \<Rightarrow> search_params \<Rightarrow> search_params" where
  "addPaginationParams page pageSize params =
     params @ (case page of None \<Rightarrow> [] | Some p \<Rightarrow> [(''page'', show_int p)]) @
     (case pageSize of None \<Rightarrow> [] | Some n \<Rightarrow> [(''page_size'', show_int n)])"

definition addCountryParam :: "browser option \<Rightarrow> string option \<Rightarrow> search_params \<Rightarrow> search_params" where
  "addCountryParam window country params = params @ [(''country'', or_str country (getUserCountryCode window))]"

text \<open>Options of sparse answers; the other entries with their printed values.\<close>

record flex_options =
  fx_fields :: "string list option"
  fx_expand :: "string list option"
  fx_omit :: "string list option"
  fx_sourceFields :: "string list option"
  fx_others :: param_fields

definition flex_list :: "string \<Rightarrow> string list option \<Rightarrow> search_params" where
  "flex_list k vs = (case vs of None \<Rightarrow> [] | Some ws \<Rightarrow> if ws \<noteq> [] then [(k, js_join '','' ws)] else [])"

definition buildFlexFieldsQuery :: "flex_options \<Rightarrow> string" where
  "buildFlexFieldsQuery opts =
     params_string
       (flex_list ''fields'' (fx_fields opts) @ flex_list ''expand'' (fx_expand opts) @
        flex_list ''omit'' (fx_omit opts) @ flex_list ''source_fields'' (fx_sourceFields opts) @
        concat (map (\<lambda>(k, v). case v of None \<Rightarrow> [] | Some t \<Rightarrow> [(k, t)])
          (filter (\<lambda>(k, v). k \<notin> {''fields'', ''expand'', ''omit'', ''sourceFields''}) (fx_others opts))))"

subsection \<open>Items of a list\<close>

record list_item_options =
  lo_country :: "string option"
  lo_fields :: "string option"
  lo_expand :: "string option"
  lo_omit :: "string option"
  lo_source_fields :: "string option"
  lo_query :: "list_item_query option"

definition no_options :: list_item_options where
  "no_options = \<lparr>lo_country = None, lo_fields = None, lo_expand = None, lo_omit = None,
     lo_source_fields = None, lo_query = None\<rparr>"

definition serializeSort :: "sort_clause list \<Rightarrow> string option" where
  "serializeSort sorts = (if sorts = [] then None else Some (js_join '','' (map sort_token sorts)))"

definition append_filter :: "('f \<Rightarrow> string) \<Rightarrow> ('f \<times> filter_value) list \<Rightarrow> search_params" where
  "append_filter str fs =
     concat (map (\<lambda>(f, v). case filter_value_text v of None \<Rightarrow> [] | Some t \<Rightarrow> [(filter_name (str f), t)]) fs)"

definition appendQueryModel :: "list_item_query option \<Rightarrow> search_params \<Rightarrow> search_params" where
  "appendQueryModel query params =
     (case query of
        None \<Rightarrow> params
      | Some q \<Rightarrow>
          params @ append_filter filter_field_str (q_filters q) @ append_filter range_field_str (q_rangeFilters q) @
          (case serializeSort (q_sort q) of None \<Rightarrow> [] | Some t \<Rightarrow> if t \<noteq> [] then [(''sort'', t)] else []) @
          (case q_groupBy q of None \<Rightarrow> [] | Some g \<Rightarrow> [(''group_by'', group_field_str g)]))"

definition split_list :: "string option \<Rightarrow> string list option" where
  "split_list s = (if truthy_str s then Some (js_split CHR '','' (the s)) else None)"

definition buildListItemQuery ::
  "browser option \<Rightarrow> int option \<Rightarrow> int option \<Rightarrow> list_item_options \<Rightarrow> string" where
  "buildListItemQuery window page pageSize opts =
     (let params = addPaginationParams page pageSize [];
          flexFieldsQuery = buildFlexFieldsQuery
            \<lparr>fx_fields = split_list (lo_fields opts), fx_expand = split_list (lo_expand opts),
             fx_omit = split_list (lo_omit opts), fx_sourceFields = split_list (lo_source_fields opts), fx_others = []\<rparr>;
          params = (if flexFieldsQuery \<noteq> [] then params @ params_parse flexFieldsQuery else params);
          params = addCountryParam window (lo_country opts) params in
      params_string (appendQueryModel (lo_query opts) params))"

definition items_endpoint :: "int \<Rightarrow> string" where
  "items_endpoint listId = ''/content/lists/'' @ show_int listId @ ''/items/''"

definition item_endpoint :: "int \<Rightarrow> int \<Rightarrow> string" where
  "item_endpoint listId itemId = items_endpoint listId @ show_int itemId @ ''/''"

definition listItem_list ::
  "browser option \<Rightarrow> int \<Rightarrow> int option \<Rightarrow> int option \<Rightarrow> list_item_options \<Rightarrow> json client_op" where
  "listItem_list window listId page pageSize opts =
     (let query = buildListItemQuery window page pageSize opts in
      api_get (items_endpoint listId @ (if query \<noteq> [] then ''?'' @ query else [])))"

definition listItem_listAll :: "browser option \<Rightarrow> int \<Rightarrow> list_item_options \<Rightarrow> json client_op" where
  "listItem_listAll window listId opts =
     (let query = buildListItemQuery window None None opts in
      api_get (items_endpoint listId @ (if query \<noteq> [] then ''?'' @ query @ ''&unpaginated=true'' else ''?unpaginated=true'')))"

definition listItem_get :: "browser option \<Rightarrow> int \<Rightarrow> int \<Rightarrow> string option \<Rightarrow> json client_op" where
  "listItem_get window listId itemId country =
     api_get (item_endpoint listId itemId @ buildQueryString window None True country)"

definition json_of_create :: "list_item_create \<Rightarrow> json" where
  "json_of_create item =
     JObj ([(''source_api'', JStr (lic_source_api item)), (''external_id'', JStr (lic_external_id item)),
            (''content_type'', JStr (lic_content_type item))] @
       (case lic_context_status item of None \<Rightarrow> [] | Some st \<Rightarrow> [(''context_status'', JStr (item_status_str st))]))"

definition listItem_create :: "int \<Rightarrow> list_item_create \<Rightarrow> string option \<Rightarrow> json client_op" where
  "listItem_create listId item flds =
     api_post (items_endpoint listId @ query_suffix (if truthy_str flds then [(''fields'', the flds)] else []))
       (Some (json_of_create item))"

definition listItem_update :: "int \<Rightarrow> int \<Rightarrow> json \<Rightarrow> json client_op" where
  "listItem_update listId itemId item = api_put (item_endpoint listId itemId) (Some item)"

definition listItem_patch :: "int \<Rightarrow> int \<Rightarrow> json \<Rightarrow> json client_op" where
  "listItem_patch listId itemId item = api_patch (item_endpoint listId itemId) (Some item)"

definition listItem_delete :: "int \<Rightarrow> int \<Rightarrow> json client_op" where
  "listItem_delete listId itemId = api_delete (item_endpoint listId itemId)"

definition listItem_move :: "int \<Rightarrow> int \<Rightarrow> int \<Rightarrow> int option \<Rightarrow> int option \<Rightarrow> json client_op" where
  "listItem_move listId itemId position page pageSize =
     api_post (item_endpoint listId itemId @ ''move/?'' @
       params_string (addPaginationParams page pageSize [(''position'', show_int position)])) (Some (JObj []))"

definition listItem_applySort :: "int \<Rightarrow> sort_clause list \<Rightarrow> json client_op" where
  "listItem_applySort listId sorts =
     api_post (items_endpoint listId @ ''apply-sort/'')
       (Some (JObj [(''sort'', case serializeSort sorts of None \<Rightarrow> JNull | Some t \<Rightarrow> JStr t)]))"

definition json_ids :: "int list \<Rightarrow> json" where
  "json_ids ns = JArr (map (\<lambda>n. JNum (Fin (of_int n))) ns)"

definition listItem_reorder :: "int \<Rightarrow> int list \<Rightarrow> int option \<Rightarrow> int option \<Rightarrow> json client_op" where
  "listItem_reorder listId itemIds page pageSize =
     api_post (items_endpoint listId @ ''reorder/'' @ query_suffix (addPaginationParams page pageSize []))
       (Some (JObj [(''order'', json_ids itemIds)]))"

subsection \<open>Lists\<close>

definition list_endpoint :: "int \<Rightarrow> string" where
  "list_endpoint n = ''/content/lists/'' @ show_int n @ ''/''"

definition list_bulkCheck :: "json list \<Rightarrow> json client_op" where
  "list_bulkCheck items = api_post ''/content/lists/bulk-check/'' (Some (JObj [(''items'', JArr items)]))"

definition param_country :: "param_fields option \<Rightarrow> string option" where
  "param_country params = Option.bind params (\<lambda>ps. Option.bind (map_of ps ''country'') (\<lambda>v. v))"

definition list_list :: "browser option \<Rightarrow> param_fields option \<Rightarrow> json client_op" where
  "list_list window params =
     api_get (''/content/lists/'' @ buildQueryString window params True (param_country params))"

definition list_get :: "browser option \<Rightarrow> int \<Rightarrow> param_fields option \<Rightarrow> json client_op" where
  "list_get window n params =
     api_get (list_endpoint n @ buildQueryString window params True (param_country params))"

definition list_getPublic :: "int \<Rightarrow> json client_op" where
  "list_getPublic n = api_get (list_endpoint n)"

definition list_create :: "string \<Rightarrow> string option \<Rightarrow> string \<Rightarrow> json client_op" where
  "list_create name description listType =
     api_post ''/content/lists/'' (Some (JObj
       [(''name'', JStr name), (''description'', case description of None \<Rightarrow> JNull | Some d \<Rightarrow> JStr d),
        (''list_type'', JStr listType)]))"

definition list_update :: "int \<Rightarrow> json \<Rightarrow> json client_op" where
  "list_update n lst = api_put (list_endpoint n) (Some lst)"

definition list_patch :: "int \<Rightarrow> json \<Rightarrow> json client_op" where
  "list_patch n lst = api_patch (list_endpoint n) (Some lst)"

definition list_delete :: "int \<Rightarrow> json client_op" where
  "list_delete n = api_delete (list_endpoint n)"

definition list_getStats :: "int \<Rightarrow> json client_op" where
  "list_getStats n = api_get (list_endpoint n @ ''stats/'')"

definition list_pickRandom :: "int \<Rightarrow> int list \<Rightarrow> json client_op" where
  "list_pickRandom n excludeContentIds =
     api_post (list_endpoint n @ ''random/'') (Some (JObj [(''exclude_content_ids'', json_ids excludeContentIds)]))"

subsection \<open>The request of a page of a list\<close>

lemma append_canonical:
  "list_all (canonical_value \<circ> snd) fs \<Longrightarrow> append_filter filter_field_str fs = map filter_pair fs"
  "list_all (canonical_range \<circ> snd) rs \<Longrightarrow> append_filter range_field_str rs = map range_pair rs"
proof -
  show "append_filter filter_field_str fs = map filter_pair fs" if "list_all (canonical_value \<circ> snd) fs"
    using that canonical_value_text
    by (induction fs) (force simp: append_filter_def filter_pair_def split: option.split)+
  show "append_filter range_field_str rs = map range_pair rs" if "list_all (canonical_range \<circ> snd) rs"
    using that canonical_range_text
    by (induction rs) (force simp: append_filter_def range_pair_def split: option.split)+
qed

text \<open>The pairs of the request: paging, what the answer holds, the country, and the query.\<close>

definition head_pairs :: "browser option \<Rightarrow> int \<Rightarrow> int \<Rightarrow> list_item_options \<Rightarrow> search_params" where
  "head_pairs window page pageSize opts =
     [(''page'', show_int page), (''page_size'', show_int pageSize)] @
     flex_list ''fields'' (split_list (lo_fields opts)) @ flex_list ''expand'' (split_list (lo_expand opts)) @
     flex_list ''omit'' (split_list (lo_omit opts)) @ flex_list ''source_fields'' (split_list (lo_source_fields opts)) @
     [(''country'', or_str (lo_country opts) (getUserCountryCode window))]"

definition order_pairs :: "list_item_query \<Rightarrow> search_params" where
  "order_pairs q =
     (if q_sort q \<noteq> [] then [(''sort'', js_join '','' (map sort_token (q_sort q)))] else []) @
     (case q_groupBy q of None \<Rightarrow> [] | Some g \<Rightarrow> [(''group_by'', group_field_str g)])"

lemma flex_parsed:
  "(if buildFlexFieldsQuery opts \<noteq> [] then ps @ params_parse (buildFlexFieldsQuery opts) else ps) =
     ps @ params_parse (buildFlexFieldsQuery opts)"
  by (simp add: params_parse_def)

lemma request_pairs:
  assumes "canonical_query q"
  shows "params_parse (buildListItemQuery window (Some page) (Some pageSize) (opts\<lparr>lo_query := Some q\<rparr>)) =
    head_pairs window page pageSize opts @ map filter_pair (q_filters q) @ map range_pair (q_rangeFilters q) @ order_pairs q"
proof -
  have srt: "(case serializeSort (q_sort q) of None \<Rightarrow> [] | Some t \<Rightarrow> if t \<noteq> [] then [(''sort'', t)] else []) =
      (if q_sort q \<noteq> [] then [(''sort'', js_join '','' (map sort_token (q_sort q)))] else [])"
    using join_not_Nil [of "map sort_token (q_sort q)" "'',''"] sort_token_word
    by (cases "q_sort q") (simp_all add: serializeSort_def plain_word_def)
  show ?thesis
    using assms unfolding buildListItemQuery_def Let_def flex_parsed params_roundtrip
    by (simp add: appendQueryModel_def append_canonical canonical_query_def srt head_pairs_def order_pairs_def
        buildFlexFieldsQuery_def params_roundtrip addPaginationParams_def addCountryParam_def)
qed

lemma head_keys:
  "(k, v) \<in> set (head_pairs window page pageSize opts) \<Longrightarrow>
     k \<in> {''page'', ''page_size'', ''fields'', ''expand'', ''omit'', ''source_fields'', ''country''}"
  by (auto simp: head_pairs_def flex_list_def split: option.splits if_splits)

lemma fold_skip: "(\<And>k v. (k, v) \<in> set ps \<Longrightarrow> filter_key k = None) \<Longrightarrow> fold parse_param ps acc = acc"
proof (induction ps)
  case (Cons p ps)
  obtain k v where p: "p = (k, v)" by (cases p)
  have "filter_key k = None" by (rule Cons.prems [of k v]) (simp add: p)
  then have "parse_param p acc = acc" by (cases acc) (simp add: p Let_def)
  moreover have "filter_key k = None" if "(k, v) \<in> set ps" for k v
    by (rule Cons.prems [of k v]) (simp add: that)
  then have "fold parse_param ps acc = acc" by (rule Cons.IH)
  ultimately show ?case by simp
qed simp

lemma plain_write: "router_write (\<lambda>_. False) ps = ps"
  by (induction ps) auto

lemma head_lookup:
  "map_of (head_pairs window page pageSize opts @ ps) ''page'' = Some (show_int page)"
  "map_of (head_pairs window page pageSize opts @ ps) ''page_size'' = Some (show_int pageSize)"
  "k \<in> {''sort'', ''group_by''} \<Longrightarrow> map_of (head_pairs window page pageSize opts @ ps) k = map_of ps k"
proof -
  show "map_of (head_pairs window page pageSize opts @ ps) ''page'' = Some (show_int page)"
    "map_of (head_pairs window page pageSize opts @ ps) ''page_size'' = Some (show_int pageSize)"
    by (simp_all add: head_pairs_def)
  have "map_of (head_pairs window page pageSize opts) k = None" if "k \<in> {''sort'', ''group_by''}"
    using that head_keys [of k _ window page pageSize opts] by (fastforce simp: map_of_eq_None_iff)
  then show "map_of (head_pairs window page pageSize opts @ ps) k = map_of ps k" if "k \<in> {''sort'', ''group_by''}"
    using that by (simp add: map_add_def)
qed

lemma pairs_keys:
  "k \<in> {''sort'', ''group_by''} \<Longrightarrow> map_of (map filter_pair fs @ map range_pair rs @ tail) k = map_of tail k"
  using map_of_filter_pairs [of k "\<lambda>_. False" fs rs tail] by (auto simp: plain_write)

text \<open>C13. The request for a page of a list carries exactly the query of the page's address: read back from
  the encoded address of the request, as the address of the page is read, it is the same query,
  whatever country, fields and other options go with it.\<close>

theorem request_carries_query:
  assumes "canonical_query q"
  shows "parseQueryFromParams (params_parse
    (buildListItemQuery window (Some (q_page q)) (Some (q_pageSize q)) (opts\<lparr>lo_query := Some q\<rparr>))) = q"
proof -
  let ?H = "head_pairs window (q_page q) (q_pageSize q) opts"
  let ?F = "map filter_pair (q_filters q)" and ?R = "map range_pair (q_rangeFilters q)" and ?T = "order_pairs q"
  have f: "fold parse_param ?F ([], []) = (q_filters q, [])"
    using assms parse_filters [of "q_filters q" "[]" "\<lambda>_. False"] by (simp add: canonical_query_def plain_write)
  have r: "fold parse_param ?R (q_filters q, []) = (q_filters q, q_rangeFilters q)"
    using assms parse_ranges [of "q_rangeFilters q" "[]" "\<lambda>_. False"] by (simp add: canonical_query_def plain_write)
  have h: "fold parse_param ?H acc = acc" for acc
    by (rule fold_skip, drule head_keys) (auto simp: filter_key_def)
  have t: "fold parse_param ?T acc = acc" for acc
    by (rule fold_skip) (auto simp: order_pairs_def filter_key_def split: option.splits if_splits)
  have folds: "fold parse_param (?H @ ?F @ ?R @ ?T) ([], []) = (q_filters q, q_rangeFilters q)"
    by (simp add: h f r t)
  have srt: "parseSort (map_of ?T ''sort'') = q_sort q"
    using parseSort_tokens [of "q_sort q" _ "\<lambda>_. False"]
    by (auto simp: order_pairs_def parseSort_def split: option.split)
  have grp: "(case map_option decodeRouteSearchValue (map_of ?T ''group_by'') of
        None \<Rightarrow> None
      | Some g \<Rightarrow> if g = [] then None else allowed group_field_str ALLOWED_GROUPS g) = q_groupBy q"
    using group_decode [of "\<lambda>_. False"]
    by (cases "q_groupBy q") (simp_all add: order_pairs_def group_field_find field_str_not_Nil)
  have n: "1 \<le> q_page q" "q_pageSize q \<in> set VALID_PAGE_SIZES" using assms by (simp_all add: canonical_query_def)
  then have "0 \<le> q_page q" "0 \<le> q_pageSize q" by (auto simp: VALID_PAGE_SIZES_def)
  then have num: "number_or_null (Some (show_int (q_page q))) = Fin (of_int (q_page q))"
    "number_or_null (Some (show_int (q_pageSize q))) = Fin (of_int (q_pageSize q))"
    using number_show_int [of _ "\<lambda>_. False"] by simp_all
  have page: "parsePage (Some (show_int (q_page q))) = q_page q"
    "parsePageSize (Some (show_int (q_pageSize q))) = q_pageSize q"
    using n by (auto simp: parsePage_def parsePageSize_def num)
  let ?P = "?H @ ?F @ ?R @ ?T"
  have look: "map_of ?P ''sort'' = map_of ?T ''sort''" "map_of ?P ''group_by'' = map_of ?T ''group_by''"
    "map_of ?P ''page'' = Some (show_int (q_page q))" "map_of ?P ''page_size'' = Some (show_int (q_pageSize q))"
    by (simp_all only: head_lookup pairs_keys insertI1 insertI2)
  show ?thesis
    unfolding request_pairs [OF assms] parseQueryFromParams_def folds look Let_def prod.case srt grp page
    by (cases q) simp
qed

definition explored_query :: list_item_query where
  "explored_query = DEFAULT_LIST_ITEM_QUERY
     \<lparr>q_filters := [(FfContentType, FvStrs [''MOVIE'', ''BOOK''])],
      q_sort := [\<lparr>sc_field = SfAddedAt, sc_direction = Desc\<rparr>], q_page := 3\<rparr>"

lemma explored_query_canonical: "canonical_query explored_query"
  by (simp add: canonical_query_def explored_query_def DEFAULT_LIST_ITEM_QUERY_def VALID_PAGE_SIZES_def
      plain_word_def js_trim_def is_space_def)

theorem request_carries_query_witness:
  "parseQueryFromParams (params_parse
     (buildListItemQuery None (Some 3) (Some 20) (no_options\<lparr>lo_fields := Some ''id,title'', lo_query := Some explored_query\<rparr>)))
     = explored_query"
  using request_carries_query [OF explored_query_canonical, of None "no_options\<lparr>lo_fields := Some ''id,title''\<rparr>"]
  by (simp add: explored_query_def DEFAULT_LIST_ITEM_QUERY_def)

end
