(* ===== verification/ResourceRequests.thy ===== *)
theory ResourceRequests
  imports ListRequests
begin

text \<open>
  The requests for content, ratings, members, invitations, profiles and the other resources of the
  core API (\<open>lib/api/actions/\<close>), and the requests to the catalogue (\<open>lib/api/proxyApi.ts\<close> with the
  actions that use it).
\<close>

subsection \<open>Content, ratings and tracking of the core API\<close>

definition content_endpoint :: "int \<Rightarrow> string" where
  "content_endpoint n = ''/content/items/'' @ show_int n @ ''/''"

definition contentItem_list :: "browser option \<Rightarrow> param_fields option \<Rightarrow> json client_op" where
  "contentItem_list window params =
     api_get (''/content/items/'' @ buildQueryString window params True (param_country params))"

definition contentItem_get :: "browser option \<Rightarrow> int \<Rightarrow> string option \<Rightarrow> json client_op" where
  "contentItem_get window n country =
     api_get (''/content/'' @ show_int n @ ''/'' @ buildQueryString window None True country)"

definition contentItem_create :: "json \<Rightarrow> json client_op" where
  "contentItem_create item = api_post ''/content/items/'' (Some item)"

definition contentItem_update :: "int \<Rightarrow> json \<Rightarrow> json client_op" where
  "contentItem_update n item = api_put (content_endpoint n) (Some item)"

definition contentItem_patch :: "int \<Rightarrow> json \<Rightarrow> json client_op" where
  "contentItem_patch n item = api_patch (content_endpoint n) (Some item)"

definition contentItem_delete :: "int \<Rightarrow> json client_op" where
  "contentItem_delete n = api_delete (content_endpoint n)"

definition nonzero_param :: "string \<Rightarrow> int option \<Rightarrow> search_params" where
  "nonzero_param k n = (if truthy_int n then [(k, show_int (the n))] else [])"

definition text_param :: "string \<Rightarrow> string option \<Rightarrow> search_params" where
  "text_param k v = (if truthy_str v then [(k, the v)] else [])"

definition contentItem_findByExternalId ::
  "string \<Rightarrow> source_api option \<Rightarrow> content_type option \<Rightarrow> int option \<Rightarrow> int option \<Rightarrow> json client_op" where
  "contentItem_findByExternalId externalId sourceApi contentType page pageSize =
     api_get (''/content/items/by_external_id/?'' @ params_string
       ((''external_id'', externalId) # text_param ''source_api'' (map_option source_api_str sourceApi) @
        text_param ''content_type'' (map_option content_type_str contentType) @
        nonzero_param ''page'' page @ nonzero_param ''page_size'' pageSize))"

definition contentItem_getOrCreate :: "string \<Rightarrow> string \<Rightarrow> string option \<Rightarrow> json client_op" where
  "contentItem_getOrCreate externalId contentType country =
     (let normalizedType = js_upper contentType;
          query = (if truthy_str country then ''?country='' @ encodeURIComponent (the country) else []) in
      api_post (''/content/items/get_or_create/'' @ query)
        (Some (JObj [(''source_api'', JStr (source_api_str (getSourceApi normalizedType))),
           (''external_id'', JStr externalId), (''content_type'', JStr normalizedType)])))"

definition rating_endpoint :: "int \<Rightarrow> string" where
  "rating_endpoint n = ''/content/ratings/'' @ show_int n @ ''/''"

definition rating_list :: "browser option \<Rightarrow> param_fields option \<Rightarrow> json client_op" where
  "rating_list window params = api_get (''/content/ratings/'' @ buildQueryString window params False None)"

definition rating_get :: "int \<Rightarrow> json client_op" where
  "rating_get n = api_get (rating_endpoint n)"

definition json_of_rating :: "rating_create \<Rightarrow> json" where
  "json_of_rating r =
     JObj ([(''source_api'', JStr (source_api_str (rc_source_api r))), (''external_id'', JStr (rc_external_id r)),
            (''content_type'', JStr (content_type_str (rc_content_type r))), (''score'', JStr (rc_score r))] @
       (case rc_comment r of None \<Rightarrow> [] | Some c \<Rightarrow> [(''comment'', case c of None \<Rightarrow> JNull | Some t \<Rightarrow> JStr t)]) @
       (case rc_spoiler r of None \<Rightarrow> [] | Some b \<Rightarrow> [(''spoiler'', JBool b)]))"

definition rating_create_request :: "rating_create \<Rightarrow> json client_op" where
  "rating_create_request rating = api_post ''/content/ratings/'' (Some (json_of_rating rating))"

definition rating_update :: "int \<Rightarrow> rating_create \<Rightarrow> json client_op" where
  "rating_update n rating = api_put (rating_endpoint n) (Some (json_of_rating rating))"

definition rating_patch :: "int \<Rightarrow> json \<Rightarrow> json client_op" where
  "rating_patch n rating = api_patch (rating_endpoint n) (Some rating)"

definition rating_delete :: "int \<Rightarrow> json client_op" where
  "rating_delete n = api_delete (rating_endpoint n)"

subsection \<open>Members, invitations and accounts\<close>

definition members_endpoint :: "int \<Rightarrow> string" where
  "members_endpoint listId = list_endpoint listId @ ''members/''"

definition member_list :: "int \<Rightarrow> json client_op" where
  "member_list listId = api_get (members_endpoint listId)"

definition member_updateRole :: "int \<Rightarrow> int \<Rightarrow> string \<Rightarrow> json client_op" where
  "member_updateRole listId memberId role =
     api_patch (members_endpoint listId @ show_int memberId @ ''/'') (Some (JObj [(''role'', JStr role)]))"

definition member_delete :: "int \<Rightarrow> int \<Rightarrow> json client_op" where
  "member_delete listId memberId = api_delete (members_endpoint listId @ show_int memberId @ ''/'')"

definition invitation_endpoint :: "int \<Rightarrow> string" where
  "invitation_endpoint n = ''/content/invitations/'' @ show_int n @ ''/''"

definition invitation_list :: "browser option \<Rightarrow> param_fields option \<Rightarrow> json client_op" where
  "invitation_list window params = api_get (''/content/invitations/'' @ buildQueryString window params False None)"

definition invitation_get :: "int \<Rightarrow> json client_op" where
  "invitation_get n = api_get (invitation_endpoint n)"

definition invitation_send :: "int \<Rightarrow> json \<Rightarrow> json client_op" where
  "invitation_send listId d = api_post (list_endpoint listId @ ''invitations/'') (Some d)"

definition invitation_respond :: "int \<Rightarrow> bool \<Rightarrow> json client_op" where
  "invitation_respond n accept =
     api_post (invitation_endpoint n @ ''respond/'')
       (Some (JObj [(''action'', JStr (if accept then ''accept'' else ''reject''))]))"

definition invitation_delete :: "int \<Rightarrow> json client_op" where
  "invitation_delete n = api_delete (invitation_endpoint n)"

definition auth_getProfile :: "json client_op" where
  "auth_getProfile = api_get ''/auth/user/''"

definition auth_updateProfile :: "json \<Rightarrow> json client_op" where
  "auth_updateProfile d = api_put ''/auth/user/'' (Some d)"

definition auth_patchProfile :: "json \<Rightarrow> json client_op" where
  "auth_patchProfile d = api_patch ''/auth/user/'' (Some d)"

definition auth_changePassword :: "json \<Rightarrow> json client_op" where
  "auth_changePassword d = api_post ''/auth/password/change/'' (Some d)"

definition auth_resetPassword :: "json \<Rightarrow> json client_op" where
  "auth_resetPassword d = api_post ''/auth/password/reset/'' (Some d)"

definition auth_confirmPasswordReset :: "json \<Rightarrow> json client_op" where
  "auth_confirmPasswordReset d = api_post ''/auth/password/reset/confirm/'' (Some d)"

subsection \<open>Dynamic collections\<close>

definition collection_endpoint :: "string \<Rightarrow> string" where
  "collection_endpoint key = ''/content/dynamic-collections/'' @ encodeURIComponent key @ ''/''"

definition collection_list :: "json client_op" where
  "collection_list = api_get ''/content/dynamic-collections/''"

definition collection_updateSettings :: "json \<Rightarrow> json client_op" where
  "collection_updateSettings d = api_patch ''/content/dynamic-collections/settings/'' (Some d)"

definition collection_items ::
  "string \<Rightarrow> int option \<Rightarrow> int option \<Rightarrow> string option \<Rightarrow> string option \<Rightarrow> json client_op" where
  "collection_items key page pageSize q srt =
     api_get (collection_endpoint key @ ''items/'' @
       query_suffix (nonzero_param ''page'' page @ nonzero_param ''page_size'' pageSize @
         text_param ''q'' q @ text_param ''sort'' srt))"

definition collection_pickRandom :: "string \<Rightarrow> int list \<Rightarrow> json client_op" where
  "collection_pickRandom key excludeContentIds =
     api_post (collection_endpoint key @ ''random/'') (Some (JObj [(''exclude_content_ids'', json_ids excludeContentIds)]))"

subsection \<open>The catalogue\<close>

text \<open>
  A failed connection of a browser is the error \<open>Failed to fetch\<close>.  The text of a status is a
  parameter of the network.
\<close>

definition proxy_failure :: "(upstream \<Rightarrow> string) \<Rightarrow> client_env \<Rightarrow> upstream \<Rightarrow> string" where
  "proxy_failure statusText env response =
     ''Proxy request failed ('' @ show_int (us_status response) @ ''): '' @
     (if response_is_json response
      then
        let errorData = payload_or_empty env response;
            error = json_str (json_field ''error'' errorData) in
        (case error of None \<Rightarrow> [] | Some c \<Rightarrow> if c \<noteq> [] then ''['' @ c @ ''] '' else []) @
        (case json_str (json_field ''message'' errorData) of
           Some m \<Rightarrow> m | None \<Rightarrow> nullish error (ce_stringify env errorData)) @
        (case json_str (json_field ''request_id'' errorData) of None \<Rightarrow> [] | Some i \<Rightarrow> '' request_id='' @ i)
      else statusText response)"

definition handleResponse :: "(upstream \<Rightarrow> string) \<Rightarrow> upstream \<Rightarrow> json client_op" where
  "handleResponse statusText response env s =
     (if \<not> status_ok (us_status response) then
        (if response_is_json response \<and> payload_or_empty env response = JNull
         then (Inl (Failure (JsError ''TypeError'')), s)
         else (Inl (Failure (JsError (proxy_failure statusText env response))), s))
      else if us_status response = 204 then (Inr (JObj []), s)
      else if response_is_json response
      then (case ce_parse env (us_text response) of
              None \<Rightarrow> (Inl (Failure (JsError ''SyntaxError'')), s) | Some v \<Rightarrow> (Inr v, s))
      else (Inr (JStr (us_text response)), s))"

definition proxy_call :: "string \<Rightarrow> string option \<Rightarrow> call" where
  "proxy_call url country =
     \<lparr>cl_method = ''GET'', cl_url = url,
      cl_headers = (''content-type'', CONTENT_TYPE_JSON) #
        (if truthy_str country then [(''x-user-country'', the country)] else []),
      cl_body = NoBody, cl_timeout = None\<rparr>"

text \<open>The address of the proxy, the network's status texts and the browser.\<close>

record proxy_client =
  px_url :: string
  px_statusText :: "upstream \<Rightarrow> string"
  px_window :: "browser option"

definition proxyRequest :: "proxy_client \<Rightarrow> string \<Rightarrow> string option \<Rightarrow> json client_op" where
  "proxyRequest px endpoint country =
     (let url = px_url px @ endpoint in
      then_c
        (catch_c (fetch_c (proxy_call url country))
          (\<lambda>e. throw_c (if e = Failure (JsError ''Failed to fetch'')
             then Failure (JsError (''Network error: Unable to connect to proxy at '' @ url @
               ''. Please check if the proxy server is running.''))
             else e)))
        (handleResponse (px_statusText px)))"

definition proxy_getWithCountry :: "proxy_client \<Rightarrow> string \<Rightarrow> string option \<Rightarrow> json client_op" where
  "proxy_getWithCountry px endpoint country =
     proxyRequest px endpoint (Some (or_str country (getUserCountryCode (px_window px))))"

definition search_path :: "string \<Rightarrow> string \<Rightarrow> int option \<Rightarrow> int option \<Rightarrow> string" where
  "search_path resource q page limit =
     resource @ ''?'' @ params_string ((''q'', q) # nonzero_param ''page'' page @ nonzero_param ''limit'' limit)"

definition bulk_path :: "string \<Rightarrow> string list \<Rightarrow> string" where
  "bulk_path resource ids = resource @ ''/bulk?ids='' @ js_join '','' ids"

definition book_search :: "proxy_client \<Rightarrow> string \<Rightarrow> int option \<Rightarrow> int option \<Rightarrow> json client_op" where
  "book_search px q page limit = proxyRequest px (search_path ''/books'' q page limit) None"

definition book_get :: "proxy_client \<Rightarrow> string \<Rightarrow> json client_op" where
  "book_get px bookId = proxyRequest px (''/books/'' @ bookId) None"

definition book_bulk :: "proxy_client \<Rightarrow> string list \<Rightarrow> json client_op" where
  "book_bulk px ids = proxyRequest px (bulk_path ''/books'' ids) None"

definition game_search :: "proxy_client \<Rightarrow> string \<Rightarrow> int option \<Rightarrow> int option \<Rightarrow> json client_op" where
  "game_search px q page limit = proxyRequest px (search_path ''/games'' q page limit) None"

definition game_get :: "proxy_client \<Rightarrow> string \<Rightarrow> json client_op" where
  "game_get px gameId = proxyRequest px (''/games/'' @ gameId) None"

definition game_bulk :: "proxy_client \<Rightarrow> string list \<Rightarrow> json client_op" where
  "game_bulk px ids = proxyRequest px (bulk_path ''/games'' ids) None"

definition music_search :: "proxy_client \<Rightarrow> string \<Rightarrow> int option \<Rightarrow> int option \<Rightarrow> json client_op" where
  "music_search px q page limit = proxyRequest px (search_path ''/albums'' q page limit) None"

definition music_get :: "proxy_client \<Rightarrow> string \<Rightarrow> json client_op" where
  "music_get px albumId = proxyRequest px (''/albums/'' @ albumId) None"

definition music_bulk :: "proxy_client \<Rightarrow> string list \<Rightarrow> json client_op" where
  "music_bulk px ids = proxyRequest px (bulk_path ''/albums'' ids) None"

definition video_searchMovies :: "proxy_client \<Rightarrow> string \<Rightarrow> int option \<Rightarrow> int option \<Rightarrow> json client_op" where
  "video_searchMovies px q page limit = proxyRequest px (search_path ''/movies'' q page limit) None"

definition video_searchTVShows :: "proxy_client \<Rightarrow> string \<Rightarrow> int option \<Rightarrow> int option \<Rightarrow> json client_op" where
  "video_searchTVShows px q page limit = proxyRequest px (search_path ''/tv-shows'' q page limit) None"

definition video_getMovie :: "proxy_client \<Rightarrow> string \<Rightarrow> string option \<Rightarrow> json client_op" where
  "video_getMovie px movieId country = proxy_getWithCountry px (''/movies/'' @ movieId) country"

definition video_getTVShow :: "proxy_client \<Rightarrow> string \<Rightarrow> string option \<Rightarrow> json client_op" where
  "video_getTVShow px tvId country = proxy_getWithCountry px (''/tv-shows/'' @ tvId) country"

definition video_getTVSeason :: "proxy_client \<Rightarrow> string \<Rightarrow> int \<Rightarrow> string option \<Rightarrow> json client_op" where
  "video_getTVSeason px tvId seasonNumber country =
     proxy_getWithCountry px (''/tv-shows/'' @ tvId @ ''/seasons/'' @ show_int seasonNumber) country"

definition video_bulkMovies :: "proxy_client \<Rightarrow> string list \<Rightarrow> string option \<Rightarrow> json client_op" where
  "video_bulkMovies px ids country = proxy_getWithCountry px (bulk_path ''/movies'' ids) country"

definition video_bulkTVShows :: "proxy_client \<Rightarrow> string list \<Rightarrow> string option \<Rightarrow> json client_op" where
  "video_bulkTVShows px ids country = proxy_getWithCountry px (bulk_path ''/tv-shows'' ids) country"

fun browse_type_str :: "browse_type \<Rightarrow> string" where
  "browse_type_str BrowseMovies = ''movies''"
| "browse_type_str BrowseTVShows = ''tv-shows''"
| "browse_type_str BrowseGames = ''games''"
| "browse_type_str BrowseMusic = ''music''"
| "browse_type_str BrowseBooks = ''books''"

definition browse_get ::
  "proxy_client \<Rightarrow> browse_type \<Rightarrow> int \<Rightarrow> string \<Rightarrow> string option \<Rightarrow> string option \<Rightarrow> json client_op" where
  "browse_get px type page srt q country =
     proxy_getWithCountry px (''/browse?'' @ params_string
       ([(''type'', if type = BrowseMusic then ''albums'' else browse_type_str type),
         (''page'', show_int page), (''sort'', srt)] @ text_param ''q'' q)) country"

definition multiSearch ::
  "proxy_client \<Rightarrow> string \<Rightarrow> string option \<Rightarrow> int option \<Rightarrow> string option \<Rightarrow> string option \<Rightarrow> json client_op" where
  "multiSearch px q types limit adult country =
     proxyRequest px (''/search?'' @ params_string
       ((''q'', q) # text_param ''types'' types @ nonzero_param ''limit'' limit @ text_param ''adult'' adult)) country"

definition homepage_call :: "browser option \<Rightarrow> int option \<Rightarrow> string option \<Rightarrow> call" where
  "homepage_call window limit country =
     (let c = or_str country (getUserCountryCode window) in
      \<lparr>cl_method = ''GET'', cl_url = ''/api/proxy/homepage?'' @ params_string [(''limit'', show_int (nullish limit 10))],
       cl_headers = (if c \<noteq> [] then [(''x-user-country'', c)] else []), cl_body = NoBody, cl_timeout = None\<rparr>)"

definition getSuggestions :: "browser option \<Rightarrow> int option \<Rightarrow> string option \<Rightarrow> json client_op" where
  "getSuggestions window limit country =
     then_c (fetch_c (homepage_call window limit country)) (\<lambda>response env s.
       if \<not> status_ok (us_status response) then
         (if payload_or_empty env response = JNull then (Inl (Failure (JsError ''TypeError'')), s)
          else (Inl (Failure (JsError (''Homepage request failed ('' @ show_int (us_status response) @ '')'' @
            (case json_str (json_field ''message'' (payload_or_empty env response)) of
               None \<Rightarrow> [] | Some m \<Rightarrow> '': '' @ m)))), s))
       else (case ce_parse env (us_text response) of
              None \<Rightarrow> (Inl (Failure (JsError ''SyntaxError'')), s) | Some v \<Rightarrow> (Inr v, s)))"

end
