(* ===== verification/PublicProfile.thy ===== *)
theory PublicProfile
  imports SessionView ResourceRequests
begin

text \<open>
  Public profiles: their data (\<open>lib/types/profile.ts\<close>), the search parameters of the page
  (\<open>lib/profileSearch.ts\<close>), the requests (\<open>lib/api/actions/profile.ts\<close>), the banner
  (\<open>PublicProfilePage/utils.ts\<close>) and the optimistic change of the own profile
  (\<open>lib/api/mutations/usePublicProfileMutation.ts\<close>).
\<close>

subsection \<open>Data\<close>

record local_content_summary =
  lcs_id :: int
  lcs_type :: content_type
  lcs_season_number :: "int option"
  lcs_title :: string
  lcs_subtitle :: "string option"
  lcs_date :: "string option"
  lcs_poster :: "string option"
  lcs_backdrop :: "string option"
  lcs_authors :: "author list option"
  lcs_moderation :: "moderation_summary option"

record public_profile_identity =
  ppi_username :: string
  ppi_bio :: string
  ppi_avatar_url :: string
  ppi_joined_at :: string
  ppi_banner_content_id :: "int option"
  ppi_banner_image_id :: "int option"

record public_profile_counters =
  ppc_completed :: int
  ppc_ratings :: int
  ppc_reviews :: int
  ppc_public_lists :: int
  ppc_completed_by_type :: "(content_type \<times> int) list"

record public_completed_item =
  pci_content :: local_content_summary
  pci_completed_at :: "string option"
  pci_is_favorite :: bool
  pci_score :: "string option"

record public_rating_item =
  pri_id :: int
  pri_content :: local_content_summary
  pri_score :: string
  pri_review :: "string option"
  pri_spoiler :: bool
  pri_is_favorite :: bool
  pri_created_at :: string
  pri_updated_at :: string

record public_list_summary =
  pls_id :: int
  pls_name :: string
  pls_description :: "string option"
  pls_list_type :: list_type
  pls_visibility :: list_visibility
  pls_is_owner :: bool
  pls_owner :: string
  pls_collaborators :: "string list"
  pls_item_count :: int
  pls_member_count :: int
  pls_created_at :: string
  pls_updated_at :: string

record public_favorite =
  pfv_content :: local_content_summary
  pfv_favorited_at :: "string option"
  pfv_score :: "string option"

text \<open>
  The id of an image may be absent, \<open>null\<close> or a number: \<open>None\<close>, \<open>Some None\<close>, \<open>Some (Some n)\<close>.
\<close>

record profile_banner_media =
  pbm_content_id :: int
  pbm_type :: content_type
  pbm_image_id :: "int option option"
  pbm_image_url :: string
  pbm_treatment :: "banner_treatment option"

record profile_banner_option = profile_banner_media +
  pbo_title :: string
  pbo_authors :: "string list option"

record public_profile_overview =
  pov_profile :: "public_profile_identity option"
  pov_counters :: public_profile_counters
  pov_favorites :: "(content_type \<times> public_favorite list option) list"
  pov_recent_reviews :: "public_rating_item list"
  pov_recent_completed :: "public_completed_item list"
  pov_public_lists :: "public_list_summary list"
  pov_banner_media :: "profile_banner_media list"
  pov_selected_banner :: "profile_banner_media option"
  pov_banner_options :: "profile_banner_option list"

record public_profile_update =
  ppu_bio :: string
  ppu_avatar_url :: string
  ppu_banner_content_id :: "int option"
  ppu_banner_image_id :: "int option"

subsection \<open>Content of a profile\<close>

definition profile_authors :: "local_content_summary \<Rightarrow> author list option" where
  "profile_authors item =
     (case lcs_authors item of
        Some as \<Rightarrow> Some as
      | None \<Rightarrow> if truthy_str (lcs_subtitle item)
                then Some [\<lparr>au_name = the (lcs_subtitle item), au_type = AuthorPerson\<rparr>] else None)"

definition getProfileContentAttribution :: "local_content_summary \<Rightarrow> string" where
  "getProfileContentAttribution content =
     (let authors = formatAuthors (map_option (map au_name) (lcs_authors content)) 2 in
      if authors \<noteq> [] then authors
      else if lcs_type content = SEASON then [] else or_str (lcs_subtitle content) [])"

subsection \<open>The banner\<close>

definition banner_of_option :: "profile_banner_option \<Rightarrow> profile_banner_media" where
  "banner_of_option option = profile_banner_media.truncate option"

definition getSelectedBannerMedia :: "public_profile_overview \<Rightarrow> profile_banner_media option" where
  "getSelectedBannerMedia overview =
     (case pov_profile overview of
        None \<Rightarrow> None
      | Some profile \<Rightarrow>
          (case ppi_banner_content_id profile of
             None \<Rightarrow> None
           | Some contentId \<Rightarrow>
               let imageId = ppi_banner_image_id profile in
               case pov_selected_banner overview of
                 Some b \<Rightarrow>
                   if pbm_content_id b = contentId \<and> pbm_image_id b = Some imageId then Some b
                   else map_option banner_of_option
                     (find (\<lambda>opt. pbm_content_id opt = contentId \<and> pbm_image_id opt = Some imageId) (pov_banner_options overview))
               | None \<Rightarrow>
                   map_option banner_of_option
                     (find (\<lambda>opt. pbm_content_id opt = contentId \<and> pbm_image_id opt = Some imageId) (pov_banner_options overview))))"

definition favorite_items :: "public_profile_overview \<Rightarrow> public_favorite list" where
  "favorite_items overview = concat (map (\<lambda>(_, items). nullish items []) (pov_favorites overview))"

definition favorite_media :: "public_favorite \<Rightarrow> profile_banner_media list" where
  "favorite_media f =
     (let content = pfv_content f;
          imageUrl = (if truthy_str (lcs_backdrop content) then lcs_backdrop content else lcs_poster content) in
      if truthy_str imageUrl
      then [\<lparr>pbm_content_id = lcs_id content, pbm_type = lcs_type content, pbm_image_id = None,
             pbm_image_url = the imageUrl,
             pbm_treatment = Some (if truthy_str (lcs_backdrop content) then Cover else ContainedPoster)\<rparr>]
      else [])"

definition banner_candidates :: "public_profile_overview \<Rightarrow> profile_banner_media list" where
  "banner_candidates overview =
     (if pov_banner_media overview \<noteq> [] then pov_banner_media overview
      else map snd (map_from (map (\<lambda>m. (show_int (pbm_content_id m) @ '':'' @ pbm_image_url m, m))
        (concat (map favorite_media (favorite_items overview))))))"

text \<open>\<open>random\<close> is the number that was drawn.\<close>

definition pickRandomFavoriteBanner :: "public_profile_overview \<Rightarrow> rat \<Rightarrow> profile_banner_media option" where
  "pickRandomFavoriteBanner overview random =
     (case getSelectedBannerMedia overview of
        Some b \<Rightarrow> Some b
      | None \<Rightarrow>
          let candidates = banner_candidates overview in
          if candidates = [] then None
          else
            let index = min \<lfloor>random * of_nat (length candidates)\<rfloor> (int (length candidates) - 1) in
            if 0 \<le> index \<and> index < int (length candidates) then Some (candidates ! nat index) else None)"

definition isFavoriteBannerMedia :: "profile_banner_media \<Rightarrow> public_profile_overview \<Rightarrow> bool" where
  "isFavoriteBannerMedia media overview \<longleftrightarrow>
     list_ex (\<lambda>f. lcs_id (pfv_content f) = pbm_content_id media) (favorite_items overview)"

subsection \<open>The search parameters of the page\<close>

datatype profile_tab = TabOverview | TabProgress | TabLists

datatype tv_kind = KindAll | KindSeries | KindSeasons

datatype profile_role = RoleAll | RoleOwner | RoleMember

datatype profile_view = ViewGrid | ViewList

fun profile_tab_str :: "profile_tab \<Rightarrow> string" where
  "profile_tab_str TabOverview = ''overview''"
| "profile_tab_str TabProgress = ''progress''"
| "profile_tab_str TabLists = ''lists''"

fun tv_kind_str :: "tv_kind \<Rightarrow> string" where
  "tv_kind_str KindAll = ''all''"
| "tv_kind_str KindSeries = ''series''"
| "tv_kind_str KindSeasons = ''seasons''"

fun profile_role_str :: "profile_role \<Rightarrow> string" where
  "profile_role_str RoleAll = ''all''"
| "profile_role_str RoleOwner = ''owner''"
| "profile_role_str RoleMember = ''member''"

fun profile_view_str :: "profile_view \<Rightarrow> string" where
  "profile_view_str ViewGrid = ''grid''"
| "profile_view_str ViewList = ''list''"

definition sort_order_name :: "sort_order \<Rightarrow> string" where
  "sort_order_name d = (case d of Asc \<Rightarrow> ''asc'' | Desc \<Rightarrow> ''desc'')"

record profile_search =
  psp_tab :: profile_tab
  psp_type :: "content_type list option"
  psp_q :: "string option"
  psp_sort :: "string option"
  psp_order :: "sort_order option"
  psp_page :: int
  psp_status :: "tracking_status list option"
  psp_tvKind :: "tv_kind option"
  psp_rated :: "bool option"
  psp_reviewed :: "bool option"
  psp_favorite :: "bool option"
  psp_minScore :: "rat option"
  psp_maxScore :: "rat option"
  psp_role :: "profile_role option"
  psp_view :: "profile_view option"

definition profileContentTypes :: "content_type list" where
  "profileContentTypes = [MOVIE, TV_SHOW, SEASON, GAME, ALBUM, BOOK]"

definition trackingStatuses :: "tracking_status list" where
  "trackingStatuses = [Backlog, InProgress, Completed, OnHold, Dropped]"

text \<open>\<open>Number\<close> of a JSON value; \<open>None\<close> is \<open>undefined\<close>.  An array of one element counts as the element.\<close>

fun json_Number :: "json option \<Rightarrow> js_num" where
  "json_Number None = NaN"
| "json_Number (Some JNull) = Fin 0"
| "json_Number (Some (JBool b)) = Fin (if b then 1 else 0)"
| "json_Number (Some (JNum n)) = n"
| "json_Number (Some (JStr t)) = js_Number t"
| "json_Number (Some (JArr [])) = Fin 0"
| "json_Number (Some (JArr [JNum n])) = n"
| "json_Number (Some (JArr [JStr t])) = js_Number t"
| "json_Number (Some (JArr [JNull])) = Fin 0"
| "json_Number (Some _) = NaN"

text \<open>
  The schemas, by the documented meaning of the validators: an integer is a safe one, a number is
  finite, and a failed field falls back to what \<open>catch\<close> names.
\<close>

definition MAX_SAFE_INTEGER :: int where "MAX_SAFE_INTEGER = 9007199254740991"

definition positivePage :: "json option \<Rightarrow> int" where
  "positivePage v =
     (case json_Number v of
        Fin r \<Rightarrow> if r = of_int \<lfloor>r\<rfloor> \<and> 1 \<le> \<lfloor>r\<rfloor> \<and> \<lfloor>r\<rfloor> \<le> MAX_SAFE_INTEGER then \<lfloor>r\<rfloor> else 1
      | _ \<Rightarrow> 1)"

definition optionalScore :: "json option \<Rightarrow> rat option" where
  "optionalScore v =
     (if v = None \<or> v = Some (JStr []) then None
      else (case json_Number v of Fin r \<Rightarrow> if 1 / 2 \<le> r \<and> r \<le> 10 then Some r else None | _ \<Rightarrow> None))"

definition optionalBoolean :: "json option \<Rightarrow> bool option" where
  "optionalBoolean v =
     (if v = Some (JBool True) \<or> v = Some (JStr ''true'') then Some True
      else if v = Some (JBool False) \<or> v = Some (JStr ''false'') then Some False else None)"

definition enum_of :: "('a \<Rightarrow> string) \<Rightarrow> 'a list \<Rightarrow> json option \<Rightarrow> 'a option" where
  "enum_of str vs v = (case json_str v of None \<Rightarrow> None | Some t \<Rightarrow> find (\<lambda>x. str x = t) vs)"

definition short_text :: "int \<Rightarrow> json option \<Rightarrow> string option" where
  "short_text limit v =
     (case json_str v of
        None \<Rightarrow> None
      | Some t \<Rightarrow> if int (length (js_trim t)) \<le> limit then Some (js_trim t) else None)"

definition normalizeFilterArray :: "json option \<Rightarrow> json option" where
  "normalizeFilterArray v =
     (case v of
        Some (JStr t) \<Rightarrow>
          if t = [] then None
          else Some (JArr (map JStr (filter (\<lambda>w. w \<noteq> []) (map js_trim (js_split CHR '','' t)))))
      | _ \<Rightarrow> v)"

definition profileFilterArray :: "('a \<Rightarrow> string) \<Rightarrow> 'a list \<Rightarrow> json option \<Rightarrow> 'a list option" where
  "profileFilterArray str allowedValues v =
     (case normalizeFilterArray v of
        Some (JArr vs) \<Rightarrow>
          if list_all (\<lambda>x. enum_of str allowedValues (Some x) \<noteq> None) vs \<and> length vs \<le> length allowedValues
          then Some (filter (\<lambda>a. JStr (str a) \<in> set vs) allowedValues) else None
      | _ \<Rightarrow> None)"

text \<open>\<open>None\<close> is the error of a value that is no object.\<close>

definition publicProfileSearchSchema :: "json \<Rightarrow> profile_search option" where
  "publicProfileSearchSchema input =
     (case input of
        JObj _ \<Rightarrow>
          let f = (\<lambda>k. json_field k input) in
          Some \<lparr>psp_tab = nullish (enum_of profile_tab_str [TabOverview, TabProgress, TabLists] (f ''tab'')) TabOverview,
            psp_type = profileFilterArray content_type_str profileContentTypes (f ''type''),
            psp_q = short_text 100 (f ''q''), psp_sort = short_text 24 (f ''sort''),
            psp_order = enum_of sort_order_name [Asc, Desc] (f ''order''),
            psp_page = positivePage (f ''page''),
            psp_status = profileFilterArray tracking_status_str trackingStatuses (f ''status''),
            psp_tvKind = enum_of tv_kind_str [KindAll, KindSeries, KindSeasons] (f ''tvKind''),
            psp_rated = optionalBoolean (f ''rated''), psp_reviewed = optionalBoolean (f ''reviewed''),
            psp_favorite = optionalBoolean (f ''favorite''),
            psp_minScore = optionalScore (f ''minScore''), psp_maxScore = optionalScore (f ''maxScore''),
            psp_role = enum_of profile_role_str [RoleAll, RoleOwner, RoleMember] (f ''role''),
            psp_view = enum_of profile_view_str [ViewGrid, ViewList] (f ''view'')\<rparr>
      | _ \<Rightarrow> None)"

definition profileDataSearchParams :: "profile_search \<Rightarrow> profile_search" where
  "profileDataSearchParams search = search\<lparr>psp_view := None\<rparr>"

subsection \<open>Requests\<close>

definition profile_endpoint :: "string \<Rightarrow> string" where
  "profile_endpoint username = ''/profiles/'' @ encodeURIComponent username @ ''/''"

definition profile_overview :: "string \<Rightarrow> json client_op" where
  "profile_overview username = api_get (profile_endpoint username)"

text \<open>The page of a tab: the parameters as the strings that are sent.\<close>

definition bool_text :: "bool \<Rightarrow> string" where
  "bool_text b = (if b then ''true'' else ''false'')"

definition profile_page_params :: "(rat \<Rightarrow> string) \<Rightarrow> profile_search \<Rightarrow> param_fields" where
  "profile_page_params number search =
     [(''tab'', None), (''type'', map_option (\<lambda>ts. js_join '','' (map content_type_str ts)) (psp_type search)),
      (''q'', psp_q search), (''sort'', psp_sort search), (''order'', map_option sort_order_name (psp_order search)),
      (''page'', Some (show_int (psp_page search))),
      (''status'', map_option (\<lambda>ts. js_join '','' (map tracking_status_str ts)) (psp_status search)),
      (''tvKind'', map_option tv_kind_str (psp_tvKind search)),
      (''rated'', map_option bool_text (psp_rated search)), (''reviewed'', map_option bool_text (psp_reviewed search)),
      (''favorite'', map_option bool_text (psp_favorite search)),
      (''minScore'', map_option number (psp_minScore search)), (''maxScore'', map_option number (psp_maxScore search)),
      (''role'', map_option profile_role_str (psp_role search)), (''view'', None)]"

definition profilePage ::
  "(rat \<Rightarrow> string) \<Rightarrow> browser option \<Rightarrow> string \<Rightarrow> profile_tab \<Rightarrow> profile_search \<Rightarrow> json client_op" where
  "profilePage number window username tab search =
     api_get (profile_endpoint username @ profile_tab_str tab @ ''/'' @
       buildQueryString window (Some (profile_page_params number search)) False None)"

definition json_of_profile_update :: "public_profile_update \<Rightarrow> json" where
  "json_of_profile_update d =
     (let number = (\<lambda>n. case n of None \<Rightarrow> JNull | Some k \<Rightarrow> JNum (Fin (of_int k))) in
      JObj [(''bio'', JStr (ppu_bio d)), (''avatar_url'', JStr (ppu_avatar_url d)),
        (''banner_content_id'', number (ppu_banner_content_id d)), (''banner_image_id'', number (ppu_banner_image_id d))])"

definition profile_updateMe :: "public_profile_update \<Rightarrow> json client_op" where
  "profile_updateMe d = api_patch ''/profiles/me/'' (Some (json_of_profile_update d))"

subsection \<open>Changing the own profile\<close>

text \<open>The cached overviews by user name, and \<open>{...user, bio, avatar_url}\<close>.\<close>

type_synonym overview_cache = "(string \<times> public_profile_overview) list"

definition with_profile_fields :: "string \<Rightarrow> string \<Rightarrow> json \<Rightarrow> json" where
  "with_profile_fields bio avatar user =
     JObj (AList.update ''avatar_url'' (JStr avatar) (AList.update ''bio'' (JStr bio)
       (case user of JObj fs \<Rightarrow> fs | _ \<Rightarrow> [])))"

definition patch_overview :: "public_profile_update \<Rightarrow> public_profile_overview \<Rightarrow> public_profile_overview" where
  "patch_overview d overview = overview\<lparr>pov_profile := map_option (\<lambda>p. p
     \<lparr>ppi_bio := ppu_bio d, ppi_avatar_url := ppu_avatar_url d,
      ppi_banner_content_id := ppu_banner_content_id d, ppi_banner_image_id := ppu_banner_image_id d\<rparr>)
     (pov_profile overview)\<rparr>"

definition update_overview ::
  "string \<Rightarrow> (public_profile_overview \<Rightarrow> public_profile_overview) \<Rightarrow> overview_cache \<Rightarrow> overview_cache" where
  "update_overview username f cache =
     (case map_of cache username of None \<Rightarrow> cache | Some v \<Rightarrow> AList.update username (f v) cache)"

definition patch_user :: "string \<Rightarrow> string \<Rightarrow> auth_state \<Rightarrow> auth_state" where
  "patch_user bio avatar st =
     (if field_truthy (au_user st) then setUser (Some (with_profile_fields bio avatar (the (au_user st)))) st else st)"

definition profile_onMutate ::
  "string \<Rightarrow> public_profile_update \<Rightarrow> client_state \<times> overview_cache \<Rightarrow>
     (public_profile_overview option \<times> json option) \<times> client_state \<times> overview_cache" where
  "profile_onMutate username d st =
     (case st of (s, cache) \<Rightarrow>
        ((map_of cache username, au_user (cs_auth s)),
         s\<lparr>cs_auth := patch_user (ppu_bio d) (ppu_avatar_url d) (cs_auth s)\<rparr>,
         update_overview username (patch_overview d) cache))"

definition profile_onError ::
  "string \<Rightarrow> public_profile_overview option \<times> json option \<Rightarrow> client_state \<times> overview_cache \<Rightarrow>
     client_state \<times> overview_cache" where
  "profile_onError username context st =
     (case context of (previousOverview, previousUser) \<Rightarrow> case st of (s, cache) \<Rightarrow>
        (s\<lparr>cs_auth := setUser (Some (nullish previousUser JNull)) (cs_auth s)\<rparr>,
         case previousOverview of None \<Rightarrow> cache | Some v \<Rightarrow> AList.update username v cache))"

definition confirm_overview :: "public_profile_identity \<Rightarrow> public_profile_overview \<Rightarrow> public_profile_overview" where
  "confirm_overview profile overview = overview
     \<lparr>pov_profile := Some profile,
      pov_selected_banner :=
        (case ppi_banner_content_id profile of
           None \<Rightarrow> None
         | Some contentId \<Rightarrow>
             map_option banner_of_option
               (find (\<lambda>opt. pbm_content_id opt = contentId \<and> pbm_image_id opt = Some (ppi_banner_image_id profile))
                 (pov_banner_options overview)))\<rparr>"

definition profile_onSuccess ::
  "string \<Rightarrow> public_profile_identity \<Rightarrow> client_state \<times> overview_cache \<Rightarrow> client_state \<times> overview_cache" where
  "profile_onSuccess username profile st =
     (case st of (s, cache) \<Rightarrow>
        (s\<lparr>cs_auth := patch_user (ppi_bio profile) (ppi_avatar_url profile) (cs_auth s)\<rparr>,
         update_overview username (confirm_overview profile) cache))"

text \<open>
  The whole mutation with its toast; the declared type of the answer is relied on and read by
  \<open>as_identity\<close>.
\<close>

definition run_profile_update ::
  "(json \<Rightarrow> public_profile_identity) \<Rightarrow> string \<Rightarrow> public_profile_update \<Rightarrow> client_env \<Rightarrow>
     client_state \<times> overview_cache \<Rightarrow> string \<times> client_state \<times> overview_cache" where
  "run_profile_update as_identity username d env st =
     (case profile_onMutate username d st of (context, s, cache) \<Rightarrow>
        case profile_updateMe d env s of
          (Inl e, s) \<Rightarrow> (or_str (Some (client_message e)) ''Could not update your profile.'',
                        profile_onError username context (s, cache))
        | (Inr v, s) \<Rightarrow> (''Profile updated.'', profile_onSuccess username (as_identity v) (s, cache)))"

subsection \<open>A failed change\<close>

lemma updateMe_auth: "cs_auth (snd (profile_updateMe d env s)) = session_after (fst (profile_updateMe d env s)) (cs_auth s)"
  using api_request_run [where verb = "''PATCH''" and endpoint = "''/profiles/me/''"
      and body = "api_body (Some (json_of_profile_update d))" and env = env and s = s]
  by (simp add: profile_updateMe_def api_patch_def case_prod_beta)

lemma update_overview_back:
  "(case map_of cache u of None \<Rightarrow> update_overview u f cache | Some v \<Rightarrow> AList.update u v (update_overview u f cache)) = cache"
proof (cases "map_of cache u")
  case None
  then show ?thesis by (simp add: update_overview_def)
next
  case (Some v)
  have "AList.update u v cache = cache" using Some by (induction cache) (auto split: if_splits)
  with Some show ?thesis by (simp add: update_overview_def update_update_same)
qed

definition rejected :: "client_error \<Rightarrow> bool" where
  "rejected e \<longleftrightarrow> (case e of ApiRequestError n _ _ \<Rightarrow> n = 401 | Failure _ \<Rightarrow> False)"

lemma patch_user_fields:
  "au_error (patch_user b a st) = au_error st" "au_isLoading (patch_user b a st) = au_isLoading st"
  "au_resolution (patch_user b a st) = au_resolution st"
  by (simp_all add: patch_user_def setUser_def)

text \<open>C14. A change of the profile that fails restores the cached profile and the user exactly, unless it
  fails because the session was rejected: then the session is expired, but the user is put back
  and is signed in again as far as the protected pages can tell.\<close>

theorem failed_profile_update:
  fixes s :: client_state
  assumes "au_isAuthenticated (cs_auth s) = field_truthy (au_user (cs_auth s))" "au_user (cs_auth s) \<noteq> None"
    and "profile_updateMe d env (fst (snd (profile_onMutate username d (s, cache)))) = (Inl e, s1)"
  shows "snd (snd (run_profile_update as_identity username d env (s, cache))) = cache \<and>
    cs_auth (fst (snd (run_profile_update as_identity username d env (s, cache)))) =
      (if rejected e then setUser (au_user (cs_auth s)) (setSessionResolution ResExpired (clearSession (cs_auth s)))
       else cs_auth s) \<and>
    protected_view (setUser (au_user (cs_auth s)) (setSessionResolution ResExpired (clearSession (cs_auth s)))) =
      (if au_isAuthenticated (cs_auth s) then Children else Nothing)"
proof -
  let ?s = "s\<lparr>cs_auth := patch_user (ppu_bio d) (ppu_avatar_url d) (cs_auth s)\<rparr>"
  obtain u where u: "au_user (cs_auth s) = Some u" using assms(2) by auto
  have run: "profile_updateMe d env ?s = (Inl e, s1)" using assms(3) by (simp add: profile_onMutate_def)
  have s1: "cs_auth s1 = session_after (Inl e) (patch_user (ppu_bio d) (ppu_avatar_url d) (cs_auth s))"
    using updateMe_auth [of d env ?s] run by simp
  have final: "cs_auth (fst (snd (run_profile_update as_identity username d env (s, cache)))) =
      setUser (au_user (cs_auth s)) (cs_auth s1)"
    using run u by (simp add: run_profile_update_def profile_onMutate_def profile_onError_def nullish_def)
  have undone: "setUser (au_user (cs_auth s)) (patch_user b a (cs_auth s)) = cs_auth s" for b a
    using assms(1) by (simp add: patch_user_def setUser_def)
  have "cs_auth (fst (snd (run_profile_update as_identity username d env (s, cache)))) =
      (if rejected e then setUser (au_user (cs_auth s)) (setSessionResolution ResExpired (clearSession (cs_auth s)))
       else cs_auth s)"
    unfolding final s1 session_after_def
    by (cases e) (auto simp: undone rejected_def clearSession_def setAnonymous_def)
  moreover have "snd (snd (run_profile_update as_identity username d env (s, cache))) = cache"
    using run update_overview_back [where cache = cache and u = username and f = "patch_overview d"]
    by (simp add: run_profile_update_def profile_onMutate_def profile_onError_def split: option.splits)
  moreover have "protected_view (setUser (au_user (cs_auth s)) (setSessionResolution ResExpired (clearSession (cs_auth s)))) =
      (if au_isAuthenticated (cs_auth s) then Children else Nothing)"
    using assms(1) by (simp add: view_defs setUser_def auth_store_defs)
  ultimately show ?thesis by blast
qed

text \<open>The banner is always one of the candidates: whatever number of the unit interval is drawn, the
  index stays in range, and there is a banner unless there is no candidate at all.\<close>

theorem banner_in_range:
  assumes "0 \<le> random" "random \<le> 1" "getSelectedBannerMedia overview = None"
  shows "case pickRandomFavoriteBanner overview random of
      None \<Rightarrow> banner_candidates overview = []
    | Some b \<Rightarrow> b \<in> set (banner_candidates overview)"
proof (cases "banner_candidates overview = []")
  case True
  with assms(3) show ?thesis by (simp add: pickRandomFavoriteBanner_def)
next
  case False
  let ?n = "length (banner_candidates overview)"
  define index where "index = min \<lfloor>random * of_nat ?n\<rfloor> (int ?n - 1)"
  have "0 < ?n" using False by simp
  moreover have "0 \<le> random * (of_nat ?n :: rat)" using assms(1) by simp
  ultimately have i: "0 \<le> index" "index < int ?n" by (auto simp: index_def)
  then have "pickRandomFavoriteBanner overview random = Some (banner_candidates overview ! nat index)"
    using assms(3) False by (simp add: pickRandomFavoriteBanner_def Let_def index_def)
  moreover have "nat index < ?n" using i by linarith
  ultimately show ?thesis by simp
qed

subsection \<open>The search parameters are stable\<close>

text \<open>An object without its undefined fields, as the router keeps the search in the address.\<close>

fun defined_fields :: "(string \<times> json option) list \<Rightarrow> (string \<times> json) list" where
  "defined_fields [] = []"
| "defined_fields ((k, None) # kvs) = defined_fields kvs"
| "defined_fields ((k, Some j) # kvs) = (k, j) # defined_fields kvs"

definition object_of :: "(string \<times> json option) list \<Rightarrow> json" where
  "object_of kvs = JObj (defined_fields kvs)"

definition search_object :: "profile_search \<Rightarrow> json" where
  "search_object p =
     (object_of
       [(''tab'', Some (JStr (profile_tab_str (psp_tab p)))),
        (''type'', map_option (\<lambda>xs. JArr (map (\<lambda>x. JStr (content_type_str x)) xs)) (psp_type p)),
        (''q'', map_option JStr (psp_q p)), (''sort'', map_option JStr (psp_sort p)),
        (''order'', map_option (\<lambda>x. JStr (sort_order_name x)) (psp_order p)),
        (''page'', Some (JNum (Fin (of_int (psp_page p))))),
        (''status'', map_option (\<lambda>xs. JArr (map (\<lambda>x. JStr (tracking_status_str x)) xs)) (psp_status p)),
        (''tvKind'', map_option (\<lambda>x. JStr (tv_kind_str x)) (psp_tvKind p)),
        (''rated'', map_option JBool (psp_rated p)), (''reviewed'', map_option JBool (psp_reviewed p)),
        (''favorite'', map_option JBool (psp_favorite p)),
        (''minScore'', map_option (\<lambda>r. JNum (Fin r)) (psp_minScore p)),
        (''maxScore'', map_option (\<lambda>r. JNum (Fin r)) (psp_maxScore p)),
        (''role'', map_option (\<lambda>x. JStr (profile_role_str x)) (psp_role p)),
        (''view'', map_option (\<lambda>x. JStr (profile_view_str x)) (psp_view p))])"

lemma defined_keys: "fst ` set (defined_fields kvs) \<subseteq> fst ` set kvs"
  by (induction kvs rule: defined_fields.induct) auto

lemma defined_distinct: "distinct (map fst kvs) \<Longrightarrow> distinct (map fst (defined_fields kvs))"
  using defined_keys by (induction kvs rule: defined_fields.induct) force+

lemma defined_lookup:
  "distinct (map fst kvs) \<Longrightarrow> map_of (defined_fields kvs) k = Option.bind (map_of kvs k) (\<lambda>v. v)"
proof (induction kvs rule: defined_fields.induct)
  case (2 a kvs)
  moreover from 2 have "map_of (defined_fields kvs) a = None" "map_of kvs a = None"
    using defined_keys [of kvs] by (auto simp: map_of_eq_None_iff)
  ultimately show ?case by simp
qed simp_all

lemma map_of_rev_distinct: "distinct (map fst xs) \<Longrightarrow> map_of (rev xs) = map_of xs"
  by (subst map_of_inject_set) (simp_all add: rev_map [symmetric])

lemma object_lookup:
  "distinct (map fst kvs) \<Longrightarrow> json_field k (object_of kvs) = Option.bind (map_of kvs k) (\<lambda>v. v)"
  by (simp add: json_field_def object_of_def map_of_rev_distinct defined_distinct defined_lookup)

lemma enum_stable: "enum_of str vs v = Some x \<Longrightarrow> enum_of str vs (Some (JStr (str x))) = Some x"
  unfolding enum_of_def json_str_def
  by (auto split: option.splits json.splits dest: find_Some_mem)

lemma enum_again: "enum_of str vs (map_option (\<lambda>x. JStr (str x)) (enum_of str vs v)) = enum_of str vs v"
  using enum_stable [of str vs v]
  by (cases "enum_of str vs v") (simp_all add: enum_of_def [of _ _ None] json_str_def)

lemma js_trim_again: "js_trim (js_trim t) = js_trim t"
proof (cases "js_trim t = []")
  case False
  have "\<not> is_space (hd (js_trim t))" using js_trim_first False by (metis list.exhaust_sel)
  moreover have "\<not> is_space (last (js_trim t))"
    using False hd_dropWhile [of is_space "rev (dropWhile is_space t)"] unfolding js_trim_def by (simp add: last_rev)
  ultimately show ?thesis by (intro js_trim_idle) blast
qed simp

lemma short_text_again: "short_text n (map_option JStr (short_text n v)) = short_text n v"
  by (auto simp: short_text_def json_str_def js_trim_again split: option.splits json.splits)

lemma positivePage_range: "1 \<le> positivePage v \<and> positivePage v \<le> MAX_SAFE_INTEGER"
  by (simp add: positivePage_def MAX_SAFE_INTEGER_def split: js_num.split)

lemma positivePage_again: "positivePage (Some (JNum (Fin (of_int (positivePage v))))) = positivePage v"
  using positivePage_range [of v] by (simp add: positivePage_def [of "Some _"])

lemma optionalScore_range: "optionalScore v = Some r \<Longrightarrow> 1 / 2 \<le> r \<and> r \<le> 10"
  by (auto simp: optionalScore_def split: js_num.splits if_splits)

lemma optionalScore_again: "optionalScore (map_option (\<lambda>r. JNum (Fin r)) (optionalScore v)) = optionalScore v"
proof (cases "optionalScore v")
  case (Some r)
  then show ?thesis using optionalScore_range [OF Some] by (simp add: optionalScore_def [of "Some _"])
qed (simp add: optionalScore_def)

lemma optionalBoolean_again: "optionalBoolean (map_option JBool (optionalBoolean v)) = optionalBoolean v"
  by (cases "optionalBoolean v") (auto simp: optionalBoolean_def)

lemma filter_array_sub: "pred_option (\<lambda>xs. \<exists>P. xs = filter P al) (profileFilterArray str al v)"
  by (auto simp: profileFilterArray_def split: option.splits json.splits)

lemma filter_array_again:
  "profileFilterArray str al (map_option (\<lambda>xs. JArr (map (\<lambda>x. JStr (str x)) xs)) (profileFilterArray str al v)) =
     profileFilterArray str al v"
proof (cases "profileFilterArray str al v")
  case None
  then show ?thesis by (simp add: profileFilterArray_def [of _ _ None] normalizeFilterArray_def)
next
  case (Some xs)
  then obtain vs where xs: "xs = filter (\<lambda>a. JStr (str a) \<in> set vs) al"
    by (auto simp: profileFilterArray_def split: option.splits json.splits if_splits)
  have "enum_of str al (Some (JStr (str x))) \<noteq> None" if "x \<in> set al" for x
    using that by (auto simp: enum_of_def json_str_def find_None_iff)
  then have "list_all (\<lambda>x. enum_of str al (Some x) \<noteq> None) (map (\<lambda>x. JStr (str x)) xs)"
    by (auto simp: xs list_all_iff)
  moreover have "length xs \<le> length al" by (simp add: xs)
  moreover have "filter (\<lambda>a. JStr (str a) \<in> set (map (\<lambda>x. JStr (str x)) xs)) al = xs"
    unfolding xs by (rule filter_cong [OF refl]) auto
  ultimately show ?thesis by (simp add: Some profileFilterArray_def [of _ _ "Some _"] normalizeFilterArray_def)
qed

lemma tab_again:
  "enum_of profile_tab_str [TabOverview, TabProgress, TabLists] (Some (JStr (profile_tab_str t))) = Some t"
  by (cases t) (simp_all add: enum_of_def json_str_def)

lemmas schema_again = enum_again short_text_again positivePage_again optionalScore_again optionalBoolean_again
  filter_array_again tab_again

lemma schema_object:
  "publicProfileSearchSchema (object_of kvs) =
     (let f = (\<lambda>k. json_field k (object_of kvs)) in
      Some \<lparr>psp_tab = nullish (enum_of profile_tab_str [TabOverview, TabProgress, TabLists] (f ''tab'')) TabOverview,
        psp_type = profileFilterArray content_type_str profileContentTypes (f ''type''),
        psp_q = short_text 100 (f ''q''), psp_sort = short_text 24 (f ''sort''),
        psp_order = enum_of sort_order_name [Asc, Desc] (f ''order''),
        psp_page = positivePage (f ''page''),
        psp_status = profileFilterArray tracking_status_str trackingStatuses (f ''status''),
        psp_tvKind = enum_of tv_kind_str [KindAll, KindSeries, KindSeasons] (f ''tvKind''),
        psp_rated = optionalBoolean (f ''rated''), psp_reviewed = optionalBoolean (f ''reviewed''),
        psp_favorite = optionalBoolean (f ''favorite''),
        psp_minScore = optionalScore (f ''minScore''), psp_maxScore = optionalScore (f ''maxScore''),
        psp_role = enum_of profile_role_str [RoleAll, RoleOwner, RoleMember] (f ''role''),
        psp_view = enum_of profile_view_str [ViewGrid, ViewList] (f ''view'')\<rparr>)"
  by (simp add: publicProfileSearchSchema_def object_of_def)

text \<open>C24. Whatever the address of a profile holds, its search parameters come out well typed: a page
  number from 1, scores between a half and 10, filters that are parts of the allowed values in
  their order; and reading them back from the address they are written to changes nothing.\<close>

theorem profile_search_stable:
  assumes "publicProfileSearchSchema input = Some p"
  shows "1 \<le> psp_page p \<and> pred_option (\<lambda>r. 1 / 2 \<le> r \<and> r \<le> 10) (psp_minScore p) \<and>
    pred_option (\<lambda>r. 1 / 2 \<le> r \<and> r \<le> 10) (psp_maxScore p) \<and>
    pred_option (\<lambda>xs. \<exists>P. xs = filter P trackingStatuses) (psp_status p) \<and>
    pred_option (\<lambda>xs. \<exists>P. xs = filter P profileContentTypes) (psp_type p) \<and>
    publicProfileSearchSchema (search_object p) = Some p"
proof -
  obtain fs where fs: "input = JObj fs" using assms by (cases input) (simp_all add: publicProfileSearchSchema_def)
  let ?f = "\<lambda>k. json_field k input"
  have p: "p = \<lparr>psp_tab = nullish (enum_of profile_tab_str [TabOverview, TabProgress, TabLists] (?f ''tab'')) TabOverview,
      psp_type = profileFilterArray content_type_str profileContentTypes (?f ''type''),
      psp_q = short_text 100 (?f ''q''), psp_sort = short_text 24 (?f ''sort''),
      psp_order = enum_of sort_order_name [Asc, Desc] (?f ''order''),
      psp_page = positivePage (?f ''page''),
      psp_status = profileFilterArray tracking_status_str trackingStatuses (?f ''status''),
      psp_tvKind = enum_of tv_kind_str [KindAll, KindSeries, KindSeasons] (?f ''tvKind''),
      psp_rated = optionalBoolean (?f ''rated''), psp_reviewed = optionalBoolean (?f ''reviewed''),
      psp_favorite = optionalBoolean (?f ''favorite''),
      psp_minScore = optionalScore (?f ''minScore''), psp_maxScore = optionalScore (?f ''maxScore''),
      psp_role = enum_of profile_role_str [RoleAll, RoleOwner, RoleMember] (?f ''role''),
      psp_view = enum_of profile_view_str [ViewGrid, ViewList] (?f ''view'')\<rparr>"
    using assms by (simp add: publicProfileSearchSchema_def fs Let_def)
  have "publicProfileSearchSchema (search_object p) = Some p"
    unfolding search_object_def schema_object by (simp add: object_lookup p schema_again nullish_def)
  moreover have "pred_option (\<lambda>r. 1 / 2 \<le> r \<and> r \<le> 10) (optionalScore v)" for v
    using optionalScore_range by (cases "optionalScore v") auto
  ultimately show ?thesis using positivePage_range by (simp add: p filter_array_sub)
qed

definition sample_search :: json where
  "sample_search = JObj [(''tab'', JStr ''progress''), (''page'', JStr ''3''), (''minScore'', JNum (Fin 99)),
     (''status'', JStr ''dropped, backlog''), (''extra'', JNull)]"

theorem profile_search_stable_witness:
  "\<exists>p. publicProfileSearchSchema sample_search = Some p \<and> 1 \<le> psp_page p \<and>
     publicProfileSearchSchema (search_object p) = Some p"
proof -
  obtain p where p: "publicProfileSearchSchema sample_search = Some p"
    by (simp add: publicProfileSearchSchema_def sample_search_def Let_def)
  from profile_search_stable [OF p] p show ?thesis by blast
qed

definition signed_in_client :: client_state where
  "signed_in_client = \<lparr>cs_auth = setAuthenticatedUser (Some (JObj [(''id'', JNum (Fin 7))])) auth_created,
     cs_csrfToken = Some ''token'', cs_calls = []\<rparr>"

text \<open>A server that rejects every request.\<close>

definition rejecting_env :: client_env where
  "rejecting_env = \<lparr>ce_net = \<lambda>_ _. Inr \<lparr>us_status = 401, us_headers = [], us_setCookies = None, us_text = []\<rparr>,
     ce_parse = \<lambda>_. None, ce_stringify = \<lambda>_. []\<rparr>"

definition sample_update :: public_profile_update where
  "sample_update = \<lparr>ppu_bio = ''hi'', ppu_avatar_url = [], ppu_banner_content_id = None, ppu_banner_image_id = None\<rparr>"

theorem failed_profile_update_witness:
  "\<exists>s :: client_state. cs_auth s = setUser (au_user (cs_auth signed_in_client))
      (setSessionResolution ResExpired (clearSession (cs_auth signed_in_client))) \<and>
     au_isAuthenticated (cs_auth s) \<and> protected_view (cs_auth s) = Children"
proof -
  let ?s = "fst (snd (profile_onMutate ''ana'' sample_update (signed_in_client, [])))"
  have run: "fst (profile_updateMe sample_update rejecting_env ?s) =
      Inl (ApiRequestError 401 (JObj []) ''Request failed (401)'')" by code_simp
  then obtain s1 where r: "profile_updateMe sample_update rejecting_env ?s =
      (Inl (ApiRequestError 401 (JObj []) ''Request failed (401)''), s1)" by (metis prod.collapse)
  have a: "au_isAuthenticated (cs_auth signed_in_client) = field_truthy (au_user (cs_auth signed_in_client))"
    "au_user (cs_auth signed_in_client) \<noteq> None" "au_isAuthenticated (cs_auth signed_in_client)"
    by (simp_all add: signed_in_client_def auth_store_defs field_truthy_def)
  let ?f = "fst (snd (run_profile_update (\<lambda>_. undefined) ''ana'' sample_update rejecting_env (signed_in_client, [])))"
  note f = failed_profile_update [OF a(1,2) r, of "\<lambda>_. undefined", simplified rejected_def, simplified]
  show ?thesis
  proof (rule exI [of _ ?f], intro conjI)
    show auth: "cs_auth ?f = setUser (au_user (cs_auth signed_in_client))
        (setSessionResolution ResExpired (clearSession (cs_auth signed_in_client)))"
      using f by (elim conjE)
    show "au_isAuthenticated (cs_auth ?f)" unfolding auth using a by (simp add: setUser_def field_truthy_def)
    show "protected_view (cs_auth ?f) = Children" unfolding auth using f a(3) by simp
  qed
qed

definition sample_overview :: public_profile_overview where
  "sample_overview =
     \<lparr>pov_profile = None,
      pov_counters = \<lparr>ppc_completed = 0, ppc_ratings = 0, ppc_reviews = 0, ppc_public_lists = 0, ppc_completed_by_type = []\<rparr>,
      pov_favorites = [], pov_recent_reviews = [], pov_recent_completed = [], pov_public_lists = [],
      pov_banner_media = [\<lparr>pbm_content_id = 1, pbm_type = MOVIE, pbm_image_id = None, pbm_image_url = ''/a'',
        pbm_treatment = None\<rparr>],
      pov_selected_banner = None, pov_banner_options = []\<rparr>"

theorem banner_in_range_witness:
  "case pickRandomFavoriteBanner sample_overview 1 of
     None \<Rightarrow> banner_candidates sample_overview = [] | Some b \<Rightarrow> b \<in> set (banner_candidates sample_overview)"
  by (rule banner_in_range) (simp_all add: sample_overview_def getSelectedBannerMedia_def)

end
