(* ===== verification/Tracking.thy ===== *)
theory Tracking
  imports ApiClient ListActions
begin

text \<open>
  The viewer's progress on a content item: the requests (\<open>lib/api/actions/tracking.ts\<close>) and the
  optimistic mutations on the cached details (\<open>lib/api/mutations/useTrackingMutations.ts\<close>), with the
  effects that need a confirmation (\<open>lib/utils/trackingEffects.ts\<close>).
\<close>

subsection \<open>Requests\<close>

datatype tracking_vars =
    SetStatus int tracking_status bool
  | SetFavorite int bool
  | DeleteTracking int bool

fun tracked_content :: "tracking_vars \<Rightarrow> int" where
  "tracked_content (SetStatus n _ _) = n"
| "tracked_content (SetFavorite n _) = n"
| "tracked_content (DeleteTracking n _) = n"

definition tracking_endpoint :: "int \<Rightarrow> string" where
  "tracking_endpoint contentId = ''/content/tracking/'' @ show_int contentId @ ''/''"

fun tracking_request :: "tracking_vars \<Rightarrow> json client_op" where
  "tracking_request (SetStatus n status acknowledgeEffects) =
     api_put (tracking_endpoint n)
       (Some (JObj [(''status'', JStr (tracking_status_str status)), (''acknowledge_effects'', JBool acknowledgeEffects)]))"
| "tracking_request (SetFavorite n isFavorite) =
     api_patch (tracking_endpoint n @ ''favorite/'') (Some (JObj [(''is_favorite'', JBool isFavorite)]))"
| "tracking_request (DeleteTracking n acknowledgeEffects) =
     api_delete (tracking_endpoint n @ (if acknowledgeEffects then ''?acknowledge_effects=true'' else []))"

definition pickRandom :: "int list \<Rightarrow> json client_op" where
  "pickRandom excludeContentIds =
     api_post ''/content/tracking/random/''
       (Some (JObj [(''exclude_content_ids'', JArr (map (\<lambda>n. JNum (Fin (of_int n))) excludeContentIds))]))"

subsection \<open>Effects that need a confirmation\<close>

definition EFFECT_LABELS :: "(string \<times> string) list" where
  "EFFECT_LABELS =
     [(''rating_archived'', ''archive your rating''),
      (''review_archived'', ''archive your rating and review''),
      (''favorite_removed'', ''remove this favorite'')]"

definition needs_confirmation :: "client_error \<Rightarrow> bool" where
  "needs_confirmation e =
     (case e of
        ApiRequestError _ errorData _ \<Rightarrow> json_field ''error'' errorData = Some (JStr ''TRACKING_EFFECTS_REQUIRE_CONFIRMATION'')
      | Failure _ \<Rightarrow> False)"

definition effect_names :: "json option \<Rightarrow> string list" where
  "effect_names v =
     (case v of
        Some (JArr vs) \<Rightarrow> concat (map (\<lambda>x. case x of JStr s \<Rightarrow> [s] | _ \<Rightarrow> []) vs)
      | _ \<Rightarrow> [])"

definition getTrackingEffectDescription :: "client_error \<Rightarrow> string option" where
  "getTrackingEffectDescription e =
     (case e of
        ApiRequestError _ errorData _ \<Rightarrow>
          if \<not> needs_confirmation e then None
          else Some (js_join '' and ''
            (map (\<lambda>effect. nullish (map_of EFFECT_LABELS effect) effect) (effect_names (json_field ''effects'' errorData))))
      | Failure _ \<Rightarrow> None)"

subsection \<open>The cached details\<close>

text \<open>
  The details that the query client holds, by the viewer (\<open>None\<close> is anonymous), the content and the
  country; an entry may hold no data yet.  Setting an entry to \<open>undefined\<close> leaves it as it was.
\<close>

type_synonym detail_key = "int option \<times> int \<times> string option"
type_synonym detail_cache = "(detail_key \<times> content_item option) list"

definition contentDetail_byId :: "int \<Rightarrow> int option \<Rightarrow> string option \<Rightarrow> detail_key" where
  "contentDetail_byId n viewerId country = (viewerId, n, country)"

definition setQueryData :: "detail_key \<Rightarrow> content_item option \<Rightarrow> detail_cache \<Rightarrow> detail_cache" where
  "setQueryData k v cache = (case v of None \<Rightarrow> cache | Some c \<Rightarrow> AList.update k (Some c) cache)"

fun with_tracking :: "user_content_tracking option \<Rightarrow> content_item \<Rightarrow> content_item" where
  "with_tracking t (ContentItem n api ext ct cnt avg rt _ policy created src moderation) =
     ContentItem n api ext ct cnt avg rt t policy created src moderation"

definition snapshotContentDetails :: "detail_cache \<Rightarrow> detail_cache" where
  "snapshotContentDetails cache = cache"

definition update_detail ::
  "int \<Rightarrow> (user_content_tracking option \<Rightarrow> user_content_tracking option) \<Rightarrow> content_item option \<Rightarrow> content_item option" where
  "update_detail contentId update current =
     (case current of
        None \<Rightarrow> None
      | Some c \<Rightarrow> if ci_id c \<noteq> contentId then Some c
                  else Some (with_tracking (update (ci_current_user_tracking c)) c))"

definition updateTrackingInCachedDetails ::
  "int \<Rightarrow> (user_content_tracking option \<Rightarrow> user_content_tracking option) \<Rightarrow> detail_cache \<Rightarrow> detail_cache" where
  "updateTrackingInCachedDetails contentId update =
     map (\<lambda>(k, v). (k, update_detail contentId update v))"

definition restoreSnapshot :: "detail_cache \<Rightarrow> detail_cache \<Rightarrow> detail_cache" where
  "restoreSnapshot snapshot cache = fold (\<lambda>(k, v). setQueryData k v) snapshot cache"

subsection \<open>The mutations\<close>

text \<open>The tracking that is shown at once; \<open>now\<close> is the clock when the mutation starts.\<close>

definition status_tracking ::
  "string \<Rightarrow> int \<Rightarrow> tracking_status \<Rightarrow> user_content_tracking option \<Rightarrow> user_content_tracking option" where
  "status_tracking now contentId status current = Some
     \<lparr>uct_content_id = (case current of None \<Rightarrow> contentId | Some t \<Rightarrow> uct_content_id t),
      uct_status = status,
      uct_last_completed_at =
        (if status = Completed then Some (nullish (Option.bind current uct_last_completed_at) now)
         else Option.bind current uct_last_completed_at),
      uct_is_favorite = (status = Completed \<and> (case current of None \<Rightarrow> False | Some t \<Rightarrow> uct_is_favorite t)),
      uct_favorited_at = (if status = Completed then Option.bind current uct_favorited_at else None),
      uct_created_at = (case current of None \<Rightarrow> now | Some t \<Rightarrow> uct_created_at t),
      uct_updated_at = now\<rparr>"

definition favorite_tracking :: "string \<Rightarrow> bool \<Rightarrow> user_content_tracking option \<Rightarrow> user_content_tracking option" where
  "favorite_tracking now isFavorite =
     map_option (\<lambda>t. t\<lparr>uct_is_favorite := isFavorite,
       uct_favorited_at := (if isFavorite then Some now else None), uct_updated_at := now\<rparr>)"

fun tracking_patch :: "string \<Rightarrow> tracking_vars \<Rightarrow> user_content_tracking option \<Rightarrow> user_content_tracking option" where
  "tracking_patch now (SetStatus n status _) = status_tracking now n status"
| "tracking_patch now (SetFavorite n isFavorite) = favorite_tracking now isFavorite"
| "tracking_patch now (DeleteTracking n _) = (\<lambda>_. None)"

definition tracking_onMutate :: "string \<Rightarrow> tracking_vars \<Rightarrow> detail_cache \<Rightarrow> detail_cache" where
  "tracking_onMutate now vars =
     updateTrackingInCachedDetails (tracked_content vars) (tracking_patch now vars)"

fun tracking_onSuccess :: "user_content_tracking \<Rightarrow> tracking_vars \<Rightarrow> detail_cache \<Rightarrow> detail_cache" where
  "tracking_onSuccess tracking (DeleteTracking n _) cache = cache"
| "tracking_onSuccess tracking vars cache =
     updateTrackingInCachedDetails (tracked_content vars) (\<lambda>_. Some tracking) cache"

text \<open>The toast of a failure; one that asks for a confirmation is silent, except for favourites.\<close>

fun tracking_toast :: "tracking_vars \<Rightarrow> client_error \<Rightarrow> string option" where
  "tracking_toast (SetFavorite _ _) e = Some (or_str (Some (client_message e)) ''Could not update favorite.'')"
| "tracking_toast (SetStatus _ _ _) e =
     (if needs_confirmation e then None
      else Some (or_str (Some (client_message e)) ''Could not update tracking.''))"
| "tracking_toast (DeleteTracking _ _) e =
     (if needs_confirmation e then None
      else Some (or_str (Some (client_message e)) ''Could not remove tracking.''))"

text \<open>
  A whole mutation that no other one overlaps.  The declared type of the answer is relied on: it
  is read by \<open>as_tracking\<close>.
\<close>

definition run_tracking ::
  "(json \<Rightarrow> user_content_tracking) \<Rightarrow> string \<Rightarrow> tracking_vars \<Rightarrow> client_env \<Rightarrow> client_state \<times> detail_cache \<Rightarrow>
     string option \<times> client_state \<times> detail_cache" where
  "run_tracking as_tracking now vars env st =
     (case st of (s, cache) \<Rightarrow>
        let snapshot = snapshotContentDetails cache; cache = tracking_onMutate now vars cache in
        case tracking_request vars env s of
          (Inl e, s) \<Rightarrow> (tracking_toast vars e, s, restoreSnapshot snapshot cache)
        | (Inr v, s) \<Rightarrow> (None, s, tracking_onSuccess (as_tracking v) vars cache))"

subsection \<open>Restoring a snapshot\<close>

text \<open>The second cache has the keys of the first and no data where the first had none.\<close>

definition same_entries :: "detail_cache \<Rightarrow> detail_cache \<Rightarrow> bool" where
  "same_entries = list_all2 (\<lambda>p q. fst p = fst q \<and> (snd p = None \<longrightarrow> snd q = None))"

lemma same_entries_refl: "same_entries c c"
  by (simp add: same_entries_def list_all2_refl)

lemma same_entries_update: "same_entries c c' \<Longrightarrow> same_entries c (updateTrackingInCachedDetails n f c')"
  by (auto simp: same_entries_def updateTrackingInCachedDetails_def list_all2_map2 update_detail_def
      elim!: list_all2_mono)

lemma restore_entries:
  assumes "same_entries c c'" "distinct (map fst pre @ map fst c)"
  shows "fold (\<lambda>(k, v). setQueryData k v) c (pre @ c') = pre @ c"
  using assms unfolding same_entries_def
proof (induction c c' arbitrary: pre rule: list_all2_induct)
  case (Cons p c q c')
  obtain k v where p: "p = (k, v)" by (cases p)
  then obtain w where q: "q = (k, w)" and none: "v = None \<longrightarrow> w = None" using Cons.hyps(1) by (cases q) simp
  have fresh: "k \<notin> fst ` set pre" using Cons.prems p by auto
  have "setQueryData k v (pre @ (k, w) # c') = pre @ (k, v) # c'"
  proof (cases v)
    case None
    with none show ?thesis by (simp add: setQueryData_def)
  next
    case (Some x)
    from fresh show ?thesis unfolding Some setQueryData_def by (induction pre) auto
  qed
  then show ?case using Cons.IH [of "pre @ [(k, v)]"] Cons.prems by (simp add: p q)
qed simp

lemma restore_same: "same_entries c c' \<Longrightarrow> distinct (map fst c) \<Longrightarrow> restoreSnapshot c c' = c"
  using restore_entries [of c c' "[]"] by (simp add: restoreSnapshot_def)

lemma keys_update: "map fst (updateTrackingInCachedDetails n f c) = map fst c"
  by (induction c) (auto simp: updateTrackingInCachedDetails_def)

text \<open>The mutations fulfil the contract of an optimistic update.\<close>

interpretation tracking: optimistic_update
  "\<lambda>_ c. distinct (map fst c)" "\<lambda>_. snapshotContentDetails"
  "\<lambda>(now, vars). tracking_onMutate now vars" "\<lambda>_. restoreSnapshot"
  by unfold_locales
    (auto simp: snapshotContentDetails_def tracking_onMutate_def same_entries_update same_entries_refl intro!: restore_same)

subsection \<open>Invariant of the cached tracking\<close>

definition tracking_ok :: "int \<Rightarrow> user_content_tracking \<Rightarrow> bool" where
  "tracking_ok contentId t \<longleftrightarrow>
     uct_content_id t = contentId \<and> (uct_is_favorite t \<longrightarrow> uct_status t = Completed) \<and>
     (uct_favorited_at t \<noteq> None \<longleftrightarrow> uct_is_favorite t) \<and>
     (uct_status t = Completed \<longrightarrow> uct_last_completed_at t \<noteq> None)"

definition detail_ok :: "content_item option \<Rightarrow> bool" where
  "detail_ok v \<longleftrightarrow> (case v of None \<Rightarrow> True
     | Some c \<Rightarrow> pred_option (tracking_ok (ci_id c)) (ci_current_user_tracking c))"

definition details_ok :: "detail_cache \<Rightarrow> bool" where
  "details_ok c \<longleftrightarrow> list_all (\<lambda>p. detail_ok (snd p)) c"

text \<open>The pages offer the favourite only for content that is completed.\<close>

definition favorite_offered :: "tracking_vars \<Rightarrow> detail_cache \<Rightarrow> bool" where
  "favorite_offered vars cache \<longleftrightarrow>
     (case vars of
        SetFavorite n isFavorite \<Rightarrow> isFavorite \<longrightarrow>
          list_all (\<lambda>p. case snd p of None \<Rightarrow> True
            | Some c \<Rightarrow> ci_id c = n \<longrightarrow> pred_option (\<lambda>t. uct_status t = Completed) (ci_current_user_tracking c)) cache
      | _ \<Rightarrow> True)"

lemma with_tracking_sel [simp]:
  "ci_id (with_tracking t c) = ci_id c" "ci_current_user_tracking (with_tracking t c) = t"
  by (cases c; simp)+

lemma details_ok_update:
  assumes "details_ok cache"
    and "\<And>c. Some c \<in> snd ` set cache \<Longrightarrow> ci_id c = n \<Longrightarrow> detail_ok (Some c) \<Longrightarrow>
      pred_option (tracking_ok n) (f (ci_current_user_tracking c))"
  shows "details_ok (updateTrackingInCachedDetails n f cache)"
proof -
  have "detail_ok (update_detail n f v)" if "(k, v) \<in> set cache" for k v
  proof (cases v)
    case None
    then show ?thesis by (simp add: update_detail_def detail_ok_def)
  next
    case (Some c)
    have "detail_ok (Some c)" using assms(1) that Some by (auto simp: details_ok_def list_all_iff)
    moreover have "Some c \<in> snd ` set cache" using that Some by force
    ultimately show ?thesis using assms(2) [of c] Some by (auto simp: update_detail_def detail_ok_def)
  qed
  then show ?thesis by (auto simp: details_ok_def list_all_iff updateTrackingInCachedDetails_def)
qed

lemma status_ok_tracking:
  "pred_option (tracking_ok n) current \<Longrightarrow> pred_option (tracking_ok n) (status_tracking now n status current)"
  by (cases current; cases "status = Completed") (simp_all add: tracking_ok_def status_tracking_def nullish_def split: option.splits)

lemma favorite_ok_tracking:
  "pred_option (tracking_ok n) current \<Longrightarrow> (fav \<longrightarrow> pred_option (\<lambda>t. uct_status t = Completed) current) \<Longrightarrow>
     pred_option (tracking_ok n) (favorite_tracking now fav current)"
  by (cases current; cases fav) (simp_all add: tracking_ok_def favorite_tracking_def)

lemma patch_ok:
  assumes "pred_option (tracking_ok (tracked_content vars)) current"
    and "case vars of SetFavorite _ isFavorite \<Rightarrow> isFavorite \<longrightarrow> pred_option (\<lambda>t. uct_status t = Completed) current | _ \<Rightarrow> True"
  shows "pred_option (tracking_ok (tracked_content vars)) (tracking_patch now vars current)"
  using assms by (cases vars) (simp_all add: status_ok_tracking favorite_ok_tracking)

lemma onMutate_ok:
  assumes "details_ok cache" "favorite_offered vars cache"
  shows "details_ok (tracking_onMutate now vars cache)"
  unfolding tracking_onMutate_def
proof (rule details_ok_update [OF assms(1)], rule patch_ok)
  fix c assume c: "Some c \<in> snd ` set cache" "ci_id c = tracked_content vars" "detail_ok (Some c)"
  show "pred_option (tracking_ok (tracked_content vars)) (ci_current_user_tracking c)"
    using c by (simp add: detail_ok_def)
  show "case vars of SetFavorite _ isFavorite \<Rightarrow> isFavorite \<longrightarrow>
      pred_option (\<lambda>t. uct_status t = Completed) (ci_current_user_tracking c) | _ \<Rightarrow> True"
    using c assms(2) by (force simp: favorite_offered_def list_all_iff split: tracking_vars.split option.splits)
qed

lemma onSuccess_ok:
  assumes "details_ok cache" "tracking_ok (tracked_content vars) tracking"
  shows "details_ok (tracking_onSuccess tracking vars cache)"
  using assms by (cases vars) (auto intro: details_ok_update)

subsection \<open>Properties\<close>


text \<open>C10. The cached tracking stays consistent through every mutation, whatever the server answers: a
  favourite is completed and has its date, completed content has its date, and each entry is about
  its own content.\<close>

theorem tracking_consistent:
  assumes "distinct (map fst cache)" "details_ok cache" "favorite_offered vars cache"
    and "\<And>v. tracking_ok (tracked_content vars) (as_tracking v)"
  shows "details_ok (tracking_onMutate now vars cache) \<and>
    details_ok (snd (snd (run_tracking as_tracking now vars env (s, cache))))"
proof -
  have m: "details_ok (tracking_onMutate now vars cache)" using assms(2,3) by (rule onMutate_ok)
  have "restoreSnapshot cache (tracking_onMutate now vars cache) = cache"
    unfolding tracking_onMutate_def by (intro restore_same same_entries_update same_entries_refl assms(1))
  with m assms(2,4) show ?thesis
    by (auto simp: run_tracking_def snapshotContentDetails_def Let_def onSuccess_ok split: sum.split prod.split)
qed

definition tracked_detail :: "int \<Rightarrow> tracking_status \<Rightarrow> content_item" where
  "tracked_detail n status =
     ContentItem n TMDB (show_int n) MOVIE 0 None None
       (Some \<lparr>uct_content_id = n, uct_status = status,
          uct_last_completed_at = (if status = Completed then Some ''2024-01-01'' else None), uct_is_favorite = False,
          uct_favorited_at = None, uct_created_at = ''2024-01-01'', uct_updated_at = ''2024-01-01''\<rparr>)
       \<lparr>pp_content_type = MOVIE, pp_final_status = Completed, pp_states = []\<rparr> ''2024-01-01'' None None"

definition two_details :: detail_cache where
  "two_details = [(contentDetail_byId 1 None None, Some (tracked_detail 1 Completed)),
     (contentDetail_byId 2 None None, Some (tracked_detail 2 Backlog))]"

lemma two_details_facts:
  "distinct (map fst two_details)" "details_ok two_details" "favorite_offered (SetFavorite 1 True) two_details"
  by (simp_all add: two_details_def contentDetail_byId_def details_ok_def detail_ok_def tracked_detail_def
      tracking_ok_def favorite_offered_def)


theorem tracking_consistent_witness:
  "details_ok (tracking_onMutate ''2024-02-02'' (SetFavorite 1 True) two_details)"
proof -
  have "tracking_ok 1 (the (ci_current_user_tracking (tracked_detail 1 Completed)))"
    by (simp add: tracked_detail_def tracking_ok_def)
  from tracking_consistent [OF two_details_facts, of "\<lambda>_. the (ci_current_user_tracking (tracked_detail 1 Completed))"] this
  show ?thesis by simp
qed

end
