(* ===== verification/Mutations.thy ===== *)
theory Mutations
  imports ResourceRequests
begin

text \<open>
  The toasts of the page (\<open>components/common/Toast.tsx\<close>) and the mutations that create, change and
  delete lists, items and ratings (\<open>lib/api/mutations/useListMutations.ts\<close>,
  \<open>useAddContentToListMutation.ts\<close>, \<open>useRatingMutations.ts\<close>).  A mutation runs its request and,
  when it throws, its error callback before it throws again (\<open>mutateAsync\<close>).  Marking cached
  queries as stale after it has no effect on this state.
\<close>

subsection \<open>Toasts\<close>

datatype toast_type = ToastSuccess | ToastError | ToastInfo | ToastWarning

record toast =
  to_id :: string
  to_message :: string
  to_type :: toast_type
  to_duration :: int

definition removeToast :: "string \<Rightarrow> toast list \<Rightarrow> toast list" where
  "removeToast n prev = filter (\<lambda>t. to_id t \<noteq> n) prev"

text \<open>The toasts after showing one, and the time after which a timer removes it.\<close>

definition showToast :: "string \<Rightarrow> string \<Rightarrow> toast_type option \<Rightarrow> int option \<Rightarrow> toast list \<Rightarrow>
    toast list \<times> (int \<times> string) option" where
  "showToast n message typ duration prev =
     (let d = nullish duration 3000 in
      (prev @ [\<lparr>to_id = n, to_message = message, to_type = nullish typ ToastInfo, to_duration = d\<rparr>],
       if 0 < d then Some (d, n) else None))"

subsection \<open>Components that send requests\<close>

text \<open>
  What every component shares: the API client and the toasts it has shown so far.  A component
  with state of its own extends this record.
\<close>

record client_ui =
  cu_client :: client_state
  cu_toasts :: "(string \<times> toast_type) list"

definition on_client :: "'a client_op \<Rightarrow> ('z client_ui_scheme, 'a) op_on" where
  "on_client m env s = (case m env (cu_client s) of (r, c) \<Rightarrow> (r, s\<lparr>cu_client := c\<rparr>))"

definition toast_c :: "string \<Rightarrow> toast_type \<Rightarrow> ('z client_ui_scheme, unit) op_on" where
  "toast_c message typ = update_c (\<lambda>s. s\<lparr>cu_toasts := cu_toasts s @ [(message, typ)]\<rparr>)"

text \<open>\<open>error.message || text\<close>.\<close>

definition message_or :: "client_error \<Rightarrow> string \<Rightarrow> string" where
  "message_or e text = (if client_message e \<noteq> [] then client_message e else text)"

definition mutate_async ::
  "(client_error \<Rightarrow> ('s, unit) op_on) \<Rightarrow> ('s, 'a) op_on \<Rightarrow> ('s, 'a) op_on" where
  "mutate_async onError mutationFn =
     catch_c mutationFn (\<lambda>e. then_c (onError e) (\<lambda>_. throw_c e))"

definition with_error_toast :: "string \<Rightarrow> 'a client_op \<Rightarrow> ('z client_ui_scheme, 'a) op_on" where
  "with_error_toast text m = mutate_async (\<lambda>e. toast_c (message_or e text) ToastError) (on_client m)"

lemmas mutation_defs = on_client_def toast_c_def mutate_async_def with_error_toast_def

subsection \<open>Lists and their items\<close>

fun list_type_str :: "list_type \<Rightarrow> string" where
  "list_type_str PERSONAL = ''PERSONAL''"
| "list_type_str SHARED = ''SHARED''"
| "list_type_str DYNAMIC = ''DYNAMIC''"

fun list_visibility_str :: "list_visibility \<Rightarrow> string" where
  "list_visibility_str PUBLIC = ''PUBLIC''"
| "list_visibility_str PRIVATE = ''PRIVATE''"

definition optional_text :: "string option \<Rightarrow> string option" where
  "optional_text t = (if truthy_str t then t else None)"

definition createList_mutate ::
  "string \<Rightarrow> string option \<Rightarrow> list_type option \<Rightarrow> ('z client_ui_scheme, json) op_on" where
  "createList_mutate name description listType =
     with_error_toast ''No se pudo crear la lista''
       (list_create name (optional_text description) (list_type_str (nullish listType PERSONAL)))"

definition update_list_fields ::
  "string \<Rightarrow> string option \<Rightarrow> list_type option \<Rightarrow> list_visibility option \<Rightarrow> json" where
  "update_list_fields name description listType visibility =
     JObj ([(''name'', JStr name),
            (''description'', case optional_text description of None \<Rightarrow> JNull | Some d \<Rightarrow> JStr d)] @
       (case listType of None \<Rightarrow> [] | Some t \<Rightarrow> [(''list_type'', JStr (list_type_str t))]) @
       (case visibility of None \<Rightarrow> [] | Some v \<Rightarrow> [(''visibility'', JStr (list_visibility_str v))]))"

definition updateList_mutate ::
  "int \<Rightarrow> string \<Rightarrow> string option \<Rightarrow> list_type option \<Rightarrow> list_visibility option \<Rightarrow>
     ('z client_ui_scheme, json) op_on" where
  "updateList_mutate listId name description listType visibility =
     with_error_toast ''No se pudo actualizar la lista''
       (list_patch listId (update_list_fields name description listType visibility))"

text \<open>The page to go to after the list is deleted.\<close>

definition deleteList_mutate :: "int \<Rightarrow> ('z client_ui_scheme, string) op_on" where
  "deleteList_mutate listId =
     then_c (with_error_toast ''No se pudo eliminar la lista'' (list_delete listId)) (\<lambda>_. return_c ''/'')"

definition deleteListItem_mutate :: "int \<Rightarrow> int \<Rightarrow> ('z client_ui_scheme, json) op_on" where
  "deleteListItem_mutate listId itemId =
     with_error_toast ''No se pudo eliminar el item'' (listItem_delete listId itemId)"

definition applySort_mutate :: "int \<Rightarrow> sort_clause list \<Rightarrow> ('z client_ui_scheme, json) op_on" where
  "applySort_mutate listId sorts =
     with_error_toast ''No se pudo aplicar el orden'' (listItem_applySort listId sorts)"

definition addContent_mutate ::
  "(client_error \<Rightarrow> ('z client_ui_scheme, unit) op_on) \<Rightarrow> int \<Rightarrow> list_item_create \<Rightarrow> string option \<Rightarrow>
     ('z client_ui_scheme, json) op_on" where
  "addContent_mutate onError listId payload flds =
     mutate_async
       (\<lambda>e. then_c (onError e) (\<lambda>_. toast_c (message_or e ''No se pudo agregar el item a la lista'') ToastError))
       (on_client (listItem_create listId payload (Some (nullish flds ''id,status''))))"

subsection \<open>Ratings\<close>

text \<open>The cached rating of an item by a user (\<open>queryKeys.ratings.byUser\<close>).\<close>

type_synonym rating_cache = "((int \<times> int) \<times> json) list"

record rating_ui = client_ui +
  ru_ratings :: rating_cache

definition rating_fields :: "string \<Rightarrow> string option option \<Rightarrow> bool option \<Rightarrow> json" where
  "rating_fields score comment spoiler =
     JObj ([(''score'', JStr score)] @
       (case comment of None \<Rightarrow> [] | Some c \<Rightarrow> [(''comment'', case c of None \<Rightarrow> JNull | Some t \<Rightarrow> JStr t)]) @
       (case spoiler of None \<Rightarrow> [] | Some b \<Rightarrow> [(''spoiler'', JBool b)]))"

definition upsert_request :: "content_item \<Rightarrow> rating option \<Rightarrow> rating_create \<Rightarrow> json client_op" where
  "upsert_request item currentRating d =
     (case currentRating of
        Some r \<Rightarrow> rating_patch (rt_id r) (rating_fields (rc_score d) (rc_comment d) (rc_spoiler d))
      | None \<Rightarrow> rating_create_request
          \<lparr>rc_source_api = ci_source_api item, rc_external_id = ci_external_id item,
           rc_content_type = ci_content_type item, rc_score = rc_score d, rc_comment = rc_comment d,
           rc_spoiler = rc_spoiler d\<rparr>)"

definition upsertRating_mutate ::
  "content_item \<Rightarrow> rating option \<Rightarrow> rating_create \<Rightarrow> int option \<Rightarrow> (rating_ui, json) op_on" where
  "upsertRating_mutate item currentRating d userId =
     then_c (with_error_toast ''No se pudo guardar la calificacion'' (upsert_request item currentRating d))
       (\<lambda>rating. then_c
          (update_c (\<lambda>s. if truthy_int userId
             then s\<lparr>ru_ratings := AList.update (ci_id item, the userId) rating (ru_ratings s)\<rparr> else s))
          (\<lambda>_. return_c rating))"

definition deleteRating_mutate :: "int \<Rightarrow> (rating_ui, json) op_on" where
  "deleteRating_mutate ratingId =
     with_error_toast ''No se pudo eliminar la calificacion'' (rating_delete ratingId)"

subsection \<open>Facts about mutations\<close>

lemma on_client_sel [simp]:
  "fst (on_client m env s) = fst (m env (cu_client s))"
  "cu_client (snd (on_client m env s)) = snd (m env (cu_client s))"
  "cu_toasts (snd (on_client m env s)) = cu_toasts s"
  "client_ui.more (snd (on_client m env s)) = client_ui.more s"
  by (simp_all add: on_client_def split: prod.splits)

text \<open>A mutation changes the state of its component only through the request and the toast.\<close>

lemma with_error_toast_run:
  "fst (with_error_toast text m env s) = fst (m env (cu_client s))"
  "cu_client (snd (with_error_toast text m env s)) = snd (m env (cu_client s))"
  "cu_toasts (snd (with_error_toast text m env s)) = cu_toasts s @
     (case fst (m env (cu_client s)) of Inl e \<Rightarrow> [(message_or e text, ToastError)] | Inr _ \<Rightarrow> [])"
  "client_ui.more (snd (with_error_toast text m env s)) = client_ui.more s"
  by (cases "m env (cu_client s)"; cases "fst (m env (cu_client s))";
      simp add: mutation_defs client_defs)+

text \<open>The requests a call of the API sends: its own, and that for the token.\<close>

lemma api_calls_sent:
  "\<exists>cs. cs_calls (snd (apiRequest verb endpoint body env s)) = cs_calls s @ cs \<and>
     set cs \<subseteq> insert csrf_call (range (request_call verb endpoint body)) \<and>
     (\<forall>v. fst (apiRequest verb endpoint body env s) = Inr v \<longrightarrow> (\<exists>t. request_call verb endpoint body t \<in> set cs))"
proof (cases "isMutation (Some verb)")
  case True
  obtain r1 s1 where t: "ensureCsrfToken env s = (r1, s1)" by (cases "ensureCsrfToken env s")
  have s1: "cs_calls s1 = cs_calls s @ (if truthy_str (cs_csrfToken s) then [] else [csrf_call])"
    using token_run [of env s] t by simp
  show ?thesis
  proof (cases r1)
    case (Inl e)
    then have "apiRequest verb endpoint body env s = (Inl e, s1)" using t True by (simp add: apiRequest_def then_c_def)
    then show ?thesis using s1 by auto
  next
    case (Inr x)
    then have "apiRequest verb endpoint body env s =
        then_c (fetch_c (request_call verb endpoint body (Some x))) api_answer env s1"
      using t True by (simp add: apiRequest_def then_c_def return_c_def)
    then show ?thesis using s1 api_after_token(2) [of verb endpoint body "Some x" env s1] by auto
  qed
next
  case False
  then have "apiRequest verb endpoint body env s =
      then_c (fetch_c (request_call verb endpoint body None)) api_answer env s"
    by (simp add: apiRequest_def then_c_def [of "return_c None"] return_c_def)
  then show ?thesis using api_after_token(2) [of verb endpoint body None env s] by auto
qed

end
