(* ===== verification/AddToList.thy ===== *)
theory AddToList
  imports Mutations
begin

text \<open>
  The dialog that adds an item to lists (\<open>components/common/modals/AddToListModal/\<close>): the choice of
  seasons (\<open>useSeasonSelection.ts\<close>), the phases (\<open>useModalPhases.ts\<close>), the operations on lists with
  their loading marks, errors and toasts (\<open>useListOperations.ts\<close>), and what the dialog derives from
  the lists that hold the item (\<open>index.tsx\<close>).  A JavaScript set of numbers is a list without
  duplicates in insertion order.
\<close>

subsection \<open>Names of new lists\<close>

definition ADJECTIVES :: "string list" where
  "ADJECTIVES = [''Epic'', ''Cosmic'', ''Chill'', ''Midnight'', ''Neon'', ''Retro'', ''Secret'', ''Golden'', ''Hidden'',
     ''Lost'', ''Future'', ''Daily'', ''Weekly'', ''Monthly'', ''Ultimate'', ''Essential'', ''Curated'', ''Favorite'',
     ''Top'', ''Best'', ''Dreamy'', ''Electric'', ''Sonic'', ''Visual'', ''Cinematic'', ''Literary'', ''Gaming'',
     ''Binge-worthy'', ''Must-see'', ''Classic'']"

definition NOUNS :: "string list" where
  "NOUNS = [''Collection'', ''Selection'', ''Mix'', ''Stash'', ''Vault'', ''Library'', ''Queue'', ''Playlist'',
     ''Anthology'', ''Chronicles'', ''Vibes'', ''Journey'', ''Quest'', ''Adventure'', ''Saga'', ''Universe'',
     ''Dimension'', ''Zone'', ''Corner'', ''Spot'', ''Haven'', ''Retreat'', ''Lounge'', ''Club'', ''Society'',
     ''Archive'', ''Treasury'', ''Catalog'', ''Index'', ''Digest'']"

text \<open>\<open>random_pick xs r\<close> is \<open>xs[Math.floor(r * xs.length)]\<close> for \<open>r\<close> from \<open>Math.random()\<close>.\<close>

definition random_pick :: "'a list \<Rightarrow> rat \<Rightarrow> 'a" where
  "random_pick xs r = xs ! nat \<lfloor>r * of_nat (length xs)\<rfloor>"

definition generateRandomListName :: "rat \<Rightarrow> rat \<Rightarrow> string" where
  "generateRandomListName r1 r2 = random_pick ADJECTIVES r1 @ '' '' @ random_pick NOUNS r2"

subsection \<open>Seasons and phases\<close>

definition toggleSeason :: "int \<Rightarrow> int list \<Rightarrow> int list" where
  "toggleSeason n prev = (if n \<in> set prev then removeAll n prev else prev @ [n])"

definition selectAllSeasons :: "tv_season list option \<Rightarrow> int list \<Rightarrow> int list" where
  "selectAllSeasons seasons prev =
     (case seasons of None \<Rightarrow> prev | Some ss \<Rightarrow> rev (remdups (rev (map sea_season_number ss))))"

definition deselectAllSeasons :: "int list \<Rightarrow> int list" where
  "deselectAllSeasons prev = []"

definition resetSelection :: "int list \<Rightarrow> int list" where
  "resetSelection prev = []"

datatype modal_phase = SelectionPhase | ListsPhase

datatype add_mode = AddShow | AddSeasons

record modal_phases =
  mp_phase :: modal_phase
  mp_addMode :: add_mode

definition phases_init :: "bool \<Rightarrow> modal_phases" where
  "phases_init isMultiSeasonShow =
     \<lparr>mp_phase = (if isMultiSeasonShow then SelectionPhase else ListsPhase), mp_addMode = AddShow\<rparr>"

text \<open>The callbacks give the new phases and the error that they set.\<close>

definition handleContinueToLists ::
  "add_mode \<Rightarrow> nat \<Rightarrow> modal_phases \<Rightarrow> modal_phases \<times> string option" where
  "handleContinueToLists currentAddMode selectedSeasonsSize p =
     (if currentAddMode = AddSeasons \<and> selectedSeasonsSize = 0
      then (p, Some ''Please select at least one season to continue'')
      else (p\<lparr>mp_phase := ListsPhase\<rparr>, None))"

definition handleBackToSelection :: "modal_phases \<Rightarrow> modal_phases \<times> string option" where
  "handleBackToSelection p = (p\<lparr>mp_phase := SelectionPhase\<rparr>, None)"

definition resetPhases :: "bool \<Rightarrow> modal_phases \<Rightarrow> modal_phases" where
  "resetPhases isMultiSeasonShow p =
     p\<lparr>mp_phase := (if isMultiSeasonShow then SelectionPhase else ListsPhase), mp_addMode := AddShow\<rparr>"

subsection \<open>Operations on lists\<close>

record list_modal = client_ui +
  lm_loadingListIds :: "int set"
  lm_creatingNewList :: bool
  lm_error :: "string option"

type_synonym 'a modal_op = "(list_modal, 'a) op_on"

record bulk_check_item =
  bc_external_id :: string
  bc_source_api :: string
  bc_content_type :: string

text \<open>The parameters of the hook, with \<open>toLocaleDateString\<close> of the browser.\<close>

record list_operations =
  op_contentItem :: bulk_check_item
  op_tvShowSeasons :: "tv_season list option"
  op_tvShowId :: "string option"
  op_refreshLists :: "unit modal_op"
  op_localDate :: "string \<Rightarrow> string"

definition setError :: "string option \<Rightarrow> unit modal_op" where
  "setError e = update_c (\<lambda>s. s\<lparr>lm_error := e\<rparr>)"

definition item_payload :: "bulk_check_item \<Rightarrow> list_item_create" where
  "item_payload item =
     \<lparr>lic_source_api = bc_source_api item, lic_external_id = bc_external_id item,
      lic_content_type = bc_content_type item, lic_context_status = Some PENDING\<rparr>"

text \<open>The mutation that adds the item: its failure is shown in the dialog and in a toast.\<close>

definition addToList :: "int \<Rightarrow> list_item_create \<Rightarrow> json modal_op" where
  "addToList listId payload =
     addContent_mutate (\<lambda>e. setError (Some (message_or e ''Failed to update list''))) listId payload None"

text \<open>
  A new list with the item.  The answer to the creation is declared to be a list; \<open>as_list_id\<close>
  reads its id.
\<close>

definition handleCreateNewList :: "(json \<Rightarrow> int) \<Rightarrow> list_operations \<Rightarrow> rat \<Rightarrow> rat \<Rightarrow> unit modal_op" where
  "handleCreateNewList as_list_id ops r1 r2 =
     then_c (update_c (\<lambda>s. s\<lparr>lm_creatingNewList := True, lm_error := None\<rparr>)) (\<lambda>_.
       finally_c
         (catch_c
           (then_c (createList_mutate (generateRandomListName r1 r2) None None) (\<lambda>newList.
            then_c (addToList (as_list_id newList) (item_payload (op_contentItem ops))) (\<lambda>_.
            then_c (op_refreshLists ops) (\<lambda>_.
            toast_c ''List created and item added'' ToastSuccess))))
           (\<lambda>e. then_c (setError (Some (client_message e))) (\<lambda>_. toast_c (client_message e) ToastError)))
         (\<lambda>s. s\<lparr>lm_creatingNewList := False\<rparr>))"

definition season_payload :: "list_operations \<Rightarrow> int \<Rightarrow> list_item_create" where
  "season_payload ops seasonNumber =
     \<lparr>lic_source_api = bc_source_api (op_contentItem ops),
      lic_external_id = nullish (op_tvShowId ops) ''undefined'' @ '':'' @ show_int seasonNumber,
      lic_content_type = ''SEASON'', lic_context_status = Some PENDING\<rparr>"

definition known_season :: "list_operations \<Rightarrow> int \<Rightarrow> bool" where
  "known_season ops n \<longleftrightarrow>
     (case op_tvShowSeasons ops of None \<Rightarrow> False | Some ss \<Rightarrow> \<exists>s \<in> set ss. sea_season_number s = n)"

definition add_season :: "list_operations \<Rightarrow> int \<Rightarrow> int \<Rightarrow> json modal_op" where
  "add_season ops listId n =
     on_client (listItem_create listId (season_payload ops n) (Some ''id,context_status''))"

text \<open>The loop over the seasons: those added so far and those that failed, with the message.\<close>

fun season_loop ::
  "list_operations \<Rightarrow> int \<Rightarrow> int list \<Rightarrow> int list \<Rightarrow> (int \<times> string) list \<Rightarrow> (int list \<times> (int \<times> string) list) modal_op" where
  "season_loop ops listId [] added failed = return_c (added, failed)"
| "season_loop ops listId (n # ns) added failed =
     (if \<not> known_season ops n then season_loop ops listId ns added failed
      else
        then_c
          (catch_c (then_c (add_season ops listId n) (\<lambda>_. return_c (added @ [n], failed)))
            (\<lambda>e. return_c (added, failed @ [(n, client_message e)])))
          (\<lambda>(added, failed). season_loop ops listId ns added failed))"

definition season_report :: "int list \<times> (int \<times> string) list \<Rightarrow> unit modal_op" where
  "season_report = (\<lambda>(added, failed).
     if failed = [] then
       toast_c (''Added '' @ show_nat (length added) @ '' seasons to list'') ToastSuccess
     else if added = [] then
       throw_c (Failure (JsError (''Failed to add seasons: '' @
         js_join '', '' (map (\<lambda>f. ''Season '' @ show_int (fst f)) failed))))
     else
       toast_c (''Added '' @ show_nat (length added) @ '' seasons. '' @ show_nat (length failed) @ '' failed.'')
         ToastWarning)"

definition seasons_to_add :: "int list \<Rightarrow> int list option \<Rightarrow> int list" where
  "seasons_to_add seasonNumbers existing =
     (case existing of None \<Rightarrow> seasonNumbers | Some xs \<Rightarrow> filter (\<lambda>s. s \<notin> set xs) seasonNumbers)"

definition addSeasonsToList :: "list_operations \<Rightarrow> int \<Rightarrow> int list \<Rightarrow> int list option \<Rightarrow> unit modal_op" where
  "addSeasonsToList ops listId seasonNumbers existing =
     (let todo = seasons_to_add seasonNumbers existing in
      if todo = [] then toast_c ''All selected seasons are already in the list'' ToastInfo
      else then_c (season_loop ops listId todo [] []) season_report)"

text \<open>
  The body of the handler; it is false when it returned before the lists are refreshed.
\<close>

definition toggle_body ::
  "list_operations \<Rightarrow> int \<Rightarrow> bool \<Rightarrow> add_mode \<Rightarrow> int list \<Rightarrow> int option \<Rightarrow> int list option \<Rightarrow> bool modal_op" where
  "toggle_body ops listId checked addMode selected existingItemId existing =
     (if checked then
        (if addMode = AddSeasons \<and> selected \<noteq> [] \<and> truthy_str (op_tvShowId ops)
         then then_c (addSeasonsToList ops listId selected existing) (\<lambda>_. return_c True)
         else
           then_c (addToList listId (item_payload (op_contentItem ops))) (\<lambda>_.
           then_c (toast_c ''Added to list'' ToastSuccess) (\<lambda>_. return_c True)))
      else if addMode = AddSeasons then
        then_c (toast_c ''Removing seasons is not supported in this view yet'' ToastInfo) (\<lambda>_. return_c False)
      else if truthy_int existingItemId then
        then_c (on_client (listItem_delete listId (the existingItemId))) (\<lambda>_.
        then_c (toast_c ''Removed from list'' ToastSuccess) (\<lambda>_. return_c True))
      else return_c True)"

text \<open>The property \<open>response\<close> that the handler looks for: no error of the client has it.\<close>

fun error_response :: "client_error \<Rightarrow> json option" where
  "error_response (Failure e) = None"
| "error_response (ApiRequestError status d m) = None"

definition duplicate_item :: "client_error \<Rightarrow> json option" where
  "duplicate_item e =
     (case Option.bind (error_response e) (json_field ''data'') of
        None \<Rightarrow> None
      | Some d \<Rightarrow>
          if json_str (json_field ''error'' d) = Some ''DUPLICATE_ITEM'' \<and> field_truthy (json_field ''existing_item'' d)
          then json_field ''existing_item'' d else None)"

definition says_duplicate :: "string \<Rightarrow> bool" where
  "says_duplicate m \<longleftrightarrow> js_includes (js_lower m) ''already'' \<or> js_includes (js_lower m) ''duplicate''"

definition toggle_failure :: "list_operations \<Rightarrow> client_error \<Rightarrow> unit modal_op" where
  "toggle_failure ops e =
     (let errorMessage = message_or e ''Failed to update list'' in
      case duplicate_item e of
        Some existing \<Rightarrow>
          then_c (toast_c (''This item is already in this list (added '' @
            op_localDate ops (nullish (json_str (json_field ''added_at'' existing)) []) @ '')'') ToastInfo)
            (\<lambda>_. op_refreshLists ops)
      | None \<Rightarrow>
          if says_duplicate errorMessage
          then then_c (toast_c ''This item is already in the list'' ToastInfo) (\<lambda>_. op_refreshLists ops)
          else then_c (setError (Some errorMessage)) (\<lambda>_. toast_c errorMessage ToastError))"

definition handleToggleList ::
  "list_operations \<Rightarrow> int \<Rightarrow> bool \<Rightarrow> add_mode \<Rightarrow> int list \<Rightarrow> int option \<Rightarrow> int list option \<Rightarrow> unit modal_op" where
  "handleToggleList ops listId checked addMode selected existingItemId existing =
     then_c (update_c (\<lambda>s. s\<lparr>lm_loadingListIds := insert listId (lm_loadingListIds s), lm_error := None\<rparr>)) (\<lambda>_.
       finally_c
         (catch_c
           (then_c (toggle_body ops listId checked addMode selected existingItemId existing)
             (\<lambda>refresh. if refresh then op_refreshLists ops else return_c ()))
           (toggle_failure ops))
         (\<lambda>s. s\<lparr>lm_loadingListIds := lm_loadingListIds s - {listId}\<rparr>))"

subsection \<open>The dialog\<close>

record matched_item =
  mi_list_item_id :: int
  mi_content_item_id :: int
  mi_external_id :: string
  mi_source_api :: string
  mi_content_type :: string

record user_list_with_matches =
  um_id :: int
  um_name :: string
  um_list_type :: list_type
  um_item_count :: int
  um_matched_count :: int
  um_matched_items :: "matched_item list"

record add_to_list_props =
  ap_isOpen :: bool
  ap_contentItem :: bulk_check_item
  ap_tvShowSeasons :: "tv_season list option"
  ap_tvShowId :: "string option"

definition no_seasons :: "tv_season list option \<Rightarrow> bool" where
  "no_seasons ss \<longleftrightarrow> (case ss of None \<Rightarrow> True | Some xs \<Rightarrow> xs = [])"

definition needsTvShowContent :: "add_to_list_props \<Rightarrow> bool" where
  "needsTvShowContent p \<longleftrightarrow>
     ap_isOpen p \<and> bc_content_type (ap_contentItem p) = ''TV_SHOW'' \<and> no_seasons (ap_tvShowSeasons p)"

text \<open>\<open>source_data\<close> has seasons when it is a show.\<close>

definition effectiveSeasons :: "add_to_list_props \<Rightarrow> content_item option \<Rightarrow> tv_season list" where
  "effectiveSeasons p fetched =
     (if \<not> no_seasons (ap_tvShowSeasons p) then the (ap_tvShowSeasons p)
      else (case Option.bind fetched ci_source_data of Some (TVShowData d) \<Rightarrow> tv_seasons d | _ \<Rightarrow> []))"

definition effectiveTvShowId :: "add_to_list_props \<Rightarrow> content_item option \<Rightarrow> string option" where
  "effectiveTvShowId p fetched =
     (if truthy_str (ap_tvShowId p) then ap_tvShowId p else map_option ci_external_id fetched)"

definition isMultiSeasonShow :: "add_to_list_props \<Rightarrow> content_item option \<Rightarrow> bool" where
  "isMultiSeasonShow p fetched \<longleftrightarrow>
     effectiveSeasons p fetched \<noteq> [] \<and> truthy_str (effectiveTvShowId p fetched)"

definition season_external_id :: "string option \<Rightarrow> int \<Rightarrow> string" where
  "season_external_id tvShowId n = nullish tvShowId ''undefined'' @ '':'' @ show_int n"

definition membershipItems :: "add_to_list_props \<Rightarrow> content_item option \<Rightarrow> bulk_check_item list" where
  "membershipItems p fetched =
     ap_contentItem p #
     (if isMultiSeasonShow p fetched then
        map (\<lambda>s. \<lparr>bc_external_id = season_external_id (effectiveTvShowId p fetched) (sea_season_number s),
                  bc_source_api = bc_source_api (ap_contentItem p), bc_content_type = ''SEASON''\<rparr>)
          (effectiveSeasons p fetched)
      else [])"

definition json_of_check :: "bulk_check_item \<Rightarrow> json" where
  "json_of_check b = JObj [(''external_id'', JStr (bc_external_id b)), (''source_api'', JStr (bc_source_api b)),
     (''content_type'', JStr (bc_content_type b))]"

text \<open>
  The query of the lists that hold the item (\<open>useBulkListMembershipQuery\<close>), and fetching it again:
  \<open>refetch\<close> keeps the lists it had when the request fails, and never throws.
\<close>

definition membership_request :: "bulk_check_item list \<Rightarrow> json client_op" where
  "membership_request items = list_bulkCheck (map json_of_check items)"

definition membership_enabled :: "bool \<Rightarrow> bulk_check_item list \<Rightarrow> bool" where
  "membership_enabled enabled items \<longleftrightarrow> enabled \<and> items \<noteq> []"

definition refetch_membership :: "bulk_check_item list \<Rightarrow> unit modal_op" where
  "refetch_membership items =
     catch_c (then_c (on_client (membership_request items)) (\<lambda>_. return_c ())) (\<lambda>_. return_c ())"

definition getItemInList :: "bulk_check_item \<Rightarrow> user_list_with_matches \<Rightarrow> matched_item option" where
  "getItemInList item lst =
     find (\<lambda>m. mi_external_id m = bc_external_id item \<and> mi_source_api m = bc_source_api item \<and>
       mi_content_type m = bc_content_type item) (um_matched_items lst)"

definition isSeasonInList :: "bulk_check_item \<Rightarrow> string option \<Rightarrow> user_list_with_matches \<Rightarrow> int \<Rightarrow> bool" where
  "isSeasonInList item tvShowId lst n \<longleftrightarrow>
     truthy_str tvShowId \<and>
     (\<exists>m \<in> set (um_matched_items lst). mi_external_id m = season_external_id tvShowId n \<and>
        mi_source_api m = bc_source_api item \<and> mi_content_type m = ''SEASON'')"

definition getSeasonsInListCount ::
  "bulk_check_item \<Rightarrow> string option \<Rightarrow> tv_season list \<Rightarrow> user_list_with_matches \<Rightarrow> int list option \<Rightarrow> nat" where
  "getSeasonsInListCount item tvShowId seasons lst selected =
     (let check = (case selected of None \<Rightarrow> seasons
                   | Some sel \<Rightarrow> filter (\<lambda>s. sea_season_number s \<in> set sel) seasons) in
      length (filter (\<lambda>s. isSeasonInList item tvShowId lst (sea_season_number s)) check))"

text \<open>\<open>parseInt(text, 10)\<close>: the digits after white space and a sign; \<open>None\<close> is \<open>NaN\<close>.\<close>

definition parse_int10 :: "string \<Rightarrow> int option" where
  "parse_int10 s =
     (case dropWhile is_space s of
        CHR ''-'' # t \<Rightarrow> map_option uminus (case takeWhile is_digit t of [] \<Rightarrow> None | ds \<Rightarrow> Some (int (nat_of_digits ds 0)))
      | CHR ''+'' # t \<Rightarrow> (case takeWhile is_digit t of [] \<Rightarrow> None | ds \<Rightarrow> Some (int (nat_of_digits ds 0)))
      | t \<Rightarrow> (case takeWhile is_digit t of [] \<Rightarrow> None | ds \<Rightarrow> Some (int (nat_of_digits ds 0))))"

text \<open>
  The seasons of the show that a list holds, as the dialog reads them from the external ids.  A
  \<open>NaN\<close> in the set is no season number.
\<close>

definition matched_season :: "bulk_check_item \<Rightarrow> string \<Rightarrow> matched_item \<Rightarrow> int option" where
  "matched_season item tvShowId m =
     (if mi_content_type m = ''SEASON'' \<and> mi_source_api m = bc_source_api item then
        (case js_split CHR '':'' (mi_external_id m) of
           [show_part, number] \<Rightarrow> if show_part = tvShowId then parse_int10 number else None
         | _ \<Rightarrow> None)
      else None)"

definition existing_seasons ::
  "bulk_check_item \<Rightarrow> string option \<Rightarrow> add_mode \<Rightarrow> user_list_with_matches option \<Rightarrow> int list option" where
  "existing_seasons item tvShowId addMode lst =
     (case lst of
        Some l \<Rightarrow> if addMode = AddSeasons \<and> truthy_str tvShowId
          then Some (rev (remdups (rev (List.map_filter (matched_season item (the tvShowId)) (um_matched_items l)))))
          else None
      | None \<Rightarrow> None)"

text \<open>Choosing a list in the dialog.\<close>

definition modal_toggle ::
  "list_operations \<Rightarrow> user_list_with_matches list \<Rightarrow> add_mode \<Rightarrow> int list \<Rightarrow> int \<Rightarrow> bool \<Rightarrow> unit modal_op" where
  "modal_toggle ops userLists addMode selected listId checked =
     (let lst = find (\<lambda>l. um_id l = listId) userLists;
          existingItem = Option.bind lst (getItemInList (op_contentItem ops)) in
      handleToggleList ops listId checked addMode selected (map_option mi_list_item_id existingItem)
        (existing_seasons (op_contentItem ops) (op_tvShowId ops) addMode lst))"

text \<open>Closing: not while a list is being created.  The result is the new error, phases and whether it is open.\<close>

definition handleClose :: "bool \<Rightarrow> list_modal \<Rightarrow> modal_phases \<Rightarrow> bool \<times> list_modal \<times> modal_phases" where
  "handleClose multi s p =
     (if \<not> lm_creatingNewList s then (False, s\<lparr>lm_error := None\<rparr>, resetPhases multi p) else (True, s, p))"

text \<open>The effect that runs when the dialog opens or its item changes.\<close>

definition modal_reset ::
  "bool \<Rightarrow> bool \<Rightarrow> list_modal \<times> int list \<times> modal_phases \<Rightarrow> list_modal \<times> int list \<times> modal_phases" where
  "modal_reset isOpen multi st =
     (case st of (s, selected, p) \<Rightarrow>
        if isOpen then (s\<lparr>lm_error := None\<rparr>, resetSelection selected, resetPhases multi p) else st)"

text \<open>The operations of the dialog: those of the hook over the seasons it found and its own query.\<close>

definition modal_operations ::
  "(string \<Rightarrow> string) \<Rightarrow> add_to_list_props \<Rightarrow> content_item option \<Rightarrow> list_operations" where
  "modal_operations localDate p fetched =
     \<lparr>op_contentItem = ap_contentItem p, op_tvShowSeasons = Some (effectiveSeasons p fetched),
      op_tvShowId = effectiveTvShowId p fetched,
      op_refreshLists = refetch_membership (membershipItems p fetched), op_localDate = localDate\<rparr>"

subsection \<open>What every operation of the dialog keeps\<close>

text \<open>
  An operation that leaves the marks alone, only adds toasts, and shows an error in the dialog
  only together with a toast.
\<close>

definition error_toasted :: "list_modal \<Rightarrow> list_modal \<Rightarrow> bool" where
  "error_toasted s s' \<longleftrightarrow>
     (\<exists>ts. cu_toasts s' = cu_toasts s @ ts \<and>
        (\<forall>m. lm_error s' = Some m \<longrightarrow> lm_error s = Some m \<or> (m, ToastError) \<in> set ts))"

definition same_marks :: "list_modal \<Rightarrow> list_modal \<Rightarrow> bool" where
  "same_marks s s' \<longleftrightarrow>
     lm_loadingListIds s' = lm_loadingListIds s \<and> lm_creatingNewList s' = lm_creatingNewList s"

definition keeps_marks :: "'a modal_op \<Rightarrow> bool" where
  "keeps_marks m \<longleftrightarrow> (\<forall>env s. same_marks s (snd (m env s)))"

definition shows_errors :: "'a modal_op \<Rightarrow> bool" where
  "shows_errors m \<longleftrightarrow> (\<forall>env s. error_toasted s (snd (m env s)))"

definition tame :: "'a modal_op \<Rightarrow> bool" where
  "tame m \<longleftrightarrow> keeps_marks m \<and> shows_errors m"

named_theorems tame_intros

lemma error_toasted_refl: "error_toasted s s"
  by (simp add: error_toasted_def)

lemma error_toasted_trans: "error_toasted s1 s2 \<Longrightarrow> error_toasted s2 s3 \<Longrightarrow> error_toasted s1 s3"
  unfolding error_toasted_def by (elim exE conjE) (auto; blast)

lemma same_marks_trans: "same_marks s1 s2 \<Longrightarrow> same_marks s2 s3 \<Longrightarrow> same_marks s1 s3"
  by (simp add: same_marks_def)

lemma tameI: "(\<And>env s. same_marks s (snd (m env s)) \<and> error_toasted s (snd (m env s))) \<Longrightarrow> tame m"
  by (simp add: tame_def keeps_marks_def shows_errors_def)

lemma tameD: "tame m \<Longrightarrow> same_marks s (snd (m env s)) \<and> error_toasted s (snd (m env s))"
  by (simp add: tame_def keeps_marks_def shows_errors_def)

lemma tame_basic [tame_intros]:
  "tame (return_c x)" "tame (throw_c e)" "tame (toast_c msg typ)" "tame (on_client m)"
  by (rule tameI; simp add: client_defs toast_c_def on_client_def same_marks_def error_toasted_def split: prod.splits)+

lemma tame_after:
  assumes "same_marks s s1 \<and> error_toasted s s1" "tame k"
  shows "same_marks s (snd (k env s1)) \<and> error_toasted s (snd (k env s1))"
  using assms tameD [of k s1 env] same_marks_trans error_toasted_trans by blast

lemma tame_then [tame_intros]: "tame m \<Longrightarrow> (\<And>x. tame (k x)) \<Longrightarrow> tame (then_c m k)"
proof (rule tameI)
  fix env s assume m: "tame m" and k: "\<And>x. tame (k x)"
  obtain r s1 where r: "m env s = (r, s1)" by (cases "m env s")
  with tameD [OF m, of s env] tame_after [OF _ k]
  show "same_marks s (snd (then_c m k env s)) \<and> error_toasted s (snd (then_c m k env s))"
    by (cases r) (auto simp: then_c_def)
qed

lemma tame_catch [tame_intros]: "tame m \<Longrightarrow> (\<And>e. tame (h e)) \<Longrightarrow> tame (catch_c m h)"
proof (rule tameI)
  fix env s assume m: "tame m" and h: "\<And>e. tame (h e)"
  obtain r s1 where r: "m env s = (r, s1)" by (cases "m env s")
  with tameD [OF m, of s env] tame_after [OF _ h]
  show "same_marks s (snd (catch_c m h env s)) \<and> error_toasted s (snd (catch_c m h env s))"
    by (cases r) (auto simp: catch_c_def)
qed

text \<open>An error that is set is followed by its toast.\<close>

lemma tame_error_toast [tame_intros]:
  "tame (then_c (setError (Some m)) (\<lambda>_. toast_c m ToastError))"
  by (rule tameI) (simp add: client_defs setError_def toast_c_def same_marks_def error_toasted_def)

lemma tame_if [tame_intros]: "(b \<Longrightarrow> tame m) \<Longrightarrow> (\<not> b \<Longrightarrow> tame n) \<Longrightarrow> tame (if b then m else n)"
  by simp

lemma tame_option [tame_intros]:
  "(\<And>x. v = Some x \<Longrightarrow> tame (m x)) \<Longrightarrow> tame n \<Longrightarrow> tame (case v of None \<Rightarrow> n | Some x \<Rightarrow> m x)"
  by (cases v) simp_all

text \<open>
  The mutation that adds an item sets the error by its callback and shows a toast of its own.  The
  two texts agree unless the error has no message; then the handler around it sets the error
  again.  So an operation may leave an error of its own to be settled by its handler.
\<close>

definition unsettled_error :: "client_error \<Rightarrow> list_modal \<Rightarrow> list_modal \<Rightarrow> bool" where
  "unsettled_error e s s' \<longleftrightarrow> (\<exists>ts. cu_toasts s' = cu_toasts s @ ts) \<and> (client_message e \<noteq> [] \<longrightarrow> error_toasted s s')"

definition leaves_error :: "'a modal_op \<Rightarrow> bool" where
  "leaves_error m \<longleftrightarrow> (\<forall>env s. case m env s of (r, s') \<Rightarrow> same_marks s s' \<and>
     (case r of Inr _ \<Rightarrow> error_toasted s s' | Inl e \<Rightarrow> unsettled_error e s s'))"

lemma leavesI:
  assumes "\<And>env s r s'. m env s = (r, s') \<Longrightarrow>
    same_marks s s' \<and> (case r of Inr _ \<Rightarrow> error_toasted s s' | Inl e \<Rightarrow> unsettled_error e s s')"
  shows "leaves_error m"
  unfolding leaves_error_def by (intro allI) (auto split: prod.split dest: assms)

lemma leavesD: "leaves_error m \<Longrightarrow> m env s = (r, s') \<Longrightarrow>
    same_marks s s' \<and> (case r of Inr _ \<Rightarrow> error_toasted s s' | Inl e \<Rightarrow> unsettled_error e s s')"
  unfolding leaves_error_def by (drule spec [of _ env], drule spec [of _ s]) simp

lemma error_toasted_unsettled: "error_toasted s s' \<Longrightarrow> unsettled_error e s s'"
  by (auto simp: unsettled_error_def error_toasted_def)

lemma tame_leaves: "tame m \<Longrightarrow> leaves_error m"
proof (rule leavesI)
  fix env s r s' assume t: "tame m" and r: "m env s = (r, s')"
  have "same_marks s s'" "error_toasted s s'" using tameD [OF t, of s env] r by simp_all
  then show "same_marks s s' \<and> (case r of Inr _ \<Rightarrow> error_toasted s s' | Inl e \<Rightarrow> unsettled_error e s s')"
    by (simp add: error_toasted_unsettled split: sum.split)
qed

lemma leaves_then: "leaves_error m \<Longrightarrow> (\<And>x. leaves_error (k x)) \<Longrightarrow> leaves_error (then_c m k)"
proof (rule leavesI)
  fix env s r s' assume m: "leaves_error m" and k: "\<And>x. leaves_error (k x)" and run: "then_c m k env s = (r, s')"
  obtain r1 s1 where r1: "m env s = (r1, s1)" by (cases "m env s")
  note 1 = leavesD [OF m r1]
  show "same_marks s s' \<and> (case r of Inr _ \<Rightarrow> error_toasted s s' | Inl e \<Rightarrow> unsettled_error e s s')"
  proof (cases r1)
    case (Inl e)
    then show ?thesis using 1 run r1 by (auto simp: then_c_def)
  next
    case (Inr x)
    then have "k x env s1 = (r, s')" using run r1 by (simp add: then_c_def)
    note 2 = leavesD [OF k this]
    have "unsettled_error e s s'" if "unsettled_error e s1 s'" for e
      using 1 Inr that error_toasted_trans [of s s1 s'] by (auto simp: unsettled_error_def error_toasted_def)
    with 1 2 Inr show ?thesis
      using same_marks_trans error_toasted_trans by (auto split: sum.splits)
  qed
qed

text \<open>A handler that sets and shows the error again settles it.\<close>

lemma tame_settled:
  assumes m: "leaves_error m" and h: "\<And>e. tame (h e)"
    and shown: "\<And>e env s. client_message e = [] \<Longrightarrow>
      \<exists>ts. cu_toasts (snd (h e env s)) = cu_toasts s @ ts \<and>
        (\<forall>m. lm_error (snd (h e env s)) = Some m \<longrightarrow> (m, ToastError) \<in> set ts)"
  shows "tame (catch_c m h)"
proof (rule tameI)
  fix env s
  obtain r s1 where r: "m env s = (r, s1)" by (cases "m env s")
  note 1 = leavesD [OF m r]
  show "same_marks s (snd (catch_c m h env s)) \<and> error_toasted s (snd (catch_c m h env s))"
  proof (cases r)
    case (Inr x)
    then show ?thesis using 1 r by (simp add: catch_c_def)
  next
    case (Inl e)
    have marks: "same_marks s (snd (h e env s1))"
      using 1 tameD [OF h, of s1 e env] same_marks_trans by blast
    have "error_toasted s (snd (h e env s1))"
    proof (cases "client_message e = []")
      case True
      obtain ts where ts: "cu_toasts s1 = cu_toasts s @ ts" using 1 Inl by (auto simp: unsettled_error_def)
      with shown [OF True, of env s1] show ?thesis by (auto simp: error_toasted_def)
    next
      case False
      then have "error_toasted s s1" using 1 Inl by (simp add: unsettled_error_def)
      then show ?thesis using tameD [OF h, of s1 e env] error_toasted_trans by blast
    qed
    with marks show ?thesis by (simp add: catch_c_def r Inl)
  qed
qed

lemma leaves_addToList: "leaves_error (addToList listId payload)"
proof (rule leavesI)
  fix env and s :: list_modal and r' s' assume run: "addToList listId payload env s = (r', s')"
  let ?m = "listItem_create listId payload (Some ''id,status'')"
  obtain r c where r: "?m env (cu_client s) = (r, c)" by (cases "?m env (cu_client s)")
  then show "same_marks s s' \<and> (case r' of Inr _ \<Rightarrow> error_toasted s s' | Inl e \<Rightarrow> unsettled_error e s s')"
    using run by (cases r) (auto simp: addToList_def addContent_mutate_def mutation_defs client_defs setError_def
        same_marks_def error_toasted_def unsettled_error_def message_or_def)
qed

lemma tame_season_loop: "tame (season_loop ops listId ns added failed)"
  by (induction ns arbitrary: added failed)
    (auto simp: add_season_def split: prod.split intro!: tame_intros)

lemma tame_addSeasons: "tame (addSeasonsToList ops listId ns existing)"
  by (auto simp: addSeasonsToList_def season_report_def Let_def split: prod.split
      intro!: tame_intros tame_season_loop)

lemma tame_refetch: "tame (refetch_membership items)"
  by (auto simp: refetch_membership_def intro!: tame_intros)

lemma leaves_toggle_body: "leaves_error (toggle_body ops listId checked addMode selected existingItemId existing)"
proof -
  have "leaves_error (then_c (addToList listId (item_payload (op_contentItem ops)))
      (\<lambda>_. then_c (toast_c ''Added to list'' ToastSuccess) (\<lambda>_. return_c True)))"
    by (rule leaves_then [OF leaves_addToList tame_leaves]) (intro tame_intros)
  moreover have "tame (then_c (addSeasonsToList ops listId selected existing) (\<lambda>_. return_c True))"
    by (intro tame_intros tame_addSeasons)
  moreover have "tame (then_c (on_client (listItem_delete listId (the existingItemId)))
      (\<lambda>_. then_c (toast_c ''Removed from list'' ToastSuccess) (\<lambda>_. return_c True)))"
    "tame (then_c (toast_c ''Removing seasons is not supported in this view yet'' ToastInfo) (\<lambda>_. return_c False))"
    "tame (return_c True :: bool modal_op)"
    by (intro tame_intros)+
  ultimately show ?thesis by (simp add: toggle_body_def tame_leaves)
qed

lemma tame_toggle_failure: "tame (op_refreshLists ops) \<Longrightarrow> tame (toggle_failure ops e)"
  by (auto simp: toggle_failure_def Let_def intro!: tame_intros)

lemma failure_shown:
  assumes "client_message e = []"
  shows "\<exists>ts. cu_toasts (snd (toggle_failure ops e env s)) = cu_toasts s @ ts \<and>
    (\<forall>m. lm_error (snd (toggle_failure ops e env s)) = Some m \<longrightarrow> (m, ToastError) \<in> set ts)"
  using assms
  by (cases e) (simp_all add: toggle_failure_def duplicate_item_def message_or_def says_duplicate_def js_lower_def
      lower_char_def client_defs setError_def toast_c_def Let_def)

lemma tame_toggle:
  assumes "tame (op_refreshLists ops)"
  shows "tame (catch_c
    (then_c (toggle_body ops listId checked addMode selected existingItemId existing)
      (\<lambda>refresh. if refresh then op_refreshLists ops else return_c ()))
    (toggle_failure ops))"
  by (rule tame_settled [OF _ tame_toggle_failure [OF assms] failure_shown])
    (rule leaves_then [OF leaves_toggle_body tame_leaves], intro tame_intros assms)

text \<open>The handler of a failure, and the query, do not throw.\<close>

lemma refetch_total: "fst (refetch_membership items env s) = Inr ()"
  by (simp add: refetch_membership_def client_defs split: prod.split sum.split)

lemma toggle_failure_total:
  assumes "\<And>env s. fst (op_refreshLists ops env s) = Inr ()"
  shows "fst (toggle_failure ops e env s) = Inr ()"
  using assms by (simp add: toggle_failure_def client_defs setError_def toast_c_def Let_def split: option.split)

lemma catch_total: "(\<And>e s. fst (h e env s) = Inr ()) \<Longrightarrow> fst (catch_c m h env s) = Inr ()"
  by (cases "m env s"; cases "fst (m env s)") (simp_all add: catch_c_def)

subsection \<open>Properties\<close>

text \<open>C15. Choosing a list in the dialog always ends, whatever the server does: the mark of that list is
  removed and no other mark changes, the handler does not throw, toasts are only added, and an
  error is shown in the dialog only when a toast shows it too.\<close>

theorem toggle_settles:
  "case handleToggleList (modal_operations localDate p fetched) listId checked addMode selected existingItemId existing env s of
     (r, s') \<Rightarrow>
       r = Inr () \<and> lm_loadingListIds s' = lm_loadingListIds s - {listId} \<and>
       lm_creatingNewList s' = lm_creatingNewList s \<and>
       (\<exists>ts. cu_toasts s' = cu_toasts s @ ts \<and>
          (case lm_error s' of None \<Rightarrow> True | Some m \<Rightarrow> (m, ToastError) \<in> set ts))"
proof -
  let ?ops = "modal_operations localDate p fetched"
  let ?m = "catch_c
    (then_c (toggle_body ?ops listId checked addMode selected existingItemId existing)
      (\<lambda>refresh. if refresh then op_refreshLists ?ops else return_c ())) (toggle_failure ?ops)"
  let ?s = "s\<lparr>lm_loadingListIds := insert listId (lm_loadingListIds s), lm_error := None\<rparr>"
  have "tame ?m" by (rule tame_toggle) (simp add: modal_operations_def tame_refetch)
  moreover have "fst (?m env ?s) = Inr ()"
    by (rule catch_total, rule toggle_failure_total) (simp add: modal_operations_def refetch_total)
  ultimately show ?thesis
    using tameD [of ?m ?s env]
    by (auto simp: handleToggleList_def then_c_def [of "update_c _"] update_c_def finally_c_def
        same_marks_def error_toasted_def case_prod_unfold split: option.split)
qed

text \<open>The request that adds one season.\<close>

definition season_call :: "list_operations \<Rightarrow> int \<Rightarrow> int \<Rightarrow> string option \<Rightarrow> call" where
  "season_call ops listId n =
     request_call ''POST'' (items_endpoint listId @ query_suffix [(''fields'', ''id,context_status'')])
       (Some (json_of_create (season_payload ops n)))"

lemma add_season_calls:
  "\<exists>cs. cs_calls (cu_client (snd (add_season ops listId n env s))) = cs_calls (cu_client s) @ cs \<and>
     set cs \<subseteq> insert csrf_call (range (season_call ops listId n)) \<and>
     (\<forall>v. fst (add_season ops listId n env s) = Inr v \<longrightarrow> (\<exists>t. season_call ops listId n t \<in> set cs))"
  using api_calls_sent [of "''POST''" "items_endpoint listId @ query_suffix [(''fields'', ''id,context_status'')]"
      "Some (json_of_create (season_payload ops n))" env "cu_client s"]
  by (simp add: add_season_def listItem_create_def api_post_def api_body_def field_truthy_def json_of_create_def
      season_call_def)

definition season_calls :: "list_operations \<Rightarrow> int \<Rightarrow> int list \<Rightarrow> call set" where
  "season_calls ops listId ns = (\<Union>n \<in> set ns. range (season_call ops listId n))"

lemma season_loop_run:
  "\<exists>a f cs s'. season_loop ops listId ns added failed env s = (Inr (added @ a, failed @ f), s') \<and>
     mset (filter (known_season ops) ns) = mset a + mset (map fst f) \<and> cu_toasts s' = cu_toasts s \<and>
     cs_calls (cu_client s') = cs_calls (cu_client s) @ cs \<and>
     set cs \<subseteq> insert csrf_call (season_calls ops listId (filter (known_season ops) ns)) \<and>
     set a \<subseteq> {n. \<exists>t. season_call ops listId n t \<in> set cs}"
proof (induction ns arbitrary: added failed s)
  case Nil
  show ?case
    by (intro exI [of _ "[]"] exI [of _ s]) (simp add: return_c_def)
next
  case (Cons n ns)
  show ?case
  proof (cases "known_season ops n")
    case False
    then show ?thesis using Cons.IH [of added failed s] by simp
  next
    case known: True
    obtain r s1 where r: "add_season ops listId n env s = (r, s1)" by (cases "add_season ops listId n env s")
    obtain cs1 where cs1: "cs_calls (cu_client s1) = cs_calls (cu_client s) @ cs1"
        "set cs1 \<subseteq> insert csrf_call (range (season_call ops listId n))"
        "\<And>v. r = Inr v \<Longrightarrow> \<exists>t. season_call ops listId n t \<in> set cs1"
      using add_season_calls [of ops listId n env s] r by (auto; blast)
    have toasts: "cu_toasts s1 = cu_toasts s" using r by (auto simp: add_season_def on_client_def split: prod.splits)
    define added' where "added' = added @ (case r of Inr _ \<Rightarrow> [n] | Inl _ \<Rightarrow> [])"
    define failed' where "failed' = failed @ (case r of Inr _ \<Rightarrow> [] | Inl e \<Rightarrow> [(n, client_message e)])"
    have step: "season_loop ops listId (n # ns) added failed env s = season_loop ops listId ns added' failed' env s1"
      using known r by (cases r) (simp_all add: client_defs added'_def failed'_def)
    obtain a f cs s' where ih: "season_loop ops listId ns added' failed' env s1 = (Inr (added' @ a, failed' @ f), s')"
        "mset (filter (known_season ops) ns) = mset a + mset (map fst f)" "cu_toasts s' = cu_toasts s1"
        "cs_calls (cu_client s') = cs_calls (cu_client s1) @ cs"
        "set cs \<subseteq> insert csrf_call (season_calls ops listId (filter (known_season ops) ns))"
        "set a \<subseteq> {n. \<exists>t. season_call ops listId n t \<in> set cs}"
      using Cons.IH [of added' failed' s1] by blast
    let ?a = "(case r of Inr _ \<Rightarrow> [n] | Inl _ \<Rightarrow> []) @ a"
    let ?f = "(case r of Inr _ \<Rightarrow> [] | Inl e \<Rightarrow> [(n, client_message e)]) @ f"
    have "set (cs1 @ cs) \<subseteq> insert csrf_call (season_calls ops listId (filter (known_season ops) (n # ns)))"
      using known cs1(2) ih(5) by (auto simp: season_calls_def)
    moreover have "set ?a \<subseteq> {n. \<exists>t. season_call ops listId n t \<in> set (cs1 @ cs)}"
      using cs1(3) ih(6) by (cases r) auto
    moreover have "mset (filter (known_season ops) (n # ns)) = mset ?a + mset (map fst ?f)"
      using known ih(2) by (cases r) simp_all
    moreover have "season_loop ops listId (n # ns) added failed env s = (Inr (added @ ?a, failed @ ?f), s')"
      using step ih(1) by (simp add: added'_def failed'_def)
    ultimately show ?thesis
      using ih(3,4) cs1(1) toasts by (intro exI [of _ ?a] exI [of _ ?f] exI [of _ "cs1 @ cs"] exI [of _ s']) simp
  qed
qed

text \<open>Adding seasons to a list accounts for each of them: the seasons of the show that are not in the list
  yet are either added or reported as failed, a season counts as added only if its request was
  sent, and no request is sent for a season that the list holds or that the show does not have.
  The toast counts them, and only when nothing but failures is left does the operation throw.\<close>

theorem seasons_accounted:
  "case addSeasonsToList ops listId ns existing env s of (r, s') \<Rightarrow>
     \<exists>added failed cs.
       mset (filter (known_season ops) (seasons_to_add ns existing)) = mset added + mset failed \<and>
       cs_calls (cu_client s') = cs_calls (cu_client s) @ cs \<and>
       set cs \<subseteq> insert csrf_call
         (season_calls ops listId (filter (known_season ops) (seasons_to_add ns existing))) \<and>
       set added \<subseteq> {n. \<exists>t. season_call ops listId n t \<in> set cs} \<and>
       r = (if added = [] \<and> failed \<noteq> [] then Inl (Failure (JsError (''Failed to add seasons: '' @
              js_join '', '' (map (\<lambda>n. ''Season '' @ show_int n) failed)))) else Inr ()) \<and>
       cu_toasts s' = cu_toasts s @
         (if seasons_to_add ns existing = [] then [(''All selected seasons are already in the list'', ToastInfo)]
          else if failed = [] then [(''Added '' @ show_nat (length added) @ '' seasons to list'', ToastSuccess)]
          else if added = [] then []
          else [(''Added '' @ show_nat (length added) @ '' seasons. '' @ show_nat (length failed) @ '' failed.'',
                 ToastWarning)])"
proof (cases "seasons_to_add ns existing = []")
  case True
  then show ?thesis by (simp add: addSeasonsToList_def toast_c_def update_c_def)
next
  case False
  let ?todo = "seasons_to_add ns existing"
  obtain a f cs s1 where run: "season_loop ops listId ?todo [] [] env s = (Inr (a, f), s1)"
    and parts: "mset (filter (known_season ops) ?todo) = mset a + mset (map fst f)"
      "cu_toasts s1 = cu_toasts s" "cs_calls (cu_client s1) = cs_calls (cu_client s) @ cs"
      "set cs \<subseteq> insert csrf_call (season_calls ops listId (filter (known_season ops) ?todo))"
      "set a \<subseteq> {n. \<exists>t. season_call ops listId n t \<in> set cs}"
    using season_loop_run [of ops listId ?todo "[]" "[]" env s] by auto
  have eq: "addSeasonsToList ops listId ns existing env s = season_report (a, f) env s1"
    using False run by (simp add: addSeasonsToList_def Let_def then_c_def)
  have report: "season_report (a, f) env s1 =
      (if a = [] \<and> map fst f \<noteq> [] then Inl (Failure (JsError (''Failed to add seasons: '' @
          js_join '', '' (map (\<lambda>n. ''Season '' @ show_int n) (map fst f))))) else Inr (),
       s1\<lparr>cu_toasts := cu_toasts s @
         (if map fst f = [] then [(''Added '' @ show_nat (length a) @ '' seasons to list'', ToastSuccess)]
          else if a = [] then []
          else [(''Added '' @ show_nat (length a) @ '' seasons. '' @ show_nat (length (map fst f)) @ '' failed.'',
                 ToastWarning)])\<rparr>)"
    using parts(2) by (cases "f = []"; cases "a = []")
      (simp_all add: season_report_def toast_c_def update_c_def throw_c_def o_def)
  show ?thesis unfolding eq report
    using False parts(1,3-5)
    by (simp only: prod.case, intro exI [of _ a] exI [of _ "map fst f"] exI [of _ cs]) simp
qed

text \<open>When the server refuses an item as a duplicate, the handler means to say so and nothing more; but
  the mutation has already put the failure in the dialog and in a toast of its own, and both stay.\<close>

theorem duplicate_shown_as_error:
  fixes s :: list_modal
  assumes "listItem_create listId (item_payload (ap_contentItem p)) (Some ''id,status'') env (cu_client s) = (Inl e, c)"
    and "says_duplicate (client_message e)" "addMode = AddShow \<or> selected = []"
  shows "case handleToggleList (modal_operations localDate p fetched) listId True addMode selected existingItemId existing env s of
     (r, s') \<Rightarrow> lm_error s' = Some (client_message e) \<and>
       cu_toasts s' = cu_toasts s @ [(client_message e, ToastError), (''This item is already in the list'', ToastInfo)]"
proof -
  let ?ops = "modal_operations localDate p fetched"
  have e: "client_message e \<noteq> []" using assms(2) by (auto simp: says_duplicate_def js_lower_def)
  then have m: "message_or e t = client_message e" for t by (simp add: message_or_def)
  have d: "duplicate_item e = None" by (cases e) (simp_all add: duplicate_item_def)
  have refetch: "lm_error (snd (refetch_membership items env s)) = lm_error s"
    "cu_toasts (snd (refetch_membership items env s)) = cu_toasts s" for items and s :: list_modal
    by (simp_all add: refetch_membership_def client_defs on_client_def split: prod.split sum.split)
  have body: "toggle_body ?ops listId True addMode selected existingItemId existing =
      then_c (addToList listId (item_payload (ap_contentItem p)))
        (\<lambda>_. then_c (toast_c ''Added to list'' ToastSuccess) (\<lambda>_. return_c True))"
    using assms(3) by (auto simp: toggle_body_def modal_operations_def)
  let ?s = "s\<lparr>lm_loadingListIds := insert listId (lm_loadingListIds s), lm_error := None\<rparr>"
  let ?s1 = "?s\<lparr>cu_client := c, lm_error := Some (client_message e), cu_toasts := cu_toasts s @ [(client_message e, ToastError)]\<rparr>"
  have add: "addToList listId (item_payload (ap_contentItem p)) env ?s = (Inl e, ?s1)"
    using assms(1) m by (simp add: addToList_def addContent_mutate_def mutation_defs setError_def client_defs)
  have failure: "toggle_failure ?ops e = then_c (toast_c ''This item is already in the list'' ToastInfo)
      (\<lambda>_. refetch_membership (membershipItems p fetched))"
    using assms(2) m d by (simp add: toggle_failure_def modal_operations_def)
  have "snd (handleToggleList ?ops listId True addMode selected existingItemId existing env s) =
      (let s2 = snd (toggle_failure ?ops e env ?s1) in s2\<lparr>lm_loadingListIds := lm_loadingListIds s2 - {listId}\<rparr>)"
    by (simp add: handleToggleList_def body then_c_def update_c_def finally_c_def catch_c_def add case_prod_unfold Let_def)
  then show ?thesis
    by (simp add: case_prod_unfold failure then_c_def toast_c_def update_c_def refetch Let_def)
qed

text \<open>A server that refuses every item as a duplicate.\<close>

definition duplicate_env :: client_env where
  "duplicate_env = \<lparr>ce_net = \<lambda>_ _. Inr \<lparr>us_status = 409, us_headers = [(''content-type'', ''application/json'')],
       us_setCookies = None, us_text = ''{}''\<rparr>,
     ce_parse = \<lambda>_. Some (JObj [(''detail'', JStr ''Already listed'')]), ce_stringify = \<lambda>_. []\<rparr>"

definition sample_modal :: list_modal where
  "sample_modal = \<lparr>cu_client = \<lparr>cs_auth = auth_created, cs_csrfToken = Some ''token'', cs_calls = []\<rparr>, cu_toasts = [],
     lm_loadingListIds = {}, lm_creatingNewList = False, lm_error = None\<rparr>"

definition sample_props :: add_to_list_props where
  "sample_props = \<lparr>ap_isOpen = True,
     ap_contentItem = \<lparr>bc_external_id = ''7'', bc_source_api = ''IGDB'', bc_content_type = ''GAME''\<rparr>,
     ap_tvShowSeasons = None, ap_tvShowId = None\<rparr>"

theorem duplicate_shown_as_error_witness:
  "\<exists>s'. s' = snd (handleToggleList (modal_operations (\<lambda>t. t) sample_props None) 3 True AddShow [] None None
       duplicate_env sample_modal) \<and>
     lm_error s' = Some ''Request failed (409): Already listed'' \<and> length (cu_toasts s') = 2"
proof -
  let ?m = "listItem_create 3 (item_payload (ap_contentItem sample_props)) (Some ''id,status'') duplicate_env (cu_client sample_modal)"
  have "fst ?m = Inl (ApiRequestError 409 (JObj [(''detail'', JStr ''Already listed'')]) ''Request failed (409): Already listed'')"
    by code_simp
  then obtain c where c: "?m = (Inl (ApiRequestError 409 (JObj [(''detail'', JStr ''Already listed'')])
      ''Request failed (409): Already listed''), c)" by (metis prod.collapse)
  have "says_duplicate ''Request failed (409): Already listed''" by code_simp
  with duplicate_shown_as_error [OF c, of AddShow "[]" "\<lambda>t. t" None None None]
  show ?thesis by (simp add: case_prod_unfold sample_modal_def)
qed

text \<open>Creating a list ends as well: the mark is removed, and the loading marks are untouched.\<close>

lemma create_settles:
  "case handleCreateNewList as_list_id (modal_operations localDate p fetched) r1 r2 env s of
     (r, s') \<Rightarrow> r = Inr () \<and> \<not> lm_creatingNewList s' \<and> lm_loadingListIds s' = lm_loadingListIds s"
proof -
  let ?ops = "modal_operations localDate p fetched"
  let ?s = "s\<lparr>lm_creatingNewList := True, lm_error := None\<rparr>"
  let ?body = "then_c (createList_mutate (generateRandomListName r1 r2) None None) (\<lambda>newList.
            then_c (addToList (as_list_id newList) (item_payload (op_contentItem ?ops))) (\<lambda>_.
            then_c (op_refreshLists ?ops) (\<lambda>_. toast_c ''List created and item added'' ToastSuccess)))"
  let ?h = "\<lambda>e. then_c (setError (Some (client_message e))) (\<lambda>_. toast_c (client_message e) ToastError)"
  have "tame (createList_mutate n d t)" for n d t
    by (auto simp: createList_mutate_def with_error_toast_def mutate_async_def intro!: tame_intros)
  moreover have "tame (op_refreshLists ?ops)" by (simp add: modal_operations_def tame_refetch)
  ultimately have "leaves_error ?body"
    by (intro leaves_then leaves_addToList) (simp_all add: tame_leaves tame_basic)
  then have "tame (catch_c ?body ?h)"
    by (rule tame_settled [OF _ tame_error_toast]) (simp add: setError_def toast_c_def client_defs)
  moreover have "fst (catch_c ?body ?h env ?s) = Inr ()"
    by (rule catch_total) (simp add: setError_def toast_c_def client_defs)
  ultimately show ?thesis
    using tameD [of "catch_c ?body ?h" ?s env]
    by (auto simp: handleCreateNewList_def then_c_def [of "update_c _"] update_c_def finally_c_def same_marks_def
        case_prod_unfold)
qed

end
