(* ===== verification/Platforms.thy ===== *)
theory Platforms
  imports Prelude ApiTypes
begin

text \<open>
  Where content can be watched or played: providers with their offers
  (\<open>lib/platforms/contentPlatforms.ts\<close>) and the platforms of games in groups
  (\<open>lib/platforms/gamePlatforms.ts\<close>, \<open>platformGroupConfig.ts\<close>).  What depends on the Unicode tables
  and on the URL parser is the record \<open>text_env\<close>, an argument; icons are their names.  The file of
  known game platforms (\<open>data/video-game-platforms-with-suggested-group.json\<close>) is the argument
  \<open>records\<close>.
\<close>

subsection \<open>Text\<close>

text \<open>
  \<open>te_fold\<close> is NFKD without combining marks, in lower case; \<open>te_words\<close> gives the maximal runs of
  letters and numbers; \<open>te_capitalize\<close> writes the first letter in upper case; \<open>te_collate\<close> is
  \<open>localeCompare\<close>; \<open>te_protocol\<close> is the protocol of \<open>new URL(text)\<close>, \<open>None\<close> when that throws.
\<close>

record text_env =
  te_fold :: "string \<Rightarrow> string"
  te_words :: "string \<Rightarrow> string list"
  te_capitalize :: "string \<Rightarrow> string"
  te_collate :: "string \<Rightarrow> string \<Rightarrow> rat"
  te_protocol :: "string \<Rightarrow> string option"

definition spell_ampersand :: "string \<Rightarrow> string" where
  "spell_ampersand s = concat (map (\<lambda>c. if c = CHR ''&'' then '' and '' else [c]) s)"

text \<open>Every other run of characters becomes one space, and none is left at the ends.\<close>

definition normalizeLookupValue :: "text_env \<Rightarrow> string \<Rightarrow> string" where
  "normalizeLookupValue env v = js_join '' '' (te_words env (spell_ampersand (te_fold env v)))"

definition humanizeAction :: "text_env \<Rightarrow> string \<Rightarrow> string" where
  "humanizeAction env action =
     js_join '' '' (map (te_capitalize env) (filter (\<lambda>w. w \<noteq> []) (js_split CHR '' '' action)))"

subsection \<open>Offers\<close>

record normalized_action =
  na_key :: string
  na_label :: string
  na_order :: int
  na_icon :: string
  na_urls :: "string list"

record normalized_platform =
  np_key :: string
  np_name :: string
  np_logoUrl :: "string option"
  np_providerId :: "string option"
  np_priority :: int
  np_actions :: "normalized_action list"

record action_config =
  ac_label :: string
  ac_order :: int
  ac_icon :: string
  ac_aliases :: "string list"

definition CONTENT_ACTION_FILTER_ALL :: string where "CONTENT_ACTION_FILTER_ALL = ''all''"

definition CONTENT_ACTION_CONFIG :: "(string \<times> action_config) list" where
  "CONTENT_ACTION_CONFIG =
     [(''stream'', \<lparr>ac_label = ''Stream'', ac_order = 10, ac_icon = ''Play'',
         ac_aliases = [''stream'', ''streaming'', ''flatrate'', ''subscription'', ''watch'']\<rparr>),
      (''free'', \<lparr>ac_label = ''Free'', ac_order = 20, ac_icon = ''Gift'', ac_aliases = [''free'', ''gratis'']\<rparr>),
      (''ads'', \<lparr>ac_label = ''With ads'', ac_order = 30, ac_icon = ''Megaphone'',
         ac_aliases = [''ads'', ''ad supported'', ''with ads'', ''free with ads'', ''stream with ads'']\<rparr>),
      (''buy'', \<lparr>ac_label = ''Buy'', ac_order = 40, ac_icon = ''ShoppingCart'',
         ac_aliases = [''buy'', ''purchase'', ''buying'']\<rparr>),
      (''rent'', \<lparr>ac_label = ''Rent'', ac_order = 50, ac_icon = ''Ticket'',
         ac_aliases = [''rent'', ''rental'', ''renting'']\<rparr>)]"

definition ACTION_ALIASES :: "text_env \<Rightarrow> (string \<times> string) list" where
  "ACTION_ALIASES env =
     map_from (concat (map (\<lambda>(key, config). map (\<lambda>alias. (normalizeLookupValue env alias, key)) (ac_aliases config))
       CONTENT_ACTION_CONFIG))"

definition PROVIDER_ALIASES :: "(string \<times> string) list" where
  "PROVIDER_ALIASES =
     [(''amazon prime'', ''amazon video''), (''amazon prime video'', ''amazon video''),
      (''google play movies tv'', ''google play''), (''google play movies and tv'', ''google play''),
      (''apple tv plus'', ''apple tv'')]"

definition PROVIDER_PRIORITIES :: "(string \<times> int) list" where
  "PROVIDER_PRIORITIES =
     [(''netflix'', 10), (''amazon video'', 20), (''disney plus'', 30), (''apple tv'', 40), (''crunchyroll'', 50),
      (''google play'', 60)]"

definition EXCLUDED_PROVIDER_MARKERS :: "string list" where
  "EXCLUDED_PROVIDER_MARKERS = [''amazon channel'', ''apple tv channel'', ''roku premium channel'', ''with ads'']"

definition UNKNOWN_ACTION_ORDER :: int where "UNKNOWN_ACTION_ORDER = 1000"

definition normalizeProviderKey :: "text_env \<Rightarrow> string \<Rightarrow> string" where
  "normalizeProviderKey env name =
     (let normalized = normalizeLookupValue env name in nullish (map_of PROVIDER_ALIASES normalized) normalized)"

definition normalizeContentAction :: "text_env \<Rightarrow> string \<Rightarrow> normalized_action" where
  "normalizeContentAction env rawAction =
     (let normalizedAction = normalizeLookupValue env rawAction;
          key = nullish (map_of (ACTION_ALIASES env) normalizedAction)
                  (if normalizedAction \<noteq> [] then normalizedAction else ''other'') in
      case map_of CONTENT_ACTION_CONFIG key of
        Some config \<Rightarrow>
          \<lparr>na_key = key, na_label = ac_label config, na_order = ac_order config, na_icon = ac_icon config, na_urls = []\<rparr>
      | None \<Rightarrow>
          \<lparr>na_key = key,
           na_label = humanizeAction env (if normalizedAction \<noteq> [] then normalizedAction else ''Other''),
           na_order = UNKNOWN_ACTION_ORDER, na_icon = ''CircleHelp'', na_urls = []\<rparr>)"

definition isExcludedProvider :: "text_env \<Rightarrow> string \<Rightarrow> bool" where
  "isExcludedProvider env name \<longleftrightarrow>
     list_ex (\<lambda>marker. js_includes (normalizeLookupValue env name) (normalizeLookupValue env marker))
       EXCLUDED_PROVIDER_MARKERS"

definition getProviderId :: "platform \<Rightarrow> string option" where
  "getProviderId p =
     (case opt_else (pl_provider_id p) (opt_else (pl_providerId p) (pl_id p)) of
        None \<Rightarrow> None | Some n \<Rightarrow> if js_trim n = [] then None else Some (js_trim n))"

definition getValidPlatformUrl :: "text_env \<Rightarrow> platform \<Rightarrow> string option" where
  "getValidPlatformUrl env p =
     (case opt_else (pl_url p) (pl_link p) of
        None \<Rightarrow> None
      | Some candidate \<Rightarrow>
          if candidate = [] then None
          else (case te_protocol env candidate of
                  None \<Rightarrow> None
                | Some protocol \<Rightarrow> if protocol = ''http:'' \<or> protocol = ''https:'' then Some candidate else None))"

fun merge_url :: "string \<Rightarrow> string option \<Rightarrow> normalized_action list \<Rightarrow> normalized_action list" where
  "merge_url key url [] = []"
| "merge_url key url (a # as) =
     (if na_key a = key
      then (case url of None \<Rightarrow> a
            | Some u \<Rightarrow> if u \<noteq> [] \<and> u \<notin> set (na_urls a) then a\<lparr>na_urls := na_urls a @ [u]\<rparr> else a) # as
      else a # merge_url key url as)"

text \<open>The first offer with the key gets the link; without one the offer is added.\<close>

definition mergePlatformAction ::
  "normalized_action \<Rightarrow> string option \<Rightarrow> normalized_platform \<Rightarrow> normalized_platform" where
  "mergePlatformAction action url p =
     (if list_ex (\<lambda>a. na_key a = na_key action) (np_actions p)
      then p\<lparr>np_actions := merge_url (na_key action) url (np_actions p)\<rparr>
      else p\<lparr>np_actions := np_actions p @ [action\<lparr>na_urls := if truthy_str url then [the url] else []\<rparr>]\<rparr>)"

subsection \<open>Providers\<close>

record provider_maps =
  pm_grouped :: "(string \<times> normalized_platform) list"
  pm_ids :: "(string \<times> string) list"
  pm_names :: "(string \<times> string list) list"

definition findExistingProviderKey ::
  "string option \<Rightarrow> string \<Rightarrow> (string \<times> string) list \<Rightarrow> (string \<times> string list) list \<Rightarrow> string option" where
  "findExistingProviderKey providerId nameKey ids names =
     (let idMatch = (if truthy_str providerId then map_of ids (the providerId) else None) in
      if truthy_str idMatch then idMatch
      else (case nullish (map_of names nameKey) [] of [key] \<Rightarrow> Some key | _ \<Rightarrow> None))"

definition suffixed :: "string \<Rightarrow> nat \<Rightarrow> string" where
  "suffixed baseKey n = baseKey @ '':'' @ show_nat n"

lemma suffixed_inject: "suffixed b m = suffixed b n \<longleftrightarrow> m = n"
  by (auto simp: suffixed_def show_nat_inject)

lemma finite_suffixes: "finite {n. m \<le> n \<and> suffixed b n \<in> set ks}"
proof (rule finite_subset)
  show "{n. m \<le> n \<and> suffixed b n \<in> set ks} \<subseteq> suffixed b -` set ks" by auto
  show "finite (suffixed b -` set ks)"
    by (rule finite_vimageI) (simp_all add: inj_on_def suffixed_inject)
qed

text \<open>The loop that counts up to a free suffix; fewer taken suffixes are left at every turn.\<close>

function free_suffix :: "string list \<Rightarrow> string \<Rightarrow> nat \<Rightarrow> nat" where
  "free_suffix ks b n = (if suffixed b n \<in> set ks then free_suffix ks b (n + 1) else n)"
  by pat_completeness auto
termination
proof (relation "measure (\<lambda>(ks, b, n). card {m. n \<le> m \<and> suffixed b m \<in> set ks})", simp)
  fix ks b n assume taken: "suffixed b n \<in> set ks"
  let ?A = "\<lambda>n. {m. n \<le> m \<and> suffixed b m \<in> set ks}"
  have "n \<in> ?A n" "n \<notin> ?A (n + 1)" "?A (n + 1) \<subseteq> ?A n" using taken by auto
  then have "?A (n + 1) \<subset> ?A n" by blast
  then show "((ks, b, n + 1), ks, b, n) \<in> measure (\<lambda>(ks, b, n). card {m. n \<le> m \<and> suffixed b m \<in> set ks})"
    using psubset_card_mono [OF finite_suffixes] by simp
qed

declare free_suffix.simps [simp del]

definition base_key :: "string option \<Rightarrow> string \<Rightarrow> string" where
  "base_key providerId nameKey = (if truthy_str providerId then ''id:'' @ the providerId else ''name:'' @ nameKey)"

definition createProviderKey :: "string option \<Rightarrow> string \<Rightarrow> string list \<Rightarrow> string" where
  "createProviderKey providerId nameKey ks =
     (let baseKey = base_key providerId nameKey in
      if baseKey \<notin> set ks then baseKey else suffixed baseKey (free_suffix ks baseKey 2))"

definition addProviderNameKey :: "string \<Rightarrow> string \<Rightarrow> (string \<times> string list) list \<Rightarrow> (string \<times> string list) list" where
  "addProviderNameKey nameKey providerKey names =
     (let keys = nullish (map_of names nameKey) [] in
      AList.update nameKey (if providerKey \<in> set keys then keys else keys @ [providerKey]) names)"

definition add_platform :: "text_env \<Rightarrow> normalized_action \<Rightarrow> platform \<Rightarrow> provider_maps \<Rightarrow> provider_maps" where
  "add_platform env action p st =
     (let name = js_trim (pl_name p) in
      if name = [] \<or> isExcludedProvider env name then st
      else
        let nameKey = normalizeProviderKey env name;
            providerId = getProviderId p;
            key = (case findExistingProviderKey providerId nameKey (pm_ids st) (pm_names st) of
                     Some k \<Rightarrow> k | None \<Rightarrow> createProviderKey providerId nameKey (map fst (pm_grouped st)));
            logo = (if truthy_str (pl_image_url p) then pl_image_url p else None);
            ids = (case providerId of None \<Rightarrow> pm_ids st | Some n \<Rightarrow> AList.update n key (pm_ids st));
            (entry, names) =
              (case map_of (pm_grouped st) key of
                 None \<Rightarrow>
                   (\<lparr>np_key = key, np_name = name, np_logoUrl = logo, np_providerId = providerId,
                     np_priority = nullish (map_of PROVIDER_PRIORITIES nameKey) 500, np_actions = []\<rparr>,
                    addProviderNameKey nameKey key (pm_names st))
               | Some e \<Rightarrow>
                   (e\<lparr>np_logoUrl := if truthy_str (np_logoUrl e) then np_logoUrl e else logo,
                      np_providerId := if truthy_str (np_providerId e) then np_providerId e else providerId\<rparr>,
                    pm_names st)) in
        \<lparr>pm_grouped = AList.update key (mergePlatformAction action (getValidPlatformUrl env p) entry) (pm_grouped st),
         pm_ids = ids, pm_names = names\<rparr>)"

definition collect_platforms :: "text_env \<Rightarrow> (string \<times> platform list) list \<Rightarrow> provider_maps" where
  "collect_platforms env platforms =
     fold (\<lambda>(rawAction, ps) st. fold (add_platform env (normalizeContentAction env rawAction)) ps st) platforms
       \<lparr>pm_grouped = [], pm_ids = [], pm_names = []\<rparr>"

text \<open>\<open>a || b\<close> of two comparisons.\<close>

definition or_cmp :: "rat \<Rightarrow> rat \<Rightarrow> rat" where
  "or_cmp a b = (if a \<noteq> 0 then a else b)"

definition action_cmp :: "text_env \<Rightarrow> normalized_action \<Rightarrow> normalized_action \<Rightarrow> rat" where
  "action_cmp env a b = or_cmp (of_int (na_order a - na_order b)) (te_collate env (na_label a) (na_label b))"

definition platform_cmp :: "text_env \<Rightarrow> normalized_platform \<Rightarrow> normalized_platform \<Rightarrow> rat" where
  "platform_cmp env a b = or_cmp (of_int (np_priority a - np_priority b)) (te_collate env (np_name a) (np_name b))"

definition normalizeContentPlatforms ::
  "text_env \<Rightarrow> (string \<times> platform list) list option \<Rightarrow> normalized_platform list" where
  "normalizeContentPlatforms env platforms =
     js_sort (platform_cmp env)
       (map (\<lambda>(k, p). p\<lparr>np_actions := js_sort (action_cmp env) (np_actions p)\<rparr>)
         (pm_grouped (collect_platforms env (nullish platforms []))))"

definition getAvailableContentActions :: "text_env \<Rightarrow> normalized_platform list \<Rightarrow> normalized_action list" where
  "getAvailableContentActions env platforms =
     js_sort (action_cmp env) (map snd
       (fold (\<lambda>a m. if map_has m (na_key a) then m else AList.update (na_key a) a m)
         (concat (map np_actions platforms)) []))"

definition filterContentPlatformsByAction :: "normalized_platform list \<Rightarrow> string \<Rightarrow> normalized_platform list" where
  "filterContentPlatformsByAction platforms actionKey =
     (if actionKey = CONTENT_ACTION_FILTER_ALL then platforms
      else concat (map (\<lambda>p.
        let as = filter (\<lambda>a. na_key a = actionKey) (np_actions p) in
        if as \<noteq> [] then [p\<lparr>np_actions := as\<rparr>] else []) platforms))"

subsection \<open>Game platforms\<close>

record game_platform_record =
  gr_name :: string
  gr_most_recent_version :: "string option"
  gr_suggested_group :: string

record platform_group_config =
  gc_label :: string
  gc_image :: "string option"
  gc_icon :: "string option"
  gc_order :: int

definition group_image :: "string \<Rightarrow> string option" where
  "group_image name = Some (''/images/platform-groups/'' @ name @ ''.webp'')"

text \<open>The groups with an image have no icon, the others have one and no image.\<close>

definition pictured :: "string \<Rightarrow> string \<Rightarrow> string \<Rightarrow> int \<Rightarrow> string \<times> platform_group_config" where
  "pictured key label picture order = (key, \<lparr>gc_label = label, gc_image = group_image picture, gc_icon = None, gc_order = order\<rparr>)"

definition iconic :: "string \<Rightarrow> string \<Rightarrow> string \<Rightarrow> int \<Rightarrow> string \<times> platform_group_config" where
  "iconic key label icon order = (key, \<lparr>gc_label = label, gc_image = None, gc_icon = Some icon, gc_order = order\<rparr>)"

definition PLATFORM_GROUP_CONFIG :: "(string \<times> platform_group_config) list" where
  "PLATFORM_GROUP_CONFIG =
     [pictured ''playstation'' ''PlayStation'' ''playstation'' 10,
      pictured ''xbox'' ''Xbox'' ''xbox'' 20,
      pictured ''windows'' ''Windows'' ''windows'' 30,
      pictured ''linux'' ''Linux'' ''linux'' 40,
      pictured ''mac'' ''Mac'' ''mac'' 50,
      iconic ''browser'' ''Web browser'' ''Globe'' 60,
      pictured ''android'' ''Android'' ''android'' 70,
      pictured ''ios'' ''iOS'' ''ios'' 80,
      iconic ''vr'' ''Virtual reality'' ''RectangleGoggles'' 90,
      iconic ''cloud_gaming'' ''Cloud gaming'' ''Cloud'' 100,
      iconic ''arcade'' ''Arcade'' ''Joystick'' 110,
      pictured ''atari'' ''Atari'' ''atari'' 120,
      pictured ''sega'' ''Sega'' ''sega'' 130,
      pictured ''neo_geo'' ''Neo Geo'' ''neo_geo'' 140,
      pictured ''nintendo'' ''Nintendo'' ''nintendo'' 150,
      pictured ''nintendo_switch'' ''Nintendo Switch'' ''nintendo_switch'' 160,
      pictured ''nintendo_wii'' ''Nintendo Wii'' ''nintendo_wii'' 170,
      pictured ''nintendo_3ds'' ''Nintendo 3DS'' ''nintendo_3ds'' 180,
      pictured ''nintendo_ds'' ''Nintendo DS'' ''nintendo_ds'' 190,
      pictured ''nintendo_gameboy'' ''Nintendo Game Boy'' ''nintendo_gameboy'' 200,
      pictured ''nintendo_gamecube'' ''Nintendo GameCube'' ''nintendo_gamecube'' 210,
      pictured ''nintendo_n64'' ''Nintendo 64'' ''nintendo_n64'' 220,
      pictured ''nintendo_nes'' ''Nintendo NES'' ''nintendo_nes'' 230,
      pictured ''nintendo_snes'' ''Super Nintendo'' ''nintendo_snes'' 240,
      iconic ''retro_console'' ''Retro console'' ''Gamepad'' 250,
      iconic ''retro_handheld'' ''Retro handheld'' ''Turntable'' 260,
      iconic ''retro_computer'' ''Retro computer'' ''Computer'' 270,
      iconic ''mobile_legacy'' ''Legacy mobile'' ''Smartphone'' 280,
      iconic ''educational'' ''Educational'' ''GraduationCap'' 290,
      iconic ''other'' ''Other'' ''Gamepad2'' 300]"

definition UNKNOWN_GROUP_ORDER :: int where "UNKNOWN_GROUP_ORDER = 10000"

definition humanizeGroup :: "text_env \<Rightarrow> string \<Rightarrow> string" where
  "humanizeGroup env g = js_join '' '' (map (te_capitalize env) (filter (\<lambda>w. w \<noteq> []) (js_split CHR ''_'' g)))"

definition getPlatformGroupConfig :: "text_env \<Rightarrow> string option \<Rightarrow> platform_group_config" where
  "getPlatformGroupConfig env g =
     (case (if truthy_str g then map_of PLATFORM_GROUP_CONFIG (the g) else None) of
        Some config \<Rightarrow> config
      | None \<Rightarrow>
          \<lparr>gc_label = (if truthy_str g then humanizeGroup env (the g) else ''Unknown platform''), gc_image = None,
           gc_icon = Some ''Gamepad2'', gc_order = UNKNOWN_GROUP_ORDER\<rparr>)"

record game_platform =
  ga_originalName :: string
  ga_matchedName :: "string option"
  ga_suggestedGroup :: "string option"
  ga_groupLabel :: string
  ga_groupImage :: "string option"
  ga_groupIcon :: string
  ga_groupOrder :: int
  ga_mostRecentVersion :: "string option"
  ga_isKnown :: bool

definition EXACT_RECORDS :: "game_platform_record list \<Rightarrow> (string \<times> game_platform_record) list" where
  "EXACT_RECORDS records = map_from (map (\<lambda>r. (gr_name r, r)) records)"

definition NORMALIZED_RECORDS :: "text_env \<Rightarrow> game_platform_record list \<Rightarrow> (string \<times> game_platform_record) list" where
  "NORMALIZED_RECORDS env records =
     fold (\<lambda>r m. let key = normalizeLookupValue env (gr_name r) in if map_has m key then m else AList.update key r m) records []"

definition resolveGamePlatform :: "text_env \<Rightarrow> game_platform_record list \<Rightarrow> string \<Rightarrow> game_platform" where
  "resolveGamePlatform env records name =
     (let originalName = js_trim name in
      case opt_else (map_of (EXACT_RECORDS records) originalName)
             (map_of (NORMALIZED_RECORDS env records) (normalizeLookupValue env originalName)) of
        None \<Rightarrow>
          \<lparr>ga_originalName = originalName, ga_matchedName = None, ga_suggestedGroup = None,
           ga_groupLabel = (if originalName \<noteq> [] then originalName else ''Unknown platform''), ga_groupImage = None,
           ga_groupIcon = ''Gamepad2'', ga_groupOrder = 10000, ga_mostRecentVersion = None, ga_isKnown = False\<rparr>
      | Some r \<Rightarrow>
          let config = getPlatformGroupConfig env (Some (gr_suggested_group r)) in
          \<lparr>ga_originalName = originalName, ga_matchedName = Some (gr_name r),
           ga_suggestedGroup = Some (gr_suggested_group r), ga_groupLabel = gc_label config,
           ga_groupImage = gc_image config, ga_groupIcon = nullish (gc_icon config) ''Gamepad2'',
           ga_groupOrder = gc_order config, ga_mostRecentVersion = gr_most_recent_version r, ga_isKnown = True\<rparr>)"

record game_platform_group =
  gg_key :: string
  gg_label :: string
  gg_image :: "string option"
  gg_icon :: string
  gg_order :: int
  gg_isKnown :: bool
  gg_platforms :: "game_platform list"

definition createGroup :: "string \<Rightarrow> game_platform \<Rightarrow> game_platform_group" where
  "createGroup key p =
     \<lparr>gg_key = key, gg_label = ga_groupLabel p, gg_image = ga_groupImage p, gg_icon = ga_groupIcon p,
      gg_order = ga_groupOrder p, gg_isKnown = ga_isKnown p, gg_platforms = []\<rparr>"

definition platform_key :: "text_env \<Rightarrow> game_platform \<Rightarrow> string" where
  "platform_key env p = normalizeLookupValue env (nullish (ga_matchedName p) (ga_originalName p))"

definition game_group_key :: "text_env \<Rightarrow> game_platform \<Rightarrow> string" where
  "game_group_key env p =
     (if ga_isKnown p then ''known:'' @ nullish (ga_suggestedGroup p) ''undefined''
      else ''unknown:'' @ platform_key env p)"

definition add_to_group :: "text_env \<Rightarrow> game_platform \<Rightarrow> game_platform_group \<Rightarrow> game_platform_group" where
  "add_to_group env p g =
     (if list_ex (\<lambda>q. platform_key env q = platform_key env p) (gg_platforms g) then g
      else g\<lparr>gg_platforms := gg_platforms g @ [p]\<rparr>)"

text \<open>Newest first, then those without a date, by name among equals.\<close>

definition compareGamePlatforms :: "text_env \<Rightarrow> game_platform \<Rightarrow> game_platform \<Rightarrow> rat" where
  "compareGamePlatforms env a b =
     (let aDate = nullish (ga_mostRecentVersion a) []; bDate = nullish (ga_mostRecentVersion b) [] in
      if aDate \<noteq> [] \<and> bDate \<noteq> [] \<and> aDate \<noteq> bDate then te_collate env bDate aDate
      else if aDate \<noteq> bDate then (if aDate \<noteq> [] then -1 else 1)
      else te_collate env (ga_originalName a) (ga_originalName b))"

definition group_order_cmp :: "text_env \<Rightarrow> game_platform_group \<Rightarrow> game_platform_group \<Rightarrow> rat" where
  "group_order_cmp env a b = or_cmp (of_int (gg_order a - gg_order b)) (te_collate env (gg_label a) (gg_label b))"

definition collect_groups :: "text_env \<Rightarrow> game_platform list \<Rightarrow> (string \<times> game_platform_group) list" where
  "collect_groups env ps =
     fold (\<lambda>p m. let key = game_group_key env p in
         AList.update key (add_to_group env p (nullish (map_of m key) (createGroup key p))) m) ps []"

definition groupGamePlatforms ::
  "text_env \<Rightarrow> game_platform_record list \<Rightarrow> platform list option \<Rightarrow> platform list option \<Rightarrow> game_platform_group list" where
  "groupGamePlatforms env records platforms distributionNetworks =
     js_sort (group_order_cmp env)
       (map (\<lambda>(k, g). g\<lparr>gg_platforms := js_sort (compareGamePlatforms env) (gg_platforms g)\<rparr>)
         (collect_groups env (map (\<lambda>p. resolveGamePlatform env records (pl_name p))
           (nullish platforms [] @ nullish distributionNetworks []))))"

subsection \<open>Keys of providers\<close>

lemma free_suffix_spec:
  "suffixed b (free_suffix ks b n) \<notin> set ks \<and> n \<le> free_suffix ks b n \<and>
     suffixed b ` {n..<free_suffix ks b n} \<subseteq> set ks"
proof (induction ks b n rule: free_suffix.induct)
  case (1 ks b n)
  show ?case
  proof (cases "suffixed b n \<in> set ks")
    case True
    then have ih: "suffixed b (free_suffix ks b (n + 1)) \<notin> set ks" "n + 1 \<le> free_suffix ks b (n + 1)"
        "suffixed b ` {n + 1..<free_suffix ks b (n + 1)} \<subseteq> set ks"
      using 1 by simp_all
    have "{n..<free_suffix ks b (n + 1)} = insert n {n + 1..<free_suffix ks b (n + 1)}" using ih(2) by auto
    moreover have "free_suffix ks b n = free_suffix ks b (n + 1)" using True by (subst free_suffix.simps) simp
    ultimately show ?thesis using ih True by simp
  next
    case False
    then show ?thesis by (subst (1 2 3) free_suffix.simps) simp
  qed
qed

text \<open>The search for the key of a new provider ends, and the key is free: the plain key, or else the
  first suffix from 2 on that no provider has.\<close>

theorem provider_key_fresh:
  "case (base_key providerId nameKey, createProviderKey providerId nameKey ks) of (b, k) \<Rightarrow>
     k \<notin> set ks \<and>
     (k = b \<or> b \<in> set ks \<and> (\<exists>n. 2 \<le> n \<and> k = suffixed b n \<and> suffixed b ` {2..<n} \<subseteq> set ks))"
  using free_suffix_spec [of "base_key providerId nameKey" ks 2]
  by (auto simp: createProviderKey_def Let_def)

subsection \<open>Sorting by a first criterion\<close>

text \<open>Whatever breaks the ties, the first criterion is sorted.\<close>

lemma sorted_js_insert_primary:
  fixes f :: "'a \<Rightarrow> int"
  assumes "\<And>a b. cmp a b = or_cmp (of_int (f a - f b)) (c a b)"
  shows "sorted (map f ys) \<Longrightarrow> sorted (map f (js_insert cmp x ys))"
proof (induction ys)
  case Nil
  show ?case by simp
next
  case (Cons y ys)
  show ?case
  proof (cases "cmp x y \<le> 0")
    case True
    then have "f x \<le> f y" by (simp add: assms or_cmp_def split: if_splits)
    with True Cons.prems show ?thesis by auto
  next
    case False
    then have "f y \<le> f x" by (simp add: assms or_cmp_def split: if_splits)
    with False Cons show ?thesis by auto
  qed
qed

lemma sorted_js_sort_primary:
  fixes f :: "'a \<Rightarrow> int"
  assumes "\<And>a b. cmp a b = or_cmp (of_int (f a - f b)) (c a b)"
  shows "sorted (map f (js_sort cmp xs))"
  by (induction xs) (simp_all add: sorted_js_insert_primary [OF assms])

lemma distinct_map_js_sort: "distinct (map f (js_sort c xs)) = distinct (map f xs)"
  by (metis mset_eq_imp_distinct_iff mset_js_sort mset_map)

subsection \<open>Offers of the providers\<close>

definition links_of :: "normalized_platform \<Rightarrow> (string \<times> string) set" where
  "links_of p = (\<Union>a \<in> set (np_actions p). {na_key a} \<times> set (na_urls a))"

definition actions_of :: "normalized_platform \<Rightarrow> string set" where
  "actions_of p = na_key ` set (np_actions p)"

definition wf_platform :: "normalized_platform \<Rightarrow> bool" where
  "wf_platform p \<longleftrightarrow> distinct (map na_key (np_actions p)) \<and> list_all (\<lambda>a. distinct (na_urls a)) (np_actions p)"

lemma merge_url_keys [simp]: "map na_key (merge_url key url as) = map na_key as"
  by (induction as) (auto split: option.split)

lemma merge_url_links:
  "list_ex (\<lambda>a. na_key a = key) as \<Longrightarrow>
     (\<Union>a \<in> set (merge_url key url as). {na_key a} \<times> set (na_urls a)) =
     (\<Union>a \<in> set as. {na_key a} \<times> set (na_urls a)) \<union> (if truthy_str url then {(key, the url)} else {})"
proof (induction as)
  case Nil
  then show ?case by simp
next
  case (Cons a as)
  show ?case
  proof (cases "na_key a = key")
    case True
    then show ?thesis by (cases url) auto
  next
    case False
    then show ?thesis using Cons by (simp add: Un_assoc)
  qed
qed

lemma merge_url_distinct:
  "list_all (\<lambda>a. distinct (na_urls a)) as \<Longrightarrow> list_all (\<lambda>a. distinct (na_urls a)) (merge_url key url as)"
  by (induction as) (auto split: option.splits)

lemma merge_platform:
  "links_of (mergePlatformAction action url p) =
     links_of p \<union> (if truthy_str url then {(na_key action, the url)} else {})"
  "actions_of (mergePlatformAction action url p) = insert (na_key action) (actions_of p)"
  "np_key (mergePlatformAction action url p) = np_key p"
  "wf_platform p \<Longrightarrow> wf_platform (mergePlatformAction action url p)"
proof -
  show "links_of (mergePlatformAction action url p) =
     links_of p \<union> (if truthy_str url then {(na_key action, the url)} else {})"
    by (auto simp: mergePlatformAction_def links_of_def merge_url_links)
  have keys: "na_key ` set (merge_url k url as) = na_key ` set as" for k as
    by (metis merge_url_keys set_map)
  show "actions_of (mergePlatformAction action url p) = insert (na_key action) (actions_of p)"
    by (auto simp: mergePlatformAction_def actions_of_def keys list_ex_iff intro: rev_image_eqI)
  show "np_key (mergePlatformAction action url p) = np_key p" by (simp add: mergePlatformAction_def)
  show "wf_platform p \<Longrightarrow> wf_platform (mergePlatformAction action url p)"
    by (auto simp: mergePlatformAction_def wf_platform_def merge_url_distinct list_ex_iff)
qed

text \<open>Putting an entry into the map that has what the entry before had.\<close>

lemma update_union:
  assumes "distinct (map fst m)" "\<And>v. map_of m k = Some v \<Longrightarrow> F v \<subseteq> F v'"
  shows "(\<Union>x \<in> set (AList.update k v' m). F (snd x)) = (\<Union>x \<in> set m. F (snd x)) \<union> F v'"
  using assms
proof (induction m)
  case Nil
  then show ?case by simp
next
  case (Cons e m)
  obtain j v where e: "e = (j, v)" by (cases e)
  show ?case
  proof (cases "j = k")
    case True
    then show ?thesis using Cons.prems(2) [of v] by (auto simp: e)
  next
    case False
    then show ?thesis using Cons.IH Cons.prems by (auto simp: e)
  qed
qed

text \<open>What the input offers: the providers that are listed, with the keys of their offers and their links.\<close>

definition listed :: "text_env \<Rightarrow> platform \<Rightarrow> bool" where
  "listed env p \<longleftrightarrow> js_trim (pl_name p) \<noteq> [] \<and> \<not> isExcludedProvider env (js_trim (pl_name p))"

definition given_actions :: "text_env \<Rightarrow> (string \<times> platform) list \<Rightarrow> string set" where
  "given_actions env es = {na_key (normalizeContentAction env raw) | raw p. (raw, p) \<in> set es \<and> listed env p}"

definition given_links :: "text_env \<Rightarrow> (string \<times> platform) list \<Rightarrow> (string \<times> string) set" where
  "given_links env es = {(na_key (normalizeContentAction env raw), u) | raw p u.
     (raw, p) \<in> set es \<and> listed env p \<and> getValidPlatformUrl env p = Some u}"

definition entries_of :: "(string \<times> platform list) list \<Rightarrow> (string \<times> platform) list" where
  "entries_of platforms = concat (map (\<lambda>(raw, ps). map (Pair raw) ps) platforms)"

lemma collect_entries:
  "collect_platforms env platforms =
     fold (\<lambda>(raw, p). add_platform env (normalizeContentAction env raw) p) (entries_of platforms)
       \<lparr>pm_grouped = [], pm_ids = [], pm_names = []\<rparr>"
proof -
  have "fold (\<lambda>(raw, ps) st. fold (add_platform env (normalizeContentAction env raw)) ps st) es st =
      fold (\<lambda>(raw, p). add_platform env (normalizeContentAction env raw) p) (entries_of es) st" for es st
  proof (induction es arbitrary: st)
    case Nil
    show ?case by (simp add: entries_of_def)
  next
    case (Cons e es)
    obtain raw ps where e: "e = (raw, ps)" by (cases e)
    have "fold (\<lambda>(raw, p). add_platform env (normalizeContentAction env raw) p) (map (Pair raw) ps) st =
        fold (add_platform env (normalizeContentAction env raw)) ps st"
      by (simp add: fold_map comp_def)
    with Cons show ?case by (simp add: e entries_of_def)
  qed
  then show ?thesis by (simp add: collect_platforms_def)
qed

text \<open>The map of the providers after some entries.\<close>

definition grouped_ok :: "text_env \<Rightarrow> (string \<times> platform) list \<Rightarrow> (string \<times> normalized_platform) list \<Rightarrow> bool" where
  "grouped_ok env es m \<longleftrightarrow>
     distinct (map fst m) \<and> list_all (\<lambda>(k, p). np_key p = k \<and> wf_platform p) m \<and>
     (\<Union>x \<in> set m. links_of (snd x)) = given_links env es \<and>
     (\<Union>x \<in> set m. actions_of (snd x)) = given_actions env es"

lemma list_all_alist_update:
  "list_all P m \<Longrightarrow> P (k, v) \<Longrightarrow> list_all P (AList.update k v m)"
  by (induction m) auto

lemma add_platform_ok:
  assumes "grouped_ok env es (pm_grouped st)"
  shows "grouped_ok env (es @ [(raw, p)]) (pm_grouped (add_platform env (normalizeContentAction env raw) p st))"
proof (cases "listed env p")
  case False
  then have "pm_grouped (add_platform env (normalizeContentAction env raw) p st) = pm_grouped st"
    by (auto simp: listed_def add_platform_def Let_def)
  moreover have "given_links env (es @ [(raw, p)]) = given_links env es"
    "given_actions env (es @ [(raw, p)]) = given_actions env es"
    using False by (auto simp: given_links_def given_actions_def)
  ultimately show ?thesis using assms by (simp add: grouped_ok_def)
next
  case True
  let ?action = "normalizeContentAction env raw"
  let ?url = "getValidPlatformUrl env p"
  let ?m = "pm_grouped st"
  obtain k e where step: "pm_grouped (add_platform env ?action p st) = AList.update k (mergePlatformAction ?action ?url e) ?m"
    and e: "np_key e = k" "wf_platform e"
      "\<And>v. map_of ?m k = Some v \<Longrightarrow> np_actions e = np_actions v"
      "map_of ?m k = None \<Longrightarrow> np_actions e = []"
  proof -
    have wf: "np_key v = k \<and> wf_platform v" if "map_of ?m k = Some v" for k v
      using assms map_of_SomeD [OF that] by (auto simp: grouped_ok_def list_all_iff)
    define nameKey where "nameKey = normalizeProviderKey env (js_trim (pl_name p))"
    define k where "k = (case findExistingProviderKey (getProviderId p) nameKey (pm_ids st) (pm_names st) of
        Some k \<Rightarrow> k | None \<Rightarrow> createProviderKey (getProviderId p) nameKey (map fst ?m))"
    show thesis
    proof (cases "map_of ?m k")
      case None
      show thesis
        by (rule that [of k "\<lparr>np_key = k, np_name = js_trim (pl_name p),
            np_logoUrl = (if truthy_str (pl_image_url p) then pl_image_url p else None), np_providerId = getProviderId p,
            np_priority = nullish (map_of PROVIDER_PRIORITIES nameKey) 500, np_actions = []\<rparr>"])
          (use True None in \<open>simp_all add: add_platform_def listed_def Let_def wf_platform_def flip: nameKey_def k_def\<close>)
    next
      case (Some v)
      show thesis
        by (rule that [of k "v\<lparr>np_logoUrl := if truthy_str (np_logoUrl v) then np_logoUrl v
              else if truthy_str (pl_image_url p) then pl_image_url p else None,
            np_providerId := if truthy_str (np_providerId v) then np_providerId v else getProviderId p\<rparr>"])
          (use True Some wf [OF Some] in
            \<open>simp_all add: add_platform_def listed_def Let_def wf_platform_def flip: nameKey_def k_def\<close>)
    qed
  qed
  let ?e = "mergePlatformAction ?action ?url e"
  have sub: "links_of v \<subseteq> links_of ?e" "actions_of v \<subseteq> actions_of ?e" if "map_of ?m k = Some v" for v
  proof -
    have "links_of v = links_of e" "actions_of v = actions_of e"
      using e(3) [OF that] by (simp_all add: links_of_def actions_of_def)
    then show "links_of v \<subseteq> links_of ?e" "actions_of v \<subseteq> actions_of ?e" by (auto simp: merge_platform)
  qed
  have old: "links_of e \<subseteq> (\<Union>x \<in> set ?m. links_of (snd x))" "actions_of e \<subseteq> (\<Union>x \<in> set ?m. actions_of (snd x))"
    using e(3,4) by (cases "map_of ?m k"; force simp: links_of_def actions_of_def dest: map_of_SomeD)+
  have url: "truthy_str ?url \<longleftrightarrow> ?url \<noteq> None"
    by (auto simp: getValidPlatformUrl_def split: option.splits if_splits)
  have new: "given_links env (es @ [(raw, p)]) = given_links env es \<union> (if truthy_str ?url then {(na_key ?action, the ?url)} else {})"
    "given_actions env (es @ [(raw, p)]) = insert (na_key ?action) (given_actions env es)"
    using True url by (auto simp: given_links_def given_actions_def; blast)+
  have d: "distinct (map fst ?m)" using assms by (simp add: grouped_ok_def)
  have links: "(\<Union>x \<in> set (AList.update k ?e ?m). links_of (snd x)) = (\<Union>x \<in> set ?m. links_of (snd x)) \<union> links_of ?e"
    using update_union [where F = links_of and k = k and v' = ?e, OF d] sub(1) by blast
  have acts: "(\<Union>x \<in> set (AList.update k ?e ?m). actions_of (snd x)) = (\<Union>x \<in> set ?m. actions_of (snd x)) \<union> actions_of ?e"
    using update_union [where F = actions_of and k = k and v' = ?e, OF d] sub(2) by blast
  have wf: "list_all (\<lambda>(k, p). np_key p = k \<and> wf_platform p) (AList.update k ?e ?m)"
    using assms e(1,2) by (intro list_all_alist_update) (simp_all add: grouped_ok_def merge_platform)
  have "(\<Union>x \<in> set ?m. links_of (snd x)) = given_links env es" "(\<Union>x \<in> set ?m. actions_of (snd x)) = given_actions env es"
    using assms by (simp_all add: grouped_ok_def)
  with old links acts wf d show ?thesis
    unfolding grouped_ok_def step new merge_platform
    by (simp add: distinct_update) blast
qed

lemma collect_ok: "grouped_ok env (entries_of platforms) (pm_grouped (collect_platforms env platforms))"
proof -
  let ?step = "\<lambda>(raw, p). add_platform env (normalizeContentAction env raw) p"
  have "grouped_ok env (prior @ es) (pm_grouped (fold ?step es st))" if "grouped_ok env prior (pm_grouped st)" for prior es st
    using that
  proof (induction es arbitrary: prior st)
    case Nil
    then show ?case by simp
  next
    case (Cons e es)
    obtain raw p where e: "e = (raw, p)" by (cases e)
    from Cons.IH [OF add_platform_ok [OF Cons.prems, of raw p]] show ?case by (simp add: e)
  qed
  from this [of "[]"] show ?thesis
    by (simp add: collect_entries grouped_ok_def given_links_def given_actions_def)
qed

lemma sorted_actions:
  "links_of (p\<lparr>np_actions := js_sort c (np_actions p)\<rparr>) = links_of p"
  "actions_of (p\<lparr>np_actions := js_sort c (np_actions p)\<rparr>) = actions_of p"
  "wf_platform (p\<lparr>np_actions := js_sort c (np_actions p)\<rparr>) = wf_platform p"
  by (simp_all add: links_of_def actions_of_def wf_platform_def list_all_iff distinct_map_js_sort)


subsection \<open>Groups of game platforms\<close>

text \<open>
  The platforms of a group, by their keys; those that the input gives.
\<close>

definition members_of :: "text_env \<Rightarrow> game_platform_group \<Rightarrow> (string \<times> string) set" where
  "members_of env g = (\<lambda>p. (gg_key g, platform_key env p)) ` set (gg_platforms g)"

definition wf_group :: "text_env \<Rightarrow> game_platform_group \<Rightarrow> bool" where
  "wf_group env g \<longleftrightarrow> distinct (map (platform_key env) (gg_platforms g)) \<and>
     list_all (\<lambda>p. game_group_key env p = gg_key g) (gg_platforms g)"

definition groups_ok :: "text_env \<Rightarrow> game_platform list \<Rightarrow> (string \<times> game_platform_group) list \<Rightarrow> bool" where
  "groups_ok env ps m \<longleftrightarrow>
     distinct (map fst m) \<and> list_all (\<lambda>(k, g). gg_key g = k \<and> wf_group env g) m \<and>
     (\<Union>x \<in> set m. members_of env (snd x)) = (\<lambda>p. (game_group_key env p, platform_key env p)) ` set ps"

lemma add_to_group_facts:
  "gg_key (add_to_group env p g) = gg_key g"
  "members_of env (add_to_group env p g) = insert (gg_key g, platform_key env p) (members_of env g)"
  "wf_group env g \<Longrightarrow> game_group_key env p = gg_key g \<Longrightarrow> wf_group env (add_to_group env p g)"
proof -
  show "gg_key (add_to_group env p g) = gg_key g" by (simp add: add_to_group_def)
  show "members_of env (add_to_group env p g) = insert (gg_key g, platform_key env p) (members_of env g)"
  proof (cases "list_ex (\<lambda>q. platform_key env q = platform_key env p) (gg_platforms g)")
    case True
    then have "(gg_key g, platform_key env p) \<in> members_of env g"
      by (auto simp: members_of_def list_ex_iff intro: rev_image_eqI)
    with True show ?thesis by (simp add: add_to_group_def insert_absorb)
  next
    case False
    then show ?thesis by (simp add: add_to_group_def members_of_def)
  qed
  show "wf_group env g \<Longrightarrow> game_group_key env p = gg_key g \<Longrightarrow> wf_group env (add_to_group env p g)"
    by (auto simp: add_to_group_def wf_group_def list_ex_iff)
qed

lemma groups_ok_add:
  assumes "groups_ok env ps m"
  shows "groups_ok env (ps @ [p])
    (AList.update (game_group_key env p)
       (add_to_group env p (nullish (map_of m (game_group_key env p)) (createGroup (game_group_key env p) p))) m)"
proof -
  let ?k = "game_group_key env p"
  let ?g = "nullish (map_of m ?k) (createGroup ?k p)"
  have all_g: "gg_key ?g = ?k \<and> wf_group env ?g \<and> (\<forall>v. map_of m ?k = Some v \<longrightarrow> ?g = v) \<and>
    members_of env ?g \<subseteq> (\<Union>x \<in> set m. members_of env (snd x))"
  proof (cases "map_of m ?k")
    case None
    then show ?thesis by (simp add: createGroup_def wf_group_def members_of_def)
  next
    case (Some v)
    then have v: "(?k, v) \<in> set m" by (rule map_of_SomeD)
    then have "gg_key v = ?k \<and> wf_group env v" using assms by (auto simp: groups_ok_def list_all_iff)
    moreover have "members_of env v \<subseteq> (\<Union>x \<in> set m. members_of env (snd x))" using v by auto
    ultimately show ?thesis using Some by simp
  qed
  then have g: "gg_key ?g = ?k" "wf_group env ?g" "\<And>v. map_of m ?k = Some v \<Longrightarrow> ?g = v"
    "members_of env ?g \<subseteq> (\<Union>x \<in> set m. members_of env (snd x))" by simp_all
  have d: "distinct (map fst m)" using assms by (simp add: groups_ok_def)
  have u: "(\<Union>x \<in> set (AList.update ?k (add_to_group env p ?g) m). members_of env (snd x)) =
      (\<Union>x \<in> set m. members_of env (snd x)) \<union> members_of env (add_to_group env p ?g)"
    by (rule update_union [OF d]) (use g(3) in \<open>simp add: add_to_group_facts subset_insertI\<close>)
  have wf: "list_all (\<lambda>(k, g). gg_key g = k \<and> wf_group env g) (AList.update ?k (add_to_group env p ?g) m)"
    using assms g(1,2) by (intro list_all_alist_update) (simp_all add: groups_ok_def add_to_group_facts)
  have old: "(\<Union>x \<in> set m. members_of env (snd x)) = (\<lambda>p. (game_group_key env p, platform_key env p)) ` set ps"
    using assms by (simp add: groups_ok_def)
  show ?thesis
    unfolding groups_ok_def u
    using wf d g(1,4) old by (simp add: distinct_update add_to_group_facts) blast
qed

lemma groups_ok_collect: "groups_ok env ps (collect_groups env ps)"
proof -
  let ?step = "\<lambda>p m. let key = game_group_key env p in
      AList.update key (add_to_group env p (nullish (map_of m key) (createGroup key p))) m"
  have "groups_ok env (prior @ es) (fold ?step es m)" if "groups_ok env prior m" for prior es m
    using that
  proof (induction es arbitrary: prior m)
    case Nil
    then show ?case by simp
  next
    case (Cons e es)
    from Cons.IH [OF groups_ok_add [OF Cons.prems, of e]] show ?case by (simp add: Let_def)
  qed
  from this [of "[]" "[]" ps] show ?thesis by (simp add: collect_groups_def groups_ok_def)
qed

text \<open>Every platform of a game is shown once, in its own group, and the groups come in their order.\<close>

lemma game_groups_partition:
  "case (groupGamePlatforms env records platforms networks,
         map (\<lambda>p. resolveGamePlatform env records (pl_name p)) (nullish platforms [] @ nullish networks [])) of
     (gs, ps) \<Rightarrow>
       distinct (map gg_key gs) \<and> list_all (wf_group env) gs \<and> sorted (map gg_order gs) \<and>
       (\<Union>g \<in> set gs. members_of env g) = (\<lambda>p. (game_group_key env p, platform_key env p)) ` set ps"
proof -
  let ?ps = "map (\<lambda>p. resolveGamePlatform env records (pl_name p)) (nullish platforms [] @ nullish networks [])"
  let ?m = "collect_groups env ?ps"
  let ?sort = "\<lambda>g. g\<lparr>gg_platforms := js_sort (compareGamePlatforms env) (gg_platforms g)\<rparr>"
  have ok: "groups_ok env ?ps ?m" by (rule groups_ok_collect)
  have gs: "groupGamePlatforms env records platforms networks =
      js_sort (group_order_cmp env) (map (\<lambda>x. ?sort (snd x)) ?m)"
    by (simp add: groupGamePlatforms_def case_prod_unfold)
  have same: "members_of env (?sort g) = members_of env g" "wf_group env (?sort g) = wf_group env g" for g
    by (simp_all add: members_of_def wf_group_def list_all_iff distinct_map_js_sort)
  have in_m: "gg_key (snd x) = fst x \<and> wf_group env (snd x)" if "x \<in> set ?m" for x
    using ok that by (auto simp: groups_ok_def list_all_iff)
  then have keys: "map gg_key (map (\<lambda>x. ?sort (snd x)) ?m) = map fst ?m" by simp
  have "distinct (map gg_key (groupGamePlatforms env records platforms networks))"
    unfolding gs distinct_map_js_sort keys using ok by (simp add: groups_ok_def)
  moreover have "sorted (map gg_order (groupGamePlatforms env records platforms networks))"
    unfolding gs by (rule sorted_js_sort_primary) (simp add: group_order_cmp_def)
  moreover have "list_all (wf_group env) (groupGamePlatforms env records platforms networks)"
    unfolding gs using in_m by (simp add: list_all_iff same)
  moreover have "(\<Union>g \<in> set (groupGamePlatforms env records platforms networks). members_of env g) =
      (\<Union>x \<in> set ?m. members_of env (snd x))"
    unfolding gs set_js_sort set_map image_image same ..
  ultimately show ?thesis using ok by (simp add: groups_ok_def)
qed

end
