(* ===== verification/ServerQueries.thy ===== *)
theory ServerQueries
  imports AuthRoutes Catalog CatalogVisitor ListRequests PublicProfile
begin

text \<open>
  The queries that the server runs before it renders a page (\<open>lib/api/queries/server.ts\<close>), with the
  keys of the query cache (\<open>keys.ts\<close>) and the constants they share with the client
  (\<open>constants.ts\<close>).  Only the side of the server is modelled: \<open>window\<close> is undefined.  The cache is
  TanStack Query's: what it does with a key is its documented behaviour, and whether a cached value
  is still fresh is a parameter.  Bodies are read at their declared types; log lines are left out.
\<close>

subsection \<open>Constants\<close>

definition SUGGESTIONS_PAGE_SIZE :: int where "SUGGESTIONS_PAGE_SIZE = 30"
definition HOME_LIST_ITEMS_SIZE :: int where "HOME_LIST_ITEMS_SIZE = 8"
definition HOME_LIST_IMAGES_SIZE :: int where "HOME_LIST_IMAGES_SIZE = 4"
definition SEARCH_RESULT_LIMIT :: int where "SEARCH_RESULT_LIMIT = 20"
definition BROWSE_PAGE_SIZE :: int where "BROWSE_PAGE_SIZE = 24"
definition RATINGS_PAGE_SIZE :: int where "RATINGS_PAGE_SIZE = 10"

definition HOME_LIST_FIELDS :: string where
  "HOME_LIST_FIELDS = js_join '','' [''id'', ''name'', ''item_count'', ''member_count'', ''list_type'', ''items.id'',
     ''items.content_item.source_data'']"

definition HOME_LIST_SOURCE_FIELDS :: string where
  "HOME_LIST_SOURCE_FIELDS = js_join '','' [''id'', ''images'']"

definition HOME_PROGRESS_SEARCH :: profile_search where
  "HOME_PROGRESS_SEARCH =
     \<lparr>psp_tab = TabProgress, psp_type = None, psp_q = None, psp_sort = None, psp_order = None, psp_page = 1,
      psp_status = Some [InProgress], psp_tvKind = None, psp_rated = None, psp_reviewed = None,
      psp_favorite = None, psp_minScore = None, psp_maxScore = None, psp_role = None, psp_view = None\<rparr>"

definition LIST_DETAIL_METADATA_PARAMS :: "(string \<times> string) list" where
  "LIST_DETAIL_METADATA_PARAMS = [(''expand'', ''owner,members''), (''omit'', ''items'')]"

definition LIST_VIEWER_SOURCE_FIELDS :: string where
  "LIST_VIEWER_SOURCE_FIELDS = ''title,original_title,tv_show_name,season_number,image_url,authors''"

definition CONTENT_DETAIL_REQUEST_TIMEOUT_MS :: int where "CONTENT_DETAIL_REQUEST_TIMEOUT_MS = 5000"

subsection \<open>Keys\<close>

text \<open>
  A key is the array the code builds; fields that are undefined do not count when keys are compared,
  so they are left out.
\<close>

type_synonym query_key = json

definition json_int :: "int \<Rightarrow> json" where "json_int n = JNum (Fin (of_int n))"

definition null_or :: "('b \<Rightarrow> json) \<Rightarrow> 'b option \<Rightarrow> json" where
  "null_or f v = (case v of None \<Rightarrow> JNull | Some x \<Rightarrow> f x)"

definition fields_json :: "(string \<times> string) list \<Rightarrow> json" where
  "fields_json ps = JObj (map (\<lambda>(k, v). (k, JStr v)) ps)"

definition suggestions_byParams :: "int \<Rightarrow> string option \<Rightarrow> bool \<Rightarrow> query_key" where
  "suggestions_byParams limit country moderationVisibilityEnabled =
     JArr [JStr ''suggestions'', JObj [(''limit'', json_int limit), (''country'', null_or JStr country),
       (''moderationVisibilityEnabled'', JBool moderationVisibilityEnabled)]]"

definition search_multi :: "string \<Rightarrow> int \<Rightarrow> string option \<Rightarrow> bool \<Rightarrow> query_key" where
  "search_multi query limit country allowAdult =
     JArr [JStr ''search'', JStr ''multi'', JObj [(''query'', JStr query), (''limit'', json_int limit),
       (''country'', null_or JStr country), (''allowAdult'', JBool allowAdult)]]"

fun browse_name :: "browse_type \<Rightarrow> string" where
  "browse_name BrowseMovies = ''movies''"
| "browse_name BrowseTVShows = ''tv-shows''"
| "browse_name BrowseGames = ''games''"
| "browse_name BrowseMusic = ''music''"
| "browse_name BrowseBooks = ''books''"

text \<open>The order of a browse page: popular or recent.\<close>

datatype browse_sort = SortPopular | SortRecent

fun browse_sort_name :: "browse_sort \<Rightarrow> string" where
  "browse_sort_name SortPopular = ''popular''"
| "browse_sort_name SortRecent = ''recent''"

definition browse_byParams :: "browse_type \<Rightarrow> int \<Rightarrow> browse_sort \<Rightarrow> string option \<Rightarrow> string option \<Rightarrow> query_key" where
  "browse_byParams typ page srt query country =
     JArr [JStr ''browse'', JObj ([(''type'', JStr (browse_name typ)), (''page'', json_int page),
       (''sort'', JStr (browse_sort_name srt))] @
       (case query of None \<Rightarrow> [] | Some q \<Rightarrow> [(''query'', JStr q)]) @ [(''country'', null_or JStr country)])]"

definition lists_publicDetail :: "int \<Rightarrow> query_key" where
  "lists_publicDetail listId = JArr [JStr ''lists'', JStr ''public-detail'', json_int listId]"

definition lists_list :: "json option \<Rightarrow> query_key" where
  "lists_list params = JArr [JStr ''lists'', JStr ''list'', nullish params JNull]"

definition lists_detail :: "int \<Rightarrow> json option \<Rightarrow> query_key" where
  "lists_detail listId params = JArr [JStr ''lists'', JStr ''detail'', json_int listId, nullish params JNull]"

definition lists_stats :: "int \<Rightarrow> query_key" where
  "lists_stats listId = JArr [JStr ''lists'', JStr ''stats'', json_int listId]"

text \<open>The options of a page of items in its key.\<close>

fun filter_value_json :: "filter_value \<Rightarrow> json option" where
  "filter_value_json FvUndefined = None"
| "filter_value_json (FvStr t) = Some (JStr t)"
| "filter_value_json (FvNum n) = Some (json_int n)"
| "filter_value_json (FvStrs ts) = Some (JArr (map JStr ts))"
| "filter_value_json (FvNums ns) = Some (JArr (map json_int ns))"

definition filters_json :: "('f \<Rightarrow> string) \<Rightarrow> ('f \<times> filter_value) list \<Rightarrow> json" where
  "filters_json str fs = object_of (map (\<lambda>(f, v). (str f, filter_value_json v)) fs)"

definition query_model_json :: "list_item_query \<Rightarrow> json" where
  "query_model_json q =
     JObj [(''filters'', filters_json filter_field_str (q_filters q)),
       (''rangeFilters'', filters_json range_field_str (q_rangeFilters q)),
       (''sort'', JArr (map (\<lambda>c. JObj [(''field'', JStr (sort_field_str (sc_field c))),
          (''direction'', JStr (sort_order_name (sc_direction c)))]) (q_sort q))),
       (''groupBy'', null_or (\<lambda>g. JStr (group_field_str g)) (q_groupBy q))]"

definition options_json :: "list_item_options \<Rightarrow> json" where
  "options_json opts =
     object_of [(''country'', map_option JStr (lo_country opts)), (''fields'', map_option JStr (lo_fields opts)),
       (''expand'', map_option JStr (lo_expand opts)), (''omit'', map_option JStr (lo_omit opts)),
       (''source_fields'', map_option JStr (lo_source_fields opts)),
       (''query'', map_option query_model_json (lo_query opts))]"

definition listItems_page :: "int \<Rightarrow> int \<Rightarrow> int \<Rightarrow> list_item_options \<Rightarrow> query_key" where
  "listItems_page listId page pageSize opts =
     JArr [JStr ''list-items'', json_int listId, JObj [(''page'', json_int page), (''pageSize'', json_int pageSize),
       (''options'', options_json opts)]]"

definition listItems_full :: "int \<Rightarrow> list_item_options option \<Rightarrow> query_key" where
  "listItems_full listId opts =
     JArr [JStr ''list-items'', json_int listId, JStr ''full'', null_or options_json opts]"

text \<open>The viewer of a detail: the id of a user, or \<open>"anonymous"\<close>.\<close>

definition viewer_json :: "json option \<Rightarrow> json" where
  "viewer_json viewerId = nullish viewerId (JStr ''anonymous'')"

definition content_detail_key :: "int \<Rightarrow> json option \<Rightarrow> string option \<Rightarrow> query_key" where
  "content_detail_key contentId viewerId country =
     JArr [JStr ''content-detail'', viewer_json viewerId, json_int contentId, null_or JStr country]"

definition content_resolution_key :: "string \<Rightarrow> string \<Rightarrow> string option \<Rightarrow> query_key" where
  "content_resolution_key externalId contentType country =
     JArr [JStr ''content-resolution'', JStr externalId, JStr contentType, null_or JStr country]"

definition ratings_list_key :: "int \<Rightarrow> int \<Rightarrow> int \<Rightarrow> query_key" where
  "ratings_list_key contentItemId page pageSize =
     JArr [JStr ''ratings'', JStr ''list'', json_int contentItemId, json_int page, json_int pageSize]"

definition ratings_byUser :: "json \<Rightarrow> json \<Rightarrow> query_key" where
  "ratings_byUser contentItemId userId = JArr [JStr ''ratings'', JStr ''user'', contentItemId, userId]"

definition profiles_overview :: "string \<Rightarrow> query_key" where
  "profiles_overview username = JArr [JStr ''profiles'', JStr username, JStr ''overview'']"

definition profiles_tab :: "string \<Rightarrow> profile_tab \<Rightarrow> profile_search \<Rightarrow> query_key" where
  "profiles_tab username tab params =
     JArr [JStr ''profiles'', JStr username, JStr (profile_tab_str tab), search_object (profileDataSearchParams params)]"

subsection \<open>The query cache\<close>

text \<open>What a query gives: the catalogue at its declared type, or a body of the core service.\<close>

datatype 'a query_data = CatalogData "'a catalog_response" | CoreData json

text \<open>
  The decoders of the declared types, the text of a number, and whether a value in the cache is
  younger than a stale time.
\<close>

record 'a query_env =
  qe_catalog :: "json \<Rightarrow> 'a catalog_response"
  qe_results :: "json \<Rightarrow> resolved_identity list option"
  qe_number :: "rat \<Rightarrow> string"
  qe_fresh :: "query_key \<Rightarrow> int \<Rightarrow> bool"

text \<open>The state of a page on the server: the request, and the queries cached for it.\<close>

record 'a page_state =
  pg_server :: server_state
  pg_queries :: "(query_key \<times> 'a query_data) list"

type_synonym ('a, 'r) page_op =
  "server_env \<Rightarrow> http_request \<Rightarrow> 'a page_state \<Rightarrow> (js_error + 'r) \<times> 'a page_state"

definition server_op :: "'r op \<Rightarrow> ('a, 'r) page_op" where
  "server_op m env rq p = (case m env rq (pg_server p) of (r, s) \<Rightarrow> (r, p\<lparr>pg_server := s\<rparr>))"

definition return_p :: "'r \<Rightarrow> ('a, 'r) page_op" where
  "return_p x env rq p = (Inr x, p)"

definition then_p :: "('a, 'r) page_op \<Rightarrow> ('r \<Rightarrow> ('a, 't) page_op) \<Rightarrow> ('a, 't) page_op" where
  "then_p m k env rq p = (case m env rq p of (Inl e, p') \<Rightarrow> (Inl e, p') | (Inr x, p') \<Rightarrow> k x env rq p')"

text \<open>\<open>Promise.allSettled\<close> and \<open>Promise.all\<close>: every promise runs; the queries are started in this order.\<close>

fun all_settled :: "('a, unit) page_op list \<Rightarrow> ('a, unit) page_op" where
  "all_settled [] env rq p = (Inr (), p)"
| "all_settled (m # ms) env rq p = all_settled ms env rq (snd (m env rq p))"

definition all_p :: "('a, 'r) page_op \<Rightarrow> ('a, 't) page_op \<Rightarrow> ('a, 'r \<times> 't) page_op" where
  "all_p m n env rq p =
     (case m env rq p of (r, p1) \<Rightarrow> case n env rq p1 of (t, p2) \<Rightarrow>
        (case r of Inl e \<Rightarrow> Inl e | Inr x \<Rightarrow> (case t of Inl e \<Rightarrow> Inl e | Inr y \<Rightarrow> Inr (x, y)), p2))"

text \<open>A query function is tried again as often as \<open>retry\<close> says.\<close>

fun with_retry :: "nat \<Rightarrow> 'r op \<Rightarrow> 'r op" where
  "with_retry 0 m = m"
| "with_retry (Suc n) m = catch_op m (\<lambda>_. with_retry n m)"

text \<open>The defaults of \<open>getServerQueryClient\<close>.\<close>

definition default_staleTime :: int where "default_staleTime = 60000"
definition default_retry :: nat where "default_retry = 1"

definition setQuery :: "query_key \<Rightarrow> 'a query_data \<Rightarrow> 'a page_state \<Rightarrow> 'a page_state" where
  "setQuery key d p = p\<lparr>pg_queries := AList.update key d (pg_queries p)\<rparr>"

definition run_query :: "nat \<Rightarrow> query_key \<Rightarrow> 'a query_data op \<Rightarrow> ('a, 'a query_data) page_op" where
  "run_query retries key queryFn =
     then_p (server_op (with_retry retries queryFn)) (\<lambda>d env rq p. (Inr d, setQuery key d p))"

definition fetchQuery ::
  "'a query_env \<Rightarrow> query_key \<Rightarrow> int \<Rightarrow> nat \<Rightarrow> 'a query_data op \<Rightarrow> ('a, 'a query_data) page_op" where
  "fetchQuery qe key staleTime retries queryFn env rq p =
     (case map_of (pg_queries p) key of
        Some d \<Rightarrow> if qe_fresh qe key staleTime then (Inr d, p) else run_query retries key queryFn env rq p
      | None \<Rightarrow> run_query retries key queryFn env rq p)"

definition prefetchQuery ::
  "'a query_env \<Rightarrow> query_key \<Rightarrow> int \<Rightarrow> 'a query_data op \<Rightarrow> ('a, unit) page_op" where
  "prefetchQuery qe key staleTime queryFn env rq p =
     (Inr (), snd (fetchQuery qe key staleTime default_retry queryFn env rq p))"

text \<open>A value that is in the cache is returned whatever its age.\<close>

definition ensureQueryData ::
  "'a query_env \<Rightarrow> query_key \<Rightarrow> int \<Rightarrow> 'a query_data op \<Rightarrow> ('a, 'a query_data) page_op" where
  "ensureQueryData qe key staleTime queryFn env rq p =
     (case map_of (pg_queries p) key of
        Some d \<Rightarrow> (Inr d, p)
      | None \<Rightarrow> fetchQuery qe key staleTime default_retry queryFn env rq p)"

subsection \<open>Requests of the server\<close>

definition fetchJson :: "call \<Rightarrow> json op" where
  "fetchJson c =
     and_then (fetch_op c) (\<lambda>response.
       if \<not> status_ok (us_status response)
       then throw_op (JsError (''Request failed ('' @ show_int (us_status response) @ '')''))
       else json_of response)"

definition get_call :: "string \<Rightarrow> (string \<times> string) list \<Rightarrow> int option \<Rightarrow> call" where
  "get_call url headers timeout =
     \<lparr>cl_method = ''GET'', cl_url = url, cl_headers = headers, cl_body = NoBody, cl_timeout = timeout\<rparr>"

definition coreHeaders :: "string option \<Rightarrow> string \<Rightarrow> (string \<times> string) list" where
  "coreHeaders accessToken requestId =
     [(''Content-Type'', ''application/json''), (''X-Request-Id'', requestId)] @
     (if truthy_str accessToken then [(''Authorization'', ''Bearer '' @ the accessToken)] else [])"

definition coreRequestUrl :: "string \<Rightarrow> string op" where
  "coreRequestUrl path = vars_op (\<lambda>vars. getApiUrl vars @ path)"

definition fetchServerCore :: "string option \<Rightarrow> string \<Rightarrow> string \<Rightarrow> json op" where
  "fetchServerCore accessToken path requestId =
     and_then (coreRequestUrl path) (\<lambda>url. fetchJson (get_call url (coreHeaders accessToken requestId) None))"

definition form_pair :: "string \<times> string \<Rightarrow> string" where
  "form_pair p = params_string [p]"

definition resolve_catalog ::
  "'a search_item_scheme query_env \<Rightarrow> 'a search_item_scheme catalog_response \<Rightarrow> string option \<Rightarrow> string \<Rightarrow>
     moderation_mode option \<Rightarrow> 'a search_item_scheme catalog_response op" where
  "resolve_catalog qe = resolveCatalogContentIds form_pair (qe_results qe)"

definition proxy_get :: "string \<Rightarrow> search_params \<Rightarrow> string option \<Rightarrow> string \<Rightarrow> json op" where
  "proxy_get path params country requestId =
     and_then (vars_op (getProxyApiUrl None)) (\<lambda>url.
     and_then (buildProxyHeaders country (Some requestId) None) (\<lambda>headers.
       fetchJson (get_call (url @ path @ ''?'' @ params_string params) headers None)))"

definition fetchServerSuggestions ::
  "'a search_item_scheme query_env \<Rightarrow> string option \<Rightarrow> string \<Rightarrow> bool \<Rightarrow> 'a search_item_scheme catalog_response op" where
  "fetchServerSuggestions qe country requestId moderationVisibilityEnabled =
     and_then (proxy_get ''/homepage'' [(''limit'', show_int SUGGESTIONS_PAGE_SIZE)] country requestId) (\<lambda>response.
       resolve_catalog qe (qe_catalog qe response) country requestId
         (if moderationVisibilityEnabled then Some KeepOnlyCurrentSafe else None))"

text \<open>A search and a browse page take the switch of the moderation from the environment.\<close>

definition resolve_discovery ::
  "'a search_item_scheme query_env \<Rightarrow> json \<Rightarrow> string option \<Rightarrow> string \<Rightarrow> 'a search_item_scheme catalog_response op" where
  "resolve_discovery qe response = resolveDiscoveryContentIds form_pair (qe_results qe) (qe_catalog qe response)"

definition fetchServerSearch ::
  "'a search_item_scheme query_env \<Rightarrow> string \<Rightarrow> string option \<Rightarrow> string \<Rightarrow> bool \<Rightarrow> 'a search_item_scheme catalog_response op" where
  "fetchServerSearch qe query country requestId allowAdult =
     and_then (proxy_get ''/search'' [(''q'', query), (''limit'', show_int SEARCH_RESULT_LIMIT),
        (''adult'', if allowAdult then ''include'' else ''exclude'')] country requestId) (\<lambda>response.
       resolve_discovery qe response country requestId)"

definition provider_type :: "browse_type \<Rightarrow> string" where
  "provider_type typ = (if typ = BrowseMusic then ''albums'' else browse_name typ)"

definition fetchServerBrowse ::
  "'a search_item_scheme query_env \<Rightarrow> browse_type \<Rightarrow> int \<Rightarrow> browse_sort \<Rightarrow> string \<Rightarrow> string option \<Rightarrow> string \<Rightarrow>
     'a search_item_scheme catalog_response op" where
  "fetchServerBrowse qe typ page srt query country requestId =
     and_then (proxy_get ''/browse'' ([(''type'', provider_type typ), (''page'', show_int page),
        (''sort'', browse_sort_name srt)] @ (if query \<noteq> [] then [(''q'', query)] else [])) country requestId) (\<lambda>response.
       resolve_discovery qe response country requestId)"

fun degraded_type :: "browse_type \<Rightarrow> browse_provider_type" where
  "degraded_type BrowseMovies = ProviderMovies"
| "degraded_type BrowseTVShows = ProviderTVShows"
| "degraded_type BrowseGames = ProviderGames"
| "degraded_type BrowseMusic = ProviderAlbums"
| "degraded_type BrowseBooks = ProviderBooks"

definition degradedBrowseResponse :: "browse_type \<Rightarrow> int \<Rightarrow> browse_sort \<Rightarrow> string \<Rightarrow> 'a catalog_response" where
  "degradedBrowseResponse typ page srt query =
     Browse \<lparr>br_type = degraded_type typ,
       br_mode = (if query \<noteq> [] then ModeSearch else case srt of SortPopular \<Rightarrow> ModePopular | SortRecent \<Rightarrow> ModeRecent),
       br_status = StatusDegraded, br_results = [],
       br_metadata = \<lparr>ppm_page = page, ppm_total_results = 0, ppm_total_pages = 0\<rparr>,
       br_error = Some ''BROWSE_UNAVAILABLE''\<rparr>"

text \<open>The parameters of the lists of the home page, in the order of the object.\<close>

definition homeListParams :: "string option \<Rightarrow> (string \<times> string) list" where
  "homeListParams country =
     [(''items_size'', show_int HOME_LIST_ITEMS_SIZE), (''images_size'', show_int HOME_LIST_IMAGES_SIZE),
      (''fields'', HOME_LIST_FIELDS), (''source_fields'', HOME_LIST_SOURCE_FIELDS)] @
     (case country of None \<Rightarrow> [] | Some c \<Rightarrow> [(''country'', c)])"

text \<open>The same object in a key, where the sizes are numbers.\<close>

definition home_lists_json :: "string option \<Rightarrow> json" where
  "home_lists_json country =
     object_of [(''items_size'', Some (json_int HOME_LIST_ITEMS_SIZE)), (''images_size'', Some (json_int HOME_LIST_IMAGES_SIZE)),
       (''fields'', Some (JStr HOME_LIST_FIELDS)), (''source_fields'', Some (JStr HOME_LIST_SOURCE_FIELDS)),
       (''country'', map_option JStr country)]"

definition listItemsOptions :: "list_item_query \<Rightarrow> string option \<Rightarrow> list_item_options" where
  "listItemsOptions query country =
     \<lparr>lo_country = country, lo_fields = None, lo_expand = Some ''content_item'', lo_omit = None,
      lo_source_fields = Some LIST_VIEWER_SOURCE_FIELDS, lo_query = Some query\<rparr>"

definition fetchServerUserLists :: "string \<Rightarrow> string option \<Rightarrow> string \<Rightarrow> json op" where
  "fetchServerUserLists accessToken country requestId =
     fetchServerCore (Some accessToken) (''/content/lists/?'' @ params_string (homeListParams country)) requestId"

definition content_path :: "int \<Rightarrow> string option \<Rightarrow> string" where
  "content_path contentId country =
     ''/content/'' @ show_int contentId @ ''/'' @
       (if truthy_str country then ''?'' @ params_string [(''country'', the country)] else [])"

text \<open>Without a token the request carries the identity of the visitor.\<close>

definition fetchServerContentDetail :: "string option \<Rightarrow> int \<Rightarrow> string option \<Rightarrow> string \<Rightarrow> json op" where
  "fetchServerContentDetail accessToken contentId country requestId =
     and_then (if truthy_str accessToken then return_op (coreHeaders accessToken requestId)
       else and_then buildCatalogVisitorHeaders (\<lambda>visitor. return_op (coreHeaders None requestId @ visitor))) (\<lambda>headers.
     and_then (vars_op getApiUrl) (\<lambda>apiUrl.
       fetchJson (get_call (apiUrl @ content_path contentId country) headers (Some CONTENT_DETAIL_REQUEST_TIMEOUT_MS))))"

definition search_text_param :: "string \<Rightarrow> string option \<Rightarrow> search_params" where
  "search_text_param k v = (if truthy_str v then [(k, the v)] else [])"

definition array_param :: "string \<Rightarrow> ('b \<Rightarrow> string) \<Rightarrow> 'b list option \<Rightarrow> search_params" where
  "array_param k str v = (case v of None \<Rightarrow> [] | Some xs \<Rightarrow> [(k, js_join '','' (map str xs))])"

definition buildProfileSearchParams :: "(rat \<Rightarrow> string) \<Rightarrow> profile_search \<Rightarrow> search_params" where
  "buildProfileSearchParams number search =
     array_param ''type'' content_type_str (psp_type search) @ search_text_param ''q'' (psp_q search) @
     search_text_param ''sort'' (psp_sort search) @ search_text_param ''order'' (map_option sort_order_name (psp_order search)) @
     [(''page'', show_int (psp_page search))] @ array_param ''status'' tracking_status_str (psp_status search) @
     search_text_param ''tvKind'' (map_option tv_kind_str (psp_tvKind search)) @
     search_text_param ''rated'' (map_option bool_text (psp_rated search)) @
     search_text_param ''reviewed'' (map_option bool_text (psp_reviewed search)) @
     search_text_param ''favorite'' (map_option bool_text (psp_favorite search)) @
     search_text_param ''minScore'' (map_option number (psp_minScore search)) @
     search_text_param ''maxScore'' (map_option number (psp_maxScore search)) @
     search_text_param ''role'' (map_option profile_role_str (psp_role search))"

definition list_path :: "int \<Rightarrow> string" where
  "list_path listId = ''/content/lists/'' @ show_int listId @ ''/''"

definition fetchServerListMetadata :: "string \<Rightarrow> int \<Rightarrow> string \<Rightarrow> json op" where
  "fetchServerListMetadata accessToken listId requestId =
     fetchServerCore (Some accessToken) (list_path listId @ ''?'' @ params_string LIST_DETAIL_METADATA_PARAMS) requestId"

definition fetchServerListStats :: "string \<Rightarrow> int \<Rightarrow> string \<Rightarrow> json op" where
  "fetchServerListStats accessToken listId requestId =
     fetchServerCore (Some accessToken) (list_path listId @ ''stats/'') requestId"

definition set_filters :: "('f \<Rightarrow> string) \<Rightarrow> ('f \<times> filter_value) list \<Rightarrow> search_params \<Rightarrow> search_params" where
  "set_filters str fs params =
     fold (\<lambda>(f, v) ps. case filter_value_text v of None \<Rightarrow> ps | Some t \<Rightarrow> params_set (filter_name (str f)) t ps) fs params"

definition list_items_params :: "int \<Rightarrow> int \<Rightarrow> list_item_options \<Rightarrow> search_params" where
  "list_items_params page pageSize opts =
     (let q = nullish (lo_query opts) DEFAULT_LIST_ITEM_QUERY;
          params = [(''page'', show_int page), (''page_size'', show_int pageSize),
            (''expand'', nullish (lo_expand opts) []), (''source_fields'', nullish (lo_source_fields opts) [])];
          params = (if truthy_str (lo_country opts) then params_set ''country'' (the (lo_country opts)) params else params);
          params = set_filters filter_field_str (q_filters q) params;
          params = set_filters range_field_str (q_rangeFilters q) params;
          params = (if q_sort q \<noteq> [] then params_set ''sort'' (js_join '','' (map sort_token (q_sort q))) params else params) in
      case q_groupBy q of None \<Rightarrow> params | Some g \<Rightarrow> params_set ''group_by'' (group_field_str g) params)"

definition fetchServerListItems ::
  "string \<Rightarrow> int \<Rightarrow> int \<Rightarrow> int \<Rightarrow> list_item_options \<Rightarrow> string \<Rightarrow> json op" where
  "fetchServerListItems accessToken listId page pageSize opts requestId =
     fetchServerCore (Some accessToken)
       (list_path listId @ ''items/?'' @ params_string (list_items_params page pageSize opts)) requestId"

subsection \<open>The queries of each page\<close>

text \<open>The token of a session that is authenticated; the cookie is the one of the request.\<close>

definition getServerAccessToken :: "session_snapshot \<Rightarrow> string option op" where
  "getServerAccessToken session =
     (if \<not> snap_isAuthenticated session then return_op None else request_op getAccessToken)"

definition as_core :: "json op \<Rightarrow> 'a query_data op" where
  "as_core m = and_then m (\<lambda>j. return_op (CoreData j))"

definition as_catalog :: "'a catalog_response op \<Rightarrow> 'a query_data op" where
  "as_catalog m = and_then m (\<lambda>c. return_op (CatalogData c))"

definition session_username :: "session_snapshot \<Rightarrow> string" where
  "session_username session = nullish (json_str (json_field ''username'' (snap_user session))) []"

definition prefetchHomeQueries ::
  "'a search_item_scheme query_env \<Rightarrow> session_snapshot \<Rightarrow> string option \<Rightarrow> bool \<Rightarrow> ('a search_item_scheme, unit) page_op" where
  "prefetchHomeQueries qe session country moderationVisibilityEnabled =
     then_p (server_op (getServerAccessToken session)) (\<lambda>accessToken.
     then_p (server_op getLogicalRequestId) (\<lambda>requestId.
       all_settled
         ([prefetchQuery qe (suggestions_byParams SUGGESTIONS_PAGE_SIZE country moderationVisibilityEnabled) default_staleTime
             (as_catalog (fetchServerSuggestions qe country requestId moderationVisibilityEnabled))] @
          (if \<not> truthy_str accessToken then []
           else
             [prefetchQuery qe (lists_list (Some (home_lists_json country))) default_staleTime
                (as_core (fetchServerUserLists (the accessToken) country requestId))] @
             (if \<not> json_truthy (snap_user session) then []
              else
                [prefetchQuery qe (profiles_tab (session_username session) TabProgress HOME_PROGRESS_SEARCH) default_staleTime
                   (as_core (fetchServerCore accessToken
                      (profile_endpoint (session_username session) @ ''progress/?'' @
                        params_string (buildProfileSearchParams (qe_number qe) HOME_PROGRESS_SEARCH)) requestId))])))))"

definition session_allows_adult :: "session_snapshot \<Rightarrow> bool" where
  "session_allows_adult session \<longleftrightarrow> json_field ''allow_adult_content'' (snap_user session) = Some (JBool True)"

definition prefetchSearchQuery ::
  "'a search_item_scheme query_env \<Rightarrow> session_snapshot \<Rightarrow> string \<Rightarrow> string option \<Rightarrow> ('a search_item_scheme, unit) page_op" where
  "prefetchSearchQuery qe session query country =
     (let trimmedQuery = js_trim query; allowAdult = session_allows_adult session in
      if trimmedQuery = [] then return_p ()
      else
        then_p (server_op getLogicalRequestId) (\<lambda>requestId.
          prefetchQuery qe (search_multi trimmedQuery SEARCH_RESULT_LIMIT country allowAdult) default_staleTime
            (as_catalog (fetchServerSearch qe trimmedQuery country requestId allowAdult))))"

definition prefetchBrowseQuery ::
  "'a search_item_scheme query_env \<Rightarrow> browse_type \<Rightarrow> int \<Rightarrow> browse_sort \<Rightarrow> string \<Rightarrow> string option \<Rightarrow>
     ('a search_item_scheme, unit) page_op" where
  "prefetchBrowseQuery qe typ page srt query country =
     then_p (server_op getLogicalRequestId) (\<lambda>requestId.
       prefetchQuery qe (browse_byParams typ page srt (if query \<noteq> [] then Some query else None) country) 30000
         (as_catalog (catch_op (fetchServerBrowse qe typ page srt query country requestId)
            (\<lambda>_. return_op (degradedBrowseResponse typ page srt query)))))"

text \<open>The viewer whose detail is fetched: the user of the session, if the request has a token.\<close>

definition detail_viewer :: "string option \<Rightarrow> session_snapshot \<Rightarrow> json option" where
  "detail_viewer accessToken session =
     (let n = json_field ''id'' (snap_user session) in
      if truthy_str accessToken \<and> field_truthy n then n else None)"

text \<open>The rating that comes with a detail is cached under the user; \<open>undefined\<close> is not stored.\<close>

definition seed_rating :: "json option \<Rightarrow> json \<Rightarrow> 'a page_state \<Rightarrow> 'a page_state" where
  "seed_rating viewerId contentItem p =
     (case (viewerId, json_field ''current_user_rating'' contentItem) of
        (Some v, Some rating) \<Rightarrow>
          setQuery (ratings_byUser (nullish (json_field ''id'' contentItem) JNull) v) (CoreData rating) p
      | _ \<Rightarrow> p)"

definition core_data :: "'a query_data \<Rightarrow> json" where
  "core_data d = (case d of CoreData j \<Rightarrow> j | CatalogData _ \<Rightarrow> JNull)"

definition prefetchContentDetailQueries ::
  "'a query_env \<Rightarrow> session_snapshot \<Rightarrow> int \<Rightarrow> string option \<Rightarrow> ('a, json) page_op" where
  "prefetchContentDetailQueries qe session contentId country =
     then_p (server_op (getServerAccessToken session)) (\<lambda>accessToken.
     then_p (server_op getLogicalRequestId) (\<lambda>requestId.
     let viewerId = detail_viewer accessToken session in
     then_p (fetchQuery qe (content_detail_key contentId viewerId country) 300000 0
        (as_core (fetchServerContentDetail accessToken contentId country requestId))) (\<lambda>d env rq p.
       (Inr (core_data d), seed_rating viewerId (core_data d) p))))"

definition ensureServerProfileTab ::
  "'a query_env \<Rightarrow> string option \<Rightarrow> string \<Rightarrow> profile_search \<Rightarrow> string \<Rightarrow> ('a, (profile_tab \<times> json) option) page_op" where
  "ensureServerProfileTab qe accessToken username search requestId =
     (if psp_tab search = TabOverview then return_p None
      else
        let params = buildProfileSearchParams (qe_number qe) search;
            query = (if params \<noteq> [] then ''?'' @ params_string params else []);
            path = profile_endpoint username @ profile_tab_str (psp_tab search) @ ''/'' @ query in
        then_p (ensureQueryData qe (profiles_tab username (psp_tab search) search) 60000
          (as_core (fetchServerCore accessToken path requestId))) (\<lambda>d.
            return_p (Some (psp_tab search, core_data d))))"

definition prefetchPublicProfileQueries ::
  "'a query_env \<Rightarrow> session_snapshot \<Rightarrow> string \<Rightarrow> profile_search \<Rightarrow> ('a, json \<times> (profile_tab \<times> json) option) page_op" where
  "prefetchPublicProfileQueries qe session username search =
     then_p (server_op (getServerAccessToken session)) (\<lambda>accessToken.
     then_p (server_op getLogicalRequestId) (\<lambda>requestId.
     then_p (all_p
        (ensureQueryData qe (profiles_overview username) 60000
          (as_core (fetchServerCore accessToken (profile_endpoint username) requestId)))
        (ensureServerProfileTab qe accessToken username search requestId)) (\<lambda>(overview, activeTab).
          return_p (core_data overview, activeTab))))"

definition prefetchPublicListQuery :: "'a query_env \<Rightarrow> session_snapshot \<Rightarrow> int \<Rightarrow> ('a, json) page_op" where
  "prefetchPublicListQuery qe session listId =
     then_p (server_op (getServerAccessToken session)) (\<lambda>accessToken.
     then_p (server_op getLogicalRequestId) (\<lambda>requestId.
     then_p (fetchQuery qe (lists_publicDetail listId) 30000 default_retry
        (as_core (fetchServerCore accessToken (list_path listId) requestId))) (\<lambda>d. return_p (core_data d))))"

definition prefetchListDetailQueries ::
  "'a query_env \<Rightarrow> session_snapshot \<Rightarrow> int \<Rightarrow> list_item_query \<Rightarrow> string option \<Rightarrow> ('a, unit) page_op" where
  "prefetchListDetailQueries qe session listId query country =
     then_p (server_op (getServerAccessToken session)) (\<lambda>accessToken.
       if \<not> truthy_str accessToken then return_p ()
       else
         let opts = listItemsOptions query country; token = the accessToken in
         then_p (server_op getLogicalRequestId) (\<lambda>requestId.
           all_settled
             [prefetchQuery qe (lists_detail listId (Some (fields_json LIST_DETAIL_METADATA_PARAMS))) default_staleTime
                (as_core (fetchServerListMetadata token listId requestId)),
              prefetchQuery qe (lists_stats listId) default_staleTime (as_core (fetchServerListStats token listId requestId)),
              prefetchQuery qe (listItems_page listId (q_page query) (q_pageSize query) opts) default_staleTime
                (as_core (fetchServerListItems token listId (q_page query) (q_pageSize query) opts requestId))]))"

subsection \<open>The items that the server fetches\<close>

lemma set_filters_append:
  assumes "inj str" "distinct (map fst fs)" "\<And>f. f \<in> fst ` set fs \<Longrightarrow> filter_name (str f) \<notin> fst ` set ps"
  shows "set_filters str fs ps = ps @ append_filter str fs"
  using assms(2,3)
proof (induction fs arbitrary: ps)
  case (Cons fv fs)
  obtain f v where fv: "fv = (f, v)" by (cases fv)
  have fresh: "filter_name (str f) \<notin> fst ` set ps" using Cons.prems(2) fv by simp
  show ?case
  proof (cases "filter_value_text v")
    case None
    then show ?thesis using Cons.IH [of ps] Cons.prems fv by (simp add: set_filters_def append_filter_def)
  next
    case (Some t)
    have "set_filters str fs (ps @ [(filter_name (str f), t)]) = (ps @ [(filter_name (str f), t)]) @ append_filter str fs"
    proof (rule Cons.IH)
      show "distinct (map fst fs)" using Cons.prems by simp
      show "filter_name (str g) \<notin> fst ` set (ps @ [(filter_name (str f), t)])" if "g \<in> fst ` set fs" for g
      proof -
        have "g \<noteq> f" using that Cons.prems(1) fv by auto
        then have "str g \<noteq> str f" using assms(1) by (auto dest: injD)
        then show ?thesis using that Cons.prems(2) [of g] by simp
      qed
    qed
    then show ?thesis using Some fv by (simp add: set_filters_def append_filter_def params_set_new [OF fresh])
  qed
qed (simp add: set_filters_def append_filter_def)

lemma append_filter_keys: "k \<in> fst ` set (append_filter str fs) \<Longrightarrow> \<exists>f. k = filter_name (str f)"
  by (auto simp: append_filter_def split: option.splits)

lemma filter_keys_inj: "inj filter_field_str" "inj range_field_str"
  by (simp_all add: inj_def filter_field_str_inject range_field_str_inject)

lemma word_not_filter: "hd k \<noteq> CHR ''f'' \<Longrightarrow> filter_name n \<noteq> k"
  using prefix_filter_name [of n] by (cases k) auto

definition items_head :: "int \<Rightarrow> int \<Rightarrow> list_item_options \<Rightarrow> search_params" where
  "items_head page pageSize opts =
     [(''page'', show_int page), (''page_size'', show_int pageSize), (''expand'', nullish (lo_expand opts) []),
      (''source_fields'', nullish (lo_source_fields opts) [])] @ search_text_param ''country'' (lo_country opts)"

lemma list_items_pairs:
  assumes "distinct (map fst (q_filters q))" "distinct (map fst (q_rangeFilters q))" "lo_query opts = Some q"
  shows "list_items_params page pageSize opts =
    items_head page pageSize opts @ append_filter filter_field_str (q_filters q) @
    append_filter range_field_str (q_rangeFilters q) @ order_pairs q"
proof -
  let ?H = "items_head page pageSize opts"
  let ?F = "append_filter filter_field_str (q_filters q)" and ?R = "append_filter range_field_str (q_rangeFilters q)"
  have head: "k \<in> fst ` set ?H \<Longrightarrow> hd k \<noteq> CHR ''f'' \<and> k \<noteq> ''sort'' \<and> k \<noteq> ''group_by''" for k
    by (auto simp: items_head_def search_text_param_def split: if_splits)
  have words: "k \<noteq> filter_name n" if "k \<in> {''sort'', ''group_by''}" for k n
    using that word_not_filter [of k n] by auto
  have f: "set_filters filter_field_str (q_filters q) ?H = ?H @ ?F"
    by (rule set_filters_append [OF filter_keys_inj(1) assms(1)]) (use head word_not_filter in blast)
  have r: "set_filters range_field_str (q_rangeFilters q) (?H @ ?F) = (?H @ ?F) @ ?R"
  proof (rule set_filters_append [OF filter_keys_inj(2) assms(2)])
    fix g
    have "filter_name (range_field_str g) \<notin> fst ` set ?H" using head word_not_filter by blast
    moreover have "filter_name (range_field_str g) \<notin> fst ` set ?F"
      using append_filter_keys range_not_filter by fastforce
    ultimately show "filter_name (range_field_str g) \<notin> fst ` set (?H @ ?F)" by (simp add: image_Un)
  qed
  have fresh: "k \<notin> fst ` set (?H @ ?F @ ?R)" if "k \<in> {''sort'', ''group_by''}" for k
  proof -
    have "k \<notin> fst ` set ?H" using head [of k] that by blast
    moreover have "k \<notin> fst ` set ?F" "k \<notin> fst ` set ?R" using words [OF that] append_filter_keys by metis+
    ultimately show ?thesis by (simp add: image_Un)
  qed
  have srt: "params_set ''sort'' t (?H @ ?F @ ?R) = (?H @ ?F @ ?R) @ [(''sort'', t)]" for t
    by (rule params_set_new, rule fresh) simp
  have grp: "params_set ''group_by'' t ((?H @ ?F @ ?R) @ ps) = ((?H @ ?F @ ?R) @ ps) @ [(''group_by'', t)]"
    if "ps \<in> {[], [(''sort'', u)]}" for t u ps
    by (rule params_set_new) (use that fresh [of "''group_by''"] in \<open>auto simp: image_Un\<close>)
  have start: "(if truthy_str (lo_country opts)
      then params_set ''country'' (the (lo_country opts))
        [(''page'', show_int page), (''page_size'', show_int pageSize), (''expand'', nullish (lo_expand opts) []),
         (''source_fields'', nullish (lo_source_fields opts) [])]
      else [(''page'', show_int page), (''page_size'', show_int pageSize), (''expand'', nullish (lo_expand opts) []),
         (''source_fields'', nullish (lo_source_fields opts) [])]) = ?H"
    by (simp add: items_head_def search_text_param_def)
  show ?thesis
    unfolding list_items_params_def Let_def start
    using grp [of "[]"] grp [of "[(''sort'', js_join '','' (map sort_token (q_sort q)))]"]
    by (simp add: assms(3) nullish_def f r srt [simplified] order_pairs_def split: option.split)
qed

text \<open>C18. The page of items that the server fetches before rendering is the request that the client would
  send for it: with the country of the visitor, the two query strings are equal, character by
  character, so what is put in the cache answers the client's own query.\<close>

theorem server_fetches_client_page:
  assumes "distinct (map fst (q_filters q))" "distinct (map fst (q_rangeFilters q))" "truthy_str country"
  shows "params_string (list_items_params page pageSize (listItemsOptions q country)) =
    buildListItemQuery window (Some page) (Some pageSize) (listItemsOptions q country)"
proof -
  have srt: "(case serializeSort (q_sort q) of None \<Rightarrow> [] | Some t \<Rightarrow> if t \<noteq> [] then [(''sort'', t)] else []) =
      (if q_sort q \<noteq> [] then [(''sort'', js_join '','' (map sort_token (q_sort q)))] else [])"
    using join_not_Nil [of "map sort_token (q_sort q)" "'',''"] sort_token_word
    by (cases "q_sort q") (simp_all add: serializeSort_def plain_word_def)
  obtain c where c: "country = Some c" "c \<noteq> []" using assms(3) by (cases country) auto
  have pairs: "list_items_params page pageSize (listItemsOptions q country) =
    items_head page pageSize (listItemsOptions q country) @ append_filter filter_field_str (q_filters q) @
    append_filter range_field_str (q_rangeFilters q) @ order_pairs q"
    by (rule list_items_pairs [OF assms(1,2)]) (simp add: listItemsOptions_def)
  show ?thesis
    unfolding buildListItemQuery_def Let_def flex_parsed pairs
    by (simp add: buildFlexFieldsQuery_def params_roundtrip listItemsOptions_def addPaginationParams_def
        addCountryParam_def appendQueryModel_def srt order_pairs_def items_head_def search_text_param_def c split_list_def flex_list_def LIST_VIEWER_SOURCE_FIELDS_def)
qed

theorem server_fetches_client_page_witness:
  "params_string (list_items_params 2 20 (listItemsOptions explored_query (Some ''CO''))) =
     buildListItemQuery None (Some 2) (Some 20) (listItemsOptions explored_query (Some ''CO''))"
  by (rule server_fetches_client_page) (simp_all add: explored_query_def DEFAULT_LIST_ITEM_QUERY_def)

subsection \<open>What the queries of a page may do\<close>

text \<open>The token of the request goes to the core service only, and only for a session that is authenticated.\<close>

definition token_confined :: "server_env \<Rightarrow> http_request \<Rightarrow> session_snapshot \<Rightarrow> effect \<Rightarrow> bool" where
  "token_confined env rq session e \<longleftrightarrow>
     (case e of
        Fetched c \<Rightarrow>
          (case map_of (cl_headers c) ''Authorization'' of
             None \<Rightarrow> True
           | Some v \<Rightarrow> snap_isAuthenticated session \<and> prefix (getApiUrl (se_vars env)) (cl_url c) \<and>
               (case getAccessToken rq of None \<Rightarrow> False | Some t \<Rightarrow> v = ''Bearer '' @ t))
      | Cookied (SetCookie k v opts) \<Rightarrow> k = CATALOG_VISITOR_COOKIE
      | Cookied (DeleteCookie k domain path same secure) \<Rightarrow> False
      | HeaderSet k v \<Rightarrow> k = ''X-Request-Id'')"

text \<open>From any state, the operation does what \<open>P\<close> allows, with at most \<open>n\<close> calls.\<close>

definition page_spec ::
  "server_env \<Rightarrow> http_request \<Rightarrow> (effect \<Rightarrow> bool) \<Rightarrow> nat \<Rightarrow> ('r \<Rightarrow> bool) \<Rightarrow> ('a, 'r) page_op \<Rightarrow> bool" where
  "page_spec env rq P n Q m \<longleftrightarrow>
     (\<forall>p. \<exists>es. ss_log (pg_server (snd (m env rq p))) = ss_log (pg_server p) @ es \<and> list_all P es \<and>
        length (calls_of es) \<le> n \<and> (\<forall>x. fst (m env rq p) = Inr x \<longrightarrow> Q x))"

lemma page_specI:
  assumes "\<And>p. \<exists>es. ss_log (pg_server (snd (m env rq p))) = ss_log (pg_server p) @ es \<and> list_all P es \<and>
      length (calls_of es) \<le> n \<and> (\<forall>x. fst (m env rq p) = Inr x \<longrightarrow> Q x)"
  shows "page_spec env rq P n Q m"
  using assms by (simp add: page_spec_def)

lemma page_specE:
  assumes "page_spec env rq P n Q m"
  obtains es where "ss_log (pg_server (snd (m env rq p))) = ss_log (pg_server p) @ es" "list_all P es"
    "length (calls_of es) \<le> n" "\<forall>x. fst (m env rq p) = Inr x \<longrightarrow> Q x"
  using assms unfolding page_spec_def by blast

lemma page_spec_weaken: "page_spec env rq P k R m \<Longrightarrow> k \<le> n \<Longrightarrow> (\<And>x. R x \<Longrightarrow> Q x) \<Longrightarrow> page_spec env rq P n Q m"
  unfolding page_spec_def by (meson le_trans)

lemma page_spec_server: "op_spec env rq P n Q m \<Longrightarrow> page_spec env rq P n Q (server_op m)"
  by (auto simp: op_spec_def page_spec_def server_op_def case_prod_unfold)

lemma page_spec_return: "Q x \<Longrightarrow> page_spec env rq P n Q (return_p x)"
  by (simp add: page_spec_def return_p_def)

lemma page_spec_pure: "(\<And>p. pg_server (snd (m env rq p)) = pg_server p) \<Longrightarrow> page_spec env rq P n (\<lambda>_. True) m"
  by (simp add: page_spec_def)

lemma page_spec_then:
  assumes m: "page_spec env rq P k R m" and f: "\<And>x. R x \<Longrightarrow> page_spec env rq P j Q (f x)" and n: "k + j \<le> n"
  shows "page_spec env rq P n Q (then_p m f)"
proof (rule page_specI)
  fix p
  obtain es where es: "ss_log (pg_server (snd (m env rq p))) = ss_log (pg_server p) @ es" "list_all P es"
      "length (calls_of es) \<le> k" "\<forall>x. fst (m env rq p) = Inr x \<longrightarrow> R x"
    by (rule page_specE [OF m, of p])
  obtain r p' where r: "m env rq p = (r, p')" by (cases "m env rq p")
  show "\<exists>es. ss_log (pg_server (snd (then_p m f env rq p))) = ss_log (pg_server p) @ es \<and> list_all P es \<and>
      length (calls_of es) \<le> n \<and> (\<forall>x. fst (then_p m f env rq p) = Inr x \<longrightarrow> Q x)"
  proof (cases r)
    case (Inl e)
    with es n r show ?thesis by (intro exI [of _ es]) (simp add: then_p_def)
  next
    case (Inr x)
    then have "page_spec env rq P j Q (f x)" using es(4) f r by simp
    then obtain fs where "ss_log (pg_server (snd (f x env rq p'))) = ss_log (pg_server p') @ fs" "list_all P fs"
        "length (calls_of fs) \<le> j" "\<forall>y. fst (f x env rq p') = Inr y \<longrightarrow> Q y"
      by (rule page_specE)
    with es n r Inr show ?thesis by (intro exI [of _ "es @ fs"]) (auto simp: then_p_def)
  qed
qed

lemma page_spec_all_settled:
  "list_all (page_spec env rq P k (\<lambda>_. True)) ms \<Longrightarrow> length ms * k \<le> n \<Longrightarrow> page_spec env rq P n (\<lambda>_. True) (all_settled ms)"
proof (induction ms arbitrary: n)
  case Nil
  show ?case by (simp add: page_spec_def)
next
  case (Cons m ms)
  show ?case
  proof (rule page_specI)
    fix p
    have rest: "page_spec env rq P (length ms * k) (\<lambda>_. True) (all_settled ms)" using Cons by simp
    have m: "page_spec env rq P k (\<lambda>_. True) m" using Cons.prems(1) by simp
    obtain es where es: "ss_log (pg_server (snd (m env rq p))) = ss_log (pg_server p) @ es" "list_all P es"
        "length (calls_of es) \<le> k" by (rule page_specE [OF m, of p])
    obtain fs where "ss_log (pg_server (snd (all_settled ms env rq (snd (m env rq p))))) = ss_log (pg_server (snd (m env rq p))) @ fs"
        "list_all P fs" "length (calls_of fs) \<le> length ms * k" by (rule page_specE [OF rest, of "snd (m env rq p)"])
    with es Cons.prems(2) show "\<exists>es. ss_log (pg_server (snd (all_settled (m # ms) env rq p))) = ss_log (pg_server p) @ es \<and>
        list_all P es \<and> length (calls_of es) \<le> n \<and> (\<forall>x. fst (all_settled (m # ms) env rq p) = Inr x \<longrightarrow> True)"
      by (intro exI [of _ "es @ fs"]) simp
  qed
qed

lemma page_spec_all:
  assumes "page_spec env rq P k (\<lambda>_. True) m" "page_spec env rq P j (\<lambda>_. True) m'" "k + j \<le> n"
  shows "page_spec env rq P n (\<lambda>_. True) (all_p m m')"
proof (rule page_specI)
  fix p
  obtain es where es: "ss_log (pg_server (snd (m env rq p))) = ss_log (pg_server p) @ es" "list_all P es"
      "length (calls_of es) \<le> k" by (rule page_specE [OF assms(1), of p])
  obtain fs where "ss_log (pg_server (snd (m' env rq (snd (m env rq p))))) = ss_log (pg_server (snd (m env rq p))) @ fs"
      "list_all P fs" "length (calls_of fs) \<le> j" by (rule page_specE [OF assms(2), of "snd (m env rq p)"])
  with es assms(3) show "\<exists>es. ss_log (pg_server (snd (all_p m m' env rq p))) = ss_log (pg_server p) @ es \<and> list_all P es \<and>
      length (calls_of es) \<le> n \<and> (\<forall>x. fst (all_p m m' env rq p) = Inr x \<longrightarrow> True)"
    by (intro exI [of _ "es @ fs"]) (simp add: all_p_def case_prod_unfold)
qed

named_theorems page_rules

lemma spec_fetchJson: "P (Fetched c) \<Longrightarrow> op_spec env rq P 1 (\<lambda>_. True) (fetchJson c)"
  unfolding fetchJson_def
  by (rule op_spec_and_then [where R = "\<lambda>_. True" and a = 1 and b = 0]) (auto intro!: op_rules op_spec_fetch)

lemma spec_resolve:
  assumes "\<And>apiUrl k items. P (Fetched (resolve_call form_pair apiUrl country k requestId items))"
  shows "op_spec env rq P 1 (\<lambda>_. True) (resolve_catalog qe response country requestId moderation)"
proof (cases "collectContentIdentities response = []")
  case False
  have upstream: "op_spec env rq P 0 (\<lambda>_. True)
      (and_then (json_of u) (\<lambda>resolved. case qe_results qe resolved of None \<Rightarrow> throw_op e
         | Some results \<Rightarrow> lift_op (resolved_catalog response results moderation)))" for u e
    by (rule op_spec_and_then [where R = "\<lambda>_. True" and a = 0 and b = 0]) (auto intro!: op_rules split: option.split)
  have fetch: "op_spec env rq P 1 (\<lambda>_. True) (fetch_op (resolve_call form_pair apiUrl country k requestId items))" for apiUrl k items
    by (rule op_spec_fetch) (simp_all add: assms)
  show ?thesis
    unfolding resolve_catalog_def resolveCatalogContentIds_def Let_def if_not_P [OF False]
    apply (rule op_spec_and_then [where R = "\<lambda>_. True" and a = 0 and b = 1])
      apply (auto intro!: op_rules)[1]
     apply (rule op_spec_and_then [where R = "\<lambda>_. True" and a = 0 and b = 1])
       apply (auto intro!: op_rules)[1]
      apply (rule op_spec_and_then [OF fetch, where b = 0])
       apply (auto intro!: op_rules upstream)
    done
qed (simp add: resolve_catalog_def resolveCatalogContentIds_def op_rules)

lemma proxy_header_keys:
  "op_spec env rq P 0 (\<lambda>hs. map_of hs ''Authorization'' = None) (buildProxyHeaders country requestId consumer)"
  unfolding buildProxyHeaders_def
  by (auto intro!: op_rules op_spec_and_then [where R = "\<lambda>_. True" and a = 0 and b = 0] split: option.split)

lemma no_token: "map_of (cl_headers c) ''Authorization'' = None \<Longrightarrow> token_confined env rq session (Fetched c)"
  by (simp add: token_confined_def)

lemma spec_proxy_get: "op_spec env rq (token_confined env rq session) 1 (\<lambda>_. True) (proxy_get path params country requestId)"
  unfolding proxy_get_def
  apply (rule op_spec_and_then [where R = "\<lambda>_. True" and a = 0 and b = 1])
    apply (auto intro!: op_rules)[1]
   apply (rule op_spec_and_then [OF proxy_header_keys, where b = 1])
    apply (auto intro!: spec_fetchJson [unfolded One_nat_def] no_token simp: get_call_def)
  done

lemma spec_resolve_token:
  "op_spec env rq (token_confined env rq session) 1 (\<lambda>_. True) (resolve_catalog qe response country requestId moderation)"
  by (rule spec_resolve) (rule no_token, simp add: resolve_call_def)

lemma spec_discovery_token:
  "op_spec env rq (token_confined env rq session) 1 (\<lambda>_. True) (resolve_discovery qe response country requestId)"
  unfolding resolve_discovery_def resolveDiscoveryContentIds_def resolve_catalog_def [symmetric]
  by (rule op_spec_and_then [where R = "\<lambda>_. True" and a = 0 and b = 1])
    (auto intro!: op_rules spec_resolve_token [unfolded One_nat_def])

lemma spec_catalog:
  assumes "\<And>r. op_spec env rq P 1 (\<lambda>_. True) (f r)" "op_spec env rq P 1 (\<lambda>_. True) m"
  shows "op_spec env rq P 2 (\<lambda>_. True) (and_then m f)"
  by (rule op_spec_and_then [OF assms(2) assms(1)]) simp_all

lemma spec_suggestions:
  "op_spec env rq (token_confined env rq session) 2 (\<lambda>_. True) (fetchServerSuggestions qe country requestId enabled)"
  unfolding fetchServerSuggestions_def by (intro spec_catalog spec_proxy_get spec_resolve_token)

lemma spec_search:
  "op_spec env rq (token_confined env rq session) 2 (\<lambda>_. True) (fetchServerSearch qe query country requestId allowAdult)"
  unfolding fetchServerSearch_def by (intro spec_catalog spec_proxy_get spec_discovery_token)

lemma spec_browse:
  "op_spec env rq (token_confined env rq session) 2 (\<lambda>_. True) (fetchServerBrowse qe typ page srt query country requestId)"
  unfolding fetchServerBrowse_def by (intro spec_catalog spec_proxy_get spec_discovery_token)

text \<open>A token that \<open>getServerAccessToken\<close> may return.\<close>

definition token_of :: "http_request \<Rightarrow> session_snapshot \<Rightarrow> string option \<Rightarrow> bool" where
  "token_of rq session accessToken \<longleftrightarrow> accessToken \<in> {None, if snap_isAuthenticated session then getAccessToken rq else None}"

lemma token_headers:
  assumes "token_of rq session accessToken" "\<And>v. (''Authorization'', v) \<notin> set hs"
  shows "token_confined env rq session (Fetched (get_call (getApiUrl (se_vars env) @ path) (coreHeaders accessToken requestId @ hs) timeout))"
proof -
  have "map_of hs ''Authorization'' = None" using assms(2) by (auto simp: map_of_eq_None_iff)
  then show ?thesis
    using assms(1)
    by (cases accessToken) (auto simp: token_confined_def get_call_def coreHeaders_def token_of_def map_add_def split: option.splits if_splits)
qed

lemma spec_core:
  assumes "token_of rq session accessToken"
  shows "op_spec env rq (token_confined env rq session) 1 (\<lambda>_. True) (fetchServerCore accessToken path requestId)"
  unfolding fetchServerCore_def coreRequestUrl_def
  apply (rule op_spec_and_then [where R = "\<lambda>url. url = getApiUrl (se_vars env) @ path" and a = 0 and b = 1])
    apply (auto intro!: op_rules)[1]
   apply (use token_headers [OF assms, of "[]"] in \<open>auto intro!: spec_fetchJson [unfolded One_nat_def]\<close>)
  done

lemma spec_detail:
  assumes "token_of rq session accessToken"
  shows "op_spec env rq (token_confined env rq session) 1 (\<lambda>_. True) (fetchServerContentDetail accessToken contentId country requestId)"
proof -
  let ?P = "token_confined env rq session"
  have headers: "op_spec env rq ?P 0 (\<lambda>hs. \<exists>vs. hs = coreHeaders accessToken requestId @ vs \<and> (\<forall>v. (''Authorization'', v) \<notin> set vs))
    (if truthy_str accessToken then return_op (coreHeaders accessToken requestId)
     else and_then buildCatalogVisitorHeaders (\<lambda>visitor. return_op (coreHeaders None requestId @ visitor)))"
  proof (cases "truthy_str accessToken")
    case False
    have vis: "op_spec env rq ?P 0 (visitor_headers env) buildCatalogVisitorHeaders"
      by (rule spec_visitor_headers) (simp add: token_confined_def)
    have "coreHeaders accessToken requestId = coreHeaders None requestId" using False by (simp add: coreHeaders_def)
    with False show ?thesis
      by (auto intro!: op_spec_and_then [OF vis, where b = 0] op_rules simp: visitor_headers_def)
  qed (auto intro!: op_rules)
  show ?thesis
    unfolding fetchServerContentDetail_def
    apply (rule op_spec_and_then [OF headers, where b = 1])
     apply (rule op_spec_and_then [where R = "\<lambda>url. url = getApiUrl (se_vars env)" and a = 0 and b = 1])
       apply (auto intro!: op_rules spec_fetchJson [unfolded One_nat_def] token_headers [OF assms])
    done
qed

lemma spec_retry: "op_spec env rq P k (\<lambda>_. True) m \<Longrightarrow> op_spec env rq P (Suc n * k) (\<lambda>_. True) (with_retry n m)"
proof (induction n)
  case (Suc n)
  then show ?case by (auto intro!: op_spec_catch [where a = k and b = "Suc n * k"])
qed simp

lemma spec_wrapped:
  "op_spec env rq P k (\<lambda>_. True) m \<Longrightarrow> op_spec env rq P k (\<lambda>_. True) (as_core m)"
  "op_spec env rq P k (\<lambda>_. True) c \<Longrightarrow> op_spec env rq P k (\<lambda>_. True) (as_catalog c)"
  unfolding as_core_def as_catalog_def by (auto intro!: op_spec_and_then [where a = k and b = 0] op_rules)

lemma page_spec_run:
  assumes "op_spec env rq P k (\<lambda>_. True) m"
  shows "page_spec env rq P (Suc retries * k) (\<lambda>_. True) (run_query retries key m)"
  unfolding run_query_def
  by (rule page_spec_then [OF page_spec_server [OF spec_retry [OF assms]], where j = 0])
    (auto simp: page_spec_def setQuery_def)

lemma page_spec_fetch:
  assumes "op_spec env rq P k (\<lambda>_. True) m"
  shows "page_spec env rq P (Suc retries * k) (\<lambda>_. True) (fetchQuery qe key staleTime retries m)"
proof (rule page_specI)
  fix p
  show "\<exists>es. ss_log (pg_server (snd (fetchQuery qe key staleTime retries m env rq p))) = ss_log (pg_server p) @ es \<and>
      list_all P es \<and> length (calls_of es) \<le> Suc retries * k \<and>
      (\<forall>x. fst (fetchQuery qe key staleTime retries m env rq p) = Inr x \<longrightarrow> True)"
    by (rule page_specE [OF page_spec_run [OF assms], of retries key p])
      (auto simp: fetchQuery_def split: option.split intro: exI [of _ "[]"])
qed

lemma page_spec_prefetch:
  assumes "op_spec env rq P k (\<lambda>_. True) m"
  shows "page_spec env rq P (2 * k) (\<lambda>_. True) (prefetchQuery qe key staleTime m)"
  using page_spec_fetch [OF assms, where retries = default_retry and qe = qe and key = key and staleTime = staleTime]
  by (simp add: page_spec_def prefetchQuery_def default_retry_def numeral_2_eq_2)

lemma page_spec_ensure:
  assumes "op_spec env rq P k (\<lambda>_. True) m"
  shows "page_spec env rq P (2 * k) (\<lambda>_. True) (ensureQueryData qe key staleTime m)"
proof (rule page_specI)
  fix p
  show "\<exists>es. ss_log (pg_server (snd (ensureQueryData qe key staleTime m env rq p))) = ss_log (pg_server p) @ es \<and>
      list_all P es \<and> length (calls_of es) \<le> 2 * k \<and>
      (\<forall>x. fst (ensureQueryData qe key staleTime m env rq p) = Inr x \<longrightarrow> True)"
    by (rule page_specE [OF page_spec_fetch [OF assms, where retries = default_retry and qe = qe and key = key and staleTime = staleTime], of p])
      (auto simp: ensureQueryData_def default_retry_def numeral_2_eq_2 split: option.split intro: exI [of _ "[]"])
qed

lemma page_spec_token:
  "page_spec env rq (token_confined env rq session) 0 (token_of rq session) (server_op (getServerAccessToken session))"
  unfolding getServerAccessToken_def
  by (rule page_spec_server) (auto intro!: op_rules simp: token_of_def)

lemma page_spec_id: "page_spec env rq (token_confined env rq session) 0 (\<lambda>_. True) (server_op getLogicalRequestId)"
  by (rule page_spec_server) (auto intro!: op_rules simp: token_confined_def)

lemma page_spec_start:
  assumes "\<And>accessToken requestId. token_of rq session accessToken \<Longrightarrow>
    page_spec env rq (token_confined env rq session) n (\<lambda>_. True) (f accessToken requestId)"
  shows "page_spec env rq (token_confined env rq session) n (\<lambda>_. True)
    (then_p (server_op (getServerAccessToken session)) (\<lambda>accessToken. then_p (server_op getLogicalRequestId) (f accessToken)))"
  by (rule page_spec_then [OF page_spec_token page_spec_then [OF page_spec_id assms]]) auto

lemma token_some: "token_of rq session accessToken \<Longrightarrow> truthy_str accessToken \<Longrightarrow> token_of rq session (Some (the accessToken))"
  by (cases accessToken) auto

lemma page_spec_home:
  "page_spec env rq (token_confined env rq session) 12 (\<lambda>_. True) (prefetchHomeQueries qe session country enabled)"
  unfolding prefetchHomeQueries_def
proof (rule page_spec_start)
  fix accessToken requestId
  assume t: "token_of rq session accessToken"
  have core: "truthy_str accessToken \<Longrightarrow> op_spec env rq (token_confined env rq session) 2 (\<lambda>_. True)
      (as_core (fetchServerUserLists (the accessToken) country requestId))"
    unfolding fetchServerUserLists_def
    by (rule op_spec_weaken [OF spec_wrapped(1) [OF spec_core [OF token_some [OF t]]]]) auto
  have progress: "op_spec env rq (token_confined env rq session) 2 (\<lambda>_. True) (as_core (fetchServerCore accessToken path requestId))" for path
    by (rule op_spec_weaken [OF spec_wrapped(1) [OF spec_core [OF t]]]) auto
  have query: "page_spec env rq (token_confined env rq session) 4 (\<lambda>_. True) (prefetchQuery qe key staleTime m)"
    if "op_spec env rq (token_confined env rq session) 2 (\<lambda>_. True) m" for key staleTime m
    using page_spec_prefetch [OF that, of qe key staleTime] by simp
  show "page_spec env rq (token_confined env rq session) 12 (\<lambda>_. True) (all_settled
         ([prefetchQuery qe (suggestions_byParams SUGGESTIONS_PAGE_SIZE country enabled) default_staleTime
             (as_catalog (fetchServerSuggestions qe country requestId enabled))] @
          (if \<not> truthy_str accessToken then []
           else
             [prefetchQuery qe (lists_list (Some (home_lists_json country))) default_staleTime
                (as_core (fetchServerUserLists (the accessToken) country requestId))] @
             (if \<not> json_truthy (snap_user session) then []
              else
                [prefetchQuery qe (profiles_tab (session_username session) TabProgress HOME_PROGRESS_SEARCH) default_staleTime
                   (as_core (fetchServerCore accessToken
                      (profile_endpoint (session_username session) @ ''progress/?'' @
                        params_string (buildProfileSearchParams (qe_number qe) HOME_PROGRESS_SEARCH)) requestId))]))))"
    by (rule page_spec_all_settled [where k = 4])
      (simp_all add: query core progress spec_wrapped(2) [OF spec_suggestions])
qed

lemma page_spec_search:
  "page_spec env rq (token_confined env rq session) 4 (\<lambda>_. True) (prefetchSearchQuery qe session query country)"
proof (cases "js_trim query = []")
  case False
  then show ?thesis
    unfolding prefetchSearchQuery_def Let_def
    using page_spec_prefetch [OF spec_wrapped(2) [OF spec_search [where session = session]]]
    by (auto intro!: page_spec_then [OF page_spec_id, where j = 4])
qed (simp add: prefetchSearchQuery_def page_spec_return)

lemma page_spec_browse:
  "page_spec env rq (token_confined env rq session) 4 (\<lambda>_. True) (prefetchBrowseQuery qe typ page srt query country)"
proof -
  have "op_spec env rq (token_confined env rq session) 2 (\<lambda>_. True) (as_catalog
      (catch_op (fetchServerBrowse qe typ page srt query country requestId) (\<lambda>_. return_op (degradedBrowseResponse typ page srt query))))"
    for requestId
    by (rule spec_wrapped(2) [OF op_spec_catch [OF spec_browse, where b = 0]]) (auto intro!: op_rules)
  then show ?thesis
    unfolding prefetchBrowseQuery_def
    using page_spec_prefetch by (fastforce intro!: page_spec_then [OF page_spec_id, where j = 4])
qed

lemma page_spec_detail:
  "page_spec env rq (token_confined env rq session) 1 (\<lambda>_. True) (prefetchContentDetailQueries qe session contentId country)"
  unfolding prefetchContentDetailQueries_def Let_def
proof (rule page_spec_start)
  fix accessToken requestId
  assume t: "token_of rq session accessToken"
  let ?m = "as_core (fetchServerContentDetail accessToken contentId country requestId)"
  have m: "op_spec env rq (token_confined env rq session) 1 (\<lambda>_. True) ?m" by (rule spec_wrapped(1) [OF spec_detail [OF t]])
  show "page_spec env rq (token_confined env rq session) 1 (\<lambda>_. True)
     (then_p (fetchQuery qe (content_detail_key contentId (detail_viewer accessToken session) country) 300000 0 ?m)
       (\<lambda>d env rq p. (Inr (core_data d), seed_rating (detail_viewer accessToken session) (core_data d) p)))"
    by (rule page_spec_then [OF page_spec_fetch [OF m], where j = 0])
      (auto simp: page_spec_def seed_rating_def setQuery_def split: option.split)
qed

lemma page_spec_tab:
  assumes t: "token_of rq session accessToken"
  shows "page_spec env rq (token_confined env rq session) 2 (\<lambda>_. True) (ensureServerProfileTab qe accessToken username search requestId)"
proof (cases "psp_tab search = TabOverview")
  case False
  have "page_spec env rq (token_confined env rq session) 2 (\<lambda>_. True)
      (ensureQueryData qe key staleTime (as_core (fetchServerCore accessToken path requestId)))" for key staleTime path
    using page_spec_ensure [OF spec_wrapped(1) [OF spec_core [OF t]]] by simp
  with False show ?thesis
    unfolding ensureServerProfileTab_def Let_def
    by (auto intro!: page_spec_then [where k = 2 and j = 0 and R = "\<lambda>_. True"] page_spec_return)
qed (simp add: ensureServerProfileTab_def page_spec_return)

lemma page_spec_profile:
  "page_spec env rq (token_confined env rq session) 4 (\<lambda>_. True) (prefetchPublicProfileQueries qe session username search)"
  unfolding prefetchPublicProfileQueries_def
proof (rule page_spec_start)
  fix accessToken requestId
  assume t: "token_of rq session accessToken"
  let ?overview = "ensureQueryData qe (profiles_overview username) 60000
      (as_core (fetchServerCore accessToken (profile_endpoint username) requestId))"
  have o: "page_spec env rq (token_confined env rq session) 2 (\<lambda>_. True) ?overview"
    using page_spec_ensure [OF spec_wrapped(1) [OF spec_core [OF t]]] by simp
  have all: "page_spec env rq (token_confined env rq session) 4 (\<lambda>_. True)
      (all_p ?overview (ensureServerProfileTab qe accessToken username search requestId))"
    by (rule page_spec_all [OF o page_spec_tab [OF t]]) simp
  show "page_spec env rq (token_confined env rq session) 4 (\<lambda>_. True)
      (then_p (all_p ?overview (ensureServerProfileTab qe accessToken username search requestId))
        (\<lambda>(overview, activeTab). return_p (core_data overview, activeTab)))"
    by (rule page_spec_then [OF all, where j = 0]) (auto intro!: page_spec_return)
qed

lemma page_spec_list:
  "page_spec env rq (token_confined env rq session) 2 (\<lambda>_. True) (prefetchPublicListQuery qe session listId)"
  unfolding prefetchPublicListQuery_def
proof (rule page_spec_start)
  fix accessToken requestId
  assume t: "token_of rq session accessToken"
  show "page_spec env rq (token_confined env rq session) 2 (\<lambda>_. True)
      (then_p (fetchQuery qe (lists_publicDetail listId) 30000 default_retry
        (as_core (fetchServerCore accessToken (list_path listId) requestId))) (\<lambda>d. return_p (core_data d)))"
    by (rule page_spec_then [OF page_spec_fetch [OF spec_wrapped(1) [OF spec_core [OF t]]], where j = 0])
      (auto intro!: page_spec_return simp: default_retry_def)
qed

lemma page_spec_list_detail:
  "page_spec env rq (token_confined env rq session) 6 (\<lambda>_. True) (prefetchListDetailQueries qe session listId query country)"
  unfolding prefetchListDetailQueries_def
proof (rule page_spec_then [OF page_spec_token, where j = 6])
  fix accessToken
  assume t: "token_of rq session accessToken"
  have core: "op_spec env rq (token_confined env rq session) 1 (\<lambda>_. True) (as_core (fetchServerCore (Some (the accessToken)) path requestId))"
    if "truthy_str accessToken" for path requestId
    by (rule spec_wrapped(1) [OF spec_core [OF token_some [OF t that]]])
  have query: "page_spec env rq (token_confined env rq session) 2 (\<lambda>_. True)
      (prefetchQuery qe key staleTime (as_core (fetchServerCore (Some (the accessToken)) path requestId)))"
    if "truthy_str accessToken" for key staleTime path requestId
    using page_spec_prefetch [OF core [OF that]] by simp
  show "page_spec env rq (token_confined env rq session) 6 (\<lambda>_. True)
     (if \<not> truthy_str accessToken then return_p ()
       else
         let opts = listItemsOptions query country; token = the accessToken in
         then_p (server_op getLogicalRequestId) (\<lambda>requestId.
           all_settled
             [prefetchQuery qe (lists_detail listId (Some (fields_json LIST_DETAIL_METADATA_PARAMS))) default_staleTime
                (as_core (fetchServerListMetadata token listId requestId)),
              prefetchQuery qe (lists_stats listId) default_staleTime (as_core (fetchServerListStats token listId requestId)),
              prefetchQuery qe (listItems_page listId (q_page query) (q_pageSize query) opts) default_staleTime
                (as_core (fetchServerListItems token listId (q_page query) (q_pageSize query) opts requestId))]))"
    unfolding Let_def fetchServerListMetadata_def fetchServerListStats_def fetchServerListItems_def
    by (auto intro!: page_spec_return page_spec_then [OF page_spec_id, where j = 6] page_spec_all_settled [where k = 2] query)
qed simp

text \<open>C17. Whatever the services answer, the queries that run before a page is rendered send the token of the
  request to the core service only, and only for a session that is authenticated; no call to the
  proxy carries it, no session cookie is written, and the calls of each page are bounded.\<close>

theorem prefetch_token_confined:
  "page_spec env rq (token_confined env rq session) 12 (\<lambda>_. True) (prefetchHomeQueries qe session country enabled) \<and>
   page_spec env rq (token_confined env rq session) 4 (\<lambda>_. True) (prefetchSearchQuery qe session text country) \<and>
   page_spec env rq (token_confined env rq session) 4 (\<lambda>_. True) (prefetchBrowseQuery qe typ page srt text country) \<and>
   page_spec env rq (token_confined env rq session) 1 (\<lambda>_. True) (prefetchContentDetailQueries qc session contentId country) \<and>
   page_spec env rq (token_confined env rq session) 4 (\<lambda>_. True) (prefetchPublicProfileQueries qc session username search) \<and>
   page_spec env rq (token_confined env rq session) 2 (\<lambda>_. True) (prefetchPublicListQuery qc session listId) \<and>
   page_spec env rq (token_confined env rq session) 6 (\<lambda>_. True) (prefetchListDetailQueries qc session listId query country)"
  by (intro conjI page_spec_home page_spec_search page_spec_browse page_spec_detail page_spec_profile page_spec_list
      page_spec_list_detail)

lemma logical_id_ok: "\<exists>i s'. getLogicalRequestId env rq s = (Inr i, s')"
  using logical_id_total [of env rq s] by (metis prod.collapse)

lemma prefetch_cached:
  assumes "with_retry default_retry m env rq (pg_server p) = (Inr d, s2)"
  shows "fst (prefetchQuery qe key staleTime m env rq p) = Inr () \<and>
    (pg_queries (snd (prefetchQuery qe key staleTime m env rq p)) = pg_queries p \<and> map_of (pg_queries p) key \<noteq> None \<or>
     pg_queries (snd (prefetchQuery qe key staleTime m env rq p)) = AList.update key d (pg_queries p))"
  using assms
  by (simp add: prefetchQuery_def fetchQuery_def run_query_def then_p_def server_op_def setQuery_def split: option.split)

text \<open>A browse page always renders: its query never fails, it touches no other entry of the cache, and the
  entry it leaves is the value that was already cached, the catalogue that was fetched, or the
  degraded answer with no results.\<close>

theorem browse_always_answers:
  "case (browse_byParams typ page srt (if text \<noteq> [] then Some text else None) country,
      prefetchBrowseQuery qe typ page srt text country env rq p) of (key, r, p') \<Rightarrow>
     r = Inr () \<and>
     (pg_queries p' = pg_queries p \<and> map_of (pg_queries p) key \<noteq> None \<or>
      (\<exists>c. pg_queries p' = AList.update key (CatalogData c) (pg_queries p) \<and>
         (c = degradedBrowseResponse typ page srt text \<or>
          (\<exists>i s. Inr c = fst (fetchServerBrowse qe typ page srt text country i env rq s)))))"
proof -
  let ?key = "browse_byParams typ page srt (if text \<noteq> [] then Some text else None) country"
  obtain i s1 where i: "getLogicalRequestId env rq (pg_server p) = (Inr i, s1)" using logical_id_ok by blast
  let ?fetch = "fetchServerBrowse qe typ page srt text country i"
  let ?m = "as_catalog (catch_op ?fetch (\<lambda>_. return_op (degradedBrowseResponse typ page srt text)))"
  obtain r s2 where f: "?fetch env rq s1 = (r, s2)" by (cases "?fetch env rq s1")
  define c where "c = (case r of Inl _ \<Rightarrow> degradedBrowseResponse typ page srt text | Inr c \<Rightarrow> c)"
  have m: "?m env rq s1 = (Inr (CatalogData c), s2)"
    by (cases r) (simp_all add: as_catalog_def op_defs f c_def)
  have c: "c = degradedBrowseResponse typ page srt text \<or>
      (\<exists>i s. Inr c = fst (fetchServerBrowse qe typ page srt text country i env rq s))"
    using f by (cases r) (auto simp: c_def intro!: exI [of _ i] exI [of _ s1])
  let ?p = "p\<lparr>pg_server := s1\<rparr>"
  have run: "prefetchBrowseQuery qe typ page srt text country env rq p = prefetchQuery qe ?key 30000 ?m env rq ?p"
    by (simp add: prefetchBrowseQuery_def then_p_def server_op_def i)
  have "with_retry default_retry ?m env rq (pg_server ?p) = (Inr (CatalogData c), s2)"
    by (simp add: default_retry_def catch_op_def m)
  note cached = prefetch_cached [OF this, where qe = qe and key = ?key and staleTime = 30000]
  obtain r2 p2 where q: "prefetchQuery qe ?key 30000 ?m env rq ?p = (r2, p2)" by (cases "prefetchQuery qe ?key 30000 ?m env rq ?p")
  have same: "pg_queries ?p = pg_queries p" by simp
  have "r2 = Inr ()" using cached by (simp only: q fst_conv)
  moreover have "pg_queries p2 = pg_queries p \<and> map_of (pg_queries p) ?key \<noteq> None \<or>
      pg_queries p2 = AList.update ?key (CatalogData c) (pg_queries p)"
    using cached unfolding q snd_conv same by (rule conjunct2)
  ultimately show ?thesis
    unfolding prod.case run q using c by blast
qed

text \<open>When the access token in the request is refused, the session can still be refreshed and the page
  rendered for its user; but the queries of the page read the cookie of the request, which is the
  refused token, so the page of a detail fails with the refusal instead of showing it.\<close>

theorem refreshed_session_stale_token:
  assumes "getSessionFn env rq s = (Inr session, s')" "snap_isAuthenticated session"
    and "getAccessToken rq = Some t" "t \<noteq> []"
    and "\<And>log c. map_of (cl_headers c) ''Authorization'' = Some (''Bearer '' @ t) \<Longrightarrow>
      \<exists>u. se_net env log c = Inr u \<and> us_status u = 401"
  shows "fst (prefetchContentDetailQueries qe session contentId country env rq \<lparr>pg_server = s', pg_queries = []\<rparr>) =
    Inl (JsError ''Request failed (401)'')"
proof -
  obtain i s1 where i: "getLogicalRequestId env rq s' = (Inr i, s1)" using logical_id_ok by blast
  let ?call = "get_call (getApiUrl (se_vars env) @ content_path contentId country) (coreHeaders (Some t) i)
     (Some CONTENT_DETAIL_REQUEST_TIMEOUT_MS)"
  have "map_of (cl_headers ?call) ''Authorization'' = Some (''Bearer '' @ t)"
    using assms(4) by (simp add: get_call_def coreHeaders_def)
  then obtain u where "se_net env (ss_log s1) ?call = Inr u" "us_status u = 401" using assms(5) by blast
  moreover have "show_int 401 = ''401''" by code_simp
  ultimately show ?thesis
    using assms(2-4)
    by (simp add: prefetchContentDetailQueries_def then_p_def server_op_def getServerAccessToken_def i fetchQuery_def
        run_query_def as_core_def fetchServerContentDetail_def fetchJson_def op_defs status_ok_def Let_def)
qed

text \<open>An access token that is refused, and a refresh that succeeds.\<close>

definition refused_env :: server_env where
  "refused_env = sample_env\<lparr>
     se_parse := (\<lambda>text. if text = ''tokens'' then Some (JObj [(''access'', JStr ''new''), (''refresh'', JStr ''r2'')])
        else if text = ''user'' then Some (JObj [(''id'', JNum (Fin 4))]) else None),
     se_net := (\<lambda>_ c. Inr
        (if map_of (cl_headers c) ''Authorization'' = Some ''Bearer old''
         then \<lparr>us_status = 401, us_headers = [], us_setCookies = Some [], us_text = []\<rparr>
         else \<lparr>us_status = 200, us_headers = [], us_setCookies = Some [],
            us_text = (if map_of (cl_headers c) ''Authorization'' = Some ''Bearer new'' then ''user'' else ''tokens'')\<rparr>))\<rparr>"

definition refused_request :: http_request where
  "refused_request = blank_request\<lparr>rq_cookies := [(AUTH_ACCESS_COOKIE, ''old''), (AUTH_REFRESH_COOKIE, ''r1'')]\<rparr>"

definition plain_queries :: "search_item query_env" where
  "plain_queries = \<lparr>qe_catalog = (\<lambda>_. Categories []), qe_results = (\<lambda>_. Some []), qe_number = (\<lambda>_. []),
     qe_fresh = (\<lambda>_ _. True)\<rparr>"

theorem refreshed_session_stale_token_witness:
  "\<exists>session s'. getSessionFn refused_env refused_request blank_state = (Inr session, s') \<and>
     snap_user session = JObj [(''id'', JNum (Fin 4))] \<and>
     fst (prefetchContentDetailQueries plain_queries session 7 None refused_env refused_request
       \<lparr>pg_server = s', pg_queries = []\<rparr>) = Inl (JsError ''Request failed (401)'')"
proof -
  let ?s = "getSessionFn refused_env refused_request blank_state"
  have "fst ?s = Inr (authenticated_as (JObj [(''id'', JNum (Fin 4))]))" by code_simp
  then obtain s' where s: "?s = (Inr (authenticated_as (JObj [(''id'', JNum (Fin 4))])), s')" by (metis prod.collapse)
  have "fst (prefetchContentDetailQueries plain_queries (authenticated_as (JObj [(''id'', JNum (Fin 4))])) 7 None refused_env
      refused_request \<lparr>pg_server = s', pg_queries = []\<rparr>) = Inl (JsError ''Request failed (401)'')"
    by (rule refreshed_session_stale_token [OF s, of "''old''"])
      (auto simp: authenticated_as_def refused_request_def refused_env_def getAccessToken_def getCookie_def)
  with s show ?thesis by (auto simp: authenticated_as_def)
qed

end
