(* ===== verification/RouteLoaders.thy ===== *)
theory RouteLoaders
  imports ServerQueries SessionView ListViewer AddToList
begin

text \<open>
  The loaders of the pages (\<open>routes/\<close>): how each page reads its address, which queries it runs
  before it is rendered, and what it hands to the page.  The search of an address is what the
  router makes of it: an object whose values are JSON where the text is JSON, and text otherwise.
\<close>

subsection \<open>The search of an address\<close>

text \<open>The router's reading of the pairs of an address, \<open>parse\<close> being \<open>JSON.parse\<close>; names occur once.\<close>

definition router_search :: "(string \<Rightarrow> json option) \<Rightarrow> search_params \<Rightarrow> (string \<times> json) list" where
  "router_search parse ps = map (\<lambda>(k, v). (k, nullish (parse v) (JStr v))) ps"

text \<open>The numeric part of a path, as \<open>Number.parseInt\<close> reads it, if it is positive.\<close>

definition positive_id :: "string \<Rightarrow> int option" where
  "positive_id s = (case parse_int10 s of None \<Rightarrow> None | Some n \<Rightarrow> if n \<le> 0 then None else Some n)"

subsection \<open>A list\<close>

text \<open>
  The schema keeps an object whose values are all strings, with the known keys first; anything
  else becomes the empty object.
\<close>

definition listSearchSchema :: "json \<Rightarrow> (string \<times> string) list" where
  "listSearchSchema input =
     (case input of
        JObj fs \<Rightarrow>
          if list_all (\<lambda>(k, v). json_str (Some v) \<noteq> None) fs then
            let ps = map (\<lambda>(k, v). (k, the (json_str (Some v)))) fs;
                known = [''sort'', ''group_by'', ''page'', ''page_size''] in
            concat (map (\<lambda>k. case map_of ps k of None \<Rightarrow> [] | Some v \<Rightarrow> [(k, v)]) known) @
              filter (\<lambda>(k, v). k \<notin> set known) ps
          else []
      | _ \<Rightarrow> [])"

definition route_parsePage :: "string option \<Rightarrow> int" where
  "route_parsePage v =
     (case v of
        None \<Rightarrow> 1
      | Some t \<Rightarrow> (case js_Number t of Fin r \<Rightarrow> if 1 \<le> r then \<lfloor>r\<rfloor> else 1 | _ \<Rightarrow> 1))"

definition route_parsePageSize :: "string option \<Rightarrow> page_size" where
  "route_parsePageSize v =
     (case v of
        None \<Rightarrow> q_pageSize DEFAULT_LIST_ITEM_QUERY
      | Some t \<Rightarrow>
          (case js_Number t of
             Fin r \<Rightarrow> if r \<in> set (map of_int [10, 20, 50]) then \<lfloor>r\<rfloor> else q_pageSize DEFAULT_LIST_ITEM_QUERY
           | _ \<Rightarrow> q_pageSize DEFAULT_LIST_ITEM_QUERY))"

definition isFilterField :: "string \<Rightarrow> filter_field option" where
  "isFilterField = allowed filter_field_str [FfContextStatus, FfContentType, FfSourceApi, FfAddedBy]"

definition isRangeFilterField :: "string \<Rightarrow> range_filter_field option" where
  "isRangeFilterField = allowed range_field_str
     [RfListRatingGte, RfListRatingLte, RfAddedAtGte, RfAddedAtLte, RfContextCompletedAtGte,
      RfContextCompletedAtLte, RfReleaseDateGte, RfReleaseDateLte]"

definition isSortField :: "string \<Rightarrow> sort_field option" where
  "isSortField = allowed sort_field_str
     [SfListOrder, SfAddedAt, SfContextCompletedAt, SfContextStatus, SfContentType, SfListRating,
      SfDisplayTitle, SfArtist, SfAlbumTitle, SfReleaseDate]"

definition isGroupByField :: "string \<Rightarrow> group_by_field option" where
  "isGroupByField = allowed group_field_str [GfContextStatus, GfContentType, GfSourceApi, GfAddedBy, GfArtist]"

definition route_sort_token :: "string \<Rightarrow> sort_clause list" where
  "route_sort_token token =
     (let desc = prefix ''-'' token; field = (if desc then tl token else token) in
      case isSortField field of
        None \<Rightarrow> []
      | Some f \<Rightarrow> [\<lparr>sc_field = f, sc_direction = (if desc then Desc else Asc)\<rparr>])"

definition route_parseSort :: "string option \<Rightarrow> sort_clause list" where
  "route_parseSort v =
     (if \<not> truthy_str v then []
      else concat (map route_sort_token (filter (\<lambda>t. t \<noteq> []) (map js_trim (js_split CHR '','' (the v))))))"

fun route_param :: "string \<times> string \<Rightarrow> parsed_filters \<Rightarrow> parsed_filters" where
  "route_param (key, rawValue) (fs, rs) =
     (case filter_key key of
        None \<Rightarrow> (fs, rs)
      | Some field \<Rightarrow>
          if rawValue = [] then (fs, rs)
          else
            (let parts = filter (\<lambda>p. p \<noteq> []) (map js_trim (js_split CHR '','' rawValue)) in
             (case isFilterField field of
                None \<Rightarrow> fs
              | Some f \<Rightarrow>
                  AList.update f
                    (if 1 < length parts then FvStrs parts
                     else (case parts of [] \<Rightarrow> FvUndefined | p # _ \<Rightarrow> FvStr p)) fs,
              case isRangeFilterField field of
                None \<Rightarrow> rs
              | Some f \<Rightarrow> AList.update f (FvStr rawValue) rs)))"

definition parseListQuery :: "(string \<times> string) list \<Rightarrow> list_item_query" where
  "parseListQuery search =
     (let (filters, rangeFilters) = fold route_param search ([], []);
          groupBy = map_of search ''group_by'' in
      \<lparr>q_filters = filters, q_rangeFilters = rangeFilters, q_sort = route_parseSort (map_of search ''sort''),
       q_groupBy = (if truthy_str groupBy then isGroupByField (the groupBy) else None),
       q_page = route_parsePage (map_of search ''page''),
       q_pageSize = route_parsePageSize (map_of search ''page_size'')\<rparr>)"

text \<open>What the loader of a list gives to its page.\<close>

datatype list_page = InvalidList | ListPage int "string option" "json option"

definition list_loader ::
  "'a query_env \<Rightarrow> session_snapshot \<Rightarrow> string option \<Rightarrow> string \<Rightarrow> list_item_query \<Rightarrow> ('a, list_page) page_op" where
  "list_loader qe session country param query =
     (case positive_id param of
        None \<Rightarrow> return_p InvalidList
      | Some listId \<Rightarrow>
          then_p (prefetchPublicListQuery qe session listId) (\<lambda>lst.
            let isPublicReadOnly = json_field ''collaborators'' lst \<noteq> None in
            then_p (if \<not> isPublicReadOnly then prefetchListDetailQueries qe session listId query country
                    else return_p ()) (\<lambda>_.
              return_p (ListPage listId country (if isPublicReadOnly then Some lst else None)))))"

subsection \<open>A detail\<close>

record content_page =
  cp_contentId :: int
  cp_country :: "string option"
  cp_moderationVisibilityEnabled :: bool
  cp_isAuthenticated :: bool
  cp_viewerId :: "json option"
  cp_allowAdultContent :: bool
  cp_initialContentItem :: json

text \<open>A loader gives its data, or sends the visitor elsewhere.\<close>

definition content_loader ::
  "'a query_env \<Rightarrow> session_snapshot \<Rightarrow> string option \<Rightarrow> bool \<Rightarrow> string \<Rightarrow> ('a, redirect_to + content_page) page_op" where
  "content_loader qe session country moderationVisibilityEnabled param =
     (case positive_id param of
        None \<Rightarrow> return_p (Inl ToHome)
      | Some contentId \<Rightarrow>
          then_p (prefetchContentDetailQueries qe session contentId country) (\<lambda>item.
            return_p (Inr \<lparr>cp_contentId = contentId, cp_country = country,
              cp_moderationVisibilityEnabled = moderationVisibilityEnabled,
              cp_isAuthenticated = snap_isAuthenticated session,
              cp_viewerId = json_field ''id'' (snap_user session),
              cp_allowAdultContent = session_allows_adult session, cp_initialContentItem = item\<rparr>)))"

definition safeJsonObject :: "(string \<Rightarrow> json option) \<Rightarrow> string \<Rightarrow> json option" where
  "safeJsonObject parse v =
     (case parse v of Some (JObj fs) \<Rightarrow> Some (JObj fs) | Some (JArr xs) \<Rightarrow> Some (JArr xs) | _ \<Rightarrow> None)"

text \<open>The number of a season is an integer.\<close>

definition contentTitle :: "(string \<Rightarrow> json option) \<Rightarrow> json option \<Rightarrow> string option" where
  "contentTitle parse item =
     (case Option.bind item (json_field ''source_data'') of
        None \<Rightarrow> None
      | Some raw \<Rightarrow>
          if \<not> json_truthy raw then None
          else
            (let sourceData = (case raw of JStr t \<Rightarrow> safeJsonObject parse t | _ \<Rightarrow> Some raw) in
             case sourceData of
               None \<Rightarrow> None
             | Some d \<Rightarrow>
                 if json_field ''content_type'' (the item) = Some (JStr ''SEASON'')
                 then Some (formatSeasonTitle (json_str (json_field ''tv_show_name'' d)) (json_str (json_field ''title'' d))
                   (case json_field ''season_number'' d of Some (JNum (Fin r)) \<Rightarrow> Some \<lfloor>r\<rfloor> | _ \<Rightarrow> None))
                 else json_str (json_field ''title'' d)))"

text \<open>What the page puts into its head: the title, the description and the canonical address.\<close>

record page_head =
  ph_title :: string
  ph_description :: string
  ph_canonical :: "string option"
  ph_robots :: "string option"

definition content_head :: "(string \<Rightarrow> json option) \<Rightarrow> content_page option \<Rightarrow> page_head" where
  "content_head parse loaderData =
     (let title = contentTitle parse (map_option cp_initialContentItem loaderData) in
      \<lparr>ph_title = (if truthy_str title then the title @ '' | Denn'' else ''Content | Denn''),
       ph_description = (if truthy_str title then ''Explore details for '' @ the title @ '' in Denn's public catalog.''
         else ''Explore this title in Denn's public catalog.''),
       ph_canonical = (case loaderData of
          None \<Rightarrow> None
        | Some d \<Rightarrow> if cp_contentId d \<noteq> 0 then Some (''/content/'' @ show_int (cp_contentId d)) else None),
       ph_robots = None\<rparr>)"

subsection \<open>Browsing\<close>

text \<open>The search of a browse page; with a text it is always by popularity.\<close>

record browse_search =
  bs_page :: int
  bs_sort :: browse_sort
  bs_q :: "string option"

definition browse_page_number :: "json option \<Rightarrow> int" where
  "browse_page_number v =
     (case v of
        None \<Rightarrow> 1
      | Some j \<Rightarrow>
          (case json_Number (Some j) of
             Fin r \<Rightarrow> if r = of_int \<lfloor>r\<rfloor> \<and> 1 \<le> \<lfloor>r\<rfloor> \<and> \<lfloor>r\<rfloor> \<le> 100 then \<lfloor>r\<rfloor> else 1
           | _ \<Rightarrow> 1))"

definition browseSearchSchema :: "json \<Rightarrow> browse_search option" where
  "browseSearchSchema input =
     (case input of
        JObj fs \<Rightarrow>
          let f = (\<lambda>k. json_field k input);
              page = browse_page_number (f ''page'');
              srt = nullish (enum_of browse_sort_name [SortPopular, SortRecent] (f ''sort'')) SortPopular;
              query = js_trim (nullish (short_text 80 (f ''q'')) []) in
          Some (if query \<noteq> [] then \<lparr>bs_page = page, bs_sort = SortPopular, bs_q = Some query\<rparr>
                else \<lparr>bs_page = page, bs_sort = srt, bs_q = None\<rparr>)
      | _ \<Rightarrow> None)"

text \<open>The validated search as the object that is read again.\<close>

definition browse_object :: "browse_search \<Rightarrow> json" where
  "browse_object s = object_of [(''page'', Some (json_int (bs_page s))),
     (''sort'', Some (JStr (browse_sort_name (bs_sort s)))), (''q'', map_option JStr (bs_q s))]"

definition toBrowseType :: "string \<Rightarrow> browse_type option" where
  "toBrowseType v = find (\<lambda>t. browse_name t = v) [BrowseMovies, BrowseTVShows, BrowseGames, BrowseMusic, BrowseBooks]"

fun definitionType :: "browse_type \<Rightarrow> content_type" where
  "definitionType BrowseMovies = MOVIE"
| "definitionType BrowseTVShows = TV_SHOW"
| "definitionType BrowseGames = GAME"
| "definitionType BrowseMusic = ALBUM"
| "definitionType BrowseBooks = BOOK"

definition browse_pairs :: "browse_search \<Rightarrow> search_params" where
  "browse_pairs s =
     (if truthy_str (bs_q s) then [(''q'', the (bs_q s))] else []) @
     (if \<not> truthy_str (bs_q s) \<and> bs_sort s \<noteq> SortPopular then [(''sort'', browse_sort_name (bs_sort s))] else []) @
     (if 1 < bs_page s then [(''page'', show_int (bs_page s))] else [])"

definition normalizedBrowseQuery :: "browse_search \<Rightarrow> string" where
  "normalizedBrowseQuery s = params_string (browse_pairs s)"

definition canonicalSearch :: "browse_search \<Rightarrow> string" where
  "canonicalSearch s = (let v = normalizedBrowseQuery s in if v \<noteq> [] then ''?'' @ v else [])"

text \<open>Redirect to the hub or to the normal form, throw because the schema refuses the search, or go on.\<close>

datatype browse_guard = BrowseHub | BrowseAt browse_type browse_search | BrowseThrows | BrowseOk

definition browse_beforeLoad :: "string \<Rightarrow> json \<Rightarrow> string \<Rightarrow> browse_guard" where
  "browse_beforeLoad param search searchStr =
     (case toBrowseType param of
        None \<Rightarrow> BrowseHub
      | Some typ \<Rightarrow>
          let actualQuery = (case searchStr of CHR ''?'' # t \<Rightarrow> t | t \<Rightarrow> t) in
          (case browseSearchSchema search of
             None \<Rightarrow> BrowseThrows
           | Some normalizedSearch \<Rightarrow>
               if actualQuery \<noteq> normalizedBrowseQuery normalizedSearch then BrowseAt typ normalizedSearch else BrowseOk))"

record 'a browse_page =
  bp_type :: browse_type
  bp_search :: browse_search
  bp_country :: "string option"
  bp_initialData :: "'a query_data option"

definition browse_loader ::
  "'a search_item_scheme query_env \<Rightarrow> string option \<Rightarrow> string \<Rightarrow> browse_search \<Rightarrow>
     ('a search_item_scheme, browse_guard + 'a search_item_scheme browse_page) page_op" where
  "browse_loader qe country param search =
     (case toBrowseType param of
        None \<Rightarrow> return_p (Inl BrowseHub)
      | Some typ \<Rightarrow>
          let query = nullish (bs_q search) [] in
          then_p (prefetchBrowseQuery qe typ (bs_page search) (bs_sort search) query country) (\<lambda>_ env rq p.
            (Inr (Inr \<lparr>bp_type = typ,
               bp_search = (if query \<noteq> [] then \<lparr>bs_page = bs_page search, bs_sort = SortPopular, bs_q = Some query\<rparr>
                  else \<lparr>bs_page = bs_page search, bs_sort = bs_sort search, bs_q = None\<rparr>),
               bp_country = country,
               bp_initialData = map_of (pg_queries p) (browse_byParams typ (bs_page search) (bs_sort search)
                 (if query \<noteq> [] then Some query else None) country)\<rparr>), p)))"

definition browse_head :: "string \<Rightarrow> browse_search option \<Rightarrow> page_head" where
  "browse_head param search =
     (let typ = toBrowseType param;
          label = map_option (\<lambda>t. ctd_pluralLabel (CONTENT_TYPE_DEFINITIONS (definitionType t))) typ;
          familyPath = (case typ of None \<Rightarrow> ''/browse'' | Some t \<Rightarrow> ''/browse/'' @ browse_name t);
          hasQuery = (case search of None \<Rightarrow> False | Some s \<Rightarrow> truthy_str (bs_q s)) in
      \<lparr>ph_title = (case label of None \<Rightarrow> ''Browse catalog'' | Some l \<Rightarrow> ''Browse '' @ l) @ '' | Denn'',
       ph_description = (case label of
          None \<Rightarrow> ''Explore Denn's public catalog.''
        | Some l \<Rightarrow> ''Explore popular and recent '' @ js_lower l @ '' in Denn's public catalog.''),
       ph_canonical = Some (case search of
          Some s \<Rightarrow> if \<not> hasQuery then familyPath @ canonicalSearch s else familyPath
        | None \<Rightarrow> familyPath),
       ph_robots = (if hasQuery then Some ''noindex,follow'' else None)\<rparr>)"

subsection \<open>Search, profiles, the home page\<close>

definition search_route_q :: "json \<Rightarrow> string option" where
  "search_route_q search = map_option (\<lambda>v. normalizeSearchQuery v SEARCH_QUERY_MAX_LENGTH) (json_str (json_field ''q'' search))"

definition search_deps :: "string option \<Rightarrow> string" where
  "search_deps q = (case q of None \<Rightarrow> [] | Some v \<Rightarrow> js_trim v)"

record 'a search_page =
  sp_session :: session_snapshot
  sp_country :: "string option"
  sp_initialQuery :: string
  sp_initialResults :: "'a query_data option"

definition search_loader ::
  "'a search_item_scheme query_env \<Rightarrow> session_snapshot \<Rightarrow> string option \<Rightarrow> string \<Rightarrow>
     ('a search_item_scheme, 'a search_item_scheme search_page) page_op" where
  "search_loader qe session country q =
     then_p (prefetchSearchQuery qe session q country) (\<lambda>_ env rq p.
       (Inr \<lparr>sp_session = session, sp_country = country, sp_initialQuery = q,
          sp_initialResults = map_of (pg_queries p)
            (search_multi q SEARCH_RESULT_LIMIT country (session_allows_adult session))\<rparr>, p))"

record profile_page_data =
  pp_username :: string
  pp_initialSearch :: profile_search
  pp_initialData :: "json \<times> (profile_tab \<times> json) option"
  pp_bannerMedia :: "profile_banner_media option"

text \<open>\<open>as_overview\<close> reads an overview at its declared type; \<open>random\<close> is the value drawn.\<close>

definition profile_loader ::
  "'a query_env \<Rightarrow> (json \<Rightarrow> public_profile_overview) \<Rightarrow> rat \<Rightarrow> session_snapshot \<Rightarrow> string \<Rightarrow> json \<Rightarrow>
     ('a, profile_page_data) page_op" where
  "profile_loader qe as_overview random session username locationSearch =
     (case publicProfileSearchSchema locationSearch of
        None \<Rightarrow> server_op (throw_op (JsError ''ZodError''))
      | Some search \<Rightarrow>
          then_p (prefetchPublicProfileQueries qe session username search) (\<lambda>initialData.
            return_p \<lparr>pp_username = username, pp_initialSearch = search, pp_initialData = initialData,
              pp_bannerMedia = pickRandomFavoriteBanner (as_overview (fst initialData)) random\<rparr>))"

text \<open>The key of the data of a profile page: the same for searches that ask for the same data.\<close>

definition names_json :: "('b \<Rightarrow> string) \<Rightarrow> 'b list option \<Rightarrow> json" where
  "names_json str v = JArr (map (\<lambda>x. JStr (str x)) (nullish v []))"

definition profile_data_key :: "profile_search \<Rightarrow> json" where
  "profile_data_key s =
     JObj [(''tab'', JStr (profile_tab_str (psp_tab s))), (''page'', json_int (psp_page s)), (''q'', null_or JStr (psp_q s)),
       (''type'', names_json content_type_str (psp_type s)), (''status'', names_json tracking_status_str (psp_status s)),
       (''sort'', null_or JStr (psp_sort s)), (''order'', null_or (\<lambda>d. JStr (sort_order_name d)) (psp_order s)),
       (''tvKind'', null_or (\<lambda>k. JStr (tv_kind_str k)) (psp_tvKind s)), (''rated'', null_or JBool (psp_rated s)),
       (''reviewed'', null_or JBool (psp_reviewed s)), (''favorite'', null_or JBool (psp_favorite s)),
       (''minScore'', null_or (\<lambda>r. JNum (Fin r)) (psp_minScore s)), (''maxScore'', null_or (\<lambda>r. JNum (Fin r)) (psp_maxScore s)),
       (''role'', null_or (\<lambda>r. JStr (profile_role_str r)) (psp_role s))]"

definition sameDataSearch :: "profile_search \<Rightarrow> profile_search \<Rightarrow> bool" where
  "sameDataSearch current initial \<longleftrightarrow> profile_data_key current = profile_data_key initial"

definition initial_tab_data :: "profile_page_data \<Rightarrow> profile_search \<Rightarrow> (profile_tab \<times> json) option" where
  "initial_tab_data d search = (if sameDataSearch search (pp_initialSearch d) then snd (pp_initialData d) else None)"

definition profile_not_found :: "js_error option \<Rightarrow> bool" where
  "profile_not_found e \<longleftrightarrow> (case e of None \<Rightarrow> False | Some err \<Rightarrow> js_includes (error_message err) ''(404)'')"

record 'a home_page =
  hm_session :: session_snapshot
  hm_country :: "string option"
  hm_moderationVisibilityEnabled :: bool
  hm_initialSuggestions :: "'a query_data option"
  hm_initialLists :: "'a query_data option"
  hm_initialProgress :: "'a query_data option"

definition home_loader ::
  "'a search_item_scheme query_env \<Rightarrow> session_snapshot \<Rightarrow> string option \<Rightarrow> bool \<Rightarrow>
     ('a search_item_scheme, 'a search_item_scheme home_page) page_op" where
  "home_loader qe session country moderationVisibilityEnabled =
     then_p (prefetchHomeQueries qe session country moderationVisibilityEnabled) (\<lambda>_ env rq p.
       (Inr \<lparr>hm_session = session, hm_country = country, hm_moderationVisibilityEnabled = moderationVisibilityEnabled,
          hm_initialSuggestions = map_of (pg_queries p)
            (suggestions_byParams SUGGESTIONS_PAGE_SIZE country moderationVisibilityEnabled),
          hm_initialLists = map_of (pg_queries p) (lists_list (Some (home_lists_json country))),
          hm_initialProgress = (if json_truthy (snap_user session)
            then map_of (pg_queries p) (profiles_tab (session_username session) TabProgress HOME_PROGRESS_SEARCH) else None)\<rparr>, p))"

subsection \<open>Addresses that only redirect\<close>

text \<open>The old address of a detail: its external id is resolved, and what fails goes home.\<close>

definition legacy_valid :: "json \<Rightarrow> bool" where
  "legacy_valid search \<longleftrightarrow>
     truthy_str (json_str (json_field ''external_id'' search)) \<and>
     isValidContentType (nullish (json_str (json_field ''content_type'' search)) [])"

definition legacy_target :: "json \<Rightarrow> int option \<Rightarrow> string option" where
  "legacy_target search resolved =
     (if \<not> legacy_valid search then Some ''/''
      else map_option buildContentUrlById resolved)"

record dynamic_collection =
  dyc_key :: string
  dyc_list_id :: int
  dyc_name :: string
  dyc_group :: string
  dyc_item_count :: int
  dyc_enabled :: bool
  dyc_random_enabled :: bool
  dyc_cover_images :: "string list"

record dynamic_collections_response =
  dcr_enabled :: bool
  dcr_collections :: "dynamic_collection list"

definition collection_target :: "string \<Rightarrow> dynamic_collections_response option \<Rightarrow> int option" where
  "collection_target key response =
     (case response of
        None \<Rightarrow> None
      | Some d \<Rightarrow>
          (case find (\<lambda>c. dyc_key c = key) (dcr_collections d) of
             None \<Rightarrow> None
           | Some c \<Rightarrow> if \<not> dcr_enabled d \<or> \<not> dyc_enabled c then None else Some (dyc_list_id c)))"

subsection \<open>The query of a list, on the server and in the page\<close>

text \<open>A query without the field \<open>tracking_status\<close>.\<close>

definition without_tracking :: "list_item_query \<Rightarrow> list_item_query" where
  "without_tracking q =
     q\<lparr>q_filters := filter (\<lambda>(f, v). f \<noteq> FfTrackingStatus) (q_filters q),
       q_sort := filter (\<lambda>c. sc_field c \<noteq> SfTrackingStatus) (q_sort q),
       q_groupBy := (if q_groupBy q = Some GfTrackingStatus then None else q_groupBy q)\<rparr>"

text \<open>
  JSON strings are what \<open>decodeRouteSearchValue\<close> decodes; a value that is no JSON is kept.
\<close>

definition reads_back :: "(string \<Rightarrow> json option) \<Rightarrow> string \<Rightarrow> bool" where
  "reads_back parse v \<longleftrightarrow>
     (case parse v of
        None \<Rightarrow> decodeRouteSearchValue v = v
      | Some j \<Rightarrow> (case json_str (Some j) of None \<Rightarrow> True | Some t \<Rightarrow> decodeRouteSearchValue v = t))"

definition reads_text :: "(string \<Rightarrow> json option) \<Rightarrow> string \<Rightarrow> bool" where
  "reads_text parse v \<longleftrightarrow> json_str (Some (nullish (parse v) (JStr v))) \<noteq> None"

definition decoded_pairs :: "search_params \<Rightarrow> search_params" where
  "decoded_pairs ps = map (\<lambda>(k, v). (k, decodeRouteSearchValue v)) ps"

definition known_first :: "search_params \<Rightarrow> search_params" where
  "known_first ps =
     concat (map (\<lambda>k. case map_of ps k of None \<Rightarrow> [] | Some v \<Rightarrow> [(k, v)]) [''sort'', ''group_by'', ''page'', ''page_size'']) @
       filter (\<lambda>(k, v). k \<notin> {''sort'', ''group_by'', ''page'', ''page_size''}) ps"

lemma read_text:
  "reads_back parse v \<Longrightarrow> reads_text parse v \<Longrightarrow> json_str (Some (nullish (parse v) (JStr v))) = Some (decodeRouteSearchValue v)"
  by (cases "parse v") (auto simp: reads_back_def reads_text_def nullish_def json_str_def split: option.splits json.splits)

lemma schema_read:
  assumes "list_all (\<lambda>(k, v). reads_back parse v) ps"
  shows "listSearchSchema (JObj (router_search parse ps)) =
    (if list_all (\<lambda>(k, v). reads_text parse v) ps then known_first (decoded_pairs ps) else [])"
proof (cases "list_all (\<lambda>(k, v). reads_text parse v) ps")
  case True
  with assms have "\<forall>(k, v) \<in> set ps. json_str (Some (nullish (parse v) (JStr v))) = Some (decodeRouteSearchValue v)"
    unfolding list_all_iff by (auto intro!: read_text)
  then have "map (\<lambda>(k, v). (k, the (json_str (Some v)))) (router_search parse ps) = decoded_pairs ps"
    and "list_all (\<lambda>(k, v). json_str (Some v) \<noteq> None) (router_search parse ps)"
    by (auto simp: router_search_def decoded_pairs_def list_all_iff)
  with True show ?thesis by (simp add: listSearchSchema_def known_first_def Let_def)
next
  case False
  then have "\<not> list_all (\<lambda>(k, v). json_str (Some v) \<noteq> None) (router_search parse ps)"
    by (force simp: router_search_def list_all_iff reads_text_def)
  with False show ?thesis by (simp add: listSearchSchema_def)
qed

lemma fold_route_skip: "(\<And>k v. (k, v) \<in> set ps \<Longrightarrow> filter_key k = None) \<Longrightarrow> fold route_param ps acc = acc"
proof (induction ps)
  case (Cons p ps)
  obtain k v where p: "p = (k, v)" by (cases p)
  have "filter_key k = None" by (rule Cons.prems [of k v]) (simp add: p)
  then have "route_param p acc = acc" by (cases acc) (simp add: p)
  moreover have "filter_key k = None" if "(k, v) \<in> set ps" for k v
    by (rule Cons.prems [of k v]) (simp add: that)
  then have "fold route_param ps acc = acc" by (rule Cons.IH)
  ultimately show ?case by simp
qed simp

lemma fold_route_filter:
  "(\<And>k. k \<in> K \<Longrightarrow> filter_key k = None) \<Longrightarrow> fold route_param (filter (\<lambda>(k, v). k \<notin> K) ps) acc = fold route_param ps acc"
proof (induction ps arbitrary: acc)
  case (Cons p ps)
  obtain k v where p: "p = (k, v)" by (cases p)
  have "k \<in> K \<Longrightarrow> route_param p acc = acc" using Cons.prems [of k] by (cases acc) (simp add: p)
  then show ?case using Cons.IH [OF Cons.prems] by (auto simp: p)
qed simp

lemma fold_known_first: "fold route_param (known_first ps) acc = fold route_param ps acc"
proof -
  have none: "filter_key k = None" if "k \<in> {''sort'', ''group_by'', ''page'', ''page_size''}" for k
    using that by (auto simp: filter_key_def)
  have "fold route_param (concat (map (\<lambda>k. case map_of ps k of None \<Rightarrow> [] | Some v \<Rightarrow> [(k, v)])
      [''sort'', ''group_by'', ''page'', ''page_size''])) acc = acc"
    by (rule fold_route_skip, rule none) (auto split: option.splits)
  moreover have "fold route_param (filter (\<lambda>(k, v). k \<notin> {''sort'', ''group_by'', ''page'', ''page_size''}) ps) acc = fold route_param ps acc"
    by (rule fold_route_filter) (rule none)
  ultimately show ?thesis by (simp add: known_first_def)
qed

lemma map_of_picked:
  "map_of (concat (map (\<lambda>k. case m k of None \<Rightarrow> [] | Some v \<Rightarrow> [(k, v)]) ks)) k = (if k \<in> set ks then m k else None)"
  by (induction ks) (auto simp: map_add_def split: option.split)

lemma known_first_lookup:
  assumes "k \<in> {''sort'', ''group_by'', ''page'', ''page_size''}"
  shows "map_of (known_first ps) k = map_of ps k"
proof -
  have "map_of (filter (\<lambda>(k, v). k \<notin> {''sort'', ''group_by'', ''page'', ''page_size''}) ps) k = None"
    using assms by (auto simp: map_of_eq_None_iff)
  then show ?thesis
    using assms unfolding known_first_def map_of_append map_add_def map_of_picked by (auto split: option.split)
qed

lemma route_filter_field:
  "isFilterField s = (case allowed filter_field_str ALLOWED_FILTERS s of
      None \<Rightarrow> None | Some f \<Rightarrow> if f = FfTrackingStatus then None else Some f)"
  by (auto simp: isFilterField_def allowed_def ALLOWED_FILTERS_def)

lemma route_range_field: "isRangeFilterField s = allowed range_field_str ALLOWED_RANGE_FILTERS s"
  by (simp add: isRangeFilterField_def ALLOWED_RANGE_FILTERS_def)

lemma route_sort_field:
  "isSortField s = (case allowed sort_field_str ALLOWED_SORTS s of
      None \<Rightarrow> None | Some f \<Rightarrow> if f = SfTrackingStatus then None else Some f)"
  by (auto simp: isSortField_def allowed_def ALLOWED_SORTS_def)

lemma route_group_field:
  "isGroupByField s = (case allowed group_field_str ALLOWED_GROUPS s of
      None \<Rightarrow> None | Some f \<Rightarrow> if f = GfTrackingStatus then None else Some f)"
  by (auto simp: isGroupByField_def allowed_def ALLOWED_GROUPS_def)

lemma filter_update:
  "filter (\<lambda>(f, v). f \<noteq> t) (AList.update k v xs) =
     (if k = t then filter (\<lambda>(f, v). f \<noteq> t) xs else AList.update k v (filter (\<lambda>(f, v). f \<noteq> t) xs))"
  by (induction xs) auto

lemma filter_range_disjoint:
  "allowed filter_field_str ALLOWED_FILTERS s = Some f \<Longrightarrow> allowed range_field_str ALLOWED_RANGE_FILTERS s = None"
  using range_not_filter by (auto simp: allowed_def find_None_iff find_Some_iff)

lemma route_param_step:
  "route_param (k, decodeRouteSearchValue v) (filter (\<lambda>(f, v). f \<noteq> FfTrackingStatus) fs, rs) =
     (case parse_param (k, v) (fs, rs) of (fs', rs') \<Rightarrow> (filter (\<lambda>(f, v). f \<noteq> FfTrackingStatus) fs', rs'))"
proof (cases "filter_key k")
  case (Some field)
  show ?thesis
  proof (cases "allowed filter_field_str ALLOWED_FILTERS field")
    case None
    then show ?thesis using Some
      by (simp add: route_filter_field route_range_field Let_def split: option.split)
  next
    case (Some f)
    then show ?thesis using \<open>filter_key k = Some field\<close> filter_range_disjoint [OF Some]
      by (simp add: route_filter_field route_range_field Let_def filter_update)
  qed
qed simp

lemma fold_route:
  "fold route_param (decoded_pairs ps) (filter (\<lambda>(f, v). f \<noteq> FfTrackingStatus) fs, rs) =
     (case fold parse_param ps (fs, rs) of (fs', rs') \<Rightarrow> (filter (\<lambda>(f, v). f \<noteq> FfTrackingStatus) fs', rs'))"
proof (induction ps arbitrary: fs rs)
  case (Cons p ps)
  obtain k v where p: "p = (k, v)" by (cases p)
  obtain fs' rs' where step: "parse_param (k, v) (fs, rs) = (fs', rs')" by (cases "parse_param (k, v) (fs, rs)")
  then have "route_param (k, decodeRouteSearchValue v) (filter (\<lambda>(f, v). f \<noteq> FfTrackingStatus) fs, rs) =
      (filter (\<lambda>(f, v). f \<noteq> FfTrackingStatus) fs', rs')"
    using route_param_step [of k v fs rs] by simp
  then show ?case using Cons.IH [of fs' rs'] step by (simp add: p decoded_pairs_def del: route_param.simps parse_param.simps)
qed (simp add: decoded_pairs_def)

lemma decoded_lookup: "map_of (decoded_pairs ps) k = map_option decodeRouteSearchValue (map_of ps k)"
  by (induction ps) (auto simp: decoded_pairs_def)

lemma route_sort:
  "concat (map route_sort_token (filter (\<lambda>t. t \<noteq> []) (map js_trim ws))) =
     filter (\<lambda>c. sc_field c \<noteq> SfTrackingStatus) (concat (map parse_sort_token ws))"
proof (induction ws)
  case (Cons w ws)
  have "(if js_trim w \<noteq> [] then route_sort_token (js_trim w) else []) =
      filter (\<lambda>c. sc_field c \<noteq> SfTrackingStatus) (parse_sort_token w)"
    by (simp add: route_sort_token_def parse_sort_token_def route_sort_field Let_def split: option.split)
  with Cons show ?case by (cases "js_trim w = []") simp_all
qed simp


text \<open>An address that sorts by tracking status, and one with a plain page number.\<close>

definition sample_json :: "string \<Rightarrow> json option" where
  "sample_json t = (if t = ''2'' then Some (JNum (Fin 2)) else None)"


subsection \<open>The redirect of a browse page\<close>

lemma params_string_inject: "params_string ps = params_string qs \<longleftrightarrow> ps = qs"
  by (metis params_roundtrip)

text \<open>
  The address that the router writes for a search: the fields in the order of the object, without
  the first page and the order by popularity, which the page strips; a text is quoted when it would
  be read back as another JSON value (\<open>quotes\<close>).
\<close>

definition browse_address :: "(string \<Rightarrow> bool) \<Rightarrow> browse_search \<Rightarrow> string" where
  "browse_address quotes s =
     params_string
       ((if bs_page s \<noteq> 1 then [(''page'', show_int (bs_page s))] else []) @
        (if bs_sort s \<noteq> SortPopular then [(''sort'', browse_sort_name (bs_sort s))] else []) @
        router_write quotes (case bs_q s of None \<Rightarrow> [] | Some q \<Rightarrow> [(''q'', q)]))"

definition browse_search_ok :: "browse_search \<Rightarrow> bool" where
  "browse_search_ok s \<longleftrightarrow>
     bs_page s \<in> {1..100} \<and>
     (case bs_q s of None \<Rightarrow> True | Some q \<Rightarrow> q \<noteq> [] \<and> js_trim q = q \<and> length q \<le> 80 \<and> bs_sort s = SortPopular)"

lemma browse_object_again:
  assumes "browse_search_ok s"
  shows "browseSearchSchema (browse_object s) = Some s"
proof -
  have page: "browse_page_number (Some (json_int (bs_page s))) = bs_page s"
    using assms by (simp add: browse_search_ok_def browse_page_number_def json_int_def)
  have srt: "enum_of browse_sort_name [SortPopular, SortRecent] (Some (JStr (browse_sort_name (bs_sort s)))) = Some (bs_sort s)"
    by (cases "bs_sort s") (simp_all add: enum_of_def json_str_def)
  have words: "js_trim (nullish (short_text 80 (map_option JStr (bs_q s))) []) = nullish (bs_q s) []"
    using assms by (cases "bs_q s") (auto simp: browse_search_ok_def short_text_def json_str_def nullish_def js_trim_Nil)
  show ?thesis
    using assms page srt words
    by (cases s; cases "bs_q s")
      (simp_all add: browseSearchSchema_def browse_object_def object_of_def json_field_def Let_def browse_search_ok_def nullish_def)
qed

lemma json_quote_not: "json_quote q \<noteq> q"
proof -
  have one: "1 \<le> length (json_escape c)" for c by (simp add: json_escape_def)
  have "length q \<le> length (concat (map json_escape q))" for q
  proof (induction q)
    case (Cons c q)
    then show ?case using one [of c] by simp
  qed simp
  then have "length (json_quote q) > length q" by (simp add: json_quote_def less_Suc_eq_le le_SucI)
  then show ?thesis by auto
qed

definition search_str :: "string \<Rightarrow> string" where
  "search_str address = (if address = [] then [] else ''?'' @ address)"

text \<open>C20. What happens after a browse page has redirected to its normal form: the address that the router
  writes for it is accepted, except beyond the first page of a search or of the recent order, where
  the code expects its fields in another order, and for a text that the router quotes, such as a
  number; there it redirects to the same search again, and never stops.\<close>

theorem browse_redirect_outcome:
  assumes "browse_search_ok s"
  shows "browse_beforeLoad (browse_name typ) (browse_object s) (search_str (browse_address quotes s)) =
    (if 1 < bs_page s \<and> (bs_sort s = SortRecent \<or> bs_q s \<noteq> None) \<or> (case bs_q s of None \<Rightarrow> False | Some q \<Rightarrow> quotes q)
     then BrowseAt typ s else BrowseOk)"
proof -
  have kind: "toBrowseType (browse_name typ) = Some typ" by (cases "typ") (simp_all add: toBrowseType_def)
  have strip: "(case search_str t of CHR ''?'' # u \<Rightarrow> u | u \<Rightarrow> u) = t" for t by (simp add: search_str_def)
  have q: "bs_q s = Some v \<Longrightarrow> v \<noteq> [] \<and> bs_sort s = SortPopular" for v
    using assms by (simp add: browse_search_ok_def)
  have page: "1 \<le> bs_page s" using assms by (simp add: browse_search_ok_def)
  have "browse_address quotes s = normalizedBrowseQuery s \<longleftrightarrow>
      \<not> (1 < bs_page s \<and> (bs_sort s = SortRecent \<or> bs_q s \<noteq> None) \<or> (case bs_q s of None \<Rightarrow> False | Some q \<Rightarrow> quotes q))"
    unfolding browse_address_def normalizedBrowseQuery_def params_string_inject browse_pairs_def
    using q page json_quote_not by (cases "bs_q s"; cases "bs_sort s") auto
  then show ?thesis
    unfolding browse_beforeLoad_def kind option.case Let_def strip browse_object_again [OF assms] by simp
qed

theorem browse_redirect_outcome_witness:
  "browse_beforeLoad ''movies'' (browse_object \<lparr>bs_page = 2, bs_sort = SortRecent, bs_q = None\<rparr>)
      (search_str (browse_address (\<lambda>_. False) \<lparr>bs_page = 2, bs_sort = SortRecent, bs_q = None\<rparr>)) =
     BrowseAt BrowseMovies \<lparr>bs_page = 2, bs_sort = SortRecent, bs_q = None\<rparr> \<and>
   browse_beforeLoad ''books'' (browse_object \<lparr>bs_page = 1, bs_sort = SortPopular, bs_q = Some ''1984''\<rparr>)
      (search_str (browse_address (\<lambda>_. True) \<lparr>bs_page = 1, bs_sort = SortPopular, bs_q = Some ''1984''\<rparr>)) =
     BrowseAt BrowseBooks \<lparr>bs_page = 1, bs_sort = SortPopular, bs_q = Some ''1984''\<rparr>"
proof -
  have "browse_search_ok \<lparr>bs_page = 2, bs_sort = SortRecent, bs_q = None\<rparr>" by (simp add: browse_search_ok_def)
  from browse_redirect_outcome [OF this, of BrowseMovies "\<lambda>_. False"]
  have recent: "browse_beforeLoad ''movies'' (browse_object \<lparr>bs_page = 2, bs_sort = SortRecent, bs_q = None\<rparr>)
      (search_str (browse_address (\<lambda>_. False) \<lparr>bs_page = 2, bs_sort = SortRecent, bs_q = None\<rparr>)) =
     BrowseAt BrowseMovies \<lparr>bs_page = 2, bs_sort = SortRecent, bs_q = None\<rparr>" by simp
  have "browse_search_ok \<lparr>bs_page = 1, bs_sort = SortPopular, bs_q = Some ''1984''\<rparr>" by code_simp
  from browse_redirect_outcome [OF this, of BrowseBooks "\<lambda>_. True"] recent show ?thesis by simp
qed

end
