(* ===== verification/PageQueries.thy ===== *)
theory PageQueries
  imports RouteLoaders
begin

text \<open>
  The queries of the pages in the browser (\<open>lib/api/queries/use*.ts\<close>) and what the pages of a detail
  and of the home page make of them (\<open>useContentData.ts\<close>, \<open>useUserRating.ts\<close>, \<open>useContentModals.ts\<close>,
  \<open>useHomeData.ts\<close>, \<open>useFeaturedItems.ts\<close>).  A query is its options, as they are given to
  \<open>useQuery\<close>; what it does when it mounts is the documented behaviour of TanStack Query.
\<close>

subsection \<open>Options\<close>

record query_options =
  qo_key :: query_key
  qo_fn :: "json client_op"
  qo_enabled :: bool
  qo_staleTime :: int
  qo_initialData :: "json option"
  qo_keepPrevious :: bool

text \<open>
  What a query shows when it mounts, and whether it fetches: a value in the cache is shown, and
  fetched again when it is stale; without one the initial data is stored as if it had just been
  fetched; otherwise the value is fetched.
\<close>

definition mounts :: "(query_key \<Rightarrow> int \<Rightarrow> bool) \<Rightarrow> (query_key \<times> json) list \<Rightarrow> query_options \<Rightarrow> json option \<times> bool" where
  "mounts fresh cache q =
     (case map_of cache (qo_key q) of
        Some d \<Rightarrow> (Some d, qo_enabled q \<and> \<not> fresh (qo_key q) (qo_staleTime q))
      | None \<Rightarrow>
          (case qo_initialData q of
             Some d \<Rightarrow> (Some d, qo_enabled q \<and> qo_staleTime q \<le> 0)
           | None \<Rightarrow> (None, qo_enabled q)))"

subsection \<open>Queries\<close>

text \<open>Ids are integers: the checks for numbers that are not finite always pass.\<close>

definition useContentDetailQuery ::
  "browser option \<Rightarrow> int \<Rightarrow> string option \<Rightarrow> json option \<Rightarrow> json option \<Rightarrow> query_options" where
  "useContentDetailQuery window contentId country initialData viewerId =
     \<lparr>qo_key = content_detail_key contentId viewerId country, qo_fn = contentItem_get window contentId country,
      qo_enabled = (0 < contentId), qo_staleTime = 5 * 60000, qo_initialData = initialData, qo_keepPrevious = False\<rparr>"

definition useContentItemResolutionQuery :: "string \<Rightarrow> string \<Rightarrow> string option \<Rightarrow> bool \<Rightarrow> query_options" where
  "useContentItemResolutionQuery externalId contentType country enabled =
     \<lparr>qo_key = content_resolution_key externalId contentType country,
      qo_fn = contentItem_getOrCreate externalId contentType country,
      qo_enabled = (enabled \<and> externalId \<noteq> [] \<and> contentType \<noteq> []), qo_staleTime = 5 * 60000,
      qo_initialData = None, qo_keepPrevious = False\<rparr>"

definition useBrowseQuery ::
  "proxy_client \<Rightarrow> browse_type \<Rightarrow> int \<Rightarrow> browse_sort \<Rightarrow> string \<Rightarrow> string option \<Rightarrow> json option \<Rightarrow> query_options" where
  "useBrowseQuery px typ page srt query country initialData =
     (let q = (if query \<noteq> [] then Some query else None) in
      \<lparr>qo_key = browse_byParams typ page srt q country, qo_fn = browse_get px typ page (browse_sort_name srt) q country,
       qo_enabled = (1 \<le> page \<and> page \<le> 100 \<and> 0 < page * BROWSE_PAGE_SIZE), qo_staleTime = 30000,
       qo_initialData = initialData, qo_keepPrevious = True\<rparr>)"

definition useDynamicCollectionsQuery :: "bool \<Rightarrow> json option \<Rightarrow> query_options" where
  "useDynamicCollectionsQuery enabled initialData =
     \<lparr>qo_key = JArr [JStr ''dynamic-collections''], qo_fn = collection_list, qo_enabled = enabled,
      qo_staleTime = 30000, qo_initialData = initialData, qo_keepPrevious = False\<rparr>"

definition collection_items_key :: "string \<Rightarrow> int option \<Rightarrow> int option \<Rightarrow> string option \<Rightarrow> string option \<Rightarrow> query_key" where
  "collection_items_key key page pageSize q srt =
     JArr [JStr ''dynamic-collections'', JStr ''items'', JStr key,
       object_of [(''page'', map_option json_int page), (''pageSize'', map_option json_int pageSize),
         (''q'', map_option JStr q), (''sort'', map_option JStr srt)]]"

definition useDynamicCollectionItemsQuery ::
  "string \<Rightarrow> int option \<Rightarrow> int option \<Rightarrow> string option \<Rightarrow> string option \<Rightarrow> query_options" where
  "useDynamicCollectionItemsQuery key page pageSize q srt =
     \<lparr>qo_key = collection_items_key key page pageSize q srt, qo_fn = collection_items key page pageSize q srt,
      qo_enabled = (key \<noteq> []), qo_staleTime = 30000, qo_initialData = None, qo_keepPrevious = True\<rparr>"

definition useFullListItemsQuery :: "browser option \<Rightarrow> int \<Rightarrow> list_item_options \<Rightarrow> bool \<Rightarrow> query_options" where
  "useFullListItemsQuery window listId opts enabled =
     \<lparr>qo_key = listItems_full listId (Some opts), qo_fn = listItem_listAll window listId opts,
      qo_enabled = (enabled \<and> 0 < listId), qo_staleTime = 30000, qo_initialData = None, qo_keepPrevious = False\<rparr>"

definition useListItemsQuery ::
  "browser option \<Rightarrow> int \<Rightarrow> int \<Rightarrow> int \<Rightarrow> list_item_options \<Rightarrow> bool \<Rightarrow> query_options" where
  "useListItemsQuery window listId page pageSize opts enabled =
     \<lparr>qo_key = listItems_page listId page pageSize opts,
      qo_fn = listItem_list window listId (Some page) (Some pageSize) opts,
      qo_enabled = (0 < listId \<and> enabled), qo_staleTime = 30000, qo_initialData = None, qo_keepPrevious = True\<rparr>"

definition useListStatsQuery :: "int \<Rightarrow> bool \<Rightarrow> query_options" where
  "useListStatsQuery listId enabled =
     \<lparr>qo_key = lists_stats listId, qo_fn = list_getStats listId, qo_enabled = (enabled \<and> 0 < listId),
      qo_staleTime = 60000, qo_initialData = None, qo_keepPrevious = False\<rparr>"

definition useMultiSearchQuery ::
  "proxy_client \<Rightarrow> string \<Rightarrow> int \<Rightarrow> string option \<Rightarrow> bool \<Rightarrow> json option \<Rightarrow> bool \<Rightarrow> query_options" where
  "useMultiSearchQuery px query limit country enabled initialData allowAdult =
     (let trimmedQuery = js_trim query in
      \<lparr>qo_key = search_multi trimmedQuery limit country allowAdult,
       qo_fn = multiSearch px trimmedQuery None (Some limit) (Some (if allowAdult then ''include'' else ''exclude'')) country,
       qo_enabled = (enabled \<and> trimmedQuery \<noteq> []), qo_staleTime = 30000, qo_initialData = initialData,
       qo_keepPrevious = True\<rparr>)"

definition useRatingsListQuery :: "browser option \<Rightarrow> int \<Rightarrow> int \<Rightarrow> int \<Rightarrow> bool \<Rightarrow> query_options" where
  "useRatingsListQuery window contentItemId page pageSize enabled =
     \<lparr>qo_key = ratings_list_key contentItemId page pageSize,
      qo_fn = rating_list window (Some [(''content_item_id'', Some (show_int contentItemId)),
        (''page'', Some (show_int page)), (''page_size'', Some (show_int pageSize))]),
      qo_enabled = (enabled \<and> 0 < contentItemId), qo_staleTime = 30000, qo_initialData = None, qo_keepPrevious = True\<rparr>"

text \<open>\<open>response.results[0] ?? null\<close>.\<close>

definition first_result :: "json \<Rightarrow> json" where
  "first_result response = (case json_field ''results'' response of Some (JArr (r # rs)) \<Rightarrow> r | _ \<Rightarrow> JNull)"

definition useUserRatingQuery :: "browser option \<Rightarrow> int option \<Rightarrow> int option \<Rightarrow> json option \<Rightarrow> query_options" where
  "useUserRatingQuery window contentItemId userId initialData =
     (let item = nullish contentItemId 0; owner = nullish userId 0 in
      \<lparr>qo_key = ratings_byUser (json_int item) (json_int owner),
       qo_fn = then_c (rating_list window (Some [(''content_item_id'', Some (show_int item)),
         (''user_id'', Some (show_int owner)), (''page_size'', Some ''1'')])) (\<lambda>response. return_c (first_result response)),
       qo_enabled = (contentItemId \<noteq> None \<and> 0 < item \<and> userId \<noteq> None \<and> 0 < owner),
       qo_staleTime = 30000, qo_initialData = initialData, qo_keepPrevious = False\<rparr>)"

definition useSuggestionsQuery ::
  "browser option \<Rightarrow> int \<Rightarrow> string option \<Rightarrow> bool \<Rightarrow> json option \<Rightarrow> bool \<Rightarrow> query_options" where
  "useSuggestionsQuery window limit country enabled initialData moderationVisibilityEnabled =
     \<lparr>qo_key = suggestions_byParams limit country moderationVisibilityEnabled,
      qo_fn = getSuggestions window (Some limit) country, qo_enabled = (enabled \<and> 0 < limit),
      qo_staleTime = 5 * 60000, qo_initialData = initialData, qo_keepPrevious = False\<rparr>"

text \<open>The parameters of a list in its key and in its request.\<close>

definition useUserListQuery :: "browser option \<Rightarrow> int \<Rightarrow> (string \<times> string) list \<Rightarrow> bool \<Rightarrow> query_options" where
  "useUserListQuery window n params enabled =
     \<lparr>qo_key = lists_detail n (Some (fields_json params)),
      qo_fn = list_get window n (Some (map (\<lambda>(k, v). (k, Some v)) params)), qo_enabled = (0 < n \<and> enabled),
      qo_staleTime = 30000, qo_initialData = None, qo_keepPrevious = False\<rparr>"

definition useHomeListsQuery :: "browser option \<Rightarrow> string option \<Rightarrow> bool \<Rightarrow> json option \<Rightarrow> query_options" where
  "useHomeListsQuery window country enabled initialData =
     \<lparr>qo_key = lists_list (Some (home_lists_json country)),
      qo_fn = list_list window (Some (map (\<lambda>(k, v). (k, Some v)) (homeListParams country) @
        (if country = None then [(''country'', None)] else []))),
      qo_enabled = enabled, qo_staleTime = 60000, qo_initialData = initialData, qo_keepPrevious = False\<rparr>"

definition usePublicProfileOverviewQuery :: "string \<Rightarrow> json option \<Rightarrow> query_options" where
  "usePublicProfileOverviewQuery username initialData =
     \<lparr>qo_key = profiles_overview username, qo_fn = profile_overview username, qo_enabled = True,
      qo_staleTime = 60000, qo_initialData = initialData, qo_keepPrevious = False\<rparr>"

definition profile_tab_query ::
  "(rat \<Rightarrow> string) \<Rightarrow> browser option \<Rightarrow> string \<Rightarrow> profile_tab \<Rightarrow> profile_search \<Rightarrow> json option \<Rightarrow> bool \<Rightarrow> query_options" where
  "profile_tab_query number window username tab search initialData enabled =
     \<lparr>qo_key = profiles_tab username tab search, qo_fn = profilePage number window username tab search,
      qo_enabled = enabled, qo_staleTime = 60000, qo_initialData = initialData, qo_keepPrevious = True\<rparr>"

definition usePublicProgressQuery ::
  "(rat \<Rightarrow> string) \<Rightarrow> browser option \<Rightarrow> string \<Rightarrow> profile_search \<Rightarrow> json option \<Rightarrow> bool option \<Rightarrow> query_options" where
  "usePublicProgressQuery number window username search initialData enabled =
     profile_tab_query number window username TabProgress search initialData (nullish enabled True)"

definition usePublicListsQuery ::
  "(rat \<Rightarrow> string) \<Rightarrow> browser option \<Rightarrow> string \<Rightarrow> profile_search \<Rightarrow> json option \<Rightarrow> query_options" where
  "usePublicListsQuery number window username search initialData =
     profile_tab_query number window username TabLists search initialData True"

text \<open>Warming the cache when the pointer rests on a card; an id that is not positive does nothing.\<close>

definition usePrefetchContentDetail ::
  "browser option \<Rightarrow> json option \<Rightarrow> int \<Rightarrow> string option \<Rightarrow> query_options option" where
  "usePrefetchContentDetail window viewerId contentId country =
     (if contentId \<le> 0 then None
      else Some \<lparr>qo_key = content_detail_key contentId viewerId country, qo_fn = contentItem_get window contentId country,
        qo_enabled = True, qo_staleTime = 5 * 60000, qo_initialData = None, qo_keepPrevious = False\<rparr>)"

definition prefetch_viewer :: "auth_state \<Rightarrow> json option" where
  "prefetch_viewer st =
     (if au_resolution st = ResAuthenticated \<and> field_truthy (Option.bind (au_user st) (json_field ''id''))
      then Option.bind (au_user st) (json_field ''id'') else None)"

subsection \<open>The page of a detail\<close>

text \<open>The payload of an item, read from its text when it is one; \<open>None\<close> is \<open>null\<close>.\<close>

definition detailData :: "(string \<Rightarrow> json option) \<Rightarrow> json option \<Rightarrow> json option" where
  "detailData parse item =
     (case Option.bind item (json_field ''source_data'') of
        None \<Rightarrow> None
      | Some d \<Rightarrow>
          if \<not> json_truthy d then None
          else (case d of JStr t \<Rightarrow> (case parse t of Some JNull \<Rightarrow> None | r \<Rightarrow> r) | _ \<Rightarrow> Some d))"

text \<open>The operator \<open>in\<close> throws on a payload that is neither an object nor an array.\<close>

definition tvShowTitle :: "(string \<Rightarrow> json option) \<Rightarrow> json option \<Rightarrow> js_error + string option" where
  "tvShowTitle parse item =
     (if Option.bind item (json_field ''content_type'') \<noteq> Some (JStr ''SEASON'') then Inr None
      else
        (case detailData parse item of
           None \<Rightarrow> Inr None
         | Some d \<Rightarrow>
             if \<not> json_truthy d then Inr None
             else (case d of
                 JObj _ \<Rightarrow> Inr (json_str (json_field ''tv_show_name'' d))
               | JArr _ \<Rightarrow> Inr None
               | _ \<Rightarrow> Inl (JsError ''TypeError''))))"

record content_data =
  cdt_loading :: bool
  cdt_error :: "string option"
  cdt_contentItem :: "json option"
  cdt_detailData :: "json option"
  cdt_tvShowTitle :: "string option"

text \<open>What the hook makes of its query: loading, the error of a failed fetch, and the value.\<close>

definition useContentData ::
  "(string \<Rightarrow> json option) \<Rightarrow> bool \<Rightarrow> client_error option \<Rightarrow> json option \<Rightarrow> js_error + content_data" where
  "useContentData parse loading error query_data =
     (let item = (if query_data = Some JNull then None else query_data) in
      case tvShowTitle parse item of
        Inl e \<Rightarrow> Inl e
      | Inr title \<Rightarrow>
          Inr \<lparr>cdt_loading = loading, cdt_error = map_option client_message error, cdt_contentItem = item,
            cdt_detailData = detailData parse item, cdt_tvShowTitle = title\<rparr>)"

text \<open>What the page shows; rendering it may throw.\<close>

datatype detail_view = DetailSkeleton | DetailFailed string | DetailUnavailable | DetailShown json json

definition displayItem :: "(string \<Rightarrow> json option) \<Rightarrow> content_data \<Rightarrow> js_error + json option" where
  "displayItem parse d =
     (case cdt_detailData d of
        Some j \<Rightarrow> Inr (Some j)
      | None \<Rightarrow>
          (case Option.bind (cdt_contentItem d) (json_field ''source_data'') of
             None \<Rightarrow> Inr None
           | Some raw \<Rightarrow>
               if \<not> json_truthy raw then Inr None
               else (case raw of
                  JStr t \<Rightarrow> (case parse t of None \<Rightarrow> Inl (JsError ''SyntaxError'') | Some j \<Rightarrow> Inr (Some j))
                | _ \<Rightarrow> Inr (Some raw))))"

definition detail_view :: "(string \<Rightarrow> json option) \<Rightarrow> content_data \<Rightarrow> js_error + detail_view" where
  "detail_view parse d =
     (if cdt_loading d then Inr DetailSkeleton
      else if truthy_str (cdt_error d) \<or> cdt_contentItem d = None
        then Inr (DetailFailed (or_str (cdt_error d) ''Content not found''))
      else
        (case displayItem parse d of
           Inl e \<Rightarrow> Inl e
         | Inr shown \<Rightarrow>
             (case shown of
                None \<Rightarrow> Inr DetailUnavailable
              | Some j \<Rightarrow> if json_truthy j then Inr (DetailShown (the (cdt_contentItem d)) j) else Inr DetailUnavailable)))"

definition detail_page ::
  "(string \<Rightarrow> json option) \<Rightarrow> bool \<Rightarrow> client_error option \<Rightarrow> json option \<Rightarrow> js_error + detail_view" where
  "detail_page parse loading error query_data =
     (case useContentData parse loading error query_data of Inl e \<Rightarrow> Inl e | Inr d \<Rightarrow> detail_view parse d)"

text \<open>The handlers of the rating of the user, over the item and the rating that are shown.\<close>

definition user_handleSubmitRating ::
  "content_item option \<Rightarrow> rating option \<Rightarrow> int option \<Rightarrow> rating_create \<Rightarrow> (rating_ui, unit) op_on" where
  "user_handleSubmitRating contentItem userRating userId d =
     (case contentItem of
        None \<Rightarrow> return_c ()
      | Some item \<Rightarrow> then_c (upsertRating_mutate item userRating d userId) (\<lambda>_. return_c ()))"

definition user_handleDeleteRating :: "content_item option \<Rightarrow> rating option \<Rightarrow> (rating_ui, unit) op_on" where
  "user_handleDeleteRating contentItem userRating =
     (case (contentItem, userRating) of
        (Some item, Some r) \<Rightarrow> then_c (deleteRating_mutate (rt_id r)) (\<lambda>_. return_c ())
      | _ \<Rightarrow> return_c ())"

record content_modals =
  cm_isRatingModalOpen :: bool
  cm_isAddToListModalOpen :: bool

definition content_modals_init :: content_modals where
  "content_modals_init = \<lparr>cm_isRatingModalOpen = False, cm_isAddToListModalOpen = False\<rparr>"

definition content_openRatingModal :: "content_modals \<Rightarrow> content_modals" where
  "content_openRatingModal m = m\<lparr>cm_isRatingModalOpen := True\<rparr>"

definition content_closeRatingModal :: "content_modals \<Rightarrow> content_modals" where
  "content_closeRatingModal m = m\<lparr>cm_isRatingModalOpen := False\<rparr>"

definition openAddToListModal :: "content_modals \<Rightarrow> content_modals" where
  "openAddToListModal m = m\<lparr>cm_isAddToListModalOpen := True\<rparr>"

definition closeAddToListModal :: "content_modals \<Rightarrow> content_modals" where
  "closeAddToListModal m = m\<lparr>cm_isAddToListModalOpen := False\<rparr>"

subsection \<open>The home page\<close>

definition category_results :: "string \<Rightarrow> 'a catalog_response option \<Rightarrow> 'a list" where
  "category_results key d =
     (case d of
        Some (Categories cs) \<Rightarrow> (case map_of cs key of None \<Rightarrow> [] | Some c \<Rightarrow> pcr_results c)
      | _ \<Rightarrow> [])"

record 'a home_suggestions =
  hs_movies :: "'a list"
  hs_tvShows :: "'a list"
  hs_games :: "'a list"
  hs_music :: "'a list"
  hs_books :: "'a list"

definition home_suggestions :: "'a catalog_response option \<Rightarrow> 'a home_suggestions" where
  "home_suggestions d =
     \<lparr>hs_movies = category_results ''movies'' d, hs_tvShows = category_results ''tv-shows'' d,
      hs_games = category_results ''games'' d, hs_music = category_results ''albums'' d,
      hs_books = category_results ''books'' d\<rparr>"

text \<open>A query as the page sees it: loading, its error and its results.\<close>

record 'r seen_query =
  sq_isLoading :: bool
  sq_error :: "client_error option"
  sq_data :: 'r

record ('a, 'l, 'p) home_data =
  hd_suggestions :: "'a home_suggestions"
  hd_suggestionsError :: "string option"
  hd_lists :: "'l list"
  hd_listsLoading :: bool
  hd_listsError :: "string option"
  hd_progress :: "'p list"
  hd_progressLoading :: bool
  hd_progressError :: "string option"
  hd_hasAnyError :: bool
  hd_isAllEmpty :: bool

definition useHomeData ::
  "bool \<Rightarrow> 'a catalog_response option seen_query \<Rightarrow> 'l list seen_query \<Rightarrow> 'p list seen_query \<Rightarrow> ('a, 'l, 'p) home_data" where
  "useHomeData isAuthenticated suggestionsQuery listsQuery progressQuery =
     (let suggestions = home_suggestions (sq_data suggestionsQuery);
          suggestionsError = map_option client_message (sq_error suggestionsQuery);
          listsError = map_option client_message (sq_error listsQuery);
          progressError = map_option client_message (sq_error progressQuery) in
      \<lparr>hd_suggestions = suggestions, hd_suggestionsError = suggestionsError, hd_lists = sq_data listsQuery,
       hd_listsLoading = (isAuthenticated \<and> sq_isLoading listsQuery), hd_listsError = listsError,
       hd_progress = sq_data progressQuery, hd_progressLoading = (isAuthenticated \<and> sq_isLoading progressQuery),
       hd_progressError = progressError,
       hd_hasAnyError = (truthy_str suggestionsError \<or> truthy_str listsError \<or> truthy_str progressError),
       hd_isAllEmpty = (\<not> sq_isLoading suggestionsQuery \<and> \<not> sq_isLoading listsQuery \<and> \<not> sq_isLoading progressQuery \<and>
         hs_movies suggestions = [] \<and> hs_tvShows suggestions = [] \<and> hs_games suggestions = [] \<and>
         hs_music suggestions = [] \<and> hs_books suggestions = [] \<and> sq_data listsQuery = [] \<and> sq_data progressQuery = [])\<rparr>)"

definition home_progress_enabled :: "bool \<Rightarrow> string option \<Rightarrow> bool" where
  "home_progress_enabled isAuthenticated progressUsername \<longleftrightarrow> isAuthenticated \<and> truthy_str progressUsername"

subsection \<open>Featured items\<close>

definition FEATURED_ITEMS_COUNT :: nat where "FEATURED_ITEMS_COUNT = 20"
definition ITEMS_PER_CONTENT_TYPE :: nat where "ITEMS_PER_CONTENT_TYPE = 4"

text \<open>\<open>random n\<close> is the \<open>n\<close>-th value of \<open>Math.random()\<close>; \<open>n\<close> values were drawn before.\<close>

definition random_index :: "rat \<Rightarrow> nat \<Rightarrow> nat" where
  "random_index r n = nat \<lfloor>r * of_nat n\<rfloor>"

fun draw :: "(nat \<Rightarrow> rat) \<Rightarrow> nat \<Rightarrow> nat \<Rightarrow> 'a list \<Rightarrow> 'a list" where
  "draw random drawn 0 available = []"
| "draw random drawn (Suc n) available =
     (let idx = random_index (random drawn) (length available) in
      available ! idx # draw random (Suc drawn) n (take idx available @ drop (Suc idx) available))"

definition featured_pickRandom :: "(nat \<Rightarrow> rat) \<Rightarrow> nat \<Rightarrow> 'a list \<Rightarrow> nat \<Rightarrow> 'a list" where
  "featured_pickRandom random drawn arr n = draw random drawn (min n (length arr)) arr"

definition swap_at :: "nat \<Rightarrow> nat \<Rightarrow> 'a list \<Rightarrow> 'a list" where
  "swap_at i j xs = xs[i := xs ! j, j := xs ! i]"

fun shuffle_down :: "(nat \<Rightarrow> rat) \<Rightarrow> nat \<Rightarrow> nat \<Rightarrow> 'a list \<Rightarrow> 'a list" where
  "shuffle_down random drawn 0 xs = xs"
| "shuffle_down random drawn (Suc i) xs =
     shuffle_down random (Suc drawn) i (swap_at (Suc i) (random_index (random drawn) (Suc (Suc i))) xs)"

definition shuffleArray :: "(nat \<Rightarrow> rat) \<Rightarrow> nat \<Rightarrow> 'a list \<Rightarrow> 'a list" where
  "shuffleArray random drawn xs = shuffle_down random drawn (length xs - 1) xs"

text \<open>Before hydration the first items of each type; after it, random ones in random order.\<close>

definition deterministicItems :: "'a list \<Rightarrow> 'a list \<Rightarrow> 'a list \<Rightarrow> 'a list \<Rightarrow> 'a list" where
  "deterministicItems movies tvShows games music =
     take FEATURED_ITEMS_COUNT (concat (map (take ITEMS_PER_CONTENT_TYPE) [movies, tvShows, games, music]))"

fun pick_each :: "(nat \<Rightarrow> rat) \<Rightarrow> nat \<Rightarrow> 'a list list \<Rightarrow> 'a list" where
  "pick_each random drawn [] = []"
| "pick_each random drawn (xs # xss) =
     featured_pickRandom random drawn xs ITEMS_PER_CONTENT_TYPE @
       pick_each random (drawn + min ITEMS_PER_CONTENT_TYPE (length xs)) xss"

definition randomizedItems :: "(nat \<Rightarrow> rat) \<Rightarrow> 'a list \<Rightarrow> 'a list \<Rightarrow> 'a list \<Rightarrow> 'a list \<Rightarrow> 'a list" where
  "randomizedItems random movies tvShows games music =
     (let pool = pick_each random 0 [movies, tvShows, games, music] in
      take FEATURED_ITEMS_COUNT (shuffleArray random (length pool) pool))"

definition featuredItems :: "bool \<Rightarrow> (nat \<Rightarrow> rat) \<Rightarrow> 'a list \<Rightarrow> 'a list \<Rightarrow> 'a list \<Rightarrow> 'a list \<Rightarrow> 'a list" where
  "featuredItems hasHydrated random movies tvShows games music =
     (if hasHydrated then randomizedItems random movies tvShows games music
      else deterministicItems movies tvShows games music)"

subsection \<open>A refreshed session and the detail that is shown\<close>

lemma page_spec_content:
  "page_spec env rq (token_confined env rq session) 1 (\<lambda>_. True) (content_loader qe session country enabled param)"
proof (cases "positive_id param")
  case (Some contentId)
  then show ?thesis
    unfolding content_loader_def
    by (auto intro!: page_spec_then [OF page_spec_detail, where j = 0] page_spec_return)
qed (simp add: content_loader_def page_spec_return)

definition without_token :: "effect \<Rightarrow> bool" where
  "without_token e \<longleftrightarrow>
     (case e of Fetched c \<Rightarrow> map_of (cl_headers c) ''Authorization'' = None | _ \<Rightarrow> True)"

lemma no_token_confined: "getAccessToken rq = None \<Longrightarrow> token_confined env rq session e \<Longrightarrow> without_token e"
  by (auto simp: token_confined_def without_token_def split: effect.splits option.splits)

text \<open>C22. When the access cookie has expired, the session is refreshed and the page is rendered for its user; but
  the request has no access cookie, so the detail is fetched without a token, as for a visitor, and
  handed to the page of the user as initial data: it is shown as it is, without the tracking and the
  rating of the user, and no request is made for five minutes.\<close>

theorem refreshed_session_anonymous_detail:
  assumes "snap_isAuthenticated session" "json_field ''id'' (snap_user session) = Some (json_int n)"
    and "getAccessToken rq = None"
    and "content_loader qe session country enabled param env rq \<lparr>pg_server = s, pg_queries = []\<rparr> = (Inr (Inr page), p)"
  shows "\<exists>es. ss_log (pg_server p) = ss_log s @ es \<and> list_all without_token es \<and>
    map_of (pg_queries p) (content_detail_key (cp_contentId page) (Some (json_int n)) country) = None \<and>
    mounts fresh [] (useContentDetailQuery window (cp_contentId page) country (Some (cp_initialContentItem page)) (cp_viewerId page)) =
      (Some (cp_initialContentItem page), False) \<and>
    qo_key (useContentDetailQuery window (cp_contentId page) country (Some (cp_initialContentItem page)) (cp_viewerId page)) =
      content_detail_key (cp_contentId page) (Some (json_int n)) country"
proof -
  obtain es where es: "ss_log (pg_server p) = ss_log s @ es" "list_all (token_confined env rq session) es"
    by (rule page_specE [OF page_spec_content [where env = env and rq = rq and session = session and qe = qe
        and country = country and enabled = enabled and param = param], of "\<lparr>pg_server = s, pg_queries = []\<rparr>"])
      (simp add: assms(4))
  then have "list_all without_token es" using no_token_confined [OF assms(3)] unfolding list_all_iff by blast
  obtain contentId where c: "positive_id param = Some contentId"
    using assms(4) by (cases "positive_id param") (auto simp: content_loader_def return_p_def)
  obtain i s1 where i: "getLogicalRequestId env rq s = (Inr i, s1)" using logical_id_ok by blast
  let ?key = "content_detail_key contentId None country"
  obtain r s2 where r: "fetchServerContentDetail None contentId country i env rq s1 = (r, s2)"
    by (cases "fetchServerContentDetail None contentId country i env rq s1")
  have viewer: "detail_viewer None session = None" by (simp add: detail_viewer_def)
  have run: "content_loader qe session country enabled param env rq \<lparr>pg_server = s, pg_queries = []\<rparr> =
     (case r of
        Inl e \<Rightarrow> (Inl e, \<lparr>pg_server = s2, pg_queries = []\<rparr>)
      | Inr item \<Rightarrow> (Inr (Inr \<lparr>cp_contentId = contentId, cp_country = country,
              cp_moderationVisibilityEnabled = enabled, cp_isAuthenticated = snap_isAuthenticated session,
              cp_viewerId = json_field ''id'' (snap_user session),
              cp_allowAdultContent = session_allows_adult session, cp_initialContentItem = item\<rparr>),
          \<lparr>pg_server = s2, pg_queries = [(?key, CoreData item)]\<rparr>))"
    using assms(1)
    by (cases r) (simp_all add: content_loader_def c prefetchContentDetailQueries_def then_p_def server_op_def return_p_def
        getServerAccessToken_def request_op_def assms(3) i viewer fetchQuery_def run_query_def as_core_def and_then_def r return_op_def
        setQuery_def seed_rating_def core_data_def Let_def)
  then obtain item where item: "page = \<lparr>cp_contentId = contentId, cp_country = country,
              cp_moderationVisibilityEnabled = enabled, cp_isAuthenticated = snap_isAuthenticated session,
              cp_viewerId = json_field ''id'' (snap_user session),
              cp_allowAdultContent = session_allows_adult session, cp_initialContentItem = item\<rparr>"
      "pg_queries p = [(?key, CoreData item)]"
    using assms(4) by (cases r) auto
  have "?key \<noteq> content_detail_key contentId (Some (json_int n)) country"
    by (simp add: content_detail_key_def viewer_json_def json_int_def)
  with item es(1) \<open>list_all without_token es\<close> assms(2) show ?thesis
    by (intro exI [of _ es]) (simp add: mounts_def useContentDetailQuery_def)
qed

definition expired_request :: http_request where
  "expired_request = blank_request\<lparr>rq_cookies := [(AUTH_REFRESH_COOKIE, ''r1'')]\<rparr>"

theorem refreshed_session_anonymous_detail_witness:
  "\<exists>session s' page p. getSessionFn refused_env expired_request blank_state = (Inr session, s') \<and>
     snap_isAuthenticated session \<and>
     content_loader plain_queries session None False ''7'' refused_env expired_request \<lparr>pg_server = s', pg_queries = []\<rparr> =
       (Inr (Inr page), p) \<and>
     mounts (\<lambda>_ _. False) [] (useContentDetailQuery None 7 None (Some (cp_initialContentItem page)) (cp_viewerId page)) =
       (Some (cp_initialContentItem page), False)"
proof -
  let ?session = "authenticated_as (JObj [(''id'', JNum (Fin 4))])"
  let ?s = "getSessionFn refused_env expired_request blank_state"
  have "fst ?s = Inr ?session" by code_simp
  then obtain s' where s: "?s = (Inr ?session, s')" by (metis prod.collapse)
  let ?load = "\<lambda>s. content_loader plain_queries ?session None False ''7'' refused_env expired_request \<lparr>pg_server = s, pg_queries = []\<rparr>"
  have "(case fst (?load (snd ?s)) of Inr (Inr page) \<Rightarrow> cp_contentId page = 7 | _ \<Rightarrow> False)" by code_simp
  then obtain page p where load: "?load s' = (Inr (Inr page), p)" "cp_contentId page = 7"
    using s by (cases "?load s'") (auto split: sum.splits)
  have "snap_isAuthenticated ?session" "json_field ''id'' (snap_user ?session) = Some (json_int 4)"
    "getAccessToken expired_request = None"
    by (simp_all add: authenticated_as_def json_field_def json_int_def getAccessToken_def getCookie_def expired_request_def
        AUTH_ACCESS_COOKIE_def AUTH_REFRESH_COOKIE_def)
  from refreshed_session_anonymous_detail [OF this load(1), of "\<lambda>_ _. False" None] load s show ?thesis
    by (auto simp: authenticated_as_def)
qed

subsection \<open>When the page of a detail throws\<close>

definition no_object :: "json \<Rightarrow> bool" where
  "no_object d \<longleftrightarrow> json_truthy d \<and> (case d of JObj _ \<Rightarrow> False | JArr _ \<Rightarrow> False | _ \<Rightarrow> True)"

lemma tvShowTitle_throws:
  "tvShowTitle parse item = Inl e \<longleftrightarrow>
     Option.bind item (json_field ''content_type'') = Some (JStr ''SEASON'') \<and>
     (case detailData parse item of Some d \<Rightarrow> no_object d \<and> e = JsError ''TypeError'' | None \<Rightarrow> False)"
  by (auto simp: tvShowTitle_def no_object_def split: option.splits json.splits)

lemma detail_view_throws:
  assumes "useContentData parse loading error item = Inr d"
  shows "detail_view parse d = Inl e \<longleftrightarrow>
    \<not> loading \<and> \<not> truthy_str (map_option client_message error) \<and>
    (case Option.bind item (json_field ''source_data'') of
       Some (JStr t) \<Rightarrow> t \<noteq> [] \<and> parse t = None \<and> e = JsError ''SyntaxError''
     | _ \<Rightarrow> False)"
proof (cases "item = Some JNull \<or> item = None")
  case True
  with assms show ?thesis by (auto simp: useContentData_def detail_view_def Let_def json_field_def split: sum.splits)
next
  case False
  then obtain i where i: "item = Some i" "i \<noteq> JNull" by (cases item) auto
  with assms obtain title where d: "d = \<lparr>cdt_loading = loading, cdt_error = map_option client_message error,
      cdt_contentItem = Some i, cdt_detailData = detailData parse (Some i), cdt_tvShowTitle = title\<rparr>"
    by (auto simp: useContentData_def Let_def split: sum.splits)
  show ?thesis
  proof (cases "json_field ''source_data'' i")
    case None
    with i d show ?thesis by (auto simp: detail_view_def displayItem_def detailData_def)
  next
    case (Some raw)
    show ?thesis
    proof (cases raw)
      case (JStr t)
      with i d Some show ?thesis
        by (cases "parse t") (auto simp: detail_view_def displayItem_def detailData_def split: json.splits option.splits)
    qed (use i d Some in \<open>auto simp: detail_view_def displayItem_def detailData_def split: json.splits option.splits\<close>)
  qed
qed


subsection \<open>Featured items are items\<close>

lemma random_index_less: "0 \<le> r \<Longrightarrow> r < 1 \<Longrightarrow> 0 < n \<Longrightarrow> random_index r n < n"
proof -
  assume "0 \<le> r" "r < 1" "0 < n"
  then have "r * of_nat n < of_nat n" "0 \<le> r * of_nat n" by simp_all
  then have "\<lfloor>r * of_nat n\<rfloor> < int n" "0 \<le> \<lfloor>r * of_nat n\<rfloor>"
    by (simp_all add: floor_less_iff)
  then show "random_index r n < n" by (simp add: random_index_def nat_less_iff)
qed

lemma mset_draw:
  assumes "\<And>n. 0 \<le> random n" "\<And>n. random n < 1"
  shows "k \<le> length xs \<Longrightarrow> mset (draw random drawn k xs) \<subseteq># mset xs \<and> length (draw random drawn k xs) = k"
proof (induction k arbitrary: drawn xs)
  case (Suc k)
  let ?idx = "random_index (random drawn) (length xs)"
  have idx: "?idx < length xs" by (rule random_index_less [OF assms]) (use Suc.prems in auto)
  let ?rest = "take ?idx xs @ drop (Suc ?idx) xs"
  have "mset xs = add_mset (xs ! ?idx) (mset ?rest)"
    using id_take_nth_drop [OF idx] by (metis mset.simps(2) mset_append union_mset_add_mset_right)
  moreover have "mset (draw random (Suc drawn) k ?rest) \<subseteq># mset ?rest \<and> length (draw random (Suc drawn) k ?rest) = k"
    by (rule Suc.IH) (use Suc.prems idx in simp)
  ultimately show ?case by (simp add: Let_def)
qed simp

lemma mset_swap_at: "i < length xs \<Longrightarrow> j < length xs \<Longrightarrow> mset (swap_at i j xs) = mset xs \<and> length (swap_at i j xs) = length xs"
  by (simp add: swap_at_def mset_swap)

lemma mset_shuffle_down:
  assumes "\<And>n. 0 \<le> random n" "\<And>n. random n < 1"
  shows "k < length xs \<or> xs = [] \<and> k = 0 \<Longrightarrow> mset (shuffle_down random drawn k xs) = mset xs"
proof (induction k arbitrary: drawn xs)
  case (Suc k)
  let ?j = "random_index (random drawn) (Suc (Suc k))"
  have "?j < Suc (Suc k)" by (rule random_index_less [OF assms]) simp
  then have swap: "mset (swap_at (Suc k) ?j xs) = mset xs \<and> length (swap_at (Suc k) ?j xs) = length xs"
    using Suc.prems by (intro mset_swap_at) auto
  have "mset (shuffle_down random (Suc drawn) k (swap_at (Suc k) ?j xs)) = mset (swap_at (Suc k) ?j xs)"
    by (rule Suc.IH) (use Suc.prems swap in auto)
  with swap show ?case by simp
qed simp

lemma mset_shuffle:
  assumes "\<And>n. 0 \<le> random n" "\<And>n. random n < 1"
  shows "mset (shuffleArray random drawn xs) = mset xs"
  unfolding shuffleArray_def by (rule mset_shuffle_down [OF assms]) (cases xs; simp)

text \<open>A choice of as many items as there are, up to four, none more than once.\<close>

definition picked :: "'a list \<Rightarrow> 'a list \<Rightarrow> bool" where
  "picked a xs \<longleftrightarrow> mset a \<subseteq># mset xs \<and> length a = min ITEMS_PER_CONTENT_TYPE (length xs)"

lemma picked_take: "picked (take ITEMS_PER_CONTENT_TYPE xs) xs"
proof -
  have "mset xs = mset (take ITEMS_PER_CONTENT_TYPE xs) + mset (drop ITEMS_PER_CONTENT_TYPE xs)"
    by (simp flip: mset_append)
  then show ?thesis by (simp add: picked_def min.commute)
qed

lemma picked_random:
  assumes "\<And>n. 0 \<le> random n" "\<And>n. random n < 1"
  shows "picked (featured_pickRandom random drawn xs ITEMS_PER_CONTENT_TYPE) xs"
proof -
  have "min ITEMS_PER_CONTENT_TYPE (length xs) \<le> length xs" by simp
  from mset_draw [OF assms this] show ?thesis by (simp add: picked_def featured_pickRandom_def)
qed

lemma picked_four:
  "picked a u \<Longrightarrow> picked b v \<Longrightarrow> picked c w \<Longrightarrow> picked d x \<Longrightarrow> length (a @ b @ c @ d) \<le> FEATURED_ITEMS_COUNT"
  by (simp add: picked_def ITEMS_PER_CONTENT_TYPE_def FEATURED_ITEMS_COUNT_def)

text \<open>The featured items, before and after hydration: of each type of content the home page features as many
  items as there are, up to four, and every one of them is an item of that type, none drawn twice.\<close>

theorem featured_from_each:
  assumes "\<And>n. 0 \<le> random n" "\<And>n. random n < 1"
  shows "\<exists>a b c d. mset (featuredItems hydrated random movies tvShows games music) = mset (a @ b @ c @ d) \<and>
    picked a movies \<and> picked b tvShows \<and> picked c games \<and> picked d music"
proof (cases hydrated)
  case False
  let ?t = "take ITEMS_PER_CONTENT_TYPE"
  have "length (?t movies @ ?t tvShows @ ?t games @ ?t music) \<le> FEATURED_ITEMS_COUNT"
    by (rule picked_four) (rule picked_take)+
  then have "featuredItems hydrated random movies tvShows games music = ?t movies @ ?t tvShows @ ?t games @ ?t music"
    unfolding featuredItems_def deterministicItems_def using False
    by (simp only: if_False take_all list.map concat.simps append_Nil2 append_assoc)
  then show ?thesis by (intro exI conjI) (simp, (rule picked_take)+)
next
  case True
  let ?p = "\<lambda>drawn xs. featured_pickRandom random drawn xs ITEMS_PER_CONTENT_TYPE"
  let ?n = "\<lambda>drawn xs. drawn + min ITEMS_PER_CONTENT_TYPE (length xs)"
  obtain a b c d where pool: "pick_each random 0 [movies, tvShows, games, music] = a @ b @ c @ d"
    and picked: "picked a movies" "picked b tvShows" "picked c games" "picked d music"
  proof
    show "pick_each random 0 [movies, tvShows, games, music] = ?p 0 movies @ ?p (?n 0 movies) tvShows @
        ?p (?n (?n 0 movies) tvShows) games @ ?p (?n (?n (?n 0 movies) tvShows) games) music" by simp
  qed (rule picked_random [OF assms])+
  have shuffled: "mset (shuffleArray random n (a @ b @ c @ d)) = mset (a @ b @ c @ d)" for n
    by (rule mset_shuffle [OF assms])
  have "length (shuffleArray random n (a @ b @ c @ d)) \<le> FEATURED_ITEMS_COUNT" for n
    using picked_four [OF picked] mset_eq_length [OF shuffled [of n]] by (simp only:)
  then have "mset (featuredItems hydrated random movies tvShows games music) = mset (a @ b @ c @ d)"
    unfolding featuredItems_def randomizedItems_def pool Let_def using True by (simp only: if_True take_all shuffled)
  with picked show ?thesis by blast
qed

theorem featured_from_each_witness:
  "\<exists>a b c d. mset (featuredItems True (\<lambda>_. 1 / 2) [1 :: nat, 2, 3, 4, 5] [6, 7] [] [8]) = mset (a @ b @ c @ d) \<and>
    picked a [1, 2, 3, 4, 5] \<and> picked b [6, 7] \<and> picked c [] \<and> picked d [8]"
  by (rule featured_from_each) simp_all

end
