(* ===== verification/CardHover.thy ===== *)
theory CardHover
  imports Prelude
begin

text \<open>
  The popover of a card: where it is placed (\<open>Card/cardHoverPosition.ts\<close>), the state machine that opens
  and closes it (\<open>Card/hooks/useCardHover.ts\<close>), and the hover that warms the cache of a detail
  (\<open>lib/perf/useHoverPrefetch.ts\<close>).  Lengths are exact fractions of a pixel.  Each ref that holds a
  timer holds at most one, so a timer is whether it is pending; that it fires is an event.
\<close>

subsection \<open>Placement\<close>

record anchor =
  an_top :: rat
  an_right :: rat
  an_bottom :: rat
  an_left :: rat
  an_width :: rat
  an_height :: rat

record hover_position =
  hp_top :: rat
  hp_left :: rat
  hp_width :: rat
  hp_maxHeight :: rat

definition DEFAULT_VIEWPORT_GAP :: rat where "DEFAULT_VIEWPORT_GAP = 16"

definition clamp :: "rat \<Rightarrow> rat \<Rightarrow> rat \<Rightarrow> rat" where
  "clamp v minimum maximum = min (max v minimum) maximum"

definition calculateCardHoverPosition :: "anchor \<Rightarrow> rat \<Rightarrow> rat \<Rightarrow> rat \<Rightarrow> rat option \<Rightarrow> hover_position" where
  "calculateCardHoverPosition anchor popoverHeight viewportWidth viewportHeight viewportGap =
     (let gap = nullish viewportGap DEFAULT_VIEWPORT_GAP;
          availableWidth = max 0 (viewportWidth - gap * 2);
          availableHeight = max 0 (viewportHeight - gap * 2);
          width = min (an_width anchor) availableWidth;
          measuredHeight = (if 0 < popoverHeight then popoverHeight else an_height anchor);
          height = min measuredHeight availableHeight;
          centeredLeft = an_left anchor + (an_width anchor - width) / 2;
          maximumLeft = max gap (viewportWidth - gap - width);
          maximumTop = max gap (viewportHeight - gap - height) in
      \<lparr>hp_top = clamp (an_top anchor) gap maximumTop, hp_left = clamp centeredLeft gap maximumLeft,
       hp_width = width, hp_maxHeight = availableHeight\<rparr>)"

definition isCardAnchorVisible :: "anchor \<Rightarrow> rat \<Rightarrow> rat \<Rightarrow> bool" where
  "isCardAnchorVisible a viewportWidth viewportHeight \<longleftrightarrow>
     0 < an_width a \<and> 0 < an_height a \<and> 0 < an_bottom a \<and> 0 < an_right a \<and>
     an_top a < viewportHeight \<and> an_left a < viewportWidth"

definition positionsMatch :: "hover_position \<Rightarrow> hover_position \<Rightarrow> bool" where
  "positionsMatch l r \<longleftrightarrow>
     hp_top l = hp_top r \<and> hp_left l = hp_left r \<and> hp_width l = hp_width r \<and> hp_maxHeight l = hp_maxHeight r"

subsection \<open>State\<close>

text \<open>What the hook is given, and what the page looks like when an event runs.\<close>

record hover_props =
  hv_disableHover :: bool
  hv_hasHoverContent :: bool
  hv_isHoverCapable :: bool

record card_view =
  cv_anchor :: "anchor option"
  cv_popoverHeight :: "rat option"
  cv_innerWidth :: rat
  cv_innerHeight :: rat

text \<open>
  The listener that lifts the suppression: when the pointer has left the card, or moves at all.
  \<open>ch_listening\<close> says that the effect of the open popover is installed.
\<close>

datatype release = WhenLeft | WhenMoved

record card_hover =
  ch_openTimer :: bool
  ch_closeTimer :: bool
  ch_pointerReleaseTimer :: bool
  ch_animationFrame :: bool
  ch_suppressOpen :: bool
  ch_release :: "release option"
  ch_isHovered :: bool
  ch_position :: hover_position
  ch_listening :: bool

definition card_hover_init :: card_hover where
  "card_hover_init =
     \<lparr>ch_openTimer = False, ch_closeTimer = False, ch_pointerReleaseTimer = False, ch_animationFrame = False,
      ch_suppressOpen = False, ch_release = None, ch_isHovered = False,
      ch_position = \<lparr>hp_top = 0, hp_left = 0, hp_width = 0, hp_maxHeight = 0\<rparr>, ch_listening = False\<rparr>"

definition shouldShowHoverContent :: "hover_props \<Rightarrow> bool" where
  "shouldShowHoverContent p \<longleftrightarrow> hv_isHoverCapable p \<and> hv_hasHoverContent p \<and> \<not> hv_disableHover p"

subsection \<open>Callbacks\<close>

definition cancelPendingClose :: "card_hover \<Rightarrow> card_hover" where
  "cancelPendingClose s = s\<lparr>ch_closeTimer := False\<rparr>"

definition cancelPendingOpen :: "card_hover \<Rightarrow> card_hover" where
  "cancelPendingOpen s = s\<lparr>ch_openTimer := False\<rparr>"

definition releasePointerSuppression :: "card_hover \<Rightarrow> card_hover" where
  "releasePointerSuppression s = s\<lparr>ch_pointerReleaseTimer := True\<rparr>"

definition closeImmediately :: "card_hover \<Rightarrow> card_hover" where
  "closeImmediately s = (cancelPendingClose (cancelPendingOpen s))\<lparr>ch_isHovered := False\<rparr>"

definition closeUntilPointerLeaves :: "card_hover \<Rightarrow> card_hover" where
  "closeUntilPointerLeaves s = (closeImmediately (s\<lparr>ch_suppressOpen := True\<rparr>))\<lparr>ch_release := Some WhenLeft\<rparr>"

definition closeUntilPointerMoves :: "card_hover \<Rightarrow> card_hover" where
  "closeUntilPointerMoves s = (closeImmediately (s\<lparr>ch_suppressOpen := True\<rparr>))\<lparr>ch_release := Some WhenMoved\<rparr>"

definition openImmediately :: "hover_props \<Rightarrow> card_view \<Rightarrow> card_hover \<Rightarrow> card_hover" where
  "openImmediately p v s =
     (let s = cancelPendingClose (cancelPendingOpen s) in
      if ch_suppressOpen s \<or> \<not> shouldShowHoverContent p then s
      else
        (case cv_anchor v of
           None \<Rightarrow> s
         | Some a \<Rightarrow>
             if \<not> isCardAnchorVisible a (cv_innerWidth v) (cv_innerHeight v) then s
             else s\<lparr>ch_position := calculateCardHoverPosition a (an_height a) (cv_innerWidth v) (cv_innerHeight v) None,
                 ch_isHovered := True\<rparr>))"

definition scheduleOpen :: "hover_props \<Rightarrow> card_hover \<Rightarrow> card_hover" where
  "scheduleOpen p s =
     (let s = cancelPendingClose (cancelPendingOpen s) in
      if ch_suppressOpen s \<or> \<not> shouldShowHoverContent p then s else s\<lparr>ch_openTimer := True\<rparr>)"

definition scheduleClose :: "card_hover \<Rightarrow> card_hover" where
  "scheduleClose s = (cancelPendingClose (cancelPendingOpen s))\<lparr>ch_closeTimer := True\<rparr>"

definition updatePosition :: "card_view \<Rightarrow> card_hover \<Rightarrow> card_hover" where
  "updatePosition v s =
     (case cv_anchor v of
        None \<Rightarrow> closeImmediately s
      | Some a \<Rightarrow>
          if \<not> isCardAnchorVisible a (cv_innerWidth v) (cv_innerHeight v) then closeImmediately s
          else
            (let nextPosition = calculateCardHoverPosition a (nullish (cv_popoverHeight v) 0)
                   (cv_innerWidth v) (cv_innerHeight v) None in
             s\<lparr>ch_position := if positionsMatch (ch_position s) nextPosition then ch_position s else nextPosition\<rparr>))"

definition handleCardPointerDown :: "card_hover \<Rightarrow> card_hover" where
  "handleCardPointerDown s = (cancelPendingOpen s)\<lparr>ch_suppressOpen := True\<rparr>"

definition handleBlur :: "bool \<Rightarrow> card_hover \<Rightarrow> card_hover" where
  "handleBlur nextInside s = (if nextInside then s else scheduleClose s)"

text \<open>The listener on the movements of the pointer.\<close>

definition releaseOnPointerMove :: "card_view \<Rightarrow> rat \<Rightarrow> rat \<Rightarrow> card_hover \<Rightarrow> card_hover" where
  "releaseOnPointerMove v x y s =
     (case ch_release s of
        None \<Rightarrow> s
      | Some WhenMoved \<Rightarrow> s\<lparr>ch_suppressOpen := False, ch_release := None\<rparr>
      | Some WhenLeft \<Rightarrow>
          (case cv_anchor v of
             Some a \<Rightarrow>
               if an_left a \<le> x \<and> x \<le> an_right a \<and> an_top a \<le> y \<and> y \<le> an_bottom a then s
               else s\<lparr>ch_suppressOpen := False, ch_release := None\<rparr>
           | None \<Rightarrow> s\<lparr>ch_suppressOpen := False, ch_release := None\<rparr>))"

text \<open>
  The effects after a render: content that may no longer be shown is closed, and the listeners of the
  open popover are installed, with a first update of its position, or removed.
\<close>

definition hover_effects :: "hover_props \<Rightarrow> card_hover \<Rightarrow> card_hover" where
  "hover_effects p s =
     (let s = (if \<not> shouldShowHoverContent p then closeImmediately s else s);
          open = ch_isHovered s in
      s\<lparr>ch_animationFrame := open \<and> (ch_animationFrame s \<or> \<not> ch_listening s), ch_listening := open\<rparr>)"

subsection \<open>Events\<close>

datatype hover_event =
    CardMouseEnter | PopoverMouseEnter | MouseLeave | CardPointerDown | CardPointerUp | CardWheel
  | CardFocus | CardBlur bool | PointerMove rat rat | PageScroll | PageResize | EscapeKey
  | OpenTimer | CloseTimer | ReleaseTimer | AnimationFrame | Rerender

definition on_condition :: "bool \<Rightarrow> ('s \<Rightarrow> 's) \<Rightarrow> 's \<Rightarrow> 's" where
  "on_condition b f s = (if b then f s else s)"

fun handle_hover :: "hover_props \<Rightarrow> card_view \<Rightarrow> hover_event \<Rightarrow> card_hover \<Rightarrow> card_hover" where
  "handle_hover p v CardMouseEnter s = scheduleOpen p s"
| "handle_hover p v PopoverMouseEnter s = openImmediately p v s"
| "handle_hover p v MouseLeave s = scheduleClose s"
| "handle_hover p v CardPointerDown s = handleCardPointerDown s"
| "handle_hover p v CardPointerUp s = releasePointerSuppression s"
| "handle_hover p v CardWheel s = closeUntilPointerMoves s"
| "handle_hover p v CardFocus s = openImmediately p v s"
| "handle_hover p v (CardBlur nextInside) s = handleBlur nextInside s"
| "handle_hover p v (PointerMove x y) s = releaseOnPointerMove v x y s"
| "handle_hover p v PageScroll s = on_condition (ch_listening s) closeImmediately s"
| "handle_hover p v PageResize s = on_condition (ch_listening s) (\<lambda>s. s\<lparr>ch_animationFrame := True\<rparr>) s"
| "handle_hover p v EscapeKey s = on_condition (ch_listening s) closeUntilPointerLeaves s"
| "handle_hover p v OpenTimer s = on_condition (ch_openTimer s) (\<lambda>s. openImmediately p v (s\<lparr>ch_openTimer := False\<rparr>)) s"
| "handle_hover p v CloseTimer s = on_condition (ch_closeTimer s) (\<lambda>s. s\<lparr>ch_closeTimer := False, ch_isHovered := False\<rparr>) s"
| "handle_hover p v ReleaseTimer s =
     on_condition (ch_pointerReleaseTimer s) (\<lambda>s. s\<lparr>ch_pointerReleaseTimer := False, ch_suppressOpen := False\<rparr>) s"
| "handle_hover p v AnimationFrame s =
     on_condition (ch_animationFrame s) (\<lambda>s. updatePosition v (s\<lparr>ch_animationFrame := False\<rparr>)) s"
| "handle_hover p v Rerender s = s"

definition hover_step :: "hover_props \<times> card_view \<times> hover_event \<Rightarrow> card_hover \<Rightarrow> card_hover" where
  "hover_step e s = (case e of (p, v, event) \<Rightarrow> hover_effects p (handle_hover p v event s))"

definition hover_run :: "(hover_props \<times> card_view \<times> hover_event) list \<Rightarrow> card_hover \<Rightarrow> card_hover" where
  "hover_run es s = fold hover_step es s"

subsection \<open>Warming the cache\<close>

record hover_prefetch =
  hf_timer :: bool
  hf_fired :: bool
  hf_calls :: nat

definition prefetch_clear :: "hover_prefetch \<Rightarrow> hover_prefetch" where
  "prefetch_clear s = s\<lparr>hf_timer := False\<rparr>"

definition prefetch_start :: "bool \<Rightarrow> hover_prefetch \<Rightarrow> hover_prefetch" where
  "prefetch_start enabled s = (if \<not> enabled \<or> hf_fired s \<or> hf_timer s then s else s\<lparr>hf_timer := True\<rparr>)"

definition prefetch_timer :: "hover_prefetch \<Rightarrow> hover_prefetch" where
  "prefetch_timer s =
     (if hf_timer s then s\<lparr>hf_timer := False, hf_fired := True, hf_calls := Suc (hf_calls s)\<rparr> else s)"

definition startImmediate :: "bool \<Rightarrow> hover_prefetch \<Rightarrow> hover_prefetch" where
  "startImmediate enabled s =
     (if \<not> enabled \<or> hf_fired s then s
      else (prefetch_clear s)\<lparr>hf_fired := True, hf_calls := Suc (hf_calls s)\<rparr>)"

datatype prefetch_event = PfEnter | PfLeave | PfFocus | PfBlur | PfTouch | PfTimer

fun handle_prefetch :: "bool \<Rightarrow> prefetch_event \<Rightarrow> hover_prefetch \<Rightarrow> hover_prefetch" where
  "handle_prefetch enabled PfEnter s = prefetch_start enabled s"
| "handle_prefetch enabled PfLeave s = prefetch_clear s"
| "handle_prefetch enabled PfFocus s = startImmediate enabled s"
| "handle_prefetch enabled PfBlur s = prefetch_clear s"
| "handle_prefetch enabled PfTouch s = startImmediate enabled s"
| "handle_prefetch enabled PfTimer s = prefetch_timer s"

subsection \<open>Where the popover is\<close>

lemma clamp_between: "lo \<le> hi \<Longrightarrow> lo \<le> clamp v lo hi \<and> clamp v lo hi \<le> hi"
  by (simp add: clamp_def)

lemma clamp_fits:
  assumes "w \<le> max 0 (room - g * 2)" "0 \<le> g"
  shows "g \<le> clamp v g (max g (room - g - w)) \<and> clamp v g (max g (room - g - w)) + w \<le> max g (room - g)"
proof -
  have hi: "g \<le> max g (room - g - w)" by simp
  have "max g (room - g - w) + w \<le> max g (room - g)"
  proof (cases "room - g * 2 \<le> 0")
    case True
    with assms have "w \<le> 0" by simp
    then show ?thesis using True by (simp add: max_def)
  next
    case False
    with assms have "w \<le> room - g * 2" by simp
    then show ?thesis using False by (simp add: max_def)
  qed
  with clamp_between [OF hi, of v] show ?thesis by linarith
qed

text \<open>C39. The popover lies inside the viewport, with the gap on every side: it starts at or after the gap, it
  ends before the gap at the other side, it is no wider than its card, and its content, which is cut
  at the height that it is given, ends in the viewport too; a viewport that is too small for two
  gaps gets an empty popover at the gap.\<close>

theorem popover_in_viewport:
  assumes "0 \<le> an_width a" "0 \<le> an_height a" "0 \<le> g" "r = calculateCardHoverPosition a h vw vh (Some g)"
  shows "g \<le> hp_left r \<and> hp_left r + hp_width r \<le> max g (vw - g) \<and> 0 \<le> hp_width r \<and> hp_width r \<le> an_width a \<and>
    g \<le> hp_top r \<and> hp_top r + min (if 0 < h then h else an_height a) (hp_maxHeight r) \<le> max g (vh - g)"
proof -
  let ?w = "min (an_width a) (max 0 (vw - g * 2))"
  let ?h = "min (if 0 < h then h else an_height a) (max 0 (vh - g * 2))"
  have r: "hp_left r = clamp (an_left a + (an_width a - ?w) / 2) g (max g (vw - g - ?w))"
    "hp_top r = clamp (an_top a) g (max g (vh - g - ?h))" "hp_width r = ?w" "hp_maxHeight r = max 0 (vh - g * 2)"
    unfolding assms(4) calculateCardHoverPosition_def by (simp_all add: Let_def nullish_def)
  have "?w \<le> max 0 (vw - g * 2)" "?h \<le> max 0 (vh - g * 2)" "0 \<le> ?w" "?w \<le> an_width a" using assms(1) by simp_all
  with clamp_fits [OF this(1) assms(3)] clamp_fits [OF this(2) assms(3)] show ?thesis unfolding r by blast
qed

theorem popover_in_viewport_witness:
  "\<exists>r. r = calculateCardHoverPosition
      \<lparr>an_top = 580, an_right = 1010, an_bottom = 900, an_left = 810, an_width = 200, an_height = 320\<rparr> 0 1000 700 (Some 16) \<and>
    hp_left r + hp_width r \<le> 984 \<and> hp_top r + 320 \<le> 684"
proof -
  let ?a = "\<lparr>an_top = 580, an_right = 1010, an_bottom = 900, an_left = 810, an_width = 200, an_height = 320\<rparr>"
  have "hp_maxHeight (calculateCardHoverPosition ?a 0 1000 700 (Some 16)) = 668"
    by (simp add: calculateCardHoverPosition_def Let_def nullish_def)
  with popover_in_viewport [of ?a 16 _ 0 1000 700, OF _ _ _ refl] show ?thesis by simp
qed

subsection \<open>What the popover does\<close>

text \<open>
  Only one of the two timers runs, none that opens while opening is suppressed, and the listeners and
  the animation frame belong to an open popover.
\<close>

definition hover_ok :: "card_hover \<Rightarrow> bool" where
  "hover_ok s \<longleftrightarrow>
     \<not> (ch_openTimer s \<and> ch_closeTimer s) \<and> \<not> (ch_openTimer s \<and> ch_suppressOpen s) \<and>
     ch_listening s = ch_isHovered s \<and> (ch_animationFrame s \<longrightarrow> ch_listening s)"

definition timers_ok :: "card_hover \<Rightarrow> bool" where
  "timers_ok s \<longleftrightarrow> \<not> (ch_openTimer s \<and> ch_closeTimer s) \<and> \<not> (ch_openTimer s \<and> ch_suppressOpen s)"

lemma timers_ok_closed:
  "timers_ok (closeImmediately s)" "timers_ok (closeUntilPointerLeaves s)" "timers_ok (closeUntilPointerMoves s)"
  "timers_ok (scheduleClose s)" "timers_ok (handleCardPointerDown s)" "timers_ok (scheduleOpen p s)"
  by (simp_all add: timers_ok_def closeUntilPointerLeaves_def closeUntilPointerMoves_def closeImmediately_def
      scheduleClose_def handleCardPointerDown_def scheduleOpen_def Let_def cancelPendingClose_def cancelPendingOpen_def)

lemma timers_ok_open: "timers_ok (openImmediately p v s)"
proof -
  have "\<not> ch_openTimer (openImmediately p v s)"
    by (simp add: openImmediately_def Let_def cancelPendingClose_def cancelPendingOpen_def split: option.split)
  then show ?thesis by (simp add: timers_ok_def)
qed

lemma timers_ok_update: "timers_ok s \<Longrightarrow> timers_ok (updatePosition v s)"
  using timers_ok_closed(1) by (simp add: updatePosition_def Let_def timers_ok_def split: option.split)

lemma timers_ok_release: "timers_ok s \<Longrightarrow> timers_ok (releaseOnPointerMove v x y s)"
  by (simp add: releaseOnPointerMove_def timers_ok_def split: option.split release.split)

lemma handle_hover_timers: "timers_ok s \<Longrightarrow> timers_ok (handle_hover p v e s)"
  using timers_ok_closed timers_ok_open timers_ok_update timers_ok_release
  by (cases e) (simp_all add: on_condition_def handleBlur_def releasePointerSuppression_def, simp_all add: timers_ok_def)

lemma only_open_opens:
  "\<not> ch_isHovered (closeImmediately s)" "\<not> ch_isHovered (closeUntilPointerLeaves s)"
  "\<not> ch_isHovered (closeUntilPointerMoves s)" "ch_isHovered (scheduleClose s) = ch_isHovered s"
  "ch_isHovered (handleCardPointerDown s) = ch_isHovered s" "ch_isHovered (scheduleOpen p s) = ch_isHovered s"
  "ch_isHovered (releaseOnPointerMove v x y s) = ch_isHovered s" "ch_isHovered (updatePosition v s) \<Longrightarrow> ch_isHovered s"
  by (simp_all add: closeUntilPointerLeaves_def closeUntilPointerMoves_def closeImmediately_def scheduleClose_def
      handleCardPointerDown_def scheduleOpen_def Let_def cancelPendingClose_def cancelPendingOpen_def releaseOnPointerMove_def
      updatePosition_def split: option.splits release.split if_splits)

lemma hover_effects_ok: "timers_ok s \<Longrightarrow> hover_ok (hover_effects p s) \<and> (ch_isHovered (hover_effects p s) \<longrightarrow> shouldShowHoverContent p)"
  using timers_ok_closed(1) [of s] only_open_opens(1) [of s]
  by (simp add: timers_ok_def hover_ok_def hover_effects_def Let_def)

lemma hover_step_ok:
  "hover_ok s \<Longrightarrow> hover_ok (hover_step (p, v, e) s) \<and> (ch_isHovered (hover_step (p, v, e) s) \<longrightarrow> shouldShowHoverContent p)"
  unfolding hover_step_def prod.case
  by (rule hover_effects_ok, rule handle_hover_timers) (simp add: hover_ok_def timers_ok_def)

lemma hover_run_ok: "hover_ok s \<Longrightarrow> hover_ok (hover_run es s)"
proof (induction es arbitrary: s)
  case (Cons e es)
  then show ?case using hover_step_ok [of s "fst e" "fst (snd e)" "snd (snd e)"] by (simp add: hover_run_def)
qed (simp add: hover_run_def)

lemma hover_init_ok: "hover_ok card_hover_init"
  by (simp add: hover_ok_def card_hover_init_def)

text \<open>An event that opens a closed popover.\<close>

definition opens_at :: "hover_props \<Rightarrow> card_view \<Rightarrow> card_hover \<Rightarrow> card_hover \<Rightarrow> bool" where
  "opens_at p v s s' \<longleftrightarrow>
     \<not> ch_suppressOpen s \<and> shouldShowHoverContent p \<and> \<not> ch_openTimer s' \<and> \<not> ch_closeTimer s' \<and>
     (\<exists>a. cv_anchor v = Some a \<and> isCardAnchorVisible a (cv_innerWidth v) (cv_innerHeight v) \<and>
       ch_position s' = calculateCardHoverPosition a (an_height a) (cv_innerWidth v) (cv_innerHeight v) None)"

lemma openImmediately_opens:
  "\<not> ch_isHovered s \<Longrightarrow> ch_isHovered (openImmediately p v s) \<Longrightarrow> opens_at p v s (openImmediately p v s)"
  by (cases "cv_anchor v") (simp_all add: openImmediately_def opens_at_def Let_def cancelPendingClose_def
      cancelPendingOpen_def split: if_splits)

lemma handle_hover_opens:
  assumes "\<not> ch_isHovered s" "ch_isHovered (handle_hover p v e s)"
  shows "opens_at p v s (handle_hover p v e s)"
proof (cases e)
  case OpenTimer
  with assms have "ch_openTimer s" by (simp add: on_condition_def split: if_splits)
  with OpenTimer assms openImmediately_opens [of "s\<lparr>ch_openTimer := False\<rparr>" p v] show ?thesis
    by (simp add: on_condition_def opens_at_def)
next
  case AnimationFrame
  with assms only_open_opens(8) [of v "s\<lparr>ch_animationFrame := False\<rparr>"] show ?thesis
    by (simp add: on_condition_def split: if_splits)
qed (use assms openImmediately_opens in \<open>simp_all add: on_condition_def handleBlur_def releasePointerSuppression_def
    only_open_opens split: if_splits\<close>)

lemma hover_effects_keeps:
  "ch_isHovered (hover_effects p s) \<Longrightarrow> ch_isHovered s \<and> ch_position (hover_effects p s) = ch_position s \<and>
     ch_openTimer (hover_effects p s) = ch_openTimer s \<and> ch_closeTimer (hover_effects p s) = ch_closeTimer s"
  using only_open_opens(1) [of s] by (simp add: hover_effects_def Let_def split: if_splits)

text \<open>Whatever the pointer, the keyboard and the timers do, a popover opens only for content that may be
  shown, on a card that is visible, while opening is not suppressed, at the place computed from the
  card, and with no timer left that would open or close it; and in every state reached at most one
  timer is pending, none that opens while opening is suppressed, and the listeners and the animation
  frame are those of an open popover.\<close>

theorem popover_opens_visibly:
  assumes "s = hover_run es card_hover_init" "\<not> ch_isHovered s" "ch_isHovered (hover_step (p, v, event) s)"
  shows "\<not> ch_suppressOpen s \<and> shouldShowHoverContent p \<and>
    (case (cv_anchor v, hover_step (p, v, event) s) of
       (None, _) \<Rightarrow> False
     | (Some a, s') \<Rightarrow>
         isCardAnchorVisible a (cv_innerWidth v) (cv_innerHeight v) \<and>
         ch_position s' = calculateCardHoverPosition a (an_height a) (cv_innerWidth v) (cv_innerHeight v) None \<and>
         \<not> ch_openTimer s' \<and> \<not> ch_closeTimer s' \<and> hover_ok s \<and> hover_ok s')"
proof -
  have ok: "hover_ok s" unfolding assms(1) by (rule hover_run_ok [OF hover_init_ok])
  note kept = hover_effects_keeps [OF assms(3) [unfolded hover_step_def prod.case]]
  from handle_hover_opens [OF assms(2) conjunct1 [OF kept]] obtain a where
    "\<not> ch_suppressOpen s" "shouldShowHoverContent p" "cv_anchor v = Some a" "isCardAnchorVisible a (cv_innerWidth v) (cv_innerHeight v)"
    "ch_position (handle_hover p v event s) = calculateCardHoverPosition a (an_height a) (cv_innerWidth v) (cv_innerHeight v) None"
    "\<not> ch_openTimer (handle_hover p v event s)" "\<not> ch_closeTimer (handle_hover p v event s)"
    unfolding opens_at_def by blast
  with kept ok hover_step_ok [OF ok, of p v event] show ?thesis by (simp add: hover_step_def)
qed

subsection \<open>A press that is released elsewhere\<close>

definition suppressed :: "card_hover \<Rightarrow> bool" where
  "suppressed s \<longleftrightarrow> ch_suppressOpen s \<and> ch_release s = None \<and> \<not> ch_pointerReleaseTimer s"

lemma suppressed_ops:
  "suppressed s \<Longrightarrow> suppressed (closeImmediately s)" "suppressed s \<Longrightarrow> suppressed (scheduleClose s)"
  "suppressed s \<Longrightarrow> suppressed (scheduleOpen p s)" "suppressed s \<Longrightarrow> suppressed (openImmediately p v s)"
  "suppressed s \<Longrightarrow> suppressed (handleCardPointerDown s)" "suppressed s \<Longrightarrow> releaseOnPointerMove v x y s = s"
  by (simp_all add: suppressed_def closeImmediately_def scheduleClose_def scheduleOpen_def openImmediately_def Let_def
      handleCardPointerDown_def releaseOnPointerMove_def cancelPendingClose_def cancelPendingOpen_def)

lemma suppressed_update: "suppressed s \<Longrightarrow> suppressed (updatePosition v s)"
  using suppressed_ops(1) by (simp add: updatePosition_def suppressed_def Let_def split: option.split)

lemma suppressed_effects: "suppressed s \<Longrightarrow> suppressed (hover_effects p s)"
  using suppressed_ops(1) [of s] by (simp add: hover_effects_def suppressed_def Let_def)

lemma suppressed_event:
  assumes "suppressed s" "e \<notin> {CardPointerUp, CardWheel, EscapeKey}"
  shows "suppressed (handle_hover p v e s)"
proof (cases e)
  case OpenTimer
  then show ?thesis using assms suppressed_ops(4) [of "s\<lparr>ch_openTimer := False\<rparr>" p v]
    by (simp add: on_condition_def suppressed_def)
next
  case AnimationFrame
  then show ?thesis using assms suppressed_update [of "s\<lparr>ch_animationFrame := False\<rparr>" v]
    by (simp add: on_condition_def suppressed_def)
next
  case ReleaseTimer
  then show ?thesis using assms by (simp add: on_condition_def suppressed_def)
next
  case CloseTimer
  then show ?thesis using assms by (simp add: on_condition_def suppressed_def)
next
  case PageResize
  then show ?thesis using assms by (simp add: on_condition_def suppressed_def)
qed (use assms suppressed_ops in \<open>simp_all add: on_condition_def handleBlur_def\<close>)

lemma suppressed_step:
  assumes "suppressed s" "snd (snd e) \<notin> {CardPointerUp, CardWheel, EscapeKey}"
  shows "suppressed (hover_step e s) \<and> (ch_isHovered (hover_step e s) \<longrightarrow> ch_isHovered s)"
proof -
  obtain p v event where e: "e = (p, v, event)" by (cases e)
  have "suppressed (hover_step e s)"
    using suppressed_effects [OF suppressed_event [OF assms(1)]] assms(2) by (simp add: hover_step_def e)
  moreover have "ch_isHovered s" if "ch_isHovered (hover_step e s)"
    using handle_hover_opens [of s p v event] hover_effects_keeps [of p "handle_hover p v event s"] that assms(1)
    by (auto simp: hover_step_def e suppressed_def opens_at_def)
  ultimately show ?thesis by blast
qed

lemma suppressed_run:
  assumes "suppressed s" "list_all (\<lambda>e. snd (snd e) \<notin> {CardPointerUp, CardWheel, EscapeKey}) es"
  shows "suppressed (hover_run es s) \<and> (ch_isHovered (hover_run es s) \<longrightarrow> ch_isHovered s)"
  using assms
proof (induction es arbitrary: s)
  case (Cons e es)
  then have "suppressed (hover_step e s) \<and> (ch_isHovered (hover_step e s) \<longrightarrow> ch_isHovered s)"
    by (intro suppressed_step) simp_all
  with Cons show ?case by (simp add: hover_run_def)
qed (simp add: hover_run_def)

text \<open>A press on a card that is released anywhere else leaves the popover of the card dead: the release is
  the only event that lifts the suppression, and it is delivered to the element under the pointer.
  Once closed, the popover opens for no pointer, focus or timer, for as long as no press is released
  on the card and the wheel is not turned over it (and Escape does nothing then, as its listener
  belongs to an open popover).\<close>

theorem press_released_elsewhere:
  assumes "s = hover_step (p, v, CardPointerDown) s0" "ch_release s0 = None" "\<not> ch_pointerReleaseTimer s0"
    and "list_all (\<lambda>e. snd (snd e) \<notin> {CardPointerUp, CardWheel, EscapeKey}) (before @ after)"
    and "\<not> ch_isHovered (hover_run before s)"
  shows "\<not> ch_isHovered (hover_run (before @ after) s) \<and> ch_suppressOpen (hover_run (before @ after) s)"
proof -
  have "suppressed s"
    unfolding assms(1) hover_step_def prod.case handle_hover.simps using assms(2,3)
    by (intro suppressed_effects) (simp add: suppressed_def handleCardPointerDown_def cancelPendingOpen_def)
  moreover have "list_all (\<lambda>e. snd (snd e) \<notin> {CardPointerUp, CardWheel, EscapeKey}) before"
    "list_all (\<lambda>e. snd (snd e) \<notin> {CardPointerUp, CardWheel, EscapeKey}) after" using assms(4) by simp_all
  ultimately have "suppressed (hover_run before s)" using suppressed_run by blast
  from suppressed_run [OF this] \<open>list_all _ after\<close> assms(5) have
    "suppressed (hover_run after (hover_run before s))" "\<not> ch_isHovered (hover_run after (hover_run before s))" by blast+
  then show ?thesis by (simp add: hover_run_def suppressed_def)
qed

definition wide_card :: "hover_props \<times> card_view" where
  "wide_card =
     (\<lparr>hv_disableHover = False, hv_hasHoverContent = True, hv_isHoverCapable = True\<rparr>,
      \<lparr>cv_anchor = Some \<lparr>an_top = 100, an_right = 300, an_bottom = 420, an_left = 100, an_width = 200, an_height = 320\<rparr>,
       cv_popoverHeight = None, cv_innerWidth = 1200, cv_innerHeight = 800\<rparr>)"

definition at_card :: "hover_event \<Rightarrow> hover_props \<times> card_view \<times> hover_event" where
  "at_card e = (fst wide_card, snd wide_card, e)"

text \<open>Press, leave, and come back: nothing opens; without the press the popover opens.\<close>

theorem press_released_elsewhere_witness:
  "\<not> ch_isHovered (hover_run [at_card CardPointerDown, at_card MouseLeave, at_card (PointerMove 500 50),
      at_card CloseTimer, at_card CardMouseEnter, at_card OpenTimer, at_card CardFocus] card_hover_init) \<and>
   ch_isHovered (hover_run [at_card MouseLeave, at_card CloseTimer, at_card CardMouseEnter, at_card OpenTimer] card_hover_init)"
proof -
  let ?s = "hover_step (fst wide_card, snd wide_card, CardPointerDown) card_hover_init"
  have "\<not> ch_isHovered (hover_run [] ?s)" "ch_release card_hover_init = None" "\<not> ch_pointerReleaseTimer card_hover_init"
    by (simp_all add: hover_run_def hover_step_def hover_effects_def handleCardPointerDown_def cancelPendingOpen_def
        card_hover_init_def closeImmediately_def cancelPendingClose_def Let_def)
  from press_released_elsewhere [OF refl this(2,3), where p = "fst wide_card" and v = "snd wide_card" and before = "[]"
      and after = "[at_card MouseLeave, at_card (PointerMove 500 50), at_card CloseTimer, at_card CardMouseEnter, at_card OpenTimer, at_card CardFocus]"] this(1)
  have "\<not> ch_isHovered (hover_run [at_card CardPointerDown, at_card MouseLeave, at_card (PointerMove 500 50),
      at_card CloseTimer, at_card CardMouseEnter, at_card OpenTimer, at_card CardFocus] card_hover_init)"
    by (simp add: hover_run_def at_card_def)
  moreover have "ch_isHovered (hover_run [at_card MouseLeave, at_card CloseTimer, at_card CardMouseEnter, at_card OpenTimer] card_hover_init)"
    by (simp add: hover_run_def at_card_def wide_card_def hover_step_def hover_effects_def scheduleClose_def scheduleOpen_def
        openImmediately_def cancelPendingOpen_def cancelPendingClose_def card_hover_init_def closeImmediately_def Let_def
        shouldShowHoverContent_def on_condition_def isCardAnchorVisible_def)
  ultimately show ?thesis by blast
qed

theorem popover_opens_visibly_witness:
  "\<exists>s. s = hover_run [at_card CardMouseEnter] card_hover_init \<and> hover_ok s \<and>
     ch_isHovered (hover_step (at_card OpenTimer) s) \<and> \<not> ch_openTimer (hover_step (at_card OpenTimer) s)"
proof -
  let ?s = "hover_run [at_card CardMouseEnter] card_hover_init"
  have s: "\<not> ch_isHovered ?s" "ch_isHovered (hover_step (fst wide_card, snd wide_card, OpenTimer) ?s)"
    by (simp_all add: hover_run_def at_card_def wide_card_def hover_step_def hover_effects_def scheduleOpen_def
        openImmediately_def cancelPendingOpen_def cancelPendingClose_def card_hover_init_def closeImmediately_def Let_def
        shouldShowHoverContent_def on_condition_def isCardAnchorVisible_def)
  from popover_opens_visibly [OF refl this] s(2) show ?thesis
    by (auto simp: at_card_def wide_card_def split: option.splits)
qed

subsection \<open>The cache is warmed once\<close>

lemma prefetch_once:
  "hf_calls s \<le> 1 \<and> hf_fired s = (hf_calls s = 1) \<and> \<not> (hf_fired s \<and> hf_timer s) \<Longrightarrow>
   hf_calls (handle_prefetch enabled e s) \<le> 1 \<and>
     hf_fired (handle_prefetch enabled e s) = (hf_calls (handle_prefetch enabled e s) = 1) \<and>
     \<not> (hf_fired (handle_prefetch enabled e s) \<and> hf_timer (handle_prefetch enabled e s))"
  by (cases e) (auto simp: prefetch_start_def prefetch_clear_def prefetch_timer_def startImmediate_def)

end
