(* ===== verification/Carousel.thy ===== *)
theory Carousel
  imports Prelude
begin

text \<open>
  The moving parts of the pages: the carousel (\<open>common/ui/Carousel\<close>: \<open>utils.ts\<close>, \<open>animations.ts\<close>,
  \<open>hooks/useCarouselScroll.ts\<close>), the featured banner (\<open>HomePage/FeaturedBanner\<close>: the rotation, the
  gestures and which item is rendered) and the viewer of images (\<open>common/media/ImageLightbox.tsx\<close>).
  Lengths are exact; a scroll that is not disturbed ends where it was sent, within the range that the
  browser allows.
\<close>

subsection \<open>Carousel\<close>

definition SCROLL_TOLERANCE :: rat where "SCROLL_TOLERANCE = 2"

record scroll_box =
  bx_scrollLeft :: rat
  bx_scrollWidth :: rat
  bx_clientWidth :: rat

record scroll_state =
  sl_hasOverflow :: bool
  sl_isAtStart :: bool
  sl_isAtEnd :: bool

definition getCarouselScrollState :: "scroll_box \<Rightarrow> scroll_state" where
  "getCarouselScrollState b =
     (let maximumScroll = max 0 (bx_scrollWidth b - bx_clientWidth b);
          normalizedScrollLeft = min maximumScroll (max 0 (bx_scrollLeft b));
          hasOverflow = SCROLL_TOLERANCE < maximumScroll in
      \<lparr>sl_hasOverflow = hasOverflow, sl_isAtStart = normalizedScrollLeft \<le> SCROLL_TOLERANCE,
       sl_isAtEnd = \<not> hasOverflow \<or> maximumScroll - SCROLL_TOLERANCE \<le> normalizedScrollLeft\<rparr>)"

datatype direction = Backward | Forward

fun sign :: "direction \<Rightarrow> rat" where
  "sign Backward = -1"
| "sign Forward = 1"

text \<open>Where to scroll, and whether that wraps around.\<close>

definition getCarouselScrollDestination :: "rat \<Rightarrow> rat \<Rightarrow> direction \<Rightarrow> rat \<Rightarrow> rat \<times> bool" where
  "getCarouselScrollDestination scrollLeft maximumScroll direction pageDistance =
     (if maximumScroll \<le> SCROLL_TOLERANCE then (0, False)
      else
        (let normalizedScrollLeft = min maximumScroll (max 0 scrollLeft) in
         if direction = Backward \<and> normalizedScrollLeft \<le> SCROLL_TOLERANCE then (maximumScroll, True)
         else if direction = Forward \<and> maximumScroll - SCROLL_TOLERANCE \<le> normalizedScrollLeft then (0, True)
         else (min maximumScroll (max 0 (normalizedScrollLeft + sign direction * pageDistance)), False)))"

definition getCarouselPageDistance :: "rat \<Rightarrow> rat \<Rightarrow> rat \<Rightarrow> rat" where
  "getCarouselPageDistance clientWidth itemWidth gap =
     (if itemWidth \<le> 0 then clientWidth * (85 / 100)
      else
        (let itemStep = itemWidth + gap;
             visibleItems = max 1 \<lfloor>(clientWidth + gap) / itemStep\<rfloor>;
             contextPreservingSteps = max 1 (visibleItems - 1) in
         min clientWidth (of_int contextPreservingSteps * itemStep)))"

definition calculateVisibleCarouselItems :: "rat \<Rightarrow> rat \<Rightarrow> rat \<Rightarrow> int option \<Rightarrow> int" where
  "calculateVisibleCarouselItems availableWidth targetCardWidth gap itemsPerView =
     (case itemsPerView of
        Some n \<Rightarrow> if availableWidth < 768 then min 2 n else n
      | None \<Rightarrow> max 2 \<lfloor>(availableWidth + gap) / (targetCardWidth + gap)\<rfloor>)"

text \<open>
  The carousel: its box, the state that is shown, and the animation under way.  Every animation has
  an identity of its own, so an old one knows that it was cancelled.
\<close>

datatype wrap_phase = Outgoing | Incoming

record carousel =
  crs_box :: scroll_box
  crs_state :: scroll_state
  crs_active :: "nat option"
  crs_phase :: "wrap_phase option"
  crs_next :: nat

definition updateScrollState :: "carousel \<Rightarrow> carousel" where
  "updateScrollState c = c\<lparr>crs_state := getCarouselScrollState (crs_box c)\<rparr>"

definition scroll_to :: "rat \<Rightarrow> carousel \<Rightarrow> carousel" where
  "scroll_to left c =
     c\<lparr>crs_box := (crs_box c)\<lparr>bx_scrollLeft :=
       min (max 0 (bx_scrollWidth (crs_box c) - bx_clientWidth (crs_box c))) (max 0 left)\<rparr>\<rparr>"

definition cancelCarouselWrapAnimation :: "carousel \<Rightarrow> carousel" where
  "cancelCarouselWrapAnimation c =
     (if crs_active c = None then c else c\<lparr>crs_active := None, crs_phase := None\<rparr>)"

text \<open>
  The start of an animation, and the two points where it goes on: the identity is checked after the
  outgoing part and again when everything is over.
\<close>

definition animateCarouselWrap :: "bool \<Rightarrow> rat \<Rightarrow> carousel \<Rightarrow> carousel" where
  "animateCarouselWrap canAnimate target c =
     (let c = cancelCarouselWrapAnimation c in
      if \<not> canAnimate then updateScrollState (scroll_to target c)
      else c\<lparr>crs_active := Some (crs_next c), crs_phase := Some Outgoing, crs_next := Suc (crs_next c)\<rparr>)"

definition wrap_outgoing_done :: "nat \<Rightarrow> rat \<Rightarrow> carousel \<Rightarrow> carousel" where
  "wrap_outgoing_done transition target c =
     (if crs_active c \<noteq> Some transition then c
      else (updateScrollState (scroll_to target c))\<lparr>crs_phase := Some Incoming\<rparr>)"

definition wrap_incoming_done :: "nat \<Rightarrow> carousel \<Rightarrow> carousel" where
  "wrap_incoming_done transition c =
     (if crs_active c = Some transition then updateScrollState (c\<lparr>crs_active := None, crs_phase := None\<rparr>) else c)"

record carousel_view =
  cw_itemWidth :: "rat option"
  cw_columnGap :: "rat option"
  cw_gap :: rat
  cw_reducedMotion :: bool
  cw_canAnimate :: bool

definition carousel_scroll :: "carousel_view \<Rightarrow> direction \<Rightarrow> carousel \<Rightarrow> carousel" where
  "carousel_scroll v direction c =
     (let maximumScroll = max 0 (bx_scrollWidth (crs_box c) - bx_clientWidth (crs_box c));
          pageDistance = getCarouselPageDistance (bx_clientWidth (crs_box c)) (nullish (cw_itemWidth v) 0)
            (nullish (cw_columnGap v) (cw_gap v)) in
      case getCarouselScrollDestination (bx_scrollLeft (crs_box c)) maximumScroll direction pageDistance of
        (target, isWrapping) \<Rightarrow>
          let c = cancelCarouselWrapAnimation c in
          if isWrapping \<and> \<not> cw_reducedMotion v then animateCarouselWrap (cw_canAnimate v) target c
          else updateScrollState (scroll_to target c))"

record wheel_event =
  we_deltaX :: rat
  we_deltaY :: rat
  we_shiftKey :: bool

definition carousel_handleWheel :: "wheel_event \<Rightarrow> carousel \<Rightarrow> carousel" where
  "carousel_handleWheel e c =
     (let c = cancelCarouselWrapAnimation c;
          horizontalDelta = (if we_deltaX e \<noteq> 0 then we_deltaX e else if we_shiftKey e then we_deltaY e else 0) in
      if horizontalDelta = 0 \<or> (\<not> we_shiftKey e \<and> \<bar>horizontalDelta\<bar> \<le> \<bar>we_deltaY e\<bar>) then c
      else updateScrollState (scroll_to (bx_scrollLeft (crs_box c) + horizontalDelta) c))"

subsection \<open>The featured banner\<close>

text \<open>The index of the item that is shown, and the pause of the user or of the pointer.\<close>

record banner_state =
  bn_index :: int
  bn_itemCount :: int
  bn_userPaused :: bool
  bn_interactionPaused :: bool
  bn_touchStart :: "(rat \<times> rat) option"
  bn_lastWheelNavigationAt :: rat

definition banner_init :: "int \<Rightarrow> banner_state" where
  "banner_init itemCount =
     \<lparr>bn_index = 0, bn_itemCount = itemCount, bn_userPaused = False, bn_interactionPaused = False,
      bn_touchStart = None, bn_lastWheelNavigationAt = 0\<rparr>"

text \<open>The effect after a change of the number of items.\<close>

definition clamp_index :: "int \<Rightarrow> banner_state \<Rightarrow> banner_state" where
  "clamp_index itemCount s = s\<lparr>bn_itemCount := itemCount, bn_index := min (bn_index s) (max 0 (itemCount - 1))\<rparr>"

definition rotate_banner :: "bool \<Rightarrow> banner_state \<Rightarrow> banner_state" where
  "rotate_banner reducedMotion s =
     (if bn_itemCount s \<le> 1 \<or> reducedMotion \<or> bn_userPaused s \<or> bn_interactionPaused s then s
      else s\<lparr>bn_index := (bn_index s + 1) mod bn_itemCount s\<rparr>)"

text \<open>The buttons and gestures exist only while there are items.\<close>

definition showPrevious :: "banner_state \<Rightarrow> banner_state" where
  "showPrevious s = s\<lparr>bn_index := (bn_index s - 1 + bn_itemCount s) mod bn_itemCount s\<rparr>"

definition showNext :: "banner_state \<Rightarrow> banner_state" where
  "showNext s = s\<lparr>bn_index := (bn_index s + 1) mod bn_itemCount s\<rparr>"

definition TOUCH_SWIPE_THRESHOLD :: rat where "TOUCH_SWIPE_THRESHOLD = 48"
definition WHEEL_SWIPE_THRESHOLD :: rat where "WHEEL_SWIPE_THRESHOLD = 24"
definition WHEEL_COOLDOWN_MS :: rat where "WHEEL_COOLDOWN_MS = 450"

definition banner_touchStart :: "(rat \<times> rat) list \<Rightarrow> banner_state \<Rightarrow> banner_state" where
  "banner_touchStart touches s = s\<lparr>bn_touchStart := (case touches of [t] \<Rightarrow> Some t | _ \<Rightarrow> None)\<rparr>"

definition banner_touchEnd :: "(rat \<times> rat) list \<Rightarrow> banner_state \<Rightarrow> banner_state" where
  "banner_touchEnd changedTouches s =
     (let s' = s\<lparr>bn_touchStart := None\<rparr> in
      case (bn_touchStart s, changedTouches) of
        (Some (startX, startY), [(x, y)]) \<Rightarrow>
          if \<bar>x - startX\<bar> < TOUCH_SWIPE_THRESHOLD \<or> \<bar>x - startX\<bar> \<le> \<bar>y - startY\<bar> then s'
          else if 0 < x - startX then showPrevious s' else showNext s'
      | _ \<Rightarrow> s')"

definition banner_touchCancel :: "banner_state \<Rightarrow> banner_state" where
  "banner_touchCancel s = s\<lparr>bn_touchStart := None\<rparr>"

definition banner_wheel :: "rat \<Rightarrow> wheel_event \<Rightarrow> banner_state \<Rightarrow> banner_state" where
  "banner_wheel now e s =
     (if \<bar>we_deltaX e\<bar> < WHEEL_SWIPE_THRESHOLD \<or> \<bar>we_deltaX e\<bar> \<le> \<bar>we_deltaY e\<bar> then s
      else if now - bn_lastWheelNavigationAt s < WHEEL_COOLDOWN_MS then s
      else
        (let s = s\<lparr>bn_lastWheelNavigationAt := now\<rparr> in
         if 0 < we_deltaX e then showNext s else showPrevious s))"

text \<open>
  What is rendered: nothing without items, the item at the index, or a \<open>TypeError\<close>, since the fields
  of an item that is not there are read.
\<close>

datatype 'a banner_view = NoBanner | BannerItem 'a | BannerThrows

definition banner_view :: "'a list \<Rightarrow> int \<Rightarrow> 'a banner_view" where
  "banner_view validItems index =
     (if validItems = [] then NoBanner
      else if 0 \<le> index \<and> index < int (length validItems) then BannerItem (validItems ! nat index) else BannerThrows)"

datatype banner_event =
    NewItems int | RotateTick bool | PreviousClick | NextClick | ArrowLeftKey | ArrowRightKey | PauseToggle
  | BannerEnter | BannerLeave | BannerTouchStart "(rat \<times> rat) list" | BannerTouchEnd "(rat \<times> rat) list"
  | BannerTouchCancel | BannerWheel rat wheel_event

fun handle_banner :: "banner_event \<Rightarrow> banner_state \<Rightarrow> banner_state" where
  "handle_banner (NewItems n) s = clamp_index n s"
| "handle_banner (RotateTick reducedMotion) s = rotate_banner reducedMotion s"
| "handle_banner PreviousClick s = (if bn_itemCount s \<le> 1 then s else showPrevious s)"
| "handle_banner NextClick s = (if bn_itemCount s \<le> 1 then s else showNext s)"
| "handle_banner ArrowLeftKey s = (if bn_itemCount s \<le> 1 then s else showPrevious s)"
| "handle_banner ArrowRightKey s = (if bn_itemCount s \<le> 1 then s else showNext s)"
| "handle_banner PauseToggle s = (if bn_itemCount s \<le> 1 then s else s\<lparr>bn_userPaused := \<not> bn_userPaused s\<rparr>)"
| "handle_banner BannerEnter s = s\<lparr>bn_interactionPaused := True\<rparr>"
| "handle_banner BannerLeave s = s\<lparr>bn_interactionPaused := False\<rparr>"
| "handle_banner (BannerTouchStart ts) s = (if bn_itemCount s = 0 then s else banner_touchStart ts s)"
| "handle_banner (BannerTouchEnd ts) s = (if bn_itemCount s = 0 then s else banner_touchEnd ts s)"
| "handle_banner BannerTouchCancel s = (if bn_itemCount s = 0 then s else banner_touchCancel s)"
| "handle_banner (BannerWheel now e) s = (if bn_itemCount s = 0 then s else banner_wheel now e s)"

subsection \<open>The viewer of images\<close>

definition MIN_ZOOM :: rat where "MIN_ZOOM = 1"
definition MAX_ZOOM :: rat where "MAX_ZOOM = 5 / 2"
definition ZOOM_STEP :: rat where "ZOOM_STEP = 1 / 2"

record lightbox =
  lb_zoom :: rat
  lb_showMetadata :: bool
  lb_activeIndex :: "int option"
  lb_previousIndex :: "int option"
  lb_isOpen :: bool

definition changeZoom :: "rat \<Rightarrow> lightbox \<Rightarrow> lightbox" where
  "changeZoom amount s = s\<lparr>lb_zoom := min MAX_ZOOM (max MIN_ZOOM (lb_zoom s + amount))\<rparr>"

text \<open>The effects after the index or the opening changed.\<close>

definition lightbox_shown :: "int option \<Rightarrow> bool \<Rightarrow> lightbox \<Rightarrow> lightbox" where
  "lightbox_shown activeIndex isOpen s =
     s\<lparr>lb_zoom := MIN_ZOOM, lb_showMetadata := True, lb_activeIndex := activeIndex,
       lb_previousIndex := activeIndex, lb_isOpen := isOpen\<rparr>"

definition previous_image :: "int \<Rightarrow> int \<Rightarrow> int" where
  "previous_image total_items activeIndex = (if activeIndex = 0 then total_items - 1 else activeIndex - 1)"

definition next_image :: "int \<Rightarrow> int \<Rightarrow> int" where
  "next_image total_items activeIndex = (if activeIndex = total_items - 1 then 0 else activeIndex + 1)"

text \<open>The effect runs only when the index is another one.\<close>

definition show_image :: "int \<Rightarrow> lightbox \<Rightarrow> lightbox" where
  "show_image i s = (if lb_activeIndex s = Some i then s else lightbox_shown (Some i) (lb_isOpen s) s)"

definition toggleMetadata :: "lightbox \<Rightarrow> lightbox" where
  "toggleMetadata s = s\<lparr>lb_showMetadata := \<not> lb_showMetadata s\<rparr>"

text \<open>A key while the viewer is open; the new index is given to the page, which renders it.\<close>

definition lightbox_key :: "int \<Rightarrow> string \<Rightarrow> lightbox \<Rightarrow> lightbox" where
  "lightbox_key total_items key s =
     (case lb_activeIndex s of
        None \<Rightarrow> s
      | Some i \<Rightarrow>
          if \<not> lb_isOpen s then s
          else if key = ''ArrowLeft'' then show_image (previous_image total_items i) s
          else if key = ''ArrowRight'' then show_image (next_image total_items i) s
          else if key = ''+'' \<or> key = ''='' then s\<lparr>lb_zoom := min MAX_ZOOM (lb_zoom s + ZOOM_STEP)\<rparr>
          else if key = ''-'' \<or> key = ''_'' then s\<lparr>lb_zoom := max MIN_ZOOM (lb_zoom s - ZOOM_STEP)\<rparr>
          else s)"

definition image_click :: "lightbox \<Rightarrow> lightbox" where
  "image_click s = changeZoom (if MIN_ZOOM < lb_zoom s then - ZOOM_STEP else ZOOM_STEP) s"

definition getTransitionDirection :: "int option \<Rightarrow> int option \<Rightarrow> int \<Rightarrow> rat" where
  "getTransitionDirection previousIndex activeIndex itemCount =
     (case (previousIndex, activeIndex) of
        (Some p, Some a) \<Rightarrow>
          if p = a \<or> itemCount \<le> 1 then 1
          else if p = itemCount - 1 \<and> a = 0 then 1
          else if p = 0 \<and> a = itemCount - 1 then -1
          else if p < a then 1 else -1
      | _ \<Rightarrow> 1)"

subsection \<open>Every item of a carousel comes by\<close>

lemma page_distance_pos:
  assumes "0 < clientWidth" "0 \<le> gap"
  shows "0 < getCarouselPageDistance clientWidth itemWidth gap \<and> getCarouselPageDistance clientWidth itemWidth gap \<le> clientWidth"
proof (cases "itemWidth \<le> 0")
  case True
  then show ?thesis using assms(1) by (simp add: getCarouselPageDistance_def)
next
  case False
  let ?steps = "max 1 (max 1 \<lfloor>(clientWidth + gap) / (itemWidth + gap)\<rfloor> - 1)"
  have "0 < of_int ?steps * (itemWidth + gap)" using False assms(2) by (intro mult_pos_pos) simp_all
  then show ?thesis using False assms(1) by (simp add: getCarouselPageDistance_def Let_def)
qed

definition forward_position :: "rat \<Rightarrow> rat \<Rightarrow> rat \<Rightarrow> rat" where
  "forward_position maximumScroll pageDistance left = fst (getCarouselScrollDestination left maximumScroll Forward pageDistance)"

lemma forward_before_end:
  assumes "SCROLL_TOLERANCE < m" "0 \<le> x" "x < m - SCROLL_TOLERANCE" "0 < d"
  shows "getCarouselScrollDestination x m Forward d = (min m (x + d), False)"
  using assms by (simp add: getCarouselScrollDestination_def Let_def SCROLL_TOLERANCE_def min_def max_def)

lemma forward_run:
  assumes "SCROLL_TOLERANCE < m" "0 < d"
  shows "0 \<le> x \<Longrightarrow> x \<le> m \<Longrightarrow> m - x \<le> of_nat n * d \<Longrightarrow>
    \<exists>k\<le>n. m - SCROLL_TOLERANCE \<le> (forward_position m d ^^ k) x \<and> (forward_position m d ^^ k) x \<le> m \<and>
      (\<forall>j<k. 0 \<le> (forward_position m d ^^ j) x \<and> (forward_position m d ^^ j) x < m - SCROLL_TOLERANCE \<and>
        (forward_position m d ^^ Suc j) x \<le> (forward_position m d ^^ j) x + d)"
proof (induction n arbitrary: x)
  case 0
  then show ?case using assms by (intro exI [of _ 0]) (simp add: SCROLL_TOLERANCE_def)
next
  case (Suc n)
  show ?case
  proof (cases "m - SCROLL_TOLERANCE \<le> x")
    case True
    then show ?thesis using Suc.prems by (intro exI [of _ 0]) simp
  next
    case False
    let ?y = "min m (x + d)"
    have y: "forward_position m d x = ?y"
      using forward_before_end [of m x d] assms False Suc.prems by (simp add: forward_position_def)
    have "m - ?y \<le> of_nat n * d"
    proof (cases "m \<le> x + d")
      case True
      then show ?thesis using assms by simp
    next
      case False
      then show ?thesis using Suc.prems(3) by (simp add: algebra_simps)
    qed
    moreover have "0 \<le> ?y" "?y \<le> m" using Suc.prems assms by (simp_all add: SCROLL_TOLERANCE_def)
    ultimately obtain k where k: "k \<le> n" "m - SCROLL_TOLERANCE \<le> (forward_position m d ^^ k) ?y"
      "(forward_position m d ^^ k) ?y \<le> m"
      "\<forall>j<k. 0 \<le> (forward_position m d ^^ j) ?y \<and> (forward_position m d ^^ j) ?y < m - SCROLL_TOLERANCE \<and>
        (forward_position m d ^^ Suc j) ?y \<le> (forward_position m d ^^ j) ?y + d"
      using Suc.IH [of ?y] by blast
    have shift: "(forward_position m d ^^ Suc j) x = (forward_position m d ^^ j) ?y" for j
      by (simp add: funpow_swap1 y)
    have all: "0 \<le> (forward_position m d ^^ j) x \<and> (forward_position m d ^^ j) x < m - SCROLL_TOLERANCE \<and>
        (forward_position m d ^^ Suc j) x \<le> (forward_position m d ^^ j) x + d" if "j < Suc k" for j
    proof (cases j)
      case 0
      then show ?thesis using False Suc.prems y by simp
    next
      case (Suc i)
      then have "i < k" using that by simp
      with k(4) show ?thesis unfolding Suc shift by blast
    qed
    show ?thesis
      by (rule exI [of _ "Suc k"]) (use k(1-3) all shift in simp)
  qed
qed

text \<open>C40. The button of a carousel brings every item by: from any position it takes finitely many presses to
  reach the end, none of them moves further than what is visible, so that nothing is passed over,
  none wraps around before the end, and one more press returns to the start.\<close>

theorem carousel_shows_everything:
  assumes "0 < clientWidth" "0 \<le> gap" "m = scrollWidth - clientWidth" "SCROLL_TOLERANCE < m" "0 \<le> x" "x \<le> m"
    and "d = getCarouselPageDistance clientWidth itemWidth gap"
  shows "\<exists>k. sl_isAtEnd (getCarouselScrollState
        \<lparr>bx_scrollLeft = (forward_position m d ^^ k) x, bx_scrollWidth = scrollWidth, bx_clientWidth = clientWidth\<rparr>) \<and>
      getCarouselScrollDestination ((forward_position m d ^^ k) x) m Forward d = (0, True) \<and>
      (\<forall>j<k. snd (getCarouselScrollDestination ((forward_position m d ^^ j) x) m Forward d) = False \<and>
        (forward_position m d ^^ Suc j) x \<le> (forward_position m d ^^ j) x + clientWidth)"
proof -
  have d: "0 < d" "d \<le> clientWidth" using page_distance_pos [OF assms(1,2), of itemWidth] assms(7) by simp_all
  obtain n :: nat where "m - x < of_nat n * d" using ex_less_of_nat_mult [OF d(1)] by blast
  then obtain k where k: "m - SCROLL_TOLERANCE \<le> (forward_position m d ^^ k) x" "(forward_position m d ^^ k) x \<le> m"
    "\<forall>j<k. 0 \<le> (forward_position m d ^^ j) x \<and> (forward_position m d ^^ j) x < m - SCROLL_TOLERANCE \<and>
      (forward_position m d ^^ Suc j) x \<le> (forward_position m d ^^ j) x + d"
    using forward_run [OF assms(4) d(1) assms(5,6), of n] by auto
  have pos: "0 \<le> (forward_position m d ^^ k) x" using k(1) assms(4) by simp
  have "sl_isAtEnd (getCarouselScrollState
      \<lparr>bx_scrollLeft = (forward_position m d ^^ k) x, bx_scrollWidth = scrollWidth, bx_clientWidth = clientWidth\<rparr>)"
    using k(1,2) pos assms(3,4) by (simp add: getCarouselScrollState_def Let_def SCROLL_TOLERANCE_def)
  moreover have "getCarouselScrollDestination ((forward_position m d ^^ k) x) m Forward d = (0, True)"
    using k(1,2) pos assms(4) by (simp add: getCarouselScrollDestination_def Let_def)
  moreover have "snd (getCarouselScrollDestination ((forward_position m d ^^ j) x) m Forward d) = False \<and>
      (forward_position m d ^^ Suc j) x \<le> (forward_position m d ^^ j) x + clientWidth" if "j < k" for j
    using k(3) that forward_before_end [OF assms(4) _ _ d(1)] d(2) by fastforce
  ultimately show ?thesis by blast
qed

theorem carousel_shows_everything_witness:
  "\<exists>k. sl_isAtEnd (getCarouselScrollState
      \<lparr>bx_scrollLeft = (forward_position 1500 (getCarouselPageDistance 1000 250 16) ^^ k) 0, bx_scrollWidth = 2500, bx_clientWidth = 1000\<rparr>)"
  using carousel_shows_everything [of 1000 16 1500 2500 0 "getCarouselPageDistance 1000 250 16" 250]
  by (auto simp: SCROLL_TOLERANCE_def)

subsection \<open>An animation that was cancelled does nothing\<close>

definition wrap_ok :: "carousel \<Rightarrow> bool" where
  "wrap_ok c \<longleftrightarrow> (crs_active c = None) = (crs_phase c = None) \<and> (case crs_active c of None \<Rightarrow> True | Some i \<Rightarrow> i < crs_next c)"

lemma wrap_ok_cancel: "wrap_ok c \<Longrightarrow> wrap_ok (cancelCarouselWrapAnimation c) \<and> crs_active (cancelCarouselWrapAnimation c) = None"
  by (simp add: wrap_ok_def cancelCarouselWrapAnimation_def)

lemma wrap_ok_scroll: "wrap_ok c \<Longrightarrow> wrap_ok (updateScrollState (scroll_to x c))"
  by (auto simp: wrap_ok_def updateScrollState_def scroll_to_def split: option.splits)

lemma wrap_ok_animate: "wrap_ok c \<Longrightarrow> wrap_ok (animateCarouselWrap canAnimate x c)"
  using wrap_ok_scroll conjunct1 [OF wrap_ok_cancel [of c]]
  by (simp add: animateCarouselWrap_def Let_def) (simp add: wrap_ok_def)

lemma wrap_ok_outgoing: "wrap_ok c \<Longrightarrow> wrap_ok (wrap_outgoing_done i x c)"
  by (cases "crs_active c = Some i") (simp_all add: wrap_outgoing_done_def wrap_ok_def updateScrollState_def scroll_to_def)

lemma wrap_ok_incoming: "wrap_ok c \<Longrightarrow> wrap_ok (wrap_incoming_done i c)"
  by (simp add: wrap_incoming_done_def wrap_ok_def updateScrollState_def)

lemma wrap_ok_wheel: "wrap_ok c \<Longrightarrow> wrap_ok (carousel_handleWheel e c)"
  using wrap_ok_cancel [of c] by (simp add: carousel_handleWheel_def Let_def wrap_ok_scroll)

text \<open>
  Every later gesture ends the animation under way, and the parts of it that are still to come have
  no effect: neither the position nor what is shown changes.
\<close>

lemma cancelled_wrap_inert:
  assumes "wrap_ok c" "crs_active c = Some i"
  shows "wrap_outgoing_done i x (carousel_handleWheel e c) = carousel_handleWheel e c \<and>
    wrap_incoming_done i (carousel_handleWheel e c) = carousel_handleWheel e c \<and>
    wrap_outgoing_done i x (animateCarouselWrap canAnimate y c) = animateCarouselWrap canAnimate y c"
proof -
  have "crs_active (carousel_handleWheel e c) = None"
    using wrap_ok_cancel [OF assms(1)] by (simp add: carousel_handleWheel_def Let_def updateScrollState_def scroll_to_def)
  moreover have "crs_active (animateCarouselWrap canAnimate y c) \<noteq> Some i"
    using assms by (simp add: animateCarouselWrap_def Let_def cancelCarouselWrapAnimation_def wrap_ok_def
        updateScrollState_def scroll_to_def)
  ultimately show ?thesis by (simp add: wrap_outgoing_done_def wrap_incoming_done_def)
qed

subsection \<open>The item of the banner\<close>

definition index_ok :: "banner_state \<Rightarrow> bool" where
  "index_ok s \<longleftrightarrow> 0 \<le> bn_itemCount s \<and> 0 \<le> bn_index s \<and> bn_index s < max 1 (bn_itemCount s)"

lemma index_ok_next: "index_ok s \<Longrightarrow> 0 < bn_itemCount s \<Longrightarrow> index_ok (showNext s) \<and> index_ok (showPrevious s)"
  by (simp add: index_ok_def showNext_def showPrevious_def)

lemma index_ok_touch: "index_ok s \<Longrightarrow> 0 < bn_itemCount s \<Longrightarrow> index_ok (banner_touchEnd ts s)"
proof -
  assume ok: "index_ok s" "0 < bn_itemCount s"
  let ?s = "s\<lparr>bn_touchStart := None\<rparr>"
  have "index_ok ?s" "0 < bn_itemCount ?s" using ok by (simp_all add: index_ok_def)
  with index_ok_next [of ?s] show ?thesis
    by (simp add: banner_touchEnd_def Let_def split: option.split list.split prod.split)
qed

lemma index_ok_wheel: "index_ok s \<Longrightarrow> 0 < bn_itemCount s \<Longrightarrow> index_ok (banner_wheel now e s)"
proof -
  assume ok: "index_ok s" "0 < bn_itemCount s"
  let ?s = "s\<lparr>bn_lastWheelNavigationAt := now\<rparr>"
  have "index_ok ?s" "0 < bn_itemCount ?s" using ok by (simp_all add: index_ok_def)
  with index_ok_next [of ?s] ok show ?thesis by (simp add: banner_wheel_def Let_def)
qed

definition sensible :: "banner_event \<Rightarrow> bool" where
  "sensible e \<longleftrightarrow> (case e of NewItems n \<Rightarrow> 0 \<le> n | _ \<Rightarrow> True)"

lemma index_ok_other:
  "index_ok s \<Longrightarrow> index_ok (s\<lparr>bn_userPaused := b\<rparr>)" "index_ok s \<Longrightarrow> index_ok (s\<lparr>bn_interactionPaused := b\<rparr>)"
  "index_ok s \<Longrightarrow> index_ok (banner_touchStart ts s)" "index_ok s \<Longrightarrow> index_ok (banner_touchCancel s)"
  "index_ok s \<Longrightarrow> index_ok (rotate_banner r s)" "0 \<le> n \<Longrightarrow> index_ok s \<Longrightarrow> index_ok (clamp_index n s)"
  by (simp_all add: index_ok_def banner_touchStart_def banner_touchCancel_def rotate_banner_def clamp_index_def)

lemma index_ok_step:
  assumes "index_ok s" "sensible e"
  shows "index_ok (handle_banner e s)"
proof -
  have pos: "0 < bn_itemCount s \<or> bn_itemCount s = 0" using assms(1) by (auto simp: index_ok_def)
  have shown: "index_ok (if bn_itemCount s \<le> 1 then s else showNext s)" "index_ok (if bn_itemCount s \<le> 1 then s else showPrevious s)"
    using assms(1) index_ok_next by simp_all
  have gesture: "index_ok (if bn_itemCount s = 0 then s else banner_touchEnd ts s)"
    "index_ok (if bn_itemCount s = 0 then s else banner_wheel now w s)" for ts now w
    using assms(1) pos index_ok_touch index_ok_wheel by auto
  show ?thesis
    by (cases e) (use assms shown gesture index_ok_other in \<open>simp_all add: sensible_def\<close>)
qed

lemma index_ok_run: "index_ok s \<Longrightarrow> list_all sensible es \<Longrightarrow> index_ok (fold handle_banner es s)"
  by (induction es arbitrary: s) (simp_all add: index_ok_step)

text \<open>The index of the featured banner always names an item of the list that it was last told of: no click,
  swipe, wheel or tick leaves it.  But the list is rendered before the index follows it: when the
  items are replaced by fewer, as after a new answer of the catalogue, the banner reads a field of
  an item that is not there and the page throws, exactly if the index is beyond the new list.\<close>

theorem banner_throws_when_shrinking:
  assumes "s = fold handle_banner es (banner_init (int (length (items0 :: 'a list))))" "list_all sensible es"
  shows "0 \<le> bn_index s \<and> (bn_itemCount s = int (length (items :: 'a list)) \<longrightarrow> banner_view items (bn_index s) \<noteq> BannerThrows) \<and>
    (banner_view (new_items :: 'a list) (bn_index s) = BannerThrows \<longleftrightarrow>
       new_items \<noteq> [] \<and> int (length new_items) \<le> bn_index s) \<and>
    banner_view new_items (bn_index (handle_banner (NewItems (int (length new_items))) s)) \<noteq> BannerThrows"
proof -
  have "index_ok (banner_init (int (length items0)))" by (simp add: index_ok_def banner_init_def)
  from index_ok_run [OF this assms(2)] have ok: "index_ok s" using assms(1) by simp
  have within: "banner_view xs (bn_index t) \<noteq> BannerThrows" if "index_ok t" "bn_itemCount t = int (length xs)" for t and xs :: "'a list"
    using that by (cases xs) (auto simp: banner_view_def index_ok_def)
  have "index_ok (handle_banner (NewItems (int (length new_items))) s)" by (rule index_ok_step [OF ok]) (simp add: sensible_def)
  from within [OF this, of new_items] within [OF ok, of items] ok show ?thesis
    by (auto simp: clamp_index_def banner_view_def index_ok_def)
qed

theorem banner_throws_when_shrinking_witness:
  "banner_view [10 :: nat, 20] (bn_index (fold handle_banner [NextClick, NextClick] (banner_init (int (length [1 :: nat, 2, 3]))))) = BannerThrows"
proof -
  have "list_all sensible [NextClick, NextClick]" by (simp add: sensible_def)
  from banner_throws_when_shrinking [OF refl this, of "[1 :: nat, 2, 3]" "[]" "[10, 20]"]
  show ?thesis by (simp add: showNext_def banner_init_def)
qed

subsection \<open>The viewer goes round\<close>

definition zoom_ok :: "lightbox \<Rightarrow> bool" where
  "zoom_ok s \<longleftrightarrow> MIN_ZOOM \<le> lb_zoom s \<and> lb_zoom s \<le> MAX_ZOOM"

lemma zoom_in_range:
  "zoom_ok (changeZoom d s)" "zoom_ok (lightbox_shown i b s)" "zoom_ok s \<Longrightarrow> zoom_ok (show_image n s)"
  by (simp_all add: zoom_ok_def changeZoom_def lightbox_shown_def show_image_def MIN_ZOOM_def MAX_ZOOM_def min_def max_def)

lemma zoom_in_range_key: "zoom_ok s \<Longrightarrow> zoom_ok (lightbox_key n key s)"
  using zoom_in_range(3) [of s]
  by (simp add: lightbox_key_def split: option.split) (simp add: zoom_ok_def MIN_ZOOM_def MAX_ZOOM_def ZOOM_STEP_def min_def max_def)

lemma image_neighbours:
  "i \<in> {0..<n} \<Longrightarrow> previous_image n (next_image n i) = i \<and> next_image n (previous_image n i) = i \<and>
     next_image n i = (i + 1) mod n \<and> previous_image n i \<in> {0..<n} \<and> next_image n i \<in> {0..<n}"
  by (auto simp: previous_image_def next_image_def)

end
