(* ===== verification/SearchInput.thy ===== *)
theory SearchInput
  imports PageQueries
begin

text \<open>
  Searching as one types: the debounced input (\<open>hooks/useDebouncedSearch.ts\<close>), the pages that listen to
  it (\<open>Navbar/hooks/useNavbarSearch.ts\<close>, \<open>routes/SearchRouteShell.tsx\<close>, \<open>BrowseToolbar.tsx\<close>) and the
  results of a search as cards (\<open>SearchPage/utils.ts\<close>, \<open>SearchPage/hooks/useSearchResults.ts\<close>).
\<close>

subsection \<open>The debounced input\<close>

text \<open>
  The text in the field, the text that was told to the page, and the text that a pending timer will
  tell it.
\<close>

record search_input =
  db_value :: string
  db_debounced :: string
  db_timer :: "string option"

definition search_input_init :: "int \<Rightarrow> string \<Rightarrow> search_input" where
  "search_input_init maxLength initialValue =
     (let normalizedInitialValue = limitSearchInput initialValue maxLength in
      \<lparr>db_value = normalizedInitialValue, db_debounced = normalizeSearchQuery normalizedInitialValue maxLength,
       db_timer = None\<rparr>)"

text \<open>
  A render with new texts; the effect that starts the timer runs when one of them is another one, and
  stops the timer that was running.
\<close>

definition rerender_input :: "int \<Rightarrow> string \<Rightarrow> string \<Rightarrow> search_input \<Rightarrow> search_input" where
  "rerender_input maxLength v debounced s =
     (if v = db_value s \<and> debounced = db_debounced s then s
      else
        (let nextQuery = normalizeSearchQuery v maxLength in
         \<lparr>db_value = v, db_debounced = debounced, db_timer = if nextQuery = debounced then None else Some nextQuery\<rparr>))"

definition input_initialValue :: "int \<Rightarrow> string \<Rightarrow> search_input \<Rightarrow> search_input" where
  "input_initialValue maxLength initialValue s =
     (let nextValue = limitSearchInput initialValue maxLength in
      rerender_input maxLength nextValue (normalizeSearchQuery nextValue maxLength) s)"

definition input_onChange :: "int \<Rightarrow> string \<Rightarrow> search_input \<Rightarrow> search_input" where
  "input_onChange maxLength nextValue s =
     rerender_input maxLength (limitSearchInput nextValue maxLength) (db_debounced s) s"

text \<open>What is committed or comes from the timer is also told to the page.\<close>

definition input_timeout :: "int \<Rightarrow> search_input \<Rightarrow> search_input \<times> string option" where
  "input_timeout maxLength s =
     (case db_timer s of
        None \<Rightarrow> (s, None)
      | Some nextQuery \<Rightarrow> (rerender_input maxLength (db_value s) nextQuery (s\<lparr>db_timer := None\<rparr>), Some nextQuery))"

definition input_commit :: "int \<Rightarrow> string option \<Rightarrow> search_input \<Rightarrow> search_input \<times> string option" where
  "input_commit maxLength nextValue s =
     (let limitedValue = limitSearchInput (nullish nextValue (db_value s)) maxLength;
          nextQuery = normalizeSearchQuery limitedValue maxLength in
      (rerender_input maxLength limitedValue nextQuery (s\<lparr>db_timer := None\<rparr>), Some nextQuery))"

definition input_clear :: "int \<Rightarrow> search_input \<Rightarrow> search_input \<times> string option" where
  "input_clear maxLength = input_commit maxLength (Some [])"

definition isDebouncing :: "int \<Rightarrow> search_input \<Rightarrow> bool" where
  "isDebouncing maxLength s \<longleftrightarrow> normalizeSearchQuery (db_value s) maxLength \<noteq> db_debounced s"

datatype input_event = TypeText string | CommitText "string option" | ClearText | TimerFires | InitialText string

text \<open>An event, and what the page has been told last: by a callback or with the initial value it gives itself.\<close>

fun handle_input :: "int \<Rightarrow> input_event \<Rightarrow> search_input \<times> string \<Rightarrow> search_input \<times> string" where
  "handle_input n (TypeText t) (s, told) = (input_onChange n t s, told)"
| "handle_input n (CommitText t) (s, told) = (case input_commit n t s of (s', q) \<Rightarrow> (s', nullish q told))"
| "handle_input n ClearText (s, told) = (case input_clear n s of (s', q) \<Rightarrow> (s', nullish q told))"
| "handle_input n TimerFires (s, told) = (case input_timeout n s of (s', q) \<Rightarrow> (s', nullish q told))"
| "handle_input n (InitialText t) (s, told) =
     (input_initialValue n t s, normalizeSearchQuery (limitSearchInput t n) n)"

subsection \<open>The pages that listen\<close>

definition readQueryParam :: "string \<Rightarrow> string" where
  "readQueryParam search =
     nullish (map_of (params_parse (case search of CHR ''?'' # t \<Rightarrow> t | t \<Rightarrow> t)) ''q'') []"

text \<open>A navigation to the page of the search: its text, and whether it replaces the entry of the history.\<close>

datatype search_nav = SearchNav "string option" bool

definition currentQuery :: "string \<Rightarrow> string \<Rightarrow> string" where
  "currentQuery pathname searchStr = (if pathname = ''/search'' then readQueryParam searchStr else [])"

definition navigateToSearch :: "bool \<Rightarrow> string \<Rightarrow> string \<Rightarrow> string \<Rightarrow> search_nav option" where
  "navigateToSearch enabled pathname searchStr query =
     (if \<not> enabled then None
      else if pathname \<noteq> ''/search'' then (if query \<noteq> [] then Some (SearchNav (Some query) False) else None)
      else if query = currentQuery pathname searchStr then None
      else Some (SearchNav (if query \<noteq> [] then Some query else None) True))"

definition updateRouteQuery :: "string \<Rightarrow> string \<Rightarrow> search_nav option" where
  "updateRouteQuery searchStr query =
     (if query = readQueryParam searchStr then None else Some (SearchNav (if query \<noteq> [] then Some query else None) True))"

definition shell_initialData :: "string \<Rightarrow> string \<Rightarrow> 'r option \<Rightarrow> 'r option" where
  "shell_initialData debouncedQuery initialQuery initialResults =
     (if debouncedQuery = initialQuery then initialResults else None)"

text \<open>The search of a browse page after typing: page, order and text.\<close>

definition updateSearch :: "browse_sort \<Rightarrow> string \<Rightarrow> string \<Rightarrow> (int \<times> browse_sort option \<times> string option) option" where
  "updateSearch srt query normalized =
     (if normalized = query then None
      else Some (1, if normalized \<noteq> [] then None else Some srt, if normalized \<noteq> [] then Some normalized else None))"

subsection \<open>Results\<close>

text \<open>An entry of a search with the fields that its card shows.\<close>

record search_entry = search_item +
  se_original_title :: "string option"
  se_description :: "string option"
  se_image_url :: "string option"
  se_release_date :: "string option"
  se_authors :: "author list option"

definition transformMovieResults :: "search_entry list \<Rightarrow> movie_detail list" where
  "transformMovieResults = map (\<lambda>i.
     \<lparr>mov_id = si_id i, mov_denn_id = si_denn_id i, mov_title = si_title i,
      mov_original_title = nullish (se_original_title i) (si_title i), mov_description = se_description i,
      mov_image_url = se_image_url i, mov_tagline = None, mov_imdb_id = None, mov_release_date = se_release_date i,
      mov_duration_minutes = None, mov_status = None, mov_authors = se_authors i, mov_images = [],
      mov_platforms = None, mov_moderation = si_moderation i\<rparr>)"

definition transformTVShowResults :: "search_entry list \<Rightarrow> tv_show_detail list" where
  "transformTVShowResults = map (\<lambda>i.
     \<lparr>tv_id = si_id i, tv_denn_id = si_denn_id i, tv_title = si_title i,
      tv_original_title = nullish (se_original_title i) (si_title i), tv_description = se_description i,
      tv_image_url = se_image_url i, tv_tagline = None, tv_imdb_id = None, tv_release_date = se_release_date i,
      tv_status = None, tv_number_of_seasons = None, tv_number_of_episodes = None, tv_authors = se_authors i,
      tv_images = [], tv_platforms = None, tv_seasons = [], tv_moderation = si_moderation i\<rparr>)"

definition transformGameResults :: "search_entry list \<Rightarrow> game_detail list" where
  "transformGameResults = map (\<lambda>i.
     \<lparr>gam_id = si_id i, gam_denn_id = si_denn_id i, gam_title = si_title i, gam_game_type = None,
      gam_release_date = se_release_date i, gam_description = se_description i, gam_image_url = se_image_url i,
      gam_authors = se_authors i, gam_platforms = Some [], gam_distribution_networks = None, gam_images = [],
      gam_genres = [], gam_themes = [], gam_game_modes = [], gam_series = None, gam_play_time = None,
      gam_duration = None, gam_moderation = si_moderation i\<rparr>)"

definition transformMusicResults :: "search_entry list \<Rightarrow> album_detail list" where
  "transformMusicResults = map (\<lambda>i.
     \<lparr>alb_id = si_id i, alb_denn_id = si_denn_id i, alb_title = si_title i, alb_authors = se_authors i,
      alb_image_url = se_image_url i, alb_release_date = se_release_date i, alb_total_tracks = 0,
      alb_album_type = [], alb_external_url = [], alb_tracks = [], alb_duration_minutes = None, alb_images = [],
      alb_moderation = si_moderation i\<rparr>)"

definition transformBookResults :: "search_entry list \<Rightarrow> book_detail list" where
  "transformBookResults = map (\<lambda>i.
     \<lparr>bk_id = si_id i, bk_denn_id = si_denn_id i, bk_title = si_title i, bk_authors = se_authors i,
      bk_image_url = se_image_url i, bk_release_date = se_release_date i, bk_pages = None,
      bk_description = se_description i, bk_images = [], bk_moderation = si_moderation i\<rparr>)"

record search_results_view =
  srv_movies :: "movie_detail list"
  srv_tvShows :: "tv_show_detail list"
  srv_games :: "game_detail list"
  srv_music :: "album_detail list"
  srv_books :: "book_detail list"

definition EMPTY_SEARCH_RESULTS :: search_results_view where
  "EMPTY_SEARCH_RESULTS = \<lparr>srv_movies = [], srv_tvShows = [], srv_games = [], srv_music = [], srv_books = []\<rparr>"

definition transformSearchResponse :: "search_entry catalog_response option \<Rightarrow> search_results_view" where
  "transformSearchResponse response =
     (case response of
        None \<Rightarrow> EMPTY_SEARCH_RESULTS
      | Some r \<Rightarrow>
          \<lparr>srv_movies = transformMovieResults (category_results ''movies'' (Some r)),
           srv_tvShows = transformTVShowResults (category_results ''tv-shows'' (Some r)),
           srv_games = transformGameResults (category_results ''games'' (Some r)),
           srv_music = transformMusicResults (category_results ''albums'' (Some r)),
           srv_books = transformBookResults (category_results ''books'' (Some r))\<rparr>)"

text \<open>The results that are shown, and whether the response had any.\<close>

definition useSearchResults :: "string \<Rightarrow> search_entry catalog_response option \<Rightarrow> search_results_view \<times> bool" where
  "useSearchResults query response =
     (let results = transformSearchResponse response in
      (if js_trim query \<noteq> [] then results else EMPTY_SEARCH_RESULTS,
       srv_movies results \<noteq> [] \<or> srv_tvShows results \<noteq> [] \<or> srv_games results \<noteq> [] \<or> srv_music results \<noteq> [] \<or>
         srv_books results \<noteq> []))"

subsection \<open>The page is told what was typed\<close>

definition input_ok :: "int \<Rightarrow> search_input \<Rightarrow> bool" where
  "input_ok n s \<longleftrightarrow> db_timer s = (if isDebouncing n s then Some (normalizeSearchQuery (db_value s) n) else None)"

lemma rerender_ok:
  "input_ok n s \<or> v \<noteq> db_value s \<or> d \<noteq> db_debounced s \<Longrightarrow> input_ok n (rerender_input n v d s) \<and>
     db_value (rerender_input n v d s) = v \<and> db_debounced (rerender_input n v d s) = d"
  by (auto simp: rerender_input_def input_ok_def isDebouncing_def Let_def)

lemma rerender_settled:
  "input_ok n (rerender_input n v (normalizeSearchQuery v n) (s\<lparr>db_timer := None\<rparr>)) \<and>
     db_value (rerender_input n v (normalizeSearchQuery v n) (s\<lparr>db_timer := None\<rparr>)) = v \<and>
     db_debounced (rerender_input n v (normalizeSearchQuery v n) (s\<lparr>db_timer := None\<rparr>)) = normalizeSearchQuery v n"
  by (auto simp: rerender_input_def input_ok_def isDebouncing_def Let_def)

lemma input_timeout_ok:
  assumes "input_ok n s"
  shows "case input_timeout n s of (s', q) \<Rightarrow>
    input_ok n s' \<and> db_value s' = db_value s \<and> db_debounced s' = normalizeSearchQuery (db_value s) n \<and>
    nullish q (db_debounced s) = normalizeSearchQuery (db_value s) n \<and> db_timer s' = None"
proof (cases "isDebouncing n s")
  case True
  then have t: "db_timer s = Some (normalizeSearchQuery (db_value s) n)" using assms by (simp add: input_ok_def)
  from rerender_settled [of n "db_value s" s] show ?thesis
    by (simp add: input_timeout_def t nullish_def) (simp add: input_ok_def isDebouncing_def)
next
  case False
  then show ?thesis using assms by (simp add: input_timeout_def input_ok_def isDebouncing_def nullish_def)
qed

lemma handle_input_ok:
  assumes "input_ok n s" "told = db_debounced s"
  shows "case handle_input n e (s, told) of (s', told') \<Rightarrow> input_ok n s' \<and> told' = db_debounced s'"
proof (cases e)
  case (TypeText t)
  with assms show ?thesis
    using rerender_ok [of n s "limitSearchInput t n" "db_debounced s"] by (simp add: input_onChange_def)
next
  case (CommitText t)
  with assms show ?thesis
    using rerender_settled [of n "limitSearchInput (nullish t (db_value s)) n" s]
    by (simp add: input_commit_def Let_def nullish_def)
next
  case ClearText
  with assms show ?thesis
    using rerender_settled [of n "limitSearchInput [] n" s] by (simp add: input_clear_def input_commit_def Let_def nullish_def)
next
  case TimerFires
  with assms input_timeout_ok [OF assms(1)] show ?thesis by (cases "input_timeout n s") (simp add: nullish_def)
next
  case (InitialText t)
  with assms show ?thesis
    using rerender_ok [of n s "limitSearchInput t n" "normalizeSearchQuery (limitSearchInput t n) n"]
    by (simp add: input_initialValue_def Let_def)
qed

lemma handle_input_run:
  "input_ok n s \<Longrightarrow> told = db_debounced s \<Longrightarrow>
     case fold (handle_input n) es (s, told) of (s', told') \<Rightarrow> input_ok n s' \<and> told' = db_debounced s'"
proof (induction es arbitrary: s told)
  case (Cons e es)
  obtain s1 told1 where step: "handle_input n e (s, told) = (s1, told1)" by (cases "handle_input n e (s, told)")
  with handle_input_ok [OF Cons.prems, of e] have "input_ok n s1" "told1 = db_debounced s1" by simp_all
  from Cons.IH [OF this] show ?case by (simp add: step)
qed simp

lemma search_input_init_ok: "input_ok n (search_input_init n t)"
  by (simp add: input_ok_def search_input_init_def isDebouncing_def Let_def)

text \<open>C21. Whatever is typed, committed, cleared or set from outside, and whenever the timer fires: the page was
  told last exactly the debounced text, a timer is pending exactly while that is not the text in the
  field, trimmed and limited, and when it fires the page is told that text and nothing is pending.\<close>

theorem debounce_tells_last_text:
  "case fold (handle_input n) es (search_input_init n t, normalizeSearchQuery (limitSearchInput t n) n) of (s, told) \<Rightarrow>
     told = db_debounced s \<and>
     db_timer s = (if isDebouncing n s then Some (normalizeSearchQuery (db_value s) n) else None) \<and>
     (case handle_input n TimerFires (s, told) of (s', told') \<Rightarrow>
        told' = normalizeSearchQuery (db_value s) n \<and> db_value s' = db_value s \<and> db_debounced s' = told' \<and> db_timer s' = None)"
proof -
  have "normalizeSearchQuery (limitSearchInput t n) n = db_debounced (search_input_init n t)"
    by (simp add: search_input_init_def Let_def)
  from handle_input_run [OF search_input_init_ok this, of es]
  obtain s told where run: "fold (handle_input n) es (search_input_init n t, normalizeSearchQuery (limitSearchInput t n) n) = (s, told)"
    and ok: "input_ok n s" "told = db_debounced s" by (auto split: prod.splits)
  obtain s' q where fired: "input_timeout n s = (s', q)" by (cases "input_timeout n s")
  have "told = db_debounced s \<and> db_timer s = (if isDebouncing n s then Some (normalizeSearchQuery (db_value s) n) else None)"
    using ok by (simp add: input_ok_def)
  moreover have "nullish q told = normalizeSearchQuery (db_value s) n \<and> db_value s' = db_value s \<and>
      db_debounced s' = normalizeSearchQuery (db_value s) n \<and> db_timer s' = None"
    using input_timeout_ok [OF ok(1)] ok(2) fired by simp
  ultimately show ?thesis unfolding run using fired by simp
qed

subsection \<open>What the search writes back\<close>

lemma normalized_limited: "0 \<le> n \<Longrightarrow> limitSearchInput (normalizeSearchQuery v n) n = normalizeSearchQuery v n"
  by (simp add: limitSearchInput_def normalizeSearchQuery_def js_slice_prefix)

text \<open>A search that starts in the bar of another page rewrites what was typed: once the pause is over the
  page of the search is opened, the address that the router writes for it is read back as the new
  text of the field, and what is found there replaces the text: blanks at its ends are gone, so that
  a pause after a blank joins the next word to the last one, and a text that the router quotes, such
  as a number, comes back with its quotes; no further search follows.\<close>

theorem search_rewrites_input:
  assumes "input_ok n s" "db_timer s = Some q" "0 \<le> n" "pathname \<noteq> ''/search''" "q \<noteq> []"
    and "input_timeout n s = (s1, told)" "address = params_string (router_write quotes [(''q'', q)])"
  shows "q = normalizeSearchQuery (db_value s) n \<and> db_value s1 = db_value s \<and>
    Option.bind told (navigateToSearch True pathname searchStr) = Some (SearchNav (Some q) False) \<and>
    (case input_initialValue n (currentQuery ''/search'' (search_str address)) s1 of s2 \<Rightarrow>
       db_value s2 = (if quotes q then limitSearchInput (json_quote q) n else q) \<and> db_timer s2 = None)"
proof -
  have q: "q = normalizeSearchQuery (db_value s) n"
    using assms(1,2) by (simp add: input_ok_def split: if_splits)
  have "told = Some q" using assms(2,6) by (auto simp: input_timeout_def)
  moreover have "db_value s1 = db_value s" "input_ok n s1"
    using input_timeout_ok [OF assms(1)] unfolding assms(6) by simp_all
  ultimately have t: "told = Some q" "db_value s1 = db_value s" "input_ok n s1" by simp_all
  have "address \<noteq> []" using params_roundtrip [of "router_write quotes [(''q'', q)]"]
    unfolding assms(7) by (auto simp: router_write_def params_parse_def)
  then have read: "currentQuery ''/search'' (search_str address) = (if quotes q then json_quote q else q)"
    by (simp add: currentQuery_def readQueryParam_def search_str_def assms(7) params_roundtrip nullish_def router_write_def)
  let ?t = "if quotes q then json_quote q else q"
  from rerender_ok [of n s1 "limitSearchInput ?t n" "normalizeSearchQuery (limitSearchInput ?t n) n"] t(3)
  have "db_value (input_initialValue n ?t s1) = limitSearchInput ?t n \<and> input_ok n (input_initialValue n ?t s1) \<and>
      db_debounced (input_initialValue n ?t s1) = normalizeSearchQuery (limitSearchInput ?t n) n"
    by (simp add: input_initialValue_def Let_def)
  moreover have "limitSearchInput ?t n = (if quotes q then limitSearchInput (json_quote q) n else q)"
    by (simp add: q normalized_limited [OF assms(3), of "db_value s"])
  ultimately show ?thesis
    using q t assms(4,5) unfolding read by (simp add: navigateToSearch_def input_ok_def isDebouncing_def)
qed

theorem search_rewrites_input_witness:
  "\<exists>s s1 told. s = input_onChange 80 ''star '' (search_input_init 80 []) \<and> input_timeout 80 s = (s1, told) \<and>
     db_value s1 = ''star '' \<and>
     db_value (input_initialValue 80 (currentQuery ''/search''
       (search_str (params_string (router_write (\<lambda>_. False) [(''q'', ''star'')])))) s1) = ''star''"
proof -
  let ?s = "input_onChange 80 ''star '' (search_input_init 80 [])"
  have norm: "normalizeSearchQuery ''star '' 80 = ''star''" "limitSearchInput ''star '' 80 = ''star ''"
    by (simp_all add: normalizeSearchQuery_def limitSearchInput_def js_slice_prefix js_trim_def is_space_def)
  have empty: "normalizeSearchQuery [] 80 = []" "limitSearchInput [] 80 = []"
    by (simp_all add: normalizeSearchQuery_def limitSearchInput_def js_slice_prefix)
  have s: "db_timer ?s = Some ''star''" "db_value ?s = ''star ''" "input_ok 80 ?s"
    by (simp_all add: input_onChange_def rerender_input_def search_input_init_def Let_def norm empty input_ok_def isDebouncing_def)
  obtain s1 told where t: "input_timeout 80 ?s = (s1, told)" by (cases "input_timeout 80 ?s")
  have "(0 :: int) \<le> 80" "''/'' \<noteq> ''/search''" "''star'' \<noteq> []" by simp_all
  from search_rewrites_input [OF s(3,1) this t refl, where quotes = "\<lambda>_. False" and searchStr = "[]"] s(2)
  have "db_value s1 = ''star ''" and "db_value (input_initialValue 80 (currentQuery ''/search''
       (search_str (params_string (router_write (\<lambda>_. False) [(''q'', ''star'')])))) s1) = ''star''"
    by (simp_all add: norm)
  with t show ?thesis by blast
qed

end
