(* ===== verification/ExploreToolbar.thy ===== *)
theory ExploreToolbar
  imports ListViewer ContentTypes
begin

text \<open>
  The toolbar that explores a list (\<open>ListDetailPage/components/ExploreToolbar.tsx\<close>): the options it
  offers, what each control does to the query, and the navigations it asks the hook of the query for.
\<close>

subsection \<open>Options\<close>

definition SORT_FIELD_OPTIONS :: "(sort_field \<times> string) list" where
  "SORT_FIELD_OPTIONS =
     [(SfListOrder, ''Default order''), (SfAddedAt, ''Date added''),
      (SfContextCompletedAt, ''List completion date''), (SfListRating, ''List rating''),
      (SfDisplayTitle, ''Title''), (SfArtist, ''Artist''), (SfAlbumTitle, ''Album title''),
      (SfReleaseDate, ''Release date''), (SfContextStatus, ''List status''),
      (SfTrackingStatus, ''Progress status''), (SfContentType, ''Content type'')]"

definition STATUS_OPTIONS :: "(string \<times> string) list" where
  "STATUS_OPTIONS = [(''PENDING'', ''Pending''), (''COMPLETED'', ''Completed'')]"

definition TRACKING_STATUS_OPTIONS :: "(string \<times> string) list" where
  "TRACKING_STATUS_OPTIONS =
     [(''backlog'', ''Backlog''), (''in_progress'', ''In progress''), (''on_hold'', ''On hold''),
      (''dropped'', ''Dropped''), (''completed'', ''Completed'')]"

definition CONTENT_TYPE_OPTIONS :: "(string \<times> string) list" where
  "CONTENT_TYPE_OPTIONS =
     map (\<lambda>t. (content_type_str t, ctd_pluralLabel (CONTENT_TYPE_DEFINITIONS t))) FILTERABLE_CONTENT_TYPES"

text \<open>The option without grouping has the empty value.\<close>

definition GROUP_BY_OPTIONS :: "(group_by_field option \<times> string) list" where
  "GROUP_BY_OPTIONS =
     [(None, ''No grouping''), (Some GfContextStatus, ''List status''), (Some GfTrackingStatus, ''Progress status''),
      (Some GfContentType, ''Content type''), (Some GfSourceApi, ''Source''), (Some GfAddedBy, ''Added by''),
      (Some GfArtist, ''Artist'')]"

definition singleFilterValue :: "(filter_field \<times> filter_value) list \<Rightarrow> filter_field \<Rightarrow> string" where
  "singleFilterValue filters field =
     (case map_of filters field of
        None \<Rightarrow> []
      | Some FvUndefined \<Rightarrow> []
      | Some (FvStrs v) \<Rightarrow> if length v = 1 then v ! 0 else []
      | Some (FvNums v) \<Rightarrow> if length v = 1 then show_int (v ! 0) else []
      | Some (FvStr v) \<Rightarrow> v
      | Some (FvNum v) \<Rightarrow> show_int v)"

definition sortFieldOptions :: "bool \<Rightarrow> bool \<Rightarrow> (sort_field \<times> string) list" where
  "sortFieldOptions showListContext showTrackingStatus =
     filter (\<lambda>(v, _).
       if v = SfContextStatus \<or> v = SfContextCompletedAt then showListContext
       else v \<noteq> SfTrackingStatus \<or> showTrackingStatus) SORT_FIELD_OPTIONS"

definition groupByOptions :: "bool \<Rightarrow> bool \<Rightarrow> (group_by_field option \<times> string) list" where
  "groupByOptions showListContext showTrackingStatus =
     filter (\<lambda>(v, _).
       if v = Some GfContextStatus then showListContext
       else v \<noteq> Some GfTrackingStatus \<or> showTrackingStatus) GROUP_BY_OPTIONS"

definition statusField :: "bool \<Rightarrow> bool \<Rightarrow> filter_field option" where
  "statusField showListContext showTrackingStatus =
     (if showListContext then Some FfContextStatus
      else if showTrackingStatus then Some FfTrackingStatus else None)"

definition statusOptions :: "bool \<Rightarrow> (string \<times> string) list" where
  "statusOptions showListContext = (if showListContext then STATUS_OPTIONS else TRACKING_STATUS_OPTIONS)"

subsection \<open>Handlers\<close>

text \<open>The sort clauses that a handler asks for; adding does nothing when no field is left.\<close>

definition handleAddSort :: "bool \<Rightarrow> bool \<Rightarrow> sort_clause list \<Rightarrow> sort_clause list option" where
  "handleAddSort showListContext showTrackingStatus sorts =
     (let used = set (map sc_field sorts) in
      case find (\<lambda>(v, _). v \<notin> used) (sortFieldOptions showListContext showTrackingStatus) of
        None \<Rightarrow> None
      | Some (v, _) \<Rightarrow> Some (sorts @ [\<lparr>sc_field = v, sc_direction = Asc\<rparr>]))"

definition handleSortFieldChange :: "nat \<Rightarrow> sort_field \<Rightarrow> sort_clause list \<Rightarrow> sort_clause list" where
  "handleSortFieldChange index field sorts =
     map (\<lambda>(i, c). if i = index then c\<lparr>sc_field := field\<rparr> else c) (enumerate 0 sorts)"

definition handleSortDirToggle :: "nat \<Rightarrow> sort_clause list \<Rightarrow> sort_clause list" where
  "handleSortDirToggle index sorts =
     map (\<lambda>(i, c). if i = index then c\<lparr>sc_direction := if sc_direction c = Asc then Desc else Asc\<rparr> else c)
       (enumerate 0 sorts)"

definition handleRemoveSort :: "nat \<Rightarrow> sort_clause list \<Rightarrow> sort_clause list" where
  "handleRemoveSort index sorts = map snd (filter (\<lambda>(i, _). i \<noteq> index) (enumerate 0 sorts))"

datatype toolbar_event =
    PageSizeChosen page_size | ResetPressed | StatusChosen string | TypeChosen string
  | GroupChosen "group_by_field option" | AddSortPressed | SortFieldChosen nat sort_field
  | SortDirPressed nat | RemoveSortPressed nat

text \<open>\<open>e.target.value || null\<close>.\<close>

definition chosen_filter :: "string \<Rightarrow> filter_value option" where
  "chosen_filter v = (if v = [] then None else Some (FvStr v))"

text \<open>The navigation that an event of the toolbar leads to, through the setters of the hook.\<close>

definition toolbar_navigation :: "bool \<Rightarrow> bool \<Rightarrow> list_item_query \<Rightarrow> toolbar_event \<Rightarrow> search_params option" where
  "toolbar_navigation showListContext showTrackingStatus query e =
     (case e of
        PageSizeChosen n \<Rightarrow> Some (explore_setPageSize query n)
      | ResetPressed \<Rightarrow> Some (resetExploration query)
      | StatusChosen v \<Rightarrow>
          map_option (\<lambda>f. explore_setFilter query f (chosen_filter v)) (statusField showListContext showTrackingStatus)
      | TypeChosen v \<Rightarrow> Some (explore_setFilter query FfContentType (chosen_filter v))
      | GroupChosen g \<Rightarrow> Some (explore_setGroupBy query g)
      | AddSortPressed \<Rightarrow> map_option (explore_setSort query) (handleAddSort showListContext showTrackingStatus (q_sort query))
      | SortFieldChosen i f \<Rightarrow> Some (explore_setSort query (handleSortFieldChange i f (q_sort query)))
      | SortDirPressed i \<Rightarrow> Some (explore_setSort query (handleSortDirToggle i (q_sort query)))
      | RemoveSortPressed i \<Rightarrow> Some (explore_setSort query (handleRemoveSort i (q_sort query))))"

text \<open>
  What the toolbar lets one do: a page size, a status, a type, a grouping or a field of its lists, a clause
  that is shown, and another clause while there are fewer than fields.
\<close>

definition toolbar_offers :: "bool \<Rightarrow> bool \<Rightarrow> list_item_query \<Rightarrow> toolbar_event \<Rightarrow> bool" where
  "toolbar_offers showListContext showTrackingStatus query e \<longleftrightarrow>
     (case e of
        PageSizeChosen n \<Rightarrow> n \<in> set [10, 20, 50]
      | ResetPressed \<Rightarrow> True
      | StatusChosen v \<Rightarrow> statusField showListContext showTrackingStatus \<noteq> None \<and>
          v \<in> set ([] # map fst (statusOptions showListContext))
      | TypeChosen v \<Rightarrow> v \<in> set ([] # map fst CONTENT_TYPE_OPTIONS)
      | GroupChosen g \<Rightarrow> g \<in> set (map fst (groupByOptions showListContext showTrackingStatus))
      | AddSortPressed \<Rightarrow> length (q_sort query) < length (sortFieldOptions showListContext showTrackingStatus)
      | SortFieldChosen i f \<Rightarrow> i < length (q_sort query) \<and>
          f \<in> set (map fst (sortFieldOptions showListContext showTrackingStatus))
      | SortDirPressed i \<Rightarrow> i < length (q_sort query)
      | RemoveSortPressed i \<Rightarrow> i < length (q_sort query))"

subsection \<open>The toolbar works on the query\<close>

text \<open>What an event means for the query, with no address in between.\<close>

definition set_filter :: "filter_field \<Rightarrow> string \<Rightarrow> list_item_query \<Rightarrow> list_item_query" where
  "set_filter f v q =
     q\<lparr>q_filters := if v = [] then AList.delete f (q_filters q) else AList.update f (FvStr v) (q_filters q), q_page := 1\<rparr>"

definition toolbar_intent :: "bool \<Rightarrow> bool \<Rightarrow> toolbar_event \<Rightarrow> list_item_query \<Rightarrow> list_item_query" where
  "toolbar_intent lc ts e q =
     (case e of
        PageSizeChosen n \<Rightarrow> q\<lparr>q_pageSize := n, q_page := 1\<rparr>
      | ResetPressed \<Rightarrow> DEFAULT_LIST_ITEM_QUERY\<lparr>q_pageSize := q_pageSize q\<rparr>
      | StatusChosen v \<Rightarrow> set_filter (if lc then FfContextStatus else FfTrackingStatus) v q
      | TypeChosen v \<Rightarrow> set_filter FfContentType v q
      | GroupChosen g \<Rightarrow> q\<lparr>q_groupBy := g, q_page := 1\<rparr>
      | AddSortPressed \<Rightarrow>
          q\<lparr>q_sort := q_sort q @
              [\<lparr>sc_field = hd (filter (\<lambda>f. f \<notin> sc_field ` set (q_sort q)) (map fst (sortFieldOptions lc ts))),
                sc_direction = Asc\<rparr>], q_page := 1\<rparr>
      | SortFieldChosen i f \<Rightarrow> q\<lparr>q_sort := (q_sort q)[i := (q_sort q ! i)\<lparr>sc_field := f\<rparr>], q_page := 1\<rparr>
      | SortDirPressed i \<Rightarrow>
          q\<lparr>q_sort := (q_sort q)[i := (q_sort q ! i)\<lparr>sc_direction := if sc_direction (q_sort q ! i) = Asc then Desc else Asc\<rparr>],
            q_page := 1\<rparr>
      | RemoveSortPressed i \<Rightarrow> q\<lparr>q_sort := take i (q_sort q) @ drop (Suc i) (q_sort q), q_page := 1\<rparr>)"

text \<open>The query after an event: it is read back from the address, if there was a navigation.\<close>

definition toolbar_address ::
  "(string \<Rightarrow> bool) \<Rightarrow> bool \<Rightarrow> bool \<Rightarrow> toolbar_event \<Rightarrow> list_item_query \<Rightarrow> list_item_query" where
  "toolbar_address quotes lc ts e q =
     (case toolbar_navigation lc ts q e of
        None \<Rightarrow> q | Some nav \<Rightarrow> parseQueryFromParams (router_write quotes nav))"

fun toolbar_runs :: "bool \<Rightarrow> bool \<Rightarrow> toolbar_event list \<Rightarrow> list_item_query \<Rightarrow> bool" where
  "toolbar_runs lc ts [] q \<longleftrightarrow> True"
| "toolbar_runs lc ts (e # es) q \<longleftrightarrow> toolbar_offers lc ts q e \<and> toolbar_runs lc ts es (toolbar_intent lc ts e q)"

lemma map_enumerate_update:
  "i < n + length xs \<Longrightarrow> n \<le> i \<Longrightarrow>
     map (\<lambda>(j, x). if j = i then f x else x) (enumerate n xs) = xs[i - n := f (xs ! (i - n))]"
proof (induction xs arbitrary: n)
  case (Cons x xs)
  then show ?case
  proof (cases "i = n")
    case True
    have "map (\<lambda>(j, x). if j = n then f x else x) (enumerate (Suc n) xs) = map snd (enumerate (Suc n) xs)"
      by (rule map_cong [OF refl]) (auto simp: in_set_enumerate_eq)
    with True show ?thesis by simp
  next
    case False
    with Cons.prems obtain k where "i = Suc n + k" by (metis le_Suc_ex le_neq_implies_less Suc_leI)
    with Cons.prems Cons.IH [of "Suc n"] show ?thesis by simp
  qed
qed simp

lemma filter_enumerate_remove:
  "n \<le> i \<Longrightarrow> map snd (filter (\<lambda>(j, _). j \<noteq> i) (enumerate n xs)) = take (i - n) xs @ drop (Suc i - n) xs"
proof (induction xs arbitrary: n)
  case (Cons x xs)
  show ?case
  proof (cases "i = n")
    case True
    have "filter (\<lambda>(j, _). j \<noteq> n) (enumerate (Suc n) xs) = enumerate (Suc n) xs"
      by (rule filter_True) (auto simp: in_set_enumerate_eq)
    with True show ?thesis by simp
  next
    case False
    with Cons.prems obtain k where "i = Suc n + k" by (metis le_Suc_ex le_neq_implies_less Suc_leI)
    with Cons.IH [of "Suc n"] show ?thesis by (simp add: Suc_diff_le)
  qed
qed simp

lemma sort_handlers:
  "i < length sorts \<Longrightarrow> handleSortFieldChange i f sorts = sorts[i := (sorts ! i)\<lparr>sc_field := f\<rparr>]"
  "i < length sorts \<Longrightarrow> handleSortDirToggle i sorts =
     sorts[i := (sorts ! i)\<lparr>sc_direction := if sc_direction (sorts ! i) = Asc then Desc else Asc\<rparr>]"
  "handleRemoveSort i sorts = take i sorts @ drop (Suc i) sorts"
  using map_enumerate_update [of i 0 sorts "\<lambda>c. c\<lparr>sc_field := f\<rparr>"]
    map_enumerate_update [of i 0 sorts "\<lambda>c. c\<lparr>sc_direction := if sc_direction c = Asc then Desc else Asc\<rparr>"]
    filter_enumerate_remove [of 0 i sorts]
  by (simp_all add: handleSortFieldChange_def handleSortDirToggle_def handleRemoveSort_def)

lemma sort_options_distinct: "distinct (map fst (sortFieldOptions lc ts))"
  by (cases lc; cases ts) (simp_all add: sortFieldOptions_def SORT_FIELD_OPTIONS_def)

lemma unused_left:
  assumes "length sorts < length (sortFieldOptions lc ts)"
  shows "filter (\<lambda>f. f \<notin> sc_field ` set sorts) (map fst (sortFieldOptions lc ts)) \<noteq> []"
proof
  assume "filter (\<lambda>f. f \<notin> sc_field ` set sorts) (map fst (sortFieldOptions lc ts)) = []"
  then have "set (map fst (sortFieldOptions lc ts)) \<subseteq> sc_field ` set sorts" by (auto simp: filter_empty_conv)
  then have "card (set (map fst (sortFieldOptions lc ts))) \<le> card (sc_field ` set sorts)" by (intro card_mono) auto
  also have "\<dots> \<le> length sorts" by (metis card_length list.set_map length_map)
  finally show False using assms distinct_card [OF sort_options_distinct [of lc ts]] by simp
qed

lemma find_fst: "find (\<lambda>(v, _). P v) xs = Some y \<Longrightarrow> hd (filter P (map fst xs)) = fst y \<and> P (fst y) \<and> y \<in> set xs"
  by (induction xs) (auto split: if_splits)

lemma find_fst_None: "find (\<lambda>(v, _). P v) xs = None \<longleftrightarrow> filter P (map fst xs) = []"
  by (auto simp: find_None_iff filter_empty_conv)

lemma handleAddSort_offered:
  assumes "length sorts < length (sortFieldOptions lc ts)"
  shows "handleAddSort lc ts sorts =
    Some (sorts @ [\<lparr>sc_field = hd (filter (\<lambda>f. f \<notin> sc_field ` set sorts) (map fst (sortFieldOptions lc ts))),
                    sc_direction = Asc\<rparr>])"
proof (cases "find (\<lambda>(v, _). v \<notin> sc_field ` set sorts) (sortFieldOptions lc ts)")
  case None
  with unused_left [OF assms] show ?thesis by (simp add: find_fst_None)
next
  case (Some y)
  with find_fst [OF Some] show ?thesis by (simp add: handleAddSort_def Let_def split: prod.splits)
qed

lemma option_words:
  "v \<in> set (map fst (statusOptions lc)) \<Longrightarrow> plain_word v"
  "v \<in> set (map fst CONTENT_TYPE_OPTIONS) \<Longrightarrow> plain_word v"
  by (auto simp: statusOptions_def STATUS_OPTIONS_def TRACKING_STATUS_OPTIONS_def CONTENT_TYPE_OPTIONS_def
      FILTERABLE_CONTENT_TYPES_def plain_word_def js_trim_def is_space_def split: if_splits)

lemma set_filter_address:
  assumes "canonical_query q" "v = [] \<or> plain_word v"
  shows "parseQueryFromParams (router_write quotes (explore_setFilter q f (chosen_filter v))) = set_filter f v q \<and>
    canonical_query (set_filter f v q)"
proof (cases "v = []")
  case True
  have nf: "next_filters (q_filters q) f None = AList.delete f (q_filters q)" by (simp add: next_filters_def)
  have "canonical_query (set_filter f v q)"
    using canonical_next_filters(2) [OF assms(1), of "FvStr ''x''" f] True nf
    by (simp add: set_filter_def plain_word_def js_trim_def is_space_def)
  with True nf show ?thesis
    by (simp add: chosen_filter_def explore_setFilter_def writeQuery_eq set_filter_def explore_roundtrip_aux)
next
  case False
  with assms(2) have v: "canonical_value (FvStr v)" by simp
  have nf: "next_filters (q_filters q) f (Some (FvStr v)) = AList.update f (FvStr v) (q_filters q)"
    using False by (simp add: next_filters_def)
  have "canonical_query (set_filter f v q)"
    using canonical_next_filters(1) [OF assms(1) v, of f] False nf by (simp add: set_filter_def)
  with False nf show ?thesis
    by (simp add: chosen_filter_def explore_setFilter_def writeQuery_eq set_filter_def explore_roundtrip_aux)
qed

lemma canonical_updates:
  assumes "canonical_query q"
  shows "canonical_query (q\<lparr>q_sort := srt, q_page := 1\<rparr>)" "canonical_query (q\<lparr>q_groupBy := g, q_page := 1\<rparr>)"
    "canonical_query (DEFAULT_LIST_ITEM_QUERY\<lparr>q_pageSize := q_pageSize q\<rparr>)"
    "n \<in> set VALID_PAGE_SIZES \<Longrightarrow> canonical_query (q\<lparr>q_pageSize := n, q_page := 1\<rparr>)"
  using assms by (simp_all add: canonical_query_def DEFAULT_LIST_ITEM_QUERY_def)

lemma toolbar_step:
  assumes "canonical_query q" "toolbar_offers lc ts q e"
  shows "toolbar_address quotes lc ts e q = toolbar_intent lc ts e q \<and> canonical_query (toolbar_intent lc ts e q)"
proof (cases e)
  case (PageSizeChosen n)
  with assms(2) have "n \<in> set VALID_PAGE_SIZES" by (auto simp: toolbar_offers_def VALID_PAGE_SIZES_def)
  note canonical_updates(4) [OF assms(1) this]
  with PageSizeChosen show ?thesis
    by (simp add: toolbar_address_def toolbar_navigation_def toolbar_intent_def explore_setPageSize_def writeQuery_eq
        explore_roundtrip_aux)
next
  case ResetPressed
  with canonical_updates(3) [OF assms(1)] show ?thesis
    by (simp add: toolbar_address_def toolbar_navigation_def toolbar_intent_def resetExploration_def writeQuery_eq
        explore_roundtrip_aux)
next
  case (StatusChosen v)
  with assms(2) have "v = [] \<or> plain_word v" and f: "statusField lc ts = Some (if lc then FfContextStatus else FfTrackingStatus)"
    using option_words(1) [of v lc] by (auto simp: toolbar_offers_def statusField_def split: if_splits)
  from set_filter_address [OF assms(1) this(1)] StatusChosen f show ?thesis
    by (simp add: toolbar_address_def toolbar_navigation_def toolbar_intent_def)
next
  case (TypeChosen v)
  with assms(2) have "v = [] \<or> plain_word v" using option_words(2) [of v] by (auto simp: toolbar_offers_def)
  from set_filter_address [OF assms(1) this] TypeChosen show ?thesis
    by (simp add: toolbar_address_def toolbar_navigation_def toolbar_intent_def)
next
  case (GroupChosen g)
  with canonical_updates(2) [OF assms(1)] show ?thesis
    by (simp add: toolbar_address_def toolbar_navigation_def toolbar_intent_def explore_setGroupBy_def writeQuery_eq
        explore_roundtrip_aux)
next
  case AddSortPressed
  with assms(2) have "length (q_sort q) < length (sortFieldOptions lc ts)" by (simp add: toolbar_offers_def)
  note handleAddSort_offered [OF this]
  with AddSortPressed canonical_updates(1) [OF assms(1)] show ?thesis
    by (simp add: toolbar_address_def toolbar_navigation_def toolbar_intent_def explore_setSort_def writeQuery_eq
        explore_roundtrip_aux)
next
  case (SortFieldChosen i f)
  with assms(2) have "i < length (q_sort q)" by (simp add: toolbar_offers_def)
  note sort_handlers(1) [OF this]
  with SortFieldChosen canonical_updates(1) [OF assms(1)] show ?thesis
    by (simp add: toolbar_address_def toolbar_navigation_def toolbar_intent_def explore_setSort_def writeQuery_eq
        explore_roundtrip_aux)
next
  case (SortDirPressed i)
  with assms(2) have "i < length (q_sort q)" by (simp add: toolbar_offers_def)
  note sort_handlers(2) [OF this]
  with SortDirPressed canonical_updates(1) [OF assms(1)] show ?thesis
    by (simp add: toolbar_address_def toolbar_navigation_def toolbar_intent_def explore_setSort_def writeQuery_eq
        explore_roundtrip_aux)
next
  case (RemoveSortPressed i)
  with canonical_updates(1) [OF assms(1)] sort_handlers(3) show ?thesis
    by (simp add: toolbar_address_def toolbar_navigation_def toolbar_intent_def explore_setSort_def writeQuery_eq
        explore_roundtrip_aux)
qed

lemma toolbar_run:
  "canonical_query q \<Longrightarrow> toolbar_runs lc ts es q \<Longrightarrow>
     fold (toolbar_address quotes lc ts) es q = fold (toolbar_intent lc ts) es q \<and>
     canonical_query (fold (toolbar_intent lc ts) es q)"
proof (induction es arbitrary: q)
  case (Cons e es)
  with toolbar_step [of q lc ts e quotes] show ?case by simp
qed simp

lemma toolbar_fields_distinct:
  assumes "distinct (map sc_field (q_sort q))" "\<nexists>i f. e = SortFieldChosen i f" "toolbar_offers lc ts q e"
  shows "distinct (map sc_field (q_sort (toolbar_intent lc ts e q)))"
proof (cases e)
  case AddSortPressed
  with assms(3) have "filter (\<lambda>f. f \<notin> sc_field ` set (q_sort q)) (map fst (sortFieldOptions lc ts)) \<noteq> []"
    by (intro unused_left) (simp add: toolbar_offers_def)
  then have "hd (filter (\<lambda>f. f \<notin> sc_field ` set (q_sort q)) (map fst (sortFieldOptions lc ts))) \<notin> sc_field ` set (q_sort q)"
    using hd_in_set by fastforce
  with AddSortPressed assms(1) show ?thesis by (simp add: toolbar_intent_def)
next
  case (SortDirPressed i)
  with assms(3) have i: "i < length (q_sort q)" by (simp add: toolbar_offers_def)
  have "map sc_field ((q_sort q)[i := (q_sort q ! i)\<lparr>sc_direction := d\<rparr>]) = map sc_field (q_sort q)" for d
    using i by (simp add: map_update list_update_same_conv)
  with SortDirPressed assms(1) show ?thesis by (simp add: toolbar_intent_def)
next
  case (RemoveSortPressed i)
  have "distinct (take i xs @ drop (Suc i) xs)" if "distinct xs" for xs :: "sort_field list"
    using that set_take_disj_set_drop_if_distinct [OF that, of i "Suc i"] by simp
  from this [OF assms(1)] RemoveSortPressed show ?thesis by (simp add: toolbar_intent_def take_map drop_map)
qed (use assms in \<open>simp_all add: toolbar_intent_def set_filter_def DEFAULT_LIST_ITEM_QUERY_def\<close>)

lemma toolbar_run_distinct:
  "toolbar_runs lc ts es q \<Longrightarrow> \<nexists>i f. SortFieldChosen i f \<in> set es \<Longrightarrow> distinct (map sc_field (q_sort q)) \<Longrightarrow>
     distinct (map sc_field (q_sort (fold (toolbar_intent lc ts) es q)))"
proof (induction es arbitrary: q)
  case (Cons e es)
  then have "distinct (map sc_field (q_sort (toolbar_intent lc ts e q)))" by (intro toolbar_fields_distinct) auto
  with Cons show ?case by simp
qed simp

text \<open>C27. Whatever one does with the controls of the toolbar, one after the other, the query that is read back
  from the address after each navigation is the one that the controls mean, as if there were no address in between,
  and it stays a query that the address can hold; the button that adds a field always finds one that is not
  used, and as long as no field of a clause is replaced by hand no two clauses sort by the same field.\<close>

theorem toolbar_run_refines:
  assumes "canonical_query q" "toolbar_runs showListContext showTrackingStatus es q"
  shows "fold (toolbar_address quotes showListContext showTrackingStatus) es q =
      fold (toolbar_intent showListContext showTrackingStatus) es q \<and>
    canonical_query (fold (toolbar_intent showListContext showTrackingStatus) es q) \<and>
    (distinct (map sc_field (q_sort q)) \<and> (\<nexists>i f. SortFieldChosen i f \<in> set es) \<longrightarrow>
      distinct (map sc_field (q_sort (fold (toolbar_intent showListContext showTrackingStatus) es q))))"
  using toolbar_run [OF assms] toolbar_run_distinct [OF assms(2)] by simp

theorem toolbar_run_refines_witness:
  "q_sort (fold (toolbar_address (\<lambda>_. True) False True)
      [AddSortPressed, SortDirPressed 2, StatusChosen ''on_hold'', RemoveSortPressed 0] sample_query) =
    [\<lparr>sc_field = SfDisplayTitle, sc_direction = Asc\<rparr>, \<lparr>sc_field = SfListOrder, sc_direction = Desc\<rparr>]"
proof -
  let ?es = "[AddSortPressed, SortDirPressed 2, StatusChosen ''on_hold'', RemoveSortPressed 0]"
  have "toolbar_runs False True ?es sample_query"
    by (simp add: toolbar_offers_def toolbar_intent_def sample_query_def sortFieldOptions_def SORT_FIELD_OPTIONS_def
        statusField_def statusOptions_def TRACKING_STATUS_OPTIONS_def set_filter_def)
  from toolbar_run_refines [OF sample_query_canonical this, of "\<lambda>_. True"] show ?thesis
    by (simp add: toolbar_intent_def sample_query_def sortFieldOptions_def SORT_FIELD_OPTIONS_def set_filter_def)
qed

text \<open>Replacing the field of a clause by hand can sort by the same field twice; the second clause has no effect.\<close>

lemma field_chosen_twice:
  "map sc_field (q_sort (toolbar_intent True False (SortFieldChosen 1 SfListRating) sample_query)) =
     [SfListRating, SfListRating]"
  by (simp add: toolbar_intent_def sample_query_def)

end
