(* ===== verification/Forms.thy ===== *)
theory Forms
  imports Mutations ListActions PublicProfile SessionView AddToList
begin

text \<open>
  The dialogs and forms that send what a user types: creating and editing a list
  (\<open>modals/CreateListModal.tsx\<close>, \<open>modals/EditListModal.tsx\<close>), rating (\<open>modals/RatingModal.tsx\<close>, and the one that
  \<open>ListModals.tsx\<close> opens), the public profile (\<open>EditProfileModal.tsx\<close>), signing in and up
  (\<open>forms/LoginForm.tsx\<close>, \<open>forms/RegisterForm.tsx\<close>).  A schema is the values it lets through or the first
  message of each field; the checks of a string run in the order of the schema, on the text as typed
  until \<open>trim\<close> replaces it.
\<close>

subsection \<open>Dialogs\<close>

text \<open>
  A dialog with a form: the values that \<open>reset()\<close> goes back to, the values in the fields, and the messages
  of the fields and of the form.
\<close>

record 'v dialog =
  dg_open :: bool
  dg_defaults :: 'v
  dg_values :: 'v
  dg_issues :: "(string \<times> string) list"
  dg_root :: "string option"

definition form_reset :: "'v dialog \<Rightarrow> 'v dialog" where
  "form_reset d = d\<lparr>dg_values := dg_defaults d, dg_issues := [], dg_root := None\<rparr>"

definition form_reset_to :: "'v \<Rightarrow> 'v dialog \<Rightarrow> 'v dialog" where
  "form_reset_to v d = form_reset (d\<lparr>dg_defaults := v\<rparr>)"

text \<open>\<open>handleSubmit\<close>: the messages of the schema, or what the callback makes of the values and a form without messages.\<close>

definition form_submit ::
  "('v \<Rightarrow> (string \<times> string) list + 'd) \<Rightarrow> ('d \<Rightarrow> 'v dialog \<Rightarrow> 's \<Rightarrow> 'v dialog \<times> 's) \<Rightarrow>
     'v dialog \<Rightarrow> 's \<Rightarrow> 'v dialog \<times> 's" where
  "form_submit schema onSubmit d s =
     (case schema (dg_values d) of
        Inl issues \<Rightarrow> (d\<lparr>dg_issues := issues, dg_root := None\<rparr>, s)
      | Inr data \<Rightarrow> onSubmit data (d\<lparr>dg_issues := [], dg_root := None\<rparr>) s)"

definition dialog_close :: "bool \<Rightarrow> 'v dialog \<Rightarrow> 'v dialog" where
  "dialog_close isLoading d = (if isLoading then d else form_reset d\<lparr>dg_open := False\<rparr>)"

definition issue :: "string \<Rightarrow> string + 'a \<Rightarrow> (string \<times> string) list" where
  "issue path r = (case r of Inl message \<Rightarrow> [(path, message)] | Inr _ \<Rightarrow> [])"

subsection \<open>Lists\<close>

definition list_name_field :: "string \<Rightarrow> string + string" where
  "list_name_field v =
     (if length v < 1 then Inl ''List name is required''
      else if length v < 3 then Inl ''List name must be at least 3 characters''
      else if 100 < length v then Inl ''List name must be less than 100 characters''
      else Inr (js_trim v))"

definition list_description_field :: "string \<Rightarrow> string + string" where
  "list_description_field v =
     (if 500 < length v then Inl ''Description must be less than 500 characters'' else Inr v)"

record create_list_values =
  cl_name :: string
  cl_description :: string
  cl_listType :: list_type

definition createListSchema :: "create_list_values \<Rightarrow> (string \<times> string) list + create_list_values" where
  "createListSchema v =
     (case (list_name_field (cl_name v), list_description_field (cl_description v)) of
        (Inr name, Inr description) \<Rightarrow> Inr (v\<lparr>cl_name := name, cl_description := description\<rparr>)
      | (name, description) \<Rightarrow> Inl (issue ''name'' name @ issue ''description'' description))"

definition create_defaults :: "string \<Rightarrow> create_list_values" where
  "create_defaults name = \<lparr>cl_name = name, cl_description = [], cl_listType = PERSONAL\<rparr>"

definition create_effect :: "string \<Rightarrow> create_list_values dialog \<Rightarrow> create_list_values dialog" where
  "create_effect randomName d =
     (if dg_open d then form_reset_to (create_defaults randomName) d else form_reset d)"

definition create_onSubmit ::
  "client_env \<Rightarrow> create_list_values \<Rightarrow> create_list_values dialog \<Rightarrow> 'z client_ui_scheme \<Rightarrow>
     create_list_values dialog \<times> 'z client_ui_scheme" where
  "create_onSubmit env data d s =
     (case createList_mutate (cl_name data) (optional_text (Some (cl_description data))) (Some (cl_listType data)) env s of
        (Inl e, s) \<Rightarrow> (d\<lparr>dg_root := Some (client_message e)\<rparr>, s)
      | (Inr _, s) \<Rightarrow> (form_reset d\<lparr>dg_open := False\<rparr>, s))"

definition create_submit ::
  "client_env \<Rightarrow> create_list_values dialog \<Rightarrow> 'z client_ui_scheme \<Rightarrow>
     create_list_values dialog \<times> 'z client_ui_scheme" where
  "create_submit env = form_submit createListSchema (create_onSubmit env)"

record edit_list_values =
  el_name :: string
  el_description :: string
  el_listType :: list_type
  el_visibility :: list_visibility

definition editListSchema :: "edit_list_values \<Rightarrow> (string \<times> string) list + edit_list_values" where
  "editListSchema v =
     (case (list_name_field (el_name v), list_description_field (el_description v)) of
        (Inr name, Inr description) \<Rightarrow> Inr (v\<lparr>el_name := name, el_description := description\<rparr>)
      | (name, description) \<Rightarrow> Inl (issue ''name'' name @ issue ''description'' description))"

text \<open>
  The effect of the dialog; \<open>ListModals.tsx\<close> builds \<open>initialData\<close> anew whenever it renders, so that the effect
  runs at each of its renders.
\<close>

definition edit_effect :: "edit_list_values option \<Rightarrow> bool \<Rightarrow> edit_list_values dialog \<Rightarrow> edit_list_values dialog" where
  "edit_effect initialData isLoading d =
     (if dg_open d \<and> initialData \<noteq> None \<and> \<not> isLoading
      then (case initialData of None \<Rightarrow> d | Some v \<Rightarrow> form_reset_to v d)
      else if \<not> dg_open d then form_reset d else d)"

definition edit_initialData :: "user_list \<Rightarrow> edit_list_values" where
  "edit_initialData l =
     \<lparr>el_name = ul_name l, el_description = or_str (ul_description l) [], el_listType = ul_list_type l,
      el_visibility = ul_visibility l\<rparr>"

definition edit_onSubmit ::
  "unit outcome \<Rightarrow> edit_list_values \<Rightarrow> edit_list_values dialog \<Rightarrow> action_state \<Rightarrow>
     edit_list_values dialog \<times> action_state" where
  "edit_onSubmit answer data d st =
     (case handleUpdateList (el_name data) (optional_text (Some (el_description data))) (Some (el_listType data))
         (Some (el_visibility data)) answer st of
        (Inl message, st) \<Rightarrow> (d\<lparr>dg_root := Some message\<rparr>, st)
      | (Inr _, st) \<Rightarrow> (d\<lparr>dg_open := False\<rparr>, st))"

definition edit_submit ::
  "unit outcome \<Rightarrow> edit_list_values dialog \<Rightarrow> action_state \<Rightarrow> edit_list_values dialog \<times> action_state" where
  "edit_submit answer = form_submit editListSchema (edit_onSubmit answer)"

subsection \<open>Ratings\<close>

record rating_values =
  rv_score :: js_num
  rv_comment :: string
  rv_spoiler :: bool

text \<open>The message for a score that is no finite number is a parameter.\<close>

definition rating_score_field :: "(js_num \<Rightarrow> string) \<Rightarrow> js_num \<Rightarrow> string + rat" where
  "rating_score_field bad_number v =
     (case v of
        Fin r \<Rightarrow>
          if r < 1 / 2 then Inl ''Rating must be at least 0.5''
          else if 10 < r then Inl ''Rating must be at most 10'' else Inr r
      | n \<Rightarrow> Inl (bad_number n))"

definition rating_comment_field :: "string \<Rightarrow> string + string" where
  "rating_comment_field v = (if 2000 < length v then Inl ''Review must be 2,000 characters or fewer'' else Inr v)"

definition ratingSchema :: "(js_num \<Rightarrow> string) \<Rightarrow> rating_values \<Rightarrow> (string \<times> string) list + (rat \<times> string \<times> bool)" where
  "ratingSchema bad_number v =
     (case (rating_score_field bad_number (rv_score v), rating_comment_field (rv_comment v)) of
        (Inr sc, Inr comment) \<Rightarrow> Inr (sc, comment, rv_spoiler v)
      | (sc, comment) \<Rightarrow> Inl (issue ''score'' sc @ issue ''comment'' comment))"

definition rating_defaults :: "'i rating_of option \<Rightarrow> rating_values" where
  "rating_defaults existingRating =
     (case existingRating of
        None \<Rightarrow> \<lparr>rv_score = Fin 0, rv_comment = [], rv_spoiler = False\<rparr>
      | Some r \<Rightarrow>
          \<lparr>rv_score = js_parseFloat (rt_score r), rv_comment = or_str (rt_comment r) [], rv_spoiler = rt_spoiler r\<rparr>)"

definition rating_effect :: "'i rating_of option \<Rightarrow> rating_values dialog \<Rightarrow> rating_values dialog" where
  "rating_effect existingRating d = (if dg_open d then form_reset_to (rating_defaults existingRating) d else d)"

definition handleScoreChange :: "rat \<Rightarrow> rating_values dialog \<Rightarrow> rating_values dialog" where
  "handleScoreChange newScore d = d\<lparr>dg_values := (dg_values d)\<lparr>rv_score := Fin newScore\<rparr>\<rparr>"

text \<open>What the item of a dialog is read for: its source, its id there and its type.\<close>

type_synonym rated_item = "source_api \<times> string \<times> content_type"

definition rating_payload :: "(rat \<Rightarrow> string) \<Rightarrow> rated_item \<Rightarrow> rat \<times> string \<times> bool \<Rightarrow> rating_create" where
  "rating_payload num_text item data =
     (case (item, data) of ((source, ext, typ), (sc, comment, spoiler)) \<Rightarrow>
        \<lparr>rc_source_api = source, rc_external_id = ext, rc_content_type = typ, rc_score = num_text sc,
         rc_comment = Some (if comment = [] then None else Some comment),
         rc_spoiler = Some (js_trim comment \<noteq> [] \<and> spoiler)\<rparr>)"

definition rating_onSubmit ::
  "(rat \<Rightarrow> string) \<Rightarrow> rated_item option \<Rightarrow> rated_item option \<Rightarrow> (rating_create \<Rightarrow> 's \<Rightarrow> unit outcome \<times> 's) \<Rightarrow>
     rat \<times> string \<times> bool \<Rightarrow> rating_values dialog \<Rightarrow> 's \<Rightarrow> rating_values dialog \<times> 's" where
  "rating_onSubmit num_text contentItem existingItem onSubmitRating data d s =
     (case (if contentItem \<noteq> None then contentItem else existingItem) of
        None \<Rightarrow> (d\<lparr>dg_root := Some ''No content item available for rating''\<rparr>, s)
      | Some item \<Rightarrow>
          (case onSubmitRating (rating_payload num_text item data) s of
             (Inl message, s) \<Rightarrow> (d\<lparr>dg_root := Some message\<rparr>, s)
           | (Inr _, s) \<Rightarrow> (form_reset d\<lparr>dg_open := False\<rparr>, s)))"

definition rating_submit ::
  "(js_num \<Rightarrow> string) \<Rightarrow> (rat \<Rightarrow> string) \<Rightarrow> rated_item option \<Rightarrow> rated_item option \<Rightarrow>
     (rating_create \<Rightarrow> 's \<Rightarrow> unit outcome \<times> 's) \<Rightarrow> rating_values dialog \<Rightarrow> 's \<Rightarrow> rating_values dialog \<times> 's" where
  "rating_submit bad_number num_text contentItem existingItem onSubmitRating =
     form_submit (ratingSchema bad_number) (rating_onSubmit num_text contentItem existingItem onSubmitRating)"

text \<open>The rating that the page of a list gives the dialog: the one of the signed-in user on the row.\<close>

definition score_text :: "(js_num \<Rightarrow> string) \<Rightarrow> score \<Rightarrow> string" where
  "score_text js_num_text v = (case v of ScoreStr t \<Rightarrow> t | ScoreNum n \<Rightarrow> js_num_text n)"

definition userExistingRating ::
  "(js_num \<Rightarrow> string) \<Rightarrow> list_item option \<Rightarrow> user option \<Rightarrow> content_item_data rating_of option" where
  "userExistingRating js_num_text ratingModalItem currentUser =
     (case (ratingModalItem, currentUser) of
        (Some item, Some u) \<Rightarrow>
          (case List.find (\<lambda>mr. mr_user_id mr = Some (usr_id u)) (li_member_ratings item) of
             None \<Rightarrow> None
           | Some mr \<Rightarrow> Some (Rating 0 u (li_content_item item) (score_text js_num_text (mr_score mr)) None False True [] []))
      | _ \<Rightarrow> None)"

definition list_rated_item :: "list_item \<Rightarrow> rated_item" where
  "list_rated_item item =
     (let c = li_content_item item in (cid_source_api c, cid_external_id c, cid_content_type c))"

subsection \<open>The public profile\<close>

definition editProfileSchema :: "public_profile_update \<Rightarrow> (string \<times> string) list + public_profile_update" where
  "editProfileSchema v =
     (let bio = (if 280 < length (ppu_bio v) then Inl ''Bio must be 280 characters or fewer.'' else Inr (ppu_bio v));
          avatar = (let a = ppu_avatar_url v in
            if 2048 < length a then Inl ''Avatar URL is too long.''
            else if a \<noteq> [] \<and> \<not> prefix ''https://'' a then Inl ''Use an HTTPS image URL.'' else Inr a) in
      case (bio, avatar) of
        (Inr _, Inr _) \<Rightarrow> Inr v
      | _ \<Rightarrow> Inl (issue ''bio'' bio @ issue ''avatar_url'' avatar))"

definition profile_values :: "public_profile_identity \<Rightarrow> public_profile_update" where
  "profile_values p =
     \<lparr>ppu_bio = ppi_bio p, ppu_avatar_url = ppi_avatar_url p, ppu_banner_content_id = ppi_banner_content_id p,
      ppu_banner_image_id = ppi_banner_image_id p\<rparr>"

definition profile_effect ::
  "public_profile_identity \<Rightarrow> public_profile_update dialog \<Rightarrow> public_profile_update dialog" where
  "profile_effect profile d = (if \<not> dg_open d then d else form_reset_to (profile_values profile) d)"

text \<open>The update runs with its optimistic changes; the dialog closes when the server accepted it.\<close>

definition profile_form_onSubmit ::
  "(json \<Rightarrow> public_profile_identity) \<Rightarrow> string \<Rightarrow> client_env \<Rightarrow> public_profile_update \<Rightarrow>
     public_profile_update dialog \<Rightarrow> client_state \<times> overview_cache \<Rightarrow>
     public_profile_update dialog \<times> client_state \<times> overview_cache" where
  "profile_form_onSubmit as_identity username env data d st =
     (let answer = fst (profile_updateMe data env (fst (snd (profile_onMutate username data st))));
          st' = snd (run_profile_update as_identity username data env st) in
      case answer of
        Inl _ \<Rightarrow> (d, st')
      | Inr v \<Rightarrow> ((form_reset_to (profile_values (as_identity v)) d)\<lparr>dg_open := False\<rparr>, st'))"

definition profile_form_submit ::
  "(json \<Rightarrow> public_profile_identity) \<Rightarrow> string \<Rightarrow> client_env \<Rightarrow>
     public_profile_update dialog \<Rightarrow> client_state \<times> overview_cache \<Rightarrow>
     public_profile_update dialog \<times> client_state \<times> overview_cache" where
  "profile_form_submit as_identity username env =
     form_submit editProfileSchema (profile_form_onSubmit as_identity username env)"

subsection \<open>Signing in and up\<close>

text \<open>What \<open>email()\<close> accepts is a parameter.\<close>

definition email_field :: "(string \<Rightarrow> bool) \<Rightarrow> string \<Rightarrow> string + string" where
  "email_field is_email v =
     (if v = [] then Inl ''Email is required''
      else if \<not> is_email v then Inl ''Please enter a valid email address'' else Inr v)"

definition loginSchema :: "(string \<Rightarrow> bool) \<Rightarrow> string \<times> string \<Rightarrow> (string \<times> string) list + (string \<times> string)" where
  "loginSchema is_email v =
     (let email = email_field is_email (fst v);
          password = (if snd v = [] then Inl ''Password is required'' else Inr (snd v)) in
      case (email, password) of
        (Inr e, Inr p) \<Rightarrow> Inr (e, p)
      | _ \<Rightarrow> Inl (issue ''email'' email @ issue ''password'' password))"

record register_values =
  rg_username :: string
  rg_email :: string
  rg_password :: string
  rg_confirmPassword :: string

definition username_field :: "string \<Rightarrow> string + string" where
  "username_field v =
     (if length v < 1 then Inl ''Username is required''
      else if length v < 3 then Inl ''Username must be at least 3 characters'' else Inr (js_trim v))"

definition password_field :: "string \<Rightarrow> string + string" where
  "password_field v =
     (if length v < 1 then Inl ''Password is required''
      else if length v < 8 then Inl ''Password must be at least 8 characters'' else Inr v)"

text \<open>The second password: its own message comes before the one of the comparison.\<close>

definition confirm_field :: "string \<Rightarrow> string \<Rightarrow> string + string" where
  "confirm_field password v =
     (if v = [] then Inl ''Please confirm your password''
      else if password \<noteq> v then Inl ''Passwords do not match'' else Inr v)"

definition registerSchema :: "(string \<Rightarrow> bool) \<Rightarrow> register_values \<Rightarrow> (string \<times> string) list + register_values" where
  "registerSchema is_email v =
     (let username = username_field (rg_username v); email = email_field is_email (rg_email v);
          password = password_field (rg_password v); confirm = confirm_field (rg_password v) (rg_confirmPassword v);
          issues = issue ''username'' username @ issue ''email'' email @ issue ''password'' password @
            issue ''confirmPassword'' confirm in
      if issues \<noteq> [] then Inl issues
      else Inr (v\<lparr>rg_username := js_trim (rg_username v)\<rparr>))"

text \<open>Where the page goes after the form was sent, if it was and succeeded.\<close>

definition login_onSubmit :: "string option \<Rightarrow> string \<times> string \<Rightarrow> string option client_op" where
  "login_onSubmit next data = catch_c (handleLogin (fst data) (snd data) next) (\<lambda>_. return_c None)"

definition register_onSubmit :: "string option \<Rightarrow> register_values \<Rightarrow> string option client_op" where
  "register_onSubmit next data =
     catch_c (handleRegister (rg_username data) (rg_email data) (rg_password data) next) (\<lambda>_. return_c None)"

subsection \<open>What is sent\<close>

lemma createListSchema_accepts:
  "createListSchema v = Inr data \<longleftrightarrow>
     3 \<le> length (cl_name v) \<and> length (cl_name v) \<le> 100 \<and> length (cl_description v) \<le> 500 \<and>
     data = v\<lparr>cl_name := js_trim (cl_name v)\<rparr>"
  by (auto simp: createListSchema_def list_name_field_def list_description_field_def)

lemma js_trim_empty: "js_trim s = [] \<longleftrightarrow> list_all is_space s"
proof -
  have "js_trim s = [] \<longleftrightarrow> (\<forall>c\<in>set (dropWhile is_space s). is_space c)" by (simp add: js_trim_def)
  also have "\<dots> \<longleftrightarrow> (\<forall>c\<in>set s. is_space c)"
    by (metis dropWhile_eq_Nil_conv hd_dropWhile list.set_sel(1) set_dropWhileD)
  finally show ?thesis by (simp add: list_all_iff)
qed

text \<open>The dialog for a new list accepts a name by the length of what was typed and sends what is left
  without the blanks around it: from three to a hundred blanks are accepted, and the list is created with an
  empty name, although the name is required.\<close>

theorem blank_name_sent:
  "(createListSchema v = Inr data \<longleftrightarrow>
      3 \<le> length (cl_name v) \<and> length (cl_name v) \<le> 100 \<and> length (cl_description v) \<le> 500 \<and>
      data = v\<lparr>cl_name := js_trim (cl_name v)\<rparr>) \<and>
   ((\<exists>sent. createListSchema v = Inr sent \<and> cl_name sent = []) \<longleftrightarrow>
      list_all is_space (cl_name v) \<and> 3 \<le> length (cl_name v) \<and> length (cl_name v) \<le> 100 \<and>
      length (cl_description v) \<le> 500)"
  using js_trim_empty [of "cl_name v"] by (auto simp: createListSchema_accepts)

lemma random_words:
  "list_all (\<lambda>a. 3 \<le> length a \<and> length a \<le> 12 \<and> \<not> is_space (hd a)) ADJECTIVES"
  "list_all (\<lambda>n. n \<noteq> [] \<and> length n \<le> 12 \<and> \<not> is_space (last n)) NOUNS"
  "length ADJECTIVES = 30" "length NOUNS = 30"
  by (simp_all add: ADJECTIVES_def NOUNS_def is_space_def)

lemma random_index: "0 \<le> r \<Longrightarrow> r < 1 \<Longrightarrow> nat \<lfloor>r * 30\<rfloor> < 30" for r :: rat
  by (simp add: nat_less_iff floor_less_iff)

text \<open>The name that the dialog proposes is one that it accepts.\<close>

lemma random_name_accepted:
  assumes "0 \<le> r1" "r1 < 1" "0 \<le> r2" "r2 < 1"
  shows "createListSchema (create_defaults (generateRandomListName r1 r2)) =
    Inr (create_defaults (generateRandomListName r1 r2))"
proof -
  let ?a = "ADJECTIVES ! nat \<lfloor>r1 * 30\<rfloor>" and ?n = "NOUNS ! nat \<lfloor>r2 * 30\<rfloor>"
  have a: "3 \<le> length ?a" "length ?a \<le> 12" "\<not> is_space (hd ?a)"
    using random_words(1,3) random_index [OF assms(1,2)] by (auto simp: list_all_length)
  have n: "?n \<noteq> []" "length ?n \<le> 12" "\<not> is_space (last ?n)"
    using random_words(2,4) random_index [OF assms(3,4)] by (auto simp: list_all_length)
  have "hd (?a @ '' '' @ ?n) = hd ?a" using a(1) by (cases ?a) auto
  then have "js_trim (?a @ '' '' @ ?n) = ?a @ '' '' @ ?n" using a n by (intro js_trim_idle) auto
  with a n show ?thesis
    by (simp add: createListSchema_accepts create_defaults_def generateRandomListName_def random_pick_def random_words Let_def)
qed

text \<open>A rating that the dialog sends has a score between 0.5 and 10, a comment that is not empty and has at
  most 2,000 characters, or none, and is marked as a spoiler only if its comment has more than blanks.\<close>

theorem rating_request_ok:
  assumes "ratingSchema bad_number v = Inr data"
  shows "case rating_payload num_text item data of r \<Rightarrow>
    (\<exists>sc. rv_score v = Fin sc \<and> 1 / 2 \<le> sc \<and> sc \<le> 10 \<and> rc_score r = num_text sc) \<and>
    (rc_comment r = Some None \<and> rc_spoiler r = Some False \<or>
     (\<exists>c. rc_comment r = Some (Some c) \<and> c \<noteq> [] \<and> length c \<le> 2000 \<and>
        rc_spoiler r = Some (js_trim c \<noteq> [] \<and> rv_spoiler v)))"
  using assms
  by (auto simp: ratingSchema_def rating_score_field_def rating_comment_field_def rating_payload_def
      split: js_num.splits if_splits prod.splits)

theorem rating_request_ok_witness:
  "rc_spoiler (rating_payload (\<lambda>_. ''9'') (TMDB, ''550'', MOVIE) (9, ''great'', True)) = Some True"
proof -
  have "ratingSchema (\<lambda>_. ''?'') \<lparr>rv_score = Fin 9, rv_comment = ''great'', rv_spoiler = True\<rparr> = Inr (9, ''great'', True)"
    by (simp add: ratingSchema_def rating_score_field_def rating_comment_field_def)
  from rating_request_ok [OF this, of "\<lambda>_. ''9''" "(TMDB, ''550'', MOVIE)"] show ?thesis
    by (simp add: rating_payload_def js_trim_def is_space_def)
qed

text \<open>C29. Rating an item again on the page of a list erases the review: the dialog is given the old rating
  without its comment, whatever the comment is, so that choosing another score and saving sends the comment \<open>null\<close> and
  takes back the mark of a spoiler.\<close>

theorem list_rating_erases_review:
  assumes "userExistingRating js_num_text (Some item) (Some u) = Some r" and "dg_open d"
    and "1 / 2 \<le> sc" "sc \<le> 10"
  shows "case rating_submit bad_number num_text (Some (list_rated_item item)) existingItem (\<lambda>r s. (Inr (), s @ [r]))
      (handleScoreChange sc (rating_effect (Some r) d)) [] of (d', sent) \<Rightarrow>
    \<not> dg_open d' \<and>
    (\<exists>q flds. sent = [q] \<and> rc_score q = num_text sc \<and> rc_comment q = Some None \<and> rc_spoiler q = Some False \<and>
       json_of_rating q = JObj flds \<and> (''comment'', JNull) \<in> set flds)"
proof -
  have r: "rt_comment r = None" "\<not> rt_spoiler r"
    using assms(1) by (auto simp: userExistingRating_def split: option.splits)
  let ?d = "handleScoreChange sc (rating_effect (Some r) d)"
  have v: "rv_score (dg_values ?d) = Fin sc" "rv_comment (dg_values ?d) = []" "\<not> rv_spoiler (dg_values ?d)"
    using assms(2) r
    by (simp_all add: handleScoreChange_def rating_effect_def form_reset_to_def form_reset_def rating_defaults_def or_str_def)
  then have "ratingSchema bad_number (dg_values ?d) = Inr (sc, [], False)"
    using assms(3,4) by (simp add: ratingSchema_def rating_score_field_def rating_comment_field_def)
  moreover obtain a b c where "list_rated_item item = (a, b, c)" by (metis prod_cases3)
  ultimately show ?thesis
    by (simp add: rating_submit_def form_submit_def rating_onSubmit_def rating_payload_def form_reset_def
        json_of_rating_def)
qed

definition reviewed_item :: list_item where
  "reviewed_item =
     (sample_item 1 None None)
       \<lparr>li_member_ratings := [\<lparr>mr_user_id = Some 7, mr_score = ScoreStr ''8.0'', mr_comment = Some ''A masterpiece'',
          mr_created_at = None, mr_updated_at = None, mr_is_owner = None\<rparr>]\<rparr>"

definition sample_rating_dialog :: "rating_values dialog" where
  "sample_rating_dialog =
     \<lparr>dg_open = True, dg_defaults = rating_defaults (None :: unit rating_of option),
      dg_values = rating_defaults (None :: unit rating_of option), dg_issues = [], dg_root = None\<rparr>"

theorem list_rating_erases_review_witness:
  "mr_comment (hd (li_member_ratings reviewed_item)) = Some ''A masterpiece'' \<and>
     rc_comment (hd (snd (rating_submit (\<lambda>_. ''?'') (\<lambda>_. ''9'') (Some (list_rated_item reviewed_item)) None
      (\<lambda>r s. (Inr (), s @ [r])) (handleScoreChange 9 (rating_effect
         (userExistingRating (\<lambda>_. ''8'') (Some reviewed_item) (Some (sample_user 7 ''ana''))) sample_rating_dialog)) []))) = Some None"
proof -
  obtain r where r: "userExistingRating (\<lambda>_. ''8'') (Some reviewed_item) (Some (sample_user 7 ''ana'')) = Some r"
    by (simp add: userExistingRating_def reviewed_item_def sample_user_def)
  have "dg_open sample_rating_dialog" "1 / 2 \<le> (9 :: rat)" "(9 :: rat) \<le> 10" by (simp_all add: sample_rating_dialog_def)
  from list_rating_erases_review [OF r this, where bad_number = "\<lambda>_. ''?''" and num_text = "\<lambda>_. ''9''" and existingItem = None]
  show ?thesis unfolding r by (auto simp: reviewed_item_def split: prod.splits)
qed

text \<open>When a change of a list fails, what the user typed is lost and the failure is not shown: the
  message stands in the form and the cached list is as it was, but the page renders
  once more when it stops loading, and the effect of the dialog, which is given the list anew at each render, sets
  the fields back to the list and removes the message.\<close>

theorem edit_failure_discards:
  assumes "dg_open d" "editListSchema (dg_values d) = Inr data"
  shows "case edit_submit (Inl message) d st of (d1, st1) \<Rightarrow>
    dg_open d1 \<and> dg_values d1 = dg_values d \<and> dg_root d1 = Some message \<and>
    ac_cache st1 = ac_cache st \<and> \<not> ac_loading st1 \<and>
    (case edit_effect (Some (edit_initialData l)) (ac_loading st1) d1 of d2 \<Rightarrow>
       dg_open d2 \<and> dg_values d2 = edit_initialData l \<and> dg_root d2 = None)"
  using assms
  by (simp add: edit_submit_def form_submit_def edit_onSubmit_def handleUpdateList_def edit_effect_def
      form_reset_to_def form_reset_def)

theorem edit_failure_discards_witness:
  "\<exists>d. dg_values d = \<lparr>el_name = ''Film noir'', el_description = [], el_listType = SHARED, el_visibility = PRIVATE\<rparr> \<and>
     (\<forall>l st. \<exists>d1 st1. edit_submit (Inl ''offline'') d st = (d1, st1) \<and>
        dg_values (edit_effect (Some (edit_initialData l)) (ac_loading st1) d1) = edit_initialData l)"
proof -
  let ?v = "\<lparr>el_name = ''Film noir'', el_description = [], el_listType = SHARED, el_visibility = PRIVATE\<rparr>"
  let ?d = "\<lparr>dg_open = True, dg_defaults = ?v, dg_values = ?v, dg_issues = [], dg_root = None\<rparr>"
  have "dg_open ?d" "editListSchema (dg_values ?d) = Inr (?v\<lparr>el_name := js_trim ''Film noir''\<rparr>)"
    by (simp_all add: editListSchema_def list_name_field_def list_description_field_def)
  note failed = edit_failure_discards [OF this, of "''offline''"]
  have "\<exists>d1 st1. edit_submit (Inl ''offline'') ?d st = (d1, st1) \<and>
      dg_values (edit_effect (Some (edit_initialData l)) (ac_loading st1) d1) = edit_initialData l" for l st
    using failed [of st l] unfolding case_prod_beta by (metis prod.collapse)
  then show ?thesis by (intro exI [of _ ?d]) simp
qed

end
