(* ===== verification/TrackingHandlers.thy ===== *)
theory TrackingHandlers
  imports Tracking PageQueries ContentTypes
begin

text \<open>
  What the pages do with the progress of the viewer: the handlers of the page of an item
  (\<open>ContentDetailPage/index.tsx\<close>, \<open>RatingsSection.tsx\<close>) and of a row of a list
  (\<open>ListItemTrackingSection.tsx\<close>, \<open>ContentTrackingControls.tsx\<close>), with the questions that they ask before a
  change that has effects.  \<open>ask\<close> is the answer to a question, \<open>now\<close> the clock, and
  \<open>as_answer\<close> reads the tracking and \<open>should_prompt_rating\<close> from an answer of the server.
\<close>

subsection \<open>The mutations with their answers\<close>

record tracking_page =
  tp_client :: client_state
  tp_details :: detail_cache
  tp_toasts :: "string list"

type_synonym answer_reader = "json \<Rightarrow> user_content_tracking \<times> bool"

text \<open>\<open>mutateAsync\<close>: the outcome of the request, with what the mutation does to the cache and the toasts.\<close>

definition track_async ::
  "answer_reader \<Rightarrow> string \<Rightarrow> tracking_vars \<Rightarrow> ('z tracking_page_scheme, user_content_tracking \<times> bool) op_on" where
  "track_async as_answer now vars env s =
     (case run_tracking (fst \<circ> as_answer) now vars env (tp_client s, tp_details s) of
        (toast, client, details) \<Rightarrow>
          (case fst (tracking_request vars env (tp_client s)) of Inl e \<Rightarrow> Inl e | Inr v \<Rightarrow> Inr (as_answer v),
           s\<lparr>tp_client := client, tp_details := details,
             tp_toasts := tp_toasts s @ (case toast of None \<Rightarrow> [] | Some t \<Rightarrow> [t])\<rparr>))"

definition effect_question :: "string \<Rightarrow> string \<Rightarrow> string" where
  "effect_question action effectText =
     action @ '' will '' @ or_str (Some effectText) ''update related activity'' @ ''. Continue?''"

subsection \<open>The page of an item\<close>

record detail_state = tracking_page +
  dst_modals :: content_modals

definition prompt_rating :: "user_content_tracking \<times> bool \<Rightarrow> (detail_state, unit) op_on" where
  "prompt_rating answer =
     (if snd answer then update_c (\<lambda>s. s\<lparr>dst_modals := content_openRatingModal (dst_modals s)\<rparr>) else return_c ())"

definition handleTrackingStatusChange ::
  "(string \<Rightarrow> bool) \<Rightarrow> answer_reader \<Rightarrow> string \<Rightarrow> int \<Rightarrow> tracking_status \<Rightarrow> (detail_state, unit) op_on" where
  "handleTrackingStatusChange ask as_answer now contentId status =
     catch_c
       (then_c (track_async as_answer now (SetStatus contentId status False)) prompt_rating)
       (\<lambda>e. case getTrackingEffectDescription e of
          None \<Rightarrow> return_c ()
        | Some effectText \<Rightarrow>
            if ask (effect_question ''Changing progress'' effectText)
            then then_c (track_async as_answer now (SetStatus contentId status True)) prompt_rating
            else return_c ())"

definition handleDeleteTracking ::
  "(string \<Rightarrow> bool) \<Rightarrow> answer_reader \<Rightarrow> string \<Rightarrow> int \<Rightarrow> (detail_state, unit) op_on" where
  "handleDeleteTracking ask as_answer now contentId =
     catch_c
       (then_c (track_async as_answer now (DeleteTracking contentId False)) (\<lambda>_. return_c ()))
       (\<lambda>e. case getTrackingEffectDescription e of
          None \<Rightarrow> return_c ()
        | Some effectText \<Rightarrow>
            if ask (effect_question ''Stopping progress'' effectText)
            then then_c (track_async as_answer now (DeleteTracking contentId True)) (\<lambda>_. return_c ())
            else return_c ())"

definition handleFavoriteChange ::
  "answer_reader \<Rightarrow> string \<Rightarrow> int \<Rightarrow> bool \<Rightarrow> (detail_state, unit) op_on" where
  "handleFavoriteChange as_answer now contentId isFavorite =
     then_c (track_async as_answer now (SetFavorite contentId isFavorite)) (\<lambda>_. return_c ())"

text \<open>Rating from the page: a redirect to the login page, or the dialog once the user agreed.\<close>

definition handleRateContent ::
  "(string \<Rightarrow> bool) \<Rightarrow> bool \<Rightarrow> auth_state \<Rightarrow> string \<Rightarrow> string \<Rightarrow> content_item \<Rightarrow> content_modals \<Rightarrow>
     redirect_to option \<times> content_modals" where
  "handleRateContent ask isAuthenticated st pathname searchStr contentItem modals =
     (case auth_required (Some isAuthenticated) st pathname searchStr of
        Some r \<Rightarrow> (Some r, modals)
      | None \<Rightarrow>
          (None,
           if map_option uct_status (ci_current_user_tracking contentItem) \<noteq> Some Completed \<and>
              \<not> ask ''Saving a rating will mark this content as completed. Continue?''
           then modals else content_openRatingModal modals))"

definition handleAddToList ::
  "bool \<Rightarrow> auth_state \<Rightarrow> string \<Rightarrow> string \<Rightarrow> content_modals \<Rightarrow> redirect_to option \<times> content_modals" where
  "handleAddToList isAuthenticated st pathname searchStr modals =
     (case auth_required (Some isAuthenticated) st pathname searchStr of
        Some r \<Rightarrow> (Some r, modals) | None \<Rightarrow> (None, openAddToListModal modals))"

definition contentItemForModal :: "content_item option \<Rightarrow> string \<times> string \<times> string" where
  "contentItemForModal contentItem =
     (case contentItem of
        None \<Rightarrow> ([], [], [])
      | Some c \<Rightarrow> (source_api_str (ci_source_api c), ci_external_id c, content_type_str (ci_content_type c)))"

text \<open>
  The seasons that the dialog for lists offers, and the show they are of: only for a show whose details hold
  a list of seasons that is not empty.
\<close>

definition modal_seasons :: "content_item \<Rightarrow> json option \<Rightarrow> (json list \<times> string) option" where
  "modal_seasons contentItem details =
     (if ci_content_type contentItem = TV_SHOW
      then (case details of
          Some (JObj flds) \<Rightarrow>
            (case json_field ''seasons'' (JObj flds) of
               Some (JArr (x # xs)) \<Rightarrow> Some (x # xs, ci_external_id contentItem)
             | _ \<Rightarrow> None)
        | _ \<Rightarrow> None)
      else None)"

text \<open>The ratings of an item: the one of the user first.\<close>

definition allRatings :: "rating list option \<Rightarrow> rating option \<Rightarrow> rating list" where
  "allRatings results userRating =
     (let ratings = nullish results [];
          others = (case userRating of None \<Rightarrow> ratings | Some u \<Rightarrow> filter (\<lambda>r. rt_id r \<noteq> rt_id u) ratings) in
      case userRating of None \<Rightarrow> others | Some u \<Rightarrow> u # others)"

definition ratings_previous :: "int \<Rightarrow> int" where "ratings_previous p = max 1 (p - 1)"
definition ratings_next :: "int \<Rightarrow> int" where "ratings_next p = p + 1"

definition formatRating :: "(rat \<Rightarrow> string) \<Rightarrow> (rat \<Rightarrow> string) \<Rightarrow> js_num \<Rightarrow> string" where
  "formatRating num_text fixed1 num =
     (case num of
        Fin r \<Rightarrow> if r = of_int \<lfloor>r\<rfloor> then num_text r else fixed1 r
      | PosInf \<Rightarrow> ''Infinity'' | NegInf \<Rightarrow> ''-Infinity'' | NaN \<Rightarrow> ''NaN'')"

subsection \<open>A row of a list\<close>

record row_state = tracking_page +
  rs_tracking :: "user_content_tracking option"
  rs_rating_asked :: bool

definition optimisticTracking ::
  "string \<Rightarrow> int \<Rightarrow> user_content_tracking option \<Rightarrow> tracking_status \<Rightarrow> user_content_tracking" where
  "optimisticTracking now contentId current status =
     \<lparr>uct_content_id = contentId, uct_status = status,
      uct_last_completed_at =
        (if status = Completed then Some (nullish (Option.bind current uct_last_completed_at) now) else None),
      uct_is_favorite = (status = Completed \<and> (case current of None \<Rightarrow> False | Some t \<Rightarrow> uct_is_favorite t)),
      uct_favorited_at = (if status = Completed then Option.bind current uct_favorited_at else None),
      uct_created_at = (case current of None \<Rightarrow> now | Some t \<Rightarrow> uct_created_at t),
      uct_updated_at = now\<rparr>"

definition setTracking :: "user_content_tracking option \<Rightarrow> (row_state, unit) op_on" where
  "setTracking t = update_c (\<lambda>s. s\<lparr>rs_tracking := t\<rparr>)"

definition row_changeStatus ::
  "(string \<Rightarrow> bool) \<Rightarrow> answer_reader \<Rightarrow> string \<Rightarrow> int \<Rightarrow> user_content_tracking option \<Rightarrow> tracking_status \<Rightarrow>
     (row_state, unit) op_on" where
  "row_changeStatus ask as_answer now contentId tracking status =
     (let previous = tracking in
      then_c (setTracking (Some (optimisticTracking now contentId tracking status))) (\<lambda>_.
        catch_c
          (then_c (track_async as_answer now (SetStatus contentId status False)) (\<lambda>updated.
             then_c (setTracking (Some (fst updated))) (\<lambda>_.
               if snd updated then update_c (\<lambda>s. s\<lparr>rs_rating_asked := True\<rparr>) else return_c ())))
          (\<lambda>e. then_c (setTracking previous) (\<lambda>_.
             case getTrackingEffectDescription e of
               None \<Rightarrow> return_c ()
             | Some effectText \<Rightarrow>
                 if ask (effect_question ''Changing progress'' effectText)
                 then then_c (track_async as_answer now (SetStatus contentId status True))
                   (\<lambda>updated. setTracking (Some (fst updated)))
                 else return_c ()))))"

definition row_changeFavorite ::
  "answer_reader \<Rightarrow> string \<Rightarrow> int \<Rightarrow> user_content_tracking option \<Rightarrow> bool \<Rightarrow> (row_state, unit) op_on" where
  "row_changeFavorite as_answer now contentId tracking isFavorite =
     (let previous = tracking in
      then_c (case tracking of
          None \<Rightarrow> return_c ()
        | Some t \<Rightarrow> setTracking (Some (t\<lparr>uct_is_favorite := isFavorite,
            uct_favorited_at := if isFavorite then Some now else None\<rparr>))) (\<lambda>_.
        catch_c
          (then_c (track_async as_answer now (SetFavorite contentId isFavorite))
             (\<lambda>updated. setTracking (Some (fst updated))))
          (\<lambda>_. setTracking previous)))"

definition row_stopTracking ::
  "(string \<Rightarrow> bool) \<Rightarrow> answer_reader \<Rightarrow> string \<Rightarrow> int \<Rightarrow> user_content_tracking option \<Rightarrow> (row_state, unit) op_on" where
  "row_stopTracking ask as_answer now contentId tracking =
     (let previous = tracking in
      then_c (setTracking None) (\<lambda>_.
        catch_c
          (then_c (track_async as_answer now (DeleteTracking contentId False)) (\<lambda>_. return_c ()))
          (\<lambda>e. then_c (setTracking previous) (\<lambda>_.
             case getTrackingEffectDescription e of
               None \<Rightarrow> return_c ()
             | Some effectText \<Rightarrow>
                 if ask (effect_question ''Stopping progress'' effectText)
                 then then_c (setTracking None) (\<lambda>_.
                   catch_c
                     (then_c (track_async as_answer now (DeleteTracking contentId True)) (\<lambda>_. return_c ()))
                     (\<lambda>_. setTracking previous))
                 else return_c ()))))"

text \<open>The controls: a status that is chosen, and the favourite, which only completed content can change.\<close>

definition controls_status :: "bool \<Rightarrow> tracking_status option \<Rightarrow> tracking_status option" where
  "controls_status disabled chosen = (if disabled then None else chosen)"

definition controls_favorite :: "user_content_tracking option \<Rightarrow> bool \<Rightarrow> bool \<Rightarrow> bool option" where
  "controls_favorite tracking disabled isCompact =
     (case tracking of
        None \<Rightarrow> None
      | Some t \<Rightarrow>
          if isCompact \<or> disabled \<or> uct_status t \<noteq> Completed then None else Some (\<not> uct_is_favorite t))"

subsection \<open>Rows and cached details\<close>

definition details_show :: "int \<Rightarrow> user_content_tracking option \<Rightarrow> detail_cache \<Rightarrow> bool" where
  "details_show n t cache \<longleftrightarrow>
     list_all (\<lambda>p. case snd p of None \<Rightarrow> True | Some c \<Rightarrow> ci_id c = n \<longrightarrow> ci_current_user_tracking c = t) cache"

definition row_agrees :: "int \<Rightarrow> row_state \<Rightarrow> bool" where
  "row_agrees n s \<longleftrightarrow> distinct (map fst (tp_details s)) \<and> details_show n (rs_tracking s) (tp_details s)"

lemma details_show_update: "details_show n t (updateTrackingInCachedDetails n (\<lambda>_. t) cache)"
proof (induction cache)
  case (Cons p cache)
  obtain k v where p: "p = (k, v)" by (cases p)
  from Cons show ?case
    by (cases v) (simp_all add: p details_show_def updateTrackingInCachedDetails_def update_detail_def)
qed (simp add: details_show_def updateTrackingInCachedDetails_def)

lemma track_async_outcome:
  "fst (track_async as_answer now vars env s) = map_sum id as_answer (fst (tracking_request vars env (tp_client s)))"
  "tp_client (snd (track_async as_answer now vars env s)) = snd (tracking_request vars env (tp_client s))"
  "map fst (tp_details (snd (track_async as_answer now vars env s))) = map fst (tp_details s)" if "distinct (map fst (tp_details s))"
proof -
  obtain r c where q: "tracking_request vars env (tp_client s) = (r, c)" by (cases "tracking_request vars env (tp_client s)")
  have restored: "restoreSnapshot (tp_details s) (tracking_onMutate now vars (tp_details s)) = tp_details s"
    unfolding tracking_onMutate_def by (intro restore_same same_entries_update same_entries_refl that)
  have kept: "map fst (tracking_onSuccess t vars (tracking_onMutate now vars (tp_details s))) = map fst (tp_details s)" for t
    by (cases vars) (simp_all add: tracking_onMutate_def keys_update)
  show "fst (track_async as_answer now vars env s) = map_sum id as_answer (fst (tracking_request vars env (tp_client s)))"
    and "tp_client (snd (track_async as_answer now vars env s)) = snd (tracking_request vars env (tp_client s))"
    using q by (cases r; simp add: track_async_def run_tracking_def snapshotContentDetails_def Let_def)+
  show "map fst (tp_details (snd (track_async as_answer now vars env s))) = map fst (tp_details s)"
    using q restored kept by (cases r) (simp_all add: track_async_def run_tracking_def snapshotContentDetails_def Let_def)
qed

lemma track_async_failed:
  assumes "distinct (map fst (tp_details s))" "track_async as_answer now vars env s = (Inl e, s')"
  shows "tp_details s' = tp_details s"
proof -
  have restored: "restoreSnapshot (tp_details s) (tracking_onMutate now vars (tp_details s)) = tp_details s"
    unfolding tracking_onMutate_def by (intro restore_same same_entries_update same_entries_refl assms(1))
  show ?thesis
    using assms(2) restored
    by (auto simp: track_async_def run_tracking_def snapshotContentDetails_def Let_def split: sum.splits prod.splits)
qed

text \<open>What the cached details show after a mutation that the server accepted.\<close>

fun accepted_tracking :: "tracking_vars \<Rightarrow> user_content_tracking \<times> bool \<Rightarrow> user_content_tracking option" where
  "accepted_tracking (DeleteTracking _ _) a = None"
| "accepted_tracking _ a = Some (fst a)"

lemma track_async_accepted:
  assumes "track_async as_answer now vars env s = (Inr a, s')"
  shows "details_show (tracked_content vars) (accepted_tracking vars a) (tp_details s')"
proof -
  obtain v c where "tracking_request vars env (tp_client s) = (Inr v, c)" "a = as_answer v"
    using assms by (cases "tracking_request vars env (tp_client s)")
      (auto simp: track_async_def split: sum.splits prod.splits)
  with assms show ?thesis
    by (cases vars)
      (auto simp: track_async_def run_tracking_def snapshotContentDetails_def Let_def tracking_onMutate_def details_show_update)
qed

lemma track_async_rest:
  "rs_tracking (snd (track_async as_answer now vars env s)) = rs_tracking s"
  by (simp add: track_async_def split: prod.splits)

lemma track_cases:
  assumes "distinct (map fst (tp_details s))"
  obtains e s' where "track_async as_answer now vars env s = (Inl e, s')" "tp_details s' = tp_details s"
      "rs_tracking s' = rs_tracking s"
  | a s' where "track_async as_answer now vars env s = (Inr a, s')"
      "details_show (tracked_content vars) (accepted_tracking vars a) (tp_details s')"
      "rs_tracking s' = rs_tracking s" "distinct (map fst (tp_details s'))"
proof (cases "track_async as_answer now vars env s")
  case (Pair r s')
  have rest: "rs_tracking s' = rs_tracking s" using track_async_rest [of as_answer now vars env s] Pair by simp
  have keys: "map fst (tp_details s') = map fst (tp_details s)"
    using track_async_outcome(3) [OF assms, of as_answer now vars env] Pair by simp
  show thesis
  proof (cases r)
    case (Inl e)
    with Pair rest track_async_failed [OF assms] that(1) show thesis by blast
  next
    case (Inr a)
    with Pair rest keys assms track_async_accepted that(2) show thesis by metis
  qed
qed

lemma row_agreesI: "distinct (map fst (tp_details s)) \<Longrightarrow> details_show n (rs_tracking s) (tp_details s) \<Longrightarrow> row_agrees n s"
  by (simp add: row_agrees_def)

lemma row_changeStatus_agrees:
  assumes "row_agrees n s"
  shows "row_agrees n (snd (row_changeStatus ask as_answer now n (rs_tracking s) status env s))"
proof -
  have d: "distinct (map fst (tp_details s))" and sh: "details_show n (rs_tracking s) (tp_details s)"
    using assms by (simp_all add: row_agrees_def)
  define s0 where "s0 = s\<lparr>rs_tracking := Some (optimisticTracking now n (rs_tracking s) status)\<rparr>"
  have d0: "distinct (map fst (tp_details s0))" using d by (simp add: s0_def)
  note run = row_changeStatus_def then_c_def catch_c_def setTracking_def update_c_def return_c_def Let_def s0_def [symmetric]
  show ?thesis
  proof (rule track_cases [OF d0, of as_answer now "SetStatus n status False" env], goal_cases)
    case (1 e s1)
    define s2 where "s2 = s1\<lparr>rs_tracking := rs_tracking s\<rparr>"
    have s2: "tp_details s2 = tp_details s" "rs_tracking s2 = rs_tracking s" using 1 by (simp_all add: s2_def s0_def)
    have d2: "distinct (map fst (tp_details s2))" using d s2 by simp
    have a2: "row_agrees n s2" using d sh s2 by (simp add: row_agrees_def)
    note run' = run 1(1) s2_def [symmetric]
    show ?case
    proof (cases "getTrackingEffectDescription e")
      case None
      then show ?thesis using a2 by (simp add: run')
    next
      case (Some t)
      show ?thesis
        by (rule track_cases [OF d2, of as_answer now "SetStatus n status True" env])
          (use a2 s2 Some d sh in \<open>auto simp: run' intro!: row_agreesI\<close>)
    qed
  next
    case (2 a s1)
    then show ?case by (auto simp: run intro!: row_agreesI)
  qed
qed

lemma row_unchanged: "rs_tracking s = t \<Longrightarrow> s\<lparr>rs_tracking := t\<rparr> = s" for s :: row_state
  by (cases s) simp

lemma row_changeFavorite_agrees:
  assumes "row_agrees n s"
  shows "row_agrees n (snd (row_changeFavorite as_answer now n (rs_tracking s) isFavorite env s))"
proof -
  have d: "distinct (map fst (tp_details s))" and sh: "details_show n (rs_tracking s) (tp_details s)"
    using assms by (simp_all add: row_agrees_def)
  define t0 where "t0 = map_option (\<lambda>t. t\<lparr>uct_is_favorite := isFavorite,
      uct_favorited_at := if isFavorite then Some now else None\<rparr>) (rs_tracking s)"
  define s0 where "s0 = s\<lparr>rs_tracking := t0\<rparr>"
  have d0: "distinct (map fst (tp_details s0))" using d by (simp add: s0_def)
  have start: "row_changeFavorite as_answer now n (rs_tracking s) isFavorite env s =
      catch_c (then_c (track_async as_answer now (SetFavorite n isFavorite)) (\<lambda>updated. setTracking (Some (fst updated))))
        (\<lambda>_. setTracking (rs_tracking s)) env s0"
  proof (cases "rs_tracking s")
    case None
    have "s0 = s" unfolding s0_def t0_def None by (simp add: row_unchanged [OF None])
    with None show ?thesis by (simp add: row_changeFavorite_def then_c_def return_c_def Let_def)
  next
    case (Some t)
    then show ?thesis
      by (simp add: row_changeFavorite_def then_c_def setTracking_def update_c_def Let_def s0_def t0_def)
  qed
  show ?thesis
    unfolding start
    by (rule track_cases [OF d0, of as_answer now "SetFavorite n isFavorite" env])
      (use d sh in \<open>auto simp: then_c_def catch_c_def setTracking_def update_c_def s0_def intro!: row_agreesI\<close>)
qed

lemma row_stopTracking_agrees:
  assumes "row_agrees n s"
  shows "row_agrees n (snd (row_stopTracking ask as_answer now n (rs_tracking s) env s))"
proof -
  have d: "distinct (map fst (tp_details s))" and sh: "details_show n (rs_tracking s) (tp_details s)"
    using assms by (simp_all add: row_agrees_def)
  define s0 where "s0 = s\<lparr>rs_tracking := None\<rparr>"
  have d0: "distinct (map fst (tp_details s0))" using d by (simp add: s0_def)
  note run = row_stopTracking_def then_c_def catch_c_def setTracking_def update_c_def return_c_def Let_def s0_def [symmetric]
  show ?thesis
  proof (rule track_cases [OF d0, of as_answer now "DeleteTracking n False" env], goal_cases)
    case (1 e s1)
    define s3 where "s3 = s1\<lparr>rs_tracking := None\<rparr>"
    have s3: "tp_details s3 = tp_details s" "rs_tracking s3 = None" using 1 by (simp_all add: s3_def s0_def)
    have d3: "distinct (map fst (tp_details s3))" using d s3 by simp
    have a2: "row_agrees n (s1\<lparr>rs_tracking := rs_tracking s\<rparr>)" using 1 d sh by (simp add: row_agrees_def s0_def)
    show ?case
    proof (cases "getTrackingEffectDescription e")
      case None
      then show ?thesis using a2 by (simp add: run 1(1))
    next
      case (Some t)
      show ?thesis
        by (rule track_cases [OF d3, of as_answer now "DeleteTracking n True" env])
          (use a2 s3 Some d sh 1(1) in \<open>auto simp: run s3_def [symmetric] intro!: row_agreesI\<close>)
    qed
  next
    case (2 a s1)
    then have "rs_tracking s1 = None" by (simp add: s0_def)
    with 2 show ?case by (simp add: run row_agrees_def)
  qed
qed

datatype row_event = RowStatus tracking_status | RowFavorite bool | RowStop

fun row_step :: "answer_reader \<Rightarrow> int \<Rightarrow> (string \<Rightarrow> bool) \<times> client_env \<times> string \<times> row_event \<Rightarrow> row_state \<Rightarrow> row_state" where
  "row_step as_answer n (ask, env, now, RowStatus status) s =
     snd (row_changeStatus ask as_answer now n (rs_tracking s) status env s)"
| "row_step as_answer n (ask, env, now, RowFavorite isFavorite) s =
     snd (row_changeFavorite as_answer now n (rs_tracking s) isFavorite env s)"
| "row_step as_answer n (ask, env, now, RowStop) s = snd (row_stopTracking ask as_answer now n (rs_tracking s) env s)"


lemma track_async_run:
  assumes "distinct (map fst (tp_details s))" "tracking_request vars env (tp_client s) = (r, c)"
  obtains s1 where "track_async as_answer now vars env s = (map_sum id as_answer r, s1)" "tp_client s1 = c"
    "isl r \<longrightarrow> tp_details s1 = tp_details s"
proof (cases "track_async as_answer now vars env s")
  case (Pair q s1)
  have "q = map_sum id as_answer r" "tp_client s1 = c"
    using track_async_outcome(1,2) [OF assms(1), of as_answer now vars env] assms(2) Pair by simp_all
  moreover have "isl r \<longrightarrow> tp_details s1 = tp_details s"
    using track_async_failed [OF assms(1)] Pair \<open>q = _\<close> by (cases r) auto
  ultimately show thesis using that Pair by blast
qed

lemma track_async_modals: "dst_modals (snd (track_async as_answer now vars env s)) = dst_modals s"
  by (simp add: track_async_def split: prod.splits)

lemmas handler_defs = then_c_def catch_c_def setTracking_def update_c_def return_c_def prompt_rating_def Let_def

lemma declined_status:
  assumes "distinct (map fst (tp_details s))" "tracking_request (SetStatus n status False) env (tp_client s) = (r, c)"
  shows "\<exists>q d'. handleTrackingStatusChange (\<lambda>_. False) as_answer now n status env s = (q, d') \<and> tp_client d' = c \<and>
    (isl r \<longrightarrow> tp_details d' = tp_details s \<and> dst_modals d' = dst_modals s)"
proof (rule track_async_run [OF assms, of as_answer now], goal_cases)
  case (1 s1)
  then have "dst_modals s1 = dst_modals s"
    using track_async_modals [of as_answer now "SetStatus n status False" env s] by simp
  with 1 show ?case
    by (cases r) (simp_all add: handleTrackingStatusChange_def handler_defs split: option.split)
qed

lemma declined_delete:
  assumes "distinct (map fst (tp_details s))" "tracking_request (DeleteTracking n False) env (tp_client s) = (r, c)"
  shows "\<exists>q d'. handleDeleteTracking (\<lambda>_. False) as_answer now n env s = (q, d') \<and> tp_client d' = c \<and>
    (isl r \<longrightarrow> tp_details d' = tp_details s)"
proof (rule track_async_run [OF assms, of as_answer now], goal_cases)
  case (1 s1)
  then show ?case by (cases r) (simp_all add: handleDeleteTracking_def handler_defs split: option.split)
qed

lemma declined_row:
  assumes "distinct (map fst (tp_details s))"
  shows "tracking_request (SetStatus n status False) env (tp_client s) = (r, c) \<Longrightarrow>
      \<exists>q s'. row_changeStatus (\<lambda>_. False) as_answer now n (rs_tracking s) status env s = (q, s') \<and> tp_client s' = c \<and>
        (isl r \<longrightarrow> tp_details s' = tp_details s \<and> rs_tracking s' = rs_tracking s)" (is "?req1 \<Longrightarrow> ?G1")
    and "tracking_request (DeleteTracking n False) env (tp_client s) = (r, c) \<Longrightarrow>
      \<exists>q s'. row_stopTracking (\<lambda>_. False) as_answer now n (rs_tracking s) env s = (q, s') \<and> tp_client s' = c \<and>
        (isl r \<longrightarrow> tp_details s' = tp_details s \<and> rs_tracking s' = rs_tracking s)" (is "?req2 \<Longrightarrow> ?G2")
proof -
  define s0 where "s0 = s\<lparr>rs_tracking := Some (optimisticTracking now n (rs_tracking s) status)\<rparr>"
  have d0: "distinct (map fst (tp_details s0))" using assms by (simp add: s0_def)
  show ?G1 if "?req1"
  proof (rule track_async_run [OF d0, of "SetStatus n status False" env r c as_answer now], goal_cases)
    case 1
    with that show ?case by (simp add: s0_def)
  next
    case (2 s1)
    then show ?case
      by (cases r) (simp_all add: row_changeStatus_def handler_defs s0_def split: option.split)
  qed
  define s1 where "s1 = s\<lparr>rs_tracking := None\<rparr>"
  have d1: "distinct (map fst (tp_details s1))" using assms by (simp add: s1_def)
  show ?G2 if "?req2"
  proof (rule track_async_run [OF d1, of "DeleteTracking n False" env r c as_answer now], goal_cases)
    case 1
    with that show ?case by (simp add: s1_def)
  next
    case (2 s2)
    then show ?case
      by (cases r) (simp_all add: row_stopTracking_def handler_defs s1_def split: option.split)
  qed
qed

definition sample_row :: row_state where
  "sample_row =
     \<lparr>tp_client = \<lparr>cs_auth = auth_initialState, cs_csrfToken = Some ''t'', cs_calls = []\<rparr>, tp_details = two_details, tp_toasts = [],
      rs_tracking = ci_current_user_tracking (tracked_detail 1 Completed), rs_rating_asked = False\<rparr>"

text \<open>C12. Nothing that a change of the progress has as its effects happens without consent: when the user declines, or
  is not asked, the only request that is sent is the one that does not acknowledge effects, and if the server
  refuses it the cached details and, on a row, the tracking that is shown are as they were.\<close>

theorem no_effects_without_consent:
  assumes "distinct (map fst (tp_details d))" "distinct (map fst (tp_details r))"
  shows "(case (handleTrackingStatusChange (\<lambda>_. False) as_answer now n status env d,
                tracking_request (SetStatus n status False) env (tp_client d)) of ((_, d'), (answer, client)) \<Rightarrow>
            tp_client d' = client \<and> (isl answer \<longrightarrow> tp_details d' = tp_details d \<and> dst_modals d' = dst_modals d)) \<and>
    (case (handleDeleteTracking (\<lambda>_. False) as_answer now n env d,
           tracking_request (DeleteTracking n False) env (tp_client d)) of ((_, d'), (answer, client)) \<Rightarrow>
       tp_client d' = client \<and> (isl answer \<longrightarrow> tp_details d' = tp_details d)) \<and>
    (case (row_changeStatus (\<lambda>_. False) as_answer now n (rs_tracking r) status env r,
           tracking_request (SetStatus n status False) env (tp_client r)) of ((_, r'), (answer, client)) \<Rightarrow>
       tp_client r' = client \<and> (isl answer \<longrightarrow> tp_details r' = tp_details r \<and> rs_tracking r' = rs_tracking r)) \<and>
    (case (row_stopTracking (\<lambda>_. False) as_answer now n (rs_tracking r) env r,
           tracking_request (DeleteTracking n False) env (tp_client r)) of ((_, r'), (answer, client)) \<Rightarrow>
       tp_client r' = client \<and> (isl answer \<longrightarrow> tp_details r' = tp_details r \<and> rs_tracking r' = rs_tracking r))"
proof -
  obtain a1 c1 a2 c2 a3 c3 a4 c4 where q: "tracking_request (SetStatus n status False) env (tp_client d) = (a1, c1)"
    "tracking_request (DeleteTracking n False) env (tp_client d) = (a2, c2)"
    "tracking_request (SetStatus n status False) env (tp_client r) = (a3, c3)"
    "tracking_request (DeleteTracking n False) env (tp_client r) = (a4, c4)"
    by (metis surj_pair)
  show ?thesis
    unfolding q
    using declined_status [OF assms(1) q(1), of as_answer now] declined_delete [OF assms(1) q(2), of as_answer now]
      declined_row(1) [OF assms(2) q(3), of as_answer now] declined_row(2) [OF assms(2) q(4), of as_answer now]
    by (elim exE conjE) simp
qed

theorem no_effects_without_consent_witness:
  "\<forall>env. \<exists>d. tp_details d = two_details \<and>
     tp_client (snd (handleDeleteTracking (\<lambda>_. False) (\<lambda>_. (undefined, False)) [] 1 env d)) =
       snd (tracking_request (DeleteTracking 1 False) env (tp_client d))"
proof
  fix env
  let ?d = "\<lparr>tp_client = tp_client sample_row, tp_details = two_details, tp_toasts = [], dst_modals = content_modals_init\<rparr>"
  have "distinct (map fst (tp_details ?d))" "distinct (map fst (tp_details sample_row))"
    using two_details_facts(1) by (simp_all add: sample_row_def)
  from no_effects_without_consent [OF this, of "\<lambda>_. (undefined, False)" "[]" 1 Completed env]
  show "\<exists>d. tp_details d = two_details \<and>
     tp_client (snd (handleDeleteTracking (\<lambda>_. False) (\<lambda>_. (undefined, False)) [] 1 env d)) =
       snd (tracking_request (DeleteTracking 1 False) env (tp_client d))"
    by (intro exI [of _ ?d]) (simp add: case_prod_beta)
qed


text \<open>The two ways in which a change of the status is shown before the server answers agree but for one date: a row
  shows what the cached details show, except that the details keep the date of the last completion when the item leaves
  the completed status and the row drops it.\<close>

theorem optimistic_rows_agree:
  assumes "pred_option (\<lambda>t. uct_content_id t = n) current"
  shows "(status_tracking now n status current = Some (optimisticTracking now n current status) \<longleftrightarrow>
      status = Completed \<or> Option.bind current uct_last_completed_at = None) \<and>
    map_option (uct_last_completed_at_update (\<lambda>_. uct_last_completed_at (optimisticTracking now n current status)))
      (status_tracking now n status current) = Some (optimisticTracking now n current status)"
  using assms by (cases current) (auto simp: status_tracking_def optimisticTracking_def)

theorem optimistic_rows_agree_witness:
  "status_tracking ''2024-02-02'' 1 Dropped (ci_current_user_tracking (tracked_detail 1 Completed)) \<noteq>
     Some (optimisticTracking ''2024-02-02'' 1 (ci_current_user_tracking (tracked_detail 1 Completed)) Dropped)"
proof -
  have "pred_option (\<lambda>t. uct_content_id t = 1) (ci_current_user_tracking (tracked_detail 1 Completed))"
    by (simp add: tracked_detail_def)
  from optimistic_rows_agree [OF this, of "''2024-02-02''" Dropped] show ?thesis by (simp add: tracked_detail_def)
qed

subsection \<open>The ratings of an item\<close>

lemma own_rating_first:
  "distinct (map rt_id ratings) \<Longrightarrow>
     distinct (map rt_id (allRatings (Some ratings) (Some u))) \<and> hd (allRatings (Some ratings) (Some u)) = u \<and>
     filter (\<lambda>r. rt_id r \<noteq> rt_id u) (allRatings (Some ratings) (Some u)) = filter (\<lambda>r. rt_id r \<noteq> rt_id u) ratings"
  by (induction ratings) (auto simp: allRatings_def nullish_def)

end
