(* ===== verification/RandomPicker.thy ===== *)
theory RandomPicker
  imports ListRequests PublicProfile Tracking ListViewer
begin

text \<open>
  Choosing an item at random: the strip of cards that rolls (\<open>random/randomPickerUtils.ts\<close>,
  \<open>random/RandomPickerTrack.tsx\<close>), the picker as a machine of its phases (\<open>random/RandomPicker.tsx\<close>), and the two
  pages that open it (\<open>DynamicListRandomPick.tsx\<close>, \<open>ProfileRandomPick.tsx\<close>).  Timers fire as events; positions on the
  strip are natural numbers, as they start at 12 and only a target, 16 further, is stepped back from, by 4.
\<close>

subsection \<open>The strip\<close>

record picker_item =
  pk_id :: int
  pk_contentId :: int
  pk_title :: string
  pk_subtitle :: "string option"
  pk_imageUrl :: "string option"
  pk_contentType :: content_type
  pk_status :: "tracking_status option"

definition ROLL_START_INDEX :: nat where "ROLL_START_INDEX = 12"
definition SPIN_DISTANCE :: nat where "SPIN_DISTANCE = 16"
definition ROLL_STOP_OFFSET :: nat where "ROLL_STOP_OFFSET = 4"
definition ROLL_STEP_MS :: nat where "ROLL_STEP_MS = 72"
definition SETTLE_DURATION_MS :: nat where "SETTLE_DURATION_MS = 720"
definition ROLL_DURATION_MS :: nat where
  "ROLL_DURATION_MS = (SPIN_DISTANCE - ROLL_STOP_OFFSET + 1) * ROLL_STEP_MS"
definition ROLLING_SEQUENCE_LENGTH :: nat where "ROLLING_SEQUENCE_LENGTH = 48"
definition ROLL_TRAILING_ITEMS :: nat where "ROLL_TRAILING_ITEMS = 4"

definition getTargetIndex :: "nat \<Rightarrow> nat" where "getTargetIndex startIndex = startIndex + SPIN_DISTANCE"
definition getRollStopIndex :: "nat \<Rightarrow> nat" where "getRollStopIndex targetIndex = targetIndex - ROLL_STOP_OFFSET"

definition buildRollingSequence :: "'a list \<Rightarrow> nat \<Rightarrow> 'a list" where
  "buildRollingSequence items minimumLength =
     (if length items = 0 then [] else map (\<lambda>index. items ! (index mod length items)) [0..<minimumLength])"

text \<open>The loop that lengthens the strip.\<close>

function push_until :: "nat \<Rightarrow> 'a list \<Rightarrow> 'a list \<Rightarrow> 'a list" where
  "push_until limit source sequence =
     (if length sequence \<le> limit
      then push_until limit source (sequence @ [source ! (length sequence mod length source)])
      else sequence)"
  by pat_completeness auto
termination by (relation "measure (\<lambda>(limit, _, sequence). Suc limit - length sequence)") auto

declare push_until.simps [simp del]

definition ensureSpinSequence :: "'a list \<Rightarrow> 'a list \<Rightarrow> nat \<Rightarrow> 'a list" where
  "ensureSpinSequence existingSequence sourceItems targetIndex =
     (let source = (if length sourceItems > 0 then sourceItems else existingSequence) in
      if length source = 0 then []
      else
        (let sequence =
           (if length existingSequence > 0 then existingSequence
            else buildRollingSequence source ROLLING_SEQUENCE_LENGTH) in
         push_until (targetIndex + ROLL_TRAILING_ITEMS) source sequence))"

definition buildSpinSequence :: "'a list \<Rightarrow> 'a list \<Rightarrow> 'a \<Rightarrow> nat \<Rightarrow> 'a list" where
  "buildSpinSequence existingSequence sourceItems result targetIndex =
     (ensureSpinSequence existingSequence (if length sourceItems > 0 then sourceItems else [result]) targetIndex)
       [targetIndex := result]"

subsection \<open>The picker\<close>

datatype picker_phase = Idle | Rolling | Settling | Settled

text \<open>
  The state of the picker and of its strip; \<open>pk_drawing\<close> is the target of the draw that waits for its answer, \<open>pk_starting\<close>
  the item that is being started, \<open>pk_active\<close> the card in the middle.
\<close>

record picker =
  pk_phase :: picker_phase
  pk_result :: "picker_item option"
  pk_sequence :: "picker_item list"
  pk_preview :: "picker_item option"
  pk_trackIndex :: nat
  pk_targetIndex :: nat
  pk_error :: "string option"
  pk_starting :: "picker_item option"
  pk_drawing :: "nat option"
  pk_active :: nat

definition picker_init :: picker where
  "picker_init =
     \<lparr>pk_phase = Idle, pk_result = None, pk_sequence = [], pk_preview = None, pk_trackIndex = ROLL_START_INDEX,
      pk_targetIndex = getTargetIndex ROLL_START_INDEX, pk_error = None, pk_starting = None, pk_drawing = None,
      pk_active = ROLL_START_INDEX\<rparr>"

definition isBusy :: "picker \<Rightarrow> bool" where
  "isBusy s \<longleftrightarrow> pk_phase s = Rolling \<or> pk_phase s = Settling \<or> pk_starting s \<noteq> None"

definition displaySequence :: "picker_item list \<Rightarrow> picker \<Rightarrow> picker_item list" where
  "displaySequence previewItems s =
     (if length (pk_sequence s) > 0 then pk_sequence s
      else buildRollingSequence previewItems ROLLING_SEQUENCE_LENGTH)"

text \<open>The effect of the strip when its phase or an index has changed, and the one that reports its middle.\<close>

definition track_effect :: "picker \<Rightarrow> picker" where
  "track_effect s =
     (case pk_phase s of
        Rolling \<Rightarrow> s\<lparr>pk_active := pk_trackIndex s\<rparr>
      | Settling \<Rightarrow> s\<lparr>pk_active := pk_targetIndex s\<rparr>
      | Settled \<Rightarrow> s\<lparr>pk_active := pk_targetIndex s, pk_trackIndex := pk_targetIndex s\<rparr>
      | Idle \<Rightarrow> s)"

definition center_effect :: "picker_item list \<Rightarrow> picker \<Rightarrow> picker" where
  "center_effect previewItems s =
     (let items = displaySequence previewItems s in
      if pk_phase s = Settling then s
      else if pk_active s < length items then s\<lparr>pk_preview := Some (items ! pk_active s)\<rparr> else s)"

definition picker_render :: "picker_item list \<Rightarrow> picker \<Rightarrow> picker" where
  "picker_render previewItems s = center_effect previewItems (track_effect s)"

text \<open>The start of a draw, and the content that it asks to leave out.\<close>

definition draw_begin :: "picker_item list \<Rightarrow> picker \<Rightarrow> picker \<times> int option option" where
  "draw_begin previewItems s =
     (if isBusy s then (s, None)
      else
        (let nextTargetIndex = getTargetIndex (pk_trackIndex s) in
         (picker_render previewItems
            (s\<lparr>pk_error := None, pk_targetIndex := nextTargetIndex, pk_phase := Rolling,
               pk_sequence := ensureSpinSequence (pk_sequence s) previewItems nextTargetIndex,
               pk_drawing := Some nextTargetIndex\<rparr>),
          Some (map_option pk_contentId (pk_result s)))))"

definition draw_answer :: "picker_item list \<Rightarrow> bool \<Rightarrow> string + picker_item option \<Rightarrow> picker \<Rightarrow> picker" where
  "draw_answer previewItems reducedMotion answer s =
     (case pk_drawing s of
        None \<Rightarrow> s
      | Some nextTargetIndex \<Rightarrow>
          (let stoppedIndex = getRollStopIndex nextTargetIndex; s = s\<lparr>pk_drawing := None\<rparr> in
           picker_render previewItems
             (case answer of
                Inl message \<Rightarrow>
                  s\<lparr>pk_trackIndex := stoppedIndex, pk_targetIndex := stoppedIndex, pk_phase := Settled,
                    pk_error := Some message\<rparr>
              | Inr None \<Rightarrow>
                  s\<lparr>pk_result := None, pk_preview := None, pk_trackIndex := stoppedIndex,
                    pk_targetIndex := stoppedIndex, pk_phase := Settled\<rparr>
              | Inr (Some drawn) \<Rightarrow>
                  s\<lparr>pk_result := Some drawn,
                    pk_sequence := buildSpinSequence (pk_sequence s) previewItems drawn nextTargetIndex,
                    pk_phase := if reducedMotion then Settled else Settling\<rparr>)))"

definition settle_timeout :: "picker_item list \<Rightarrow> picker \<Rightarrow> picker" where
  "settle_timeout previewItems s =
     (if pk_phase s = Settling then picker_render previewItems (s\<lparr>pk_phase := Settled\<rparr>) else s)"

text \<open>One tick of the interval of the strip, which runs while it rolls.\<close>

definition roll_tick :: "picker_item list \<Rightarrow> picker \<Rightarrow> picker" where
  "roll_tick previewItems s =
     (if pk_phase s = Rolling
      then center_effect previewItems (s\<lparr>pk_active := min (pk_active s + 1) (getRollStopIndex (pk_targetIndex s))\<rparr>)
      else s)"

definition canStart :: "bool \<Rightarrow> picker \<Rightarrow> bool" where
  "canStart onStart s \<longleftrightarrow>
     (case pk_result s of
        None \<Rightarrow> False
      | Some r \<Rightarrow> onStart \<and> pk_status r \<noteq> Some InProgress \<and> pk_status r \<noteq> Some Completed)"

definition visibleResult :: "picker \<Rightarrow> picker_item option" where
  "visibleResult s = (if pk_phase s = Settled then pk_result s else pk_preview s)"

definition start_begin :: "bool \<Rightarrow> picker \<Rightarrow> picker" where
  "start_begin onStart s =
     (case pk_result s of
        None \<Rightarrow> s
      | Some r \<Rightarrow> if \<not> onStart \<or> pk_starting s \<noteq> None then s else s\<lparr>pk_error := None, pk_starting := Some r\<rparr>)"

definition start_answer :: "string option \<Rightarrow> picker \<Rightarrow> picker" where
  "start_answer failure s =
     (case pk_starting s of
        None \<Rightarrow> s
      | Some r \<Rightarrow>
          (case failure of
             Some message \<Rightarrow> s\<lparr>pk_error := Some message, pk_starting := None\<rparr>
           | None \<Rightarrow> s\<lparr>pk_result := Some (r\<lparr>pk_status := Some InProgress\<rparr>), pk_starting := None\<rparr>))"

datatype picker_event =
    DrawPressed | DrawAnswered "string + picker_item option" | SettleFires | RollTick
  | StartPressed | StartAnswered "string option"

text \<open>The start button is part of the result that is shown once the strip has settled.\<close>

fun picker_step :: "picker_item list \<Rightarrow> bool \<Rightarrow> bool \<Rightarrow> picker_event \<Rightarrow> picker \<Rightarrow> picker" where
  "picker_step previewItems reducedMotion onStart DrawPressed s = fst (draw_begin previewItems s)"
| "picker_step previewItems reducedMotion onStart (DrawAnswered a) s = draw_answer previewItems reducedMotion a s"
| "picker_step previewItems reducedMotion onStart SettleFires s = settle_timeout previewItems s"
| "picker_step previewItems reducedMotion onStart RollTick s = roll_tick previewItems s"
| "picker_step previewItems reducedMotion onStart StartPressed s =
     (if pk_phase s = Settled \<and> canStart onStart s then start_begin onStart s else s)"
| "picker_step previewItems reducedMotion onStart (StartAnswered f) s = start_answer f s"

subsection \<open>The pages that open the picker\<close>

definition RANDOM_ENABLED_DYNAMIC_KEYS :: "string set" where
  "RANDOM_ENABLED_DYNAMIC_KEYS = {''backlog'', ''movies'', ''series'', ''games'', ''albums'', ''books''}"

definition canPick :: "user_list \<Rightarrow> bool" where
  "canPick l \<longleftrightarrow> ul_list_type l \<noteq> DYNAMIC \<or> nullish (ul_dynamic_key l) [] \<in> RANDOM_ENABLED_DYNAMIC_KEYS"

fun sdata_card_image :: "source_data \<Rightarrow> string option" where
  "sdata_card_image (MovieData d) = getCardImageUrl (Some (mov_images d)) (mov_image_url d)"
| "sdata_card_image (TVShowData d) = getCardImageUrl (Some (tv_images d)) (tv_image_url d)"
| "sdata_card_image (AlbumData d) = getCardImageUrl (Some (alb_images d)) (alb_image_url d)"
| "sdata_card_image (GameData d) = getCardImageUrl (Some (gam_images d)) (gam_image_url d)"
| "sdata_card_image (BookData d) = getCardImageUrl (Some (bk_images d)) (bk_image_url d)"
| "sdata_card_image (SeasonData d) = getCardImageUrl (Some (sd_images d)) (sd_image_url d)"

definition list_picker_item :: "list_item \<Rightarrow> picker_item" where
  "list_picker_item item =
     (let c = li_content_item item in
      \<lparr>pk_id = li_id item, pk_contentId = cid_id c, pk_title = getListItemTitle item,
       pk_subtitle = Some (getListItemSubtitle item), pk_imageUrl = sdata_card_image (cid_source_data c),
       pk_contentType = cid_content_type c,
       pk_status = map_option uct_status (cid_current_user_tracking c)\<rparr>)"

text \<open>The items to leave out: the content of the shown result, unless its id is 0.\<close>

definition excluded_ids :: "int option \<Rightarrow> int list" where
  "excluded_ids excludeContentId = (case excludeContentId of None \<Rightarrow> [] | Some n \<Rightarrow> if n = 0 then [] else [n])"

definition list_onDraw :: "(json \<Rightarrow> list_item option) \<Rightarrow> int \<Rightarrow> int option \<Rightarrow> picker_item option client_op" where
  "list_onDraw as_result listId excludeContentId =
     then_c (list_pickRandom listId (excluded_ids excludeContentId))
       (\<lambda>response. return_c (map_option list_picker_item (as_result response)))"

text \<open>An entry of the progress of a profile, or a pick of the server: its id, content and status.\<close>

record progress_entry =
  pe_id :: int
  pe_content :: local_content_summary
  pe_status :: tracking_status

definition profile_picker_item :: "progress_entry \<Rightarrow> picker_item" where
  "profile_picker_item item =
     (let c = pe_content item in
      \<lparr>pk_id = pe_id item, pk_contentId = lcs_id c, pk_title = lcs_title c, pk_subtitle = lcs_subtitle c,
       pk_imageUrl = lcs_poster c, pk_contentType = lcs_type c, pk_status = Some (pe_status item)\<rparr>)"

definition profile_preview :: "progress_entry list \<Rightarrow> picker_item list" where
  "profile_preview items = map profile_picker_item (filter (\<lambda>i. pe_status i = Backlog) items)"

definition profile_onDraw :: "(json \<Rightarrow> progress_entry option) \<Rightarrow> int option \<Rightarrow> picker_item option client_op" where
  "profile_onDraw as_result excludeContentId =
     then_c (pickRandom (excluded_ids excludeContentId))
       (\<lambda>response. return_c (map_option profile_picker_item (as_result response)))"

definition picker_onStart :: "picker_item \<Rightarrow> tracking_vars" where
  "picker_onStart item = SetStatus (pk_contentId item) InProgress False"

subsection \<open>The strip is long enough\<close>

lemma length_push_until: "length (push_until limit source sequence) = max (length sequence) (Suc limit)"
proof (induction limit source sequence rule: push_until.induct)
  case (1 limit source sequence)
  then show ?case by (subst push_until.simps) auto
qed

lemma ensure_length:
  "ensureSpinSequence seq src t = [] \<longleftrightarrow> src = [] \<and> seq = []"
  "ensureSpinSequence seq src t \<noteq> [] \<Longrightarrow> t + 4 < length (ensureSpinSequence seq src t)"
proof -
  have len: "length (ensureSpinSequence seq src t) =
      (if src = [] \<and> seq = [] then 0 else max (if seq = [] then 48 else length seq) (Suc (t + 4)))"
    by (auto simp: ensureSpinSequence_def length_push_until buildRollingSequence_def ROLL_TRAILING_ITEMS_def
        ROLLING_SEQUENCE_LENGTH_def Let_def)
  show "ensureSpinSequence seq src t = [] \<longleftrightarrow> src = [] \<and> seq = []"
    using len by (metis (no_types, lifting) length_0_conv max.cobounded2 not_less_eq_eq zero_le)
  show "t + 4 < length (ensureSpinSequence seq src t)" if "ensureSpinSequence seq src t \<noteq> []"
    using len that by (auto split: if_splits)
qed

lemma spin_result:
  "length (buildSpinSequence seq src r t) > t + 4" "buildSpinSequence seq src r t ! t = r"
proof -
  have "ensureSpinSequence seq (if length src > 0 then src else [r]) t \<noteq> []" by (simp add: ensure_length(1))
  from ensure_length(2) [OF this]
  show "length (buildSpinSequence seq src r t) > t + 4" "buildSpinSequence seq src r t ! t = r"
    by (simp_all add: buildSpinSequence_def)
qed

text \<open>
  What holds at all times: the strip, once it is there, goes four cards past the target, the middle and the start are not past
  the target, and a draw waits for its answer exactly while the strip rolls.
\<close>

definition strip_ok :: "picker_phase \<Rightarrow> 'a list \<Rightarrow> nat \<Rightarrow> nat \<Rightarrow> nat \<Rightarrow> nat option \<Rightarrow> bool" where
  "strip_ok phase strip start target middle drawing \<longleftrightarrow>
     (strip \<noteq> [] \<longrightarrow> target + 4 < length strip) \<and> middle \<le> target \<and> 12 \<le> start \<and> start \<le> target \<and>
     drawing = (if phase = Rolling then Some target else None) \<and>
     (phase = Rolling \<or> phase = Idle \<longrightarrow> target = start + 16)"

definition picker_ok :: "picker \<Rightarrow> bool" where
  "picker_ok s \<longleftrightarrow>
     strip_ok (pk_phase s) (pk_sequence s) (pk_trackIndex s) (pk_targetIndex s) (pk_active s) (pk_drawing s)"

lemma center_ok [simp]:
  "pk_phase (center_effect P s) = pk_phase s" "pk_result (center_effect P s) = pk_result s"
  "pk_sequence (center_effect P s) = pk_sequence s" "pk_trackIndex (center_effect P s) = pk_trackIndex s"
  "pk_targetIndex (center_effect P s) = pk_targetIndex s" "pk_error (center_effect P s) = pk_error s"
  "pk_starting (center_effect P s) = pk_starting s" "pk_drawing (center_effect P s) = pk_drawing s"
  "pk_active (center_effect P s) = pk_active s"
  by (simp_all add: center_effect_def Let_def)

lemma track_ok [simp]:
  "pk_phase (track_effect s) = pk_phase s" "pk_result (track_effect s) = pk_result s"
  "pk_sequence (track_effect s) = pk_sequence s" "pk_targetIndex (track_effect s) = pk_targetIndex s"
  "pk_error (track_effect s) = pk_error s" "pk_starting (track_effect s) = pk_starting s"
  "pk_drawing (track_effect s) = pk_drawing s"
  by (simp_all add: track_effect_def split: picker_phase.split)

lemma center_keeps: "picker_ok (center_effect P s) = picker_ok s"
  by (simp add: picker_ok_def)

lemma render_settled:
  "pk_phase s = Settled \<Longrightarrow> pk_drawing s = None \<Longrightarrow> 12 \<le> pk_targetIndex s \<Longrightarrow>
     (pk_sequence s \<noteq> [] \<longrightarrow> pk_targetIndex s + 4 < length (pk_sequence s)) \<Longrightarrow> picker_ok (picker_render P s)"
  by (simp add: picker_render_def track_effect_def picker_ok_def strip_ok_def)

lemma render_settling:
  "pk_phase s = Settling \<Longrightarrow> pk_drawing s = None \<Longrightarrow> 12 \<le> pk_trackIndex s \<Longrightarrow> pk_trackIndex s \<le> pk_targetIndex s \<Longrightarrow>
     (pk_sequence s \<noteq> [] \<longrightarrow> pk_targetIndex s + 4 < length (pk_sequence s)) \<Longrightarrow> picker_ok (picker_render P s)"
  by (simp add: picker_render_def track_effect_def picker_ok_def strip_ok_def)

lemma render_rolling:
  "pk_phase s = Rolling \<Longrightarrow> pk_drawing s = Some (pk_trackIndex s + 16) \<Longrightarrow> 12 \<le> pk_trackIndex s \<Longrightarrow>
     pk_targetIndex s = pk_trackIndex s + 16 \<Longrightarrow>
     (pk_sequence s \<noteq> [] \<longrightarrow> 20 + pk_trackIndex s < length (pk_sequence s)) \<Longrightarrow> picker_ok (picker_render P s)"
  by (simp add: picker_render_def track_effect_def picker_ok_def strip_ok_def)

lemma begin_keeps:
  assumes "picker_ok s"
  shows "picker_ok (fst (draw_begin P s))"
proof (cases "isBusy s")
  case False
  have "12 \<le> pk_trackIndex s" using assms by (simp add: picker_ok_def strip_ok_def)
  moreover have "ensureSpinSequence (pk_sequence s) P (pk_trackIndex s + 16) \<noteq> [] \<longrightarrow>
      20 + pk_trackIndex s < length (ensureSpinSequence (pk_sequence s) P (pk_trackIndex s + 16))"
    using ensure_length(2) [of "pk_sequence s" P "pk_trackIndex s + 16"] by (simp add: add.commute)
  ultimately show ?thesis
    using False
    by (simp add: draw_begin_def Let_def getTargetIndex_def SPIN_DISTANCE_def render_rolling)
qed (use assms in \<open>simp add: draw_begin_def\<close>)

lemma rolling_facts:
  assumes "picker_ok s" "pk_phase s = Rolling"
  shows "pk_drawing s = Some (pk_targetIndex s)" "pk_targetIndex s = pk_trackIndex s + 16" "12 \<le> pk_trackIndex s"
    "pk_sequence s \<noteq> [] \<longrightarrow> 20 + pk_trackIndex s < length (pk_sequence s)" "28 \<le> pk_targetIndex s"
  using assms by (auto simp: picker_ok_def strip_ok_def)

lemma answer_keeps:
  assumes "picker_ok s"
  shows "picker_ok (draw_answer P reduced a s)"
proof (cases "pk_phase s = Rolling")
  case True
  note f = rolling_facts [OF assms True]
  show ?thesis
  proof (cases a)
    case (Inl m)
    then show ?thesis
      using f(3,4) by (auto simp: draw_answer_def Let_def getRollStopIndex_def ROLL_STOP_OFFSET_def f(1,2) intro!: render_settled)
  next
    case (Inr r)
    show ?thesis
    proof (cases r)
      case None
      with Inr show ?thesis
        using f(3,4) by (auto simp: draw_answer_def Let_def getRollStopIndex_def ROLL_STOP_OFFSET_def f(1,2) intro!: render_settled)
    next
      case (Some i)
      with Inr show ?thesis
        using f(3) spin_result(1) [of "pk_trackIndex s + 16" "pk_sequence s" P i]
        by (simp add: draw_answer_def Let_def f(1,2) render_settled render_settling)
    qed
  qed
next
  case False
  with assms show ?thesis by (simp add: draw_answer_def picker_ok_def strip_ok_def)
qed

lemma step_keeps:
  assumes "picker_ok s"
  shows "picker_ok (picker_step P reduced onStart e s)"
proof (cases e)
  case SettleFires
  have "picker_ok (picker_render P (s\<lparr>pk_phase := Settled\<rparr>))" if "pk_phase s = Settling"
    using assms that by (intro render_settled) (simp_all add: picker_ok_def strip_ok_def)
  with assms SettleFires show ?thesis by (simp add: settle_timeout_def)
next
  case RollTick
  have "picker_ok (s\<lparr>pk_active := min (pk_active s + 1) (getRollStopIndex (pk_targetIndex s))\<rparr>)"
    using assms by (simp add: picker_ok_def strip_ok_def getRollStopIndex_def)
  with assms RollTick show ?thesis by (simp add: roll_tick_def center_keeps)
next
  case StartPressed
  have "picker_ok (start_begin onStart s)"
    using assms by (simp add: start_begin_def picker_ok_def split: option.split)
  with assms StartPressed show ?thesis by simp
next
  case (StartAnswered f)
  with assms show ?thesis by (simp add: start_answer_def picker_ok_def split: option.split)
qed (simp_all add: begin_keeps answer_keeps assms)

lemma run_keeps: "picker_ok s \<Longrightarrow> picker_ok (fold (picker_step P reduced onStart) es s)"
  by (induction es arbitrary: s) (simp_all add: step_keeps)

subsection \<open>A draw ends\<close>

lemma tick_facts [simp]:
  "pk_phase (roll_tick P s) = pk_phase s" "pk_result (roll_tick P s) = pk_result s"
  "pk_sequence (roll_tick P s) = pk_sequence s" "pk_targetIndex (roll_tick P s) = pk_targetIndex s"
  "pk_error (roll_tick P s) = pk_error s" "pk_starting (roll_tick P s) = pk_starting s"
  "pk_drawing (roll_tick P s) = pk_drawing s"
  by (simp_all add: roll_tick_def)

definition same_draw :: "picker \<Rightarrow> picker \<Rightarrow> bool" where
  "same_draw s s' \<longleftrightarrow>
     pk_phase s' = pk_phase s \<and> pk_result s' = pk_result s \<and> pk_sequence s' = pk_sequence s \<and>
     pk_targetIndex s' = pk_targetIndex s \<and> pk_error s' = pk_error s \<and> pk_starting s' = pk_starting s \<and>
     pk_drawing s' = pk_drawing s"

lemma ticks_same: "same_draw s (fold (picker_step P R S) (replicate n RollTick) s)"
  by (induction n arbitrary: s) (simp_all add: same_draw_def)

lemma begin_facts:
  assumes "\<not> isBusy s"
  shows "pk_phase (fst (draw_begin P s)) = Rolling" "pk_result (fst (draw_begin P s)) = pk_result s"
    "pk_error (fst (draw_begin P s)) = None" "pk_starting (fst (draw_begin P s)) = None"
    "pk_drawing (fst (draw_begin P s)) = Some (pk_trackIndex s + 16)"
  using assms
  by (simp_all add: draw_begin_def Let_def picker_render_def getTargetIndex_def SPIN_DISTANCE_def isBusy_def)

text \<open>The result of a draw under the marker: it is the card in the middle of the strip, which is where the target is.\<close>

definition lands_on :: "picker_item list \<Rightarrow> picker_item \<Rightarrow> picker \<Rightarrow> bool" where
  "lands_on P r s \<longleftrightarrow>
     pk_result s = Some r \<and> visibleResult s = Some r \<and> pk_error s = None \<and> pk_active s = pk_targetIndex s \<and>
     pk_active s < length (displaySequence P s) \<and> displaySequence P s ! pk_active s = r \<and> pk_preview s = Some r"

definition draw_outcome :: "picker_item list \<Rightarrow> picker_item option \<Rightarrow> string + picker_item option \<Rightarrow> picker \<Rightarrow> bool" where
  "draw_outcome P before a s =
     (case a of
        Inl m \<Rightarrow> pk_result s = before \<and> pk_error s = Some m
      | Inr None \<Rightarrow> pk_result s = None \<and> pk_error s = None
      | Inr (Some r) \<Rightarrow> lands_on P r s)"

lemma settled_lands:
  assumes "pk_phase s = Settled" "pk_result s = Some r" "pk_error s = None" "pk_targetIndex s < length (pk_sequence s)"
    and "pk_sequence s ! pk_targetIndex s = r"
  shows "lands_on P r (picker_render P s)"
  using assms
  by (auto simp: lands_on_def picker_render_def center_effect_def track_effect_def Let_def visibleResult_def displaySequence_def)

lemma answer_settles:
  assumes "pk_drawing s = Some t" "pk_targetIndex s = t" "pk_error s = None" "pk_starting s = None"
  shows "case settle_timeout P (draw_answer P R a s) of s' \<Rightarrow>
    pk_phase s' = Settled \<and> pk_starting s' = None \<and> draw_outcome P (pk_result s) a s'"
proof (cases a)
  case (Inl m)
  then show ?thesis
    using assms by (simp add: draw_answer_def settle_timeout_def picker_render_def draw_outcome_def Let_def)
next
  case (Inr q)
  show ?thesis
  proof (cases q)
    case None
    then show ?thesis
      using assms Inr by (simp add: draw_answer_def settle_timeout_def picker_render_def draw_outcome_def Let_def)
  next
    case (Some r)
    define b where "b = buildSpinSequence (pk_sequence s) P r t"
    have b: "t < length b" "b ! t = r" using spin_result(1) [where t = t and seq = "pk_sequence s" and src = P and r = r]
      spin_result(2) [where t = t and seq = "pk_sequence s" and src = P and r = r] by (simp_all add: b_def)
    define s1 where "s1 = s\<lparr>pk_drawing := None, pk_result := Some r, pk_sequence := b,
        pk_phase := if R then Settled else Settling\<rparr>"
    have ans: "draw_answer P R a s = picker_render P s1"
      using assms(1) Inr Some by (simp add: draw_answer_def Let_def s1_def b_def)
    show ?thesis
    proof (cases R)
      case True
      have "lands_on P r (picker_render P s1)"
        using assms b True by (intro settled_lands) (simp_all add: s1_def)
      moreover have "pk_phase (picker_render P s1) = Settled" "pk_starting (picker_render P s1) = None"
        using True assms(4) by (simp_all add: picker_render_def s1_def)
      ultimately show ?thesis unfolding settle_timeout_def ans using Inr Some by (simp add: draw_outcome_def)
    next
      case False
      define s2 where "s2 = (picker_render P s1)\<lparr>pk_phase := Settled\<rparr>"
      have "settle_timeout P (draw_answer P R a s) = picker_render P s2"
        unfolding ans using False by (simp add: settle_timeout_def picker_render_def s2_def s1_def)
      moreover have "lands_on P r (picker_render P s2)"
        using assms b by (intro settled_lands) (simp_all add: s2_def picker_render_def s1_def)
      moreover have "pk_phase (picker_render P s2) = Settled" "pk_starting (picker_render P s2) = None"
        using assms(4) by (simp_all add: picker_render_def s2_def s1_def)
      ultimately show ?thesis using Inr Some by (simp add: draw_outcome_def)
    qed
  qed
qed

text \<open>C28. A draw ends, whatever the server answers, however many ticks the strip rolled for and whether or not it is
  animated: the picker is settled and can be used again; a pick is the result that is shown and lies under the marker of the
  strip, no pick leaves no result, and a failure is reported and leaves the result as it was.  Whatever happened before,
  the positions of the strip stay on it.\<close>

theorem draw_lands:
  assumes "s = fold (picker_step P R S) history picker_init" "\<not> isBusy s"
    and "s' = fold (picker_step P R S) (DrawPressed # replicate n RollTick @ [DrawAnswered a, SettleFires]) s"
  shows "pk_phase s' = Settled \<and> \<not> isBusy s' \<and> draw_outcome P (pk_result s) a s' \<and>
    (pk_sequence s' = [] \<or> pk_active s' < length (pk_sequence s'))"
proof -
  have "picker_ok picker_init"
    by (simp add: picker_ok_def strip_ok_def picker_init_def ROLL_START_INDEX_def getTargetIndex_def SPIN_DISTANCE_def)
  then have ok: "picker_ok s" using run_keeps [of picker_init P R S history] by (simp add: assms(1))
  then have "picker_ok s'" unfolding assms(3) by (rule run_keeps)
  then have strip: "pk_sequence s' = [] \<or> pk_active s' < length (pk_sequence s')"
    by (auto simp: picker_ok_def strip_ok_def)
  define s1 where "s1 = fst (draw_begin P s)"
  define s2 where "s2 = fold (picker_step P R S) (replicate n RollTick) s1"
  have s1: "picker_ok s1" "pk_phase s1 = Rolling" "pk_result s1 = pk_result s" "pk_error s1 = None" "pk_starting s1 = None"
    using begin_facts [OF assms(2), of P] begin_keeps [OF ok, of P] by (simp_all add: s1_def)
  have s2: "same_draw s1 s2" unfolding s2_def by (rule ticks_same)
  have run: "s' = settle_timeout P (draw_answer P R a s2)" by (simp add: assms(3) s2_def s1_def)
  have "pk_drawing s2 = Some (pk_targetIndex s2)" "pk_error s2 = None" "pk_starting s2 = None" "pk_result s2 = pk_result s"
    using s2 s1 rolling_facts(1) [OF s1(1,2)] by (simp_all add: same_draw_def)
  from answer_settles [OF this(1) refl this(2,3), of P R a] this(4) strip show ?thesis
    by (simp add: run isBusy_def)
qed

definition sample_pick :: "int \<Rightarrow> picker_item" where
  "sample_pick n =
     \<lparr>pk_id = n, pk_contentId = n, pk_title = ''Alien'', pk_subtitle = None, pk_imageUrl = None, pk_contentType = MOVIE,
      pk_status = Some Backlog\<rparr>"

theorem draw_lands_witness:
  "visibleResult (fold (picker_step [sample_pick 1, sample_pick 2] False True)
     (DrawPressed # replicate 13 RollTick @ [DrawAnswered (Inr (Some (sample_pick 2))), SettleFires]) picker_init) =
   Some (sample_pick 2)"
proof -
  have "\<not> isBusy picker_init" by (simp add: isBusy_def picker_init_def)
  moreover have "picker_init = fold (picker_step [sample_pick 1, sample_pick 2] False True) [] picker_init" by simp
  ultimately have "draw_outcome [sample_pick 1, sample_pick 2] (pk_result picker_init) (Inr (Some (sample_pick 2)))
      (fold (picker_step [sample_pick 1, sample_pick 2] False True)
        (DrawPressed # replicate 13 RollTick @ [DrawAnswered (Inr (Some (sample_pick 2))), SettleFires]) picker_init)"
    using draw_lands by blast
  then
  show ?thesis unfolding draw_outcome_def by (simp add: lands_on_def del: fold.simps fold_append fold_replicate)
qed

end
