(* ===== verification/WebVitals.thy ===== *)
theory WebVitals
  imports ClientUtils RequestSecurity
begin

text \<open>
  The reports of the browser's performance: what is reported and how it is sent (\<open>lib/perf/web-vitals.ts\<close>), and the
  subscriptions that report it (\<open>WebVitalsReporter.tsx\<close>).  The server side is the telemetry route of
  \<open>RequestSecurity\<close>.
\<close>

subsection \<open>Reports\<close>

record web_vital_metric =
  wv_name :: string
  wv_value :: rat
  wv_id :: "string option"
  wv_rating :: "string option"

text \<open>The limits of good and poor.\<close>

definition THRESHOLDS :: "(string \<times> rat \<times> rat) list" where
  "THRESHOLDS =
     [(''LCP'', 2500, 4000), (''INP'', 200, 500), (''FID'', 100, 300), (''CLS'', 1 / 10, 1 / 4), (''FCP'', 1800, 3000),
      (''TTFB'', 800, 1800)]"

definition classifyMetric :: "string \<Rightarrow> rat \<Rightarrow> string" where
  "classifyMetric name v =
     (case map_of THRESHOLDS name of
        None \<Rightarrow> ''needs-improvement''
      | Some (good, poor) \<Rightarrow> if v \<le> good then ''good'' else if v \<le> poor then ''needs-improvement'' else ''poor'')"

text \<open>
  \<open>currentBrowserState\<close> and the mark in the storage of the session.  There may be no window, and the storage may refuse
  to be read or, after it was read, to be written.
\<close>

datatype session_store = NoWindow | Unreadable | Readable bool bool

definition getBrowserState :: "session_store \<Rightarrow> string option \<Rightarrow> string \<times> string option" where
  "getBrowserState store current =
     (case current of
        Some st \<Rightarrow> (st, current)
      | None \<Rightarrow>
          (case store of
             NoWindow \<Rightarrow> (''unknown'', None)
           | Unreadable \<Rightarrow> (''unknown'', Some ''unknown'')
           | Readable seen writable \<Rightarrow>
               let st = (if \<not> writable then ''unknown'' else if seen then ''warm'' else ''cold'') in (st, Some st)))"

text \<open>The type of the first navigation entry, when there is one.\<close>

definition getNavigationType :: "string option \<Rightarrow> string" where
  "getNavigationType entry = nullish entry ''unknown''"

definition web_vital_payload :: "web_vital_metric \<Rightarrow> string \<Rightarrow> rat \<Rightarrow> string \<Rightarrow> string \<Rightarrow> json" where
  "web_vital_payload metric route now browser_state navigation_type =
     JObj ([(''event'', JStr ''web_vital''), (''name'', JStr (wv_name metric)),
            (''value'', JNum (Fin (of_int (ClientUtils.js_round (wv_value metric * 100)) / 100))),
            (''rating'', JStr (nullish (wv_rating metric) (classifyMetric (wv_name metric) (wv_value metric))))] @
       (case wv_id metric of None \<Rightarrow> [] | Some i \<Rightarrow> [(''id'', JStr i)]) @
       [(''route'', JStr route), (''ts'', JNum (Fin now)), (''browser_state'', JStr browser_state),
        (''navigation_type'', JStr navigation_type)])"

text \<open>How a report leaves the page.  \<open>sendBeacon\<close> is missing, throws, or answers whether it took the report.\<close>

datatype vital_delivery = ToConsole | NotSent | ByBeacon json | ByFetch json
datatype send_beacon = NoBeacon | BeaconThrows | BeaconAnswers bool

definition reportWebVital ::
  "bool \<Rightarrow> bool \<Rightarrow> send_beacon \<Rightarrow> session_store \<Rightarrow> string option \<Rightarrow> rat \<Rightarrow> web_vital_metric \<Rightarrow> string \<Rightarrow>
     string option \<Rightarrow> vital_delivery \<times> string option" where
  "reportWebVital development has_navigator beacon store entry now metric route current =
     (case getBrowserState store current of (browser_state, current') \<Rightarrow>
        let payload = web_vital_payload metric route now browser_state (getNavigationType entry) in
        (if development then ToConsole
         else if \<not> has_navigator then NotSent
         else if beacon = BeaconAnswers True then ByBeacon payload else ByFetch payload,
         current'))"

subsection \<open>Subscriptions\<close>

text \<open>
  The component subscribes to the five metrics again whenever the path changes, each time with the path of that render;
  the library calls every subscription that was made.
\<close>

definition REPORTED_METRICS :: "string list" where
  "REPORTED_METRICS = [''CLS'', ''FCP'', ''INP'', ''LCP'', ''TTFB'']"

definition vitals_effect :: "string \<Rightarrow> (string \<times> string) list \<Rightarrow> (string \<times> string) list" where
  "vitals_effect pathname subscriptions =
     (let route = or_str (Some pathname) ''/'' in subscriptions @ map (\<lambda>name. (name, route)) REPORTED_METRICS)"

definition vitals_visit :: "string list \<Rightarrow> (string \<times> string) list" where
  "vitals_visit paths = fold vitals_effect (remdups_adj paths) []"

definition vitals_emit :: "web_vital_metric \<Rightarrow> (string \<times> string) list \<Rightarrow> (web_vital_metric \<times> string) list" where
  "vitals_emit metric subscriptions =
     map (\<lambda>(_, route). (metric, route)) (filter (\<lambda>(name, _). name = wv_name metric) subscriptions)"

subsection \<open>What the server takes\<close>

lemma browser_state_known: "fst (getBrowserState store current) \<in> set BROWSER_STATES"
  if "pred_option (\<lambda>st. st \<in> set BROWSER_STATES) current"
  using that by (auto simp: getBrowserState_def BROWSER_STATES_def Let_def split: option.split session_store.split)

lemma browser_state_kept:
  "pred_option (\<lambda>st. st \<in> set BROWSER_STATES) current \<Longrightarrow>
     pred_option (\<lambda>st. st \<in> set BROWSER_STATES) (snd (getBrowserState store current))"
  by (auto simp: getBrowserState_def BROWSER_STATES_def Let_def split: option.split session_store.split)

lemma classified: "classifyMetric name v \<in> set METRIC_RATINGS"
  by (auto simp: classifyMetric_def METRIC_RATINGS_def split: option.split)

definition report_fits :: "web_vital_metric \<Rightarrow> string \<Rightarrow> string option \<Rightarrow> bool" where
  "report_fits metric route entry \<longleftrightarrow>
     wv_name metric \<in> set METRIC_NAMES \<and> - 1 / 200 \<le> wv_value metric \<and> wv_value metric < 600000 + 1 / 200 \<and>
     pred_option (\<lambda>r. r \<in> set METRIC_RATINGS) (wv_rating metric) \<and> pred_option (\<lambda>i. length i \<le> 128) (wv_id metric) \<and>
     prefix ''/'' route \<and> length route \<le> 512 \<and> getNavigationType entry \<in> set NAVIGATION_TYPES"

lemma rounded_range:
  "0 \<le> rat_of_int (ClientUtils.js_round (v * 100)) / 100 \<and> rat_of_int (ClientUtils.js_round (v * 100)) / 100 \<le> 600000 \<longleftrightarrow>
     - 1 / 200 \<le> v \<and> v < 600000 + 1 / 200"
proof -
  have "0 \<le> rat_of_int (ClientUtils.js_round (v * 100)) / 100 \<longleftrightarrow> 0 \<le> ClientUtils.js_round (v * 100)" by simp
  also have "\<dots> \<longleftrightarrow> - 1 / 200 \<le> v" by (simp add: ClientUtils.js_round_def) linarith
  finally have low: "0 \<le> rat_of_int (ClientUtils.js_round (v * 100)) / 100 \<longleftrightarrow> - 1 / 200 \<le> v" .
  have "rat_of_int (ClientUtils.js_round (v * 100)) / 100 \<le> 600000 \<longleftrightarrow> ClientUtils.js_round (v * 100) \<le> 60000000"
    by (simp add: divide_le_eq)
  also have "\<dots> \<longleftrightarrow> v < 600000 + 1 / 200" by (simp add: ClientUtils.js_round_def floor_le_iff) linarith
  finally show ?thesis using low by blast
qed

text \<open>The telemetry route takes a report of the client exactly when the metric is one of its five, its value,
  rounded to hundredths, is not negative and at most ten minutes, the id and the path are not too long, and the library
  gave a known rating; whatever the storage of the session does, the state of the browser that is reported is
  one that it knows.\<close>

theorem web_vital_accepted:
  assumes "pred_option (\<lambda>st. st \<in> set BROWSER_STATES) current"
    and "reportWebVital False True beacon store entry now metric route current = (sent, current')"
  shows "pred_option (\<lambda>st. st \<in> set BROWSER_STATES) current' \<and>
    (\<exists>payload. sent \<in> {ByBeacon payload, ByFetch payload} \<and> (isValidPayload payload \<longleftrightarrow> report_fits metric route entry))"
proof -
  obtain b c where b: "getBrowserState store current = (b, c)" by (cases "getBrowserState store current")
  then have known: "b \<in> set BROWSER_STATES" "pred_option (\<lambda>st. st \<in> set BROWSER_STATES) c"
    using browser_state_known [OF assms(1), of store] browser_state_kept [OF assms(1), of store] by simp_all
  let ?p = "web_vital_payload metric route now b (getNavigationType entry)"
  have "current' = c" "sent \<in> {ByBeacon ?p, ByFetch ?p}"
    using assms(2) b by (auto simp: reportWebVital_def Let_def split: if_splits)
  moreover have "isValidPayload ?p \<longleftrightarrow> report_fits metric route entry"
    using known(1) rounded_range [of "wv_value metric"] classified [of "wv_name metric" "wv_value metric"]
    by (cases "wv_id metric"; cases "wv_rating metric")
      (simp_all add: isValidPayload_def web_vital_payload_def report_fits_def json_field_def opt_string_def nullish_def)
  ultimately show ?thesis using known(2) by blast
qed
theorem web_vital_accepted_witness:
  "\<exists>payload. fst (reportWebVital False True (BeaconAnswers True) (Readable True True) (Some ''navigate'') 1700000000000
       \<lparr>wv_name = ''LCP'', wv_value = 2100, wv_id = Some ''v5-1'', wv_rating = None\<rparr> ''/content/7'' None) \<in>
       {ByBeacon payload, ByFetch payload} \<and> isValidPayload payload"
proof -
  let ?m = "\<lparr>wv_name = ''LCP'', wv_value = 2100, wv_id = Some ''v5-1'', wv_rating = None\<rparr>"
  obtain sent c where r: "reportWebVital False True (BeaconAnswers True) (Readable True True) (Some ''navigate'')
      1700000000000 ?m ''/content/7'' None = (sent, c)"
    by (metis surj_pair)
  have "report_fits ?m ''/content/7'' (Some ''navigate'')"
    by (simp add: report_fits_def METRIC_NAMES_def getNavigationType_def nullish_def NAVIGATION_TYPES_def)
  with web_vital_accepted [OF _ r] show ?thesis unfolding r by auto
qed

lemma filter_named:
  "distinct names \<Longrightarrow>
     filter (\<lambda>(name, _). name = k) (map (\<lambda>name. (name, r)) names) = (if k \<in> set names then [(k, r)] else [])"
  by (induction names) auto

lemma emit_effect:
  "vitals_emit metric (vitals_effect p subs) =
     vitals_emit metric subs @ (if wv_name metric \<in> set REPORTED_METRICS then [(metric, or_str (Some p) ''/'')] else [])"
proof -
  have "distinct REPORTED_METRICS" by (simp add: REPORTED_METRICS_def)
  note filter_named [OF this, of "wv_name metric" "or_str (Some p) ''/''"]
  then show ?thesis unfolding vitals_emit_def vitals_effect_def Let_def filter_append map_append by simp
qed

text \<open>After a walk through the pages one measurement is reported once for every page that was opened, with the path
  of each of them, instead of once with the latest path: every change of the path subscribes again, and no
  subscription ends.\<close>

theorem vital_reported_per_page:
  "vitals_emit metric (vitals_visit paths) =
     (if wv_name metric \<in> set REPORTED_METRICS
      then map (\<lambda>p. (metric, or_str (Some p) ''/'')) (remdups_adj paths) else [])"
proof -
  have "vitals_emit metric (fold vitals_effect ps subs) =
      vitals_emit metric subs @
        (if wv_name metric \<in> set REPORTED_METRICS then map (\<lambda>p. (metric, or_str (Some p) ''/'')) ps else [])" for ps subs
    by (induction ps arbitrary: subs) (simp_all add: emit_effect)
  then show ?thesis by (simp add: vitals_visit_def vitals_emit_def)
qed

end
