(* ===== verification/Cards.thy ===== *)
theory Cards
  imports SearchInput ListViewer PublicProfile ContentTypes CardHover
begin

text \<open>
  The cards of content: their texts (\<open>ContentCard/utils.ts\<close>, \<open>FeaturedBanner/utils.ts\<close>), what a card does when it is
  pointed at and clicked (\<open>ContentCard/index.tsx\<close>, \<open>useContentCardModal.ts\<close>, \<open>useCardHoverCapability.ts\<close>), artwork that is
  blurred until it is revealed (\<open>useModerationArtworkReveal.ts\<close>, \<open>usePresentedArtwork.ts\<close>), and entries of a profile or of a
  browse page as cards (\<open>PublicProfilePage/utils.ts\<close>, \<open>BrowsePage/utils.ts\<close>).  \<open>date_text\<close> is a date as the browser writes it, none
  for a text that is no date.
\<close>

subsection \<open>Texts\<close>

definition bullet :: string where
  "bullet = [CHR 0x20, CHR 0xE2, CHR 0x80, CHR 0xA2, CHR 0x20]"

definition formatReleaseDate :: "(string \<Rightarrow> string option) \<Rightarrow> string option \<Rightarrow> string" where
  "formatReleaseDate date_text dateString =
     (if \<not> truthy_str dateString then [] else nullish (date_text (the dateString)) (the dateString))"

text \<open>A count with its noun, when the count is positive.\<close>

definition counted :: "string \<Rightarrow> int option \<Rightarrow> string list" where
  "counted noun n =
     (case n of
        None \<Rightarrow> []
      | Some n \<Rightarrow> if 0 < n then [show_int n @ '' '' @ (if n = 1 then noun else noun @ ''s'')] else [])"

definition show_counts :: "tv_show_detail \<Rightarrow> string list" where
  "show_counts d =
     (let seasons = tv_number_of_seasons d; episodes = tv_number_of_episodes d in
      if truthy_int seasons \<or> truthy_int episodes
      then (let parts = counted ''season'' seasons @ counted ''episode'' episodes in
            if parts \<noteq> [] then [js_join bullet parts] else [])
      else [])"

definition nonzero_text :: "int option \<Rightarrow> string \<Rightarrow> string list" where
  "nonzero_text n noun = (if truthy_int n then [show_int (the n) @ noun] else [])"

definition track_text :: "int \<Rightarrow> string list" where
  "track_text n = (if n \<noteq> 0 then [show_int n @ '' '' @ (if n = 1 then ''track'' else ''tracks'')] else [])"

fun card_footer_parts :: "source_data \<Rightarrow> string list" where
  "card_footer_parts (BookData d) = nonzero_text (bk_pages d) '' pages''"
| "card_footer_parts (AlbumData d) = track_text (alb_total_tracks d) @ nonzero_text (alb_duration_minutes d) '' min''"
| "card_footer_parts (MovieData d) = nonzero_text (mov_duration_minutes d) '' min''"
| "card_footer_parts (SeasonData d) = counted ''episode'' (Some (sd_number_of_episodes d))"
| "card_footer_parts (TVShowData d) = show_counts d"
| "card_footer_parts (GameData d) = []"

definition getFooterInfo :: "source_data \<Rightarrow> string" where
  "getFooterInfo item = js_join bullet (card_footer_parts item)"

definition getAuthorsText :: "source_data \<Rightarrow> string" where
  "getAuthorsText item =
     (case source_authors item of
        Some (a # as) \<Rightarrow> formatAuthors (Some (map au_name (a # as))) 2
      | _ \<Rightarrow> [])"

fun release_date_of :: "source_data \<Rightarrow> string option" where
  "release_date_of (MovieData d) = mov_release_date d"
| "release_date_of (TVShowData d) = tv_release_date d"
| "release_date_of (SeasonData d) = sd_release_date d"
| "release_date_of (AlbumData d) = alb_release_date d"
| "release_date_of (GameData d) = gam_release_date d"
| "release_date_of (BookData d) = bk_release_date d"

definition getReleaseDate :: "(string \<Rightarrow> string option) \<Rightarrow> source_data \<Rightarrow> string" where
  "getReleaseDate date_text item =
     (if truthy_str (release_date_of item) then formatReleaseDate date_text (release_date_of item) else [])"

definition getOriginalTitle :: "source_data \<Rightarrow> string" where
  "getOriginalTitle item = or_str (original_title item) []"

fun description_of :: "source_data \<Rightarrow> string option" where
  "description_of (MovieData d) = mov_description d"
| "description_of (TVShowData d) = tv_description d"
| "description_of (SeasonData d) = sd_description d"
| "description_of (GameData d) = gam_description d"
| "description_of (BookData d) = bk_description d"
| "description_of (AlbumData d) = None"

definition getDescription :: "source_data \<Rightarrow> string" where
  "getDescription item = or_str (description_of item) []"

fun artwork_of :: "source_data \<Rightarrow> image list \<times> string option" where
  "artwork_of (MovieData d) = (mov_images d, mov_image_url d)"
| "artwork_of (TVShowData d) = (tv_images d, tv_image_url d)"
| "artwork_of (SeasonData d) = (sd_images d, sd_image_url d)"
| "artwork_of (AlbumData d) = (alb_images d, alb_image_url d)"
| "artwork_of (GameData d) = (gam_images d, gam_image_url d)"
| "artwork_of (BookData d) = (bk_images d, bk_image_url d)"

definition getPosterImageUrl :: "source_data \<Rightarrow> string option" where
  "getPosterImageUrl item =
     (let url = getCardImageUrl (Some (fst (artwork_of item))) (snd (artwork_of item)) in
      if truthy_str url then url else None)"

text \<open>The banner of the home page.\<close>

definition getBestBannerMedia :: "source_data \<Rightarrow> (string \<times> banner_treatment) option" where
  "getBestBannerMedia item = getBannerMedia (Some (fst (artwork_of item))) (snd (artwork_of item))"

definition getBestImageUrl :: "source_data \<Rightarrow> string option" where
  "getBestImageUrl item =
     (case getBestBannerMedia item of None \<Rightarrow> None | Some m \<Rightarrow> if fst m = [] then None else Some (fst m))"

fun banner_footer_parts :: "source_data \<Rightarrow> string list" where
  "banner_footer_parts (BookData d) = nonzero_text (bk_pages d) '' pages''"
| "banner_footer_parts (AlbumData d) = track_text (alb_total_tracks d)"
| "banner_footer_parts _ = []"

definition banner_getFooterInfo :: "source_data \<Rightarrow> string" where
  "banner_getFooterInfo item = js_join bullet (banner_footer_parts item)"

definition banner_getAuthors :: "source_data \<Rightarrow> string" where
  "banner_getAuthors item = (case source_authors item of Some (a # _) \<Rightarrow> au_name a | _ \<Rightarrow> [])"

definition positive_minutes :: "int option \<Rightarrow> string list" where
  "positive_minutes n = (case n of None \<Rightarrow> [] | Some m \<Rightarrow> if 0 < m then [show_int m @ '' min''] else [])"

fun banner_extra_parts :: "source_data \<Rightarrow> string list" where
  "banner_extra_parts (MovieData d) = positive_minutes (mov_duration_minutes d)"
| "banner_extra_parts (AlbumData d) = positive_minutes (alb_duration_minutes d)"
| "banner_extra_parts (TVShowData d) = show_counts d"
| "banner_extra_parts _ = []"

definition getExtraInfo :: "source_data \<Rightarrow> string" where
  "getExtraInfo item = js_join bullet (banner_extra_parts item)"

definition isOriginalTitleSame :: "source_data \<Rightarrow> bool" where
  "isOriginalTitleSame item \<longleftrightarrow>
     getOriginalTitle item \<noteq> [] \<and> js_lower (getOriginalTitle item) = js_lower (sdata_title item)"

subsection \<open>A card\<close>

text \<open>The title of a card; a season has the name of its show before it, unless it stands under its show.\<close>

fun card_title :: "bool \<Rightarrow> source_data \<Rightarrow> string" where
  "card_title parentScope (SeasonData d) =
     (if parentScope then formatSeasonLocalTitle (Some (sd_title d)) (Some (sd_season_number d)) (sd_tv_show_name d)
      else formatSeasonTitle (sd_tv_show_name d) (Some (sd_title d)) (Some (sd_season_number d)))"
| "card_title parentScope item = sdata_title item"

fun source_denn_id :: "source_data \<Rightarrow> int option" where
  "source_denn_id (MovieData d) = mov_denn_id d"
| "source_denn_id (TVShowData d) = tv_denn_id d"
| "source_denn_id (SeasonData d) = sd_denn_id d"
| "source_denn_id (AlbumData d) = alb_denn_id d"
| "source_denn_id (GameData d) = gam_denn_id d"
| "source_denn_id (BookData d) = bk_denn_id d"

text \<open>The item that is prefetched and linked: its canonical id, if it has one and the card may navigate.\<close>

definition card_target :: "bool \<Rightarrow> source_data \<Rightarrow> int option" where
  "card_target disableDetailNavigation item =
     (if disableDetailNavigation \<or> \<not> truthy_int (source_denn_id item) then None else source_denn_id item)"

text \<open>A click on the link: whether it goes on, and the new mark that the card is navigating.\<close>

record mouse_click =
  mc_button :: int
  mc_modified :: bool

definition card_click :: "mouse_click \<Rightarrow> bool \<Rightarrow> bool \<times> bool" where
  "card_click event isNavigating =
     (if mc_button event \<noteq> 0 \<or> mc_modified event then (True, isNavigating)
      else if isNavigating then (False, True) else (True, True))"

text \<open>The texts under a card: the original title when it is another one, authors, date and the rest.\<close>

definition card_metadata :: "(string \<Rightarrow> string option) \<Rightarrow> bool \<Rightarrow> source_data \<Rightarrow> string list" where
  "card_metadata date_text parentScope item =
     (let original = getOriginalTitle item in
      filter (\<lambda>t. t \<noteq> [])
        [if js_lower original = js_lower (card_title parentScope item) then [] else original,
         getAuthorsText item, getReleaseDate date_text item, getFooterInfo item])"

definition modal_item :: "content_type \<Rightarrow> string \<Rightarrow> source_api \<times> string \<times> content_type" where
  "modal_item typ ident = (getSourceApi (content_type_str typ), ident, typ)"

subsection \<open>Artwork that is revealed\<close>

text \<open>
  What identifies an artwork: the id and the picture of the item, its moderation and whether adult content is allowed (the JSON text
  of these values in the code).
\<close>

type_synonym artwork_key = "string \<times> string option \<times> moderation_summary option \<times> bool"

record artwork_state =
  art_key :: artwork_key
  art_revealed :: bool

definition artwork_init :: "artwork_key \<Rightarrow> artwork_state" where
  "artwork_init key = \<lparr>art_key = key, art_revealed = False\<rparr>"

definition artwork_render :: "artwork_key \<Rightarrow> artwork_state \<Rightarrow> artwork_state" where
  "artwork_render key st = (if art_key st \<noteq> key then \<lparr>art_key = key, art_revealed = False\<rparr> else st)"

definition artwork_toggle :: "artwork_key \<Rightarrow> artwork_state \<Rightarrow> artwork_state" where
  "artwork_toggle key st = \<lparr>art_key = key, art_revealed = if art_key st = key then \<not> art_revealed st else True\<rparr>"

definition isRevealed :: "artwork_key \<Rightarrow> artwork_state \<Rightarrow> bool" where
  "isRevealed key st \<longleftrightarrow> art_key st = key \<and> art_revealed st"

definition isBlurred :: "artwork_key \<Rightarrow> artwork_state \<Rightarrow> bool" where
  "isBlurred key st \<longleftrightarrow>
     (case key of (_, _, summary, allowAdultContent) \<Rightarrow> shouldBlurModerationArtwork summary allowAdultContent) \<and>
     \<not> isRevealed key st"

definition presented_key ::
  "bool \<Rightarrow> bool \<Rightarrow> string \<Rightarrow> string option \<Rightarrow> moderation_summary option \<Rightarrow> moderation_summary option \<Rightarrow> artwork_key" where
  "presented_key visibilityEnabled allowAdultContent ident imageUrl summary explicitSummary =
     (ident, imageUrl,
      if explicitSummary \<noteq> None then explicitSummary else visibleModerationSummary summary visibilityEnabled,
      allowAdultContent)"

text \<open>What is shown at one place, with the key of its last render, and what happens there.\<close>

datatype artwork_event = ShowArtwork artwork_key | ToggleReveal

fun artwork_step :: "artwork_event \<Rightarrow> artwork_key \<times> artwork_state \<Rightarrow> artwork_key \<times> artwork_state" where
  "artwork_step (ShowArtwork key) (_, st) = (key, artwork_render key st)"
| "artwork_step ToggleReveal (key, st) = (key, artwork_toggle key st)"

subsection \<open>Whether the pointer can hover\<close>

text \<open>The subscribers of the module, and whether its listener is registered with the media query.\<close>

record hover_capability =
  hc_subscribers :: "nat set"
  hc_listening :: bool

definition hover_subscribe :: "bool \<Rightarrow> nat \<Rightarrow> hover_capability \<Rightarrow> hover_capability" where
  "hover_subscribe has_query subscriber s =
     (let subscribers = insert subscriber (hc_subscribers s) in
      s\<lparr>hc_subscribers := subscribers, hc_listening := hc_listening s \<or> (card subscribers = 1 \<and> has_query)\<rparr>)"

definition hover_unsubscribe :: "bool \<Rightarrow> nat \<Rightarrow> hover_capability \<Rightarrow> hover_capability" where
  "hover_unsubscribe has_query subscriber s =
     (let subscribers = hc_subscribers s - {subscriber} in
      s\<lparr>hc_subscribers := subscribers,
        hc_listening := hc_listening s \<and> \<not> (card subscribers = 0 \<and> has_query)\<rparr>)"

definition hover_snapshot :: "bool option \<Rightarrow> bool" where
  "hover_snapshot matches = nullish matches False"

subsection \<open>Entries of a profile and of a browse page\<close>

definition profileContentCardItem :: "local_content_summary \<Rightarrow> source_data" where
  "profileContentCardItem item =
     (let ident = show_int (lcs_id item); authors = lcs_authors item in
      case lcs_type item of
        TV_SHOW \<Rightarrow> TVShowData
          \<lparr>tv_id = ident, tv_denn_id = Some (lcs_id item), tv_title = lcs_title item, tv_original_title = lcs_title item,
           tv_description = None, tv_image_url = lcs_poster item, tv_tagline = None, tv_imdb_id = None,
           tv_release_date = lcs_date item, tv_status = None, tv_number_of_seasons = None, tv_number_of_episodes = None,
           tv_authors = authors, tv_images = [], tv_platforms = None, tv_seasons = [], tv_moderation = lcs_moderation item\<rparr>
      | SEASON \<Rightarrow> SeasonData
          \<lparr>sd_id = ident, sd_denn_id = Some (lcs_id item), sd_season_number = nullish (lcs_season_number item) 0,
           sd_title = lcs_title item, sd_description = None, sd_image_url = lcs_poster item,
           sd_tv_show_name = lcs_subtitle item, sd_tv_show_id = None, sd_tv_show_external_id = None,
           sd_release_date = lcs_date item, sd_number_of_episodes = 0, sd_images = [], sd_platforms = None,
           sd_episodes = [], sd_moderation = lcs_moderation item\<rparr>
      | GAME \<Rightarrow> GameData
          \<lparr>gam_id = ident, gam_denn_id = Some (lcs_id item), gam_title = lcs_title item, gam_game_type = None,
           gam_release_date = lcs_date item, gam_description = None, gam_image_url = lcs_poster item, gam_authors = authors,
           gam_platforms = None, gam_distribution_networks = None, gam_images = [], gam_genres = [], gam_themes = [],
           gam_game_modes = [], gam_series = None, gam_play_time = None, gam_duration = None,
           gam_moderation = lcs_moderation item\<rparr>
      | ALBUM \<Rightarrow> AlbumData
          \<lparr>alb_id = ident, alb_denn_id = Some (lcs_id item), alb_title = lcs_title item, alb_authors = profile_authors item,
           alb_image_url = lcs_poster item, alb_release_date = lcs_date item, alb_total_tracks = 0, alb_album_type = [],
           alb_external_url = [], alb_tracks = [], alb_duration_minutes = None, alb_images = [],
           alb_moderation = lcs_moderation item\<rparr>
      | BOOK \<Rightarrow> BookData
          \<lparr>bk_id = ident, bk_denn_id = Some (lcs_id item), bk_title = lcs_title item, bk_authors = profile_authors item,
           bk_image_url = lcs_poster item, bk_release_date = lcs_date item, bk_pages = None, bk_description = None,
           bk_images = [], bk_moderation = lcs_moderation item\<rparr>
      | _ \<Rightarrow> MovieData
          \<lparr>mov_id = ident, mov_denn_id = Some (lcs_id item), mov_title = lcs_title item, mov_original_title = lcs_title item,
           mov_description = None, mov_image_url = lcs_poster item, mov_tagline = None, mov_imdb_id = None,
           mov_release_date = lcs_date item, mov_duration_minutes = None, mov_status = None, mov_authors = authors,
           mov_images = [], mov_platforms = None, mov_moderation = lcs_moderation item\<rparr>)"

record list_card_data =
  lcd_id :: int
  lcd_name :: string
  lcd_list_type :: list_type
  lcd_visibility :: list_visibility
  lcd_item_count :: int

definition profileListCardItem :: "public_list_summary \<Rightarrow> list_card_data" where
  "profileListCardItem l =
     \<lparr>lcd_id = pls_id l, lcd_name = pls_name l, lcd_list_type = pls_list_type l, lcd_visibility = pls_visibility l,
      lcd_item_count = pls_item_count l\<rparr>"

text \<open>\<open>Intl.DateTimeFormat\<close> throws for a text that is no date.\<close>

definition formatProfileDate :: "(string \<Rightarrow> string option) \<Rightarrow> string option \<Rightarrow> string option" where
  "formatProfileDate date_text v =
     (if \<not> truthy_str v then Some ''Date unavailable'' else date_text (the v))"

definition transformBrowseResults :: "browse_type \<Rightarrow> search_entry list \<Rightarrow> source_data list" where
  "transformBrowseResults typ results =
     (case typ of
        BrowseMovies \<Rightarrow> map MovieData (transformMovieResults results)
      | BrowseTVShows \<Rightarrow> map TVShowData (transformTVShowResults results)
      | BrowseGames \<Rightarrow> map GameData (transformGameResults results)
      | BrowseMusic \<Rightarrow> map AlbumData (transformMusicResults results)
      | BrowseBooks \<Rightarrow> map BookData (transformBookResults results))"

subsection \<open>What is shown\<close>

lemma artwork_key_kept: "art_key st = k \<Longrightarrow> fold artwork_step es (k, st) = (k', st') \<Longrightarrow> art_key st' = k'"
proof (induction es arbitrary: k st)
  case (Cons e es)
  obtain k2 st2 where step: "artwork_step e (k, st) = (k2, st2)" by (metis surj_pair)
  with Cons.prems(1) have "art_key st2 = k2"
    by (cases e) (auto simp: artwork_render_def artwork_toggle_def split: if_splits)
  with Cons.IH [of st2 k2] Cons.prems(2) step show ?case by simp
qed simp

lemma artwork_toggles:
  "list_all (\<lambda>e. e = ToggleReveal \<or> e = ShowArtwork k) post \<Longrightarrow> art_key st = k \<Longrightarrow>
     \<exists>st'. fold artwork_step post (k, st) = (k, st') \<and> art_key st' = k \<and>
       art_revealed st' = (art_revealed st \<noteq> odd (count_list post ToggleReveal))"
proof (induction post arbitrary: st)
  case (Cons e es)
  show ?case
  proof (cases "e = ToggleReveal")
    case True
    with Cons.prems Cons.IH [of "artwork_toggle k st"] show ?thesis by (auto simp: artwork_toggle_def)
  next
    case False
    with Cons.prems Cons.IH [of st] show ?thesis by (auto simp: artwork_render_def)
  qed
qed simp

text \<open>Artwork that has to be blurred is shown only to a viewer who revealed that very artwork: whatever was revealed or
  hidden before at the same place, when another item, picture, judgement or setting comes it is blurred again, and from then on it is
  shown after an odd number of presses and blurred after an even one.\<close>

theorem artwork_revealed_by_viewer:
  assumes "fold artwork_step pre (k0, artwork_init k0) = (k1, st1)" "k1 \<noteq> k"
    and "list_all (\<lambda>e. e = ToggleReveal \<or> e = ShowArtwork k) post"
  shows "case fold artwork_step (pre @ ShowArtwork k # post) (k0, artwork_init k0) of (k', st) \<Rightarrow>
    k' = k \<and> (isRevealed k st \<longleftrightarrow> odd (count_list post ToggleReveal)) \<and>
    (isBlurred k st \<longleftrightarrow> shouldBlurModerationArtwork (fst (snd (snd k))) (snd (snd (snd k))) \<and>
       even (count_list post ToggleReveal))"
proof -
  have "art_key st1 = k1" using artwork_key_kept [OF _ assms(1)] by (simp add: artwork_init_def)
  then have "artwork_render k st1 = \<lparr>art_key = k, art_revealed = False\<rparr>" using assms(2) by (simp add: artwork_render_def)
  with artwork_toggles [OF assms(3), of "artwork_render k st1"] obtain st where
    st: "fold artwork_step post (k, artwork_render k st1) = (k, st)" "art_key st = k"
      "art_revealed st = odd (count_list post ToggleReveal)" by auto
  obtain a b c d where "k = (a, b, c, d)" by (cases k)
  with st show ?thesis by (simp add: assms(1) isRevealed_def isBlurred_def)
qed

theorem artwork_revealed_by_viewer_witness:
  "case fold artwork_step [ToggleReveal, ShowArtwork (''2'', None, Some (Complete Explicit), False), ToggleReveal, ToggleReveal]
       ((''1'', None, Some (Complete Explicit), False), artwork_init (''1'', None, Some (Complete Explicit), False)) of (k, st) \<Rightarrow>
     isBlurred k st"
proof -
  let ?a = "(''1'', None, Some (Complete Explicit), False)" and ?b = "(''2'', None, Some (Complete Explicit), False)"
  obtain k1 st1 where r: "fold artwork_step [ToggleReveal] (?a, artwork_init ?a) = (k1, st1)" by (metis surj_pair)
  then have "k1 \<noteq> ?b" by auto
  moreover have "list_all (\<lambda>e. e = ToggleReveal \<or> e = ShowArtwork ?b) [ToggleReveal, ToggleReveal]" by simp
  ultimately show ?thesis
    using artwork_revealed_by_viewer [OF r, of ?b "[ToggleReveal, ToggleReveal]"]
    by (auto simp: shouldBlurModerationArtwork_def split: prod.splits)
qed

text \<open>An entry of a profile as a card: its link, its picture, and nothing under it but authors and date.\<close>

lemma profile_card:
  "sdata_title (profileContentCardItem c) = lcs_title c"
  "card_target False (profileContentCardItem c) = (if lcs_id c = 0 then None else Some (lcs_id c))"
  "getFooterInfo (profileContentCardItem c) = []"
  by (cases "lcs_type c"; simp add: profileContentCardItem_def Let_def card_target_def getFooterInfo_def
      track_text_def nonzero_text_def counted_def show_counts_def)+

text \<open>The listener is registered while there are subscribers.\<close>

lemma hover_listening:
  assumes "finite (hc_subscribers s)" "hc_listening s \<longleftrightarrow> hc_subscribers s \<noteq> {}"
  shows "hc_listening (hover_subscribe True n s) \<longleftrightarrow> hc_subscribers (hover_subscribe True n s) \<noteq> {}"
    and "hc_listening (hover_unsubscribe True n s) \<longleftrightarrow> hc_subscribers (hover_unsubscribe True n s) \<noteq> {}"
  using assms by (auto simp: hover_subscribe_def hover_unsubscribe_def Let_def card_eq_0_iff)

end
