(* ===== verification/ProfileControls.thy ===== *)
theory ProfileControls
  imports PublicProfile ContentTypes
begin

text \<open>
  The controls of a profile: tabs (\<open>ProfileTabs.tsx\<close>), pages (\<open>ProfileTabStates.tsx\<close>, \<open>ui/PaginationControls.tsx\<close>), the toolbar of
  the progress (\<open>ProfileProgressToolbar.tsx\<close>, \<open>ProgressToolbarControls.tsx\<close>, \<open>ProgressSortControl.tsx\<close>,
  \<open>ProfileRatingFilters.tsx\<close>), the filters of the lists (\<open>ProfileFilters.tsx\<close>) and the navigation they all go through
  (\<open>ProfileTabContent.tsx\<close>); the keys of the menus (\<open>ProfileFilterMenu.tsx\<close>, \<open>ui/Dropdown.tsx\<close>); and the banner that the page
  keeps (\<open>PublicProfilePage/index.tsx\<close>).  An update of the search is a function on the search; a navigation
  writes the search into the address and the page reads it back through the schema.
\<close>

subsection \<open>Navigation\<close>

definition profile_navigate :: "profile_search \<Rightarrow> profile_search" where
  "profile_navigate s = nullish (publicProfileSearchSchema (search_object s)) s"

definition changeSearch :: "(profile_search \<Rightarrow> profile_search) \<Rightarrow> bool \<Rightarrow> profile_search \<Rightarrow> profile_search" where
  "changeSearch updates resetPage search =
     (let s = updates search in profile_navigate (s\<lparr>psp_page := if resetPage then 1 else psp_page s\<rparr>))"

definition cleanSearchForTab :: "profile_tab \<Rightarrow> profile_search" where
  "cleanSearchForTab tab =
     \<lparr>psp_tab = tab, psp_type = None, psp_q = None, psp_sort = None, psp_order = None, psp_page = 1, psp_status = None,
      psp_tvKind = None, psp_rated = None, psp_reviewed = None, psp_favorite = None, psp_minScore = None,
      psp_maxScore = None, psp_role = None, psp_view = None\<rparr>"

text \<open>The buttons of the pages: the page that a button goes to, if it is shown and enabled.\<close>

datatype page_button = FirstPage | PreviousPage | NextPage | LastPage

definition page_target :: "int \<Rightarrow> int \<Rightarrow> page_button \<Rightarrow> int option" where
  "page_target currentPage totalPages b =
     (let isFirstPage = currentPage = 1; isLastPage = currentPage = totalPages in
      if totalPages \<le> 1 then None
      else (case b of
              FirstPage \<Rightarrow> if isFirstPage then None else Some 1
            | PreviousPage \<Rightarrow> if isFirstPage then None else Some (currentPage - 1)
            | NextPage \<Rightarrow> if isLastPage then None else Some (currentPage + 1)
            | LastPage \<Rightarrow> if isLastPage then None else Some totalPages))"

subsection \<open>Chips\<close>

definition toggleSelection :: "'a list \<Rightarrow> 'a \<Rightarrow> 'a list option" where
  "toggleSelection selected v =
     (let next = (if v \<in> set selected then filter (\<lambda>item. item \<noteq> v) selected else selected @ [v]) in
      if 0 < length next then Some next else None)"

definition status_chip :: "tracking_status option \<Rightarrow> profile_search \<Rightarrow> profile_search" where
  "status_chip option search =
     search\<lparr>psp_status := (case option of None \<Rightarrow> None
       | Some v \<Rightarrow> toggleSelection (nullish (psp_status search) []) v)\<rparr>"

definition type_chip :: "content_type option \<Rightarrow> profile_search \<Rightarrow> profile_search" where
  "type_chip option search =
     (case option of
        None \<Rightarrow> search\<lparr>psp_type := None, psp_tvKind := None\<rparr>
      | Some v \<Rightarrow>
          (let nextTypes = toggleSelection (nullish (psp_type search) []) v in
           search\<lparr>psp_type := nextTypes,
             psp_tvKind := if TV_SHOW \<in> set (nullish nextTypes []) then psp_tvKind search else None\<rparr>))"

definition view_button :: "profile_view \<Rightarrow> profile_search \<Rightarrow> profile_search" where
  "view_button v search = search\<lparr>psp_view := Some v\<rparr>"

text \<open>Whether a chip is shown as chosen; \<open>None\<close> is the chip for all.\<close>

definition chip_active :: "'a list option \<Rightarrow> 'a option \<Rightarrow> bool" where
  "chip_active selected option \<longleftrightarrow>
     (case option of None \<Rightarrow> nullish selected [] = [] | Some v \<Rightarrow> v \<in> set (nullish selected []))"

subsection \<open>Sorting\<close>

datatype progress_sort = ByUpdated | ByTitle | ByScore | ByCompleted

fun progress_sort_str :: "progress_sort \<Rightarrow> string" where
  "progress_sort_str ByUpdated = ''updated''"
| "progress_sort_str ByTitle = ''title''"
| "progress_sort_str ByScore = ''score''"
| "progress_sort_str ByCompleted = ''completed''"

definition SORT_OPTIONS :: "(progress_sort \<times> string) list" where
  "SORT_OPTIONS =
     [(ByUpdated, ''Last updated''), (ByCompleted, ''Completion date''), (ByTitle, ''Title''), (ByScore, ''Rating'')]"

definition defaultOrder :: "progress_sort \<Rightarrow> sort_order" where
  "defaultOrder crit = (if crit = ByTitle then Asc else Desc)"

definition legacy_sorts :: "(string \<times> progress_sort \<times> sort_order) list" where
  "legacy_sorts =
     [(''recent'', ByUpdated, Desc), (''oldest'', ByUpdated, Asc), (''-title'', ByTitle, Desc), (''-score'', ByScore, Desc)]"

definition resolveProgressSort :: "profile_search \<Rightarrow> progress_sort \<times> sort_order" where
  "resolveProgressSort search =
     (case Option.bind (psp_sort search) (map_of legacy_sorts) of
        Some r \<Rightarrow> r
      | None \<Rightarrow>
          (let crit = (case find (\<lambda>(v, _). Some (progress_sort_str v) = psp_sort search) SORT_OPTIONS of
                         Some (v, _) \<Rightarrow> v | None \<Rightarrow> ByUpdated) in
           (crit, nullish (psp_order search) (defaultOrder crit))))"

definition getDirectionLabel :: "progress_sort \<Rightarrow> sort_order \<Rightarrow> string" where
  "getDirectionLabel crit order =
     (let dash = [CHR 0xE2, CHR 0x80, CHR 0x93] in
      case crit of
        ByTitle \<Rightarrow> if order = Asc then ''A'' @ dash @ ''Z'' else ''Z'' @ dash @ ''A''
      | ByScore \<Rightarrow> if order = Desc then ''Highest first'' else ''Lowest first''
      | _ \<Rightarrow> if order = Desc then ''Newest first'' else ''Oldest first'')"

definition sort_chosen :: "progress_sort \<Rightarrow> profile_search \<Rightarrow> profile_search" where
  "sort_chosen v search = search\<lparr>psp_sort := Some (progress_sort_str v), psp_order := Some (defaultOrder v)\<rparr>"

definition direction_pressed :: "profile_search \<Rightarrow> profile_search" where
  "direction_pressed search =
     (case resolveProgressSort search of (crit, order) \<Rightarrow>
        search\<lparr>psp_sort := Some (progress_sort_str crit), psp_order := Some (if order = Desc then Asc else Desc)\<rparr>)"

subsection \<open>Filters\<close>

text \<open>The menus with three values: shown and chosen.\<close>

definition boolean_shown :: "bool option \<Rightarrow> string" where
  "boolean_shown v = (case v of None \<Rightarrow> ''all'' | Some b \<Rightarrow> if b then ''true'' else ''false'')"

definition boolean_chosen :: "string \<Rightarrow> bool option" where
  "boolean_chosen v = (if v = ''all'' then None else Some (v = ''true''))"

definition RATING_OPTIONS :: "(string \<times> string) list" where
  "RATING_OPTIONS = [(''all'', ''Any rating state''), (''true'', ''Rated only''), (''false'', ''Not rated'')]"

definition REVIEW_OPTIONS :: "(string \<times> string) list" where
  "REVIEW_OPTIONS = [(''all'', ''Any review state''), (''true'', ''Reviewed only''), (''false'', ''No review'')]"

definition FAVORITE_OPTIONS :: "(string \<times> string) list" where
  "FAVORITE_OPTIONS = [(''all'', ''Any favorite state''), (''true'', ''Favorites only''), (''false'', ''Not favorites'')]"

definition TV_SCOPE_OPTIONS :: "(tv_kind \<times> string) list" where
  "TV_SCOPE_OPTIONS =
     [(KindAll, ''Series and seasons''), (KindSeries, ''Series only''), (KindSeasons, ''Seasons only'')]"

definition tv_scope_shown :: "profile_search \<Rightarrow> bool" where
  "tv_scope_shown search \<longleftrightarrow> TV_SHOW \<in> set (nullish (psp_type search) [])"

text \<open>A number field holds a number or nothing.\<close>

definition score_typed :: "string \<Rightarrow> rat option" where
  "score_typed t = (if t = [] then None else (case js_Number t of Fin r \<Rightarrow> Some r | _ \<Rightarrow> None))"

definition query_submitted :: "string \<Rightarrow> profile_search \<Rightarrow> profile_search" where
  "query_submitted query search =
     search\<lparr>psp_q := if js_trim query = [] then None else Some (js_trim query)\<rparr>"

definition clear_progress :: "profile_search \<Rightarrow> profile_search" where
  "clear_progress search =
     search\<lparr>psp_q := None, psp_type := None, psp_sort := None, psp_order := None, psp_status := None, psp_tvKind := None,
       psp_rated := None, psp_reviewed := None, psp_favorite := None, psp_minScore := None, psp_maxScore := None\<rparr>"

definition clear_lists :: "profile_search \<Rightarrow> profile_search" where
  "clear_lists search = (clear_progress search)\<lparr>psp_role := None\<rparr>"

definition countAdvancedFilters :: "profile_search \<Rightarrow> nat" where
  "countAdvancedFilters search =
     length (filter (\<lambda>b. b)
       [psp_tvKind search \<noteq> None \<and> psp_tvKind search \<noteq> Some KindAll, psp_rated search \<noteq> None,
        psp_reviewed search \<noteq> None, psp_favorite search \<noteq> None, psp_minScore search \<noteq> None, psp_maxScore search \<noteq> None])"

definition hasFilters :: "profile_search \<Rightarrow> bool" where
  "hasFilters search \<longleftrightarrow>
     truthy_str (psp_q search) \<or> nullish (psp_type search) [] \<noteq> [] \<or> nullish (psp_status search) [] \<noteq> [] \<or>
     truthy_str (psp_sort search) \<or> psp_order search \<noteq> None \<or> countAdvancedFilters search \<noteq> 0"

text \<open>The sort of the lists.\<close>

definition list_sort_options :: "profile_tab \<Rightarrow> (string \<times> string) list" where
  "list_sort_options tab =
     (let dash = [CHR 0xE2, CHR 0x80, CHR 0x93] in
      if tab = TabProgress
      then [(''recent'', ''Recently updated''), (''oldest'', ''Oldest update''), (''title'', ''Title A'' @ dash @ ''Z''),
            (''-score'', ''Highest rated'')]
      else [(''updated'', ''Recently updated''), (''created'', ''Recently created''), (''name'', ''Name A'' @ dash @ ''Z'')])"

definition list_sort_shown :: "profile_search \<Rightarrow> string" where
  "list_sort_shown search = nullish (psp_sort search) (fst (hd (list_sort_options (psp_tab search))))"

definition list_sort_chosen :: "string \<Rightarrow> profile_search \<Rightarrow> profile_search" where
  "list_sort_chosen v search = search\<lparr>psp_sort := Some v\<rparr>"

definition role_chosen :: "profile_role \<Rightarrow> profile_search \<Rightarrow> profile_search" where
  "role_chosen v search = search\<lparr>psp_role := Some v\<rparr>"

subsection \<open>The page with its controls\<close>

text \<open>
  The search of the page, the text in the search field and whether the advanced filters are open.  Another tab mounts other
  controls.
\<close>

record profile_controls =
  pc_search :: profile_search
  pc_query :: string
  pc_showAdvanced :: bool

definition controls_mount :: "profile_search \<Rightarrow> profile_controls" where
  "controls_mount search =
     \<lparr>pc_search = search, pc_query = nullish (psp_q search) [], pc_showAdvanced = 0 < countAdvancedFilters search\<rparr>"

text \<open>The effects of the controls when the search is another one.\<close>

definition controls_rerender :: "profile_search \<Rightarrow> profile_controls \<Rightarrow> profile_controls" where
  "controls_rerender search st =
     \<lparr>pc_search = search,
      pc_query = if psp_q search \<noteq> psp_q (pc_search st) then nullish (psp_q search) [] else pc_query st,
      pc_showAdvanced =
        pc_showAdvanced st \<or>
        countAdvancedFilters search \<noteq> countAdvancedFilters (pc_search st) \<and> 0 < countAdvancedFilters search\<rparr>"

datatype profile_event =
  TabChosen profile_tab
| PagePressed int page_button
| QueryTyped string
| QuerySubmitted
| AdvancedPressed
| ClearPressed
| StatusChip "tracking_status option"
| TypeChip "content_type option"
| ViewPressed profile_view
| SortChosen progress_sort
| DirectionPressed
| RatedMenu string
| ReviewedMenu string
| FavoriteMenu string
| TvScopeMenu tv_kind
| MinScoreTyped string
| MaxScoreTyped string
| RoleChosen profile_role
| ListSortChosen string

text \<open>The update of the search that a control gives to the navigation.\<close>

definition control_updates :: "profile_event \<Rightarrow> profile_controls \<Rightarrow> (profile_search \<Rightarrow> profile_search) option" where
  "control_updates e st =
     (case e of
        QuerySubmitted \<Rightarrow> Some (query_submitted (pc_query st))
      | ClearPressed \<Rightarrow> Some (if psp_tab (pc_search st) = TabProgress then clear_progress else clear_lists)
      | StatusChip v \<Rightarrow> Some (status_chip v)
      | TypeChip v \<Rightarrow> Some (type_chip v)
      | ViewPressed v \<Rightarrow> Some (view_button v)
      | SortChosen v \<Rightarrow> Some (sort_chosen v)
      | DirectionPressed \<Rightarrow> Some direction_pressed
      | RatedMenu v \<Rightarrow> Some (psp_rated_update (\<lambda>_. boolean_chosen v))
      | ReviewedMenu v \<Rightarrow> Some (psp_reviewed_update (\<lambda>_. boolean_chosen v))
      | FavoriteMenu v \<Rightarrow> Some (psp_favorite_update (\<lambda>_. boolean_chosen v))
      | TvScopeMenu v \<Rightarrow> Some (psp_tvKind_update (\<lambda>_. Some v))
      | MinScoreTyped t \<Rightarrow> Some (psp_minScore_update (\<lambda>_. score_typed t))
      | MaxScoreTyped t \<Rightarrow> Some (psp_maxScore_update (\<lambda>_. score_typed t))
      | RoleChosen v \<Rightarrow> Some (role_chosen v)
      | ListSortChosen v \<Rightarrow> Some (list_sort_chosen v)
      | _ \<Rightarrow> None)"

definition controls_step :: "profile_event \<Rightarrow> profile_controls \<Rightarrow> profile_controls" where
  "controls_step e st =
     (let st1 = (case e of QueryTyped t \<Rightarrow> st\<lparr>pc_query := t\<rparr> | ClearPressed \<Rightarrow> st\<lparr>pc_query := []\<rparr>
                 | AdvancedPressed \<Rightarrow> st\<lparr>pc_showAdvanced := \<not> pc_showAdvanced st\<rparr> | _ \<Rightarrow> st) in
      case control_updates e st1 of
        Some updates \<Rightarrow> controls_rerender (changeSearch updates True (pc_search st1)) st1
      | None \<Rightarrow>
          (case e of
             TabChosen tab \<Rightarrow> controls_mount (profile_navigate (cleanSearchForTab tab))
           | PagePressed totalPages b \<Rightarrow>
               (case page_target (psp_page (pc_search st1)) totalPages b of
                  None \<Rightarrow> st1
                | Some page \<Rightarrow> controls_rerender (changeSearch (psp_page_update (\<lambda>_. page)) False (pc_search st1)) st1)
           | _ \<Rightarrow> st1))"

text \<open>What the controls of a tab let one do.\<close>

definition control_offered :: "profile_event \<Rightarrow> profile_search \<Rightarrow> bool" where
  "control_offered e search \<longleftrightarrow>
     (case e of
        TabChosen tab \<Rightarrow> True
      | PagePressed totalPages b \<Rightarrow> psp_tab search \<noteq> TabOverview
      | QueryTyped t \<Rightarrow> psp_tab search \<noteq> TabOverview
      | QuerySubmitted \<Rightarrow> psp_tab search \<noteq> TabOverview
      | ClearPressed \<Rightarrow> psp_tab search = TabLists \<or> psp_tab search = TabProgress \<and> hasFilters search
      | TvScopeMenu v \<Rightarrow> psp_tab search = TabProgress \<and> tv_scope_shown search
      | TypeChip v \<Rightarrow> psp_tab search = TabProgress \<and> pred_option (\<lambda>t. t \<in> set DISCOVERY_CONTENT_TYPES) v
      | RatedMenu v \<Rightarrow> psp_tab search = TabProgress \<and> v \<in> fst ` set RATING_OPTIONS
      | ReviewedMenu v \<Rightarrow> psp_tab search = TabProgress \<and> v \<in> fst ` set REVIEW_OPTIONS
      | FavoriteMenu v \<Rightarrow> psp_tab search = TabProgress \<and> v \<in> fst ` set FAVORITE_OPTIONS
      | RoleChosen v \<Rightarrow> psp_tab search = TabLists
      | ListSortChosen v \<Rightarrow> psp_tab search = TabLists \<and> v \<in> fst ` set (list_sort_options TabLists)
      | _ \<Rightarrow> psp_tab search = TabProgress)"

subsection \<open>The address keeps what the controls choose\<close>

definition filter_back :: "('a \<Rightarrow> string) \<Rightarrow> 'a list \<Rightarrow> 'a list option \<Rightarrow> 'a list option" where
  "filter_back str al v = profileFilterArray str al (map_option (\<lambda>xs. JArr (map (\<lambda>x. JStr (str x)) xs)) v)"

definition score_back :: "rat option \<Rightarrow> rat option" where
  "score_back v = (case v of None \<Rightarrow> None | Some r \<Rightarrow> if 1 / 2 \<le> r \<and> r \<le> 10 then Some r else None)"

definition text_back :: "nat \<Rightarrow> string option \<Rightarrow> string option" where
  "text_back n v = (case v of None \<Rightarrow> None | Some t \<Rightarrow> if length (js_trim t) \<le> n then Some (js_trim t) else None)"

definition page_back :: "int \<Rightarrow> int" where
  "page_back n = (if 1 \<le> n \<and> n \<le> MAX_SAFE_INTEGER then n else 1)"

lemma enum_back:
  "enum_of str vs (map_option (\<lambda>x. JStr (str x)) v) = v" if "list_all (\<lambda>x. find (\<lambda>y. str y = str x) vs = Some x) vs" "pred_option (\<lambda>x. x \<in> set vs) v"
  using that by (cases v) (auto simp: enum_of_def json_str_def list_all_iff)

lemma field_backs:
  "optionalScore (map_option (\<lambda>r. JNum (Fin r)) v) = score_back v"
  "short_text (int n) (map_option JStr w) = text_back n w"
  "positivePage (Some (JNum (Fin (of_int k)))) = page_back k"
  "optionalBoolean (map_option JBool b) = b"
  "profileFilterArray str al (map_option (\<lambda>xs. JArr (map (\<lambda>x. JStr (str x)) xs)) ys) = filter_back str al ys"
proof -
  show "optionalScore (map_option (\<lambda>r. JNum (Fin r)) v) = score_back v"
    by (cases v) (simp_all add: optionalScore_def score_back_def)
  show "short_text (int n) (map_option JStr w) = text_back n w"
    by (cases w) (simp_all add: short_text_def text_back_def json_str_def)
  show "positivePage (Some (JNum (Fin (of_int k)))) = page_back k" by (simp add: positivePage_def page_back_def)
  show "optionalBoolean (map_option JBool b) = b" by (cases b) (auto simp: optionalBoolean_def)
  show "profileFilterArray str al (map_option (\<lambda>xs. JArr (map (\<lambda>x. JStr (str x)) xs)) ys) = filter_back str al ys"
    by (simp add: filter_back_def)
qed

lemma enum_backs:
  "enum_of sort_order_name [Asc, Desc] (map_option (\<lambda>x. JStr (sort_order_name x)) d) = d"
  "enum_of tv_kind_str [KindAll, KindSeries, KindSeasons] (map_option (\<lambda>x. JStr (tv_kind_str x)) k) = k"
  "enum_of profile_role_str [RoleAll, RoleOwner, RoleMember] (map_option (\<lambda>x. JStr (profile_role_str x)) r) = r"
  "enum_of profile_view_str [ViewGrid, ViewList] (map_option (\<lambda>x. JStr (profile_view_str x)) v) = v"
proof -
  show "enum_of sort_order_name [Asc, Desc] (map_option (\<lambda>x. JStr (sort_order_name x)) d) = d"
    by (rule enum_back) (cases d; auto simp: sort_order_name_def intro: sort_order.exhaust split: sort_order.splits)+
  show "enum_of tv_kind_str [KindAll, KindSeries, KindSeasons] (map_option (\<lambda>x. JStr (tv_kind_str x)) k) = k"
    by (rule enum_back) (cases k; auto intro: tv_kind.exhaust)+
  show "enum_of profile_role_str [RoleAll, RoleOwner, RoleMember] (map_option (\<lambda>x. JStr (profile_role_str x)) r) = r"
    by (rule enum_back) (cases r; auto intro: profile_role.exhaust)+
  show "enum_of profile_view_str [ViewGrid, ViewList] (map_option (\<lambda>x. JStr (profile_view_str x)) v) = v"
    by (rule enum_back) (cases v; auto intro: profile_view.exhaust)+
qed

text \<open>What the page reads back from any search that is written into the address.\<close>

lemma profile_navigate_eq:
  "profile_navigate p = p\<lparr>psp_type := filter_back content_type_str profileContentTypes (psp_type p),
     psp_q := text_back 100 (psp_q p), psp_sort := text_back 24 (psp_sort p), psp_page := page_back (psp_page p),
     psp_status := filter_back tracking_status_str trackingStatuses (psp_status p),
     psp_minScore := score_back (psp_minScore p), psp_maxScore := score_back (psp_maxScore p)\<rparr>"
proof -
  have short: "short_text 100 v = short_text (int 100) v" "short_text 24 v = short_text (int 24) v" for v by simp_all
  show ?thesis
    unfolding profile_navigate_def search_object_def schema_object
    by (simp add: object_lookup short field_backs enum_backs tab_again nullish_def del: of_nat_numeral)
qed

lemma filter_back_Some:
  assumes "\<And>x y. str x = str y \<longleftrightarrow> x = y" "set xs \<subseteq> set al" "length xs \<le> length al"
  shows "filter_back str al (Some xs) = Some (filter (\<lambda>a. a \<in> set xs) al)"
proof -
  have "enum_of str al (Some (JStr (str x))) \<noteq> None" if "x \<in> set al" for x
    using that by (auto simp: enum_of_def json_str_def find_None_iff)
  then have "list_all (\<lambda>x. enum_of str al (Some x) \<noteq> None) (map (\<lambda>x. JStr (str x)) xs)"
    using assms(2) by (auto simp: list_all_iff)
  moreover have "filter (\<lambda>a. JStr (str a) \<in> set (map (\<lambda>x. JStr (str x)) xs)) al = filter (\<lambda>a. a \<in> set xs) al"
    by (rule filter_cong [OF refl]) (auto simp: assms(1))
  ultimately show ?thesis
    using assms(3) by (simp add: filter_back_def profileFilterArray_def normalizeFilterArray_def)
qed

lemma filter_back_None: "filter_back str al None = None"
  by (simp add: filter_back_def profileFilterArray_def normalizeFilterArray_def)

lemma filter_back_parts: "filter_back str al v = Some xs \<Longrightarrow> \<exists>P. xs = filter P al"
  using filter_array_sub [of al str "map_option (\<lambda>xs. JArr (map (\<lambda>x. JStr (str x)) xs)) v"] by (simp add: filter_back_def)

text \<open>A chip changes its value and no other one, and the address keeps the rest.\<close>

lemma toggle_back:
  assumes "\<And>x y. str x = str y \<longleftrightarrow> x = y" "distinct al" "v \<in> set al" "filter_back str al w = w"
  shows "x \<in> set (nullish (filter_back str al (toggleSelection (nullish w []) v)) []) \<longleftrightarrow>
    (x \<in> set (nullish w [])) \<noteq> (x = v)"
proof -
  define xs where "xs = nullish w []"
  have "\<exists>P. xs = filter P al"
  proof (cases w)
    case None
    then have "xs = filter (\<lambda>_. False) al" by (simp add: xs_def nullish_def)
    then show ?thesis by (rule exI [where x = "\<lambda>_. False"])
  next
    case (Some ys)
    then show ?thesis using filter_back_parts [of str al w ys] assms(4) by (simp add: xs_def nullish_def)
  qed
  then have xs: "set xs \<subseteq> set al" "distinct xs" using assms(2) by auto
  define ys where "ys = (if v \<in> set xs then filter (\<lambda>item. item \<noteq> v) xs else xs @ [v])"
  have ys: "set ys \<subseteq> set al" "distinct ys" "x \<in> set ys \<longleftrightarrow> (x \<in> set xs) \<noteq> (x = v)"
    using xs assms(3) by (auto simp: ys_def)
  then have "length ys \<le> length al"
    using card_mono [of "set al" "set ys"] assms(2) by (simp add: distinct_card)
  then have "filter_back str al (Some ys) = Some (filter (\<lambda>a. a \<in> set ys) al)"
    using filter_back_Some assms(1) ys(1) by metis
  moreover have "toggleSelection xs v = (if ys = [] then None else Some ys)"
    by (simp add: toggleSelection_def Let_def ys_def)
  ultimately have "set (nullish (filter_back str al (toggleSelection xs v)) []) = set ys"
    using ys(1) by (auto simp: filter_back_None nullish_def)
  then show ?thesis using ys(3) by (simp add: xs_def)
qed

text \<open>What was read once is read again.\<close>

lemma kept_fields:
  "profile_navigate p = p \<longleftrightarrow>
     filter_back content_type_str profileContentTypes (psp_type p) = psp_type p \<and>
     text_back 100 (psp_q p) = psp_q p \<and> text_back 24 (psp_sort p) = psp_sort p \<and> page_back (psp_page p) = psp_page p \<and>
     filter_back tracking_status_str trackingStatuses (psp_status p) = psp_status p \<and>
     score_back (psp_minScore p) = psp_minScore p \<and> score_back (psp_maxScore p) = psp_maxScore p"
  unfolding profile_navigate_eq by (cases p) auto

lemma backs_again:
  "filter_back str al (filter_back str al v) = filter_back str al v"
  "text_back n (text_back n w) = text_back n w"
  "page_back (page_back k) = page_back k"
  "score_back (score_back r) = score_back r"
  unfolding filter_back_def using filter_array_again
  by (auto simp: text_back_def page_back_def score_back_def js_trim_again split: option.splits)

lemma navigate_again: "profile_navigate (profile_navigate p) = profile_navigate p"
  unfolding kept_fields by (simp add: profile_navigate_eq backs_again)

lemma schema_kept:
  assumes "publicProfileSearchSchema input = Some p"
  shows "profile_navigate p = p"
proof -
  obtain fs where fs: "input = JObj fs" using assms by (cases input) (simp_all add: publicProfileSearchSchema_def)
  let ?f = "\<lambda>k. json_field k input"
  have "psp_type p = profileFilterArray content_type_str profileContentTypes (?f ''type'')"
    "psp_q p = short_text 100 (?f ''q'')" "psp_sort p = short_text 24 (?f ''sort'')" "psp_page p = positivePage (?f ''page'')"
    "psp_status p = profileFilterArray tracking_status_str trackingStatuses (?f ''status'')"
    "psp_minScore p = optionalScore (?f ''minScore'')" "psp_maxScore p = optionalScore (?f ''maxScore'')"
    using assms by (auto simp: publicProfileSearchSchema_def fs Let_def)
  moreover have "text_back 100 (short_text 100 v) = short_text 100 v" "text_back 24 (short_text 24 v) = short_text 24 v" for v
    using short_text_again [of 100 v] short_text_again [of 24 v]
      field_backs(2) [of 100 "short_text 100 v"] field_backs(2) [of 24 "short_text 24 v"] by simp_all
  moreover have "page_back (positivePage v) = positivePage v" for v
    using positivePage_again [of v] field_backs(3) [of "positivePage v"] by simp
  ultimately show ?thesis
    unfolding kept_fields filter_back_def by (simp add: schema_again flip: field_backs(1))
qed

lemma tab_kept: "profile_navigate (cleanSearchForTab tab) = cleanSearchForTab tab"
  unfolding kept_fields by (simp add: cleanSearchForTab_def filter_back_None text_back_def page_back_def score_back_def
      MAX_SAFE_INTEGER_def)

lemma step_search:
  "pc_search (controls_step e st) =
     (case control_updates e st of
        Some updates \<Rightarrow> changeSearch updates True (pc_search st)
      | None \<Rightarrow>
          (case e of
             TabChosen tab \<Rightarrow> cleanSearchForTab tab
           | PagePressed totalPages b \<Rightarrow>
               (case page_target (psp_page (pc_search st)) totalPages b of
                  None \<Rightarrow> pc_search st
                | Some page \<Rightarrow> changeSearch (psp_page_update (\<lambda>_. page)) False (pc_search st))
           | _ \<Rightarrow> pc_search st))"
  by (cases e) (simp_all add: controls_step_def control_updates_def controls_rerender_def controls_mount_def tab_kept Let_def
      split: option.split)

lemma step_kept: "profile_navigate (pc_search st) = pc_search st \<Longrightarrow>
    profile_navigate (pc_search (controls_step e st)) = pc_search (controls_step e st)"
  unfolding step_search changeSearch_def Let_def
  by (auto simp: navigate_again tab_kept split: option.splits profile_event.splits)

lemma run_kept: "profile_navigate (pc_search st) = pc_search st \<Longrightarrow>
    profile_navigate (pc_search (fold controls_step es st)) = pc_search (fold controls_step es st)"
  by (induction es arbitrary: st) (simp_all add: step_kept)

text \<open>The navigation after each kind of control, from a search that the address keeps.\<close>

lemma change_fields:
  assumes "profile_navigate s = s"
  shows "changeSearch (\<lambda>s. s\<lparr>psp_status := x\<rparr>) True s = s\<lparr>psp_status := filter_back tracking_status_str trackingStatuses x, psp_page := 1\<rparr>"
    and "changeSearch (\<lambda>s. s\<lparr>psp_type := y, psp_tvKind := k\<rparr>) True s =
      s\<lparr>psp_type := filter_back content_type_str profileContentTypes y, psp_tvKind := k, psp_page := 1\<rparr>"
    and "changeSearch (\<lambda>s. s\<lparr>psp_sort := t, psp_order := d\<rparr>) True s = s\<lparr>psp_sort := text_back 24 t, psp_order := d, psp_page := 1\<rparr>"
    and "changeSearch (psp_view_update (\<lambda>_. v)) True s = s\<lparr>psp_view := v, psp_page := 1\<rparr>"
    and "changeSearch (psp_rated_update (\<lambda>_. b)) True s = s\<lparr>psp_rated := b, psp_page := 1\<rparr>"
    and "changeSearch (psp_reviewed_update (\<lambda>_. b)) True s = s\<lparr>psp_reviewed := b, psp_page := 1\<rparr>"
    and "changeSearch (psp_favorite_update (\<lambda>_. b)) True s = s\<lparr>psp_favorite := b, psp_page := 1\<rparr>"
    and "changeSearch (psp_tvKind_update (\<lambda>_. k)) True s = s\<lparr>psp_tvKind := k, psp_page := 1\<rparr>"
    and "changeSearch (psp_minScore_update (\<lambda>_. r)) True s = s\<lparr>psp_minScore := score_back r, psp_page := 1\<rparr>"
    and "changeSearch (psp_maxScore_update (\<lambda>_. r)) True s = s\<lparr>psp_maxScore := score_back r, psp_page := 1\<rparr>"
    and "changeSearch (psp_role_update (\<lambda>_. ro)) True s = s\<lparr>psp_role := ro, psp_page := 1\<rparr>"
    and "changeSearch (psp_sort_update (\<lambda>_. t)) True s = s\<lparr>psp_sort := text_back 24 t, psp_page := 1\<rparr>"
    and "changeSearch (psp_q_update (\<lambda>_. t)) True s = s\<lparr>psp_q := text_back 100 t, psp_page := 1\<rparr>"
    and "changeSearch (psp_page_update (\<lambda>_. n)) False s = s\<lparr>psp_page := page_back n\<rparr>"
  using assms [unfolded kept_fields] unfolding changeSearch_def Let_def profile_navigate_eq
  by (cases s, simp add: page_back_def MAX_SAFE_INTEGER_def)+

lemma change_cong: "u s = u' s \<Longrightarrow> changeSearch u r s = changeSearch u' r s"
  by (simp add: changeSearch_def)

lemma resolve_chosen:
  "psp_sort s = Some (progress_sort_str v) \<Longrightarrow> psp_order s = Some d \<Longrightarrow> resolveProgressSort s = (v, d)"
  by (cases v) (simp_all add: resolveProgressSort_def legacy_sorts_def SORT_OPTIONS_def nullish_def)

lemma short_word: "text_back 24 (Some w) = Some w" if "length w \<le> 24" "list_all (\<lambda>c. \<not> is_space c) w"
proof -
  have "w = [] \<or> \<not> is_space (hd w) \<and> \<not> is_space (last w)" using that(2) by (metis hd_in_set last_in_set list_all_iff)
  then have "js_trim w = w" by (rule js_trim_idle)
  then show ?thesis using that(1) by (simp add: text_back_def)
qed

lemma sort_words:
  "text_back 24 (Some (progress_sort_str v)) = Some (progress_sort_str v)"
  "w \<in> fst ` set (list_sort_options TabLists) \<Longrightarrow> text_back 24 (Some w) = Some w"
proof -
  show "text_back 24 (Some (progress_sort_str v)) = Some (progress_sort_str v)"
    by (rule short_word; cases v) (simp_all add: is_space_def)
  show "text_back 24 (Some w) = Some w" if "w \<in> fst ` set (list_sort_options TabLists)"
    using that by (auto simp: list_sort_options_def Let_def is_space_def intro!: short_word)
qed

text \<open>
  What a control means: the search that it leads to from \<open>s\<close>, where \<open>s'\<close> is the search that the page has afterwards and
  \<open>query\<close> the text in the search field.
\<close>

definition chip_pressed :: "'a option \<Rightarrow> 'a list option \<Rightarrow> 'a list option \<Rightarrow> bool" where
  "chip_pressed v before after \<longleftrightarrow>
     (\<forall>x. chip_active after (Some x) \<longleftrightarrow>
        (case v of None \<Rightarrow> False | Some y \<Rightarrow> chip_active before (Some x) \<noteq> (x = y)))"

definition in_range :: "rat option \<Rightarrow> rat option" where
  "in_range v = (case v of Some r \<Rightarrow> if 1 / 2 \<le> r \<and> r \<le> 10 then Some r else None | None \<Rightarrow> None)"

definition shows_choice :: "string \<Rightarrow> profile_event \<Rightarrow> profile_search \<Rightarrow> profile_search \<Rightarrow> bool" where
  "shows_choice query e s s' \<longleftrightarrow>
     (case e of
        TabChosen tab \<Rightarrow> s' = cleanSearchForTab tab
      | PagePressed totalPages b \<Rightarrow>
          (case page_target (psp_page s) totalPages b of
             None \<Rightarrow> s' = s
           | Some k \<Rightarrow> 1 \<le> k \<and> (k \<le> MAX_SAFE_INTEGER \<longrightarrow> s' = s\<lparr>psp_page := k\<rparr>))
      | QuerySubmitted \<Rightarrow>
          s' = s\<lparr>psp_q := (let t = js_trim query in if t = [] \<or> 100 < length t then None else Some t), psp_page := 1\<rparr>
      | ClearPressed \<Rightarrow> \<not> hasFilters s' \<and> psp_tab s' = psp_tab s \<and> psp_view s' = psp_view s \<and> psp_page s' = 1
      | StatusChip v \<Rightarrow>
          s' = s\<lparr>psp_status := psp_status s', psp_page := 1\<rparr> \<and> chip_pressed v (psp_status s) (psp_status s')
      | TypeChip v \<Rightarrow>
          s' = s\<lparr>psp_type := psp_type s', psp_tvKind := if tv_scope_shown s' then psp_tvKind s else None, psp_page := 1\<rparr> \<and>
          chip_pressed v (psp_type s) (psp_type s')
      | ViewPressed v \<Rightarrow> s' = s\<lparr>psp_view := Some v, psp_page := 1\<rparr>
      | SortChosen v \<Rightarrow>
          s' = s\<lparr>psp_sort := psp_sort s', psp_order := psp_order s', psp_page := 1\<rparr> \<and>
          resolveProgressSort s' = (v, defaultOrder v)
      | DirectionPressed \<Rightarrow>
          s' = s\<lparr>psp_sort := psp_sort s', psp_order := psp_order s', psp_page := 1\<rparr> \<and>
          fst (resolveProgressSort s') = fst (resolveProgressSort s) \<and>
          snd (resolveProgressSort s') \<noteq> snd (resolveProgressSort s)
      | RatedMenu v \<Rightarrow> s' = s\<lparr>psp_rated := psp_rated s', psp_page := 1\<rparr> \<and> boolean_shown (psp_rated s') = v
      | ReviewedMenu v \<Rightarrow> s' = s\<lparr>psp_reviewed := psp_reviewed s', psp_page := 1\<rparr> \<and> boolean_shown (psp_reviewed s') = v
      | FavoriteMenu v \<Rightarrow> s' = s\<lparr>psp_favorite := psp_favorite s', psp_page := 1\<rparr> \<and> boolean_shown (psp_favorite s') = v
      | TvScopeMenu v \<Rightarrow> s' = s\<lparr>psp_tvKind := Some v, psp_page := 1\<rparr>
      | MinScoreTyped t \<Rightarrow> s' = s\<lparr>psp_minScore := in_range (score_typed t), psp_page := 1\<rparr>
      | MaxScoreTyped t \<Rightarrow> s' = s\<lparr>psp_maxScore := in_range (score_typed t), psp_page := 1\<rparr>
      | RoleChosen v \<Rightarrow> s' = s\<lparr>psp_role := Some v, psp_page := 1\<rparr>
      | ListSortChosen v \<Rightarrow> s' = s\<lparr>psp_sort := Some v, psp_page := 1\<rparr> \<and> list_sort_shown s' = v
      | _ \<Rightarrow> s' = s)"

lemma status_shown:
  assumes "profile_navigate s = s"
  shows "shows_choice q (StatusChip v) s (changeSearch (status_chip v) True s)"
proof -
  have eq: "changeSearch (status_chip v) True s = s\<lparr>psp_status := filter_back tracking_status_str trackingStatuses
      (case v of None \<Rightarrow> None | Some x \<Rightarrow> toggleSelection (nullish (psp_status s) []) x), psp_page := 1\<rparr>"
    unfolding change_fields(1) [OF assms, symmetric] by (rule change_cong) (simp add: status_chip_def)
  have "filter_back tracking_status_str trackingStatuses (psp_status s) = psp_status s" using assms by (simp add: kept_fields)
  moreover have "y \<in> set trackingStatuses" for y by (cases y) (simp_all add: trackingStatuses_def)
  ultimately have "chip_pressed v (psp_status s) (psp_status (changeSearch (status_chip v) True s))"
    unfolding eq using toggle_back [of tracking_status_str trackingStatuses _ "psp_status s"]
    by (cases v) (simp_all add: chip_pressed_def chip_active_def filter_back_None nullish_def tracking_status_str_inject
        trackingStatuses_def)
  then show ?thesis by (simp add: shows_choice_def eq)
qed

lemma toggle_mem: "x \<in> set (nullish (toggleSelection xs v) []) \<longleftrightarrow> (x \<in> set xs) \<noteq> (x = v)"
proof -
  define n where "n = (if v \<in> set xs then filter (\<lambda>item. item \<noteq> v) xs else xs @ [v])"
  have "nullish (toggleSelection xs v) [] = n"
    unfolding toggleSelection_def Let_def n_def [symmetric] by (cases n) simp_all
  moreover have "x \<in> set n \<longleftrightarrow> (x \<in> set xs) \<noteq> (x = v)" by (auto simp: n_def)
  ultimately show ?thesis by simp
qed

lemma type_shown:
  assumes "profile_navigate s = s" "pred_option (\<lambda>t. t \<in> set DISCOVERY_CONTENT_TYPES) v"
  shows "shows_choice q (TypeChip v) s (changeSearch (type_chip v) True s)"
proof -
  define next_types where "next_types = (case v of None \<Rightarrow> None | Some x \<Rightarrow> toggleSelection (nullish (psp_type s) []) x)"
  define types where "types = filter_back content_type_str profileContentTypes next_types"
  let ?kind = "if TV_SHOW \<in> set (nullish next_types []) then psp_tvKind s else None"
  have eq: "changeSearch (type_chip v) True s = s\<lparr>psp_type := types, psp_tvKind := ?kind, psp_page := 1\<rparr>"
    unfolding types_def change_fields(2) [OF assms(1), symmetric]
    by (rule change_cong) (cases v; simp add: type_chip_def next_types_def Let_def)
  have kept: "filter_back content_type_str profileContentTypes (psp_type s) = psp_type s"
    using assms(1) by (simp add: kept_fields)
  have mem: "x \<in> set (nullish types []) \<longleftrightarrow> (x \<in> set (nullish (psp_type s) [])) \<noteq> (x = y)" if "v = Some y" for x y
    unfolding types_def next_types_def that option.case
    by (rule toggle_back [OF content_type_str_inject])
      (use assms(2) that kept in \<open>auto simp: profileContentTypes_def DISCOVERY_CONTENT_TYPES_def\<close>)
  moreover have "x \<in> set (nullish next_types []) \<longleftrightarrow> (x \<in> set (nullish (psp_type s) [])) \<noteq> (x = y)" if "v = Some y" for x y
    using that by (simp add: next_types_def toggle_mem)
  moreover have "types = None" if "v = None" using that by (simp add: types_def next_types_def filter_back_None)
  moreover have "TV_SHOW \<in> set (nullish next_types []) \<longleftrightarrow> TV_SHOW \<in> set (nullish types [])"
    using calculation by (cases v) (simp_all add: next_types_def)
  moreover have "chip_pressed v (psp_type s) types"
    using calculation by (cases v) (simp_all add: chip_pressed_def chip_active_def)
  ultimately show ?thesis unfolding eq by (simp add: shows_choice_def tv_scope_shown_def)
qed

lemma sort_shown:
  assumes "profile_navigate s = s"
  shows "shows_choice q (SortChosen v) s (changeSearch (sort_chosen v) True s)"
    and "shows_choice q DirectionPressed s (changeSearch direction_pressed True s)"
proof -
  have eq: "changeSearch (\<lambda>s. s\<lparr>psp_sort := Some (progress_sort_str c), psp_order := d\<rparr>) True s =
      s\<lparr>psp_sort := Some (progress_sort_str c), psp_order := d, psp_page := 1\<rparr>" for c d
    unfolding change_fields(3) [OF assms] sort_words(1) ..
  have "changeSearch (sort_chosen v) True s =
      s\<lparr>psp_sort := Some (progress_sort_str v), psp_order := Some (defaultOrder v), psp_page := 1\<rparr>"
    unfolding eq [symmetric] by (rule change_cong) (simp add: sort_chosen_def)
  then show "shows_choice q (SortChosen v) s (changeSearch (sort_chosen v) True s)"
    by (simp add: shows_choice_def resolve_chosen)
  obtain c d where cd: "resolveProgressSort s = (c, d)" by (metis surj_pair)
  have "changeSearch direction_pressed True s =
      s\<lparr>psp_sort := Some (progress_sort_str c), psp_order := Some (if d = Desc then Asc else Desc), psp_page := 1\<rparr>"
    unfolding eq [symmetric] by (rule change_cong) (simp add: direction_pressed_def cd)
  then show "shows_choice q DirectionPressed s (changeSearch direction_pressed True s)"
    by (simp add: shows_choice_def resolve_chosen cd)
qed

lemma text_shown:
  assumes "profile_navigate s = s"
  shows "shows_choice q QuerySubmitted s (changeSearch (query_submitted q) True s)"
    and "shows_choice q ClearPressed s (changeSearch (if psp_tab s = TabProgress then clear_progress else clear_lists) True s)"
proof -
  have "changeSearch (query_submitted q) True s =
      s\<lparr>psp_q := text_back 100 (if js_trim q = [] then None else Some (js_trim q)), psp_page := 1\<rparr>"
    unfolding change_fields(13) [OF assms, symmetric] by (rule change_cong) (simp add: query_submitted_def)
  moreover have "text_back 100 (if js_trim q = [] then None else Some (js_trim q)) =
      (let t = js_trim q in if t = [] \<or> 100 < length t then None else Some t)"
    by (simp add: text_back_def js_trim_again Let_def)
  ultimately show "shows_choice q QuerySubmitted s (changeSearch (query_submitted q) True s)"
    by (simp add: shows_choice_def)
  show "shows_choice q ClearPressed s (changeSearch (if psp_tab s = TabProgress then clear_progress else clear_lists) True s)"
    by (simp add: shows_choice_def changeSearch_def profile_navigate_eq clear_progress_def clear_lists_def hasFilters_def
        countAdvancedFilters_def filter_back_None text_back_def score_back_def page_back_def MAX_SAFE_INTEGER_def nullish_def
        truthy_str_def)
qed

lemma page_shown:
  assumes "profile_navigate s = s" "page_target (psp_page s) n b = Some k"
  shows "1 \<le> k" "k \<le> MAX_SAFE_INTEGER \<Longrightarrow> changeSearch (psp_page_update (\<lambda>_. k)) False s = s\<lparr>psp_page := k\<rparr>"
proof -
  have "1 \<le> psp_page s" using assms(1) unfolding kept_fields by (simp add: page_back_def split: if_splits)
  then show k: "1 \<le> k" using assms(2) by (cases b) (auto simp: page_target_def Let_def split: if_splits)
  show "changeSearch (psp_page_update (\<lambda>_. k)) False s = s\<lparr>psp_page := k\<rparr>" if "k \<le> MAX_SAFE_INTEGER"
    unfolding change_fields(14) [OF assms(1)] using that k by (simp add: page_back_def)
qed

lemma plain_updates:
  "view_button v = psp_view_update (\<lambda>_. Some v)" "role_chosen r = psp_role_update (\<lambda>_. Some r)"
  "list_sort_chosen w = psp_sort_update (\<lambda>_. Some w)"
  by (simp_all add: fun_eq_iff view_button_def role_chosen_def list_sort_chosen_def)

lemma menu_shown: "v \<in> {''all'', ''true'', ''false''} \<Longrightarrow> boolean_shown (boolean_chosen v) = v"
  by (auto simp: boolean_shown_def boolean_chosen_def)

lemma score_in_range: "score_back v = in_range v"
  by (simp add: score_back_def in_range_def split: option.split)



text \<open>A score that is typed digit by digit: \<open>0.5\<close> is lost with its first digit.\<close>

lemma score_digit_lost:
  assumes "profile_navigate (pc_search st) = pc_search st"
  shows "psp_minScore (pc_search (controls_step (MinScoreTyped ''0'') st)) = None"
proof -
  have "show_nat 0 = ''0''" by code_simp
  then have "js_Number ''0'' = Fin 0" using js_Number_show_nat [of 0] by simp
  then show ?thesis
    by (simp add: step_search control_updates_def change_fields [OF assms] score_typed_def score_back_def)
qed

subsection \<open>Keys of a menu\<close>

text \<open>A menu with \<open>n\<close> options: whether it is open, and where the focus is.\<close>

datatype menu_focus = FocusElsewhere | FocusTrigger | FocusOption int

record menu_state =
  mn_open :: bool
  mn_focus :: menu_focus

definition menu_init :: menu_state where
  "menu_init = \<lparr>mn_open = False, mn_focus = FocusElsewhere\<rparr>"

definition menu_close :: "menu_state \<Rightarrow> menu_state" where
  "menu_close m = m\<lparr>mn_open := False, mn_focus := FocusTrigger\<rparr>"

definition openAndFocus :: "int \<Rightarrow> menu_state \<Rightarrow> menu_state" where
  "openAndFocus index m = m\<lparr>mn_open := True, mn_focus := FocusOption index\<rparr>"

text \<open>\<open>selectedIndex\<close> is the position of the value, \<open>-1\<close> if it is none of the options.\<close>

definition handleTriggerKeyDown :: "int \<Rightarrow> int \<Rightarrow> string \<Rightarrow> menu_state \<Rightarrow> menu_state" where
  "handleTriggerKeyDown n selectedIndex key m =
     (if key \<in> {''ArrowDown'', ''ArrowUp''}
      then openAndFocus (if key = ''ArrowDown'' then max 0 selectedIndex else n - 1) m else m)"

definition menu_next :: "int \<Rightarrow> int \<Rightarrow> string \<Rightarrow> int" where
  "menu_next n currentIndex key =
     (if key = ''Home'' then 0 else if key = ''End'' then n - 1
      else (currentIndex + (if key = ''ArrowDown'' then 1 else -1) + n) mod n)"

definition focus_index :: "menu_focus \<Rightarrow> int" where
  "focus_index f = (case f of FocusOption i \<Rightarrow> i | _ \<Rightarrow> -1)"

definition focus_option :: "int \<Rightarrow> int \<Rightarrow> menu_state \<Rightarrow> menu_state" where
  "focus_option n i m = (if 0 \<le> i \<and> i < n then m\<lparr>mn_focus := FocusOption i\<rparr> else m)"

definition handleMenuKeyDown :: "int \<Rightarrow> string \<Rightarrow> menu_state \<Rightarrow> menu_state" where
  "handleMenuKeyDown n key m =
     (if key = ''Escape'' then menu_close m
      else if key \<notin> {''ArrowDown'', ''ArrowUp'', ''Home'', ''End''} then m
      else focus_option n (menu_next n (focus_index (mn_focus m)) key) m)"

text \<open>The menu of \<open>ui/Dropdown.tsx\<close>, whose items are counted when a key is pressed.\<close>

definition dropdown_key :: "int \<Rightarrow> string \<Rightarrow> menu_state \<Rightarrow> menu_state" where
  "dropdown_key n key m =
     (if key = ''Escape'' then menu_close m
      else if key \<notin> {''ArrowDown'', ''ArrowUp'', ''Home'', ''End''} then m
      else if n = 0 then m
      else focus_option n (menu_next n (focus_index (mn_focus m)) key) m)"

datatype menu_event = TriggerClick | TriggerKey string | MenuKey string | OptionClick int | PointerOutside | EscapeAnywhere

text \<open>A key reaches the menu while it is open and has the focus; a click gives the button the focus.\<close>

definition menu_step :: "int \<Rightarrow> int \<Rightarrow> menu_event \<Rightarrow> menu_state \<Rightarrow> menu_state" where
  "menu_step n selectedIndex e m =
     (case e of
        TriggerClick \<Rightarrow> m\<lparr>mn_open := \<not> mn_open m, mn_focus := FocusTrigger\<rparr>
      | TriggerKey key \<Rightarrow> if mn_focus m = FocusTrigger then handleTriggerKeyDown n selectedIndex key m else m
      | MenuKey key \<Rightarrow> if mn_open m \<and> focus_index (mn_focus m) \<noteq> -1 then handleMenuKeyDown n key m else m
      | OptionClick i \<Rightarrow> if mn_open m \<and> 0 \<le> i \<and> i < n then menu_close m else m
      | PointerOutside \<Rightarrow> if mn_open m then m\<lparr>mn_open := False, mn_focus := FocusElsewhere\<rparr> else m
      | EscapeAnywhere \<Rightarrow> if mn_open m then menu_close m else m)"

definition menu_ok :: "int \<Rightarrow> menu_state \<Rightarrow> bool" where
  "menu_ok n m \<longleftrightarrow> (case mn_focus m of FocusOption i \<Rightarrow> mn_open m \<and> 0 \<le> i \<and> i < n | _ \<Rightarrow> True)"

lemma menu_next_range: "0 < n \<Longrightarrow> 0 \<le> menu_next n i key \<and> menu_next n i key < n"
  by (simp add: menu_next_def)

lemma menu_step_ok: "0 < n \<Longrightarrow> selectedIndex < n \<Longrightarrow> menu_ok n m \<Longrightarrow> menu_ok n (menu_step n selectedIndex e m)"
  using menu_next_range [of n]
  by (cases e) (auto simp: menu_step_def menu_ok_def menu_close_def handleTriggerKeyDown_def openAndFocus_def
      handleMenuKeyDown_def focus_option_def focus_index_def split: menu_focus.splits if_splits)

lemma menu_down: "0 < n \<Longrightarrow> 0 \<le> i \<Longrightarrow> i < n \<Longrightarrow>
    (handleMenuKeyDown n ''ArrowDown'' ^^ k) (m\<lparr>mn_focus := FocusOption i\<rparr>) = m\<lparr>mn_focus := FocusOption ((i + int k) mod n)\<rparr>"
proof (induction k)
  case (Suc k)
  have "((i + int k) mod n + 1 + n) mod n = ((i + int k) mod n + 1) mod n" by simp
  also have "\<dots> = (i + int k + 1) mod n" by (rule mod_add_left_eq)
  also have "i + int k + 1 = i + int (Suc k)" by simp
  finally have "((i + int k) mod n + 1 + n) mod n = (i + int (Suc k)) mod n" .
  moreover have "0 \<le> (i + int k) mod n \<and> (i + int k) mod n < n" using Suc.prems(1) by simp
  ultimately show ?case
    using Suc menu_next_range [of n "(i + int k) mod n" "''ArrowDown''"]
    by (simp add: handleMenuKeyDown_def focus_option_def focus_index_def menu_next_def)
qed simp

text \<open>
  With the keys alone one reaches every option: opening with the arrow lands on an option, and repeating the arrow
  reaches any other in less than one round; the focus is never on an option that is not there.
\<close>

lemma menu_reaches_every_option:
  assumes "0 < n" "selectedIndex < n" "0 \<le> j" "j < n"
  shows "\<exists>k. int k < n \<and> (handleMenuKeyDown n ''ArrowDown'' ^^ k) (menu_step n selectedIndex (TriggerKey ''ArrowDown'')
      (menu_step n selectedIndex TriggerClick menu_init)) = \<lparr>mn_open = True, mn_focus = FocusOption j\<rparr>"
proof -
  let ?i = "max 0 selectedIndex" and ?m = "\<lparr>mn_open = True, mn_focus = FocusTrigger\<rparr>"
  define k where "k = nat ((j - ?i) mod n)"
  have k: "int k = (j - ?i) mod n" "int k < n" using assms(1) by (simp_all add: k_def)
  have "(?i + int k) mod n = j" using assms k(1) by (simp add: mod_simps)
  moreover have "menu_step n selectedIndex (TriggerKey ''ArrowDown'') (menu_step n selectedIndex TriggerClick menu_init) =
      ?m\<lparr>mn_focus := FocusOption ?i\<rparr>"
    by (simp add: menu_step_def menu_init_def handleTriggerKeyDown_def openAndFocus_def)
  ultimately have "(handleMenuKeyDown n ''ArrowDown'' ^^ k) (menu_step n selectedIndex (TriggerKey ''ArrowDown'')
      (menu_step n selectedIndex TriggerClick menu_init)) = \<lparr>mn_open = True, mn_focus = FocusOption j\<rparr>"
    using menu_down [of n ?i k ?m] assms by simp
  then show ?thesis using k(2) by blast
qed

subsection \<open>The banner of the page\<close>

text \<open>What the user chose: the content and the image, none for a random banner.\<close>

definition getBannerSelectionKey :: "public_profile_identity \<Rightarrow> string option" where
  "getBannerSelectionKey profile =
     map_option (\<lambda>contentId. show_int contentId @ '':'' @
       (case ppi_banner_image_id profile of None \<Rightarrow> ''auto'' | Some imageId \<Rightarrow> show_int imageId))
       (ppi_banner_content_id profile)"

text \<open>The banner that is shown and the choice that it was made for; \<open>None\<close> is the error of an overview without a profile.\<close>

definition banner_effect ::
  "public_profile_overview \<Rightarrow> rat \<Rightarrow> profile_banner_media option \<times> string option \<Rightarrow>
     (profile_banner_media option \<times> string option) option" where
  "banner_effect overview random st =
     (case pov_profile overview of
        None \<Rightarrow> None
      | Some profile \<Rightarrow>
          (let selectionKey = getBannerSelectionKey profile;
               selectionWasCleared = snd st \<noteq> None \<and> selectionKey = None;
               drawn = pickRandomFavoriteBanner overview random in
           Some
             (case getSelectedBannerMedia overview of
                Some b \<Rightarrow> Some b
              | None \<Rightarrow>
                  if selectionWasCleared then drawn
                  else (case fst st of
                          Some current \<Rightarrow> if isFavoriteBannerMedia current overview then Some current else drawn
                        | None \<Rightarrow> drawn),
              selectionKey)))"

lemma candidate_is_favorite:
  assumes "pov_banner_media overview = []" "b \<in> set (banner_candidates overview)"
  shows "isFavoriteBannerMedia b overview"
proof -
  let ?media = "concat (map favorite_media (favorite_items overview))"
  have "b \<in> snd ` set (map (\<lambda>m. (show_int (pbm_content_id m) @ '':'' @ pbm_image_url m, m)) ?media)"
    using assms map_from_entries by (fastforce simp: banner_candidates_def)
  then obtain f where "f \<in> set (favorite_items overview)" "b \<in> set (favorite_media f)" by auto
  then show ?thesis
    by (auto simp: isFavoriteBannerMedia_def list_ex_iff favorite_media_def Let_def split: if_splits)
qed

text \<open>
  A banner that was drawn stays: when the overview is fetched again unchanged, the effect keeps the banner, whatever
  the next random number is, as long as the banners are those of the favourites.
\<close>

lemma banner_stays:
  assumes "banner_effect overview r1 st = Some st1" "pov_banner_media overview = []"
    and "pickRandomFavoriteBanner overview r1 \<noteq> None"
  shows "banner_effect overview r2 st1 = Some st1"
proof -
  obtain profile where profile: "pov_profile overview = Some profile"
    using assms(1) by (auto simp: banner_effect_def split: option.splits)
  let ?key = "getBannerSelectionKey profile"
  show ?thesis
  proof (cases "getSelectedBannerMedia overview")
    case (Some b)
    with assms(1) show ?thesis by (auto simp: banner_effect_def profile Let_def)
  next
    case None
    obtain b where b: "pickRandomFavoriteBanner overview r1 = Some b" using assms(3) by auto
    then have "b \<in> set (banner_candidates overview)"
      by (auto simp: pickRandomFavoriteBanner_def None Let_def nat_less_iff split: if_splits intro!: nth_mem)
    then have "isFavoriteBannerMedia b overview" by (rule candidate_is_favorite [OF assms(2)])
    moreover have "snd st1 = ?key" "fst st1 = Some b \<or> (\<exists>c. fst st1 = Some c \<and> isFavoriteBannerMedia c overview)"
      using assms(1) by (auto simp: banner_effect_def profile None b Let_def split: option.splits if_splits)
    ultimately show ?thesis
      by (cases st1) (auto simp: banner_effect_def profile None Let_def)
  qed
qed

end
